(* ===== verification/Prelude.thy ===== *)
theory Prelude
  imports Main
    "HOL-Library.Char_ord" "HOL-Library.List_Lexorder" "HOL-Library.Product_Lexorder"
begin

text \<open>
  Shared vocabulary of the development: Go errors as values, the effectful
  operations of the program (SQL statements, clock readings, fresh identifiers) as
  state passing over a \<open>world\<close>, transactions, and the invariant calculus that every
  component uses. A SQL statement can fail: the world carries a fault plan that every
  statement consumes, so each \<open>if err != nil\<close> branch of the source is a branch here.
\<close>

section \<open>Collections of facts\<close>

named_theorems op_simps \<open>unfolding of the effect combinators\<close>
named_theorems preserves_intros \<open>rules of the invariant calculus\<close>
named_theorems scan_simps \<open>facts on table scans and updates\<close>

section \<open>Go errors\<close>

text \<open>
  \<open>ErrorText\<close> is \<open>errors.New\<close> or \<open>fmt.Errorf\<close> without a wrapped cause, \<open>ErrorWrap\<close> is
  \<open>fmt.Errorf("label: %w", err)\<close>, \<open>ErrSentinel\<close> a package-level error value that the code
  tests with \<open>errors.Is\<close>, \<open>ErrNoRows\<close> is \<open>sql.ErrNoRows\<close>. \<open>ErrConstraint\<close> and
  \<open>ErrDriver\<close> come from the SQL driver: a violated constraint, or any other failure of a
  statement (with the driver's text).
\<close>

datatype error =
    ErrorText string
  | ErrorWrap string error
  | ErrSentinel string
  | ErrNoRows
  | ErrConstraint string
  | ErrDriver string

fun error_is :: "error \<Rightarrow> error \<Rightarrow> bool" where
  "error_is (ErrorWrap l e) t = (ErrorWrap l e = t \<or> error_is e t)"
| "error_is e t = (e = t)"

fun error_message :: "error \<Rightarrow> string" where
  "error_message (ErrorText s) = s"
| "error_message (ErrorWrap l e) = l @ '': '' @ error_message e"
| "error_message (ErrSentinel s) = s"
| "error_message ErrNoRows = ''sql: no rows in result set''"
| "error_message (ErrConstraint s) = s"
| "error_message (ErrDriver s) = s"

lemma error_is_refl [simp]: "error_is e e"
  by (cases e) simp_all

section \<open>The world and its operations\<close>

text \<open>
  \<open>w_db\<close> is the state the operations act on, \<open>w_faults\<close> the fault plan (\<open>Some msg\<close>:
  the next statement fails with the driver's \<open>msg\<close>; an exhausted plan means no more
  faults), \<open>w_uuid\<close> the identifier source (\<open>None\<close>: it reports an error) read at
  position \<open>w_ids\<close>, and \<open>w_clock\<close> the wall clock read at position \<open>w_tick\<close>.
\<close>

record 'db world =
  w_db :: 'db
  w_faults :: "string option list"
  w_uuid :: "nat \<Rightarrow> string option"
  w_ids :: nat
  w_clock :: "nat \<Rightarrow> int"
  w_tick :: nat

type_synonym ('db, 'a) op = "'db world \<Rightarrow> (error + 'a) \<times> 'db world"

definition ret :: "'a \<Rightarrow> ('db, 'a) op" where
  "ret a w = (Inr a, w)"

definition throw :: "error \<Rightarrow> ('db, 'a) op" where
  "throw e w = (Inl e, w)"

definition bindE :: "('db, 'a) op \<Rightarrow> ('a \<Rightarrow> ('db, 'b) op) \<Rightarrow> ('db, 'b) op" where
  "bindE m f w = (case m w of (Inl e, w') \<Rightarrow> (Inl e, w') | (Inr a, w') \<Rightarrow> f a w')"

definition wrapE :: "string \<Rightarrow> ('db, 'a) op \<Rightarrow> ('db, 'a) op" where
  "wrapE l m w = (case m w of (Inl e, w') \<Rightarrow> (Inl (ErrorWrap l e), w') | (Inr a, w') \<Rightarrow> (Inr a, w'))"

text \<open>\<open>handleE m h\<close> runs \<open>h\<close> on the error of \<open>m\<close>: an \<open>if err != nil\<close> that does more than return.\<close>

definition handleE :: "('db, 'a) op \<Rightarrow> (error \<Rightarrow> ('db, 'a) op) \<Rightarrow> ('db, 'a) op" where
  "handleE m h w = (case m w of (Inl e, w') \<Rightarrow> h e w' | (Inr a, w') \<Rightarrow> (Inr a, w'))"

definition checkE :: "bool \<Rightarrow> error \<Rightarrow> ('db, unit) op" where
  "checkE b e = (if b then ret () else throw e)"

text \<open>One SQL statement: it may hit the fault plan, it may be refused, or it changes the database.\<close>

definition statement :: "('db \<Rightarrow> error + ('a \<times> 'db)) \<Rightarrow> ('db, 'a) op" where
  "statement f w =
     (case w_faults w of
        Some msg # fs \<Rightarrow> (Inl (ErrDriver msg), w\<lparr>w_faults := fs\<rparr>)
      | fs \<Rightarrow> (case f (w_db w) of
                 Inl e \<Rightarrow> (Inl e, w\<lparr>w_faults := tl fs\<rparr>)
               | Inr (a, d) \<Rightarrow> (Inr a, w\<lparr>w_faults := tl fs, w_db := d\<rparr>)))"

definition query :: "('db \<Rightarrow> 'a) \<Rightarrow> ('db, 'a) op" where
  "query f = statement (\<lambda>d. Inr (f d, d))"

definition modify :: "('db \<Rightarrow> 'db) \<Rightarrow> ('db, unit) op" where
  "modify f = statement (\<lambda>d. Inr ((), f d))"

text \<open>\<open>in_tx\<close> is \<open>BeginTx \<dots> defer Rollback \<dots> Commit\<close>: an error anywhere restores the database.\<close>

definition in_tx :: "string \<Rightarrow> string \<Rightarrow> ('db, 'a) op \<Rightarrow> ('db, 'a) op" where
  "in_tx lb lc m w =
     (case bindE (wrapE lb (query (\<lambda>_. ())))
            (\<lambda>_. bindE m (\<lambda>a. bindE (wrapE lc (query (\<lambda>_. ()))) (\<lambda>_. ret a))) w of
        (Inl e, w') \<Rightarrow> (Inl e, w'\<lparr>w_db := w_db w\<rparr>)
      | (Inr a, w') \<Rightarrow> (Inr a, w'))"

text \<open>
  \<open>in_tx_early\<close> is a transaction that may return early, before \<open>Commit\<close>: the deferred rollback
  then undoes it (\<open>Inl\<close>: the early result, \<open>Inr\<close>: the result to commit).
\<close>

definition in_tx_early :: "string \<Rightarrow> string \<Rightarrow> ('db, 'a + 'a) op \<Rightarrow> ('db, 'a) op" where
  "in_tx_early lb lc m w =
     (case bindE (wrapE lb (query (\<lambda>_. ()))) (\<lambda>_. m) w of
        (Inl e, w') \<Rightarrow> (Inl e, w'\<lparr>w_db := w_db w\<rparr>)
      | (Inr (Inl a), w') \<Rightarrow> (Inr a, w'\<lparr>w_db := w_db w\<rparr>)
      | (Inr (Inr a), w') \<Rightarrow>
          (case wrapE lc (query (\<lambda>_. ())) w' of
             (Inl e, w'') \<Rightarrow> (Inl e, w''\<lparr>w_db := w_db w\<rparr>)
           | (Inr _, w'') \<Rightarrow> (Inr a, w'')))"

definition now_op :: "('db, int) op" where
  "now_op w = (Inr (w_clock w (w_tick w)), w\<lparr>w_tick := Suc (w_tick w)\<rparr>)"

text \<open>A \<open>for\<close> loop whose body may fail.\<close>

fun forE :: "'a list \<Rightarrow> ('a \<Rightarrow> ('db, unit) op) \<Rightarrow> ('db, unit) op" where
  "forE [] f = ret ()"
| "forE (x # xs) f = bindE (f x) (\<lambda>_. forE xs f)"

fun mapE :: "('a \<Rightarrow> ('db, 'b) op) \<Rightarrow> 'a list \<Rightarrow> ('db, 'b list) op" where
  "mapE f [] = ret []"
| "mapE f (x # xs) = bindE (f x) (\<lambda>y. bindE (mapE f xs) (\<lambda>ys. ret (y # ys)))"

fun foldE :: "('s \<Rightarrow> 'a \<Rightarrow> ('db, 's) op) \<Rightarrow> 's \<Rightarrow> 'a list \<Rightarrow> ('db, 's) op" where
  "foldE f s [] = ret s"
| "foldE f s (x # xs) = bindE (f s x) (\<lambda>s'. foldE f s' xs)"

declare ret_def [op_simps] throw_def [op_simps] bindE_def [op_simps] wrapE_def [op_simps]
  handleE_def [op_simps] checkE_def [op_simps] statement_def [op_simps] query_def [op_simps]
  modify_def [op_simps] now_op_def [op_simps]

lemma bindE_ret [simp]: "bindE (ret a) f = f a"
  by (simp add: fun_eq_iff op_simps)

lemma bindE_throw [simp]: "bindE (throw e) f = throw e"
  by (simp add: fun_eq_iff op_simps)

lemma bindE_assoc: "bindE (bindE m f) g = bindE m (\<lambda>a. bindE (f a) g)"
  by (auto simp: fun_eq_iff op_simps split: sum.splits prod.splits)

lemma bindE_Inl: "bindE m f w = (Inl e, w') \<longleftrightarrow>
    m w = (Inl e, w') \<or> (\<exists>a w1. m w = (Inr a, w1) \<and> f a w1 = (Inl e, w'))"
  by (auto simp: bindE_def split: prod.splits sum.splits)

lemma bindE_Inr: "bindE m f w = (Inr b, w') \<longleftrightarrow> (\<exists>a w1. m w = (Inr a, w1) \<and> f a w1 = (Inr b, w'))"
  by (auto simp: bindE_def split: prod.splits sum.splits)

lemma wrapE_Inr: "wrapE l m w = (Inr b, w') \<longleftrightarrow> m w = (Inr b, w')"
  by (auto simp: wrapE_def split: prod.splits sum.splits)

lemma wrapE_Inl: "wrapE l m w = (Inl e, w') \<longleftrightarrow> (\<exists>e0. m w = (Inl e0, w') \<and> e = ErrorWrap l e0)"
  by (auto simp: wrapE_def split: prod.splits sum.splits)

lemma ret_Inr: "ret a w = (Inr b, w') \<longleftrightarrow> b = a \<and> w' = w"
  by (auto simp: ret_def)

lemma ret_Inl: "ret a w = (Inl e, w') \<longleftrightarrow> False"
  by (auto simp: ret_def)

lemma throw_Inr: "throw e w = (Inr b, w') \<longleftrightarrow> False"
  by (auto simp: throw_def)

lemma throw_Inl: "throw e w = (Inl e', w') \<longleftrightarrow> e' = e \<and> w' = w"
  by (auto simp: throw_def)

lemma checkE_Inr: "checkE b e w = (Inr u, w') \<longleftrightarrow> b \<and> w' = w"
  by (auto simp: checkE_def ret_def throw_def)

lemma query_Inr_db: "query f w = (Inr a, w') \<Longrightarrow> a = f (w_db w) \<and> w_db w' = w_db w"
  by (auto simp: query_def statement_def split: list.splits option.splits)

lemma query_db [simp]: "w_db (snd (query f w)) = w_db w"
  by (auto simp: query_def statement_def split: list.splits option.splits)

lemma statement_Inr_db: "statement f w = (Inr a, w') \<Longrightarrow> f (w_db w) = Inr (a, w_db w')"
  by (auto simp: statement_def split: list.splits option.splits sum.splits)

lemma statement_Inl_db: "statement f w = (Inl e, w') \<Longrightarrow> w_db w' = w_db w"
  by (auto simp: statement_def split: list.splits option.splits sum.splits)

lemma modify_Inr_db: "modify f w = (Inr a, w') \<Longrightarrow> w_db w' = f (w_db w)"
  unfolding modify_def by (drule statement_Inr_db) simp

lemma now_op_Inr: "now_op w = (Inr t, w') \<longleftrightarrow>
    t = w_clock w (w_tick w) \<and> w' = w\<lparr>w_tick := Suc (w_tick w)\<rparr>"
  by (auto simp: now_op_def)

lemmas op_results = bindE_Inr wrapE_Inr ret_Inr ret_Inl throw_Inr throw_Inl checkE_Inr now_op_Inr

section \<open>Atomicity of transactions\<close>

lemma in_tx_error_db:
  "in_tx lb lc m w = (Inl e, w') \<Longrightarrow> w_db w' = w_db w"
  by (auto simp: in_tx_def split: prod.splits sum.splits)

lemma in_tx_Inr_db:
  assumes "in_tx lb lc m w = (Inr a, w')"
  obtains w1 w2 where "w_db w1 = w_db w" and "m w1 = (Inr a, w2)" and "w_db w' = w_db w2"
proof -
  from assms have "bindE (wrapE lb (query (\<lambda>_. ())))
            (\<lambda>_. bindE m (\<lambda>a. bindE (wrapE lc (query (\<lambda>_. ()))) (\<lambda>_. ret a))) w = (Inr a, w')"
    by (auto simp: in_tx_def split: prod.splits sum.splits)
  then obtain u w1 u' w2 where
    "query (\<lambda>_. ()) w = (Inr u, w1)" "m w1 = (Inr a, w2)" "query (\<lambda>_. ()) w2 = (Inr u', w')"
    by (auto simp: op_results)
  then show thesis
    by (intro that [of w1 w2]) (auto dest: query_Inr_db)
qed

lemma in_tx_early_error_db: "in_tx_early lb lc m w = (Inl e, w') \<Longrightarrow> w_db w' = w_db w"
  by (auto simp: in_tx_early_def split: prod.splits sum.splits)

lemma in_tx_early_Inr_db:
  assumes "in_tx_early lb lc m w = (Inr a, w')"
  obtains w1 w2 where "w_db w1 = w_db w" and "m w1 = (Inr (Inl a), w2)" and "w_db w' = w_db w"
  | w1 w2 where "w_db w1 = w_db w" and "m w1 = (Inr (Inr a), w2)" and "w_db w' = w_db w2"
proof (cases "bindE (wrapE lb (query (\<lambda>_. ()))) (\<lambda>_. m) w")
  case (Pair r w2)
  with assms obtain b where r: "r = Inr b" by (cases r) (auto simp: in_tx_early_def)
  with Pair obtain w1 where w1: "m w1 = (Inr b, w2)" "w_db w1 = w_db w"
    by (auto simp: bindE_Inr wrapE_Inr dest!: query_Inr_db)
  show thesis
  proof (cases b)
    case (Inl x)
    with assms Pair r have "x = a" "w_db w' = w_db w" by (auto simp: in_tx_early_def)
    with w1 Inl show thesis by (intro that(1)) auto
  next
    case (Inr x)
    with assms Pair r have "x = a" "w_db w' = w_db w2"
      by (auto simp: in_tx_early_def wrapE_def split: prod.splits sum.splits dest: query_Inr_db)
    with w1 Inr show thesis by (intro that(2)) auto
  qed
qed

section \<open>The invariant calculus\<close>

text \<open>\<open>preserves P m\<close>: whatever the fault plan, \<open>m\<close> keeps \<open>P\<close> of the database.\<close>

definition preserves :: "('db \<Rightarrow> bool) \<Rightarrow> ('db, 'a) op \<Rightarrow> bool" where
  "preserves P m \<longleftrightarrow> (\<forall>w. P (w_db w) \<longrightarrow> P (w_db (snd (m w))))"

lemma preservesD: "preserves P m \<Longrightarrow> P (w_db w) \<Longrightarrow> P (w_db (snd (m w)))"
  by (auto simp: preserves_def)

lemma preserves_ret [preserves_intros]: "preserves P (ret a)"
  by (simp add: preserves_def ret_def)

lemma preserves_throw [preserves_intros]: "preserves P (throw e)"
  by (simp add: preserves_def throw_def)

lemma preserves_now [preserves_intros]: "preserves P now_op"
  by (simp add: preserves_def now_op_def)

lemma preserves_bindE [preserves_intros]:
  "preserves P m \<Longrightarrow> (\<And>a. preserves P (f a)) \<Longrightarrow> preserves P (bindE m f)"
  unfolding preserves_def bindE_def by (force split: prod.splits sum.splits)

lemma preserves_wrapE [preserves_intros]: "preserves P m \<Longrightarrow> preserves P (wrapE l m)"
  unfolding preserves_def wrapE_def by (force split: prod.splits sum.splits)

lemma preserves_handleE [preserves_intros]:
  "preserves P m \<Longrightarrow> (\<And>e. preserves P (h e)) \<Longrightarrow> preserves P (handleE m h)"
  unfolding preserves_def handleE_def by (force split: prod.splits sum.splits)

lemma preserves_checkE [preserves_intros]: "preserves P (checkE b e)"
  by (simp add: preserves_def checkE_def ret_def throw_def)

lemma preserves_query [preserves_intros]: "preserves P (query f)"
  by (simp add: preserves_def)

lemma preserves_statement [preserves_intros]:
  "(\<And>d a d'. P d \<Longrightarrow> f d = Inr (a, d') \<Longrightarrow> P d') \<Longrightarrow> preserves P (statement f)"
  unfolding preserves_def statement_def
  by (force split: list.splits option.splits sum.splits)

lemma preserves_modify [preserves_intros]:
  "(\<And>d. P d \<Longrightarrow> P (f d)) \<Longrightarrow> preserves P (modify f)"
  unfolding modify_def by (rule preserves_statement) auto

lemma preserves_forE [preserves_intros]:
  "(\<And>x. preserves P (f x)) \<Longrightarrow> preserves P (forE xs f)"
  by (induction xs) (auto intro: preserves_intros)

lemma preserves_mapE [preserves_intros]:
  "(\<And>x. preserves P (f x)) \<Longrightarrow> preserves P (mapE f xs)"
  by (induction xs) (auto intro!: preserves_intros)

lemma preserves_foldE [preserves_intros]:
  "(\<And>s x. preserves P (f s x)) \<Longrightarrow> preserves P (foldE f s xs)"
  by (induction xs arbitrary: s) (auto intro!: preserves_intros)

lemma preserves_in_tx [preserves_intros]:
  assumes "preserves P m"
  shows "preserves P (in_tx lb lc m)"
proof -
  have "preserves P (bindE (wrapE lb (query (\<lambda>_. ())))
            (\<lambda>_. bindE m (\<lambda>a. bindE (wrapE lc (query (\<lambda>_. ()))) (\<lambda>_. ret a))))"
    by (intro preserves_intros assms)
  then show ?thesis
    unfolding preserves_def in_tx_def by (force split: prod.splits sum.splits)
qed

lemma preserves_in_tx_early [preserves_intros]:
  assumes "preserves P m"
  shows "preserves P (in_tx_early lb lc m)"
  unfolding preserves_def
proof (intro allI impI)
  fix w :: "'a world"
  assume P: "P (w_db w)"
  show "P (w_db (snd (in_tx_early lb lc m w)))"
  proof (cases "in_tx_early lb lc m w")
    case (Pair r w')
    show ?thesis
    proof (cases r)
      case (Inl e)
      with Pair P show ?thesis by (simp add: in_tx_early_error_db)
    next
      case (Inr a)
      with Pair have run: "in_tx_early lb lc m w = (Inr a, w')" by simp
      then show ?thesis
      proof (rule in_tx_early_Inr_db)
        show ?thesis if "w_db w' = w_db w" using that P Pair by simp
        show ?thesis if "w_db w1 = w_db w" "m w1 = (Inr (Inr a), w2)" "w_db w' = w_db w2" for w1 w2
          using that P Pair preservesD [OF assms, of w1] by simp
      qed
    qed
  qed
qed

lemma preserves_if [preserves_intros]:
  "(b \<Longrightarrow> preserves P m) \<Longrightarrow> (\<not> b \<Longrightarrow> preserves P n) \<Longrightarrow> preserves P (if b then m else n)"
  by simp

lemma preserves_case_option [preserves_intros]:
  "(x = None \<Longrightarrow> preserves P m) \<Longrightarrow> (\<And>a. x = Some a \<Longrightarrow> preserves P (f a)) \<Longrightarrow>
   preserves P (case x of None \<Rightarrow> m | Some a \<Rightarrow> f a)"
  by (cases x) simp_all

lemma preserves_case_sum [preserves_intros]:
  "(\<And>a. x = Inl a \<Longrightarrow> preserves P (f a)) \<Longrightarrow> (\<And>b. x = Inr b \<Longrightarrow> preserves P (g b)) \<Longrightarrow>
   preserves P (case x of Inl a \<Rightarrow> f a | Inr b \<Rightarrow> g b)"
  by (cases x) simp_all

lemma preserves_case_prod [preserves_intros]:
  "(\<And>a b. x = (a, b) \<Longrightarrow> preserves P (f a b)) \<Longrightarrow> preserves P (case x of (a, b) \<Rightarrow> f a b)"
  by (cases x) simp_all

section \<open>Verification conditions\<close>

text \<open>
  \<open>guarantees m Q E d\<close>: run from database \<open>d\<close> under any fault plan, identifiers and clock,
  \<open>m\<close> either succeeds with a result and a database that satisfy \<open>Q\<close>, or fails with a
  database that satisfies \<open>E\<close>. The rules reduce a program to conditions on the database.
\<close>

named_theorems vcg \<open>rules of the verification condition generator\<close>

definition guarantees :: "('db, 'a) op \<Rightarrow> ('a \<Rightarrow> 'db \<Rightarrow> bool) \<Rightarrow> ('db \<Rightarrow> bool) \<Rightarrow> 'db \<Rightarrow> bool" where
  "guarantees m Q E d \<longleftrightarrow>
     (\<forall>w. w_db w = d \<longrightarrow> (case m w of (Inl e, w') \<Rightarrow> E (w_db w') | (Inr a, w') \<Rightarrow> Q a (w_db w')))"

lemma guaranteesI:
  assumes "\<And>w e w'. w_db w = d \<Longrightarrow> m w = (Inl e, w') \<Longrightarrow> E (w_db w')"
    and "\<And>w a w'. w_db w = d \<Longrightarrow> m w = (Inr a, w') \<Longrightarrow> Q a (w_db w')"
  shows "guarantees m Q E d"
  using assms by (auto simp: guarantees_def split: prod.split sum.split)

lemma guaranteesD:
  assumes "guarantees m Q E (w_db w)"
  shows "m w = (Inl e, w') \<Longrightarrow> E (w_db w')" "m w = (Inr a, w') \<Longrightarrow> Q a (w_db w')"
proof -
  note cases = assms [unfolded guarantees_def, rule_format, OF refl]
  show "m w = (Inl e, w') \<Longrightarrow> E (w_db w')" "m w = (Inr a, w') \<Longrightarrow> Q a (w_db w')"
    using cases by simp_all
qed

lemma guarantees_mono:
  "guarantees m Q E d \<Longrightarrow> (\<And>a d'. Q a d' \<Longrightarrow> Q' a d') \<Longrightarrow> (\<And>d'. E d' \<Longrightarrow> E' d') \<Longrightarrow> guarantees m Q' E' d"
  by (rule guaranteesI) (auto dest: guaranteesD)

lemma preserves_guarantees:
  "preserves P m \<longleftrightarrow> (\<forall>d. P d \<longrightarrow> guarantees m (\<lambda>_. P) P d)"
  unfolding preserves_def guarantees_def by (fastforce split: prod.splits sum.splits)

lemma guarantees_ret [vcg]: "Q a d \<Longrightarrow> guarantees (ret a) Q E d"
  by (rule guaranteesI) (auto simp: ret_def)

lemma guarantees_throw [vcg]: "E d \<Longrightarrow> guarantees (throw e) Q E d"
  by (rule guaranteesI) (auto simp: throw_def)

lemma guarantees_bindE [vcg]:
  assumes "guarantees m (\<lambda>a d'. guarantees (f a) Q E d') E d"
  shows "guarantees (bindE m f) Q E d"
  by (rule guaranteesI) (use assms in \<open>auto simp: bindE_Inl bindE_Inr dest: guaranteesD\<close>)

lemma guarantees_wrapE [vcg]: "guarantees m Q E d \<Longrightarrow> guarantees (wrapE l m) Q E d"
  by (rule guaranteesI) (auto simp: wrapE_Inl wrapE_Inr dest: guaranteesD)

lemma guarantees_checkE [vcg]: "(b \<Longrightarrow> Q () d) \<Longrightarrow> (\<not> b \<Longrightarrow> E d) \<Longrightarrow> guarantees (checkE b e) Q E d"
  by (rule guaranteesI) (auto simp: checkE_def ret_def throw_def split: if_splits)

lemma guarantees_now [vcg]: "(\<And>t. Q t d) \<Longrightarrow> guarantees now_op Q E d"
  by (rule guaranteesI) (auto simp: now_op_def)

lemma guarantees_statement [vcg]:
  "E d \<Longrightarrow> (\<And>a d'. f d = Inr (a, d') \<Longrightarrow> Q a d') \<Longrightarrow> guarantees (statement f) Q E d"
  by (rule guaranteesI) (auto dest: statement_Inr_db statement_Inl_db)

lemma guarantees_query [vcg]: "E d \<Longrightarrow> Q (f d) d \<Longrightarrow> guarantees (query f) Q E d"
  unfolding query_def by (rule guarantees_statement) auto

lemma guarantees_modify [vcg]: "E d \<Longrightarrow> Q () (f d) \<Longrightarrow> guarantees (modify f) Q E d"
  unfolding modify_def by (rule guarantees_statement) auto

lemma guarantees_if [vcg]:
  "(b \<Longrightarrow> guarantees m Q E d) \<Longrightarrow> (\<not> b \<Longrightarrow> guarantees n Q E d) \<Longrightarrow>
   guarantees (if b then m else n) Q E d"
  by simp

lemma guarantees_option [vcg]:
  "(x = None \<Longrightarrow> guarantees m Q E d) \<Longrightarrow> (\<And>a. x = Some a \<Longrightarrow> guarantees (f a) Q E d) \<Longrightarrow>
   guarantees (case x of None \<Rightarrow> m | Some a \<Rightarrow> f a) Q E d"
  by (cases x) simp_all

lemma guarantees_sum [vcg]:
  "(\<And>a. x = Inl a \<Longrightarrow> guarantees (f a) Q E d) \<Longrightarrow> (\<And>b. x = Inr b \<Longrightarrow> guarantees (g b) Q E d) \<Longrightarrow>
   guarantees (case x of Inl a \<Rightarrow> f a | Inr b \<Rightarrow> g b) Q E d"
  by (cases x) simp_all

lemma guarantees_prod [vcg]:
  "(\<And>a b. x = (a, b) \<Longrightarrow> guarantees (f a b) Q E d) \<Longrightarrow> guarantees (case x of (a, b) \<Rightarrow> f a b) Q E d"
  by (cases x) simp_all

text \<open>A loop needs an invariant; a transaction only has to be right when it commits.\<close>

lemma guarantees_forE:
  assumes "\<And>x d. x \<in> set xs \<Longrightarrow> I d \<Longrightarrow> guarantees (f x) (\<lambda>_. I) E d" and "I d"
    and "\<And>d. I d \<Longrightarrow> Q () d"
  shows "guarantees (forE xs f) Q E d"
  using assms(1,2)
proof (induction xs arbitrary: d)
  case Nil
  then show ?case by (auto intro!: vcg assms(3))
next
  case (Cons x xs)
  then show ?case by (auto intro!: vcg intro: guarantees_mono)
qed

lemma guarantees_mapE:
  assumes "\<And>x d. x \<in> set xs \<Longrightarrow> I d \<Longrightarrow> guarantees (f x) (\<lambda>_. I) E d" and "I d"
    and "\<And>ys d. I d \<Longrightarrow> length ys = length xs \<Longrightarrow> Q ys d"
  shows "guarantees (mapE f xs) Q E d"
  using assms
proof (induction xs arbitrary: d Q)
  case Nil
  then show ?case by (auto intro!: vcg)
next
  case (Cons x xs)
  show ?case
    by (auto intro!: vcg guarantees_mono [OF Cons.prems(1)] Cons.IH Cons.prems)
qed

lemma guarantees_foldE:
  assumes "\<And>s x d. x \<in> set xs \<Longrightarrow> I s d \<Longrightarrow> guarantees (f s x) I E d" and "I s d"
    and "\<And>s d. I s d \<Longrightarrow> Q s d"
  shows "guarantees (foldE f s xs) Q E d"
  using assms(1,2)
proof (induction xs arbitrary: s d)
  case Nil
  then show ?case by (auto intro!: vcg assms(3))
next
  case (Cons x xs)
  have "guarantees (f s x) I E d" using Cons.prems by simp
  then have "guarantees (f s x) (\<lambda>s'. guarantees (foldE f s' xs) Q E) E d"
    by (rule guarantees_mono) (use Cons in simp_all)
  then show ?case by (auto intro!: vcg)
qed

lemma guarantees_mapE_rows:
  assumes "\<And>x. x \<in> set xs \<Longrightarrow> guarantees (f x) (\<lambda>y d'. d' = d \<and> P x y) (\<lambda>d'. d' = d) d"
    and "E d" and "\<And>ys. list_all2 P xs ys \<Longrightarrow> Q ys d"
  shows "guarantees (mapE f xs) Q E d"
  using assms
proof (induction xs arbitrary: Q)
  case Nil
  then show ?case by (auto intro!: vcg)
next
  case (Cons x xs)
  have "guarantees (mapE f xs) (\<lambda>ys d'. Q (y # ys) d') E d" if "P x y" for y
    using Cons.prems that by (intro Cons.IH) auto
  then show ?case
    using Cons.prems(1) [of x] Cons.prems(2)
    by (auto intro!: vcg elim!: guarantees_mono intro: guarantees_mono)
qed

lemma guarantees_in_tx [vcg]:
  assumes "guarantees m Q (\<lambda>_. True) d" and "E d"
  shows "guarantees (in_tx lb lc m) Q E d"
proof (rule guaranteesI)
  fix w e w'
  assume "w_db w = d" "in_tx lb lc m w = (Inl e, w')"
  with assms(2) show "E (w_db w')" by (simp add: in_tx_error_db)
next
  fix w a w'
  assume w: "w_db w = d" "in_tx lb lc m w = (Inr a, w')"
  from w(2) obtain w1 w2 where "w_db w1 = w_db w" "m w1 = (Inr a, w2)" "w_db w' = w_db w2"
    by (rule in_tx_Inr_db)
  with assms(1) w(1) guaranteesD(2) [of m Q "\<lambda>_. True" w1 a w2] show "Q a (w_db w')" by simp
qed

lemma guarantees_in_tx_early [vcg]:
  assumes "guarantees m (\<lambda>r d'. case r of Inl a \<Rightarrow> Q a d | Inr a \<Rightarrow> Q a d') (\<lambda>_. True) d" and "E d"
  shows "guarantees (in_tx_early lb lc m) Q E d"
proof (rule guaranteesI)
  fix w e w'
  assume "w_db w = d" "in_tx_early lb lc m w = (Inl e, w')"
  with assms(2) show "E (w_db w')" by (simp add: in_tx_early_error_db)
next
  fix w a w'
  assume w: "w_db w = d" "in_tx_early lb lc m w = (Inr a, w')"
  from w(2) show "Q a (w_db w')"
  proof (rule in_tx_early_Inr_db)
    show "Q a (w_db w')" if "w_db w1 = w_db w" "m w1 = (Inr (Inl a), w2)" "w_db w' = w_db w" for w1 w2
      using guaranteesD(2) [of m _ _ w1 "Inl a" w2] assms(1) that w(1) by fastforce
    show "Q a (w_db w')" if "w_db w1 = w_db w" "m w1 = (Inr (Inr a), w2)" "w_db w' = w_db w2" for w1 w2
      using guaranteesD(2) [of m _ _ w1 "Inr a" w2] assms(1) that w(1) by fastforce
  qed
qed

section \<open>Tables\<close>

text \<open>
  A table is its list of rows in insertion order. \<open>update_where\<close> is a SQL \<open>UPDATE\<close>
  (its result is the number of affected rows), \<open>find_by\<close> a primary-key lookup,
  \<open>upsert_by\<close> is \<open>INSERT \<dots> ON CONFLICT DO UPDATE\<close> on that key.
\<close>

definition update_where :: "('r \<Rightarrow> bool) \<Rightarrow> ('r \<Rightarrow> 'r) \<Rightarrow> 'r list \<Rightarrow> 'r list" where
  "update_where c f rows = map (\<lambda>r. if c r then f r else r) rows"

definition count_where :: "('r \<Rightarrow> bool) \<Rightarrow> 'r list \<Rightarrow> nat" where
  "count_where c rows = length (filter c rows)"

definition find_by :: "('r \<Rightarrow> 'k) \<Rightarrow> 'k \<Rightarrow> 'r list \<Rightarrow> 'r option" where
  "find_by key k rows = find (\<lambda>r. key r = k) rows"

definition insert_row :: "('r \<Rightarrow> 'k) \<Rightarrow> 'r \<Rightarrow> 'r list \<Rightarrow> 'r list option" where
  "insert_row key r rows = (if find_by key (key r) rows = None then Some (rows @ [r]) else None)"

definition upsert_by :: "('r \<Rightarrow> 'k) \<Rightarrow> ('r \<Rightarrow> 'r) \<Rightarrow> 'r \<Rightarrow> 'r list \<Rightarrow> 'r list" where
  "upsert_by key merge r rows =
     (if find_by key (key r) rows = None then rows @ [r]
      else update_where (\<lambda>x. key x = key r) merge rows)"

lemma set_update_where [scan_simps]:
  "set (update_where c f rows) = (\<lambda>r. if c r then f r else r) ` set rows"
  by (simp add: update_where_def)

lemma length_update_where [scan_simps]: "length (update_where c f rows) = length rows"
  by (simp add: update_where_def)

lemma map_update_where_same [scan_simps]:
  "(\<And>r. c r \<Longrightarrow> g (f r) = g r) \<Longrightarrow> map g (update_where c f rows) = map g rows"
  by (simp add: update_where_def)

lemma update_where_none: "count_where c rows = 0 \<Longrightarrow> update_where c f rows = rows"
  unfolding count_where_def update_where_def by (induction rows) (auto split: if_splits)

lemma find_by_Some: "find_by key k rows = Some r \<Longrightarrow> r \<in> set rows \<and> key r = k"
  by (auto simp: find_by_def find_Some_iff)

lemma find_by_None [scan_simps]: "find_by key k rows = None \<longleftrightarrow> k \<notin> key ` set rows"
  by (auto simp: find_by_def find_None_iff)

lemma find_by_append [scan_simps]:
  "find_by key k (xs @ ys) = (case find_by key k xs of None \<Rightarrow> find_by key k ys | Some r \<Rightarrow> Some r)"
  by (induction xs) (auto simp: find_by_def)

lemma find_by_single [simp]: "find_by key k [r] = (if key r = k then Some r else None)"
  by (simp add: find_by_def)

lemma find_by_unique:
  "distinct (map key rows) \<Longrightarrow> r \<in> set rows \<Longrightarrow> find_by key (key r) rows = Some r"
  by (induction rows) (auto simp: find_by_def)

lemma find_by_update_where:
  assumes "\<And>r. c r \<Longrightarrow> key (f r) = key r"
  shows "find_by key k (update_where c f rows) =
    map_option (\<lambda>r. if c r then f r else r) (find_by key k rows)"
  using assms by (induction rows) (auto simp: find_by_def update_where_def)

lemma insert_row_Some:
  "insert_row key r rows = Some rows' \<longleftrightarrow> key r \<notin> key ` set rows \<and> rows' = rows @ [r]"
  by (auto simp: insert_row_def scan_simps)

lemma insert_row_distinct:
  "insert_row key r rows = Some rows' \<Longrightarrow> distinct (map key rows) \<Longrightarrow> distinct (map key rows')"
  by (auto simp: insert_row_Some)

lemma find_by_insert_row:
  "insert_row key r rows = Some rows' \<Longrightarrow>
   find_by key k rows' = (if k = key r then Some r else find_by key k rows)"
  by (auto simp: insert_row_def find_by_append split: option.splits if_splits)

lemma find_by_upsert:
  assumes "\<And>x. key x = key r \<Longrightarrow> key (merge x) = key r"
  shows "find_by key k (upsert_by key merge r rows) =
    (if k = key r then (case find_by key k rows of None \<Rightarrow> Some r | Some x \<Rightarrow> Some (merge x))
     else find_by key k rows)"
proof (cases "find_by key (key r) rows")
  case None
  then show ?thesis
    by (auto simp: upsert_by_def find_by_append split: option.splits)
next
  case (Some x)
  have "find_by key k (update_where (\<lambda>x. key x = key r) merge rows) =
      map_option (\<lambda>x. if key x = key r then merge x else x) (find_by key k rows)"
    by (rule find_by_update_where) (simp add: assms)
  with Some show ?thesis
    by (cases "find_by key k rows") (auto simp: upsert_by_def dest: find_by_Some)
qed

lemma upsert_distinct:
  assumes "\<And>x. key x = key r \<Longrightarrow> key (merge x) = key r" and "distinct (map key rows)"
  shows "distinct (map key (upsert_by key merge r rows))"
proof (cases "find_by key (key r) rows")
  case None
  with assms(2) show ?thesis by (auto simp: upsert_by_def scan_simps)
next
  case (Some x)
  have "map key (update_where (\<lambda>x. key x = key r) merge rows) = map key rows"
    by (rule map_update_where_same) (simp add: assms(1))
  with Some assms(2) show ?thesis by (simp add: upsert_by_def)
qed

section \<open>Interfaces\<close>

text \<open>
  An event-sourced machine: \<open>step\<close> answers with the next state and whether the event was
  accepted. Its contract is an invariant and a set of final states in which nothing is
  accepted; the client lemmas are about whole runs.
\<close>

locale guarded_machine =
  fixes step :: "'s \<Rightarrow> 'e \<Rightarrow> 's \<times> bool"
    and inv :: "'s \<Rightarrow> bool"
    and final :: "'s \<Rightarrow> bool"
  assumes step_inv: "inv s \<Longrightarrow> inv (fst (step s e))"
    and reject_same: "inv s \<Longrightarrow> \<not> snd (step s e) \<Longrightarrow> fst (step s e) = s"
    and final_stuck: "inv s \<Longrightarrow> final s \<Longrightarrow> fst (step s e) = s"
begin

lemma run_inv: "inv s \<Longrightarrow> inv (fold (\<lambda>e s. fst (step s e)) es s)"
  by (induction es arbitrary: s) (simp_all add: step_inv)

lemma run_stuck: "inv s \<Longrightarrow> final s \<Longrightarrow> fold (\<lambda>e s. fst (step s e)) es s = s"
  by (induction es arbitrary: s) (simp_all add: final_stuck)

lemma run_rejected:
  "inv s \<Longrightarrow> (\<forall>e\<in>set es. \<not> snd (step s e)) \<Longrightarrow> fold (\<lambda>e s. fst (step s e)) es s = s"
  by (induction es arbitrary: s) (simp_all add: reject_same)

end

text \<open>
  A ledger keyed by an idempotency key: what was recorded under a key stays what it was,
  whatever is recorded under other keys.
\<close>

locale keyed_ledger =
  fixes find_entry :: "'d \<Rightarrow> 'k \<Rightarrow> 'v option"
    and record_entry :: "'d \<Rightarrow> 'k \<Rightarrow> 'v \<Rightarrow> 'd option"
  assumes record_find: "record_entry d k v = Some d' \<Longrightarrow> find_entry d' k = Some v"
    and record_other: "record_entry d k v = Some d' \<Longrightarrow> k' \<noteq> k \<Longrightarrow> find_entry d' k' = find_entry d k'"
    and record_fresh: "record_entry d k v = Some d' \<Longrightarrow> find_entry d k = None"
begin

lemma entry_stable:
  assumes "find_entry d k = Some v" and "record_entry d k' v' = Some d'"
  shows "find_entry d' k = Some v"
proof -
  from assms(2) have "find_entry d k' = None" by (rule record_fresh)
  with assms(1) have "k \<noteq> k'" by auto
  with assms show ?thesis by (simp add: record_other)
qed

lemma recorded_once:
  "find_entry d k = Some v \<Longrightarrow> record_entry d k v' = None"
  using record_fresh by fastforce

end

end
