(* ===== verification/Go_Text.thy ===== *)
theory Go_Text
  imports Prelude
begin

text \<open>
  The parts of Go's \<open>strings\<close>, \<open>strconv\<close> and \<open>unicode/utf8\<close> that the program uses. A Go
  string is its bytes, so a \<open>string\<close> here is a list of byte characters; \<open>unicode.ToLower\<close>
  of non-ASCII text is a parameter (its table is not part of the program).
\<close>

abbreviation byte_val :: "char \<Rightarrow> nat" where
  "byte_val c \<equiv> of_char c"

abbreviation byte_of :: "nat \<Rightarrow> char" where
  "byte_of n \<equiv> char_of n"

section \<open>White space\<close>

text \<open>The UTF-8 encodings of the characters that \<open>unicode.IsSpace\<close> accepts.\<close>

definition space_codes :: "nat list list" where
  "space_codes = [[9], [10], [11], [12], [13], [32], [194, 133], [194, 160], [225, 154, 128],
     [226, 128, 128], [226, 128, 129], [226, 128, 130], [226, 128, 131], [226, 128, 132],
     [226, 128, 133], [226, 128, 134], [226, 128, 135], [226, 128, 136], [226, 128, 137],
     [226, 128, 138], [226, 128, 168], [226, 128, 169], [226, 128, 175], [226, 129, 159],
     [227, 128, 128]]"

definition spaces :: "string list" where
  "spaces = map (map byte_of) space_codes"

fun strip_prefix :: "string \<Rightarrow> string \<Rightarrow> string option" where
  "strip_prefix [] s = Some s"
| "strip_prefix (p # ps) [] = None"
| "strip_prefix (p # ps) (c # cs) = (if p = c then strip_prefix ps cs else None)"

fun strip_any :: "string list \<Rightarrow> string \<Rightarrow> string option" where
  "strip_any [] s = None"
| "strip_any (p # ps) s = (case strip_prefix p s of Some r \<Rightarrow> Some r | None \<Rightarrow> strip_any ps s)"

lemma strip_prefix_append: "strip_prefix p s = Some r \<longleftrightarrow> s = p @ r"
  by (induction p s rule: strip_prefix.induct) auto

lemma strip_prefix_length: "strip_prefix p s = Some r \<Longrightarrow> length s = length p + length r"
  by (simp add: strip_prefix_append)

function strip_all :: "string list \<Rightarrow> string \<Rightarrow> string" where
  "strip_all pats s =
     (case strip_any pats s of
        Some r \<Rightarrow> if length r < length s then strip_all pats r else s
      | None \<Rightarrow> s)"
  by pat_completeness auto
termination
  by (relation "measure (\<lambda>(pats, s). length s)") auto

declare strip_all.simps [simp del]

definition trimLeft :: "string \<Rightarrow> string" where
  "trimLeft s = strip_all spaces s"

definition trimRight :: "string \<Rightarrow> string" where
  "trimRight s = rev (strip_all (map rev spaces) (rev s))"

definition trimSpace :: "string \<Rightarrow> string" where
  "trimSpace s = trimRight (trimLeft s)"

lemma strip_any_Some: "strip_any pats s = Some r \<Longrightarrow> \<exists>p\<in>set pats. s = p @ r"
  by (induction pats) (auto split: option.splits simp: strip_prefix_append)

lemma strip_any_None: "strip_any pats s = None \<longleftrightarrow> (\<forall>p\<in>set pats. \<forall>r. s \<noteq> p @ r)"
  by (induction pats)
    (auto split: option.splits simp: strip_prefix_append simp flip: not_Some_eq)

lemma strip_all_stuck: "[] \<notin> set pats \<Longrightarrow> strip_any pats (strip_all pats s) = None"
proof (induction pats s rule: strip_all.induct)
  case (1 pats s)
  show ?case
  proof (cases "strip_any pats s")
    case None
    then show ?thesis by (simp add: strip_all.simps [of pats s])
  next
    case (Some r)
    then have "length r < length s"
      using strip_any_Some [OF Some] "1.prems" by fastforce
    with "1.IH" [OF Some] "1.prems" Some show ?thesis by (simp add: strip_all.simps [of pats s])
  qed
qed

lemma strip_all_id: "strip_any pats s = None \<Longrightarrow> strip_all pats s = s"
  by (simp add: strip_all.simps)

lemma strip_all_suffix: "\<exists>p. s = p @ strip_all pats s"
proof (induction pats s rule: strip_all.induct)
  case (1 pats s)
  show ?case
  proof (cases "strip_any pats s")
    case None
    then show ?thesis by (simp add: strip_all.simps [of pats s])
  next
    case (Some r)
    then obtain q where q: "s = q @ r" using strip_any_Some by blast
    show ?thesis
    proof (cases "length r < length s")
      case True
      then obtain p where "r = p @ strip_all pats r" using "1.IH" [OF Some] by blast
      with q have s: "s = (q @ p) @ strip_all pats r" by simp
      from Some True have "strip_all pats s = strip_all pats r" by (simp add: strip_all.simps [of pats s])
      with s show ?thesis by metis
    next
      case False
      with Some show ?thesis by (simp add: strip_all.simps [of pats s])
    qed
  qed
qed

lemma spaces_nonempty: "[] \<notin> set spaces" "[] \<notin> set (map rev spaces)"
  by (simp_all add: spaces_def space_codes_def)

lemma trimRight_prefix: "\<exists>q. s = trimRight s @ q"
proof -
  obtain p where "rev s = p @ strip_all (map rev spaces) (rev s)"
    using strip_all_suffix by blast
  then have "rev (rev s) = rev (p @ strip_all (map rev spaces) (rev s))"
    by (rule arg_cong)
  then have "s = trimRight s @ rev p" by (simp add: trimRight_def)
  then show ?thesis by blast
qed

lemma trimSpace_left: "strip_any spaces (trimSpace s) = None"
proof -
  have left: "strip_any spaces (trimLeft s) = None"
    using strip_all_stuck [OF spaces_nonempty(1)] by (simp add: trimLeft_def)
  obtain q where "trimLeft s = trimSpace s @ q"
    using trimRight_prefix unfolding trimSpace_def by blast
  with left show ?thesis unfolding strip_any_None by (metis append.assoc)
qed

lemma trimSpace_right: "strip_any (map rev spaces) (rev (trimSpace s)) = None"
  using strip_all_stuck [OF spaces_nonempty(2)] by (simp add: trimSpace_def trimRight_def)

lemma trimSpace_idem [simp]: "trimSpace (trimSpace s) = trimSpace s"
  using trimSpace_left [of s] trimSpace_right [of s]
  by (simp add: trimSpace_def [of "trimSpace s"] trimLeft_def trimRight_def strip_all_id)

lemma trimSpace_Nil [simp]: "trimSpace [] = []"
  by (simp add: trimSpace_def trimLeft_def trimRight_def strip_all.simps spaces_def space_codes_def)

section \<open>Case, prefixes, splitting\<close>

definition is_ascii :: "string \<Rightarrow> bool" where
  "is_ascii s = list_all (\<lambda>c. byte_val c < 128) s"

definition lower_byte :: "char \<Rightarrow> char" where
  "lower_byte c = (if 65 \<le> byte_val c \<and> byte_val c \<le> 90 then byte_of (byte_val c + 32) else c)"

definition toLower :: "(string \<Rightarrow> string) \<Rightarrow> string \<Rightarrow> string" where
  "toLower unicodeLower s = (if is_ascii s then map lower_byte s else unicodeLower s)"

definition hasPrefix :: "string \<Rightarrow> string \<Rightarrow> bool" where
  "hasPrefix s p = (strip_prefix p s \<noteq> None)"

definition trimPrefix :: "string \<Rightarrow> string \<Rightarrow> string" where
  "trimPrefix s p = (case strip_prefix p s of Some r \<Rightarrow> r | None \<Rightarrow> s)"

fun containsText :: "string \<Rightarrow> string \<Rightarrow> bool" where
  "containsText [] p = (p = [])"
| "containsText (c # cs) p = (hasPrefix (c # cs) p \<or> containsText cs p)"

fun splitOn :: "char \<Rightarrow> string \<Rightarrow> string list" where
  "splitOn d [] = [[]]"
| "splitOn d (c # cs) =
     (if c = d then [] # splitOn d cs
      else (case splitOn d cs of [] \<Rightarrow> [[c]] | x # xs \<Rightarrow> (c # x) # xs))"

fun joinText :: "string \<Rightarrow> string list \<Rightarrow> string" where
  "joinText sep [] = []"
| "joinText sep [x] = x"
| "joinText sep (x # y # xs) = x @ sep @ joinText sep (y # xs)"

lemma splitOn_nonempty: "splitOn d s \<noteq> []"
  by (cases s) (auto split: list.splits)

lemma splitOn_join: "joinText [d] (splitOn d s) = s"
proof (induction s)
  case Nil
  then show ?case by simp
next
  case (Cons c cs)
  then show ?case
    by (cases "splitOn d cs"; cases "tl (splitOn d cs)") (auto simp: splitOn_nonempty split: list.splits)
qed

lemma splitOn_segments: "x \<in> set (splitOn d s) \<Longrightarrow> d \<notin> set x"
proof (induction s arbitrary: x)
  case Nil
  then show ?case by simp
next
  case (Cons c cs)
  then show ?case
    by (cases "splitOn d cs") (auto simp: splitOn_nonempty split: if_splits)
qed

lemma splitOn_head: "hd (splitOn d s) = takeWhile (\<lambda>c. c \<noteq> d) s"
proof (induction s)
  case (Cons c cs)
  then show ?case using splitOn_nonempty [of d cs] by (cases "splitOn d cs") auto
qed simp

lemma splitOn_last: "d \<notin> set x \<Longrightarrow> splitOn d x = [x]"
  by (induction x) auto

lemma splitOn_cons: "d \<notin> set x \<Longrightarrow> splitOn d (x @ d # rest) = x # splitOn d rest"
  by (induction x) auto

lemma splitOn_joinText:
  "xs \<noteq> [] \<Longrightarrow> \<forall>x\<in>set xs. d \<notin> set x \<Longrightarrow> splitOn d (joinText [d] xs) = xs"
  by (induction "[d]" xs rule: joinText.induct) (auto simp: splitOn_last splitOn_cons)

lemma hasPrefix_iff: "hasPrefix s p \<longleftrightarrow> (\<exists>r. s = p @ r)"
  by (simp add: hasPrefix_def strip_prefix_append [symmetric])

lemma trimPrefix_append: "trimPrefix (p @ r) p = r"
proof -
  have "strip_prefix p (p @ r) = Some r" by (simp add: strip_prefix_append)
  then show ?thesis by (simp add: trimPrefix_def)
qed

text \<open>Text between visible ASCII characters is trimmed already.\<close>

definition visible_char :: "char \<Rightarrow> bool" where
  "visible_char c \<longleftrightarrow> 32 < byte_val c \<and> byte_val c < 128"

lemma spaces_invisible: "p \<in> set spaces \<Longrightarrow> \<not> visible_char (hd p) \<and> \<not> visible_char (last p)"
  by (auto simp: spaces_def space_codes_def visible_char_def)

lemma strip_visible:
  assumes "visible_char c" and "\<And>p. p \<in> set pats \<Longrightarrow> p \<noteq> [] \<and> \<not> visible_char (hd p)"
  shows "strip_all pats (c # s) = c # s"
proof -
  have "c # s \<noteq> p @ r" if "p \<in> set pats" for p r
    using assms(1) assms(2) [OF that] by (cases p) auto
  then show ?thesis by (intro strip_all_id) (simp add: strip_any_None)
qed

lemma trimSpace_visible:
  assumes "s \<noteq> []" and "visible_char (hd s)" and "visible_char (last s)"
  shows "trimSpace s = s"
proof -
  have "p \<noteq> []" if "p \<in> set spaces" for p using that spaces_nonempty(1) by metis
  then have fwd: "p \<noteq> [] \<and> \<not> visible_char (hd p)" if "p \<in> set spaces" for p
    using that spaces_invisible by blast
  have bwd: "p \<noteq> [] \<and> \<not> visible_char (hd p)" if "p \<in> set (map rev spaces)" for p
    using that spaces_invisible spaces_nonempty(1) by (auto simp: hd_rev)
  obtain c cs where s: "s = c # cs" using assms(1) by (cases s) auto
  have left: "trimLeft s = s" using strip_visible [of c spaces cs] fwd assms(2) by (simp add: trimLeft_def s)
  obtain x xs where r: "rev s = x # xs" using assms(1) by (cases "rev s") auto
  then have "visible_char x" using assms(3) by (metis hd_rev list.sel(1))
  then have "strip_all (map rev spaces) (rev s) = rev s" using strip_visible [of x "map rev spaces" xs] bwd by (simp add: r)
  with left show ?thesis by (simp add: trimSpace_def trimRight_def)
qed

lemma lower_byte_idem: "lower_byte (lower_byte c) = lower_byte c"
proof (cases "65 \<le> byte_val c \<and> byte_val c \<le> 90")
  case True
  then have "byte_val (byte_of (byte_val c + 32)) = byte_val c + 32" by simp
  with True show ?thesis by (simp add: lower_byte_def)
next
  case False
  then show ?thesis by (auto simp: lower_byte_def)
qed

section \<open>Decimal integers\<close>

fun digits_of :: "nat \<Rightarrow> nat list" where
  "digits_of n = (if n < 10 then [n] else digits_of (n div 10) @ [n mod 10])"

declare digits_of.simps [simp del]

definition digit_char :: "nat \<Rightarrow> char" where
  "digit_char d = byte_of (48 + d)"

definition formatNat :: "nat \<Rightarrow> string" where
  "formatNat n = map digit_char (digits_of n)"

definition formatInt :: "int \<Rightarrow> string" where
  "formatInt i = (if i < 0 then ''-'' @ formatNat (nat (- i)) else formatNat (nat i))"

definition is_digit :: "char \<Rightarrow> bool" where
  "is_digit c = (48 \<le> byte_val c \<and> byte_val c \<le> 57)"

definition digit_value :: "char \<Rightarrow> int" where
  "digit_value c = int (byte_val c) - 48"

text \<open>
  \<open>strconv.ParseInt(s, 10, 64)\<close> and \<open>strconv.Atoi\<close> on a 64-bit platform: an optional sign,
  at least one digit, nothing else, and a value in the range of \<open>int64\<close>.
\<close>

definition parseDigits :: "string \<Rightarrow> int option" where
  "parseDigits s =
     (if s \<noteq> [] \<and> list_all is_digit s then Some (foldl (\<lambda>a c. 10 * a + digit_value c) 0 s) else None)"

definition parseInt64 :: "string \<Rightarrow> int option" where
  "parseInt64 s =
     (let (neg, body) = (case s of [] \<Rightarrow> (False, []) | c # cs \<Rightarrow>
            if c = CHR ''-'' then (True, cs) else if c = CHR ''+'' then (False, cs) else (False, s))
      in case parseDigits body of
           None \<Rightarrow> None
         | Some v \<Rightarrow> let i = (if neg then - v else v)
                      in if - (2 ^ 63) \<le> i \<and> i < 2 ^ 63 then Some i else None)"

lemma digits_of_small: "d \<in> set (digits_of n) \<Longrightarrow> d < 10"
proof (induction n rule: digits_of.induct)
  case (1 n)
  then show ?case by (cases "n < 10") (auto simp: digits_of.simps [of n])
qed

lemma digits_of_nonempty: "digits_of n \<noteq> []"
  by (subst digits_of.simps) simp

lemma digits_of_value: "foldl (\<lambda>a d. 10 * a + int d) 0 (digits_of n) = int n"
proof (induction n rule: digits_of.induct)
  case (1 n)
  have "int n = 10 * int (n div 10) + int (n mod 10)"
    by (metis mult_div_mod_eq of_nat_add of_nat_mult of_nat_numeral)
  with 1 show ?case by (cases "n < 10") (simp_all add: digits_of.simps [of n])
qed

lemma digit_char_value: "d < 10 \<Longrightarrow> digit_value (digit_char d) = int d"
  by (simp add: digit_value_def digit_char_def)

lemma is_digit_digit_char: "d < 10 \<Longrightarrow> is_digit (digit_char d)"
  by (simp add: is_digit_def digit_char_def)

lemma foldl_digit_chars:
  "(\<And>d. d \<in> set ds \<Longrightarrow> d < 10) \<Longrightarrow>
   foldl (\<lambda>a c. 10 * a + digit_value c) v (map digit_char ds) = foldl (\<lambda>a d. 10 * a + int d) v ds"
  by (induction ds arbitrary: v) (auto simp: digit_char_value)

lemma parseDigits_formatNat: "parseDigits (formatNat n) = Some (int n)"
  by (auto simp: parseDigits_def formatNat_def digits_of_nonempty list_all_iff foldl_digit_chars
      digits_of_value is_digit_digit_char digits_of_small)

lemma formatNat_head: "\<exists>c cs. formatNat n = c # cs \<and> is_digit c"
proof -
  obtain d ds where ds: "digits_of n = d # ds" using digits_of_nonempty by (cases "digits_of n") auto
  then have "d < 10" using digits_of_small [of d n] by simp
  with ds show ?thesis by (auto simp: formatNat_def is_digit_digit_char)
qed

lemma parseInt64_formatInt:
  assumes "- (2 ^ 63) \<le> i" and "i < 2 ^ 63"
  shows "parseInt64 (formatInt i) = Some i"
proof (cases "i < 0")
  case True
  with assms show ?thesis
    by (simp add: parseInt64_def formatInt_def parseDigits_formatNat)
next
  case False
  obtain c cs where f: "formatNat (nat i) = c # cs" and "is_digit c" using formatNat_head by blast
  then have "c \<noteq> CHR ''-''" "c \<noteq> CHR ''+''" by (auto simp: is_digit_def)
  with False assms f parseDigits_formatNat [of "nat i"] show ?thesis
    by (simp add: parseInt64_def formatInt_def)
qed

section \<open>Counting runes\<close>

text \<open>
  \<open>utf8.RuneCountInString\<close>: the length in bytes of the first rune by the decoder's table,
  1 for a byte that starts no valid encoding.
\<close>

definition cont_byte :: "nat \<Rightarrow> bool" where
  "cont_byte b = (128 \<le> b \<and> b \<le> 191)"

fun rune_size :: "nat list \<Rightarrow> nat" where
  "rune_size [] = 0"
| "rune_size (b # bs) =
     (if 194 \<le> b \<and> b \<le> 223 then
        (case bs of c1 # _ \<Rightarrow> if cont_byte c1 then 2 else 1 | _ \<Rightarrow> 1)
      else if 224 \<le> b \<and> b \<le> 239 then
        (case bs of c1 # c2 # _ \<Rightarrow>
           if (if b = 224 then 160 else 128) \<le> c1 \<and> c1 \<le> (if b = 237 then 159 else 191) \<and> cont_byte c2
           then 3 else 1
         | _ \<Rightarrow> 1)
      else if 240 \<le> b \<and> b \<le> 244 then
        (case bs of c1 # c2 # c3 # _ \<Rightarrow>
           if (if b = 240 then 144 else 128) \<le> c1 \<and> c1 \<le> (if b = 244 then 143 else 191)
              \<and> cont_byte c2 \<and> cont_byte c3
           then 4 else 1
         | _ \<Rightarrow> 1)
      else 1)"

lemma rune_size_pos: "bs \<noteq> [] \<Longrightarrow> 1 \<le> rune_size bs"
  by (cases bs) (auto split: list.splits)

lemma drop_rune_less: "bs \<noteq> [] \<Longrightarrow> length bs - rune_size bs < length bs"
  using rune_size_pos [of bs] by (cases bs) auto

function rune_count_bytes :: "nat list \<Rightarrow> nat" where
  "rune_count_bytes bs = (if bs = [] then 0 else Suc (rune_count_bytes (drop (rune_size bs) bs)))"
  by pat_completeness auto
termination
  by (relation "measure length") (auto simp: drop_rune_less simp del: rune_size.simps)

declare rune_count_bytes.simps [simp del]

definition runeCount :: "string \<Rightarrow> nat" where
  "runeCount s = rune_count_bytes (map byte_val s)"

lemma rune_count_le: "rune_count_bytes bs \<le> length bs"
proof (induction bs rule: rune_count_bytes.induct)
  case (1 bs)
  show ?case
  proof (cases "bs = []")
    case True
    then show ?thesis by (simp add: rune_count_bytes.simps)
  next
    case False
    with rune_size_pos [of bs] have "length (drop (rune_size bs) bs) < length bs" by auto
    with "1.IH" [OF False] False show ?thesis by (subst rune_count_bytes.simps) auto
  qed
qed

lemma runeCount_le: "runeCount s \<le> length s"
  using rune_count_le [of "map byte_val s"] by (simp add: runeCount_def)

lemma rune_size_ascii: "b < 128 \<Longrightarrow> rune_size (b # bs) = 1"
  by simp

lemma runeCount_ascii: "is_ascii s \<Longrightarrow> runeCount s = length s"
proof (induction s)
  case Nil
  then show ?case by (simp add: runeCount_def rune_count_bytes.simps)
next
  case (Cons c cs)
  then have "rune_size (byte_val c # map byte_val cs) = 1" by (simp add: is_ascii_def)
  with Cons show ?case
    by (simp add: runeCount_def rune_count_bytes.simps [of "byte_val c # map byte_val cs"] is_ascii_def)
qed

end
