(* ===== verification/Go_Time.thy ===== *)
theory Go_Time
  imports Go_Text
begin

text \<open>
  Go's \<open>time\<close>: an instant is its number of nanoseconds since Go's zero time
  (1 January of year 1, UTC), so \<open>IsZero\<close> is equality with 0; a duration is an \<open>int64\<close> of
  nanoseconds. Both SQLite stores keep instants as \<open>RFC3339Nano\<close> text and let SQL compare
  the text: \<open>formatTime\<close> renders an instant and \<open>time_text\<close> carries the text's byte order.
\<close>

type_synonym time = int
type_synonym duration = int

section \<open>Durations\<close>

definition wrap64 :: "int \<Rightarrow> int" where
  "wrap64 x = (x + 2 ^ 63) mod 2 ^ 64 - 2 ^ 63"

definition clamp64 :: "int \<Rightarrow> int" where
  "clamp64 x = (if x < - (2 ^ 63) then - (2 ^ 63) else if 2 ^ 63 \<le> x then 2 ^ 63 - 1 else x)"

abbreviation second :: duration where "second \<equiv> 1000000000"
abbreviation minute :: duration where "minute \<equiv> 60000000000"

definition is_zero :: "time \<Rightarrow> bool" where
  "is_zero t = (t = 0)"

text \<open>\<open>t.Sub(u)\<close> saturates at the ends of \<open>int64\<close>; \<open>t.Add(d)\<close> does not wrap for years below 292 billion.\<close>

definition timeSub :: "time \<Rightarrow> time \<Rightarrow> duration" where
  "timeSub t u = clamp64 (t - u)"

definition maxTime :: "time \<Rightarrow> time \<Rightarrow> time" where
  "maxTime a b = (if a > b then a else b)"

lemma wrap64_range: "- (2 ^ 63) \<le> wrap64 x \<and> wrap64 x < 2 ^ 63"
  unfolding wrap64_def by (simp add: pos_mod_bound [of "2^64" "x + 2^63"] algebra_simps)

lemma wrap64_id: "- (2 ^ 63) \<le> x \<Longrightarrow> x < 2 ^ 63 \<Longrightarrow> wrap64 x = x"
  by (simp add: wrap64_def)

lemma maxTime_max: "maxTime a b = max a b"
  by (simp add: maxTime_def max_def)

lemma timeSub_less: "0 < d \<Longrightarrow> d < 2 ^ 63 \<Longrightarrow> timeSub t u < d \<longleftrightarrow> t - u < d"
  by (auto simp: timeSub_def clamp64_def)

section \<open>The text of an instant\<close>

text \<open>
  \<open>TimeText s f\<close> is the \<open>RFC3339Nano\<close> text whose fixed-width prefix
  (\<open>2006-01-02T15:04:05\<close>, which for the years 0 to 9999 sorts as the seconds it denotes)
  stands for second \<open>s\<close> and whose rest is \<open>f\<close>: \<open>Z\<close>, or a point, the nanoseconds with
  their trailing zeros dropped, and \<open>Z\<close>. Its order is the byte order of the text, the
  \<open>BINARY\<close> collation SQLite compares these columns with.
\<close>

datatype time_text = TimeText (tt_second: int) (tt_rest: string)

instantiation time_text :: linorder
begin

definition less_eq_time_text :: "time_text \<Rightarrow> time_text \<Rightarrow> bool" where
  "less_eq_time_text a b \<longleftrightarrow>
     tt_second a < tt_second b \<or> tt_second a = tt_second b \<and> tt_rest a \<le> tt_rest b"

definition less_time_text :: "time_text \<Rightarrow> time_text \<Rightarrow> bool" where
  "less_time_text a b \<longleftrightarrow>
     tt_second a < tt_second b \<or> tt_second a = tt_second b \<and> tt_rest a < tt_rest b"

instance
proof
  fix a b c :: time_text
  show "(a < b) = (a \<le> b \<and> \<not> b \<le> a)"
    by (auto simp: less_eq_time_text_def less_time_text_def)
  show "a \<le> a"
    by (simp add: less_eq_time_text_def)
  show "a \<le> b \<Longrightarrow> b \<le> c \<Longrightarrow> a \<le> c"
    by (auto simp: less_eq_time_text_def)
  show "a \<le> b \<Longrightarrow> b \<le> a \<Longrightarrow> a = b"
    by (auto simp: less_eq_time_text_def intro: time_text.expand)
  show "a \<le> b \<or> b \<le> a"
    by (auto simp: less_eq_time_text_def)
qed

end

definition nano_digits :: "int \<Rightarrow> nat list" where
  "nano_digits n = map (\<lambda>i. nat (n div 10 ^ (8 - i) mod 10)) [0..<9]"

definition strip_zeros :: "nat list \<Rightarrow> nat list" where
  "strip_zeros ds = rev (dropWhile (\<lambda>d. d = 0) (rev ds))"

definition frac_text :: "int \<Rightarrow> string" where
  "frac_text n =
     (let ds = strip_zeros (nano_digits n)
      in if ds = [] then ''Z'' else ''.'' @ map digit_char ds @ ''Z'')"

definition formatTime :: "time \<Rightarrow> time_text" where
  "formatTime t = TimeText (t div second) (frac_text (t mod second))"

text \<open>\<open>time.Parse(time.RFC3339Nano, \<dots>)\<close> on such a text; \<open>None\<close> is a parse error.\<close>

definition pad_nine :: "int list \<Rightarrow> int list" where
  "pad_nine ds = ds @ replicate (9 - length ds) 0"

definition parse_frac :: "string \<Rightarrow> int option" where
  "parse_frac f =
     (if f = ''Z'' then Some 0
      else case f of
        c # cs \<Rightarrow>
          if c = CHR ''.'' \<and> cs \<noteq> [] \<and> last cs = CHR ''Z'' \<and> list_all is_digit (butlast cs)
             \<and> butlast cs \<noteq> [] \<and> length (butlast cs) \<le> 9
          then Some (foldl (\<lambda>a d. 10 * a + d) 0 (pad_nine (map digit_value (butlast cs))))
          else None
      | [] \<Rightarrow> None)"

definition parseTime :: "time_text \<Rightarrow> time option" where
  "parseTime x = map_option (\<lambda>n. tt_second x * second + n) (parse_frac (tt_rest x))"

section \<open>Rendering and parsing are inverse\<close>

lemma strip_zeros_append: "\<exists>k. ds = strip_zeros ds @ replicate k 0"
proof -
  let ?t = "takeWhile (\<lambda>d. d = 0) (rev ds)"
  have "rev ds = ?t @ dropWhile (\<lambda>d. d = 0) (rev ds)" by simp
  then have "ds = strip_zeros ds @ rev ?t"
    unfolding strip_zeros_def by (metis rev_append rev_rev_ident)
  moreover have "?t = replicate (length ?t) 0"
    by (induction ds rule: rev_induct) auto
  ultimately show ?thesis by (metis rev_replicate)
qed

lemma nano_digits_length [simp]: "length (nano_digits n) = 9"
  by (simp add: nano_digits_def)

lemma nano_digits_small: "d \<in> set (nano_digits n) \<Longrightarrow> d < 10"
  by (auto simp: nano_digits_def nat_less_iff)

lemma strip_zeros_subset: "set (strip_zeros ds) \<subseteq> set ds"
  using strip_zeros_append [of ds] by (metis Un_iff set_append subsetI)

lemma upt_nine: "[0..<9] = [0, 1, 2, 3, 4, 5, 6, 7, 8 :: nat]"
  by (simp add: upt_rec)

lemma leading_digits:
  assumes "0 \<le> n" and "n < 10 ^ m" and "k \<le> m"
  shows "foldl (\<lambda>a d. 10 * a + int d) 0 (map (\<lambda>i. nat (n div 10 ^ (m - Suc i) mod 10)) [0..<k])
    = n div 10 ^ (m - k)"
  using assms(3)
proof (induction k)
  case 0
  with assms show ?case by simp
next
  case (Suc k)
  let ?x = "n div 10 ^ (m - Suc k)"
  from Suc.prems have "m - k = Suc (m - Suc k)" by simp
  then have "n div 10 ^ (m - k) = n div (10 ^ (m - Suc k) * 10)" by (simp add: mult.commute)
  also have "\<dots> = ?x div 10" by (rule zdiv_zmult2_eq) simp
  finally have "n div 10 ^ (m - k) = ?x div 10" .
  with Suc show ?case by simp
qed

lemma nano_digits_value:
  assumes "0 \<le> n" and "n < second"
  shows "foldl (\<lambda>a d. 10 * a + int d) 0 (nano_digits n) = n"
  using leading_digits [of n 9 9] assms by (simp add: nano_digits_def)

lemma frac_roundtrip:
  assumes "0 \<le> n" and "n < second"
  shows "parse_frac (frac_text n) = Some n"
proof -
  let ?ds = "strip_zeros (nano_digits n)"
  obtain k where k: "nano_digits n = ?ds @ replicate k 0" using strip_zeros_append by blast
  then have len: "length ?ds + k = 9" by (metis length_append length_replicate nano_digits_length)
  have small: "d < 10" if "d \<in> set ?ds" for d
    using that strip_zeros_subset nano_digits_small by blast
  have val: "foldl (\<lambda>a d. 10 * a + int d) 0 (?ds @ replicate k 0) = n"
    using nano_digits_value [OF assms] k by simp
  show ?thesis
  proof (cases "?ds = []")
    case True
    have "foldl (\<lambda>a d. 10 * a + int d) 0 (replicate k 0) = 0" by (induction k) simp_all
    with val True have "n = 0" by simp
    with True show ?thesis by (simp add: frac_text_def parse_frac_def)
  next
    case False
    have vals: "map (digit_value \<circ> digit_char) ?ds = map int ?ds"
      by (rule map_cong) (simp_all add: digit_char_value small)
    have "foldl (\<lambda>a d. 10 * a + d) 0 (map int (?ds @ replicate k 0)) = n"
      using val by (simp only: foldl_map)
    then have "foldl (\<lambda>a d. 10 * a + d) 0 (pad_nine (map int ?ds)) = n"
      using len by (simp add: pad_nine_def flip: len)
    moreover have "list_all is_digit (map digit_char ?ds)"
      by (auto simp: list_all_iff is_digit_digit_char small)
    ultimately show ?thesis
      using False len by (simp add: frac_text_def parse_frac_def Let_def butlast_append vals)
  qed
qed

lemma parse_format_time [simp]: "parseTime (formatTime t) = Some t"
  by (simp add: parseTime_def formatTime_def frac_roundtrip)

lemma formatTime_inj: "formatTime t = formatTime u \<longleftrightarrow> t = u"
  by (metis option.inject parse_format_time)

section \<open>Text order against time order\<close>

text \<open>
  Instants in different seconds compare as their texts do. Inside one second they need
  not: \<open>Z\<close> sorts after the point, so a whole second sorts after every fraction of it.
\<close>

lemma text_less_of_seconds: "t div second < u div second \<Longrightarrow> formatTime t < formatTime u"
  by (simp add: formatTime_def less_time_text_def)

lemma text_le_seconds: "formatTime t \<le> formatTime u \<Longrightarrow> t div second \<le> u div second"
  by (auto simp: formatTime_def less_eq_time_text_def)

lemma text_less_of_second_apart: "t + second \<le> u \<Longrightarrow> formatTime t < formatTime u"
  by (rule text_less_of_seconds) linarith

lemma text_le_within_second: "formatTime t \<le> formatTime u \<Longrightarrow> t < u + second"
  by (drule text_le_seconds) linarith

lemma frac_text_zero: "frac_text 0 = ''Z''"
  by (simp add: frac_text_def nano_digits_def strip_zeros_def upt_nine)

lemma frac_text_point: "0 < n \<Longrightarrow> n < second \<Longrightarrow> \<exists>cs. frac_text n = CHR ''.'' # cs"
proof -
  assume n: "0 < n" "n < second"
  have "frac_text n \<noteq> ''Z''"
    using frac_roundtrip [of n] frac_roundtrip [of 0] frac_text_zero n by force
  then show ?thesis by (auto simp: frac_text_def Let_def split: if_splits)
qed

lemma whole_second_sorts_last:
  assumes "0 < n" and "n < second"
  shows "formatTime (s * second + n) < formatTime (s * second)"
proof -
  obtain cs where "frac_text n = CHR ''.'' # cs" using frac_text_point assms by blast
  moreover have "(s * second + n) div second = s" using assms by simp
  moreover have "(s * second + n) mod second = n" using assms by simp
  ultimately show ?thesis by (simp add: formatTime_def less_time_text_def frac_text_zero)
qed

end
