(* ===== verification/Orch_Types.thy ===== *)
theory Orch_Types
  imports Go_Time
begin

text \<open>
  The data of the orchestrator (\<open>internal/orchestrator/types.go\<close>, \<open>protocol.go\<close>,
  \<open>ownership.go\<close>, \<open>signals.go\<close>): the source's structs as records, its closed string
  enumerations as datatypes (with a constructor for any other text where the text comes
  from outside), its open ones as strings. A pointer is an \<open>option\<close>, \<open>map[string]any\<close> is
  a JSON object.
\<close>

section \<open>Enumerations\<close>

datatype HandoffState =
    StateUnset | StateCreated | StateDispatched | StateReceived | StateClaimed | StateStarted
  | StateCheckpointed | StateSubmitted | StateReviewed | StateCompleted | StateFailed | StateExpired

datatype WorkflowStatus = WorkflowActive | WorkflowBlocked | WorkflowCompleted | WorkflowFailed

datatype EventType =
    EventTransportRequested | EventTransportAccepted | EventTransportRejected
  | EventTransportTimeout | EventTransportDeliveryConfirmed
  | EventReceived | EventClaimed | EventStarted | EventCheckpointed | EventSubmitted
  | EventReviewed | EventCompleted | EventFailed | EventExpired
  | EventArtifactAttached | EventArtifactReplaced | EventArtifactValidated
  | EventWatchTriggered | EventReminderSent | EventEscalationOpened | EventEscalationResolved
  | EventOther string

datatype ReviewDecision =
    ReviewUnset | ReviewDecisionApproved | ReviewDecisionRevisionRequired | ReviewDecisionRejected
  | ReviewOther string

type_synonym ActorType = string
type_synonym TaskKind = string
type_synonym ArtifactMode = string

abbreviation ActorAgent :: ActorType where "ActorAgent \<equiv> ''agent''"
abbreviation ActorUser :: ActorType where "ActorUser \<equiv> ''user''"
abbreviation ActorCron :: ActorType where "ActorCron \<equiv> ''cron''"
abbreviation ActorSystem :: ActorType where "ActorSystem \<equiv> ''system''"
abbreviation ActorWebhook :: ActorType where "ActorWebhook \<equiv> ''webhook''"

abbreviation TaskGeneric :: TaskKind where "TaskGeneric \<equiv> ''generic_task''"
abbreviation TaskArtifactRequired :: TaskKind where "TaskArtifactRequired \<equiv> ''artifact_required_task''"
abbreviation TaskReviewRequired :: TaskKind where "TaskReviewRequired \<equiv> ''review_required_task''"

abbreviation ArtifactModeNone :: ArtifactMode where "ArtifactModeNone \<equiv> ''none''"
abbreviation ArtifactModeOptional :: ArtifactMode where "ArtifactModeOptional \<equiv> ''optional''"
abbreviation ArtifactModeRequired :: ArtifactMode where "ArtifactModeRequired \<equiv> ''required''"

datatype TransportStatus =
    TransportRequested | TransportAccepted | TransportRejected | TransportTimeout
  | TransportDeliveryConfirmed

datatype ProtocolAction =
    ProtocolActionReceive | ProtocolActionClaim | ProtocolActionStart | ProtocolActionCheckpoint
  | ProtocolActionSubmit | ProtocolActionReview | ProtocolActionRequestRevision
  | ProtocolActionApprove | ProtocolActionComplete | ProtocolActionFail
  | ProtocolActionOther string

datatype RepairCandidateReason =
    RepairCandidateMissingAuthoritativeProgress | RepairCandidateLateTransportSignal
  | RepairCandidateWatchdogEscalation

datatype RepairSuggestedAction =
    RepairSuggestedActionReview | RepairSuggestedActionBackfillEvent
  | RepairSuggestedActionRequestRevision | RepairSuggestedActionEscalate

datatype RepairCandidateStatus = RepairCandidateOpen | RepairCandidateResolved

section \<open>The texts of the enumerations\<close>

fun handoffStateText :: "HandoffState \<Rightarrow> string" where
  "handoffStateText StateUnset = []"
| "handoffStateText StateCreated = ''created''"
| "handoffStateText StateDispatched = ''dispatched''"
| "handoffStateText StateReceived = ''received''"
| "handoffStateText StateClaimed = ''claimed''"
| "handoffStateText StateStarted = ''started''"
| "handoffStateText StateCheckpointed = ''checkpointed''"
| "handoffStateText StateSubmitted = ''submitted''"
| "handoffStateText StateReviewed = ''reviewed''"
| "handoffStateText StateCompleted = ''completed''"
| "handoffStateText StateFailed = ''failed''"
| "handoffStateText StateExpired = ''expired''"

fun workflowStatusText :: "WorkflowStatus \<Rightarrow> string" where
  "workflowStatusText WorkflowActive = ''active''"
| "workflowStatusText WorkflowBlocked = ''blocked''"
| "workflowStatusText WorkflowCompleted = ''completed''"
| "workflowStatusText WorkflowFailed = ''failed''"

fun eventTypeText :: "EventType \<Rightarrow> string" where
  "eventTypeText EventTransportRequested = ''transport_requested''"
| "eventTypeText EventTransportAccepted = ''transport_accepted''"
| "eventTypeText EventTransportRejected = ''transport_rejected''"
| "eventTypeText EventTransportTimeout = ''transport_timeout''"
| "eventTypeText EventTransportDeliveryConfirmed = ''transport_delivery_confirmed''"
| "eventTypeText EventReceived = ''received''"
| "eventTypeText EventClaimed = ''claimed''"
| "eventTypeText EventStarted = ''started''"
| "eventTypeText EventCheckpointed = ''checkpointed''"
| "eventTypeText EventSubmitted = ''submitted''"
| "eventTypeText EventReviewed = ''reviewed''"
| "eventTypeText EventCompleted = ''completed''"
| "eventTypeText EventFailed = ''failed''"
| "eventTypeText EventExpired = ''expired''"
| "eventTypeText EventArtifactAttached = ''artifact_attached''"
| "eventTypeText EventArtifactReplaced = ''artifact_replaced''"
| "eventTypeText EventArtifactValidated = ''artifact_validated''"
| "eventTypeText EventWatchTriggered = ''watch_triggered''"
| "eventTypeText EventReminderSent = ''reminder_sent''"
| "eventTypeText EventEscalationOpened = ''escalation_opened''"
| "eventTypeText EventEscalationResolved = ''escalation_resolved''"
| "eventTypeText (EventOther s) = s"

fun reviewDecisionText :: "ReviewDecision \<Rightarrow> string" where
  "reviewDecisionText ReviewUnset = []"
| "reviewDecisionText ReviewDecisionApproved = ''approved''"
| "reviewDecisionText ReviewDecisionRevisionRequired = ''revision_required''"
| "reviewDecisionText ReviewDecisionRejected = ''rejected''"
| "reviewDecisionText (ReviewOther s) = s"

definition ReviewDecisionOf :: "string \<Rightarrow> ReviewDecision" where
  "ReviewDecisionOf s =
     (if s = [] then ReviewUnset
      else if s = ''approved'' then ReviewDecisionApproved
      else if s = ''revision_required'' then ReviewDecisionRevisionRequired
      else if s = ''rejected'' then ReviewDecisionRejected
      else ReviewOther s)"

fun protocolActionText :: "ProtocolAction \<Rightarrow> string" where
  "protocolActionText ProtocolActionReceive = ''handoff.receive''"
| "protocolActionText ProtocolActionClaim = ''handoff.claim''"
| "protocolActionText ProtocolActionStart = ''handoff.start''"
| "protocolActionText ProtocolActionCheckpoint = ''handoff.checkpoint''"
| "protocolActionText ProtocolActionSubmit = ''handoff.submit''"
| "protocolActionText ProtocolActionReview = ''handoff.review''"
| "protocolActionText ProtocolActionRequestRevision = ''handoff.request_revision''"
| "protocolActionText ProtocolActionApprove = ''handoff.approve''"
| "protocolActionText ProtocolActionComplete = ''handoff.complete''"
| "protocolActionText ProtocolActionFail = ''handoff.fail''"
| "protocolActionText (ProtocolActionOther s) = s"

fun transportStatusText :: "TransportStatus \<Rightarrow> string" where
  "transportStatusText TransportRequested = ''requested''"
| "transportStatusText TransportAccepted = ''accepted''"
| "transportStatusText TransportRejected = ''rejected''"
| "transportStatusText TransportTimeout = ''timeout''"
| "transportStatusText TransportDeliveryConfirmed = ''delivery_confirmed''"

lemma reviewDecision_roundtrip: "reviewDecisionText (ReviewDecisionOf s) = s"
  by (simp add: ReviewDecisionOf_def)

section \<open>JSON\<close>

datatype json =
    JNull | JBool bool | JNumber string | JString string | JList "json list"
  | JObject "(string \<times> json) list"

type_synonym payload = "(string \<times> json) list"

section \<open>Structs\<close>

record ActorRef =
  actor_Type :: ActorType
  actor_ID :: string
  actor_Address :: string

definition ActorOf :: "ActorType \<Rightarrow> string \<Rightarrow> ActorRef" where
  "ActorOf t i = \<lparr>actor_Type = t, actor_ID = i, actor_Address = []\<rparr>"

definition NoActor :: ActorRef where
  "NoActor = \<lparr>actor_Type = [], actor_ID = [], actor_Address = []\<rparr>"

record ArtifactPolicy =
  ap_Mode :: ArtifactMode
  ap_Types :: "string list"
  ap_MinCount :: int
  ap_AllowReplace :: bool

definition NoArtifactPolicy :: ArtifactPolicy where
  "NoArtifactPolicy = \<lparr>ap_Mode = [], ap_Types = [], ap_MinCount = 0, ap_AllowReplace = False\<rparr>"

record Workflow =
  wf_ID :: string
  wf_Kind :: string
  wf_InitiatorActor :: ActorRef
  wf_Status :: WorkflowStatus
  wf_RootHandoffID :: string
  wf_CurrentHandoffID :: string
  wf_CreatedAt :: time
  wf_UpdatedAt :: time
  wf_CompletedAt :: "time option"

record Artifact =
  art_ID :: string
  art_HandoffID :: string
  art_Type :: string
  art_URI :: string
  art_Version :: string
  art_Checksum :: string
  art_Metadata :: payload
  art_CreatedBy :: ActorRef
  art_CreatedAt :: time

record Watch =
  watch_ID :: string
  watch_HandoffID :: string
  watch_WatchType :: string
  watch_EventType :: EventType
  watch_DeadlineAt :: time
  watch_Status :: string
  watch_LastCheckedAt :: time
  watch_LastResult :: string
  watch_EscalationPolicy :: string
  watch_CreatedAt :: time

record RepairRecord =
  repair_ID :: string
  repair_Action :: string
  repair_TargetType :: string
  repair_TargetID :: string
  repair_Reason :: string
  repair_RequestedBy :: ActorRef
  repair_CreatedAt :: time
  repair_InvalidatesID :: string
  repair_ReplacementID :: string
  repair_ReopenedState :: string

record DispatchAttempt =
  attempt_ID :: string
  attempt_HandoffID :: string
  attempt_Adapter :: string
  attempt_Target :: string
  attempt_RequestedAt :: time
  attempt_ResultStatus :: string
  attempt_FinishedAt :: time
  attempt_ExternalID :: string

record DispatchRequest =
  dr_Command :: string
  dr_Args :: "string list"
  dr_Target :: string
  dr_Message :: string
  dr_Payload :: payload

record DispatchLifecycleEvent =
  dle_Event :: string
  dle_Agent :: string
  dle_WorkflowID :: string
  dle_HandoffID :: string
  dle_ArtifactCount :: int
  dle_ReviewDecision :: string
  dle_Payload :: payload

record DispatchResult =
  dres_TransportStatus :: TransportStatus
  dres_ExternalID :: string
  dres_Stdout :: string
  dres_Stderr :: string
  dres_LifecycleEvents :: "DispatchLifecycleEvent list"

record ObserverHint =
  hint_ID :: string
  hint_HandoffID :: string
  hint_WorkflowID :: string
  hint_SignalType :: string
  hint_Details :: payload
  hint_CreatedAt :: time

record AgentRegistration =
  agent_Actor :: ActorRef
  agent_Capabilities :: "string list"
  agent_ProjectRefs :: "string list"
  agent_TaskKinds :: "TaskKind list"
  agent_DeliveryTargetRef :: string
  agent_Status :: string
  agent_LastHeartbeatAt :: "time option"
  agent_CreatedAt :: time
  agent_UpdatedAt :: time

record AgentListFilter =
  alf_Capability :: string
  alf_ProjectRef :: string
  alf_TaskKind :: TaskKind
  alf_Status :: string

record WorkQuery =
  wq_AgentID :: string
  wq_Capability :: string
  wq_ProjectRef :: string
  wq_WorkflowID :: string
  wq_TaskKind :: TaskKind
  wq_Limit :: int

record Handoff =
  h_ID :: string
  h_WorkflowID :: string
  h_WorkflowKind :: string
  h_ParentHandoffID :: "string option"
  h_DependsOnHandoffIDs :: "string list"
  h_RequiredForWorkflowCompletion :: bool
  h_State :: HandoffState
  h_StateVersion :: int
  h_TaskKind :: TaskKind
  h_Intent :: string
  h_PayloadRef :: string
  h_DeliveryTargetRef :: string
  h_DeadlineAt :: "time option"
  h_ProducerActor :: ActorRef
  h_SenderActor :: ActorRef
  h_ReceiverActor :: ActorRef
  h_ReviewerActor :: ActorRef
  h_SubjectActor :: ActorRef
  h_CurrentOwner :: ActorRef
  h_LeaseHolder :: ActorRef
  h_EscalationOwner :: ActorRef
  h_FallbackOwner :: ActorRef
  h_LeasedAt :: "time option"
  h_LeaseExpiresAt :: "time option"
  h_ArtifactPolicy :: ArtifactPolicy
  h_NeedsReview :: bool
  h_ReviewDecision :: ReviewDecision
  h_HasReceived :: bool
  h_HasClaimed :: bool
  h_HasStarted :: bool
  h_HasCheckpointed :: bool
  h_HasSubmitted :: bool
  h_HasReviewed :: bool
  h_ArtifactCount :: int
  h_LastAuthoritativeEventID :: string
  h_CreatedAt :: time
  h_UpdatedAt :: time
  h_CompletedAt :: "time option"

record EventRecord =
  ev_ID :: string
  ev_WorkflowID :: string
  ev_HandoffID :: string
  ev_Type :: EventType
  ev_ProducerEventTime :: time
  ev_IngestedAt :: time
  ev_ProducerActor :: ActorRef
  ev_SubjectActor :: ActorRef
  ev_Payload :: payload
  ev_IdempotencyKey :: string
  ev_CorrelationID :: string
  ev_CausationID :: string
  ev_Accepted :: bool
  ev_RejectionReason :: string
  ev_AttemptID :: string
  ev_ArtifactCount :: int
  ev_ReviewDecision :: ReviewDecision

text \<open>The zero value of \<open>EventRecord\<close>, as a composite literal with the other fields unset gives it.\<close>

definition NoEvent :: EventRecord where
  "NoEvent = \<lparr>ev_ID = [], ev_WorkflowID = [], ev_HandoffID = [], ev_Type = EventOther [],
     ev_ProducerEventTime = 0, ev_IngestedAt = 0, ev_ProducerActor = NoActor,
     ev_SubjectActor = NoActor, ev_Payload = [], ev_IdempotencyKey = [], ev_CorrelationID = [],
     ev_CausationID = [], ev_Accepted = False, ev_RejectionReason = [], ev_AttemptID = [],
     ev_ArtifactCount = 0, ev_ReviewDecision = ReviewUnset\<rparr>"

record WorkBlockReason =
  wbr_Code :: string
  wbr_Detail :: string
  wbr_DependencyHandoffID :: string
  wbr_WatchID :: string

record ActionSuggestion =
  sug_Code :: string
  sug_Summary :: string
  sug_SuggestedActor :: ActorRef
  sug_Source :: string
  sug_WatchID :: string

record WorkItem =
  wi_Workflow :: Workflow
  wi_Handoff :: Handoff
  wi_ActiveWatch :: "Watch option"
  wi_Warnings :: "WorkBlockReason list"
  wi_Suggestions :: "ActionSuggestion list"

record BlockedWorkItem =
  bwi_Workflow :: Workflow
  bwi_Handoff :: Handoff
  bwi_Reasons :: "WorkBlockReason list"
  bwi_Suggestions :: "ActionSuggestion list"

record ObservedSignal =
  sig_ID :: string
  sig_HandoffID :: string
  sig_WorkflowID :: string
  sig_Kind :: string
  sig_Reason :: string
  sig_EventID :: string
  sig_AttemptID :: string
  sig_Details :: payload
  sig_ObservedAt :: time

record RepairCandidate =
  rc_ID :: string
  rc_HandoffID :: string
  rc_WorkflowID :: string
  rc_SignalID :: string
  rc_Reason :: RepairCandidateReason
  rc_SuggestedAction :: RepairSuggestedAction
  rc_Status :: RepairCandidateStatus
  rc_Details :: payload
  rc_CreatedAt :: time

record OwnershipBinding =
  ob_HandoffID :: string
  ob_CurrentOwner :: ActorRef
  ob_LeaseHolder :: ActorRef
  ob_ReviewerActor :: ActorRef
  ob_EscalationOwner :: ActorRef
  ob_FallbackOwner :: ActorRef
  ob_LeasedAt :: "time option"
  ob_LeaseExpiresAt :: "time option"
  ob_CreatedAt :: time
  ob_UpdatedAt :: time

record ProtocolRequest =
  preq_Action :: ProtocolAction
  preq_HandoffID :: string
  preq_WorkflowID :: string
  preq_Actor :: ActorRef
  preq_ProducerEventTime :: time
  preq_IngestedAt :: time
  preq_ArtifactCount :: int
  preq_ReviewDecision :: ReviewDecision
  preq_Payload :: payload

section \<open>Ownership\<close>

definition OwnershipBindingFromHandoff :: "Handoff \<Rightarrow> OwnershipBinding" where
  "OwnershipBindingFromHandoff h = \<lparr>
     ob_HandoffID = h_ID h,
     ob_CurrentOwner = h_CurrentOwner h,
     ob_LeaseHolder = h_LeaseHolder h,
     ob_ReviewerActor = h_ReviewerActor h,
     ob_EscalationOwner = h_EscalationOwner h,
     ob_FallbackOwner = h_FallbackOwner h,
     ob_LeasedAt = h_LeasedAt h,
     ob_LeaseExpiresAt = h_LeaseExpiresAt h,
     ob_CreatedAt = h_CreatedAt h,
     ob_UpdatedAt = h_UpdatedAt h\<rparr>"

definition sameActor :: "ActorRef \<Rightarrow> ActorRef \<Rightarrow> bool" where
  "sameActor a b \<longleftrightarrow> actor_Type a \<noteq> [] \<and> actor_Type b \<noteq> [] \<and> actor_Type a = actor_Type b
     \<and> actor_ID a \<noteq> [] \<and> actor_ID a = actor_ID b"

definition canActAsWorker :: "Handoff \<Rightarrow> ActorRef \<Rightarrow> bool" where
  "canActAsWorker h a = (if sameActor (h_LeaseHolder h) a then True else sameActor (h_CurrentOwner h) a)"

definition canActAsReviewer :: "Handoff \<Rightarrow> ActorRef \<Rightarrow> bool" where
  "canActAsReviewer h a = sameActor (h_ReviewerActor h) a"

definition isEmptyActor :: "ActorRef \<Rightarrow> bool" where
  "isEmptyActor a \<longleftrightarrow> actor_Type a = [] \<and> actor_ID a = [] \<and> actor_Address a = []"

lemma isEmptyActor_iff: "isEmptyActor a \<longleftrightarrow> a = NoActor"
  by (cases a) (auto simp: isEmptyActor_def NoActor_def)

lemma sameActor_sym: "sameActor a b \<longleftrightarrow> sameActor b a"
  by (auto simp: sameActor_def)

lemma sameActor_trans: "sameActor a b \<Longrightarrow> sameActor b c \<Longrightarrow> sameActor a c"
  by (auto simp: sameActor_def)

lemma sameActor_NoActor [simp]: "\<not> sameActor NoActor a"
  by (simp add: sameActor_def NoActor_def)

end
