(* ===== verification/Orch_StateMachine.thy ===== *)
theory Orch_StateMachine
  imports Orch_Types "HOL-Library.Multiset"
begin

text \<open>
  \<open>internal/orchestrator/state_machine.go\<close>: the handoff lifecycle. \<open>Apply\<close> validates one
  event against the handoff and answers with the projected handoff and a decision;
  \<open>machine_next\<close> is the state the \<open>StateMachine\<close> value is left in, \<open>Replay\<close> folds a
  sorted event list. An \<open>error\<close> of a validator is its text.
\<close>

section \<open>Requirements of a handoff\<close>

definition requiresArtifacts :: "Handoff \<Rightarrow> bool" where
  "requiresArtifacts h \<longleftrightarrow> h_TaskKind h = TaskArtifactRequired
     \<or> ap_Mode (h_ArtifactPolicy h) = ArtifactModeRequired \<or> ap_MinCount (h_ArtifactPolicy h) > 0"

definition requiresReview :: "Handoff \<Rightarrow> bool" where
  "requiresReview h \<longleftrightarrow> h_TaskKind h = TaskReviewRequired \<or> h_NeedsReview h"

definition requiresSubmitted :: "Handoff \<Rightarrow> bool" where
  "requiresSubmitted h \<longleftrightarrow> requiresArtifacts h \<or> requiresReview h"

definition requiredArtifactCount :: "Handoff \<Rightarrow> int" where
  "requiredArtifactCount h =
     (if ap_MinCount (h_ArtifactPolicy h) > 0 then ap_MinCount (h_ArtifactPolicy h)
      else if ap_Mode (h_ArtifactPolicy h) = ArtifactModeRequired \<or> h_TaskKind h = TaskArtifactRequired
      then 1 else 0)"

definition validateCompletionPrereqs :: "Handoff \<Rightarrow> string option" where
  "validateCompletionPrereqs h =
     (if \<not> h_HasReceived h then Some ''completed requires received''
      else if \<not> h_HasClaimed h then Some ''completed requires claimed''
      else if \<not> h_HasStarted h then Some ''completed requires started''
      else if \<not> h_HasCheckpointed h then Some ''completed requires checkpointed''
      else if requiresSubmitted h \<and> \<not> h_HasSubmitted h then Some ''completed requires submitted''
      else if requiresArtifacts h \<and> h_ArtifactCount h < requiredArtifactCount h
      then Some ''completed requires required artifacts''
      else if requiresReview h \<and> \<not> h_HasReviewed h then Some ''completed requires reviewed''
      else if requiresReview h \<and> h_ReviewDecision h \<noteq> ReviewDecisionApproved
      then Some ''completed requires approved review decision''
      else None)"

definition canTransitionToCompleted :: "Handoff \<Rightarrow> bool" where
  "canTransitionToCompleted h =
     (case h_State h of
        StateCheckpointed \<Rightarrow> \<not> requiresSubmitted h
      | StateSubmitted \<Rightarrow> \<not> requiresReview h
      | StateReviewed \<Rightarrow> requiresReview h
      | _ \<Rightarrow> False)"

fun canTransitionToFailed :: "HandoffState \<Rightarrow> bool" where
  "canTransitionToFailed StateCreated = True"
| "canTransitionToFailed StateDispatched = True"
| "canTransitionToFailed StateReceived = True"
| "canTransitionToFailed StateClaimed = True"
| "canTransitionToFailed StateStarted = True"
| "canTransitionToFailed StateCheckpointed = True"
| "canTransitionToFailed StateSubmitted = True"
| "canTransitionToFailed StateReviewed = True"
| "canTransitionToFailed _ = False"

fun canTransitionToExpired :: "HandoffState \<Rightarrow> bool" where
  "canTransitionToExpired StateDispatched = True"
| "canTransitionToExpired StateReceived = True"
| "canTransitionToExpired StateClaimed = True"
| "canTransitionToExpired StateStarted = True"
| "canTransitionToExpired StateCheckpointed = True"
| "canTransitionToExpired StateSubmitted = True"
| "canTransitionToExpired _ = False"

fun isValidReviewDecision :: "ReviewDecision \<Rightarrow> bool" where
  "isValidReviewDecision ReviewDecisionApproved = True"
| "isValidReviewDecision ReviewDecisionRevisionRequired = True"
| "isValidReviewDecision ReviewDecisionRejected = True"
| "isValidReviewDecision _ = False"

section \<open>Who may report an event\<close>

definition missingActor :: "ActorRef \<Rightarrow> bool" where
  "missingActor a \<longleftrightarrow> actor_ID a = [] \<or> actor_Type a = []"

definition sameRole :: "ActorRef \<Rightarrow> ActorRef \<Rightarrow> bool" where
  "sameRole a b \<longleftrightarrow> actor_Type a = actor_Type b \<and> actor_ID a = actor_ID b"

definition workflowController :: "ActorRef \<Rightarrow> bool" where
  "workflowController a \<longleftrightarrow> actor_Type a = ActorSystem \<and> actor_ID a = ''workflow-controller''"

definition transportSystemActors :: "string list" where
  "transportSystemActors = [''orchestrator'', ''adapter'']"

definition expiredSystemActors :: "string list" where
  "expiredSystemActors = [''watchdog'', ''workflow-controller'']"

definition validateSystemActor :: "EventRecord \<Rightarrow> string list \<Rightarrow> string \<Rightarrow> string option" where
  "validateSystemActor e allowedIDs reason =
     (if actor_Type (ev_ProducerActor e) \<noteq> ActorSystem then Some reason
      else if actor_ID (ev_ProducerActor e) \<notin> set allowedIDs then Some reason
      else None)"

definition validateTransportActor :: "EventRecord \<Rightarrow> string option" where
  "validateTransportActor e = validateSystemActor e transportSystemActors
     ''transport events require orchestrator or adapter system actor''"

definition validateReceiverActor :: "Handoff \<Rightarrow> EventRecord \<Rightarrow> string option" where
  "validateReceiverActor h e =
     (let label = ''event '' @ eventTypeText (ev_Type e); r = h_ReceiverActor h;
          subject = ev_SubjectActor e; producer = ev_ProducerActor e in
      if missingActor r then Some (label @ '' requires configured receiver actor'')
      else if missingActor subject then Some (label @ '' requires explicit subject actor'')
      else if \<not> sameRole subject r then Some (label @ '' requires receiver actor'')
      else if missingActor producer then Some (label @ '' requires explicit producer actor'')
      else if sameRole producer r then None
      else if workflowController producer then None
      else Some (label @ '' requires receiver or workflow controller producer''))"

definition validateWorkerActor :: "Handoff \<Rightarrow> EventRecord \<Rightarrow> string \<Rightarrow> string option" where
  "validateWorkerActor h e action =
     (let subject = ev_SubjectActor e; producer = ev_ProducerActor e in
      if missingActor subject then Some (action @ '' requires explicit subject actor'')
      else if missingActor producer then Some (action @ '' requires explicit producer actor'')
      else if \<not> sameActor subject producer
      then Some (action @ '' requires subject actor to match producer actor'')
      else if sameActor (h_LeaseHolder h) subject \<or> sameActor (h_CurrentOwner h) subject
              \<or> sameActor (h_ReceiverActor h) subject then None
      else if workflowController producer then None
      else Some (action @ '' requires current owner or lease holder''))"

definition validateReviewerActor :: "Handoff \<Rightarrow> EventRecord \<Rightarrow> string option" where
  "validateReviewerActor h e =
     (let r = h_ReviewerActor h; subject = ev_SubjectActor e; producer = ev_ProducerActor e in
      if missingActor r then Some ''reviewed requires configured reviewer actor''
      else if missingActor subject then Some ''reviewed requires explicit subject actor''
      else if \<not> sameRole subject r then Some ''reviewed requires reviewer actor''
      else if missingActor producer then Some ''reviewed requires explicit producer actor''
      else if sameRole producer r then None
      else if workflowController producer then None
      else Some ''reviewed requires reviewer or workflow controller actor'')"

section \<open>Derived progress flags\<close>

fun markReceived :: "Handoff \<Rightarrow> Handoff" where
  "markReceived h = h\<lparr>h_HasReceived := True\<rparr>"

fun markClaimed :: "Handoff \<Rightarrow> Handoff" where
  "markClaimed h = h\<lparr>h_HasReceived := True, h_HasClaimed := True\<rparr>"

fun markStarted :: "Handoff \<Rightarrow> Handoff" where
  "markStarted h = h\<lparr>h_HasReceived := True, h_HasClaimed := True, h_HasStarted := True\<rparr>"

fun markCheckpointed :: "Handoff \<Rightarrow> Handoff" where
  "markCheckpointed h = h\<lparr>h_HasReceived := True, h_HasClaimed := True, h_HasStarted := True,
     h_HasCheckpointed := True\<rparr>"

fun markSubmitted :: "Handoff \<Rightarrow> Handoff" where
  "markSubmitted h = h\<lparr>h_HasReceived := True, h_HasClaimed := True, h_HasStarted := True,
     h_HasCheckpointed := True, h_HasSubmitted := True\<rparr>"

fun markReviewed :: "Handoff \<Rightarrow> Handoff" where
  "markReviewed h = h\<lparr>h_HasReceived := True, h_HasClaimed := True, h_HasStarted := True,
     h_HasCheckpointed := True, h_HasSubmitted := True, h_HasReviewed := True\<rparr>"

definition hydrateFlags :: "Handoff \<Rightarrow> Handoff" where
  "hydrateFlags h =
     (case h_State h of
        StateReviewed \<Rightarrow> markReviewed h
      | StateSubmitted \<Rightarrow> markSubmitted h
      | StateCheckpointed \<Rightarrow> markCheckpointed h
      | StateStarted \<Rightarrow> markStarted h
      | StateClaimed \<Rightarrow> markClaimed h
      | StateReceived \<Rightarrow> markReceived h
      | StateCompleted \<Rightarrow>
          (markCheckpointed h)\<lparr>
            h_HasSubmitted := (if requiresSubmitted h \<or> h_HasSubmitted h then True else h_HasSubmitted h),
            h_HasReviewed := (if requiresReview h \<or> h_HasReviewed h then True else h_HasReviewed h)\<rparr>
      | _ \<Rightarrow> h)"

section \<open>Applying one event\<close>

record Decision =
  dec_Accepted :: bool
  dec_Reason :: string
  dec_Next :: HandoffState

definition rejectDecision :: "HandoffState \<Rightarrow> string \<Rightarrow> Decision" where
  "rejectDecision s reason = \<lparr>dec_Accepted = False, dec_Reason = reason, dec_Next = s\<rparr>"

definition acceptDecision :: "HandoffState \<Rightarrow> Decision" where
  "acceptDecision s = \<lparr>dec_Accepted = True, dec_Reason = [], dec_Next = s\<rparr>"

definition defaultHandoffLeaseTTL :: duration where
  "defaultHandoffLeaseTTL = 30 * minute"

text \<open>The body of each \<open>case\<close>: \<open>Inl\<close> the reason of a rejection, \<open>Inr\<close> the handoff before the common tail.\<close>

definition caseTransportRequested :: "Handoff \<Rightarrow> EventRecord \<Rightarrow> string + Handoff" where
  "caseTransportRequested next e =
     (case validateTransportActor e of
        Some err \<Rightarrow> Inl err
      | None \<Rightarrow>
          if h_State next \<noteq> StateCreated then Inl ''transport_requested requires created''
          else Inr (next\<lparr>h_State := StateDispatched\<rparr>))"

definition caseReceived :: "Handoff \<Rightarrow> EventRecord \<Rightarrow> string + Handoff" where
  "caseReceived next e =
     (case validateReceiverActor next e of
        Some err \<Rightarrow> Inl err
      | None \<Rightarrow>
          if h_State next \<noteq> StateDispatched
             \<and> \<not> (h_State next = StateCreated \<and> h_DeliveryTargetRef next = [])
          then Inl ''received requires dispatched''
          else Inr (next\<lparr>h_State := StateReceived, h_HasReceived := True\<rparr>))"

definition caseClaimed :: "Handoff \<Rightarrow> EventRecord \<Rightarrow> string + Handoff" where
  "caseClaimed next e =
     (case validateWorkerActor next e ''claimed'' of
        Some err \<Rightarrow> Inl err
      | None \<Rightarrow>
          if h_State next \<noteq> StateReceived then Inl ''claimed requires received''
          else
            let claimed = next\<lparr>h_State := StateClaimed, h_HasReceived := True, h_HasClaimed := True,
                  h_CurrentOwner := ev_SubjectActor e, h_LeaseHolder := ev_SubjectActor e\<rparr>;
                leasedAt = (if is_zero (ev_IngestedAt e) then ev_ProducerEventTime e
                            else ev_IngestedAt e)
            in if is_zero leasedAt then Inr claimed
               else Inr (claimed\<lparr>h_LeasedAt := Some leasedAt,
                      h_LeaseExpiresAt := Some (leasedAt + defaultHandoffLeaseTTL)\<rparr>))"

definition caseStarted :: "Handoff \<Rightarrow> EventRecord \<Rightarrow> string + Handoff" where
  "caseStarted next e =
     (case validateWorkerActor next e ''started'' of
        Some err \<Rightarrow> Inl err
      | None \<Rightarrow>
          if h_State next \<noteq> StateClaimed then Inl ''started requires claimed''
          else Inr (markStarted (next\<lparr>h_State := StateStarted\<rparr>)))"

definition revisionRequested :: "Handoff \<Rightarrow> bool" where
  "revisionRequested h \<longleftrightarrow>
     h_State h = StateReviewed \<and> h_ReviewDecision h = ReviewDecisionRevisionRequired"

definition caseCheckpointed :: "Handoff \<Rightarrow> EventRecord \<Rightarrow> string + Handoff" where
  "caseCheckpointed next e =
     (case validateWorkerActor next e ''checkpointed'' of
        Some err \<Rightarrow> Inl err
      | None \<Rightarrow>
          if h_State next \<noteq> StateStarted \<and> \<not> revisionRequested next
          then Inl ''checkpointed requires started or revision_required review''
          else Inr ((markCheckpointed (next\<lparr>h_State := StateCheckpointed\<rparr>))\<lparr>
                 h_HasSubmitted := False, h_HasReviewed := False, h_ReviewDecision := ReviewUnset\<rparr>))"

definition caseSubmitted :: "Handoff \<Rightarrow> EventRecord \<Rightarrow> string + Handoff" where
  "caseSubmitted next e =
     (case validateWorkerActor next e ''submitted'' of
        Some err \<Rightarrow> Inl err
      | None \<Rightarrow>
          if h_State next \<noteq> StateCheckpointed \<and> \<not> revisionRequested next
          then Inl ''submitted requires checkpointed''
          else Inr ((markSubmitted (next\<lparr>h_State := StateSubmitted\<rparr>))\<lparr>
                 h_HasReviewed := False, h_ReviewDecision := ReviewUnset,
                 h_ArtifactCount := (if ev_ArtifactCount e > 0 then ev_ArtifactCount e
                                     else h_ArtifactCount next)\<rparr>))"

definition caseReviewed :: "Handoff \<Rightarrow> EventRecord \<Rightarrow> string + Handoff" where
  "caseReviewed next e =
     (case validateReviewerActor next e of
        Some err \<Rightarrow> Inl err
      | None \<Rightarrow>
          if h_State next \<noteq> StateSubmitted then Inl ''reviewed requires submitted''
          else if \<not> isValidReviewDecision (ev_ReviewDecision e)
          then Inl ''reviewed requires valid review decision''
          else Inr ((markReviewed (next\<lparr>h_State := StateReviewed\<rparr>))\<lparr>
                 h_ReviewDecision := ev_ReviewDecision e\<rparr>))"

definition caseCompleted :: "Handoff \<Rightarrow> EventRecord \<Rightarrow> string + Handoff" where
  "caseCompleted next e =
     (case validateWorkerActor next e ''completed'' of
        Some err \<Rightarrow> Inl err
      | None \<Rightarrow>
          if \<not> canTransitionToCompleted next
          then Inl ''completed requires checkpointed, submitted, or reviewed state''
          else (case validateCompletionPrereqs next of
                  Some err \<Rightarrow> Inl err
                | None \<Rightarrow>
                    Inr (next\<lparr>h_State := StateCompleted,
                      h_CompletedAt :=
                        (if \<not> is_zero (ev_ProducerEventTime e) then Some (ev_ProducerEventTime e)
                         else if \<not> is_zero (ev_IngestedAt e) then Some (ev_IngestedAt e)
                         else h_CompletedAt next)\<rparr>)))"

definition caseFailed :: "Handoff \<Rightarrow> EventRecord \<Rightarrow> string + Handoff" where
  "caseFailed next e =
     (case validateWorkerActor next e ''failed'' of
        Some err \<Rightarrow> Inl err
      | None \<Rightarrow>
          if \<not> canTransitionToFailed (h_State next)
          then Inl ''failed requires created, dispatched, received, claimed, started, checkpointed, submitted, or reviewed''
          else Inr (next\<lparr>h_State := StateFailed\<rparr>))"

definition caseExpired :: "Handoff \<Rightarrow> EventRecord \<Rightarrow> string + Handoff" where
  "caseExpired next e =
     (case validateSystemActor e expiredSystemActors
             ''expired requires watchdog or workflow-controller system actor'' of
        Some err \<Rightarrow> Inl err
      | None \<Rightarrow>
          if \<not> canTransitionToExpired (h_State next)
          then Inl ''expired requires dispatched, received, claimed, started, checkpointed, or submitted''
          else Inr (next\<lparr>h_State := StateExpired\<rparr>))"

fun transportResult :: "EventType \<Rightarrow> bool" where
  "transportResult EventTransportAccepted = True"
| "transportResult EventTransportRejected = True"
| "transportResult EventTransportTimeout = True"
| "transportResult EventTransportDeliveryConfirmed = True"
| "transportResult _ = False"

definition dispatchCase :: "Handoff \<Rightarrow> EventRecord \<Rightarrow> string + Handoff" where
  "dispatchCase next e =
     (case ev_Type e of
        EventTransportRequested \<Rightarrow> caseTransportRequested next e
      | EventReceived \<Rightarrow> caseReceived next e
      | EventClaimed \<Rightarrow> caseClaimed next e
      | EventStarted \<Rightarrow> caseStarted next e
      | EventCheckpointed \<Rightarrow> caseCheckpointed next e
      | EventSubmitted \<Rightarrow> caseSubmitted next e
      | EventReviewed \<Rightarrow> caseReviewed next e
      | EventCompleted \<Rightarrow> caseCompleted next e
      | EventFailed \<Rightarrow> caseFailed next e
      | EventExpired \<Rightarrow> caseExpired next e
      | t \<Rightarrow> Inl (''unsupported event type '' @ eventTypeText t))"

definition Apply :: "Handoff \<Rightarrow> EventRecord \<Rightarrow> Handoff \<times> Decision" where
  "Apply m e =
     (let next = hydrateFlags m in
      if transportResult (ev_Type e) then
        (case validateTransportActor e of
           Some err \<Rightarrow> (next, rejectDecision (h_State next) err)
         | None \<Rightarrow> (next, acceptDecision (h_State next)))
      else
        (case dispatchCase next e of
           Inl reason \<Rightarrow> (next, rejectDecision (h_State next) reason)
         | Inr n \<Rightarrow>
             let n = hydrateFlags (n\<lparr>h_StateVersion := h_StateVersion n + 1\<rparr>)
             in (n, acceptDecision (h_State n))))"

definition NewStateMachine :: "Handoff \<Rightarrow> Handoff" where
  "NewStateMachine h =
     hydrateFlags (if h_State h = StateUnset then h\<lparr>h_State := StateCreated\<rparr> else h)"

definition accepts :: "Handoff \<Rightarrow> EventRecord \<Rightarrow> bool" where
  "accepts m e = dec_Accepted (snd (Apply m e))"

definition machine_next :: "Handoff \<Rightarrow> EventRecord \<Rightarrow> Handoff" where
  "machine_next m e = (if accepts m e then fst (Apply m e) else m)"

section \<open>Replay\<close>

definition event_key :: "EventRecord \<Rightarrow> time \<times> time \<times> string" where
  "event_key e = (ev_IngestedAt e, ev_ProducerEventTime e, ev_ID e)"

fun replay_run :: "Handoff \<Rightarrow> EventRecord list \<Rightarrow> Handoff \<times> Decision list" where
  "replay_run m [] = (m, [])"
| "replay_run m (e # es) =
     (let (m', ds) = replay_run (machine_next m e) es in (m', snd (Apply m e) # ds))"

definition Replay :: "Handoff \<Rightarrow> EventRecord list \<Rightarrow> Handoff \<times> Decision list" where
  "Replay initial events = replay_run (NewStateMachine initial) (sort_key event_key events)"

end
