(* ===== verification/Orch_Lifecycle.thy ===== *)
theory Orch_Lifecycle
  imports Orch_StateMachine
begin

text \<open>
  The lifecycle behind \<open>state_machine.go\<close>: the invariant of a handoff that only the machine
  has changed, the abstract transition relation the machine refines, what a step never
  changes, and the events that stand behind every progress flag. The proofs split a step
  with \<open>machine_next_cases\<close> and read each accepted event off the \<open>apply_cases\<close> equations.
\<close>

section \<open>Hydration\<close>

named_theorems apply_cases \<open>unfolding of one event application\<close>

lemmas hydrate_simps = hydrateFlags_def

lemma hydrate_frame [simp]:
  "h_State (hydrateFlags h) = h_State h"
  "h_StateVersion (hydrateFlags h) = h_StateVersion h"
  "h_ReviewDecision (hydrateFlags h) = h_ReviewDecision h"
  "h_ArtifactCount (hydrateFlags h) = h_ArtifactCount h"
  "h_TaskKind (hydrateFlags h) = h_TaskKind h"
  "h_ArtifactPolicy (hydrateFlags h) = h_ArtifactPolicy h"
  "h_NeedsReview (hydrateFlags h) = h_NeedsReview h"
  "h_ReceiverActor (hydrateFlags h) = h_ReceiverActor h"
  "h_ReviewerActor (hydrateFlags h) = h_ReviewerActor h"
  "h_CurrentOwner (hydrateFlags h) = h_CurrentOwner h"
  "h_LeaseHolder (hydrateFlags h) = h_LeaseHolder h"
  "h_DeliveryTargetRef (hydrateFlags h) = h_DeliveryTargetRef h"
  by (simp_all add: hydrateFlags_def split: HandoffState.split)

lemma requires_hydrate [simp]:
  "requiresArtifacts (hydrateFlags h) = requiresArtifacts h"
  "requiresReview (hydrateFlags h) = requiresReview h"
  "requiresSubmitted (hydrateFlags h) = requiresSubmitted h"
  by (simp_all add: requiresArtifacts_def requiresReview_def requiresSubmitted_def)

lemma hydrate_idem [simp]: "hydrateFlags (hydrateFlags h) = hydrateFlags h"
  by (cases "h_State h") (simp_all add: hydrateFlags_def requiresSubmitted_def requiresArtifacts_def requiresReview_def)

section \<open>The lifecycle invariant\<close>

definition flag_chain :: "Handoff \<Rightarrow> bool" where
  "flag_chain h \<longleftrightarrow>
     (h_HasReviewed h \<longrightarrow> h_HasSubmitted h) \<and> (h_HasSubmitted h \<longrightarrow> h_HasCheckpointed h) \<and>
     (h_HasCheckpointed h \<longrightarrow> h_HasStarted h) \<and> (h_HasStarted h \<longrightarrow> h_HasClaimed h) \<and>
     (h_HasClaimed h \<longrightarrow> h_HasReceived h) \<and>
     (if h_HasReviewed h then isValidReviewDecision (h_ReviewDecision h)
      else h_ReviewDecision h = ReviewUnset)"

definition state_flags :: "Handoff \<Rightarrow> bool" where
  "state_flags h \<longleftrightarrow>
     (case h_State h of
        StateUnset \<Rightarrow> False
      | StateCreated \<Rightarrow> \<not> h_HasReceived h
      | StateDispatched \<Rightarrow> \<not> h_HasReceived h
      | StateReceived \<Rightarrow> h_HasReceived h \<and> \<not> h_HasClaimed h
      | StateClaimed \<Rightarrow> h_HasClaimed h \<and> \<not> h_HasStarted h
      | StateStarted \<Rightarrow> h_HasStarted h \<and> \<not> h_HasCheckpointed h
      | StateCheckpointed \<Rightarrow> h_HasCheckpointed h \<and> \<not> h_HasSubmitted h
      | StateSubmitted \<Rightarrow> h_HasSubmitted h \<and> \<not> h_HasReviewed h
      | StateReviewed \<Rightarrow> h_HasReviewed h
      | StateCompleted \<Rightarrow> validateCompletionPrereqs h = None
      | StateFailed \<Rightarrow> True
      | StateExpired \<Rightarrow> True)"

definition lifecycle_wf :: "Handoff \<Rightarrow> bool" where
  "lifecycle_wf h \<longleftrightarrow> flag_chain h \<and> state_flags h"

lemma wf_hydrated: "lifecycle_wf h \<Longrightarrow> hydrateFlags h = h"
  by (cases "h_State h")
    (auto simp: lifecycle_wf_def flag_chain_def state_flags_def hydrateFlags_def
      validateCompletionPrereqs_def requiresSubmitted_def split: if_splits)

lemma caseTransportRequested_Inr [apply_cases]:
  "caseTransportRequested m e = Inr n \<longleftrightarrow>
     validateTransportActor e = None \<and> h_State m = StateCreated \<and> n = m\<lparr>h_State := StateDispatched\<rparr>"
  by (auto simp: caseTransportRequested_def split: option.splits)

lemma caseReceived_Inr [apply_cases]:
  "caseReceived m e = Inr n \<longleftrightarrow>
     validateReceiverActor m e = None
     \<and> (h_State m = StateDispatched \<or> h_State m = StateCreated \<and> h_DeliveryTargetRef m = [])
     \<and> n = m\<lparr>h_State := StateReceived, h_HasReceived := True\<rparr>"
  by (auto simp: caseReceived_def split: option.splits)

definition lease_started :: "EventRecord \<Rightarrow> time" where
  "lease_started e = (if is_zero (ev_IngestedAt e) then ev_ProducerEventTime e else ev_IngestedAt e)"

definition with_lease :: "EventRecord \<Rightarrow> Handoff \<Rightarrow> Handoff" where
  "with_lease e h = (if is_zero (lease_started e) then h
     else h\<lparr>h_LeasedAt := Some (lease_started e),
            h_LeaseExpiresAt := Some (lease_started e + defaultHandoffLeaseTTL)\<rparr>)"

lemma caseClaimed_Inr [apply_cases]:
  "caseClaimed m e = Inr n \<longleftrightarrow>
     validateWorkerActor m e ''claimed'' = None \<and> h_State m = StateReceived
     \<and> n = with_lease e (m\<lparr>h_State := StateClaimed, h_HasReceived := True, h_HasClaimed := True,
             h_CurrentOwner := ev_SubjectActor e, h_LeaseHolder := ev_SubjectActor e\<rparr>)"
  by (auto simp: caseClaimed_def with_lease_def lease_started_def Let_def split: option.splits)

lemma caseStarted_Inr [apply_cases]:
  "caseStarted m e = Inr n \<longleftrightarrow>
     validateWorkerActor m e ''started'' = None \<and> h_State m = StateClaimed
     \<and> n = markStarted (m\<lparr>h_State := StateStarted\<rparr>)"
  by (auto simp: caseStarted_def split: option.splits)

lemma caseCheckpointed_Inr [apply_cases]:
  "caseCheckpointed m e = Inr n \<longleftrightarrow>
     validateWorkerActor m e ''checkpointed'' = None \<and> (h_State m = StateStarted \<or> revisionRequested m)
     \<and> n = (markCheckpointed (m\<lparr>h_State := StateCheckpointed\<rparr>))\<lparr>
            h_HasSubmitted := False, h_HasReviewed := False, h_ReviewDecision := ReviewUnset\<rparr>"
  by (auto simp: caseCheckpointed_def split: option.splits)

lemma caseSubmitted_Inr [apply_cases]:
  "caseSubmitted m e = Inr n \<longleftrightarrow>
     validateWorkerActor m e ''submitted'' = None \<and> (h_State m = StateCheckpointed \<or> revisionRequested m)
     \<and> n = (markSubmitted (m\<lparr>h_State := StateSubmitted\<rparr>))\<lparr>
            h_HasReviewed := False, h_ReviewDecision := ReviewUnset,
            h_ArtifactCount := (if ev_ArtifactCount e > 0 then ev_ArtifactCount e else h_ArtifactCount m)\<rparr>"
  by (auto simp: caseSubmitted_def split: option.splits)

lemma caseReviewed_Inr [apply_cases]:
  "caseReviewed m e = Inr n \<longleftrightarrow>
     validateReviewerActor m e = None \<and> h_State m = StateSubmitted
     \<and> isValidReviewDecision (ev_ReviewDecision e)
     \<and> n = (markReviewed (m\<lparr>h_State := StateReviewed\<rparr>))\<lparr>h_ReviewDecision := ev_ReviewDecision e\<rparr>"
  by (auto simp: caseReviewed_def split: option.splits)

lemma caseCompleted_Inr [apply_cases]:
  "caseCompleted m e = Inr n \<longleftrightarrow>
     validateWorkerActor m e ''completed'' = None \<and> canTransitionToCompleted m
     \<and> validateCompletionPrereqs m = None
     \<and> n = m\<lparr>h_State := StateCompleted,
            h_CompletedAt := (if \<not> is_zero (ev_ProducerEventTime e) then Some (ev_ProducerEventTime e)
                              else if \<not> is_zero (ev_IngestedAt e) then Some (ev_IngestedAt e)
                              else h_CompletedAt m)\<rparr>"
  by (auto simp: caseCompleted_def split: option.splits)

lemma caseFailed_Inr [apply_cases]:
  "caseFailed m e = Inr n \<longleftrightarrow>
     validateWorkerActor m e ''failed'' = None \<and> canTransitionToFailed (h_State m)
     \<and> n = m\<lparr>h_State := StateFailed\<rparr>"
  by (auto simp: caseFailed_def split: option.splits)

lemma caseExpired_Inr [apply_cases]:
  "caseExpired m e = Inr n \<longleftrightarrow>
     validateSystemActor e expiredSystemActors
       ''expired requires watchdog or workflow-controller system actor'' = None
     \<and> canTransitionToExpired (h_State m) \<and> n = m\<lparr>h_State := StateExpired\<rparr>"
  by (auto simp: caseExpired_def split: option.splits)

lemma with_lease_frame [simp]:
  "h_State (with_lease e h) = h_State h" "h_StateVersion (with_lease e h) = h_StateVersion h"
  "h_ReviewDecision (with_lease e h) = h_ReviewDecision h"
  "h_HasReceived (with_lease e h) = h_HasReceived h" "h_HasClaimed (with_lease e h) = h_HasClaimed h"
  "h_HasStarted (with_lease e h) = h_HasStarted h"
  "h_HasCheckpointed (with_lease e h) = h_HasCheckpointed h"
  "h_HasSubmitted (with_lease e h) = h_HasSubmitted h"
  "h_HasReviewed (with_lease e h) = h_HasReviewed h"
  by (simp_all add: with_lease_def)

text \<open>The event types that advance the lifecycle, with the state each leads to.\<close>

fun target_state :: "EventType \<Rightarrow> HandoffState option" where
  "target_state EventTransportRequested = Some StateDispatched"
| "target_state EventReceived = Some StateReceived"
| "target_state EventClaimed = Some StateClaimed"
| "target_state EventStarted = Some StateStarted"
| "target_state EventCheckpointed = Some StateCheckpointed"
| "target_state EventSubmitted = Some StateSubmitted"
| "target_state EventReviewed = Some StateReviewed"
| "target_state EventCompleted = Some StateCompleted"
| "target_state EventFailed = Some StateFailed"
| "target_state EventExpired = Some StateExpired"
| "target_state _ = None"

lemma dispatchCase_target:
  "dispatchCase m e = Inr n \<Longrightarrow> target_state (ev_Type e) = Some (h_State n)"
  by (cases "ev_Type e") (simp_all add: dispatchCase_def apply_cases)

lemma prereqs_cong:
  "h_HasReceived h = h_HasReceived k \<Longrightarrow> h_HasClaimed h = h_HasClaimed k \<Longrightarrow>
   h_HasStarted h = h_HasStarted k \<Longrightarrow> h_HasCheckpointed h = h_HasCheckpointed k \<Longrightarrow>
   h_HasSubmitted h = h_HasSubmitted k \<Longrightarrow> h_HasReviewed h = h_HasReviewed k \<Longrightarrow>
   h_TaskKind h = h_TaskKind k \<Longrightarrow> h_ArtifactPolicy h = h_ArtifactPolicy k \<Longrightarrow>
   h_NeedsReview h = h_NeedsReview k \<Longrightarrow> h_ArtifactCount h = h_ArtifactCount k \<Longrightarrow>
   h_ReviewDecision h = h_ReviewDecision k \<Longrightarrow>
   validateCompletionPrereqs h = validateCompletionPrereqs k"
  by (simp add: validateCompletionPrereqs_def requiresSubmitted_def requiresArtifacts_def
      requiresReview_def requiredArtifactCount_def)

lemma prereqs_None:
  "validateCompletionPrereqs h = None \<longleftrightarrow>
     h_HasReceived h \<and> h_HasClaimed h \<and> h_HasStarted h \<and> h_HasCheckpointed h
     \<and> (requiresSubmitted h \<longrightarrow> h_HasSubmitted h)
     \<and> (requiresArtifacts h \<longrightarrow> requiredArtifactCount h \<le> h_ArtifactCount h)
     \<and> (requiresReview h \<longrightarrow> h_HasReviewed h \<and> h_ReviewDecision h = ReviewDecisionApproved)"
  by (auto simp: validateCompletionPrereqs_def)

lemma wf_completed:
  assumes "caseCompleted m e = Inr n" and "lifecycle_wf m"
  shows "lifecycle_wf (n\<lparr>h_StateVersion := v\<rparr>)"
proof -
  from assms(1) obtain t where n: "n = m\<lparr>h_State := StateCompleted, h_CompletedAt := t\<rparr>"
    and "validateCompletionPrereqs m = None"
    unfolding caseCompleted_Inr by blast
  then have "validateCompletionPrereqs (n\<lparr>h_StateVersion := v\<rparr>) = None"
    using prereqs_cong [of "n\<lparr>h_StateVersion := v\<rparr>" m] by simp
  with assms(2) n show ?thesis by (simp add: lifecycle_wf_def flag_chain_def state_flags_def)
qed

lemma dispatchCase_wf:
  assumes "dispatchCase m e = Inr n" and "lifecycle_wf m"
  shows "lifecycle_wf (n\<lparr>h_StateVersion := h_StateVersion n + 1\<rparr>)"
proof (cases "ev_Type e = EventCompleted")
  case True
  with assms show ?thesis by (auto simp: dispatchCase_def intro: wf_completed)
next
  case False
  with assms show ?thesis
    by (cases "ev_Type e")
      (auto simp: dispatchCase_def apply_cases lifecycle_wf_def flag_chain_def state_flags_def
        revisionRequested_def)
qed

section \<open>The machine step\<close>

definition bump :: "Handoff \<Rightarrow> Handoff" where
  "bump n = hydrateFlags (n\<lparr>h_StateVersion := h_StateVersion n + 1\<rparr>)"

lemma Apply_transport:
  "transportResult (ev_Type e) \<Longrightarrow> Apply m e =
     (hydrateFlags m, case validateTransportActor e of
        Some err \<Rightarrow> rejectDecision (h_State m) err | None \<Rightarrow> acceptDecision (h_State m))"
  by (simp add: Apply_def split: option.split)

lemma Apply_lifecycle:
  "\<not> transportResult (ev_Type e) \<Longrightarrow> Apply m e =
     (case dispatchCase (hydrateFlags m) e of
        Inl reason \<Rightarrow> (hydrateFlags m, rejectDecision (h_State m) reason)
      | Inr n \<Rightarrow> (bump n, acceptDecision (h_State n)))"
  by (simp add: Apply_def bump_def Let_def split: sum.split)

lemma accepts_iff:
  "accepts m e \<longleftrightarrow>
     (if transportResult (ev_Type e) then validateTransportActor e = None
      else \<exists>n. dispatchCase (hydrateFlags m) e = Inr n)"
  by (auto simp: accepts_def Apply_transport Apply_lifecycle acceptDecision_def rejectDecision_def
      split: option.split sum.split)

lemma machine_next_Inr:
  "\<not> transportResult (ev_Type e) \<Longrightarrow> dispatchCase (hydrateFlags m) e = Inr n \<Longrightarrow>
   machine_next m e = bump n"
  by (simp add: machine_next_def accepts_iff Apply_lifecycle)

lemma machine_next_reject: "\<not> accepts m e \<Longrightarrow> machine_next m e = m"
  by (simp add: machine_next_def)

lemma machine_next_transport:
  "transportResult (ev_Type e) \<Longrightarrow> lifecycle_wf m \<Longrightarrow> machine_next m e = m"
  by (simp add: machine_next_def Apply_transport wf_hydrated)

lemma bump_wf: "dispatchCase m e = Inr n \<Longrightarrow> lifecycle_wf m \<Longrightarrow>
    bump n = n\<lparr>h_StateVersion := h_StateVersion n + 1\<rparr> \<and> lifecycle_wf (bump n)"
  by (simp add: bump_def dispatchCase_wf wf_hydrated)

text \<open>The case split every proof on a step uses: rejected, a transport result, or a lifecycle event.\<close>

lemma machine_next_cases [consumes 1, case_names rejected transport advance]:
  assumes "lifecycle_wf m"
  obtains "\<not> accepts m e" and "machine_next m e = m"
  | "accepts m e" and "transportResult (ev_Type e)" and "machine_next m e = m"
  | n where "accepts m e" and "\<not> transportResult (ev_Type e)" and "dispatchCase m e = Inr n"
      and "machine_next m e = n\<lparr>h_StateVersion := h_StateVersion n + 1\<rparr>"
      and "lifecycle_wf (n\<lparr>h_StateVersion := h_StateVersion n + 1\<rparr>)"
proof (cases "accepts m e")
  case False
  then show thesis by (intro that(1)) (simp_all add: machine_next_reject)
next
  case acc: True
  show thesis
  proof (cases "transportResult (ev_Type e)")
    case True
    with acc assms show thesis by (intro that(2)) (simp_all add: machine_next_transport)
  next
    case False
    with acc assms obtain n where n: "dispatchCase m e = Inr n"
      by (auto simp: accepts_iff wf_hydrated)
    with False assms have "machine_next m e = bump n" by (simp add: machine_next_Inr wf_hydrated)
    with acc False n assms bump_wf [OF n assms] show thesis by (intro that(3)) auto
  qed
qed

lemma machine_next_wf: "lifecycle_wf m \<Longrightarrow> lifecycle_wf (machine_next m e)"
  by (cases rule: machine_next_cases [of m e]) simp_all

fun final_state :: "HandoffState \<Rightarrow> bool" where
  "final_state StateCompleted = True"
| "final_state StateFailed = True"
| "final_state StateExpired = True"
| "final_state _ = False"

lemma final_refuses: "final_state (h_State m) \<Longrightarrow> dispatchCase m e \<noteq> Inr n"
  by (cases "ev_Type e"; cases "h_State m")
    (simp_all add: dispatchCase_def apply_cases revisionRequested_def canTransitionToCompleted_def)

lemma final_stays: "lifecycle_wf m \<Longrightarrow> final_state (h_State m) \<Longrightarrow> machine_next m e = m"
  by (cases rule: machine_next_cases [of m e]) (simp_all add: final_refuses)

interpretation handoff_machine: guarded_machine
  "\<lambda>m e. (machine_next m e, accepts m e)" lifecycle_wf "\<lambda>m. final_state (h_State m)"
  by unfold_locales (simp_all add: machine_next_wf machine_next_reject final_stays)


section \<open>The abstract lifecycle\<close>

inductive lifecycle :: "HandoffState \<Rightarrow> EventType \<Rightarrow> HandoffState \<Rightarrow> bool" where
  dispatch: "lifecycle StateCreated EventTransportRequested StateDispatched"
| receive: "lifecycle StateDispatched EventReceived StateReceived"
| receive_direct: "lifecycle StateCreated EventReceived StateReceived"
| claim: "lifecycle StateReceived EventClaimed StateClaimed"
| start: "lifecycle StateClaimed EventStarted StateStarted"
| checkpoint: "lifecycle StateStarted EventCheckpointed StateCheckpointed"
| revise: "lifecycle StateReviewed EventCheckpointed StateCheckpointed"
| submit: "lifecycle StateCheckpointed EventSubmitted StateSubmitted"
| resubmit: "lifecycle StateReviewed EventSubmitted StateSubmitted"
| review: "lifecycle StateSubmitted EventReviewed StateReviewed"
| complete_checkpointed: "lifecycle StateCheckpointed EventCompleted StateCompleted"
| complete_submitted: "lifecycle StateSubmitted EventCompleted StateCompleted"
| complete_reviewed: "lifecycle StateReviewed EventCompleted StateCompleted"
| fail: "canTransitionToFailed s \<Longrightarrow> lifecycle s EventFailed StateFailed"
| expire: "canTransitionToExpired s \<Longrightarrow> lifecycle s EventExpired StateExpired"

inductive_cases lifecycle_from_final:
  "lifecycle StateCompleted t s" "lifecycle StateFailed t s" "lifecycle StateExpired t s"

inductive_simps lifecycle_completed: "lifecycle s t StateCompleted"

lemma lifecycle_final: "final_state s \<Longrightarrow> \<not> lifecycle s t s'"
  by (cases s) (auto elim: lifecycle_from_final)

lemma dispatchCase_lifecycle:
  "dispatchCase m e = Inr n \<Longrightarrow> lifecycle (h_State m) (ev_Type e) (h_State n)"
  by (cases "ev_Type e"; cases "h_State m")
    (auto simp: dispatchCase_def apply_cases revisionRequested_def canTransitionToCompleted_def
      intro: lifecycle.intros)

lemma accepted_step_refines:
  assumes "lifecycle_wf m" and "accepts m e"
  shows "if transportResult (ev_Type e)
         then machine_next m e = m
         else lifecycle (h_State m) (ev_Type e) (h_State (machine_next m e))
              \<and> h_StateVersion (machine_next m e) = h_StateVersion m + 1"
proof -
  have version: "h_StateVersion n = h_StateVersion m" if "dispatchCase m e = Inr n" for n
    using that by (cases "ev_Type e") (auto simp: dispatchCase_def apply_cases)
  show ?thesis
    using assms(1)
  proof (cases rule: machine_next_cases [of m e])
    case (advance n)
    then show ?thesis using dispatchCase_lifecycle version by auto
  qed (use assms in auto)
qed

section \<open>What a step never changes\<close>

definition same_terms :: "Handoff \<Rightarrow> Handoff \<Rightarrow> bool" where
  "same_terms h k \<longleftrightarrow> h_ID h = h_ID k \<and> h_WorkflowID h = h_WorkflowID k
     \<and> h_DependsOnHandoffIDs h = h_DependsOnHandoffIDs k
     \<and> h_TaskKind h = h_TaskKind k \<and> h_ArtifactPolicy h = h_ArtifactPolicy k
     \<and> h_NeedsReview h = h_NeedsReview k \<and> h_ReceiverActor h = h_ReceiverActor k
     \<and> h_ReviewerActor h = h_ReviewerActor k \<and> h_DeliveryTargetRef h = h_DeliveryTargetRef k
     \<and> h_RequiredForWorkflowCompletion h = h_RequiredForWorkflowCompletion k"

lemma same_terms_refl [simp]: "same_terms h h"
  by (simp add: same_terms_def)

lemma same_terms_trans: "same_terms h k \<Longrightarrow> same_terms k l \<Longrightarrow> same_terms h l"
  by (auto simp: same_terms_def)

lemma same_terms_requires:
  "same_terms h k \<Longrightarrow> requiresReview h = requiresReview k"
  "same_terms h k \<Longrightarrow> requiresArtifacts h = requiresArtifacts k"
  "same_terms h k \<Longrightarrow> requiresSubmitted h = requiresSubmitted k"
  "same_terms h k \<Longrightarrow> requiredArtifactCount h = requiredArtifactCount k"
  by (auto simp: same_terms_def requiresReview_def requiresArtifacts_def requiresSubmitted_def
      requiredArtifactCount_def)

lemma dispatchCase_terms: "dispatchCase m e = Inr n \<Longrightarrow> same_terms n m"
  by (cases "ev_Type e") (auto simp: dispatchCase_def apply_cases same_terms_def with_lease_def)

lemma machine_next_terms:
  assumes "lifecycle_wf m"
  shows "same_terms (machine_next m e) m"
  using assms
proof (cases rule: machine_next_cases [of m e])
  case (advance n)
  then show ?thesis using dispatchCase_terms [of m e n] by (simp add: same_terms_def)
qed simp_all

section \<open>Runs\<close>

definition run :: "Handoff \<Rightarrow> EventRecord list \<Rightarrow> Handoff" where
  "run m es = fold (\<lambda>e m. machine_next m e) es m"

fun accepted_events :: "Handoff \<Rightarrow> EventRecord list \<Rightarrow> EventRecord list" where
  "accepted_events m [] = []"
| "accepted_events m (e # es) =
     (if accepts m e then e # accepted_events (machine_next m e) es
      else accepted_events m es)"

lemma run_simps [simp]:
  "run m [] = m" "run m (e # es) = run (machine_next m e) es"
  "run m (es @ es') = run (run m es) es'"
  by (simp_all add: run_def)

lemma replay_run_eq: "fst (replay_run m es) = run m es"
  by (induction es arbitrary: m) (simp_all add: case_prod_beta Let_def)

lemma run_wf: "lifecycle_wf m \<Longrightarrow> lifecycle_wf (run m es)"
  using handoff_machine.run_inv by (simp add: run_def)

lemma run_final: "lifecycle_wf m \<Longrightarrow> final_state (h_State m) \<Longrightarrow> run m es = m"
  using handoff_machine.run_stuck by (simp add: run_def)

lemma run_terms: "lifecycle_wf m \<Longrightarrow> same_terms (run m es) m"
proof (induction es arbitrary: m)
  case (Cons e es)
  then show ?case
    using machine_next_terms [of m e] machine_next_wf [of m e] by (auto intro: same_terms_trans)
qed simp

lemma accepted_subset: "set (accepted_events m es) \<subseteq> set es"
  by (induction m es rule: accepted_events.induct) auto

section \<open>The evidence behind a state\<close>

text \<open>
  \<open>evidenced R m A\<close>: every progress flag of \<open>m\<close> is backed by an event of \<open>A\<close>, and its review
  decision by a review event with that decision whose subject is a reviewer of \<open>R\<close>.
\<close>

definition reviewed_in :: "EventRecord set \<Rightarrow> ReviewDecision \<Rightarrow> (ActorRef \<Rightarrow> bool) \<Rightarrow> bool" where
  "reviewed_in A d R \<longleftrightarrow>
     (\<exists>e\<in>A. ev_Type e = EventReviewed \<and> ev_ReviewDecision e = d \<and> R (ev_SubjectActor e))"

definition reviewer_within :: "Handoff \<Rightarrow> (ActorRef \<Rightarrow> bool) \<Rightarrow> bool" where
  "reviewer_within m R \<longleftrightarrow> (\<forall>a. sameRole a (h_ReviewerActor m) \<longrightarrow> R a)"

definition evidenced :: "(ActorRef \<Rightarrow> bool) \<Rightarrow> Handoff \<Rightarrow> EventRecord set \<Rightarrow> bool" where
  "evidenced R m A \<longleftrightarrow>
     (h_HasReceived m \<longrightarrow> EventReceived \<in> ev_Type ` A) \<and>
     (h_HasClaimed m \<longrightarrow> EventClaimed \<in> ev_Type ` A) \<and>
     (h_HasStarted m \<longrightarrow> EventStarted \<in> ev_Type ` A) \<and>
     (h_HasCheckpointed m \<longrightarrow> EventCheckpointed \<in> ev_Type ` A) \<and>
     (h_HasSubmitted m \<longrightarrow> EventSubmitted \<in> ev_Type ` A) \<and>
     (h_HasReviewed m \<longrightarrow> reviewed_in A (h_ReviewDecision m) R) \<and>
     (h_State m = StateCompleted \<longrightarrow> EventCompleted \<in> ev_Type ` A)"

lemma reviewed_in_insert: "reviewed_in A d R \<Longrightarrow> reviewed_in (insert e A) d R"
  by (auto simp: reviewed_in_def)

lemma reviewed_in_new:
  "validateReviewerActor m e = None \<Longrightarrow> ev_Type e = EventReviewed \<Longrightarrow> reviewer_within m R \<Longrightarrow>
   reviewed_in (insert e A) (ev_ReviewDecision e) R"
  by (auto simp: reviewed_in_def reviewer_within_def validateReviewerActor_def Let_def split: if_splits)

lemma evidenced_more:
  "evidenced R m A \<Longrightarrow> evidenced R m (insert e A)"
  by (auto simp: evidenced_def reviewed_in_insert)

lemma flags_of_state:
  assumes "flag_chain m" and "state_flags m"
  shows "h_State m = StateReceived \<Longrightarrow> h_HasReceived m"
    and "h_State m = StateClaimed \<Longrightarrow> h_HasReceived m \<and> h_HasClaimed m"
    and "h_State m = StateStarted \<Longrightarrow> h_HasReceived m \<and> h_HasClaimed m \<and> h_HasStarted m"
    and "h_State m = StateCheckpointed \<Longrightarrow>
      h_HasReceived m \<and> h_HasClaimed m \<and> h_HasStarted m \<and> h_HasCheckpointed m"
    and "h_State m = StateSubmitted \<Longrightarrow>
      h_HasReceived m \<and> h_HasClaimed m \<and> h_HasStarted m \<and> h_HasCheckpointed m \<and> h_HasSubmitted m"
    and "h_State m = StateReviewed \<Longrightarrow> h_HasReceived m \<and> h_HasClaimed m \<and> h_HasStarted m
      \<and> h_HasCheckpointed m \<and> h_HasSubmitted m \<and> h_HasReviewed m"
  using assms by (auto simp: flag_chain_def state_flags_def)

lemma evidenced_dispatch:
  assumes d: "dispatchCase m e = Inr n" and wf: "flag_chain m" "state_flags m" and ev: "evidenced R m A"
    and rev: "reviewer_within m R"
  shows "evidenced R n (insert e A)"
proof -
  note fl = flags_of_state [OF wf]
  note ev' = evidenced_more [OF ev, of e, unfolded evidenced_def]
  show ?thesis
  proof (cases "ev_Type e")
    case EventClaimed
    with d ev' fl show ?thesis
      by (simp add: dispatchCase_def apply_cases) (auto simp: evidenced_def with_lease_def)
  next
    case EventReviewed
    with d ev' fl rev show ?thesis
      by (simp add: dispatchCase_def apply_cases) (auto simp: evidenced_def reviewed_in_new)
  next
    case EventCheckpointed
    with d ev' fl show ?thesis
      by (simp add: dispatchCase_def apply_cases) (auto simp: evidenced_def revisionRequested_def)
  next
    case EventSubmitted
    with d ev' fl show ?thesis
      by (simp add: dispatchCase_def apply_cases) (auto simp: evidenced_def revisionRequested_def)
  next
    case EventStarted
    with d ev' fl show ?thesis
      by (simp add: dispatchCase_def apply_cases) (auto simp: evidenced_def)
  qed (use d ev' in \<open>simp_all add: dispatchCase_def apply_cases evidenced_def\<close>)
qed

lemma evidenced_step:
  assumes "lifecycle_wf m" and "evidenced R m A" and "reviewer_within m R"
  shows "evidenced R (machine_next m e) (if accepts m e then insert e A else A)"
  using assms(1)
proof (cases rule: machine_next_cases [of m e])
  case (advance n)
  with assms have "evidenced R n (insert e A)"
    by (intro evidenced_dispatch) (auto simp: lifecycle_wf_def)
  with advance show ?thesis by (simp add: evidenced_def)
qed (use assms in \<open>auto simp: evidenced_def reviewed_in_insert\<close>)

lemma evidenced_run:
  "lifecycle_wf m \<Longrightarrow> evidenced R m A \<Longrightarrow> reviewer_within m R \<Longrightarrow>
   evidenced R (run m es) (A \<union> set (accepted_events m es))"
proof (induction es arbitrary: m A)
  case (Cons e es)
  from Cons.prems have "evidenced R (machine_next m e) (if accepts m e then insert e A else A)"
    by (rule evidenced_step)
  moreover have "reviewer_within (machine_next m e) R"
    using machine_next_terms [OF Cons.prems(1)] Cons.prems(3)
    by (simp add: reviewer_within_def same_terms_def)
  ultimately show ?case
    using Cons.IH [OF machine_next_wf [OF Cons.prems(1)]]
    by (fastforce simp: machine_next_reject split: if_splits)
qed simp

end
