(* ===== verification/Orch_Completion.thy ===== *)
theory Orch_Completion
  imports Orch_Lifecycle
begin

text \<open>
  What the lifecycle of \<open>state_machine.go\<close> amounts to: the exact condition under which an
  event is accepted (an edge of the lifecycle, its side condition, the authority of the
  reporting actor), the evidence behind a completed handoff, replay of a set of events,
  and the handoffs that can still be completed.
\<close>

section \<open>Completion needs the whole history\<close>

lemma fresh_evidenced:
  "lifecycle_wf m \<Longrightarrow> h_State m = StateCreated \<Longrightarrow> evidenced R m {}"
  by (auto simp: lifecycle_wf_def flag_chain_def state_flags_def evidenced_def)

lemma completion_evidence:
  assumes wf: "lifecycle_wf m" and fresh: "h_State m = StateCreated"
    and completed: "h_State (run m es) = StateCompleted"
  shows "{EventReceived, EventClaimed, EventStarted, EventCheckpointed, EventCompleted}
           \<subseteq> ev_Type ` set (accepted_events m es)
    \<and> (requiresSubmitted m \<longrightarrow> EventSubmitted \<in> ev_Type ` set (accepted_events m es))
    \<and> (requiresArtifacts m \<longrightarrow> requiredArtifactCount m \<le> h_ArtifactCount (run m es))
    \<and> (requiresReview m \<longrightarrow>
         reviewed_in (set (accepted_events m es)) ReviewDecisionApproved
           (\<lambda>a. sameRole a (h_ReviewerActor m)))"
proof -
  let ?m = "run m es"
  let ?R = "\<lambda>a. sameRole a (h_ReviewerActor m)"
  have ev: "evidenced ?R ?m (set (accepted_events m es))"
    using evidenced_run [OF wf fresh_evidenced [OF wf fresh], of ?R] by (simp add: reviewer_within_def)
  have terms: "same_terms ?m m" by (rule run_terms [OF wf])
  have "state_flags ?m" using run_wf [OF wf] by (simp add: lifecycle_wf_def)
  with completed have pre: "validateCompletionPrereqs ?m = None" by (simp add: state_flags_def)
  with ev pre completed same_terms_requires [OF terms] show ?thesis
    by (auto simp: evidenced_def prereqs_None)
qed

section \<open>Authority\<close>

definition worker_authority :: "Handoff \<Rightarrow> EventRecord \<Rightarrow> bool" where
  "worker_authority m e \<longleftrightarrow> sameActor (ev_SubjectActor e) (ev_ProducerActor e)
     \<and> (sameActor (h_LeaseHolder m) (ev_ProducerActor e) \<or> sameActor (h_CurrentOwner m) (ev_ProducerActor e)
        \<or> sameActor (h_ReceiverActor m) (ev_ProducerActor e) \<or> workflowController (ev_ProducerActor e))"

definition named_authority :: "ActorRef \<Rightarrow> EventRecord \<Rightarrow> bool" where
  "named_authority r e \<longleftrightarrow> \<not> missingActor r \<and> sameRole (ev_SubjectActor e) r
     \<and> (sameRole (ev_ProducerActor e) r \<or> workflowController (ev_ProducerActor e))"

definition system_authority :: "string list \<Rightarrow> EventRecord \<Rightarrow> bool" where
  "system_authority ids e \<longleftrightarrow>
     actor_Type (ev_ProducerActor e) = ActorSystem \<and> actor_ID (ev_ProducerActor e) \<in> set ids"

lemma validateWorker_None: "validateWorkerActor m e a = None \<longleftrightarrow> worker_authority m e"
  by (auto simp: validateWorkerActor_def worker_authority_def missingActor_def sameActor_def
      workflowController_def Let_def split: if_splits)

lemma validateReceiver_None: "validateReceiverActor m e = None \<longleftrightarrow> named_authority (h_ReceiverActor m) e"
  by (auto simp: validateReceiverActor_def named_authority_def missingActor_def sameRole_def
      workflowController_def Let_def split: if_splits)

lemma validateReviewer_None: "validateReviewerActor m e = None \<longleftrightarrow> named_authority (h_ReviewerActor m) e"
  by (auto simp: validateReviewerActor_def named_authority_def missingActor_def sameRole_def
      workflowController_def Let_def split: if_splits)

lemma validateSystem_None: "validateSystemActor e ids r = None \<longleftrightarrow> system_authority ids e"
  by (auto simp: validateSystemActor_def system_authority_def)

lemmas authority_simps = validateWorker_None validateReceiver_None validateReviewer_None
  validateSystem_None validateTransportActor_def

fun authority :: "Handoff \<Rightarrow> EventRecord \<Rightarrow> EventType \<Rightarrow> bool" where
  "authority m e EventReceived = named_authority (h_ReceiverActor m) e"
| "authority m e EventReviewed = named_authority (h_ReviewerActor m) e"
| "authority m e EventExpired = system_authority expiredSystemActors e"
| "authority m e EventClaimed = worker_authority m e"
| "authority m e EventStarted = worker_authority m e"
| "authority m e EventCheckpointed = worker_authority m e"
| "authority m e EventSubmitted = worker_authority m e"
| "authority m e EventCompleted = worker_authority m e"
| "authority m e EventFailed = worker_authority m e"
| "authority m e t = system_authority transportSystemActors e"

lemma dispatchCase_authority: "dispatchCase m e = Inr n \<Longrightarrow> authority m e (ev_Type e)"
  by (cases "ev_Type e") (simp_all add: dispatchCase_def apply_cases authority_simps)

lemma accepts_authority:
  assumes "lifecycle_wf m" and "accepts m e"
  shows "authority m e (ev_Type e)"
proof (cases "transportResult (ev_Type e)")
  case True
  with assms(2) show ?thesis
    by (cases "ev_Type e") (simp_all add: accepts_iff authority_simps)
next
  case False
  with assms show ?thesis by (auto simp: accepts_iff wf_hydrated intro: dispatchCase_authority)
qed

text \<open>The complete acceptance condition: the edge of the lifecycle, its side conditions, the authority.\<close>

fun side_condition :: "Handoff \<Rightarrow> EventRecord \<Rightarrow> EventType \<Rightarrow> bool" where
  "side_condition m e EventReceived = (h_State m = StateCreated \<longrightarrow> h_DeliveryTargetRef m = [])"
| "side_condition m e EventCheckpointed = (h_State m = StateReviewed \<longrightarrow>
     h_ReviewDecision m = ReviewDecisionRevisionRequired)"
| "side_condition m e EventSubmitted = (h_State m = StateReviewed \<longrightarrow>
     h_ReviewDecision m = ReviewDecisionRevisionRequired)"
| "side_condition m e EventReviewed = isValidReviewDecision (ev_ReviewDecision e)"
| "side_condition m e EventCompleted = (canTransitionToCompleted m \<and> validateCompletionPrereqs m = None)"
| "side_condition m e t = True"

lemma dispatchCase_iff:
  "(\<exists>n. dispatchCase m e = Inr n) \<longleftrightarrow>
     (\<exists>s. lifecycle (h_State m) (ev_Type e) s) \<and> side_condition m e (ev_Type e)
     \<and> authority m e (ev_Type e)"
  (is "?accept = ?cond")
proof
  assume ?accept
  then obtain n where n: "dispatchCase m e = Inr n" by blast
  then have "side_condition m e (ev_Type e)"
    by (cases "ev_Type e") (auto simp: dispatchCase_def apply_cases revisionRequested_def)
  with n show ?cond using dispatchCase_lifecycle dispatchCase_authority by blast
next
  assume c: ?cond
  then obtain s where "lifecycle (h_State m) (ev_Type e) s" by blast
  then show ?accept
    using c
    by (cases rule: lifecycle.cases)
      (simp_all add: dispatchCase_def apply_cases authority_simps revisionRequested_def)
qed

lemma accepts_exactly:
  assumes "lifecycle_wf m" and "\<not> transportResult (ev_Type e)"
  shows "accepts m e \<longleftrightarrow> (\<exists>s. lifecycle (h_State m) (ev_Type e) s)
     \<and> side_condition m e (ev_Type e) \<and> authority m e (ev_Type e)"
  using assms by (simp add: accepts_iff wf_hydrated dispatchCase_iff)

lemma accepted_lands:
  assumes "lifecycle_wf m" and "accepts m e" and "target_state (ev_Type e) = Some s"
  shows "h_State (machine_next m e) = s"
  using assms(1)
proof (cases rule: machine_next_cases [of m e])
  case (advance n)
  with dispatchCase_target [of m e n] assms(3) show ?thesis by simp
qed (use assms in \<open>auto elim: transportResult.elims\<close>)

section \<open>Replay\<close>

lemma replay_decisions: "length (snd (replay_run m es)) = length es"
  by (induction es arbitrary: m) (simp_all add: case_prod_beta Let_def)

lemma Replay_run: "fst (Replay m es) = run (NewStateMachine m) (sort_key event_key es)"
  by (simp add: Replay_def replay_run_eq)

lemma NewStateMachine_wf: "lifecycle_wf m \<Longrightarrow> NewStateMachine m = m"
  by (auto simp: NewStateMachine_def wf_hydrated lifecycle_wf_def state_flags_def)

text \<open>The order in which the events are handed over does not matter.\<close>

lemma event_key_inj: "distinct (map ev_ID es) \<Longrightarrow> inj_on event_key (set es)"
  by (auto simp: event_key_def inj_on_def distinct_map)

lemma filter_eq_replicate: "filter (\<lambda>x. x = e) xs = replicate (count (mset xs) e) e"
  by (induction xs) auto

lemma Replay_permutation:
  assumes "mset es = mset es'" and "distinct (map ev_ID es)"
  shows "Replay m es = Replay m es'"
proof -
  have inj: "inj_on event_key (set es)" by (rule event_key_inj [OF assms(2)])
  have set: "set es = set es'" using assms(1) by (metis set_mset_mset)
  have "sort_key event_key es = sort_key event_key es'"
  proof (rule properties_for_sort_key)
    show "mset (sort_key event_key es') = mset es" using assms(1) by simp
    show "sorted (map event_key (sort_key event_key es'))" by simp
    fix e
    assume e: "e \<in> set (sort_key event_key es')"
    then have "filter (\<lambda>x. event_key e = event_key x) (sort_key event_key es') =
        filter (\<lambda>x. x = e) (sort_key event_key es')"
      using inj set by (intro filter_cong) (auto dest: inj_onD)
    moreover have "filter (\<lambda>x. event_key e = event_key x) es = filter (\<lambda>x. x = e) es"
      using inj set e by (intro filter_cong) (auto dest: inj_onD)
    moreover have "filter (\<lambda>x. x = e) (sort_key event_key es') = filter (\<lambda>x. x = e) es"
      using assms(1) by (simp add: filter_eq_replicate)
    ultimately show "filter (\<lambda>x. event_key e = event_key x) (sort_key event_key es') =
      filter (\<lambda>x. event_key e = event_key x) es" by simp
  qed
  then show ?thesis by (simp add: Replay_def)
qed

text \<open>Events that arrive in order replay to what applying them one by one gave.\<close>

lemma Replay_in_order:
  assumes "sorted (map event_key es)"
  shows "fst (Replay m es) = run (NewStateMachine m) es"
  using assms by (simp add: Replay_run sort_key_id_if_sorted sorted_sort_id)

lemma Replay_snoc:
  assumes "sorted (map event_key (es @ [e]))"
  shows "fst (Replay m (es @ [e])) = machine_next (fst (Replay m es)) e"
proof -
  from assms have "sorted (map event_key es)" by (simp add: sorted_append)
  with assms Replay_in_order show ?thesis by force
qed

section \<open>Which handoffs can still be completed\<close>

definition completable :: "Handoff \<Rightarrow> bool" where
  "completable m \<longleftrightarrow> (\<exists>es. h_State (run m es) = StateCompleted)"

definition enough_artifacts :: "Handoff \<Rightarrow> bool" where
  "enough_artifacts m \<longleftrightarrow> (requiresArtifacts m \<longrightarrow> requiredArtifactCount m \<le> h_ArtifactCount m)"

definition dead_review :: "Handoff \<Rightarrow> bool" where
  "dead_review m \<longleftrightarrow> h_State m = StateReviewed
     \<and> h_ReviewDecision m \<noteq> ReviewDecisionRevisionRequired
     \<and> \<not> (h_ReviewDecision m = ReviewDecisionApproved \<and> requiresReview m \<and> enough_artifacts m)"

definition doomed :: "Handoff \<Rightarrow> bool" where
  "doomed m \<longleftrightarrow> h_State m = StateFailed \<or> h_State m = StateExpired \<or> dead_review m"

lemma doomed_step: "lifecycle_wf m \<Longrightarrow> doomed m \<Longrightarrow> doomed (machine_next m e)"
proof (cases "dead_review m")
  case True
  assume wf: "lifecycle_wf m"
  then show ?thesis
  proof (cases rule: machine_next_cases [of m e])
    case (advance n)
    then have acc: "side_condition m e (ev_Type e)" and "\<exists>s. lifecycle (h_State m) (ev_Type e) s"
      using wf by (simp_all add: accepts_exactly)
    then obtain s where "lifecycle (h_State m) (ev_Type e) s" by blast
    then have "ev_Type e = EventFailed"
      using True acc
      by (cases rule: lifecycle.cases)
        (auto simp: dead_review_def canTransitionToCompleted_def prereqs_None enough_artifacts_def)
    then have "h_State (machine_next m e) = StateFailed"
      using accepted_lands [OF wf advance(1)] by simp
    then show ?thesis by (simp add: doomed_def)
  qed (use True in \<open>simp_all add: doomed_def\<close>)
next
  case False
  assume "lifecycle_wf m" "doomed m"
  with False show ?thesis using final_stays [of m e] by (auto simp: doomed_def)
qed

lemma doomed_never: "lifecycle_wf m \<Longrightarrow> doomed m \<Longrightarrow> \<not> completable m"
proof -
  assume "lifecycle_wf m" "doomed m"
  then have "doomed (run m es)" for es
    by (induction es arbitrary: m) (simp_all add: doomed_step machine_next_wf)
  then have "h_State (run m es) \<noteq> StateCompleted" for es
    unfolding doomed_def dead_review_def by (metis HandoffState.simps)
  then show ?thesis by (simp add: completable_def)
qed

definition ready :: "Handoff \<Rightarrow> bool" where
  "ready m \<longleftrightarrow> lifecycle_wf m \<and> \<not> missingActor (h_ReceiverActor m) \<and> \<not> missingActor (h_ReviewerActor m)"

definition worker_event :: "Handoff \<Rightarrow> EventType \<Rightarrow> EventRecord" where
  "worker_event m t = NoEvent\<lparr>ev_Type := t, ev_ProducerActor := h_ReceiverActor m,
     ev_SubjectActor := h_ReceiverActor m, ev_ArtifactCount := requiredArtifactCount m\<rparr>"

definition review_event :: "Handoff \<Rightarrow> ReviewDecision \<Rightarrow> EventRecord" where
  "review_event m d = NoEvent\<lparr>ev_Type := EventReviewed, ev_ProducerActor := h_ReviewerActor m,
     ev_SubjectActor := h_ReviewerActor m, ev_ReviewDecision := d\<rparr>"

definition dispatch_event :: EventRecord where
  "dispatch_event = NoEvent\<lparr>ev_Type := EventTransportRequested,
     ev_ProducerActor := ActorOf ActorSystem ''orchestrator''\<rparr>"

lemma event_types [simp]:
  "ev_Type (worker_event m t) = t" "ev_Type (review_event m d) = EventReviewed"
  "ev_Type dispatch_event = EventTransportRequested" "ev_ReviewDecision (review_event m d) = d"
  "ev_ArtifactCount (worker_event m t) = requiredArtifactCount m"
  by (simp_all add: worker_event_def review_event_def dispatch_event_def)

lemma event_authority:
  assumes "ready m"
  shows "worker_authority m (worker_event m t)" "named_authority (h_ReceiverActor m) (worker_event m t)"
    "named_authority (h_ReviewerActor m) (review_event m d)"
    "system_authority transportSystemActors dispatch_event"
  using assms
  by (auto simp: ready_def worker_authority_def named_authority_def system_authority_def
      worker_event_def review_event_def dispatch_event_def missingActor_def sameActor_def sameRole_def
      ActorOf_def transportSystemActors_def)

lemma completable_step: "completable (machine_next m e) \<Longrightarrow> completable m"
  unfolding completable_def by (metis run_simps(2))

lemma take_step:
  assumes "ready m" and "\<not> transportResult (ev_Type e)" and "target_state (ev_Type e) = Some s"
    and "lifecycle (h_State m) (ev_Type e) s" and "side_condition m e (ev_Type e)"
    and "authority m e (ev_Type e)"
  shows "accepts m e" "ready (machine_next m e)" "h_State (machine_next m e) = s"
    "same_terms (machine_next m e) m"
proof -
  have wf: "lifecycle_wf m" using assms(1) by (simp add: ready_def)
  show acc: "accepts m e" using assms by (auto simp: accepts_exactly [OF wf])
  show terms: "same_terms (machine_next m e) m" by (rule machine_next_terms [OF wf])
  show "h_State (machine_next m e) = s" using accepted_lands [OF wf acc] assms(3) by simp
  show "ready (machine_next m e)"
    using assms(1) machine_next_wf [OF wf] terms by (simp add: ready_def same_terms_def)
qed

lemma step_decision:
  assumes "lifecycle_wf m" and "accepts m e" and "ev_Type e = EventReviewed"
  shows "h_ReviewDecision (machine_next m e) = ev_ReviewDecision e
    \<and> h_ArtifactCount (machine_next m e) = h_ArtifactCount m"
  using assms(1) by (cases rule: machine_next_cases [of m e])
    (use assms in \<open>auto simp: dispatchCase_def apply_cases\<close>)

lemma step_artifacts:
  assumes "lifecycle_wf m" and "accepts m e" and "ev_Type e = EventSubmitted"
  shows "h_ArtifactCount (machine_next m e) =
    (if ev_ArtifactCount e > 0 then ev_ArtifactCount e else h_ArtifactCount m)"
  using assms(1) by (cases rule: machine_next_cases [of m e])
    (use assms in \<open>auto simp: dispatchCase_def apply_cases\<close>)

lemma required_positive: "requiresArtifacts m \<Longrightarrow> 0 < requiredArtifactCount m"
  by (auto simp: requiresArtifacts_def requiredArtifactCount_def)

lemma complete_now:
  assumes "ready m" and "canTransitionToCompleted m" and "validateCompletionPrereqs m = None"
  shows "completable m"
proof -
  have "lifecycle (h_State m) EventCompleted StateCompleted"
    using assms(2) by (cases "h_State m") (auto simp: canTransitionToCompleted_def intro: lifecycle.intros)
  then have "h_State (machine_next m (worker_event m EventCompleted)) = StateCompleted"
    using assms event_authority [OF assms(1)] by (intro take_step(3)) simp_all
  then have "h_State (run m [worker_event m EventCompleted]) = StateCompleted" by simp
  then show ?thesis unfolding completable_def by blast
qed

lemma ready_flags: "ready m \<Longrightarrow> flag_chain m \<and> state_flags m"
  by (simp add: ready_def lifecycle_wf_def)

lemma completable_approved:
  assumes "ready m" and "h_State m = StateReviewed" and "h_ReviewDecision m = ReviewDecisionApproved"
    and "requiresReview m" and "enough_artifacts m"
  shows "completable m"
  using assms flags_of_state(6) [of m] ready_flags [of m]
  by (intro complete_now) (auto simp: canTransitionToCompleted_def prereqs_None enough_artifacts_def)

lemma completable_submitted_enough:
  assumes r: "ready m" and s: "h_State m = StateSubmitted" and a: "enough_artifacts m"
  shows "completable m"
proof (cases "requiresReview m")
  case False
  with assms flags_of_state(5) [of m] ready_flags [of m] show ?thesis
    by (intro complete_now) (auto simp: canTransitionToCompleted_def prereqs_None enough_artifacts_def)
next
  case True
  let ?e = "review_event m ReviewDecisionApproved"
  have st: "accepts m ?e" "ready (machine_next m ?e)" "h_State (machine_next m ?e) = StateReviewed"
    "same_terms (machine_next m ?e) m"
    using r s event_authority [OF r]
    by (auto intro!: take_step lifecycle.intros)
  have "h_ReviewDecision (machine_next m ?e) = ReviewDecisionApproved"
    "h_ArtifactCount (machine_next m ?e) = h_ArtifactCount m"
    using r st(1) step_decision [of m ?e] by (simp_all add: ready_def)
  with st True a have "completable (machine_next m ?e)"
    by (intro completable_approved) (simp_all add: enough_artifacts_def same_terms_requires)
  then show ?thesis by (rule completable_step)
qed

lemma completable_by_submitting:
  assumes r: "ready m" and s: "h_State m = StateCheckpointed \<or> revisionRequested m"
  shows "completable m"
proof -
  let ?e = "worker_event m EventSubmitted"
  have "lifecycle (h_State m) EventSubmitted StateSubmitted"
    using s by (auto simp: revisionRequested_def intro: lifecycle.intros)
  then have st: "accepts m ?e" "ready (machine_next m ?e)" "h_State (machine_next m ?e) = StateSubmitted"
    "same_terms (machine_next m ?e) m"
    using r s event_authority [OF r] by (auto intro!: take_step simp: revisionRequested_def)
  have "h_ArtifactCount (machine_next m ?e) =
      (if requiredArtifactCount m > 0 then requiredArtifactCount m else h_ArtifactCount m)"
    using r st(1) step_artifacts [of m ?e] by (simp add: ready_def)
  with st have "completable (machine_next m ?e)"
    by (intro completable_submitted_enough)
      (auto simp: enough_artifacts_def same_terms_requires dest: required_positive)
  then show ?thesis by (rule completable_step)
qed

lemma completable_submitted:
  assumes r: "ready m" and s: "h_State m = StateSubmitted"
  shows "completable m"
proof -
  let ?e = "review_event m ReviewDecisionRevisionRequired"
  have st: "accepts m ?e" "ready (machine_next m ?e)" "h_State (machine_next m ?e) = StateReviewed"
    using r s event_authority [OF r] by (auto intro!: take_step lifecycle.intros)
  moreover have "h_ReviewDecision (machine_next m ?e) = ReviewDecisionRevisionRequired"
    using r st(1) step_decision [of m ?e] by (simp add: ready_def)
  ultimately have "completable (machine_next m ?e)"
    by (intro completable_by_submitting) (simp_all add: revisionRequested_def)
  then show ?thesis by (rule completable_step)
qed

text \<open>The states before a checkpoint: one worker event leads to the next.\<close>

lemma completable_worker_step:
  assumes "ready m" and "lifecycle (h_State m) t s" and "target_state t = Some s"
    and "t \<in> {EventReceived, EventClaimed, EventStarted, EventCheckpointed}"
    and "side_condition m (worker_event m t) t"
    and next_ok: "\<And>m'. ready m' \<Longrightarrow> h_State m' = s \<Longrightarrow> completable m'"
  shows "completable m"
proof -
  have "ready (machine_next m (worker_event m t))" "h_State (machine_next m (worker_event m t)) = s"
    using assms(1-5) event_authority [OF assms(1)] by (auto intro!: take_step)
  then show ?thesis by (intro completable_step [OF next_ok])
qed

lemma completable_before_checkpoint:
  "ready m \<Longrightarrow> h_State m = StateStarted \<Longrightarrow> completable m"
  "ready m \<Longrightarrow> h_State m = StateClaimed \<Longrightarrow> completable m"
  "ready m \<Longrightarrow> h_State m = StateReceived \<Longrightarrow> completable m"
  "ready m \<Longrightarrow> h_State m = StateDispatched \<Longrightarrow> completable m"
proof -
  have a: "completable m" if "ready m" "h_State m = StateStarted" for m
    using that by (intro completable_worker_step [of m EventCheckpointed StateCheckpointed])
      (auto intro: lifecycle.intros completable_by_submitting)
  have b: "completable m" if "ready m" "h_State m = StateClaimed" for m
    using that by (intro completable_worker_step [of m EventStarted StateStarted])
      (auto intro: lifecycle.intros a)
  have c: "completable m" if "ready m" "h_State m = StateReceived" for m
    using that by (intro completable_worker_step [of m EventClaimed StateClaimed])
      (auto intro: lifecycle.intros b)
  have d: "completable m" if "ready m" "h_State m = StateDispatched" for m
    using that by (intro completable_worker_step [of m EventReceived StateReceived])
      (auto intro: lifecycle.intros c)
  show "ready m \<Longrightarrow> h_State m = StateStarted \<Longrightarrow> completable m" by (rule a)
  show "ready m \<Longrightarrow> h_State m = StateClaimed \<Longrightarrow> completable m" by (rule b)
  show "ready m \<Longrightarrow> h_State m = StateReceived \<Longrightarrow> completable m" by (rule c)
  show "ready m \<Longrightarrow> h_State m = StateDispatched \<Longrightarrow> completable m" by (rule d)
qed

lemma completable_created:
  assumes "ready m" and "h_State m = StateCreated"
  shows "completable m"
proof (rule completable_step [OF completable_before_checkpoint(4)])
  show "ready (machine_next m dispatch_event)"
    "h_State (machine_next m dispatch_event) = StateDispatched"
    using assms event_authority [OF assms(1)] by (auto intro!: take_step lifecycle.intros)
qed

lemma completable_iff:
  assumes "ready m"
  shows "completable m \<longleftrightarrow> \<not> doomed m"
proof
  assume "completable m"
  then show "\<not> doomed m" using doomed_never assms by (auto simp: ready_def)
next
  assume alive: "\<not> doomed m"
  have "h_State m \<noteq> StateUnset" using ready_flags [OF assms] by (auto simp: state_flags_def)
  moreover have "completable m" if "h_State m = StateCompleted"
    using that unfolding completable_def by (intro exI [of _ "[]"]) simp
  moreover have "completable m" if "h_State m = StateReviewed"
    using that alive assms completable_approved completable_by_submitting
    by (cases "h_ReviewDecision m = ReviewDecisionRevisionRequired")
      (auto simp: doomed_def dead_review_def revisionRequested_def)
  ultimately show "completable m"
    using alive assms completable_before_checkpoint completable_created completable_submitted
      completable_by_submitting
    by (cases "h_State m") (auto simp: doomed_def)
qed

end
