(* ===== verification/Orch_Signals.thy ===== *)
theory Orch_Signals
  imports Orch_Completion
begin

text \<open>
  \<open>internal/orchestrator/ids.go\<close>, \<open>signals.go\<close>, \<open>repair.go\<close> and
  \<open>workflow_projection.go\<close>: fresh identifiers, which events are only signals, the repair
  candidates a signal gives rise to, the invalidation record, and the projection of a
  workflow's status from its handoffs.
\<close>

section \<open>Identifiers\<close>

definition unix_epoch :: time where
  "unix_epoch = 62135596800 * second"

definition UnixNano :: "time \<Rightarrow> int" where
  "UnixNano t = wrap64 (t - unix_epoch)"

definition fallbackID :: "string \<Rightarrow> time \<Rightarrow> string" where
  "fallbackID prefix now = prefix @ ''_'' @ formatInt (UnixNano now)"

definition NewID :: "string \<Rightarrow> ('db, string) op" where
  "NewID prefix w =
     (case w_uuid w (w_ids w) of
        Some u \<Rightarrow> (Inr (prefix @ ''_'' @ u), w\<lparr>w_ids := Suc (w_ids w)\<rparr>)
      | None \<Rightarrow> (Inr (fallbackID prefix (w_clock w (w_tick w))),
                 w\<lparr>w_ids := Suc (w_ids w), w_tick := Suc (w_tick w)\<rparr>))"

lemma guarantees_NewID [vcg]: "(\<And>i. i \<noteq> [] \<Longrightarrow> Q i d) \<Longrightarrow> guarantees (NewID p) Q E d"
  by (rule guaranteesI) (auto simp: NewID_def fallbackID_def split: option.splits)

lemma NewID_result: "\<exists>i w'. NewID p w = (Inr i, w') \<and> hasPrefix i p \<and> w_db w' = w_db w"
  by (auto simp: NewID_def fallbackID_def hasPrefix_def strip_prefix_append split: option.split)

section \<open>Signals\<close>

fun observedSignalKindForEvent :: "EventType \<Rightarrow> string option" where
  "observedSignalKindForEvent EventTransportAccepted = Some ''transport_accepted''"
| "observedSignalKindForEvent EventTransportRejected = Some ''transport_rejected''"
| "observedSignalKindForEvent EventTransportTimeout = Some ''transport_timeout''"
| "observedSignalKindForEvent EventTransportDeliveryConfirmed = Some ''transport_delivery_confirmed''"
| "observedSignalKindForEvent EventReminderSent = Some ''reminder_sent''"
| "observedSignalKindForEvent EventWatchTriggered = Some ''watch_triggered''"
| "observedSignalKindForEvent EventEscalationOpened = Some ''escalation_opened''"
| "observedSignalKindForEvent EventEscalationResolved = Some ''escalation_resolved''"
| "observedSignalKindForEvent _ = None"

definition isObservedSignalEvent :: "EventType \<Rightarrow> bool" where
  "isObservedSignalEvent t = (observedSignalKindForEvent t \<noteq> None)"

definition BuildRepairCandidates :: "Handoff \<Rightarrow> ObservedSignal \<Rightarrow> time \<Rightarrow> ('db, RepairCandidate list) op" where
  "BuildRepairCandidates h s now =
     bindE (NewID ''repaircand'') (\<lambda>i.
       let candidate = (\<lambda>reason action. \<lparr>rc_ID = i, rc_HandoffID = h_ID h, rc_WorkflowID = h_WorkflowID h,
             rc_SignalID = sig_ID s, rc_Reason = reason, rc_SuggestedAction = action,
             rc_Status = RepairCandidateOpen, rc_Details = [(''signal_kind'', JString (sig_Kind s))],
             rc_CreatedAt = now\<rparr>) in
       ret (if sig_Kind s \<in> {''transport_accepted'', ''transport_delivery_confirmed''} then
              (if h_State h = StateDispatched \<or> h_State h = StateCreated
               then [candidate RepairCandidateMissingAuthoritativeProgress RepairSuggestedActionReview] else [])
            else if sig_Kind s = ''transport_timeout'' then
              (if h_HasClaimed h \<or> h_HasStarted h \<or> h_HasCheckpointed h \<or> h_HasSubmitted h
                  \<or> h_HasReviewed h \<or> h_State h = StateCompleted
               then [candidate RepairCandidateLateTransportSignal RepairSuggestedActionReview] else [])
            else if sig_Kind s \<in> {''reminder_sent'', ''watch_triggered'', ''escalation_opened''} then
              [candidate RepairCandidateWatchdogEscalation RepairSuggestedActionEscalate]
            else []))"

definition BuildDefaultRepairRecords ::
  "string \<Rightarrow> string \<Rightarrow> string \<Rightarrow> ActorRef \<Rightarrow> time \<Rightarrow> ('db, RepairRecord list) op" where
  "BuildDefaultRepairRecords eventID handoffID reason actor now =
     bindE (NewID ''repair'') (\<lambda>i.
       ret [\<lparr>repair_ID = i, repair_Action = ''invalidate_event'', repair_TargetType = ''event'',
             repair_TargetID = eventID, repair_Reason = reason, repair_RequestedBy = actor,
             repair_CreatedAt = now, repair_InvalidatesID = eventID, repair_ReplacementID = [],
             repair_ReopenedState = []\<rparr>])"

text \<open>A signal never moves the machine: it is a transport result, or no lifecycle event at all.\<close>

lemma signal_never_advances:
  "isObservedSignalEvent (ev_Type e) \<Longrightarrow> lifecycle_wf m \<Longrightarrow> machine_next m e = m"
proof (cases "transportResult (ev_Type e)")
  case False
  assume "isObservedSignalEvent (ev_Type e)" "lifecycle_wf m"
  with False have "\<not> accepts m e"
    by (cases "ev_Type e") (auto simp: isObservedSignalEvent_def accepts_iff dispatchCase_def)
  then show ?thesis by (rule machine_next_reject)
qed (rule machine_next_transport)

lemma guarantees_candidates [vcg]:
  assumes "\<And>cs. (\<forall>c\<in>set cs. rc_HandoffID c = h_ID h \<and> rc_WorkflowID c = h_WorkflowID h
      \<and> rc_SignalID c = sig_ID s \<and> rc_Status c = RepairCandidateOpen) \<Longrightarrow> length cs \<le> 1 \<Longrightarrow> Q cs d"
  shows "guarantees (BuildRepairCandidates h s now) Q E d"
  unfolding BuildRepairCandidates_def Let_def by (intro vcg assms) simp_all

lemma guarantees_repairs [vcg]:
  assumes "\<And>r. repair_Action r = ''invalidate_event'' \<Longrightarrow> repair_InvalidatesID r = eventID \<Longrightarrow> Q [r] d"
  shows "guarantees (BuildDefaultRepairRecords eventID handoffID reason actor now) Q E d"
  unfolding BuildDefaultRepairRecords_def by (intro vcg assms) simp_all

section \<open>Workflow projection\<close>

definition handoffsByID :: "Handoff list \<Rightarrow> string \<Rightarrow> Handoff option" where
  "handoffsByID hs i = find_by h_ID i (rev hs)"

definition dependency_open :: "(string \<Rightarrow> Handoff option) \<Rightarrow> string \<Rightarrow> bool" where
  "dependency_open byID i = (case byID i of None \<Rightarrow> True | Some k \<Rightarrow> h_State k \<noteq> StateCompleted)"

definition laterCompletion :: "Handoff \<Rightarrow> time option \<Rightarrow> time option" where
  "laterCompletion h latest =
     (case h_CompletedAt h of
        None \<Rightarrow> latest
      | Some t \<Rightarrow> (case latest of None \<Rightarrow> Some t | Some l \<Rightarrow> if t > l then Some t else latest))"

text \<open>The loop over the required handoffs: \<open>None\<close> is the early return with \<open>WorkflowFailed\<close>.\<close>

fun projectLoop :: "(string \<Rightarrow> Handoff option) \<Rightarrow> Handoff list \<Rightarrow> bool \<Rightarrow> bool \<Rightarrow> time option
    \<Rightarrow> (bool \<times> bool \<times> time option) option" where
  "projectLoop byID [] blocked allDone latest = Some (blocked, allDone, latest)"
| "projectLoop byID (h # hs) blocked allDone latest =
     (if h_State h = StateFailed \<or> h_State h = StateExpired then None
      else let blocked' = (blocked \<or> list_ex (dependency_open byID) (h_DependsOnHandoffIDs h)) in
        if h_State h \<noteq> StateCompleted then projectLoop byID hs blocked' False latest
        else projectLoop byID hs blocked' allDone (laterCompletion h latest))"

definition ProjectWorkflow :: "Workflow \<Rightarrow> Handoff list \<Rightarrow> time \<Rightarrow> Workflow" where
  "ProjectWorkflow w hs now =
     (let p = w\<lparr>wf_UpdatedAt := now, wf_CompletedAt := None\<rparr>;
          required = filter h_RequiredForWorkflowCompletion hs in
      if required = [] then p\<lparr>wf_Status := WorkflowActive\<rparr>
      else case projectLoop (handoffsByID hs) required False True None of
             None \<Rightarrow> p\<lparr>wf_Status := WorkflowFailed\<rparr>
           | Some (blocked, allDone, latest) \<Rightarrow>
               if blocked then p\<lparr>wf_Status := WorkflowBlocked\<rparr>
               else if allDone then p\<lparr>wf_Status := WorkflowCompleted, wf_CompletedAt := latest\<rparr>
               else p\<lparr>wf_Status := WorkflowActive\<rparr>)"

text \<open>What the status means, as sets of handoffs.\<close>

definition required_of :: "Handoff list \<Rightarrow> Handoff set" where
  "required_of hs = {h \<in> set hs. h_RequiredForWorkflowCompletion h}"

definition completions :: "Handoff set \<Rightarrow> time set" where
  "completions H = {t. \<exists>h\<in>H. h_CompletedAt h = Some t}"

definition latest_of :: "time set \<Rightarrow> time option" where
  "latest_of T = (if T = {} then None else Some (Max T))"

definition projected_status :: "Handoff list \<Rightarrow> WorkflowStatus" where
  "projected_status hs =
     (let R = required_of hs in
      if R = {} then WorkflowActive
      else if \<exists>h\<in>R. h_State h = StateFailed \<or> h_State h = StateExpired then WorkflowFailed
      else if \<exists>h\<in>R. \<exists>i\<in>set (h_DependsOnHandoffIDs h). dependency_open (handoffsByID hs) i
      then WorkflowBlocked
      else if \<forall>h\<in>R. h_State h = StateCompleted then WorkflowCompleted
      else WorkflowActive)"

lemma projectLoop_None:
  "projectLoop byID hs b a l = None \<longleftrightarrow> (\<exists>h\<in>set hs. h_State h = StateFailed \<or> h_State h = StateExpired)"
  by (induction hs arbitrary: b a l) (auto simp: Let_def)

lemma projectLoop_Some:
  assumes "projectLoop byID hs b a l = Some (b', a', l')"
  shows "b' \<longleftrightarrow> b \<or> (\<exists>h\<in>set hs. \<exists>i\<in>set (h_DependsOnHandoffIDs h). dependency_open byID i)"
    and "a' \<longleftrightarrow> a \<and> (\<forall>h\<in>set hs. h_State h = StateCompleted)"
  using assms
proof (induction hs arbitrary: b a l)
  case (Cons h hs)
  {
    case 1
    with Cons.IH(1) show ?case by (fastforce simp: Let_def list_ex_iff split: if_splits)
  next
    case 2
    with Cons.IH(2) show ?case by (fastforce simp: Let_def split: if_splits)
  }
qed simp_all

lemma laterCompletion_latest:
  "finite T \<Longrightarrow> laterCompletion h (latest_of T) = latest_of (T \<union> completions {h})"
proof (cases "h_CompletedAt h")
  case None
  then have "completions {h} = {}" by (simp add: completions_def)
  with None show ?thesis by (simp add: laterCompletion_def)
next
  case (Some t)
  then have "completions {h} = {t}" by (auto simp: completions_def)
  moreover assume fin: "finite T"
  moreover have "Max (insert t T) = (if t > Max T then t else Max T)" if "T \<noteq> {}"
    using fin that by (simp add: max_def del: Max_less_iff)
  ultimately show ?thesis
    using Some by (cases "T = {}") (simp_all add: laterCompletion_def latest_of_def del: Max_insert Max_less_iff)
qed

lemma projectLoop_latest:
  "projectLoop byID hs b a (latest_of T) = Some (b', True, l') \<Longrightarrow> finite T \<Longrightarrow>
   l' = latest_of (T \<union> completions (set hs))"
proof (induction hs arbitrary: b a T)
  case Nil
  then show ?case by (simp add: completions_def)
next
  case (Cons h hs)
  have "\<not> (h_State h \<noteq> StateCompleted)"
    using projectLoop_Some(2) [OF Cons.prems(1)] by simp
  with Cons.prems have "projectLoop byID hs (b \<or> list_ex (dependency_open byID) (h_DependsOnHandoffIDs h)) a
      (latest_of (T \<union> completions {h})) = Some (b', True, l')"
    by (simp add: laterCompletion_latest)
  moreover have "finite (T \<union> completions {h})"
    using Cons.prems(2) by (cases "h_CompletedAt h") (auto simp: completions_def)
  ultimately have "l' = latest_of (T \<union> completions {h} \<union> completions (set hs))" by (rule Cons.IH)
  moreover have "T \<union> completions {h} \<union> completions (set hs) = T \<union> completions (set (h # hs))"
    by (auto simp: completions_def)
  ultimately show ?case by simp
qed

lemma ProjectWorkflow_status: "wf_Status (ProjectWorkflow w hs now) = projected_status hs"
proof (cases "projectLoop (handoffsByID hs) (filter h_RequiredForWorkflowCompletion hs) False True None")
  case None
  then have "\<exists>h\<in>required_of hs. h_State h = StateFailed \<or> h_State h = StateExpired"
    by (auto simp: projectLoop_None required_of_def)
  with None show ?thesis
    by (auto simp: ProjectWorkflow_def projected_status_def required_of_def filter_empty_conv Let_def)
next
  case (Some r)
  then obtain b a l where r: "projectLoop (handoffsByID hs) (filter h_RequiredForWorkflowCompletion hs)
      False True None = Some (b, a, l)" by (cases r) auto
  have "\<not> (\<exists>h\<in>set (filter h_RequiredForWorkflowCompletion hs). h_State h = StateFailed \<or> h_State h = StateExpired)"
    using projectLoop_None r by (metis option.distinct(1))
  with r projectLoop_Some [OF r] show ?thesis
    unfolding ProjectWorkflow_def projected_status_def required_of_def
    by (simp add: filter_empty_conv Let_def) (auto simp: Let_def)
qed

lemma ProjectWorkflow_completed:
  assumes "wf_Status (ProjectWorkflow w hs now) = WorkflowCompleted"
  shows "wf_CompletedAt (ProjectWorkflow w hs now) = latest_of (completions (required_of hs))"
proof -
  let ?R = "filter h_RequiredForWorkflowCompletion hs"
  from assms obtain l where "?R \<noteq> []"
    and l: "projectLoop (handoffsByID hs) ?R False True None = Some (False, True, l)"
    by (auto simp: ProjectWorkflow_def Let_def split: if_splits option.splits prod.splits)
  moreover have "l = latest_of ({} \<union> completions (set ?R))"
    using l by (intro projectLoop_latest) (simp_all add: latest_of_def)
  ultimately show ?thesis by (simp add: ProjectWorkflow_def Let_def required_of_def)
qed

lemma ProjectWorkflow_open:
  "wf_Status (ProjectWorkflow w hs now) \<noteq> WorkflowCompleted \<Longrightarrow> wf_CompletedAt (ProjectWorkflow w hs now) = None"
  by (auto simp: ProjectWorkflow_def Let_def split: option.splits)

lemma handoffsByID_set:
  assumes "set hs = set hs'" and "distinct (map h_ID hs)" and "distinct (map h_ID hs')"
  shows "handoffsByID hs i = handoffsByID hs' i"
proof (cases "\<exists>h\<in>set hs. h_ID h = i")
  case True
  then obtain h where h: "h \<in> set hs" "h_ID h = i" by blast
  have "find_by h_ID (h_ID h) (rev hs) = Some h" "find_by h_ID (h_ID h) (rev hs') = Some h"
    using assms h by (auto intro!: find_by_unique simp: rev_map [symmetric])
  with h show ?thesis by (simp add: handoffsByID_def)
next
  case False
  with assms(1) have "find_by h_ID i (rev hs) = None" "find_by h_ID i (rev hs') = None"
    by (auto simp: scan_simps)
  then show ?thesis by (simp add: handoffsByID_def)
qed

end
