(* ===== verification/Orch_Store.thy ===== *)
theory Orch_Store
  imports Orch_Signals
begin

text \<open>
  \<open>internal/orchestrator/store.go\<close>: the SQLite store. A table is the list of its rows in
  insertion order; a row is the struct that the code writes and reads back (the JSON columns
  by \<open>encoding/json\<close>, the time columns as \<open>RFC3339Nano\<close> text, whose round trip is
  \<open>parse_format_time\<close>). Primary keys, foreign keys and the partial unique index on
  accepted events are checked by the insert statements; \<open>ORDER BY\<close> on a time column
  compares the text.
\<close>

section \<open>Tables\<close>

record a2aInboundTaskCreationRecord =
  cr_IdempotencyKey :: string
  cr_PayloadHash :: string
  cr_WorkflowID :: string
  cr_HandoffID :: string
  cr_CreatedAt :: time

record collaborationTemplateApplicationRecord =
  ta_IdempotencyKey :: string
  ta_PayloadHash :: string
  ta_TemplateName :: string
  ta_WorkflowID :: string
  ta_HandoffIDs :: "string list"
  ta_CreatedAt :: time

record store =
  st_workflows :: "Workflow list"
  st_agents :: "AgentRegistration list"
  st_handoffs :: "Handoff list"
  st_accepted :: "EventRecord list"
  st_audit :: "EventRecord list"
  st_attempts :: "DispatchAttempt list"
  st_artifacts :: "Artifact list"
  st_creations :: "a2aInboundTaskCreationRecord list"
  st_applications :: "collaborationTemplateApplicationRecord list"
  st_watches :: "Watch list"
  st_divergences :: "ObserverHint list"
  st_repairs :: "RepairRecord list"
  st_bindings :: "OwnershipBinding list"
  st_signals :: "ObservedSignal list"
  st_candidates :: "RepairCandidate list"

definition empty_store :: store where
  "empty_store = \<lparr>st_workflows = [], st_agents = [], st_handoffs = [], st_accepted = [], st_audit = [],
     st_attempts = [], st_artifacts = [], st_creations = [], st_applications = [], st_watches = [],
     st_divergences = [], st_repairs = [], st_bindings = [], st_signals = [], st_candidates = []\<rparr>"

type_synonym 'a sop = "(store, 'a) op"

definition agent_ID :: "AgentRegistration \<Rightarrow> string" where
  "agent_ID a = actor_ID (agent_Actor a)"

definition has_workflow :: "store \<Rightarrow> string \<Rightarrow> bool" where
  "has_workflow d i = (find_by wf_ID i (st_workflows d) \<noteq> None)"

definition has_handoff :: "store \<Rightarrow> string \<Rightarrow> bool" where
  "has_handoff d i = (find_by h_ID i (st_handoffs d) \<noteq> None)"

text \<open>The constraints of an insert, in the order SQLite checks them.\<close>

fun violation :: "(bool \<times> string) list \<Rightarrow> string option" where
  "violation [] = None"
| "violation ((broken, text) # cs) = (if broken then Some text else violation cs)"

definition UNIQUE :: "bool \<Rightarrow> string \<Rightarrow> bool \<times> string" where
  "UNIQUE taken column = (taken, ''UNIQUE constraint failed: '' @ column)"

definition REFERENCES :: "bool \<Rightarrow> bool \<times> string" where
  "REFERENCES exists = (\<not> exists, ''FOREIGN KEY constraint failed'')"

definition insertE :: "(store \<Rightarrow> (bool \<times> string) list) \<Rightarrow> (store \<Rightarrow> store) \<Rightarrow> unit sop" where
  "insertE constraints put =
     statement (\<lambda>d. case violation (constraints d) of
       Some text \<Rightarrow> Inl (ErrConstraint text) | None \<Rightarrow> Inr ((), put d))"

text \<open>An \<open>UPDATE\<close> with its \<open>RowsAffected\<close>; a \<open>SELECT\<close> of many rows with its \<open>rows.Err\<close>; of one row.\<close>

definition updateE :: "string \<Rightarrow> string \<Rightarrow> (store \<Rightarrow> nat) \<Rightarrow> (store \<Rightarrow> store) \<Rightarrow> nat sop" where
  "updateE label affected rows put =
     bindE (wrapE label (statement (\<lambda>d. Inr (rows d, put d)))) (\<lambda>n.
     wrapE affected (query (\<lambda>_. n)))"

definition selectE :: "string \<Rightarrow> string \<Rightarrow> (store \<Rightarrow> 'r list) \<Rightarrow> 'r list sop" where
  "selectE label iterate rows =
     bindE (wrapE label (query rows)) (\<lambda>rs. wrapE iterate (query (\<lambda>_. rs)))"

definition queryRowE :: "(store \<Rightarrow> 'r option) \<Rightarrow> 'r sop" where
  "queryRowE row =
     statement (\<lambda>d. case row d of None \<Rightarrow> Inl ErrNoRows | Some r \<Rightarrow> Inr (r, d))"

definition order_by :: "('r \<Rightarrow> time) \<Rightarrow> ('r \<Rightarrow> string) \<Rightarrow> 'r list \<Rightarrow> 'r list" where
  "order_by t i rows = sort_key (\<lambda>r. (formatTime (t r), i r)) rows"

section \<open>Workflows and agents\<close>

definition saveWorkflowExec :: "Workflow \<Rightarrow> unit sop" where
  "saveWorkflowExec w = wrapE (''save workflow '' @ wf_ID w)
     (modify (\<lambda>d. d\<lparr>st_workflows := upsert_by wf_ID (\<lambda>_. w) w (st_workflows d)\<rparr>))"

definition SaveWorkflow :: "Workflow \<Rightarrow> unit sop" where
  "SaveWorkflow w = saveWorkflowExec w"

definition UpdateWorkflow :: "Workflow \<Rightarrow> unit sop" where
  "UpdateWorkflow w = SaveWorkflow w"

definition loadWorkflowTx :: "string \<Rightarrow> Workflow sop" where
  "loadWorkflowTx i = wrapE (''load workflow '' @ i)
     (queryRowE (\<lambda>d. find_by wf_ID i (st_workflows d)))"

definition LoadWorkflow :: "string \<Rightarrow> Workflow sop" where
  "LoadWorkflow i = wrapE (''load workflow '' @ i)
     (queryRowE (\<lambda>d. find_by wf_ID i (st_workflows d)))"

definition queryStringColumn :: "string \<Rightarrow> (store \<Rightarrow> string list) \<Rightarrow> string list sop" where
  "queryStringColumn label rows = selectE (''query '' @ label) (''iterate '' @ label) rows"

definition ListWorkflows :: "Workflow list sop" where
  "ListWorkflows =
     bindE (queryStringColumn ''workflow ids''
       (\<lambda>d. map wf_ID (order_by wf_CreatedAt wf_ID (st_workflows d)))) (\<lambda>ids. mapE LoadWorkflow ids)"

definition saveAgentRegistrationExec :: "AgentRegistration \<Rightarrow> unit sop" where
  "saveAgentRegistrationExec a = wrapE (''save agent '' @ agent_ID a)
     (modify (\<lambda>d. d\<lparr>st_agents :=
        upsert_by agent_ID (\<lambda>old. a\<lparr>agent_CreatedAt := agent_CreatedAt old\<rparr>) a (st_agents d)\<rparr>))"

definition SaveAgentRegistration :: "AgentRegistration \<Rightarrow> unit sop" where
  "SaveAgentRegistration a = saveAgentRegistrationExec a"

definition agentMatchesFilter :: "AgentRegistration \<Rightarrow> AgentListFilter \<Rightarrow> bool" where
  "agentMatchesFilter a f =
     (if alf_Capability f \<noteq> [] \<and> alf_Capability f \<notin> set (agent_Capabilities a) then False
      else if alf_ProjectRef f \<noteq> [] \<and> alf_ProjectRef f \<notin> set (agent_ProjectRefs a) then False
      else if alf_TaskKind f \<noteq> [] \<and> alf_TaskKind f \<notin> set (agent_TaskKinds a) then False
      else if alf_Status f \<noteq> [] \<and> agent_Status a \<noteq> alf_Status f then False
      else True)"

text \<open>\<open>ORDER BY updated_at DESC, id\<close>.\<close>

definition recent_first :: "AgentRegistration list \<Rightarrow> AgentRegistration list" where
  "recent_first as = rev (sort_key (\<lambda>a. formatTime (agent_UpdatedAt a)) (rev (sort_key agent_ID as)))"

definition ListAgentRegistrations :: "AgentListFilter \<Rightarrow> AgentRegistration list sop" where
  "ListAgentRegistrations f =
     bindE (selectE ''query agents'' ''iterate agents'' (\<lambda>d. recent_first (st_agents d)))
       (\<lambda>as. ret (filter (\<lambda>a. agentMatchesFilter a f) as))"

section \<open>Handoffs and ownership\<close>

definition saveOwnershipBindingExec :: "OwnershipBinding \<Rightarrow> unit sop" where
  "saveOwnershipBindingExec b = wrapE (''save ownership binding '' @ ob_HandoffID b)
     (insertE (\<lambda>d. [REFERENCES (has_handoff d (ob_HandoffID b))])
        (\<lambda>d. d\<lparr>st_bindings := upsert_by ob_HandoffID (\<lambda>_. b) b (st_bindings d)\<rparr>))"

definition UpsertOwnershipBinding :: "OwnershipBinding \<Rightarrow> unit sop" where
  "UpsertOwnershipBinding b = saveOwnershipBindingExec b"

definition saveHandoffExec :: "Handoff \<Rightarrow> unit sop" where
  "saveHandoffExec h =
     bindE (wrapE (''save handoff '' @ h_ID h)
       (modify (\<lambda>d. d\<lparr>st_handoffs := upsert_by h_ID (\<lambda>_. h) h (st_handoffs d)\<rparr>)))
     (\<lambda>_. saveOwnershipBindingExec (OwnershipBindingFromHandoff h))"

definition SaveHandoff :: "Handoff \<Rightarrow> unit sop" where
  "SaveHandoff h = saveHandoffExec h"

definition loadHandoffTx :: "string \<Rightarrow> Handoff sop" where
  "loadHandoffTx i = wrapE (''load handoff '' @ i)
     (queryRowE (\<lambda>d. find_by h_ID i (st_handoffs d)))"

definition LoadHandoff :: "string \<Rightarrow> Handoff sop" where
  "LoadHandoff i = loadHandoffTx i"

definition loadOwnershipBindingTx :: "string \<Rightarrow> OwnershipBinding sop" where
  "loadOwnershipBindingTx i = wrapE (''load ownership binding '' @ i)
     (queryRowE (\<lambda>d. find_by ob_HandoffID i (st_bindings d)))"

definition LoadOwnershipBinding :: "string \<Rightarrow> OwnershipBinding sop" where
  "LoadOwnershipBinding i = loadOwnershipBindingTx i"

definition ListHandoffs :: "Handoff list sop" where
  "ListHandoffs =
     bindE (queryStringColumn ''handoff ids''
       (\<lambda>d. map h_ID (order_by h_CreatedAt h_ID (st_handoffs d)))) (\<lambda>ids. mapE loadHandoffTx ids)"

definition ListWorkflowHandoffs :: "string \<Rightarrow> Handoff list sop" where
  "ListWorkflowHandoffs w =
     bindE (queryStringColumn ''workflow handoff ids''
       (\<lambda>d. map h_ID (order_by h_CreatedAt h_ID (filter (\<lambda>h. h_WorkflowID h = w) (st_handoffs d)))))
     (\<lambda>ids. mapE loadHandoffTx ids)"

text \<open>The optimistic write of a projection: only if the stored version is the expected one.\<close>

definition saveProjectedHandoffTx :: "Handoff \<Rightarrow> int \<Rightarrow> unit sop" where
  "saveProjectedHandoffTx h expectedStateVersion =
     (let hit = (\<lambda>r. h_ID r = h_ID h \<and> h_StateVersion r = expectedStateVersion) in
      bindE (updateE (''update handoff '' @ h_ID h) (''rows affected for handoff '' @ h_ID h)
        (\<lambda>d. count_where hit (st_handoffs d))
        (\<lambda>d. d\<lparr>st_handoffs := update_where hit (\<lambda>_. h) (st_handoffs d)\<rparr>)) (\<lambda>n.
      bindE (checkE (n = 1)
        (ErrorText (''update handoff '' @ h_ID h @ '': optimistic concurrency conflict''))) (\<lambda>_.
      saveOwnershipBindingExec (OwnershipBindingFromHandoff h))))"

definition with_ownership :: "Handoff \<Rightarrow> Handoff \<Rightarrow> Handoff" where
  "with_ownership h r = r\<lparr>h_ReviewerActor := h_ReviewerActor h, h_CurrentOwner := h_CurrentOwner h,
     h_LeaseHolder := h_LeaseHolder h, h_EscalationOwner := h_EscalationOwner h,
     h_FallbackOwner := h_FallbackOwner h, h_LeasedAt := h_LeasedAt h,
     h_LeaseExpiresAt := h_LeaseExpiresAt h, h_UpdatedAt := h_UpdatedAt h\<rparr>"

definition updateHandoffOwnershipExec :: "Handoff \<Rightarrow> unit sop" where
  "updateHandoffOwnershipExec h =
     bindE (updateE (''update handoff ownership '' @ h_ID h) (''rows affected for handoff ownership '' @ h_ID h)
       (\<lambda>d. count_where (\<lambda>r. h_ID r = h_ID h) (st_handoffs d))
       (\<lambda>d. d\<lparr>st_handoffs := update_where (\<lambda>r. h_ID r = h_ID h) (with_ownership h) (st_handoffs d)\<rparr>))
     (\<lambda>n. checkE (n = 1) (ErrorText (''update handoff ownership '' @ h_ID h @ '': not found'')))"

definition UpdateHandoffOwnership :: "Handoff \<Rightarrow> unit sop" where
  "UpdateHandoffOwnership h =
     in_tx ''begin ownership update tx'' ''commit ownership update tx''
       (bindE (updateHandoffOwnershipExec h) (\<lambda>_.
        saveOwnershipBindingExec (OwnershipBindingFromHandoff h)))"

section \<open>Watches\<close>

definition saveWatchExec :: "Watch \<Rightarrow> unit sop" where
  "saveWatchExec x = wrapE (''save watch '' @ watch_ID x)
     (insertE (\<lambda>d. [UNIQUE (watch_ID x \<in> watch_ID ` set (st_watches d)) ''watches.id''])
        (\<lambda>d. d\<lparr>st_watches := st_watches d @ [x]\<rparr>))"

definition SaveWatch :: "Watch \<Rightarrow> unit sop" where
  "SaveWatch x = saveWatchExec x"

definition loadWatchTx :: "string \<Rightarrow> Watch sop" where
  "loadWatchTx i = wrapE (''load watch '' @ i) (wrapE ''scan watch''
     (queryRowE (\<lambda>d. find_by watch_ID i (st_watches d))))"

definition LoadWatch :: "string \<Rightarrow> Watch sop" where
  "LoadWatch i = loadWatchTx i"

definition UpdateWatchRow :: "Watch \<Rightarrow> unit sop" where
  "UpdateWatchRow x =
     bindE (updateE (''update watch '' @ watch_ID x) (''rows affected for watch '' @ watch_ID x)
       (\<lambda>d. count_where (\<lambda>r. watch_ID r = watch_ID x) (st_watches d))
       (\<lambda>d. d\<lparr>st_watches := update_where (\<lambda>r. watch_ID r = watch_ID x)
              (\<lambda>r. r\<lparr>watch_DeadlineAt := watch_DeadlineAt x, watch_Status := watch_Status x,
                     watch_EscalationPolicy := watch_EscalationPolicy x\<rparr>) (st_watches d)\<rparr>))
     (\<lambda>n. checkE (n = 1) (ErrorText (''update watch '' @ watch_ID x @ '': not found'')))"

definition UpdateWatchCheck :: "string \<Rightarrow> time \<Rightarrow> string \<Rightarrow> unit sop" where
  "UpdateWatchCheck i checkedAt lastResult = wrapE (''update watch '' @ i)
     (modify (\<lambda>d. d\<lparr>st_watches := update_where (\<lambda>r. watch_ID r = i)
        (\<lambda>r. r\<lparr>watch_LastCheckedAt := checkedAt, watch_LastResult := lastResult\<rparr>) (st_watches d)\<rparr>))"

definition ListWatches :: "string \<Rightarrow> Watch list sop" where
  "ListWatches h = selectE (''list watches for '' @ h) (''iterate watches for '' @ h)
     (\<lambda>d. order_by watch_CreatedAt watch_ID (filter (\<lambda>x. watch_HandoffID x = h) (st_watches d)))"

definition replaceWatchesExec :: "string \<Rightarrow> Watch list \<Rightarrow> unit sop" where
  "replaceWatchesExec h ws =
     bindE (wrapE (''delete watches for '' @ h)
       (modify (\<lambda>d. d\<lparr>st_watches := filter (\<lambda>x. watch_HandoffID x \<noteq> h) (st_watches d)\<rparr>)))
     (\<lambda>_. forE ws saveWatchExec)"

definition ReplaceWatches :: "string \<Rightarrow> Watch list \<Rightarrow> unit sop" where
  "ReplaceWatches h ws =
     in_tx ''begin replace watches tx'' ''commit replace watches tx'' (replaceWatchesExec h ws)"

section \<open>Repairs, attempts, signals, artifacts\<close>

definition saveRepairExec :: "RepairRecord \<Rightarrow> unit sop" where
  "saveRepairExec r = wrapE (''save repair '' @ repair_ID r)
     (insertE (\<lambda>d. [UNIQUE (repair_ID r \<in> repair_ID ` set (st_repairs d)) ''repairs.id''])
        (\<lambda>d. d\<lparr>st_repairs := st_repairs d @ [r]\<rparr>))"

definition SaveRepair :: "RepairRecord \<Rightarrow> unit sop" where
  "SaveRepair r = saveRepairExec r"

definition ListRepairs :: "string \<Rightarrow> RepairRecord list sop" where
  "ListRepairs h = selectE (''list repairs for '' @ h) (''iterate repairs for '' @ h)
     (\<lambda>d. order_by repair_CreatedAt repair_ID
        (filter (\<lambda>r. h = [] \<or> repair_TargetType r = ''handoff'' \<and> repair_TargetID r = h
           \<or> repair_InvalidatesID r \<in> ev_ID ` {e \<in> set (st_accepted d). ev_HandoffID e = h})
         (st_repairs d)))"

definition saveDispatchAttemptExec :: "DispatchAttempt \<Rightarrow> unit sop" where
  "saveDispatchAttemptExec a = wrapE (''save dispatch attempt '' @ attempt_ID a)
     (insertE (\<lambda>d. [UNIQUE (attempt_ID a \<in> attempt_ID ` set (st_attempts d)) ''dispatch_attempts.id''])
        (\<lambda>d. d\<lparr>st_attempts := st_attempts d @ [a]\<rparr>))"

definition SaveDispatchAttempt :: "DispatchAttempt \<Rightarrow> unit sop" where
  "SaveDispatchAttempt a = saveDispatchAttemptExec a"

definition saveDispatchAttemptStatusExec :: "DispatchAttempt \<Rightarrow> unit sop" where
  "saveDispatchAttemptStatusExec a = wrapE (''update dispatch attempt '' @ attempt_ID a)
     (modify (\<lambda>d. d\<lparr>st_attempts := update_where (\<lambda>r. attempt_ID r = attempt_ID a)
        (\<lambda>r. r\<lparr>attempt_ResultStatus := attempt_ResultStatus a, attempt_FinishedAt := attempt_FinishedAt a,
               attempt_ExternalID := attempt_ExternalID a\<rparr>) (st_attempts d)\<rparr>))"

definition SaveDispatchAttemptStatus :: "DispatchAttempt \<Rightarrow> unit sop" where
  "SaveDispatchAttemptStatus a = saveDispatchAttemptStatusExec a"

definition ListDispatchAttempts :: "string \<Rightarrow> DispatchAttempt list sop" where
  "ListDispatchAttempts h = selectE (''list dispatch attempts for '' @ h) (''iterate dispatch attempts for '' @ h)
     (\<lambda>d. order_by attempt_RequestedAt attempt_ID (filter (\<lambda>a. attempt_HandoffID a = h) (st_attempts d)))"

definition saveDivergenceExec :: "ObserverHint \<Rightarrow> unit sop" where
  "saveDivergenceExec x = wrapE (''save divergence '' @ hint_ID x)
     (insertE (\<lambda>d. [UNIQUE (hint_ID x \<in> hint_ID ` set (st_divergences d)) ''divergences.id''])
        (\<lambda>d. d\<lparr>st_divergences := st_divergences d @ [x]\<rparr>))"

definition SaveDivergence :: "ObserverHint \<Rightarrow> unit sop" where
  "SaveDivergence x = saveDivergenceExec x"

definition ListDivergences :: "string \<Rightarrow> ObserverHint list sop" where
  "ListDivergences h = selectE (''list divergences for '' @ h) (''iterate divergences for '' @ h)
     (\<lambda>d. order_by hint_CreatedAt hint_ID (filter (\<lambda>x. hint_HandoffID x = h) (st_divergences d)))"

definition appendObservedSignalExec :: "ObservedSignal \<Rightarrow> unit sop" where
  "appendObservedSignalExec x = wrapE (''append observed signal '' @ sig_ID x)
     (insertE (\<lambda>d. [UNIQUE (sig_ID x \<in> sig_ID ` set (st_signals d)) ''observed_signals.id'',
                    REFERENCES (has_handoff d (sig_HandoffID x)), REFERENCES (has_workflow d (sig_WorkflowID x))])
        (\<lambda>d. d\<lparr>st_signals := st_signals d @ [x]\<rparr>))"

definition AppendObservedSignal :: "ObservedSignal \<Rightarrow> unit sop" where
  "AppendObservedSignal x = appendObservedSignalExec x"

definition ListObservedSignalsByHandoff :: "string \<Rightarrow> ObservedSignal list sop" where
  "ListObservedSignalsByHandoff h =
     selectE (''list observed signals for '' @ h) (''iterate observed signals for '' @ h)
       (\<lambda>d. order_by sig_ObservedAt sig_ID (filter (\<lambda>x. sig_HandoffID x = h) (st_signals d)))"

definition appendRepairCandidateExec :: "RepairCandidate \<Rightarrow> unit sop" where
  "appendRepairCandidateExec x = wrapE (''append repair candidate '' @ rc_ID x)
     (insertE (\<lambda>d. [UNIQUE (rc_ID x \<in> rc_ID ` set (st_candidates d)) ''repair_candidates.id'',
                    REFERENCES (has_handoff d (rc_HandoffID x)), REFERENCES (has_workflow d (rc_WorkflowID x))])
        (\<lambda>d. d\<lparr>st_candidates := st_candidates d @ [x]\<rparr>))"

definition AppendRepairCandidate :: "RepairCandidate \<Rightarrow> unit sop" where
  "AppendRepairCandidate x = appendRepairCandidateExec x"

definition ListRepairCandidatesByHandoff :: "string \<Rightarrow> RepairCandidate list sop" where
  "ListRepairCandidatesByHandoff h =
     selectE (''list repair candidates for '' @ h) (''iterate repair candidates for '' @ h)
       (\<lambda>d. order_by rc_CreatedAt rc_ID (filter (\<lambda>x. rc_HandoffID x = h) (st_candidates d)))"

definition saveArtifactExec :: "Artifact \<Rightarrow> unit sop" where
  "saveArtifactExec a = wrapE (''save artifact '' @ art_ID a)
     (insertE (\<lambda>d. [UNIQUE (art_ID a \<in> art_ID ` set (st_artifacts d)) ''artifacts.id''])
        (\<lambda>d. d\<lparr>st_artifacts := st_artifacts d @ [a]\<rparr>))"

section \<open>Idempotency records\<close>

text \<open>\<open>sql.ErrNoRows\<close> is not an error here: no record under the key.\<close>

definition optionalRowE :: "string \<Rightarrow> 'r sop \<Rightarrow> 'r option sop" where
  "optionalRowE label m =
     handleE (bindE m (\<lambda>r. ret (Some r)))
       (\<lambda>e. if error_is e ErrNoRows then ret None else throw (ErrorWrap label e))"

definition loadA2AInboundTaskCreationTx :: "string \<Rightarrow> a2aInboundTaskCreationRecord option sop" where
  "loadA2AInboundTaskCreationTx k = optionalRowE (''load a2a inbound task creation '' @ k)
     (queryRowE (\<lambda>d. find_by cr_IdempotencyKey k (st_creations d)))"

definition saveA2AInboundTaskCreationExec :: "a2aInboundTaskCreationRecord \<Rightarrow> unit sop" where
  "saveA2AInboundTaskCreationExec r = wrapE (''save a2a inbound task creation '' @ cr_IdempotencyKey r)
     (insertE (\<lambda>d. [UNIQUE (cr_IdempotencyKey r \<in> cr_IdempotencyKey ` set (st_creations d))
                      ''a2a_inbound_task_creations.idempotency_key'',
                    REFERENCES (has_workflow d (cr_WorkflowID r)), REFERENCES (has_handoff d (cr_HandoffID r))])
        (\<lambda>d. d\<lparr>st_creations := st_creations d @ [r]\<rparr>))"

definition loadCollaborationTemplateApplicationTx ::
  "string \<Rightarrow> collaborationTemplateApplicationRecord option sop" where
  "loadCollaborationTemplateApplicationTx k = optionalRowE (''load collaboration template application '' @ k)
     (queryRowE (\<lambda>d. find_by ta_IdempotencyKey k (st_applications d)))"

definition saveCollaborationTemplateApplicationExec ::
  "collaborationTemplateApplicationRecord \<Rightarrow> unit sop" where
  "saveCollaborationTemplateApplicationExec r =
     wrapE (''save collaboration template application '' @ ta_IdempotencyKey r)
     (insertE (\<lambda>d. [UNIQUE (ta_IdempotencyKey r \<in> ta_IdempotencyKey ` set (st_applications d))
                      ''collaboration_template_applications.idempotency_key'',
                    REFERENCES (has_workflow d (ta_WorkflowID r))])
        (\<lambda>d. d\<lparr>st_applications := st_applications d @ [r]\<rparr>))"

section \<open>Events\<close>

text \<open>\<open>insertEventRow\<close> on each of its two tables; only accepted events have the partial unique index.\<close>

definition insertAcceptedEventRow :: "EventRecord \<Rightarrow> unit sop" where
  "insertAcceptedEventRow e = wrapE (''insert accepted_events '' @ ev_ID e)
     (insertE (\<lambda>d. [UNIQUE (ev_ID e \<in> ev_ID ` set (st_accepted d)) ''accepted_events.id'',
                    UNIQUE (ev_IdempotencyKey e \<noteq> [] \<and>
                        (ev_HandoffID e, ev_IdempotencyKey e) \<in>
                          (\<lambda>x. (ev_HandoffID x, ev_IdempotencyKey x)) ` set (st_accepted d))
                      ''accepted_events.handoff_id, accepted_events.idempotency_key'',
                    REFERENCES (has_handoff d (ev_HandoffID e)), REFERENCES (has_workflow d (ev_WorkflowID e))])
        (\<lambda>d. d\<lparr>st_accepted := st_accepted d @ [e]\<rparr>))"

definition insertAuditEventRow :: "EventRecord \<Rightarrow> unit sop" where
  "insertAuditEventRow e = wrapE (''insert event_ingestion_audit '' @ ev_ID e)
     (insertE (\<lambda>d. [UNIQUE (ev_ID e \<in> ev_ID ` set (st_audit d)) ''event_ingestion_audit.id'',
                    REFERENCES (has_handoff d (ev_HandoffID e)), REFERENCES (has_workflow d (ev_WorkflowID e))])
        (\<lambda>d. d\<lparr>st_audit := st_audit d @ [e]\<rparr>))"

definition event_order :: "EventRecord list \<Rightarrow> EventRecord list" where
  "event_order es =
     sort_key (\<lambda>e. (formatTime (ev_IngestedAt e), formatTime (ev_ProducerEventTime e), ev_ID e)) es"

definition invalidations :: "store \<Rightarrow> string list" where
  "invalidations d = map repair_InvalidatesID
     (filter (\<lambda>r. repair_Action r = ''invalidate_event'') (st_repairs d))"

definition invalidated_of :: "store \<Rightarrow> string \<Rightarrow> string list" where
  "invalidated_of d h = filter
     (\<lambda>i. i \<noteq> [] \<and> (\<exists>e\<in>set (st_accepted d). ev_ID e = i \<and> ev_HandoffID e = h)) (invalidations d)"

definition EffectiveEvents :: "string \<Rightarrow> EventRecord list sop" where
  "EffectiveEvents h =
     bindE (queryStringColumn ''invalidated event ids'' (\<lambda>d. invalidated_of d h)) (\<lambda>invalid.
     bindE (selectE (''query accepted events for '' @ h) (''iterate accepted events for '' @ h)
       (\<lambda>d. event_order (filter (\<lambda>e. ev_HandoffID e = h) (st_accepted d)))) (\<lambda>es.
     ret (filter (\<lambda>e. ev_ID e \<notin> set invalid) es)))"

definition ListEvents :: "string \<Rightarrow> EventRecord list sop" where
  "ListEvents h = EffectiveEvents h"

definition ListEventIngestionAudit :: "string \<Rightarrow> EventRecord list sop" where
  "ListEventIngestionAudit h =
     selectE (''query event ingestion audit for '' @ h) (''iterate event ingestion audit for '' @ h)
       (\<lambda>d. event_order (filter (\<lambda>e. ev_HandoffID e = h) (st_audit d)))"

definition validateEventWorkflowMatch :: "Handoff \<Rightarrow> EventRecord \<Rightarrow> unit sop" where
  "validateEventWorkflowMatch h e =
     (if ev_WorkflowID e = [] then throw (ErrorText (''event '' @ ev_ID e @ '' requires workflow_id''))
      else if ev_WorkflowID e \<noteq> h_WorkflowID h
      then throw (ErrorText (''event '' @ ev_ID e @ '' workflow_id '' @ ev_WorkflowID e
             @ '' does not match handoff workflow_id '' @ h_WorkflowID h))
      else ret ())"

definition preserveStaticHandoffFields :: "Handoff \<Rightarrow> Handoff \<Rightarrow> Handoff" where
  "preserveStaticHandoffFields projected original = projected\<lparr>
     h_ID := h_ID original, h_WorkflowID := h_WorkflowID original,
     h_WorkflowKind := h_WorkflowKind original, h_ParentHandoffID := h_ParentHandoffID original,
     h_DependsOnHandoffIDs := h_DependsOnHandoffIDs original,
     h_RequiredForWorkflowCompletion := h_RequiredForWorkflowCompletion original,
     h_TaskKind := h_TaskKind original, h_Intent := h_Intent original,
     h_PayloadRef := h_PayloadRef original, h_DeliveryTargetRef := h_DeliveryTargetRef original,
     h_DeadlineAt := h_DeadlineAt original, h_ProducerActor := h_ProducerActor original,
     h_SenderActor := h_SenderActor original, h_ReceiverActor := h_ReceiverActor original,
     h_ReviewerActor := h_ReviewerActor original, h_SubjectActor := h_SubjectActor original,
     h_EscalationOwner := h_EscalationOwner original, h_FallbackOwner := h_FallbackOwner original,
     h_ArtifactPolicy := h_ArtifactPolicy original, h_NeedsReview := h_NeedsReview original,
     h_CreatedAt := h_CreatedAt original\<rparr>"

text \<open>The projection both \<open>recordAcceptedEventTx\<close> and \<open>BackfillEvent\<close> write for an accepted event.\<close>

definition projection_of :: "Handoff \<Rightarrow> EventRecord \<Rightarrow> Handoff" where
  "projection_of handoff e =
     (preserveStaticHandoffFields (fst (Apply (NewStateMachine handoff) e)) handoff)\<lparr>
        h_UpdatedAt := maxTime (h_UpdatedAt handoff) (ev_IngestedAt e),
        h_LastAuthoritativeEventID := ev_ID e\<rparr>"

definition recordAcceptedEventTx :: "EventRecord \<Rightarrow> Handoff sop" where
  "recordAcceptedEventTx e =
     bindE (loadHandoffTx (ev_HandoffID e)) (\<lambda>handoff.
     bindE (validateEventWorkflowMatch handoff e) (\<lambda>_.
     let decision = snd (Apply (NewStateMachine handoff) e); projected = projection_of handoff e in
     if \<not> dec_Accepted decision
     then throw (ErrorText (''accepted event '' @ ev_ID e @ '' rejected by state machine: '' @ dec_Reason decision))
     else
       bindE (insertAcceptedEventRow e) (\<lambda>_.
       bindE (saveProjectedHandoffTx projected (h_StateVersion handoff)) (\<lambda>_.
       ret projected))))"

definition RecordAcceptedEvent :: "EventRecord \<Rightarrow> Handoff sop" where
  "RecordAcceptedEvent e =
     (if \<not> ev_Accepted e then throw (ErrorText ''accepted event api requires event.Accepted=true'')
      else if isObservedSignalEvent (ev_Type e)
      then throw (ErrorText (''accepted event api does not accept observed signal event '' @ eventTypeText (ev_Type e)))
      else in_tx ''begin accepted event tx'' ''commit accepted event tx'' (recordAcceptedEventTx e))"

definition RecordRejectedEvent :: "EventRecord \<Rightarrow> unit sop" where
  "RecordRejectedEvent e =
     (if ev_Accepted e then throw (ErrorText ''rejected event api requires event.Accepted=false'')
      else
        bindE (if ev_WorkflowID e \<noteq> [] then
                 bindE (loadHandoffTx (ev_HandoffID e)) (\<lambda>handoff. validateEventWorkflowMatch handoff e)
               else ret ()) (\<lambda>_.
        insertAuditEventRow e))"

end
