(* ===== verification/Orch_Invariant.thy ===== *)
theory Orch_Invariant
  imports Orch_Store
begin

text \<open>
  The invariant of the orchestrator's database and its maintenance by the statements of
  \<open>store.go\<close>: primary keys are unique, foreign keys resolve, every stored handoff satisfies
  the lifecycle invariant, its progress flags are backed by accepted events that no repair
  has invalidated, its ownership binding agrees with it, and only accepted events are ever
  invalidated. Every statement of the store has a rule of the condition generator.
\<close>

section \<open>Rules for the statements\<close>

lemma guarantees_insertE [vcg]:
  "E d \<Longrightarrow> (violation (cs d) = None \<Longrightarrow> Q () (put d)) \<Longrightarrow> guarantees (insertE cs put) Q E d"
  unfolding insertE_def by (rule guarantees_statement) (auto split: option.splits)

lemma guarantees_updateE [vcg]:
  "E d \<Longrightarrow> E (put d) \<Longrightarrow> Q (n d) (put d) \<Longrightarrow> guarantees (updateE l r n put) Q E d"
  unfolding updateE_def by (intro vcg) auto

lemma guarantees_selectE [vcg]: "E d \<Longrightarrow> Q (rows d) d \<Longrightarrow> guarantees (selectE l i rows) Q E d"
  unfolding selectE_def by (intro vcg)

lemma guarantees_column [vcg]: "E d \<Longrightarrow> Q (rows d) d \<Longrightarrow> guarantees (queryStringColumn l rows) Q E d"
  unfolding queryStringColumn_def by (intro vcg)

lemma guarantees_queryRowE [vcg]:
  "E d \<Longrightarrow> (\<And>r. row d = Some r \<Longrightarrow> Q r d) \<Longrightarrow> guarantees (queryRowE row) Q E d"
  unfolding queryRowE_def by (rule guarantees_statement) (auto split: option.splits)

lemma guarantees_optionalRow [vcg]:
  "E d \<Longrightarrow> Q (row d) d \<Longrightarrow> guarantees (optionalRowE l (queryRowE row)) Q E d"
  unfolding optionalRowE_def queryRowE_def
  by (rule guaranteesI)
    (auto simp: handleE_def bindE_def statement_def ret_def throw_def
      split: list.splits option.splits if_splits)

lemma guarantees_match [vcg]:
  "E d \<Longrightarrow> (ev_WorkflowID e \<noteq> [] \<Longrightarrow> ev_WorkflowID e = h_WorkflowID h \<Longrightarrow> Q () d) \<Longrightarrow>
   guarantees (validateEventWorkflowMatch h e) Q E d"
  unfolding validateEventWorkflowMatch_def by (intro vcg) auto

lemma guarantees_loadHandoff [vcg]:
  "E d \<Longrightarrow> (\<And>h. find_by h_ID i (st_handoffs d) = Some h \<Longrightarrow> Q h d) \<Longrightarrow>
   guarantees (loadHandoffTx i) Q E d"
  unfolding loadHandoffTx_def by (intro vcg)

lemma guarantees_LoadHandoff [vcg]:
  "E d \<Longrightarrow> (\<And>h. find_by h_ID i (st_handoffs d) = Some h \<Longrightarrow> Q h d) \<Longrightarrow> guarantees (LoadHandoff i) Q E d"
  unfolding LoadHandoff_def by (intro vcg)

lemma guarantees_LoadWorkflow [vcg]:
  "E d \<Longrightarrow> (\<And>w. find_by wf_ID i (st_workflows d) = Some w \<Longrightarrow> Q w d) \<Longrightarrow>
   guarantees (LoadWorkflow i) Q E d"
  unfolding LoadWorkflow_def by (intro vcg)

lemma guarantees_loadWorkflow [vcg]:
  "E d \<Longrightarrow> (\<And>w. find_by wf_ID i (st_workflows d) = Some w \<Longrightarrow> Q w d) \<Longrightarrow>
   guarantees (loadWorkflowTx i) Q E d"
  unfolding loadWorkflowTx_def by (intro vcg)

lemma guarantees_LoadWatch [vcg]:
  "E d \<Longrightarrow> (\<And>x. find_by watch_ID i (st_watches d) = Some x \<Longrightarrow> Q x d) \<Longrightarrow> guarantees (LoadWatch i) Q E d"
  unfolding LoadWatch_def loadWatchTx_def by (intro vcg)

lemma guarantees_LoadOwnershipBinding [vcg]:
  "E d \<Longrightarrow> (\<And>x. find_by ob_HandoffID i (st_bindings d) = Some x \<Longrightarrow> Q x d) \<Longrightarrow>
   guarantees (LoadOwnershipBinding i) Q E d"
  unfolding LoadOwnershipBinding_def loadOwnershipBindingTx_def by (intro vcg)

lemma guarantees_ListWatches [vcg]:
  "E d \<Longrightarrow> Q (order_by watch_CreatedAt watch_ID (filter (\<lambda>x. watch_HandoffID x = h) (st_watches d))) d \<Longrightarrow>
   guarantees (ListWatches h) Q E d"
  unfolding ListWatches_def by (intro vcg)

lemma guarantees_ListAgents [vcg]:
  "E d \<Longrightarrow> Q (filter (\<lambda>a. agentMatchesFilter a f) (recent_first (st_agents d))) d \<Longrightarrow>
   guarantees (ListAgentRegistrations f) Q E d"
  unfolding ListAgentRegistrations_def by (intro vcg)

lemma set_order_by [simp]: "set (order_by t i rows) = set rows"
  by (simp add: order_by_def)

lemma distinct_order_by [simp]: "distinct (map i (order_by t j rows)) = distinct (map i rows)"
proof -
  have "mset (map i (order_by t j rows)) = mset (map i rows)" by (simp add: order_by_def)
  then show ?thesis by (metis distinct_count_atmost_1 mset_eq_setD)
qed

section \<open>Loading by identifier\<close>

lemma load_all:
  assumes "list_all2 (\<lambda>i h. find_by key i rows = Some h) (map key hs) ks"
    and "distinct (map key rows)" and "set hs \<subseteq> set rows"
  shows "ks = hs"
  using assms(1,3)
proof (induction hs arbitrary: ks)
  case (Cons h hs)
  then obtain k ks' where k: "ks = k # ks'" "find_by key (key h) rows = Some k"
    "list_all2 (\<lambda>i h. find_by key i rows = Some h) (map key hs) ks'"
    by (auto simp: list_all2_Cons1)
  with Cons find_by_unique [OF assms(2)] show ?case by auto
qed simp

lemma guarantees_loads:
  assumes "E d" and "distinct (map h_ID (st_handoffs d))" and "set hs \<subseteq> set (st_handoffs d)" and "Q hs d"
  shows "guarantees (mapE loadHandoffTx (map h_ID hs)) Q E d"
proof (rule guarantees_mapE_rows)
  show "guarantees (loadHandoffTx i) (\<lambda>h d'. d' = d \<and> find_by h_ID i (st_handoffs d) = Some h) (\<lambda>d'. d' = d) d"
    for i by (intro vcg conjI) simp_all
  show "E d" by (rule assms)
  show "Q ks d" if "list_all2 (\<lambda>i h. find_by h_ID i (st_handoffs d) = Some h) (map h_ID hs) ks" for ks
    using load_all [OF that assms(2,3)] assms(4) by simp
qed

lemma guarantees_ListHandoffs:
  assumes "E d" and "distinct (map h_ID (st_handoffs d))"
    and "Q (order_by h_CreatedAt h_ID (st_handoffs d)) d"
  shows "guarantees ListHandoffs Q E d"
  unfolding ListHandoffs_def using assms by (intro vcg guarantees_loads) auto

lemma guarantees_ListWorkflowHandoffs:
  assumes "E d" and "distinct (map h_ID (st_handoffs d))"
    and "Q (order_by h_CreatedAt h_ID (filter (\<lambda>h. h_WorkflowID h = w) (st_handoffs d))) d"
  shows "guarantees (ListWorkflowHandoffs w) Q E d"
  unfolding ListWorkflowHandoffs_def using assms by (intro vcg guarantees_loads) auto

section \<open>Effective events\<close>

definition effective :: "store \<Rightarrow> string \<Rightarrow> EventRecord set" where
  "effective d h = {e \<in> set (st_accepted d). ev_HandoffID e = h \<and> ev_ID e \<notin> set (invalidations d)}"

lemma set_event_order [simp]: "set (event_order es) = set es"
  by (simp add: event_order_def)

definition effective_list :: "store \<Rightarrow> string \<Rightarrow> EventRecord list" where
  "effective_list d h = filter (\<lambda>e. ev_ID e \<notin> set (invalidated_of d h))
     (event_order (filter (\<lambda>e. ev_HandoffID e = h) (st_accepted d)))"

lemma guarantees_EffectiveEvents [vcg]:
  "E d \<Longrightarrow> Q (effective_list d h) d \<Longrightarrow> guarantees (EffectiveEvents h) Q E d"
  unfolding EffectiveEvents_def effective_list_def by (intro vcg)

lemma effective_list_set:
  assumes "[] \<notin> ev_ID ` set (st_accepted d)"
  shows "set (effective_list d h) = effective d h"
proof -
  have "ev_ID e \<noteq> []" if "e \<in> set (st_accepted d)" for e using assms that by (metis imageI)
  then show ?thesis by (auto simp: effective_list_def effective_def invalidated_of_def)
qed

section \<open>The invariant\<close>

definition keys_ok :: "store \<Rightarrow> bool" where
  "keys_ok d \<longleftrightarrow>
     distinct (map wf_ID (st_workflows d)) \<and> distinct (map agent_ID (st_agents d)) \<and>
     distinct (map h_ID (st_handoffs d)) \<and> distinct (map ev_ID (st_accepted d)) \<and>
     distinct (map ev_ID (st_audit d)) \<and> distinct (map attempt_ID (st_attempts d)) \<and>
     distinct (map art_ID (st_artifacts d)) \<and> distinct (map cr_IdempotencyKey (st_creations d)) \<and>
     distinct (map ta_IdempotencyKey (st_applications d)) \<and> distinct (map watch_ID (st_watches d)) \<and>
     distinct (map hint_ID (st_divergences d)) \<and> distinct (map repair_ID (st_repairs d)) \<and>
     distinct (map ob_HandoffID (st_bindings d)) \<and> distinct (map sig_ID (st_signals d)) \<and>
     distinct (map rc_ID (st_candidates d)) \<and> [] \<notin> ev_ID ` set (st_accepted d)"

definition refs_ok :: "store \<Rightarrow> bool" where
  "refs_ok d \<longleftrightarrow>
     (\<forall>e\<in>set (st_accepted d) \<union> set (st_audit d). has_handoff d (ev_HandoffID e) \<and> has_workflow d (ev_WorkflowID e)) \<and>
     (\<forall>r\<in>set (st_creations d). has_workflow d (cr_WorkflowID r) \<and> has_handoff d (cr_HandoffID r)) \<and>
     (\<forall>r\<in>set (st_applications d). has_workflow d (ta_WorkflowID r)) \<and>
     (\<forall>b\<in>set (st_bindings d). has_handoff d (ob_HandoffID b)) \<and>
     (\<forall>x\<in>set (st_signals d). has_handoff d (sig_HandoffID x) \<and> has_workflow d (sig_WorkflowID x)) \<and>
     (\<forall>x\<in>set (st_candidates d). has_handoff d (rc_HandoffID x) \<and> has_workflow d (rc_WorkflowID x)) \<and>
     (\<forall>h\<in>set (st_handoffs d). has_workflow d (h_WorkflowID h))"

definition idempotency_ok :: "store \<Rightarrow> bool" where
  "idempotency_ok d \<longleftrightarrow> distinct (map (\<lambda>e. (ev_HandoffID e, ev_IdempotencyKey e))
     (filter (\<lambda>e. ev_IdempotencyKey e \<noteq> []) (st_accepted d)))"

definition binding_agrees :: "OwnershipBinding \<Rightarrow> Handoff \<Rightarrow> bool" where
  "binding_agrees b h \<longleftrightarrow> ob_HandoffID b = h_ID h \<and> ob_CurrentOwner b = h_CurrentOwner h
     \<and> ob_LeaseHolder b = h_LeaseHolder h \<and> ob_ReviewerActor b = h_ReviewerActor h
     \<and> ob_EscalationOwner b = h_EscalationOwner h \<and> ob_FallbackOwner b = h_FallbackOwner h
     \<and> ob_LeasedAt b = h_LeasedAt h \<and> ob_LeaseExpiresAt b = h_LeaseExpiresAt h"

definition ownership_ok :: "store \<Rightarrow> bool" where
  "ownership_ok d \<longleftrightarrow>
     (\<forall>h\<in>set (st_handoffs d). \<exists>b. find_by ob_HandoffID (h_ID h) (st_bindings d) = Some b \<and> binding_agrees b h)"

definition backed :: "store \<Rightarrow> Handoff \<Rightarrow> bool" where
  "backed d h \<longleftrightarrow> lifecycle_wf h \<and> evidenced (\<lambda>_. True) h (effective d (h_ID h))"

definition projections_ok :: "string set \<Rightarrow> store \<Rightarrow> bool" where
  "projections_ok X d \<longleftrightarrow> (\<forall>h\<in>set (st_handoffs d). h_ID h \<notin> X \<longrightarrow> backed d h)"

definition invalidations_ok :: "store \<Rightarrow> bool" where
  "invalidations_ok d \<longleftrightarrow> set (invalidations d) \<subseteq> ev_ID ` set (st_accepted d)"

text \<open>Inside a transaction the projections of some handoffs \<open>X\<close> may be pending.\<close>

definition inv_but :: "string set \<Rightarrow> store \<Rightarrow> bool" where
  "inv_but X d \<longleftrightarrow> keys_ok d \<and> refs_ok d \<and> idempotency_ok d \<and> ownership_ok d \<and> projections_ok X d
     \<and> invalidations_ok d"

definition store_inv :: "store \<Rightarrow> bool" where
  "store_inv d \<longleftrightarrow> inv_but {} d"

lemmas inv_defs = inv_but_def keys_ok_def refs_ok_def idempotency_ok_def ownership_ok_def
  projections_ok_def backed_def effective_def invalidations_ok_def invalidations_def
  has_handoff_def has_workflow_def

lemma empty_store_inv: "store_inv empty_store"
  by (simp add: store_inv_def inv_defs empty_store_def)

lemma binding_from [simp]: "binding_agrees (OwnershipBindingFromHandoff h) h"
  by (simp add: binding_agrees_def OwnershipBindingFromHandoff_def)

lemma binding_from_ID [simp]: "ob_HandoffID (OwnershipBindingFromHandoff h) = h_ID h"
  by (simp add: OwnershipBindingFromHandoff_def)

text \<open>Tables that only have their primary key to keep.\<close>

lemma inv_side_tables:
  assumes "inv_but X d"
  shows "distinct (map agent_ID ags) \<Longrightarrow> inv_but X (d\<lparr>st_agents := ags\<rparr>)"
    and "distinct (map attempt_ID ats) \<Longrightarrow> inv_but X (d\<lparr>st_attempts := ats\<rparr>)"
    and "distinct (map art_ID ars) \<Longrightarrow> inv_but X (d\<lparr>st_artifacts := ars\<rparr>)"
    and "distinct (map watch_ID ws) \<Longrightarrow> inv_but X (d\<lparr>st_watches := ws\<rparr>)"
    and "distinct (map hint_ID hs) \<Longrightarrow> inv_but X (d\<lparr>st_divergences := hs\<rparr>)"
  using assms by (simp_all add: inv_defs)

lemma inv_keys:
  assumes "inv_but X d"
  shows "distinct (map agent_ID (st_agents d))" "distinct (map attempt_ID (st_attempts d))"
    "distinct (map art_ID (st_artifacts d))" "distinct (map watch_ID (st_watches d))"
    "distinct (map hint_ID (st_divergences d))" "distinct (map h_ID (st_handoffs d))"
    "distinct (map wf_ID (st_workflows d))" "[] \<notin> ev_ID ` set (st_accepted d)"
    "distinct (map ev_ID (st_accepted d))"
  using assms by (simp_all add: inv_but_def keys_ok_def)

lemma inv_audit:
  assumes "inv_but X d" and "ev_ID e \<notin> ev_ID ` set (st_audit d)"
    and "has_handoff d (ev_HandoffID e)" and "has_workflow d (ev_WorkflowID e)"
  shows "inv_but X (d\<lparr>st_audit := st_audit d @ [e]\<rparr>)"
  using assms by (simp add: inv_defs)

lemma inv_signal:
  assumes "inv_but X d" and "sig_ID x \<notin> sig_ID ` set (st_signals d)"
    and "has_handoff d (sig_HandoffID x)" and "has_workflow d (sig_WorkflowID x)"
  shows "inv_but X (d\<lparr>st_signals := st_signals d @ [x]\<rparr>)"
  using assms by (simp add: inv_defs)

lemma inv_candidate:
  assumes "inv_but X d" and "rc_ID x \<notin> rc_ID ` set (st_candidates d)"
    and "has_handoff d (rc_HandoffID x)" and "has_workflow d (rc_WorkflowID x)"
  shows "inv_but X (d\<lparr>st_candidates := st_candidates d @ [x]\<rparr>)"
  using assms by (simp add: inv_defs)

lemma inv_creation:
  assumes "inv_but X d" and "cr_IdempotencyKey r \<notin> cr_IdempotencyKey ` set (st_creations d)"
    and "has_workflow d (cr_WorkflowID r)" and "has_handoff d (cr_HandoffID r)"
    and "st_creations d = rows"
  shows "inv_but X (d\<lparr>st_creations := rows @ [r]\<rparr>)"
  using assms by (simp add: inv_defs)

lemma inv_application:
  assumes "inv_but X d" and "ta_IdempotencyKey r \<notin> ta_IdempotencyKey ` set (st_applications d)"
    and "has_workflow d (ta_WorkflowID r)"
    and "st_applications d = rows"
  shows "inv_but X (d\<lparr>st_applications := rows @ [r]\<rparr>)"
  using assms by (simp add: inv_defs)

section \<open>Workflows, handoffs, events, repairs\<close>

definition put_workflow :: "Workflow \<Rightarrow> store \<Rightarrow> store" where
  "put_workflow w d = d\<lparr>st_workflows := upsert_by wf_ID (\<lambda>_. w) w (st_workflows d)\<rparr>"

definition put_binding :: "Handoff \<Rightarrow> store \<Rightarrow> store" where
  "put_binding h d = d\<lparr>st_bindings :=
     upsert_by ob_HandoffID (\<lambda>_. OwnershipBindingFromHandoff h) (OwnershipBindingFromHandoff h) (st_bindings d)\<rparr>"

definition put_handoff :: "Handoff \<Rightarrow> store \<Rightarrow> store" where
  "put_handoff h d = put_binding h (d\<lparr>st_handoffs := upsert_by h_ID (\<lambda>_. h) h (st_handoffs d)\<rparr>)"

lemma put_handoff_fields [simp]:
  "st_accepted (put_handoff h d) = st_accepted d" "st_repairs (put_handoff h d) = st_repairs d"
  "st_workflows (put_handoff h d) = st_workflows d" "st_audit (put_handoff h d) = st_audit d"
  "st_creations (put_handoff h d) = st_creations d" "st_watches (put_handoff h d) = st_watches d"
  "st_applications (put_handoff h d) = st_applications d" "st_artifacts (put_handoff h d) = st_artifacts d"
  "st_handoffs (put_handoff h d) = upsert_by h_ID (\<lambda>_. h) h (st_handoffs d)"
  by (simp_all add: put_handoff_def put_binding_def)

lemma put_workflow_fields [simp]:
  "st_accepted (put_workflow w d) = st_accepted d" "st_repairs (put_workflow w d) = st_repairs d"
  "st_handoffs (put_workflow w d) = st_handoffs d" "st_creations (put_workflow w d) = st_creations d"
  "st_watches (put_workflow w d) = st_watches d" "st_applications (put_workflow w d) = st_applications d"
  "st_workflows (put_workflow w d) = upsert_by wf_ID (\<lambda>_. w) w (st_workflows d)"
  by (simp_all add: put_workflow_def)

lemma has_put [simp]:
  "has_workflow (put_workflow w d) i \<longleftrightarrow> i = wf_ID w \<or> has_workflow d i"
  "has_handoff (put_workflow w d) i \<longleftrightarrow> has_handoff d i"
  "has_handoff (put_handoff h d) i \<longleftrightarrow> i = h_ID h \<or> has_handoff d i"
  "has_workflow (put_handoff h d) i \<longleftrightarrow> has_workflow d i"
  by (auto simp: has_workflow_def has_handoff_def find_by_upsert split: option.splits)

lemma effective_put [simp]:
  "effective (put_handoff h d) = effective d" "effective (put_workflow w d) = effective d"
  by (simp_all add: effective_def invalidations_def fun_eq_iff)

lemma inv_put_workflow: "inv_but X d \<Longrightarrow> inv_but X (put_workflow w d)"
  by (auto simp: inv_defs put_workflow_def find_by_upsert upsert_distinct split: option.splits)

lemma set_upsert: "set (upsert_by key (\<lambda>_. r) r rows) = {x \<in> set rows. key x \<noteq> key r} \<union> {r}"
proof (cases "find_by key (key r) rows")
  case None
  then have "key x \<noteq> key r" if "x \<in> set rows" for x using that by (metis find_by_None imageI)
  with None show ?thesis by (auto simp: upsert_by_def)
next
  case (Some x)
  then have "x \<in> set rows \<and> key x = key r" by (rule find_by_Some)
  with Some show ?thesis by (auto simp: upsert_by_def set_update_where)
qed

lemma inv_put_handoff:
  assumes inv: "inv_but X d" and b: "backed d h" and w: "has_workflow d (h_WorkflowID h)"
  shows "inv_but (X - {h_ID h}) (put_handoff h d)"
proof -
  let ?d = "put_handoff h d"
  have keys: "keys_ok ?d"
    using inv by (simp add: inv_but_def keys_ok_def put_handoff_def put_binding_def upsert_distinct)
  have refs: "refs_ok ?d"
    using inv w unfolding inv_but_def refs_ok_def
    by (auto simp: put_handoff_def put_binding_def set_upsert has_workflow_def has_handoff_def
        find_by_upsert split: option.splits)
  have idem: "idempotency_ok ?d" using inv by (simp add: inv_but_def idempotency_ok_def)
  have own: "ownership_ok ?d"
    using inv unfolding inv_but_def ownership_ok_def
    by (auto simp: put_handoff_def put_binding_def set_upsert find_by_upsert split: option.splits)
  have proj: "projections_ok (X - {h_ID h}) ?d"
    using inv b unfolding inv_but_def projections_ok_def backed_def by (auto simp: set_upsert)
  have "invalidations_ok ?d"
    using inv by (simp add: inv_but_def invalidations_ok_def invalidations_def)
  with keys refs idem own proj show ?thesis by (simp add: inv_but_def)
qed

lemma inv_event:
  assumes inv: "inv_but X d" and "ev_ID e \<notin> ev_ID ` set (st_accepted d)" and "ev_ID e \<noteq> []"
    and "ev_IdempotencyKey e \<noteq> [] \<Longrightarrow> (ev_HandoffID e, ev_IdempotencyKey e)
       \<notin> (\<lambda>x. (ev_HandoffID x, ev_IdempotencyKey x)) ` set (st_accepted d)"
    and "has_handoff d (ev_HandoffID e)" and "has_workflow d (ev_WorkflowID e)"
  shows "inv_but (insert (ev_HandoffID e) X) (d\<lparr>st_accepted := st_accepted d @ [e]\<rparr>)"
proof -
  let ?d = "d\<lparr>st_accepted := st_accepted d @ [e]\<rparr>"
  have "effective ?d i = effective d i" if "i \<noteq> ev_HandoffID e" for i
    using that by (auto simp: effective_def invalidations_def)
  then have "projections_ok (insert (ev_HandoffID e) X) ?d"
    using inv unfolding inv_but_def projections_ok_def backed_def by auto
  moreover have "idempotency_ok ?d"
    using inv assms(4) unfolding inv_but_def idempotency_ok_def by auto
  ultimately show ?thesis
    using assms unfolding inv_but_def
    by (auto simp: keys_ok_def refs_ok_def ownership_ok_def invalidations_ok_def invalidations_def
        has_handoff_def has_workflow_def)
qed

lemma effective_event:
  assumes "inv_but X d" and "ev_ID e \<notin> ev_ID ` set (st_accepted d)"
  shows "effective (d\<lparr>st_accepted := st_accepted d @ [e]\<rparr>) (ev_HandoffID e) =
    insert e (effective d (ev_HandoffID e))"
proof -
  have "ev_ID e \<notin> set (invalidations d)"
    using assms by (auto simp: inv_but_def invalidations_ok_def)
  then show ?thesis by (auto simp: effective_def invalidations_def)
qed

lemma inv_repair:
  assumes inv: "inv_but X d" and "repair_ID r \<notin> repair_ID ` set (st_repairs d)"
    and inval: "repair_Action r = ''invalidate_event'' \<Longrightarrow>
      \<exists>e\<in>set (st_accepted d). ev_ID e = repair_InvalidatesID r \<and> ev_HandoffID e \<in> X"
  shows "inv_but X (d\<lparr>st_repairs := st_repairs d @ [r]\<rparr>)"
proof -
  let ?d = "d\<lparr>st_repairs := st_repairs d @ [r]\<rparr>"
  have "effective ?d i = effective d i" if "i \<notin> X" for i
  proof (cases "repair_Action r = ''invalidate_event''")
    case True
    with inval obtain e where e: "e \<in> set (st_accepted d)" "ev_ID e = repair_InvalidatesID r" "ev_HandoffID e \<in> X"
      by blast
    have "ev_ID x \<noteq> repair_InvalidatesID r" if "x \<in> set (st_accepted d)" "ev_HandoffID x = i" for x
    proof
      assume "ev_ID x = repair_InvalidatesID r"
      with e that inv_keys(9) [OF inv] have "x = e"
        by (auto simp: distinct_map inj_on_def)
      with e that \<open>i \<notin> X\<close> show False by auto
    qed
    then show ?thesis by (auto simp: effective_def invalidations_def)
  qed (simp add: effective_def invalidations_def)
  then have "projections_ok X ?d"
    using inv unfolding inv_but_def projections_ok_def backed_def by auto
  moreover have "repair_InvalidatesID r \<in> ev_ID ` set (st_accepted d)"
    if "repair_Action r = ''invalidate_event''" using inval [OF that] by (metis imageI)
  then have "invalidations_ok ?d"
    using inv unfolding inv_but_def invalidations_ok_def invalidations_def by auto
  ultimately show ?thesis
    using assms(1,2) unfolding inv_but_def
    by (simp add: keys_ok_def refs_ok_def idempotency_ok_def ownership_ok_def
        has_handoff_def has_workflow_def)
qed

lemma inv_mono: "inv_but X d \<Longrightarrow> X \<subseteq> Y \<Longrightarrow> inv_but Y d"
  by (auto simp: inv_but_def projections_ok_def)

lemma inv_handoff:
  assumes "store_inv d" and "find_by h_ID i (st_handoffs d) = Some h"
  shows "h_ID h = i" "backed d h" "has_workflow d (h_WorkflowID h)" "has_handoff d i"
  using find_by_Some [OF assms(2)] assms
  by (auto simp: store_inv_def inv_but_def projections_ok_def refs_ok_def has_handoff_def)

section \<open>Statements on handoffs\<close>

lemma guarantees_saveWorkflow [vcg]:
  "E d \<Longrightarrow> Q () (put_workflow w d) \<Longrightarrow> guarantees (saveWorkflowExec w) Q E d"
  unfolding saveWorkflowExec_def put_workflow_def by (intro vcg)

lemma guarantees_saveBinding [vcg]:
  "E d \<Longrightarrow> Q () (put_binding h d) \<Longrightarrow>
   guarantees (saveOwnershipBindingExec (OwnershipBindingFromHandoff h)) Q E d"
  unfolding saveOwnershipBindingExec_def put_binding_def by (intro vcg) auto

lemma guarantees_saveHandoff:
  "E d \<Longrightarrow> E (d\<lparr>st_handoffs := upsert_by h_ID (\<lambda>_. h) h (st_handoffs d)\<rparr>) \<Longrightarrow> Q () (put_handoff h d) \<Longrightarrow>
   guarantees (saveHandoffExec h) Q E d"
  unfolding saveHandoffExec_def put_handoff_def by (intro vcg)

lemma guarantees_saveProjected:
  assumes "\<And>d. E d" and "distinct (map h_ID (st_handoffs d))"
    and "find_by h_ID (h_ID h) (st_handoffs d) = Some old" and "h_StateVersion old = v"
    and "Q () (put_handoff h d)"
  shows "guarantees (saveProjectedHandoffTx h v) Q E d"
proof -
  let ?hit = "\<lambda>r. h_ID r = h_ID h \<and> h_StateVersion r = v"
  have "r = old" if "r \<in> set (st_handoffs d)" "h_ID r = h_ID h" for r
    using find_by_unique [OF assms(2) that(1)] that(2) assms(3) by simp
  then have "update_where ?hit (\<lambda>_. h) (st_handoffs d) = upsert_by h_ID (\<lambda>_. h) h (st_handoffs d)"
    using assms(3,4) by (auto simp: upsert_by_def update_where_def)
  with assms(1,5) show ?thesis
    unfolding saveProjectedHandoffTx_def Let_def by (intro vcg) (simp_all add: put_handoff_def)
qed

section \<open>Recording an event\<close>

text \<open>Handoffs that differ only in what the lifecycle does not read.\<close>

definition same_progress :: "Handoff \<Rightarrow> Handoff \<Rightarrow> bool" where
  "same_progress h k \<longleftrightarrow> h_State h = h_State k \<and> h_ReviewDecision h = h_ReviewDecision k
     \<and> h_HasReceived h = h_HasReceived k \<and> h_HasClaimed h = h_HasClaimed k
     \<and> h_HasStarted h = h_HasStarted k \<and> h_HasCheckpointed h = h_HasCheckpointed k
     \<and> h_HasSubmitted h = h_HasSubmitted k \<and> h_HasReviewed h = h_HasReviewed k
     \<and> h_ArtifactCount h = h_ArtifactCount k \<and> h_TaskKind h = h_TaskKind k
     \<and> h_ArtifactPolicy h = h_ArtifactPolicy k \<and> h_NeedsReview h = h_NeedsReview k"

lemma same_progress_wf: "same_progress h k \<Longrightarrow> lifecycle_wf h \<longleftrightarrow> lifecycle_wf k"
proof -
  assume s: "same_progress h k"
  then have "validateCompletionPrereqs h = validateCompletionPrereqs k"
    by (intro prereqs_cong) (simp_all add: same_progress_def)
  with s show ?thesis
    by (cases "h_State k") (simp_all add: lifecycle_wf_def flag_chain_def state_flags_def same_progress_def)
qed

lemma same_progress_evidenced:
  "same_progress h k \<Longrightarrow> evidenced R h A \<longleftrightarrow> evidenced R k A"
  by (simp add: evidenced_def same_progress_def)

lemma preserve_progress: "same_terms p h \<Longrightarrow> same_progress (preserveStaticHandoffFields p h) p"
  by (simp add: preserveStaticHandoffFields_def same_progress_def same_terms_def)

lemma within_all [simp]: "reviewer_within m (\<lambda>_. True)"
  by (simp add: reviewer_within_def)

lemma projection_fields [simp]:
  "h_ID (projection_of m e) = h_ID m" "h_WorkflowID (projection_of m e) = h_WorkflowID m"
  "h_LastAuthoritativeEventID (projection_of m e) = ev_ID e"
  by (simp_all add: projection_of_def preserveStaticHandoffFields_def)

lemma projection_progress:
  assumes "lifecycle_wf m" and "accepts m e"
  shows "same_progress (projection_of m e) (machine_next m e)"
    and "h_StateVersion (projection_of m e) = h_StateVersion (machine_next m e)"
    and "same_terms (projection_of m e) m"
proof -
  have next_m: "fst (Apply (NewStateMachine m) e) = machine_next m e"
    using assms by (simp add: NewStateMachine_wf machine_next_def)
  have terms: "same_terms (machine_next m e) m" by (rule machine_next_terms [OF assms(1)])
  show "same_progress (projection_of m e) (machine_next m e)"
    using preserve_progress [OF terms] by (simp add: projection_of_def next_m same_progress_def)
  show "h_StateVersion (projection_of m e) = h_StateVersion (machine_next m e)"
    by (simp add: projection_of_def next_m preserveStaticHandoffFields_def)
  show "same_terms (projection_of m e) m"
    by (simp add: projection_of_def preserveStaticHandoffFields_def same_terms_def)
qed

lemma projection_backed:
  assumes "lifecycle_wf m" and "accepts m e" and "evidenced (\<lambda>_. True) m A"
  shows "lifecycle_wf (projection_of m e)" "evidenced (\<lambda>_. True) (projection_of m e) (insert e A)"
  using same_progress_wf [OF projection_progress(1) [OF assms(1,2)]]
    same_progress_evidenced [OF projection_progress(1) [OF assms(1,2)]]
    machine_next_wf [OF assms(1), of e] evidenced_step [OF assms(1,3), of e] assms(2)
  by auto

definition commit_event :: "Handoff \<Rightarrow> EventRecord \<Rightarrow> store \<Rightarrow> store" where
  "commit_event m e d = put_handoff (projection_of m e) (d\<lparr>st_accepted := st_accepted d @ [e]\<rparr>)"

lemma guarantees_insertAccepted:
  assumes "E d"
    and "ev_ID e \<notin> ev_ID ` set (st_accepted d) \<Longrightarrow>
      (ev_IdempotencyKey e \<noteq> [] \<Longrightarrow> (ev_HandoffID e, ev_IdempotencyKey e)
         \<notin> (\<lambda>x. (ev_HandoffID x, ev_IdempotencyKey x)) ` set (st_accepted d)) \<Longrightarrow>
      has_handoff d (ev_HandoffID e) \<Longrightarrow> has_workflow d (ev_WorkflowID e) \<Longrightarrow>
      Q () (d\<lparr>st_accepted := st_accepted d @ [e]\<rparr>)"
  shows "guarantees (insertAcceptedEventRow e) Q E d"
  unfolding insertAcceptedEventRow_def using assms
  by (intro vcg) (auto simp: UNIQUE_def REFERENCES_def split: if_splits)

lemma guarantees_insertAudit [vcg]:
  assumes "E d"
    and "ev_ID e \<notin> ev_ID ` set (st_audit d) \<Longrightarrow> has_handoff d (ev_HandoffID e) \<Longrightarrow>
      has_workflow d (ev_WorkflowID e) \<Longrightarrow> Q () (d\<lparr>st_audit := st_audit d @ [e]\<rparr>)"
  shows "guarantees (insertAuditEventRow e) Q E d"
  unfolding insertAuditEventRow_def using assms
  by (intro vcg) (auto simp: UNIQUE_def REFERENCES_def split: if_splits)

lemma commit_event_inv:
  assumes inv: "store_inv d" and m: "find_by h_ID (ev_HandoffID e) (st_handoffs d) = Some m"
    and acc: "accepts m e" and ids: "ev_ID e \<notin> ev_ID ` set (st_accepted d)" "ev_ID e \<noteq> []"
    and idem: "ev_IdempotencyKey e \<noteq> [] \<Longrightarrow> (ev_HandoffID e, ev_IdempotencyKey e)
         \<notin> (\<lambda>x. (ev_HandoffID x, ev_IdempotencyKey x)) ` set (st_accepted d)"
    and wf: "has_workflow d (ev_WorkflowID e)"
  shows "store_inv (commit_event m e d)"
proof -
  let ?d = "d\<lparr>st_accepted := st_accepted d @ [e]\<rparr>"
  note h = inv_handoff [OF inv m]
  from inv have but: "inv_but {} d" by (simp add: store_inv_def)
  have "inv_but {ev_HandoffID e} ?d"
    using inv_event [OF but ids idem h(4) wf] by simp
  moreover have "backed ?d (projection_of m e)"
    using h projection_backed [OF _ acc, of "effective d (ev_HandoffID e)"] effective_event [OF but ids(1)]
    by (simp add: backed_def)
  moreover have "has_workflow ?d (h_WorkflowID (projection_of m e))"
    using h(3) by (simp add: has_workflow_def)
  ultimately have "inv_but ({ev_HandoffID e} - {h_ID (projection_of m e)}) (put_handoff (projection_of m e) ?d)"
    by (rule inv_put_handoff)
  with h(1) show ?thesis by (simp add: store_inv_def commit_event_def)
qed

text \<open>Inserting an accepted event and writing its projection.\<close>

lemma guarantees_commit:
  assumes inv: "store_inv d" and m: "find_by h_ID (ev_HandoffID e) (st_handoffs d) = Some m"
    and acc: "accepts m e" and E: "\<And>d. E d"
    and Q: "ev_ID e \<notin> ev_ID ` set (st_accepted d) \<Longrightarrow>
      (ev_ID e \<noteq> [] \<Longrightarrow> store_inv (commit_event m e d)) \<Longrightarrow> guarantees (k ()) Q E (commit_event m e d)"
  shows "guarantees (insertAcceptedEventRow e) (\<lambda>_. guarantees
      (bindE (saveProjectedHandoffTx (projection_of m e) (h_StateVersion m)) k) Q E) E d"
proof (intro guarantees_insertAccepted vcg E)
  assume new: "ev_ID e \<notin> ev_ID ` set (st_accepted d)" "has_handoff d (ev_HandoffID e)"
      "has_workflow d (ev_WorkflowID e)"
    and idem: "ev_IdempotencyKey e \<noteq> [] \<Longrightarrow> (ev_HandoffID e, ev_IdempotencyKey e)
         \<notin> (\<lambda>x. (ev_HandoffID x, ev_IdempotencyKey x)) ` set (st_accepted d)"
  let ?d = "d\<lparr>st_accepted := st_accepted d @ [e]\<rparr>"
  note h = inv_handoff [OF inv m]
  show "guarantees (saveProjectedHandoffTx (projection_of m e) (h_StateVersion m))
      (\<lambda>a. guarantees (k a) Q E) E ?d"
  proof (rule guarantees_saveProjected)
    show "find_by h_ID (h_ID (projection_of m e)) (st_handoffs ?d) = Some m" using m h(1) by simp
    show "distinct (map h_ID (st_handoffs ?d))" using inv by (simp add: store_inv_def inv_keys(6))
    show "guarantees (k ()) Q E (put_handoff (projection_of m e) ?d)"
      using Q [OF new(1)] commit_event_inv [OF inv m acc new(1) _ idem new(3)]
      by (auto simp: commit_event_def)
  qed (simp_all add: E)
qed

text \<open>Recording an event is all or nothing, and keeps the invariant.\<close>

lemma guarantees_record:
  assumes inv: "store_inv d" and E: "\<And>d. E d"
    and Q: "\<And>m. find_by h_ID (ev_HandoffID e) (st_handoffs d) = Some m \<Longrightarrow> accepts m e \<Longrightarrow>
      ev_WorkflowID e = h_WorkflowID m \<Longrightarrow> ev_ID e \<notin> ev_ID ` set (st_accepted d) \<Longrightarrow>
      (ev_ID e \<noteq> [] \<Longrightarrow> store_inv (commit_event m e d)) \<Longrightarrow>
      Q (projection_of m e) (commit_event m e d)"
  shows "guarantees (recordAcceptedEventTx e) Q E d"
  unfolding recordAcceptedEventTx_def Let_def
  by (intro vcg guarantees_commit E Q inv)
    (use inv_handoff(2) [OF inv] in \<open>auto simp: accepts_def backed_def NewStateMachine_wf\<close>)

lemma guarantees_RecordAccepted:
  assumes inv: "store_inv d" and "E d"
    and Q: "\<And>m. find_by h_ID (ev_HandoffID e) (st_handoffs d) = Some m \<Longrightarrow> accepts m e \<Longrightarrow>
      ev_Accepted e \<Longrightarrow> \<not> isObservedSignalEvent (ev_Type e) \<Longrightarrow>
      ev_WorkflowID e = h_WorkflowID m \<Longrightarrow> ev_ID e \<notin> ev_ID ` set (st_accepted d) \<Longrightarrow>
      (ev_ID e \<noteq> [] \<Longrightarrow> store_inv (commit_event m e d)) \<Longrightarrow>
      Q (projection_of m e) (commit_event m e d)"
  shows "guarantees (RecordAcceptedEvent e) Q E d"
  unfolding RecordAcceptedEvent_def
  using assms by (intro vcg guarantees_record) auto

end
