(* ===== verification/Orch_Service.thy ===== *)
theory Orch_Service
  imports Orch_Invariant
begin

text \<open>
  \<open>internal/orchestrator/service.go\<close>, \<open>protocol_service.go\<close>, \<open>openclaw_adapter.go\<close>: the
  operations of the orchestrator service. Each is the sequence of statements, clock readings
  and identifiers of the Go code; the statements inside \<open>in_tx\<close> are its transaction. The
  external command and the decoding of its JSON output are parameters.
\<close>

section \<open>Inputs and results\<close>

record CreateHandoffInput =
  ci_WorkflowKind :: string
  ci_Sender :: ActorRef
  ci_Receiver :: ActorRef
  ci_Reviewer :: ActorRef
  ci_TaskKind :: TaskKind
  ci_Intent :: string
  ci_ParentHandoffID :: "string option"
  ci_DependsOnHandoffIDs :: "string list"
  ci_RequiredForWorkflowCompletion :: bool
  ci_ArtifactPolicy :: ArtifactPolicy
  ci_NeedsReview :: bool
  ci_PayloadRef :: string
  ci_DeliveryTargetRef :: string

record CreateHandoffResult =
  cres_Workflow :: Workflow
  cres_Handoff :: Handoff
  cres_Watches :: "Watch list"

record InboundArtifactRef =
  ref_URI :: string
  ref_Type :: string
  ref_Version :: string
  ref_Checksum :: string

record IdempotentCreateHandoffInput =
  ii_IdempotencyKey :: string
  ii_PayloadHash :: string
  ii_Handoff :: CreateHandoffInput
  ii_ArtifactRefs :: "InboundArtifactRef list"

record EventDecision =
  ed_Event :: EventRecord
  ed_Decision :: Decision
  ed_Handoff :: Handoff

record DispatchHandoffInput =
  di_HandoffID :: string
  di_Adapter :: string
  di_Target :: string
  di_Command :: string
  di_Args :: "string list"
  di_Message :: string

record UpdateWatchInput =
  uw_WatchID :: string
  uw_DeadlineAt :: "time option"
  uw_Status :: "string option"
  uw_EscalationPolicy :: "string option"

record UpdateOwnershipInput =
  uo_HandoffID :: string
  uo_CurrentOwner :: "ActorRef option"
  uo_ReviewerActor :: "ActorRef option"
  uo_EscalationOwner :: "ActorRef option"
  uo_FallbackOwner :: "ActorRef option"
  uo_LeaseHolder :: "ActorRef option"
  uo_LeasedAt :: "time option"
  uo_LeaseExpiresAt :: "time option"

definition ErrIdempotencyConflict :: error where
  "ErrIdempotencyConflict = ErrSentinel ''idempotency conflict''"

section \<open>Agents\<close>

definition trimActorRef :: "ActorRef \<Rightarrow> ActorRef" where
  "trimActorRef a = \<lparr>actor_Type = trimSpace (actor_Type a), actor_ID = trimSpace (actor_ID a),
     actor_Address = trimSpace (actor_Address a)\<rparr>"

definition trimStrings :: "string list \<Rightarrow> string list" where
  "trimStrings vs = filter (\<lambda>v. v \<noteq> []) (map trimSpace vs)"

definition RegisterAgent :: "AgentRegistration \<Rightarrow> AgentRegistration sop" where
  "RegisterAgent input =
     bindE now_op (\<lambda>now.
     let actor = trimActorRef (agent_Actor input); status = trimSpace (agent_Status input);
         agent = input\<lparr>agent_Actor := actor,
           agent_Capabilities := trimStrings (agent_Capabilities input),
           agent_ProjectRefs := trimStrings (agent_ProjectRefs input),
           agent_DeliveryTargetRef := trimSpace (agent_DeliveryTargetRef input),
           agent_Status := (if status = [] then ''available'' else status),
           agent_CreatedAt := (if is_zero (agent_CreatedAt input) then now else agent_CreatedAt input),
           agent_UpdatedAt := now,
           agent_LastHeartbeatAt := (case agent_LastHeartbeatAt input of None \<Rightarrow> Some now | Some t \<Rightarrow> Some t)\<rparr> in
     if actor_ID actor = [] then throw (ErrorText ''agent id is required'')
     else if actor_Type actor \<noteq> ActorAgent then throw (ErrorText ''agent actor type must be agent'')
     else bindE (SaveAgentRegistration agent) (\<lambda>_. ret agent))"

definition ListAgents :: "AgentListFilter \<Rightarrow> AgentRegistration list sop" where
  "ListAgents f = ListAgentRegistrations (f\<lparr>alf_Capability := trimSpace (alf_Capability f),
     alf_ProjectRef := trimSpace (alf_ProjectRef f), alf_Status := trimSpace (alf_Status f)\<rparr>)"

section \<open>Creating handoffs\<close>

definition newWatch :: "string \<Rightarrow> string \<Rightarrow> EventType \<Rightarrow> time \<Rightarrow> time \<Rightarrow> ('db, Watch) op" where
  "newWatch handoffID watchType eventType deadlineAt now =
     bindE (NewID ''watch'') (\<lambda>i. ret \<lparr>watch_ID = i, watch_HandoffID = handoffID,
       watch_WatchType = watchType, watch_EventType = eventType, watch_DeadlineAt = deadlineAt,
       watch_Status = ''active'', watch_LastCheckedAt = now, watch_LastResult = [],
       watch_EscalationPolicy = [], watch_CreatedAt = now\<rparr>)"

definition progressEventForTask :: "Handoff \<Rightarrow> EventType" where
  "progressEventForTask h = (if requiresSubmitted h then EventSubmitted else EventCompleted)"

definition CreateDefaultWatches :: "Handoff \<Rightarrow> time \<Rightarrow> ('db, Watch list) op" where
  "CreateDefaultWatches h now =
     bindE (newWatch (h_ID h) ''wait_for_received'' EventReceived (now + 5 * minute) now) (\<lambda>w1.
     bindE (newWatch (h_ID h) ''wait_for_started'' EventStarted (now + 10 * minute) now) (\<lambda>w2.
     bindE (newWatch (h_ID h) ''wait_for_progress'' (progressEventForTask h) (now + 15 * minute) now) (\<lambda>w3.
     ret [w1, w2, w3])))"

definition newHandoff :: "string \<Rightarrow> string \<Rightarrow> string \<Rightarrow> CreateHandoffInput \<Rightarrow> time \<Rightarrow> Handoff" where
  "newHandoff handoffID workflowID kind input now = \<lparr>
     h_ID = handoffID, h_WorkflowID = workflowID, h_WorkflowKind = kind,
     h_ParentHandoffID = ci_ParentHandoffID input,
     h_DependsOnHandoffIDs = ci_DependsOnHandoffIDs input,
     h_RequiredForWorkflowCompletion = ci_RequiredForWorkflowCompletion input,
     h_State = StateCreated, h_StateVersion = 0, h_TaskKind = ci_TaskKind input,
     h_Intent = ci_Intent input, h_PayloadRef = ci_PayloadRef input,
     h_DeliveryTargetRef = ci_DeliveryTargetRef input, h_DeadlineAt = None,
     h_ProducerActor = ActorOf ActorSystem ''workflow-controller'',
     h_SenderActor = ci_Sender input, h_ReceiverActor = ci_Receiver input,
     h_ReviewerActor = ci_Reviewer input, h_SubjectActor = ci_Receiver input,
     h_CurrentOwner = ci_Receiver input, h_LeaseHolder = NoActor,
     h_EscalationOwner = ci_Sender input, h_FallbackOwner = ci_Sender input,
     h_LeasedAt = None, h_LeaseExpiresAt = None, h_ArtifactPolicy = ci_ArtifactPolicy input,
     h_NeedsReview = ci_NeedsReview input, h_ReviewDecision = ReviewUnset,
     h_HasReceived = False, h_HasClaimed = False, h_HasStarted = False, h_HasCheckpointed = False,
     h_HasSubmitted = False, h_HasReviewed = False, h_ArtifactCount = 0,
     h_LastAuthoritativeEventID = [], h_CreatedAt = now, h_UpdatedAt = now, h_CompletedAt = None\<rparr>"

definition newRootHandoffCreation ::
  "CreateHandoffInput \<Rightarrow> time \<Rightarrow> ('db, Workflow \<times> Handoff \<times> Watch list) op" where
  "newRootHandoffCreation input now =
     bindE (NewID ''wf'') (\<lambda>workflowID.
     bindE (NewID ''hf'') (\<lambda>handoffID.
     let workflow = \<lparr>wf_ID = workflowID, wf_Kind = ci_WorkflowKind input,
           wf_InitiatorActor = ci_Sender input, wf_Status = WorkflowActive,
           wf_RootHandoffID = handoffID, wf_CurrentHandoffID = handoffID,
           wf_CreatedAt = now, wf_UpdatedAt = now, wf_CompletedAt = None\<rparr>;
         handoff = newHandoff handoffID workflowID (ci_WorkflowKind input) input now in
     bindE (CreateDefaultWatches handoff now) (\<lambda>watches. ret (workflow, handoff, watches))))"

definition has_relations :: "CreateHandoffInput \<Rightarrow> bool" where
  "has_relations input \<longleftrightarrow> ci_ParentHandoffID input \<noteq> None \<or> length (ci_DependsOnHandoffIDs input) > 0"

definition relationsError :: error where
  "relationsError =
     ErrorText ''workflow_id is required when creating a handoff with parent or dependencies''"

definition CreateHandoff :: "CreateHandoffInput \<Rightarrow> CreateHandoffResult sop" where
  "CreateHandoff input =
     (if has_relations input then throw relationsError
      else
        bindE now_op (\<lambda>now.
        bindE (newRootHandoffCreation input now) (\<lambda>(workflow, handoff, watches).
        bindE (in_tx ''begin create handoff tx'' ''commit create handoff tx''
          (bindE (saveWorkflowExec workflow) (\<lambda>_.
           bindE (saveHandoffExec handoff) (\<lambda>_.
           forE watches saveWatchExec)))) (\<lambda>_.
        ret \<lparr>cres_Workflow = workflow, cres_Handoff = handoff, cres_Watches = watches\<rparr>))))"

definition inboundArtifact :: "string \<Rightarrow> ActorRef \<Rightarrow> time \<Rightarrow> InboundArtifactRef \<Rightarrow> ('db, Artifact) op" where
  "inboundArtifact handoffID sender now ref =
     bindE (NewID ''art'') (\<lambda>i. ret \<lparr>art_ID = i, art_HandoffID = handoffID, art_Type = ref_Type ref,
       art_URI = ref_URI ref, art_Version = ref_Version ref, art_Checksum = ref_Checksum ref,
       art_Metadata = [], art_CreatedBy = sender, art_CreatedAt = now\<rparr>)"

text \<open>The flag of the result is \<open>Replayed\<close>.\<close>

definition CreateHandoffIdempotent :: "IdempotentCreateHandoffInput \<Rightarrow> (CreateHandoffResult \<times> bool) sop" where
  "CreateHandoffIdempotent input =
     (if trimSpace (ii_IdempotencyKey input) = [] then throw (ErrorText ''idempotency_key is required'')
      else if trimSpace (ii_PayloadHash input) = [] then throw (ErrorText ''payload_hash is required'')
      else if has_relations (ii_Handoff input) then throw relationsError
      else
        bindE now_op (\<lambda>now.
        bindE (newRootHandoffCreation (ii_Handoff input) now) (\<lambda>(workflow, fresh, watches).
        bindE (mapE (inboundArtifact (h_ID fresh) (ci_Sender (ii_Handoff input)) now) (ii_ArtifactRefs input))
          (\<lambda>artifacts.
        let handoff = fresh\<lparr>h_ArtifactCount := int (length artifacts)\<rparr> in
        in_tx_early ''begin idempotent create handoff tx'' ''commit idempotent create handoff tx''
          (bindE (loadA2AInboundTaskCreationTx (ii_IdempotencyKey input)) (\<lambda>found.
           case found of
             Some record \<Rightarrow>
               if cr_PayloadHash record \<noteq> ii_PayloadHash input then throw ErrIdempotencyConflict
               else
                 bindE (loadWorkflowTx (cr_WorkflowID record)) (\<lambda>storedWorkflow.
                 bindE (loadHandoffTx (cr_HandoffID record)) (\<lambda>storedHandoff.
                 ret (Inl (\<lparr>cres_Workflow = storedWorkflow, cres_Handoff = storedHandoff, cres_Watches = []\<rparr>, True))))
           | None \<Rightarrow>
               bindE (saveWorkflowExec workflow) (\<lambda>_.
               bindE (saveHandoffExec handoff) (\<lambda>_.
               bindE (forE artifacts saveArtifactExec) (\<lambda>_.
               bindE (forE watches saveWatchExec) (\<lambda>_.
               bindE (saveA2AInboundTaskCreationExec \<lparr>cr_IdempotencyKey = ii_IdempotencyKey input,
                   cr_PayloadHash = ii_PayloadHash input, cr_WorkflowID = wf_ID workflow,
                   cr_HandoffID = h_ID handoff, cr_CreatedAt = now\<rparr>) (\<lambda>_.
               ret (Inr (\<lparr>cres_Workflow = workflow, cres_Handoff = handoff, cres_Watches = watches\<rparr>, False)))))))))))))"

definition loadRelatedHandoffTx :: "string \<Rightarrow> string \<Rightarrow> string \<Rightarrow> Handoff sop" where
  "loadRelatedHandoffTx label handoffID workflowID =
     (if handoffID = [] then throw (ErrorText (label @ '' id is required''))
      else
        bindE (wrapE (label @ '' '' @ handoffID) (loadHandoffTx handoffID)) (\<lambda>handoff.
        if h_WorkflowID handoff \<noteq> workflowID
        then throw (ErrorText (label @ '' '' @ handoffID @ '' belongs to workflow '' @ h_WorkflowID handoff
               @ '', not '' @ workflowID))
        else ret handoff))"

definition AppendHandoff :: "string \<Rightarrow> CreateHandoffInput \<Rightarrow> CreateHandoffResult sop" where
  "AppendHandoff workflowID input =
     (if workflowID = [] then throw (ErrorText ''workflow_id is required'')
      else
        bindE now_op (\<lambda>now.
        bindE (LoadWorkflow workflowID) (\<lambda>workflow.
        bindE (ListWorkflowHandoffs workflowID) (\<lambda>handoffs.
        let projected = ProjectWorkflow workflow handoffs now in
        if wf_Status projected = WorkflowCompleted \<or> wf_Status projected = WorkflowFailed
        then throw (ErrorText (''cannot append handoff to terminal workflow '' @ wf_ID workflow
               @ '' with status '' @ workflowStatusText (wf_Status projected)))
        else if ci_WorkflowKind input \<noteq> [] \<and> ci_WorkflowKind input \<noteq> wf_Kind workflow
        then throw (ErrorText (''workflow_kind '' @ ci_WorkflowKind input @ '' does not match workflow ''
               @ wf_ID workflow @ '' kind '' @ wf_Kind workflow))
        else
          in_tx ''begin append handoff tx'' ''commit append handoff tx''
            (bindE (case ci_ParentHandoffID input of
                      None \<Rightarrow> ret ()
                    | Some p \<Rightarrow> bindE (loadRelatedHandoffTx ''parent handoff'' p (wf_ID workflow)) (\<lambda>_. ret ())) (\<lambda>_.
             bindE (forE (ci_DependsOnHandoffIDs input) (\<lambda>dep.
               bindE (loadRelatedHandoffTx ''dependency handoff'' dep (wf_ID workflow)) (\<lambda>_. ret ()))) (\<lambda>_.
             bindE (NewID ''hf'') (\<lambda>handoffID.
             let handoff = newHandoff handoffID (wf_ID workflow) (wf_Kind workflow) input now in
             bindE (CreateDefaultWatches handoff now) (\<lambda>watches.
             let current = workflow\<lparr>wf_CurrentHandoffID := h_ID handoff, wf_UpdatedAt := now\<rparr> in
             bindE (saveHandoffExec handoff) (\<lambda>_.
             bindE (forE watches saveWatchExec) (\<lambda>_.
             bindE (saveWorkflowExec current) (\<lambda>_.
             ret \<lparr>cres_Workflow = current, cres_Handoff = handoff, cres_Watches = watches\<rparr>))))))))))))"

definition ensureHandoffDependenciesCompleted :: "Handoff \<Rightarrow> unit sop" where
  "ensureHandoffDependenciesCompleted handoff =
     forE (h_DependsOnHandoffIDs handoff) (\<lambda>dependencyID.
       bindE (loadRelatedHandoffTx ''dependency handoff'' dependencyID (h_WorkflowID handoff)) (\<lambda>dependency.
       if h_State dependency \<noteq> StateCompleted
       then throw (ErrorText (''handoff dependencies are incomplete: dependency handoff '' @ dependencyID
              @ '' is '' @ handoffStateText (h_State dependency)))
       else ret ()))"

section \<open>Recording events\<close>

text \<open>The three defaults every recording operation starts with.\<close>

definition fillEvent :: "EventRecord \<Rightarrow> EventRecord sop" where
  "fillEvent e =
     bindE (if ev_ID e = [] then NewID ''evt'' else ret (ev_ID e)) (\<lambda>i.
     bindE (if is_zero (ev_ProducerEventTime e) then now_op else ret (ev_ProducerEventTime e)) (\<lambda>p.
     bindE (if is_zero (ev_IngestedAt e) then now_op else ret (ev_IngestedAt e)) (\<lambda>g.
     ret (e\<lparr>ev_ID := i, ev_ProducerEventTime := p, ev_IngestedAt := g\<rparr>))))"

text \<open>A rejected event is answered with its decision and, besides, the reason as an error.\<close>

definition RecordAuthoritativeEvent :: "EventRecord \<Rightarrow> (EventDecision \<times> error option) sop" where
  "RecordAuthoritativeEvent input =
     bindE (fillEvent input) (\<lambda>event.
     if isObservedSignalEvent (ev_Type event)
     then throw (ErrorText (''event '' @ eventTypeText (ev_Type event)
            @ '' is signal-only and cannot be recorded as authoritative''))
     else
       bindE (loadHandoffTx (ev_HandoffID event)) (\<lambda>handoff.
       let decision = snd (Apply (NewStateMachine handoff) event) in
       if \<not> dec_Accepted decision then
         let rejected = event\<lparr>
               ev_WorkflowID := (if ev_WorkflowID event = [] then h_WorkflowID handoff else ev_WorkflowID event),
               ev_Accepted := False, ev_RejectionReason := dec_Reason decision\<rparr> in
         bindE (RecordRejectedEvent rejected) (\<lambda>_.
         ret (\<lparr>ed_Event = rejected, ed_Decision = decision, ed_Handoff = handoff\<rparr>,
              Some (ErrorText (dec_Reason decision))))
       else
         bindE (RecordAcceptedEvent (event\<lparr>ev_Accepted := True\<rparr>)) (\<lambda>persisted.
         ret (\<lparr>ed_Event = event\<lparr>ev_Accepted := True\<rparr>, ed_Decision = decision, ed_Handoff = persisted\<rparr>, None))))"

definition RecordEvent :: "EventRecord \<Rightarrow> (EventDecision \<times> error option) sop" where
  "RecordEvent input = RecordAuthoritativeEvent input"

section \<open>Protocol actions\<close>

fun protocolActionRequiresCompletedDependencies :: "ProtocolAction \<Rightarrow> bool" where
  "protocolActionRequiresCompletedDependencies ProtocolActionFail = False"
| "protocolActionRequiresCompletedDependencies (ProtocolActionOther _) = False"
| "protocolActionRequiresCompletedDependencies _ = True"

definition supportedProtocolActions :: "ProtocolAction list" where
  "supportedProtocolActions = [ProtocolActionReceive, ProtocolActionClaim, ProtocolActionStart,
     ProtocolActionCheckpoint, ProtocolActionSubmit, ProtocolActionReview,
     ProtocolActionRequestRevision, ProtocolActionApprove, ProtocolActionComplete, ProtocolActionFail]"

definition formatSupportedProtocolActions :: string where
  "formatSupportedProtocolActions = joinText '', '' (map (\<lambda>a.
     trimPrefix (protocolActionText a) ''handoff.'' @ '' ('' @ protocolActionText a @ '')'') supportedProtocolActions)"

definition protocolEventFromRequest :: "Handoff \<Rightarrow> ProtocolRequest \<Rightarrow> string + EventRecord" where
  "protocolEventFromRequest handoff req =
     (let event = NoEvent\<lparr>
            ev_WorkflowID := (if preq_WorkflowID req \<noteq> [] then preq_WorkflowID req else h_WorkflowID handoff),
            ev_HandoffID := preq_HandoffID req,
            ev_ProducerEventTime := preq_ProducerEventTime req,
            ev_IngestedAt := preq_IngestedAt req,
            ev_ProducerActor := preq_Actor req, ev_SubjectActor := preq_Actor req,
            ev_Payload := preq_Payload req, ev_ArtifactCount := preq_ArtifactCount req\<rparr> in
      case preq_Action req of
        ProtocolActionReceive \<Rightarrow> Inr (event\<lparr>ev_Type := EventReceived\<rparr>)
      | ProtocolActionClaim \<Rightarrow> Inr (event\<lparr>ev_Type := EventClaimed\<rparr>)
      | ProtocolActionStart \<Rightarrow> Inr (event\<lparr>ev_Type := EventStarted\<rparr>)
      | ProtocolActionCheckpoint \<Rightarrow> Inr (event\<lparr>ev_Type := EventCheckpointed\<rparr>)
      | ProtocolActionSubmit \<Rightarrow> Inr (event\<lparr>ev_Type := EventSubmitted\<rparr>)
      | ProtocolActionReview \<Rightarrow>
          if \<not> isValidReviewDecision (preq_ReviewDecision req)
          then Inl ''handoff.review requires valid review decision''
          else Inr (event\<lparr>ev_Type := EventReviewed, ev_ReviewDecision := preq_ReviewDecision req\<rparr>)
      | ProtocolActionRequestRevision \<Rightarrow>
          Inr (event\<lparr>ev_Type := EventReviewed, ev_ReviewDecision := ReviewDecisionRevisionRequired\<rparr>)
      | ProtocolActionApprove \<Rightarrow>
          Inr (event\<lparr>ev_Type := EventReviewed, ev_ReviewDecision := ReviewDecisionApproved\<rparr>)
      | ProtocolActionComplete \<Rightarrow> Inr (event\<lparr>ev_Type := EventCompleted\<rparr>)
      | ProtocolActionFail \<Rightarrow> Inr (event\<lparr>ev_Type := EventFailed\<rparr>)
      | a \<Rightarrow> Inl (''unsupported protocol action '' @ protocolActionText a
                  @ ''; supported actions: '' @ formatSupportedProtocolActions))"

text \<open>\<open>ProtocolResult\<close> is the action with the event decision.\<close>

definition ApplyProtocolAction :: "ProtocolRequest \<Rightarrow> (EventDecision \<times> error option) sop" where
  "ApplyProtocolAction req =
     (if preq_HandoffID req = [] then throw (ErrorText ''protocol action requires handoff_id'')
      else if actor_ID (preq_Actor req) = [] \<or> actor_Type (preq_Actor req) = []
      then throw (ErrorText ''protocol action requires actor'')
      else
        bindE (LoadHandoff (preq_HandoffID req)) (\<lambda>handoff.
        bindE (if protocolActionRequiresCompletedDependencies (preq_Action req)
               then ensureHandoffDependenciesCompleted handoff else ret ()) (\<lambda>_.
        case protocolEventFromRequest handoff req of
          Inl err \<Rightarrow> throw (ErrorText err)
        | Inr event \<Rightarrow> RecordAuthoritativeEvent event)))"

section \<open>Observed signals\<close>

definition persistObservedSignal ::
  "Handoff \<Rightarrow> EventRecord option \<Rightarrow> ObserverHint option \<Rightarrow> ObservedSignal \<Rightarrow> unit sop" where
  "persistObservedSignal handoff auditEvent hint signal =
     in_tx ''begin observed signal tx'' ''commit observed signal tx''
       (bindE (case auditEvent of None \<Rightarrow> ret () | Some e \<Rightarrow> insertAuditEventRow e) (\<lambda>_.
        bindE (case hint of None \<Rightarrow> ret () | Some x \<Rightarrow> saveDivergenceExec x) (\<lambda>_.
        bindE (appendObservedSignalExec signal) (\<lambda>_.
        bindE (BuildRepairCandidates handoff signal (sig_ObservedAt signal)) (\<lambda>candidates.
        forE candidates appendRepairCandidateExec)))))"

definition observeHint :: "ObserverHint \<Rightarrow> unit sop" where
  "observeHint input =
     bindE (if hint_ID input = [] then NewID ''div'' else ret (hint_ID input)) (\<lambda>i.
     bindE (if is_zero (hint_CreatedAt input) then now_op else ret (hint_CreatedAt input)) (\<lambda>t.
     bindE (LoadHandoff (hint_HandoffID input)) (\<lambda>handoff.
     if hint_WorkflowID input \<noteq> [] \<and> hint_WorkflowID input \<noteq> h_WorkflowID handoff
     then throw (ErrorText ''divergence workflow mismatch'')
     else
       let hint = input\<lparr>hint_ID := i, hint_CreatedAt := t,
             hint_WorkflowID := (if hint_WorkflowID input = [] then h_WorkflowID handoff else hint_WorkflowID input)\<rparr> in
       bindE (NewID ''signal'') (\<lambda>s.
       persistObservedSignal handoff None (Some hint)
         \<lparr>sig_ID = s, sig_HandoffID = hint_HandoffID hint, sig_WorkflowID = hint_WorkflowID hint,
          sig_Kind = hint_SignalType hint, sig_Reason = hint_SignalType hint, sig_EventID = [],
          sig_AttemptID = [], sig_Details = hint_Details hint, sig_ObservedAt = hint_CreatedAt hint\<rparr>))))"

definition observeEvent :: "EventRecord \<Rightarrow> unit sop" where
  "observeEvent input =
     bindE (fillEvent input) (\<lambda>event.
     if actor_Type (ev_ProducerActor event) \<noteq> ActorSystem
     then throw (ErrorText (''observer hint '' @ eventTypeText (ev_Type event) @ '' requires system actor''))
     else case observedSignalKindForEvent (ev_Type event) of
       None \<Rightarrow> throw (ErrorText (''observer hint '' @ eventTypeText (ev_Type event)
                 @ '' requires observer-only event type''))
     | Some kind \<Rightarrow>
       bindE (LoadHandoff (ev_HandoffID event)) (\<lambda>handoff.
       let located = event\<lparr>ev_WorkflowID :=
             (if ev_WorkflowID event = [] then h_WorkflowID handoff else ev_WorkflowID event)\<rparr> in
       bindE (validateEventWorkflowMatch handoff located) (\<lambda>_.
       let audit = located\<lparr>ev_Accepted := False, ev_RejectionReason := ''observer_hint''\<rparr> in
       bindE (NewID ''signal'') (\<lambda>s.
       let signal = \<lparr>sig_ID = s, sig_HandoffID = ev_HandoffID audit, sig_WorkflowID = ev_WorkflowID audit,
             sig_Kind = kind, sig_Reason = eventTypeText (ev_Type audit), sig_EventID = ev_ID audit,
             sig_AttemptID = ev_AttemptID audit, sig_Details = ev_Payload audit,
             sig_ObservedAt = ev_IngestedAt audit\<rparr> in
       bindE (if transportResult (ev_Type audit)
              then bindE (NewID ''div'') (\<lambda>i. ret (Some \<lparr>hint_ID = i, hint_HandoffID = ev_HandoffID audit,
                     hint_WorkflowID = ev_WorkflowID audit, hint_SignalType = eventTypeText (ev_Type audit),
                     hint_Details = [(''attempt_id'', JString (ev_AttemptID audit)),
                                     (''event_id'', JString (ev_ID audit))],
                     hint_CreatedAt = ev_IngestedAt audit\<rparr>))
              else ret None) (\<lambda>hint.
       persistObservedSignal handoff (Some audit) hint signal)))))"

definition RecordObservedSignal :: "EventRecord \<Rightarrow> ObserverHint option \<Rightarrow> unit sop" where
  "RecordObservedSignal event hint =
     (case hint of Some x \<Rightarrow> observeHint x | None \<Rightarrow> observeEvent event)"

definition RecordObserverHint :: "EventRecord \<Rightarrow> ObserverHint option \<Rightarrow> unit sop" where
  "RecordObserverHint event hint = RecordObservedSignal event hint"

end
