(* ===== verification/Orch_Repair.thy ===== *)
theory Orch_Repair
  imports Orch_Service
begin

text \<open>
  \<open>internal/orchestrator/service.go\<close>, continued: dispatching a handoff through the external
  command of \<open>openclaw_adapter.go\<close>, the repairs (invalidate, backfill, reopen) with the
  replay of a handoff's projection, and the updates of watches and ownership.
\<close>

section \<open>The dispatch adapter\<close>

text \<open>
  \<open>execute\<close> is the external command: its output, its error output and its error, if any.
  \<open>decode\<close> is \<open>json.Unmarshal\<close> of its output into status, external id and events.
\<close>

datatype run_error = DeadlineExceeded | RunFailed

type_synonym runner = "DispatchRequest \<Rightarrow> string \<times> string \<times> run_error option"
type_synonym decoder = "string \<Rightarrow> (string \<times> string \<times> DispatchLifecycleEvent list) option"

definition Dispatch :: "runner \<Rightarrow> decoder \<Rightarrow> DispatchRequest \<Rightarrow> DispatchResult" where
  "Dispatch execute decode req =
     (let (stdout, stderr, err) = execute req;
          result = (\<lambda>status ext events. \<lparr>dres_TransportStatus = status, dres_ExternalID = ext,
            dres_Stdout = trimSpace stdout, dres_Stderr = trimSpace stderr, dres_LifecycleEvents = events\<rparr>) in
      case err of
        Some DeadlineExceeded \<Rightarrow> result TransportTimeout [] []
      | Some RunFailed \<Rightarrow> result TransportRejected [] []
      | None \<Rightarrow>
          (case decode stdout of
             None \<Rightarrow> result TransportRejected [] []
           | Some (status, ext, events) \<Rightarrow>
               result (if status = ''accepted'' then TransportAccepted
                       else if status = ''timeout'' then TransportTimeout
                       else if status = ''rejected'' then TransportRejected
                       else TransportRejected) ext events))"

definition dispatchLifecycleProtocolAction :: "string \<Rightarrow> string + ProtocolAction" where
  "dispatchLifecycleProtocolAction v =
     (let t = trimSpace v in
      if t = ''received'' then Inr ProtocolActionReceive
      else if t = ''claimed'' then Inr ProtocolActionClaim
      else if t = ''started'' then Inr ProtocolActionStart
      else if t = ''checkpointed'' then Inr ProtocolActionCheckpoint
      else if t = ''submitted'' then Inr ProtocolActionSubmit
      else if t = ''reviewed'' then Inr ProtocolActionReview
      else if t = ''approved'' then Inr ProtocolActionApprove
      else if t = ''revision_required'' then Inr ProtocolActionRequestRevision
      else if t = ''completed'' then Inr ProtocolActionComplete
      else if t = ''failed'' then Inr ProtocolActionFail
      else Inl (''unsupported dispatch lifecycle event '' @ t))"

definition normalizeDispatchLifecycleAgent :: "string \<Rightarrow> string" where
  "normalizeDispatchLifecycleAgent v = trimSpace (trimPrefix (trimSpace v) ''agent:'')"

definition dispatchLifecycleProtocolRequest ::
  "Handoff \<Rightarrow> DispatchHandoffInput \<Rightarrow> DispatchLifecycleEvent \<Rightarrow> string + ProtocolRequest" where
  "dispatchLifecycleProtocolRequest handoff input event =
     (case dispatchLifecycleProtocolAction (dle_Event event) of
        Inl err \<Rightarrow> Inl err
      | Inr action \<Rightarrow>
          let own = normalizeDispatchLifecycleAgent (dle_Agent event);
              agentID = (if own = [] then normalizeDispatchLifecycleAgent (di_Target input) else own);
              w = trimSpace (dle_WorkflowID event); h = trimSpace (dle_HandoffID event) in
          if agentID = [] then Inl ''dispatch lifecycle event requires agent''
          else Inr \<lparr>preq_Action = action,
                 preq_HandoffID = (if h = [] then h_ID handoff else h),
                 preq_WorkflowID = (if w = [] then h_WorkflowID handoff else w),
                 preq_Actor = ActorOf ActorAgent agentID,
                 preq_ProducerEventTime = 0, preq_IngestedAt = 0,
                 preq_ArtifactCount = dle_ArtifactCount event,
                 preq_ReviewDecision = ReviewDecisionOf (trimSpace (dle_ReviewDecision event)),
                 preq_Payload = dle_Payload event\<rparr>)"

definition transportEventType :: "TransportStatus \<Rightarrow> EventType" where
  "transportEventType s =
     (case s of TransportAccepted \<Rightarrow> EventTransportAccepted
      | TransportTimeout \<Rightarrow> EventTransportTimeout | _ \<Rightarrow> EventTransportRejected)"

definition applyLifecycleEvent ::
  "Handoff \<Rightarrow> DispatchHandoffInput \<Rightarrow> DispatchLifecycleEvent \<Rightarrow> EventRecord sop" where
  "applyLifecycleEvent handoff input event =
     (case dispatchLifecycleProtocolRequest handoff input event of
        Inl err \<Rightarrow> throw (ErrorText err)
      | Inr request \<Rightarrow>
          bindE (ApplyProtocolAction request) (\<lambda>(result, err).
          case err of Some e \<Rightarrow> throw e | None \<Rightarrow> ret (ed_Event result)))"

definition runAdapter ::
  "runner \<Rightarrow> decoder \<Rightarrow> Handoff \<Rightarrow> DispatchHandoffInput \<Rightarrow> DispatchAttempt \<Rightarrow> EventRecord
    \<Rightarrow> (DispatchAttempt \<times> EventRecord list) sop" where
  "runAdapter execute decode handoff input attempt requested =
     (let result = Dispatch execute decode \<lparr>dr_Command = di_Command input, dr_Args = di_Args input,
            dr_Target = di_Target input, dr_Message = di_Message input,
            dr_Payload = [(''handoff_id'', JString (h_ID handoff)),
              (''workflow_id'', JString (h_WorkflowID handoff)), (''intent'', JString (h_Intent handoff))]\<rparr> in
      bindE now_op (\<lambda>finished.
      let finishedAttempt = attempt\<lparr>attempt_ResultStatus := transportStatusText (dres_TransportStatus result),
            attempt_ExternalID := dres_ExternalID result, attempt_FinishedAt := finished\<rparr> in
      bindE (SaveDispatchAttemptStatus finishedAttempt) (\<lambda>_.
      bindE (NewID ''evt'') (\<lambda>i.
      let resultEvent = NoEvent\<lparr>ev_ID := i, ev_WorkflowID := h_WorkflowID handoff,
            ev_HandoffID := h_ID handoff, ev_ProducerEventTime := finished, ev_IngestedAt := finished,
            ev_ProducerActor := ActorOf ActorSystem ''adapter'', ev_Accepted := False,
            ev_RejectionReason := ''observer_hint'', ev_AttemptID := attempt_ID attempt,
            ev_Type := transportEventType (dres_TransportStatus result)\<rparr> in
      bindE (RecordObservedSignal resultEvent None) (\<lambda>_.
      bindE (if dres_TransportStatus result = TransportAccepted
             then mapE (applyLifecycleEvent handoff input) (dres_LifecycleEvents result) else ret []) (\<lambda>es.
      ret (finishedAttempt, requested # resultEvent # es)))))))"

definition usesAdapter :: "DispatchHandoffInput \<Rightarrow> bool" where
  "usesAdapter input \<longleftrightarrow> di_Adapter input = ''openclaw'' \<and> di_Command input \<noteq> []"

text \<open>\<open>adapter = None\<close>: no adapter was set with \<open>SetOpenClawAdapter\<close>.\<close>

definition DispatchHandoff ::
  "(runner \<times> decoder) option \<Rightarrow> DispatchHandoffInput \<Rightarrow> (DispatchAttempt \<times> EventRecord list) sop" where
  "DispatchHandoff adapter input =
     (if usesAdapter input \<and> adapter = None then throw (ErrorText ''openclaw adapter is not configured'')
      else
        bindE now_op (\<lambda>now.
        bindE (LoadHandoff (di_HandoffID input)) (\<lambda>loaded.
        if h_State loaded \<noteq> StateCreated then throw (ErrorText ''dispatch requires created handoff state'')
        else
          bindE (ensureHandoffDependenciesCompleted loaded) (\<lambda>_.
          let retarget = (h_DeliveryTargetRef loaded = [] \<and> di_Target input \<noteq> []);
              handoff = (if retarget then loaded\<lparr>h_DeliveryTargetRef := di_Target input, h_UpdatedAt := now\<rparr>
                         else loaded) in
          bindE (if retarget then SaveHandoff handoff else ret ()) (\<lambda>_.
          bindE (NewID ''attempt'') (\<lambda>a.
          let attempt = \<lparr>attempt_ID = a, attempt_HandoffID = di_HandoffID input,
                attempt_Adapter = di_Adapter input, attempt_Target = di_Target input,
                attempt_RequestedAt = now, attempt_ResultStatus = ''requested'',
                attempt_FinishedAt = now, attempt_ExternalID = []\<rparr> in
          bindE (NewID ''evt'') (\<lambda>i.
          let requested = NoEvent\<lparr>ev_ID := i, ev_WorkflowID := h_WorkflowID handoff,
                ev_HandoffID := h_ID handoff, ev_Type := EventTransportRequested,
                ev_ProducerEventTime := now, ev_IngestedAt := now,
                ev_ProducerActor := ActorOf ActorSystem ''orchestrator'', ev_Accepted := True,
                ev_AttemptID := a\<rparr> in
          bindE (SaveDispatchAttempt attempt) (\<lambda>_.
          bindE (RecordAcceptedEvent requested) (\<lambda>_.
          if usesAdapter input then
            (case adapter of
               None \<Rightarrow> throw (ErrorText ''openclaw adapter is not configured'')
             | Some (execute, decode) \<Rightarrow> runAdapter execute decode handoff input attempt requested)
          else ret (attempt, [requested]))))))))))"

section \<open>Replaying a projection\<close>

definition replayBase :: "Handoff \<Rightarrow> time \<Rightarrow> Handoff" where
  "replayBase handoff now = handoff\<lparr>h_State := StateCreated, h_StateVersion := 0,
     h_ReviewDecision := ReviewUnset, h_CurrentOwner := NoActor, h_LeaseHolder := NoActor,
     h_LeasedAt := None, h_LeaseExpiresAt := None, h_HasReceived := False, h_HasClaimed := False,
     h_HasStarted := False, h_HasCheckpointed := False, h_HasSubmitted := False,
     h_HasReviewed := False, h_ArtifactCount := 0, h_LastAuthoritativeEventID := [],
     h_CompletedAt := None, h_UpdatedAt := now\<rparr>"

definition replayEvents :: "store \<Rightarrow> string \<Rightarrow> EventRecord list" where
  "replayEvents d h = event_order (filter (\<lambda>e. ev_HandoffID e = h \<and> ev_ID e \<notin> set (invalidations d)) (st_accepted d))"

definition replayedProjection :: "Handoff \<Rightarrow> EventRecord list \<Rightarrow> time \<Rightarrow> time \<Rightarrow> Handoff" where
  "replayedProjection handoff events t0 t1 =
     (let projected = preserveStaticHandoffFields (fst (Replay (replayBase handoff t0) events)) handoff in
      projected\<lparr>
        h_LastAuthoritativeEventID :=
          (if events = [] then h_LastAuthoritativeEventID projected else ev_ID (last events)),
        h_UpdatedAt := t1\<rparr>)"

definition replayHandoffProjectionTx :: "string \<Rightarrow> unit sop" where
  "replayHandoffProjectionTx handoffID =
     bindE (loadHandoffTx handoffID) (\<lambda>handoff.
     bindE now_op (\<lambda>t0.
     bindE (selectE (''query effective events for replay '' @ handoffID)
              (''iterate effective events for replay '' @ handoffID)
              (\<lambda>d. replayEvents d handoffID)) (\<lambda>events.
     bindE now_op (\<lambda>t1.
     let projected = replayedProjection handoff events t0 t1 in
     bindE (saveProjectedHandoffTx projected (h_StateVersion handoff)) (\<lambda>_.
     bindE now_op (\<lambda>t2.
     bindE (CreateDefaultWatches projected t2) (\<lambda>watches.
     replaceWatchesExec handoffID watches)))))))"

section \<open>Repairs\<close>

definition lookupAcceptedEventHandoffID :: "string \<Rightarrow> string sop" where
  "lookupAcceptedEventHandoffID i = wrapE (''lookup accepted event '' @ i @ '' handoff'')
     (queryRowE (\<lambda>d. map_option ev_HandoffID (find_by ev_ID i (st_accepted d))))"

text \<open>The loop over the default repairs saves each one and remembers the last invalidation.\<close>

definition saveDefaultRepairs :: "RepairRecord list \<Rightarrow> RepairRecord option sop" where
  "saveDefaultRepairs repairs =
     foldE (\<lambda>found r. bindE (saveRepairExec r) (\<lambda>_.
       ret (if repair_Action r = ''invalidate_event'' then Some r else found))) None repairs"

definition InvalidateEvent :: "string \<Rightarrow> string \<Rightarrow> ActorRef \<Rightarrow> RepairRecord sop" where
  "InvalidateEvent eventID reason actor =
     bindE now_op (\<lambda>now.
     bindE (lookupAcceptedEventHandoffID eventID) (\<lambda>handoffID.
     in_tx ''begin invalidate event tx'' ''commit invalidate event tx''
       (bindE (BuildDefaultRepairRecords eventID handoffID reason actor now) (\<lambda>repairs.
        bindE (saveDefaultRepairs repairs) (\<lambda>invalidate.
        case invalidate of
          None \<Rightarrow> throw (ErrorText ''default repair rules did not create invalidate_event record'')
        | Some r \<Rightarrow>
            if repair_ID r = []
            then throw (ErrorText ''default repair rules did not create invalidate_event record'')
            else bindE (replayHandoffProjectionTx handoffID) (\<lambda>_. ret r))))))"

definition BackfillEvent :: "EventRecord \<Rightarrow> string \<Rightarrow> ActorRef \<Rightarrow> RepairRecord sop" where
  "BackfillEvent input reason requestedBy =
     bindE (fillEvent input) (\<lambda>event.
     bindE (NewID ''repair'') (\<lambda>i.
     bindE now_op (\<lambda>now.
     let repair = \<lparr>repair_ID = i, repair_Action = ''backfill_event'', repair_TargetType = ''handoff'',
           repair_TargetID = ev_HandoffID event, repair_Reason = reason, repair_RequestedBy = requestedBy,
           repair_CreatedAt = now, repair_InvalidatesID = [], repair_ReplacementID = [],
           repair_ReopenedState = []\<rparr> in
     in_tx ''begin backfill event tx'' ''commit backfill event tx''
       (bindE (saveRepairExec repair) (\<lambda>_.
        bindE (loadHandoffTx (ev_HandoffID event)) (\<lambda>handoff.
        bindE (validateEventWorkflowMatch handoff event) (\<lambda>_.
        let decision = snd (Apply (NewStateMachine handoff) event) in
        if \<not> dec_Accepted decision
        then throw (ErrorText (''backfill event rejected: '' @ dec_Reason decision))
        else
          bindE (insertAcceptedEventRow (event\<lparr>ev_Accepted := True\<rparr>)) (\<lambda>_.
          bindE (saveProjectedHandoffTx (projection_of handoff event) (h_StateVersion handoff)) (\<lambda>_.
          ret repair)))))))))"

fun isReopenableState :: "HandoffState \<Rightarrow> bool" where
  "isReopenableState StateFailed = True"
| "isReopenableState StateExpired = True"
| "isReopenableState StateCompleted = True"
| "isReopenableState _ = False"

definition invalidationFor :: "string \<Rightarrow> ActorRef \<Rightarrow> string \<Rightarrow> RepairRecord sop" where
  "invalidationFor reason actor eventID =
     bindE (NewID ''repair'') (\<lambda>i. bindE now_op (\<lambda>now.
     ret \<lparr>repair_ID = i, repair_Action = ''invalidate_event'', repair_TargetType = ''event'',
          repair_TargetID = eventID, repair_Reason = reason, repair_RequestedBy = actor,
          repair_CreatedAt = now, repair_InvalidatesID = eventID, repair_ReplacementID = [],
          repair_ReopenedState = []\<rparr>))"

definition ReopenHandoff :: "string \<Rightarrow> string \<Rightarrow> ActorRef \<Rightarrow> RepairRecord sop" where
  "ReopenHandoff handoffID reason actor =
     bindE (NewID ''repair'') (\<lambda>i.
     bindE now_op (\<lambda>now.
     let repair = \<lparr>repair_ID = i, repair_Action = ''reopen_handoff'', repair_TargetType = ''handoff'',
           repair_TargetID = handoffID, repair_Reason = reason, repair_RequestedBy = actor,
           repair_CreatedAt = now, repair_InvalidatesID = [], repair_ReplacementID = [],
           repair_ReopenedState = handoffStateText StateCreated\<rparr> in
     in_tx ''begin reopen handoff tx'' ''commit reopen handoff tx''
       (bindE (loadHandoffTx handoffID) (\<lambda>handoff.
        if \<not> isReopenableState (h_State handoff)
        then throw (ErrorText ''reopen requires failed, expired, or completed handoff'')
        else
          bindE (saveRepairExec repair) (\<lambda>_.
          bindE (wrapE (''query accepted events for reopen '' @ handoffID)
            (query (\<lambda>d. map ev_ID (event_order (filter (\<lambda>e. ev_HandoffID e = handoffID) (st_accepted d)))))) (\<lambda>ids.
          bindE (mapE (invalidationFor reason actor) ids) (\<lambda>invals.
          bindE (wrapE (''iterate accepted events for reopen '' @ handoffID) (query (\<lambda>_. ()))) (\<lambda>_.
          bindE (wrapE (''close accepted events for reopen '' @ handoffID) (query (\<lambda>_. ()))) (\<lambda>_.
          bindE (forE invals saveRepairExec) (\<lambda>_.
          bindE (replayHandoffProjectionTx handoffID) (\<lambda>_. ret repair)))))))))))"

section \<open>Watches and ownership\<close>

definition UpdateWatch :: "UpdateWatchInput \<Rightarrow> Watch sop" where
  "UpdateWatch input =
     bindE (LoadWatch (uw_WatchID input)) (\<lambda>w.
     let w1 = (case uw_DeadlineAt input of None \<Rightarrow> w | Some t \<Rightarrow> w\<lparr>watch_DeadlineAt := t\<rparr>);
         w2 = (case uw_Status input of None \<Rightarrow> w1 | Some s \<Rightarrow> w1\<lparr>watch_Status := s\<rparr>);
         w3 = (case uw_EscalationPolicy input of None \<Rightarrow> w2 | Some p \<Rightarrow> w2\<lparr>watch_EscalationPolicy := p\<rparr>) in
     bindE (UpdateWatchRow w3) (\<lambda>_. LoadWatch (watch_ID w3)))"

definition ownership_update :: "UpdateOwnershipInput \<Rightarrow> time \<Rightarrow> Handoff \<Rightarrow> Handoff" where
  "ownership_update input now h = h\<lparr>
     h_CurrentOwner := case_option (h_CurrentOwner h) id (uo_CurrentOwner input),
     h_ReviewerActor := case_option (h_ReviewerActor h) id (uo_ReviewerActor input),
     h_EscalationOwner := case_option (h_EscalationOwner h) id (uo_EscalationOwner input),
     h_FallbackOwner := case_option (h_FallbackOwner h) id (uo_FallbackOwner input),
     h_LeaseHolder := case_option (h_LeaseHolder h) id (uo_LeaseHolder input),
     h_LeasedAt := case_option (h_LeasedAt h) Some (uo_LeasedAt input),
     h_LeaseExpiresAt := case_option (h_LeaseExpiresAt h) Some (uo_LeaseExpiresAt input),
     h_UpdatedAt := now\<rparr>"

definition UpdateOwnership :: "UpdateOwnershipInput \<Rightarrow> OwnershipBinding sop" where
  "UpdateOwnership input =
     bindE (LoadHandoff (uo_HandoffID input)) (\<lambda>handoff.
     bindE now_op (\<lambda>now.
     let updated = ownership_update input now handoff in
     bindE (UpdateHandoffOwnership updated) (\<lambda>_. LoadOwnershipBinding (h_ID updated))))"

end
