(* ===== verification/Orch_Safety.thy ===== *)
theory Orch_Safety
  imports Orch_Repair
begin

text \<open>
  Every operation of the orchestrator service keeps the database invariant \<open>store_inv\<close>,
  under any fault plan, any clock and any source of identifiers.
\<close>

section \<open>Statements\<close>

lemma inv_watch_row:
  "inv_but X d \<Longrightarrow> watch_ID x \<notin> watch_ID ` set (st_watches d) \<Longrightarrow> inv_but X (d\<lparr>st_watches := st_watches d @ [x]\<rparr>)"
  by (intro inv_side_tables(4)) (simp_all add: inv_keys)

lemma inv_artifact_row:
  "inv_but X d \<Longrightarrow> art_ID x \<notin> art_ID ` set (st_artifacts d) \<Longrightarrow>
   inv_but X (d\<lparr>st_artifacts := st_artifacts d @ [x]\<rparr>)"
  by (intro inv_side_tables(3)) (simp_all add: inv_keys)

lemma guarantees_saveWatch:
  "E d \<Longrightarrow> (watch_ID x \<notin> watch_ID ` set (st_watches d) \<Longrightarrow> Q () (d\<lparr>st_watches := st_watches d @ [x]\<rparr>)) \<Longrightarrow>
   guarantees (saveWatchExec x) Q E d"
  unfolding saveWatchExec_def by (intro vcg) (auto simp: UNIQUE_def split: if_splits)

lemma guarantees_saveWatches:
  assumes "\<And>d. E d" and "inv_but X d"
    and "\<And>d'. inv_but X d' \<Longrightarrow> (\<exists>ws. d' = d\<lparr>st_watches := ws\<rparr>) \<Longrightarrow> Q () d'"
  shows "guarantees (forE ws saveWatchExec) Q E d"
  by (rule guarantees_forE [where I = "\<lambda>d'. inv_but X d' \<and> (\<exists>ws. d' = d\<lparr>st_watches := ws\<rparr>)"])
    (use assms in \<open>auto intro!: guarantees_saveWatch inv_watch_row intro: exI [of _ "st_watches d"]\<close>)

lemma guarantees_saveArtifact:
  "E d \<Longrightarrow> (art_ID x \<notin> art_ID ` set (st_artifacts d) \<Longrightarrow> Q () (d\<lparr>st_artifacts := st_artifacts d @ [x]\<rparr>)) \<Longrightarrow>
   guarantees (saveArtifactExec x) Q E d"
  unfolding saveArtifactExec_def by (intro vcg) (auto simp: UNIQUE_def split: if_splits)

lemma guarantees_saveArtifacts:
  assumes "\<And>d. E d" and "inv_but X d"
    and "\<And>d'. inv_but X d' \<Longrightarrow> (\<exists>as. d' = d\<lparr>st_artifacts := as\<rparr>) \<Longrightarrow> Q () d'"
  shows "guarantees (forE as saveArtifactExec) Q E d"
  by (rule guarantees_forE [where I = "\<lambda>d'. inv_but X d' \<and> (\<exists>as. d' = d\<lparr>st_artifacts := as\<rparr>)"])
    (use assms in \<open>auto intro!: guarantees_saveArtifact inv_artifact_row intro: exI [of _ "st_artifacts d"]\<close>)

lemma guarantees_saveRepair [vcg]:
  "E d \<Longrightarrow> (repair_ID r \<notin> repair_ID ` set (st_repairs d) \<Longrightarrow> Q () (d\<lparr>st_repairs := st_repairs d @ [r]\<rparr>)) \<Longrightarrow>
   guarantees (saveRepairExec r) Q E d"
  unfolding saveRepairExec_def by (intro vcg) (auto simp: UNIQUE_def split: if_splits)

lemma guarantees_newWatch [vcg]:
  "(\<And>w. watch_HandoffID w = h \<Longrightarrow> watch_Status w = ''active'' \<Longrightarrow> Q w d) \<Longrightarrow>
   guarantees (newWatch h k e t now) Q E d"
  unfolding newWatch_def by (intro vcg) simp

lemma guarantees_DefaultWatches [vcg]:
  "(\<And>ws. \<forall>w\<in>set ws. watch_HandoffID w = h_ID h \<and> watch_Status w = ''active'' \<Longrightarrow> length ws = 3 \<Longrightarrow> Q ws d) \<Longrightarrow>
   guarantees (CreateDefaultWatches h now) Q E d"
  unfolding CreateDefaultWatches_def by (intro vcg) simp

lemma guarantees_newRoot [vcg]:
  assumes "\<And>w i ws. wf_ID w \<noteq> [] \<Longrightarrow> wf_RootHandoffID w = i \<Longrightarrow>
     Q (w, newHandoff i (wf_ID w) (ci_WorkflowKind input) input now, ws) d"
  shows "guarantees (newRootHandoffCreation input now) Q E d"
  unfolding newRootHandoffCreation_def Let_def
  by (intro vcg) (use assms [of "\<lparr>wf_ID = _, wf_Kind = _, wf_InitiatorActor = _, wf_Status = _,
     wf_RootHandoffID = _, wf_CurrentHandoffID = _, wf_CreatedAt = _, wf_UpdatedAt = _, wf_CompletedAt = _\<rparr>"]
    in simp)

lemma newHandoff_fields [simp]:
  "h_ID (newHandoff i w k input now) = i" "h_WorkflowID (newHandoff i w k input now) = w"
  "h_State (newHandoff i w k input now) = StateCreated"
  by (simp_all add: newHandoff_def)

lemma newHandoff_backed:
  "backed d (newHandoff i w k input now)" "backed d ((newHandoff i w k input now)\<lparr>h_ArtifactCount := n\<rparr>)"
  by (simp_all add: backed_def newHandoff_def lifecycle_wf_def flag_chain_def state_flags_def evidenced_def)

declare guarantees_saveHandoff [vcg]

section \<open>Creating\<close>

lemma RegisterAgent_safe: "store_inv d \<Longrightarrow> guarantees (RegisterAgent input) (\<lambda>_. store_inv) store_inv d"
  unfolding RegisterAgent_def SaveAgentRegistration_def saveAgentRegistrationExec_def Let_def
  by (intro vcg) (auto simp: store_inv_def agent_ID_def inv_keys intro!: inv_side_tables(1) upsert_distinct)

lemma inv_create:
  assumes "inv_but {} d" and "backed (put_workflow w d) h" and "h_WorkflowID h = wf_ID w"
  shows "inv_but {} (put_handoff h (put_workflow w d))"
  using inv_put_handoff [OF inv_put_workflow [OF assms(1), of w] assms(2)] assms(3) by simp

lemma CreateHandoff_safe: "store_inv d \<Longrightarrow> guarantees (CreateHandoff input) (\<lambda>_. store_inv) store_inv d"
  unfolding CreateHandoff_def store_inv_def
  by (intro vcg) (auto intro!: vcg guarantees_saveWatches inv_create newHandoff_backed)

lemma guarantees_loadCreation [vcg]:
  "E d \<Longrightarrow> Q (find_by cr_IdempotencyKey k (st_creations d)) d \<Longrightarrow>
   guarantees (loadA2AInboundTaskCreationTx k) Q E d"
  unfolding loadA2AInboundTaskCreationTx_def by (intro vcg)

lemma guarantees_saveCreation [vcg]:
  assumes "E d"
    and "cr_IdempotencyKey r \<notin> cr_IdempotencyKey ` set (st_creations d) \<Longrightarrow> has_workflow d (cr_WorkflowID r) \<Longrightarrow>
      has_handoff d (cr_HandoffID r) \<Longrightarrow> Q () (d\<lparr>st_creations := st_creations d @ [r]\<rparr>)"
  shows "guarantees (saveA2AInboundTaskCreationExec r) Q E d"
  unfolding saveA2AInboundTaskCreationExec_def using assms
  by (intro vcg) (auto simp: UNIQUE_def REFERENCES_def split: if_splits)

lemma guarantees_inboundArtifacts [vcg]:
  assumes "\<And>as. length as = length refs \<Longrightarrow> Q as d" and "E d"
  shows "guarantees (mapE (inboundArtifact h s now) refs) Q E d"
proof (rule guarantees_mapE_rows)
  show "guarantees (inboundArtifact h s now x) (\<lambda>y d'. d' = d \<and> True) (\<lambda>d'. d' = d) d" for x
    unfolding inboundArtifact_def by (intro vcg) simp
qed (use assms in \<open>auto dest: list_all2_lengthD\<close>)

lemma CreateHandoffIdempotent_safe:
  "store_inv d \<Longrightarrow> guarantees (CreateHandoffIdempotent input) (\<lambda>_. store_inv) store_inv d"
  unfolding CreateHandoffIdempotent_def Let_def store_inv_def
  by (intro vcg)
    (auto intro!: vcg guarantees_saveWatches guarantees_saveArtifacts inv_create newHandoff_backed inv_creation)

lemma guarantees_related [vcg]:
  assumes "E d" and "\<And>h. find_by h_ID i (st_handoffs d) = Some h \<Longrightarrow> h_WorkflowID h = w \<Longrightarrow> Q h d"
  shows "guarantees (loadRelatedHandoffTx l i w) Q E d"
  unfolding loadRelatedHandoffTx_def by (intro vcg) (use assms in auto)

lemma guarantees_relatedAll [vcg]:
  "E d \<Longrightarrow> Q () d \<Longrightarrow>
   guarantees (forE is (\<lambda>dep. bindE (loadRelatedHandoffTx l dep w) (\<lambda>_. ret ()))) Q E d"
  by (rule guarantees_forE [where I = "\<lambda>d'. d' = d"]) (auto intro!: vcg)

lemma append_tail:
  "inv_but {} d \<Longrightarrow>
   guarantees (forE ws saveWatchExec)
     (\<lambda>_. guarantees (bindE (saveWorkflowExec w) (\<lambda>_. ret r)) (\<lambda>_. store_inv) (\<lambda>_. True)) (\<lambda>_. True) d"
  by (auto simp: store_inv_def intro!: guarantees_saveWatches vcg inv_put_workflow)

lemma inv_append:
  assumes "store_inv d" and "find_by wf_ID wid (st_workflows d) = Some w"
  shows "inv_but {} (put_handoff (newHandoff i (wf_ID w) k input now) d)"
proof -
  from assms have inv: "inv_but {} d" by (simp add: store_inv_def)
  have "has_workflow d (wf_ID w)" using assms(2) find_by_Some [OF assms(2)] by (auto simp: has_workflow_def)
  then show ?thesis using inv_put_handoff [OF inv newHandoff_backed(1), of i "wf_ID w"] by simp
qed

lemma AppendHandoff_safe: "store_inv d \<Longrightarrow> guarantees (AppendHandoff wid input) (\<lambda>_. store_inv) store_inv d"
  unfolding AppendHandoff_def Let_def
  by (intro vcg guarantees_ListWorkflowHandoffs append_tail inv_append)
    (auto simp: store_inv_def inv_keys)

section \<open>Events\<close>

lemma guarantees_fillEvent [vcg]:
  assumes "\<And>i p g. i \<noteq> [] \<Longrightarrow> (ev_ID e \<noteq> [] \<Longrightarrow> i = ev_ID e) \<Longrightarrow>
    Q (e\<lparr>ev_ID := i, ev_ProducerEventTime := p, ev_IngestedAt := g\<rparr>) d"
  shows "guarantees (fillEvent e) Q E d"
  unfolding fillEvent_def by (intro vcg assms) simp_all

lemma RecordRejected_safe:
  assumes "store_inv d"
    and "store_inv (d\<lparr>st_audit := st_audit d @ [e]\<rparr>) \<Longrightarrow> Q () (d\<lparr>st_audit := st_audit d @ [e]\<rparr>)"
  shows "guarantees (RecordRejectedEvent e) Q store_inv d"
  unfolding RecordRejectedEvent_def
  by (intro vcg assms) (use assms(1) in \<open>simp_all add: store_inv_def inv_audit\<close>)

lemma RecordAuthoritativeEvent_safe:
  "store_inv d \<Longrightarrow> guarantees (RecordAuthoritativeEvent e) (\<lambda>_. store_inv) store_inv d"
  unfolding RecordAuthoritativeEvent_def Let_def
  by (intro vcg RecordRejected_safe guarantees_RecordAccepted) auto

lemma guarantees_dependencies [vcg]:
  "E d \<Longrightarrow> Q () d \<Longrightarrow> guarantees (ensureHandoffDependenciesCompleted h) Q E d"
  unfolding ensureHandoffDependenciesCompleted_def
  by (rule guarantees_forE [where I = "\<lambda>d'. d' = d"]) (auto intro!: vcg)

lemma ApplyProtocolAction_safe:
  "store_inv d \<Longrightarrow> guarantees (ApplyProtocolAction req) (\<lambda>_. store_inv) store_inv d"
  unfolding ApplyProtocolAction_def by (intro vcg RecordAuthoritativeEvent_safe)

section \<open>Signals\<close>

lemma guarantees_saveDivergence [vcg]:
  "E d \<Longrightarrow> (hint_ID x \<notin> hint_ID ` set (st_divergences d) \<Longrightarrow> Q () (d\<lparr>st_divergences := st_divergences d @ [x]\<rparr>)) \<Longrightarrow>
   guarantees (saveDivergenceExec x) Q E d"
  unfolding saveDivergenceExec_def by (intro vcg) (auto simp: UNIQUE_def split: if_splits)

lemma guarantees_appendSignal [vcg]:
  assumes "E d"
    and "sig_ID x \<notin> sig_ID ` set (st_signals d) \<Longrightarrow> has_handoff d (sig_HandoffID x) \<Longrightarrow>
      has_workflow d (sig_WorkflowID x) \<Longrightarrow> Q () (d\<lparr>st_signals := st_signals d @ [x]\<rparr>)"
  shows "guarantees (appendObservedSignalExec x) Q E d"
  unfolding appendObservedSignalExec_def using assms
  by (intro vcg) (auto simp: UNIQUE_def REFERENCES_def split: if_splits)

lemma guarantees_appendCandidate [vcg]:
  assumes "E d"
    and "rc_ID x \<notin> rc_ID ` set (st_candidates d) \<Longrightarrow> has_handoff d (rc_HandoffID x) \<Longrightarrow>
      has_workflow d (rc_WorkflowID x) \<Longrightarrow> Q () (d\<lparr>st_candidates := st_candidates d @ [x]\<rparr>)"
  shows "guarantees (appendRepairCandidateExec x) Q E d"
  unfolding appendRepairCandidateExec_def using assms
  by (intro vcg) (auto simp: UNIQUE_def REFERENCES_def split: if_splits)

lemma guarantees_appendCandidates:
  "inv_but {} d \<Longrightarrow> guarantees (forE cs appendRepairCandidateExec) (\<lambda>_. inv_but {}) (\<lambda>_. True) d"
  by (rule guarantees_forE [where I = "inv_but {}"]) (auto intro!: vcg inv_candidate)

lemma inv_divergence_row:
  "inv_but X d \<Longrightarrow> hint_ID x \<notin> hint_ID ` set (st_divergences d) \<Longrightarrow>
   inv_but X (d\<lparr>st_divergences := st_divergences d @ [x]\<rparr>)"
  by (intro inv_side_tables(5)) (simp_all add: inv_keys)

lemma persistObservedSignal_safe:
  "store_inv d \<Longrightarrow> guarantees (persistObservedSignal h a x s) (\<lambda>_. store_inv) store_inv d"
  unfolding persistObservedSignal_def store_inv_def
  by (intro vcg guarantees_appendCandidates inv_signal inv_divergence_row inv_audit) simp_all

lemma RecordObservedSignal_safe:
  "store_inv d \<Longrightarrow> guarantees (RecordObservedSignal e x) (\<lambda>_. store_inv) store_inv d"
  unfolding RecordObservedSignal_def observeHint_def observeEvent_def Let_def
  by (intro vcg persistObservedSignal_safe) simp_all

section \<open>Dispatch\<close>

lemma inv_attempt_row:
  "inv_but X d \<Longrightarrow> attempt_ID x \<notin> attempt_ID ` set (st_attempts d) \<Longrightarrow>
   inv_but X (d\<lparr>st_attempts := st_attempts d @ [x]\<rparr>)"
  by (intro inv_side_tables(2)) (simp_all add: inv_keys)

lemma guarantees_saveAttempt [vcg]:
  "E d \<Longrightarrow> (attempt_ID x \<notin> attempt_ID ` set (st_attempts d) \<Longrightarrow> Q () (d\<lparr>st_attempts := st_attempts d @ [x]\<rparr>)) \<Longrightarrow>
   guarantees (SaveDispatchAttempt x) Q E d"
  unfolding SaveDispatchAttempt_def saveDispatchAttemptExec_def
  by (intro vcg) (auto simp: UNIQUE_def split: if_splits)

lemma saveAttemptStatus_safe:
  assumes "store_inv d" and "\<And>d'. store_inv d' \<Longrightarrow> st_handoffs d' = st_handoffs d \<Longrightarrow> Q () d'"
  shows "guarantees (SaveDispatchAttemptStatus x) Q store_inv d"
proof -
  have "map attempt_ID (update_where (\<lambda>r. attempt_ID r = attempt_ID x) (\<lambda>r. r\<lparr>attempt_ResultStatus := attempt_ResultStatus x,
      attempt_FinishedAt := attempt_FinishedAt x, attempt_ExternalID := attempt_ExternalID x\<rparr>) (st_attempts d))
      = map attempt_ID (st_attempts d)"
    by (rule map_update_where_same) simp
  then show ?thesis
    unfolding SaveDispatchAttemptStatus_def saveDispatchAttemptStatusExec_def
    by (intro vcg assms) (use assms(1) in \<open>auto intro!: inv_side_tables(2) simp: store_inv_def inv_keys\<close>)
qed

lemma applyLifecycleEvent_safe:
  "store_inv d \<Longrightarrow> guarantees (applyLifecycleEvent h input e) (\<lambda>_. store_inv) store_inv d"
  unfolding applyLifecycleEvent_def
  by (intro vcg guarantees_mono [OF ApplyProtocolAction_safe]) auto

lemma runAdapter_safe:
  "store_inv d \<Longrightarrow> guarantees (runAdapter execute decode h input a r) (\<lambda>_. store_inv) store_inv d"
  unfolding runAdapter_def Let_def
  by (intro vcg saveAttemptStatus_safe guarantees_mono [OF RecordObservedSignal_safe]
      guarantees_mapE [where I = store_inv] applyLifecycleEvent_safe)
    auto

lemma backed_progress:
  "backed d h \<Longrightarrow> same_progress k h \<Longrightarrow> h_ID k = h_ID h \<Longrightarrow> backed d k"
  by (simp add: backed_def same_progress_wf same_progress_evidenced)

text \<open>A new delivery target is saved outside any transaction: first the handoff, then its binding.\<close>

lemma retarget_safe:
  assumes "store_inv d" and f: "find_by h_ID i (st_handoffs d) = Some h"
  shows "store_inv (d\<lparr>st_handoffs := upsert_by h_ID (\<lambda>_. h\<lparr>h_DeliveryTargetRef := t, h_UpdatedAt := u\<rparr>)
      (h\<lparr>h_DeliveryTargetRef := t, h_UpdatedAt := u\<rparr>) (st_handoffs d)\<rparr>)" (is "store_inv ?d")
    and "store_inv (put_handoff (h\<lparr>h_DeliveryTargetRef := t, h_UpdatedAt := u\<rparr>) d)"
proof -
  let ?h = "h\<lparr>h_DeliveryTargetRef := t, h_UpdatedAt := u\<rparr>"
  from assms(1) have inv: "inv_but {} d" by (simp add: store_inv_def)
  note hf = inv_handoff [OF assms]
  have b: "backed d ?h" using hf(2) by (rule backed_progress) (simp_all add: same_progress_def)
  have put: "inv_but {} (put_handoff ?h d)" using inv_put_handoff [OF inv b] hf(3) by simp
  then show "store_inv (put_handoff ?h d)" by (simp add: store_inv_def)
  have "h \<in> set (st_handoffs d)" using f by (blast dest: find_by_Some)
  with inv obtain bnd where bnd: "find_by ob_HandoffID (h_ID h) (st_bindings d) = Some bnd" "binding_agrees bnd h"
    unfolding inv_but_def ownership_ok_def by blast
  have "ownership_ok ?d"
    using inv bnd unfolding inv_but_def ownership_ok_def
    by (auto simp: set_upsert binding_agrees_def)
  moreover have "refs_ok ?d" "keys_ok ?d" "idempotency_ok ?d" "projections_ok {} ?d" "invalidations_ok ?d"
    using inv b hf(3) unfolding inv_but_def
    by (auto simp: refs_ok_def keys_ok_def idempotency_ok_def projections_ok_def invalidations_ok_def
        invalidations_def backed_def effective_def set_upsert upsert_distinct has_handoff_def
        has_workflow_def find_by_upsert split: option.splits)
  ultimately show "store_inv ?d" by (simp add: store_inv_def inv_but_def)
qed

lemma guarantees_SaveHandoff [vcg]:
  "E d \<Longrightarrow> E (d\<lparr>st_handoffs := upsert_by h_ID (\<lambda>_. h) h (st_handoffs d)\<rparr>) \<Longrightarrow> Q () (put_handoff h d) \<Longrightarrow>
   guarantees (SaveHandoff h) Q E d"
  unfolding SaveHandoff_def by (intro vcg)

lemma retarget_inv:
  assumes "store_inv d" and "find_by h_ID i (st_handoffs d) = Some h"
    and "retarget \<Longrightarrow> k = h\<lparr>h_DeliveryTargetRef := t, h_UpdatedAt := u\<rparr>"
    and "\<And>d'. store_inv d' \<Longrightarrow> Q () d'"
  shows "guarantees (if retarget then SaveHandoff k else ret ()) Q store_inv d"
  by (intro vcg assms) (use assms retarget_safe [OF assms(1,2), where t = t and u = u] in simp_all)

lemma DispatchHandoff_safe:
  "store_inv d \<Longrightarrow> guarantees (DispatchHandoff adapter input) (\<lambda>_. store_inv) store_inv d"
  unfolding DispatchHandoff_def Let_def
  by (intro vcg retarget_inv guarantees_RecordAccepted runAdapter_safe)
    (auto simp: store_inv_def intro: inv_attempt_row)

section \<open>Replay\<close>

lemma evidenced_mono: "evidenced R m A \<Longrightarrow> A \<subseteq> B \<Longrightarrow> evidenced R m B"
  by (auto simp: evidenced_def reviewed_in_def)

lemma replayBase_fresh:
  "lifecycle_wf (replayBase h t)" "h_State (replayBase h t) = StateCreated" "same_terms (replayBase h t) h"
  by (simp_all add: replayBase_def lifecycle_wf_def flag_chain_def state_flags_def same_terms_def)

lemma replayed_run:
  "fst (Replay (replayBase h t) es) = run (replayBase h t) (sort_key event_key es)"
  by (simp add: Replay_run NewStateMachine_wf replayBase_fresh)

lemma replayedProjection_progress:
  "same_progress (replayedProjection h es t0 t1) (run (replayBase h t0) (sort_key event_key es))"
  "h_ID (replayedProjection h es t0 t1) = h_ID h"
  "h_WorkflowID (replayedProjection h es t0 t1) = h_WorkflowID h"
proof -
  have "same_terms (run (replayBase h t0) (sort_key event_key es)) h"
    using run_terms [OF replayBase_fresh(1)] replayBase_fresh(3) by (rule same_terms_trans)
  then show "same_progress (replayedProjection h es t0 t1) (run (replayBase h t0) (sort_key event_key es))"
    using preserve_progress by (simp add: replayedProjection_def replayed_run same_progress_def Let_def)
qed (simp_all add: replayedProjection_def preserveStaticHandoffFields_def Let_def)

lemma replayed_backed:
  "lifecycle_wf (replayedProjection h es t0 t1)"
  "evidenced (\<lambda>_. True) (replayedProjection h es t0 t1) (set es)"
proof -
  let ?m = "run (replayBase h t0) (sort_key event_key es)"
  note fresh = replayBase_fresh [of h t0]
  have "lifecycle_wf ?m" using fresh(1) by (rule run_wf)
  then show "lifecycle_wf (replayedProjection h es t0 t1)"
    using same_progress_wf [OF replayedProjection_progress(1)] by blast
  have "evidenced (\<lambda>_. True) ?m ({} \<union> set (accepted_events (replayBase h t0) (sort_key event_key es)))"
    by (rule evidenced_run [OF fresh(1) fresh_evidenced [OF fresh(1,2)]]) simp
  then have "evidenced (\<lambda>_. True) ?m (set es)"
    by (rule evidenced_mono) (use accepted_subset [of _ "sort_key event_key es"] in auto)
  then show "evidenced (\<lambda>_. True) (replayedProjection h es t0 t1) (set es)"
    using same_progress_evidenced [OF replayedProjection_progress(1)] by blast
qed

lemma set_replayEvents [simp]: "set (replayEvents d i) = effective d i"
  by (auto simp: replayEvents_def effective_def)

lemma guarantees_replaceWatches:
  assumes "\<And>d. E d" and "inv_but X d"
    and "\<And>d'. inv_but X d' \<Longrightarrow> Q () d'"
  shows "guarantees (replaceWatchesExec i ws) Q E d"
  unfolding replaceWatchesExec_def
  by (intro vcg guarantees_saveWatches [where X = X] inv_side_tables(4))
    (use assms in \<open>auto simp: inv_keys distinct_map_filter\<close>)

lemma inv_replayed:
  assumes inv: "inv_but {i} d" and h: "find_by h_ID i (st_handoffs d) = Some h"
  shows "inv_but {} (put_handoff (replayedProjection h (replayEvents d i) t0 t1) d)"
proof -
  have i: "h_ID h = i" "h \<in> set (st_handoffs d)" using find_by_Some [OF h] by auto
  have "backed d (replayedProjection h (replayEvents d i) t0 t1)"
    using replayed_backed [of h "replayEvents d i"] i by (simp add: backed_def replayedProjection_progress)
  moreover have "has_workflow d (h_WorkflowID (replayedProjection h (replayEvents d i) t0 t1))"
    using inv i(2) by (auto simp: replayedProjection_progress inv_but_def refs_ok_def)
  ultimately show ?thesis
    using inv_put_handoff [OF inv, of "replayedProjection h (replayEvents d i) t0 t1"] i(1)
    by (simp add: replayedProjection_progress)
qed

lemma guarantees_replay:
  assumes inv: "inv_but {i} d" and "\<And>d. E d" and "\<And>d'. inv_but {} d' \<Longrightarrow> Q () d'"
  shows "guarantees (replayHandoffProjectionTx i) Q E d"
  unfolding replayHandoffProjectionTx_def Let_def
proof (intro vcg assms(2))
  fix h t0 t1
  assume h: "find_by h_ID i (st_handoffs d) = Some h"
  let ?p = "replayedProjection h (replayEvents d i) t0 t1"
  show "guarantees (saveProjectedHandoffTx ?p (h_StateVersion h))
      (\<lambda>_. guarantees (bindE now_op (\<lambda>t2. bindE (CreateDefaultWatches ?p t2) (replaceWatchesExec i))) Q E) E d"
    using find_by_Some [OF h] h inv_replayed [OF inv h, of t0 t1] assms
    by (intro guarantees_saveProjected [where old = h] vcg guarantees_replaceWatches [where X = "{}"])
      (auto simp: replayedProjection_progress inv_keys)
qed

section \<open>Repairs\<close>

lemma InvalidateEvent_safe:
  "store_inv d \<Longrightarrow> guarantees (InvalidateEvent i reason actor) (\<lambda>_. store_inv) store_inv d"
  unfolding InvalidateEvent_def lookupAcceptedEventHandoffID_def
proof (intro vcg)
  fix h and r :: RepairRecord
  assume inv: "store_inv d" and "map_option ev_HandoffID (find_by ev_ID i (st_accepted d)) = Some h"
    and r: "repair_Action r = ''invalidate_event''" "repair_InvalidatesID r = i"
  then obtain e where "e \<in> set (st_accepted d)" "ev_ID e = i" "ev_HandoffID e = h"
    by (auto dest: find_by_Some)
  with r have "inv_but {h} (d\<lparr>st_repairs := st_repairs d @ [r]\<rparr>)"
    if "repair_ID r \<notin> repair_ID ` set (st_repairs d)"
    using inv that by (intro inv_repair) (auto simp: store_inv_def intro: inv_mono)
  then show "guarantees (saveDefaultRepairs [r]) (\<lambda>invalidate. guarantees (case invalidate of
        None \<Rightarrow> throw (ErrorText ''default repair rules did not create invalidate_event record'')
      | Some r \<Rightarrow> if repair_ID r = []
            then throw (ErrorText ''default repair rules did not create invalidate_event record'')
            else bindE (replayHandoffProjectionTx h) (\<lambda>_. ret r)) (\<lambda>_. store_inv) (\<lambda>_. True)) (\<lambda>_. True) d"
    using r unfolding saveDefaultRepairs_def
    by (auto intro!: vcg guarantees_replay simp: store_inv_def)
qed

lemma guarantees_invalidations [vcg]:
  assumes "\<And>rs. list_all2 (\<lambda>i r. repair_InvalidatesID r = i) ids rs \<Longrightarrow> Q rs d" and "E d"
  shows "guarantees (mapE (invalidationFor reason actor) ids) Q E d"
proof (rule guarantees_mapE_rows)
  show "guarantees (invalidationFor reason actor x) (\<lambda>y d'. d' = d \<and> repair_InvalidatesID y = x) (\<lambda>d'. d' = d) d" for x
    unfolding invalidationFor_def by (intro vcg) simp
qed (use assms in auto)

lemma guarantees_saveRepairs:
  assumes "inv_but {h} d" and "\<And>d. E d"
    and "\<And>r. r \<in> set rs \<Longrightarrow> \<exists>e\<in>set (st_accepted d). ev_ID e = repair_InvalidatesID r \<and> ev_HandoffID e = h"
    and "\<And>d'. inv_but {h} d' \<Longrightarrow> Q () d'"
  shows "guarantees (forE rs saveRepairExec) Q E d"
  by (rule guarantees_forE [where I = "\<lambda>d'. inv_but {h} d' \<and> st_accepted d' = st_accepted d"])
    (use assms in \<open>auto intro!: vcg inv_repair\<close>)

lemma inval_ids:
  assumes "list_all2 (\<lambda>i r. repair_InvalidatesID r = i) (map ev_ID (event_order (filter (\<lambda>e. ev_HandoffID e = h) es))) rs"
    and "r \<in> set rs"
  shows "\<exists>e\<in>set es. ev_ID e = repair_InvalidatesID r \<and> ev_HandoffID e = h"
proof -
  have "map ev_ID (event_order (filter (\<lambda>e. ev_HandoffID e = h) es)) = map repair_InvalidatesID rs"
    using assms(1) by (induction rule: list_all2_induct) simp_all
  then have "repair_InvalidatesID r \<in> ev_ID ` {e \<in> set es. ev_HandoffID e = h}"
    using assms(2) by (metis (mono_tags) image_eqI list.set_map set_event_order set_filter)
  then show ?thesis by auto
qed


lemma ReopenHandoff_safe:
  assumes "store_inv d"
  shows "guarantees (ReopenHandoff i reason actor) (\<lambda>_. store_inv) store_inv d"
proof -
  have repair: "inv_but {i} (d\<lparr>st_repairs := st_repairs d @ [r]\<rparr>)"
    if "repair_ID r \<notin> repair_ID ` set (st_repairs d)" "repair_Action r \<noteq> ''invalidate_event''" for r
  proof -
    have "inv_but {i} d" using assms by (auto simp: store_inv_def intro: inv_mono)
    then show ?thesis by (rule inv_repair) (use that in auto)
  qed
  show ?thesis
    unfolding ReopenHandoff_def Let_def
    by (intro vcg guarantees_saveRepairs [where h = i] guarantees_replay repair)
      (use assms in \<open>auto simp: store_inv_def dest: inval_ids\<close>)
qed

lemma Apply_accepted_flag: "Apply m (e\<lparr>ev_Accepted := b\<rparr>) = Apply m e"
  by (cases "ev_Type e") (simp_all add: Apply_def dispatchCase_def caseTransportRequested_def
    caseReceived_def caseClaimed_def caseStarted_def caseCheckpointed_def caseSubmitted_def
    caseReviewed_def caseCompleted_def caseFailed_def caseExpired_def validateTransportActor_def
    validateSystemActor_def validateReceiverActor_def validateWorkerActor_def validateReviewerActor_def
    Let_def cong: option.case_cong)

lemma projection_accepted_flag: "projection_of m (e\<lparr>ev_Accepted := b\<rparr>) = projection_of m e"
  by (simp add: projection_of_def Apply_accepted_flag)

lemma inv_note_repair:
  "store_inv d \<Longrightarrow> repair_ID r \<notin> repair_ID ` set (st_repairs d) \<Longrightarrow> repair_Action r \<noteq> ''invalidate_event'' \<Longrightarrow>
   store_inv (d\<lparr>st_repairs := st_repairs d @ [r]\<rparr>)"
  unfolding store_inv_def by (rule inv_repair) auto

text \<open>The two statements of a backfill, in terms of the event that is stored.\<close>

lemma guarantees_backfill:
  assumes inv: "store_inv d" and m: "find_by h_ID (ev_HandoffID e) (st_handoffs d) = Some m"
    and acc: "\<not> \<not> dec_Accepted (snd (Apply (NewStateMachine m) e))" and id: "ev_ID e \<noteq> []"
  shows "guarantees (insertAcceptedEventRow (e\<lparr>ev_Accepted := True\<rparr>)) (\<lambda>_. guarantees
      (bindE (saveProjectedHandoffTx (projection_of m e) (h_StateVersion m)) (\<lambda>_. ret r))
      (\<lambda>_. store_inv) (\<lambda>_. True)) (\<lambda>_. True) d"
proof -
  have "accepts m (e\<lparr>ev_Accepted := True\<rparr>)"
    using acc inv_handoff(2) [OF inv m]
    by (simp add: Apply_accepted_flag accepts_def backed_def NewStateMachine_wf)
  with inv m id show ?thesis
    unfolding projection_accepted_flag [of m True e, symmetric]
    by (intro guarantees_commit vcg) auto
qed

lemma BackfillEvent_safe:
  "store_inv d \<Longrightarrow> guarantees (BackfillEvent e reason actor) (\<lambda>_. store_inv) store_inv d"
  unfolding BackfillEvent_def Let_def
  by (intro vcg guarantees_backfill inv_note_repair) (auto split: if_splits)

section \<open>Watches and ownership\<close>

lemma inv_watch_update:
  assumes "store_inv d" and "\<And>r. watch_ID (f r) = watch_ID r"
  shows "store_inv (d\<lparr>st_watches := update_where c f (st_watches d)\<rparr>)"
proof -
  have "map watch_ID (update_where c f (st_watches d)) = map watch_ID (st_watches d)"
    by (rule map_update_where_same) (simp add: assms(2))
  with assms(1) show ?thesis by (auto intro!: inv_side_tables(4) simp: store_inv_def inv_keys)
qed

lemma UpdateWatch_safe: "store_inv d \<Longrightarrow> guarantees (UpdateWatch input) (\<lambda>_. store_inv) store_inv d"
  unfolding UpdateWatch_def UpdateWatchRow_def Let_def
  by (intro vcg inv_watch_update) simp_all

lemma UpdateWatchCheck_safe: "store_inv d \<Longrightarrow> guarantees (UpdateWatchCheck i t r) (\<lambda>_. store_inv) store_inv d"
  unfolding UpdateWatchCheck_def by (intro vcg inv_watch_update) simp_all

lemma update_unique:
  assumes "distinct (map h_ID rows)" and "find_by h_ID (h_ID h) rows = Some m"
    and "f m = h"
  shows "update_where (\<lambda>r. h_ID r = h_ID h) f rows = upsert_by h_ID (\<lambda>_. h) h rows"
proof -
  have "r = m" if "r \<in> set rows" "h_ID r = h_ID h" for r
    using find_by_unique [OF assms(1) that(1)] that(2) assms(2) by simp
  with assms(2,3) show ?thesis by (auto simp: upsert_by_def update_where_def)
qed

lemma UpdateOwnership_safe:
  assumes inv: "store_inv d"
  shows "guarantees (UpdateOwnership input) (\<lambda>_. store_inv) store_inv d"
proof -
  have "store_inv (put_binding (ownership_update input t m)
      (d\<lparr>st_handoffs := update_where (\<lambda>r. h_ID r = h_ID (ownership_update input t m))
        (with_ownership (ownership_update input t m)) (st_handoffs d)\<rparr>))"
    if m: "find_by h_ID (uo_HandoffID input) (st_handoffs d) = Some m" for m t
  proof -
    let ?h = "ownership_update input t m"
    have inv': "inv_but {} d" using inv by (simp add: store_inv_def)
    note h = inv_handoff [OF inv m]
    have b: "backed d ?h"
      using h(2) by (rule backed_progress) (simp_all add: same_progress_def ownership_update_def)
    have id: "h_ID ?h = h_ID m" "h_WorkflowID ?h = h_WorkflowID m" by (simp_all add: ownership_update_def)
    have "update_where (\<lambda>r. h_ID r = h_ID ?h) (with_ownership ?h) (st_handoffs d)
        = upsert_by h_ID (\<lambda>_. ?h) ?h (st_handoffs d)"
    proof (rule update_unique)
      show "distinct (map h_ID (st_handoffs d))" using inv' by (rule inv_keys)
      show "find_by h_ID (h_ID ?h) (st_handoffs d) = Some m" using m h(1) id by simp
      show "with_ownership ?h m = ?h" by (simp add: with_ownership_def ownership_update_def)
    qed
    then show ?thesis
      using inv_put_handoff [OF inv' b] h(3) id by (simp add: store_inv_def put_handoff_def)
  qed
  then show ?thesis
    using inv unfolding UpdateOwnership_def UpdateHandoffOwnership_def updateHandoffOwnershipExec_def Let_def
    by (intro vcg) auto
qed

end
