(* ===== verification/Orch_Work.thy ===== *)
theory Orch_Work
  imports Orch_Safety
begin

text \<open>
  \<open>internal/orchestrator/service.go\<close> (the work queues \<open>NextWork\<close> and \<open>BlockedWork\<close>, the
  workflow status view) and \<open>watchdog.go\<close>. The reasons that keep a handoff out of the
  queue and the suggestions that come with them are pure functions of what the service has
  loaded; the operations load it.
\<close>

section \<open>Agents\<close>

definition defaultAgentHeartbeatTTL :: duration where
  "defaultAgentHeartbeatTTL = 5 * minute"

definition agentStatus :: "AgentRegistration \<Rightarrow> string" where
  "agentStatus a = (let s = trimSpace (agent_Status a) in if s = [] then ''available'' else s)"

definition isHeartbeatLive :: "AgentRegistration \<Rightarrow> time \<Rightarrow> bool" where
  "isHeartbeatLive a now =
     (case agent_LastHeartbeatAt a of
        None \<Rightarrow> False | Some t \<Rightarrow> \<not> t < now - defaultAgentHeartbeatTTL)"

definition agentCanHandleHandoff :: "AgentRegistration \<Rightarrow> Handoff \<Rightarrow> bool" where
  "agentCanHandleHandoff a h =
     (if agent_TaskKinds a \<noteq> [] \<and> h_TaskKind h \<notin> set (agent_TaskKinds a) then False
      else if agent_ProjectRefs a \<noteq> [] \<and> h_PayloadRef h \<noteq> [] \<and> h_PayloadRef h \<notin> set (agent_ProjectRefs a)
      then False else True)"

definition isAssignableAgent :: "AgentRegistration \<Rightarrow> Handoff \<Rightarrow> time \<Rightarrow> bool" where
  "isAssignableAgent a h now =
     (if agentStatus a \<noteq> ''available'' then False
      else if \<not> isHeartbeatLive a now then False
      else agentCanHandleHandoff a h)"

fun agentLiveAndAvailable :: "ActorRef \<Rightarrow> AgentRegistration list \<Rightarrow> time \<Rightarrow> bool" where
  "agentLiveAndAvailable actor [] now = False"
| "agentLiveAndAvailable actor (a # as) now =
     (if actor_Type (agent_Actor a) \<noteq> actor_Type actor \<or> actor_ID (agent_Actor a) \<noteq> actor_ID actor
      then agentLiveAndAvailable actor as now
      else agentStatus a = ''available'' \<and> isHeartbeatLive a now)"

section \<open>Suggestions\<close>

fun firstNonEmptyActor :: "ActorRef list \<Rightarrow> ActorRef" where
  "firstNonEmptyActor [] = NoActor"
| "firstNonEmptyActor (a # as) = (if \<not> isEmptyActor a then a else firstNonEmptyActor as)"

definition watchActionSuggestion :: "Handoff \<Rightarrow> Watch \<Rightarrow> ActionSuggestion" where
  "watchActionSuggestion h w =
     (let suggestion = (\<lambda>code summary actor. \<lparr>sug_Code = code, sug_Summary = summary,
            sug_SuggestedActor = actor, sug_Source = ''watch'', sug_WatchID = watch_ID w\<rparr>) in
      if watch_WatchType w = ''wait_for_received'' then
        suggestion ''escalate_or_redispatch'' ''escalate to owner or redispatch the handoff''
          (firstNonEmptyActor [h_EscalationOwner h, h_FallbackOwner h, h_SenderActor h])
      else if watch_WatchType w = ''wait_for_started'' then
        suggestion ''check_receiver_online'' ''check whether the receiver is online and able to start''
          (firstNonEmptyActor [h_CurrentOwner h, h_ReceiverActor h, h_EscalationOwner h])
      else
        suggestion ''request_checkpoint_or_revision'' ''request a checkpoint, revision, or explicit failure''
          (firstNonEmptyActor [h_CurrentOwner h, h_ReceiverActor h, h_ReviewerActor h, h_EscalationOwner h]))"

fun assignOwnerSuggestion :: "Handoff \<Rightarrow> AgentRegistration list \<Rightarrow> time \<Rightarrow> ActionSuggestion option" where
  "assignOwnerSuggestion h [] now = None"
| "assignOwnerSuggestion h (a # as) now =
     (if \<not> isAssignableAgent a h now then assignOwnerSuggestion h as now
      else Some \<lparr>sug_Code = ''assign_owner'', sug_Summary = ''assign a matching available agent as current owner'',
        sug_SuggestedActor = agent_Actor a, sug_Source = ''agent_registry'', sug_WatchID = []\<rparr>)"

definition reassignOwnerSuggestion :: "Handoff \<Rightarrow> AgentRegistration list \<Rightarrow> time \<Rightarrow> ActionSuggestion option" where
  "reassignOwnerSuggestion h as now =
     (case assignOwnerSuggestion h as now of
        None \<Rightarrow> None
      | Some s \<Rightarrow> Some (s\<lparr>sug_Code := ''reassign_owner'',
          sug_Summary := ''reassign a matching live available agent as current owner''\<rparr>))"

definition reclaimExpiredLeaseSuggestion :: "Handoff \<Rightarrow> AgentRegistration list \<Rightarrow> time \<Rightarrow> ActionSuggestion option" where
  "reclaimExpiredLeaseSuggestion h as now =
     (if actor_Type (h_LeaseHolder h) = ActorAgent \<and> agentLiveAndAvailable (h_LeaseHolder h) as now
      then Some \<lparr>sug_Code = ''reclaim_expired_lease'', sug_Summary = ''reclaim or refresh the expired owner lease'',
        sug_SuggestedActor = h_LeaseHolder h, sug_Source = ''lease_policy'', sug_WatchID = []\<rparr>
      else case assignOwnerSuggestion h as now of
        None \<Rightarrow> None
      | Some s \<Rightarrow> Some (s\<lparr>sug_Code := ''reclaim_expired_lease'',
          sug_Summary := ''reclaim or refresh the expired owner lease'', sug_Source := ''lease_policy''\<rparr>))"

section \<open>Reasons\<close>

definition reason :: "string \<Rightarrow> string \<Rightarrow> WorkBlockReason" where
  "reason code detail = \<lparr>wbr_Code = code, wbr_Detail = detail, wbr_DependencyHandoffID = [], wbr_WatchID = []\<rparr>"

definition hasEventType :: "EventRecord list \<Rightarrow> EventType \<Rightarrow> bool" where
  "hasEventType es t = list_ex (\<lambda>e. ev_Type e = t) es"

definition remindedWatch :: "EventRecord list \<Rightarrow> Watch \<Rightarrow> bool" where
  "remindedWatch events w \<longleftrightarrow> watch_Status w = ''active'' \<and> watch_LastResult w = ''reminder_sent''
     \<and> \<not> hasEventType events (watch_EventType w)"

definition dependencyReasons :: "(string \<Rightarrow> Handoff option) \<Rightarrow> Handoff \<Rightarrow> WorkBlockReason list" where
  "dependencyReasons byID h =
     map (\<lambda>i. (reason ''dependency_incomplete'' ''dependency handoff is not completed'')\<lparr>wbr_DependencyHandoffID := i\<rparr>)
       (filter (dependency_open byID) (h_DependsOnHandoffIDs h))"

definition watchReasons :: "Watch list \<Rightarrow> EventRecord list \<Rightarrow> WorkBlockReason list" where
  "watchReasons watches events =
     map (\<lambda>w. (reason ''watch_reminder_sent'' (watch_WatchType w @ '' reminder sent''))\<lparr>wbr_WatchID := watch_ID w\<rparr>)
       (filter (remindedWatch events) watches)"

definition ownerReasons ::
  "Handoff \<Rightarrow> AgentRegistration list \<Rightarrow> time \<Rightarrow> WorkBlockReason list \<times> ActionSuggestion list" where
  "ownerReasons h as now =
     (if isEmptyActor (h_CurrentOwner h)
      then ([reason ''owner_missing'' ''handoff has no current owner''],
            case_option [] (\<lambda>s. [s]) (assignOwnerSuggestion h as now))
      else if actor_Type (h_CurrentOwner h) = ActorAgent \<and> \<not> agentLiveAndAvailable (h_CurrentOwner h) as now
      then ([reason ''owner_unavailable'' ''handoff current owner is not registered as a live available agent''],
            case_option [] (\<lambda>s. [s]) (reassignOwnerSuggestion h as now))
      else ([], []))"

definition leaseReasons ::
  "Handoff \<Rightarrow> AgentRegistration list \<Rightarrow> time \<Rightarrow> WorkBlockReason list \<times> ActionSuggestion list" where
  "leaseReasons h as now =
     (if \<not> isEmptyActor (h_LeaseHolder h) \<and> (case h_LeaseExpiresAt h of None \<Rightarrow> False | Some t \<Rightarrow> t < now)
      then ([reason ''lease_expired'' ''handoff owner lease has expired''],
            case_option [] (\<lambda>s. [s]) (reclaimExpiredLeaseSuggestion h as now))
      else ([], []))"

definition reviewerReasons :: "Handoff \<Rightarrow> WorkBlockReason list" where
  "reviewerReasons h =
     (if (h_NeedsReview h \<or> h_TaskKind h = TaskReviewRequired) \<and> isEmptyActor (h_ReviewerActor h)
      then [reason ''reviewer_missing'' ''handoff requires review but has no reviewer''] else [])"

definition blockReasons ::
  "Handoff \<Rightarrow> (string \<Rightarrow> Handoff option) \<Rightarrow> AgentRegistration list \<Rightarrow> time \<Rightarrow> Watch list \<Rightarrow> EventRecord list
    \<Rightarrow> WorkBlockReason list \<times> ActionSuggestion list" where
  "blockReasons h byID as now watches events =
     (let (owner, ownerSuggestions) = ownerReasons h as now;
          (lease, leaseSuggestions) = leaseReasons h as now in
      (dependencyReasons byID h @ watchReasons watches events @ owner @ lease @ reviewerReasons h,
       map (watchActionSuggestion h) (filter (remindedWatch events) watches) @ ownerSuggestions @ leaseSuggestions))"

definition workBlockReasons ::
  "Handoff \<Rightarrow> (string \<Rightarrow> Handoff option) \<Rightarrow> AgentRegistration list
    \<Rightarrow> (WorkBlockReason list \<times> ActionSuggestion list) sop" where
  "workBlockReasons h byID as =
     bindE now_op (\<lambda>now.
     bindE (ListWatches (h_ID h)) (\<lambda>watches.
     bindE (EffectiveEvents (h_ID h)) (\<lambda>events.
     ret (blockReasons h byID as now watches events))))"

definition isNextWorkBlockingReason :: "WorkBlockReason \<Rightarrow> bool" where
  "isNextWorkBlockingReason r = (wbr_Code r \<in> {''dependency_incomplete'', ''watch_reminder_sent'', ''reviewer_missing''})"

definition hasNextWorkBlockingReason :: "WorkBlockReason list \<Rightarrow> bool" where
  "hasNextWorkBlockingReason rs = list_ex isNextWorkBlockingReason rs"

definition nonBlockingWorkReasons :: "WorkBlockReason list \<Rightarrow> WorkBlockReason list" where
  "nonBlockingWorkReasons rs = filter (\<lambda>r. \<not> isNextWorkBlockingReason r) rs"

section \<open>Queries\<close>

definition trimWorkQuery :: "WorkQuery \<Rightarrow> WorkQuery" where
  "trimWorkQuery q = q\<lparr>wq_AgentID := trimSpace (wq_AgentID q), wq_Capability := trimSpace (wq_Capability q),
     wq_ProjectRef := trimSpace (wq_ProjectRef q), wq_WorkflowID := trimSpace (wq_WorkflowID q)\<rparr>"

fun isTerminalHandoffState :: "HandoffState \<Rightarrow> bool" where
  "isTerminalHandoffState StateCompleted = True"
| "isTerminalHandoffState StateFailed = True"
| "isTerminalHandoffState StateExpired = True"
| "isTerminalHandoffState _ = False"

definition handoffMatchesAgentID :: "Handoff \<Rightarrow> string \<Rightarrow> bool" where
  "handoffMatchesAgentID h i \<longleftrightarrow> actor_ID (h_ReceiverActor h) = i \<or> actor_ID (h_CurrentOwner h) = i
     \<or> actor_ID (h_LeaseHolder h) = i \<or> actor_ID (h_ReviewerActor h) = i"

definition workQueryMatchesHandoff :: "Handoff \<Rightarrow> WorkQuery \<Rightarrow> AgentRegistration list \<Rightarrow> bool" where
  "workQueryMatchesHandoff h q as =
     (if wq_TaskKind q \<noteq> [] \<and> wq_TaskKind q \<noteq> h_TaskKind h then False
      else if wq_ProjectRef q \<noteq> [] \<and> wq_ProjectRef q \<noteq> h_PayloadRef h then False
      else if wq_AgentID q = [] \<and> wq_Capability q = [] then True
      else if wq_AgentID q \<noteq> [] \<and> handoffMatchesAgentID h (wq_AgentID q) then True
      else list_ex (\<lambda>a. \<not> (wq_AgentID q \<noteq> [] \<and> agent_ID a \<noteq> wq_AgentID q)
             \<and> \<not> (wq_Capability q \<noteq> [] \<and> wq_Capability q \<notin> set (agent_Capabilities a))
             \<and> agentCanHandleHandoff a h) as)"

text \<open>The workflows of the handoffs, by identifier.\<close>

definition loadWorkflowInto :: "(string \<Rightarrow> Workflow option) \<Rightarrow> Handoff \<Rightarrow> (string \<Rightarrow> Workflow option) sop" where
  "loadWorkflowInto ws h =
     (if ws (h_WorkflowID h) \<noteq> None then ret ws
      else bindE (LoadWorkflow (h_WorkflowID h)) (\<lambda>w. ret (ws(wf_ID w \<mapsto> w))))"

definition loadWorkflows :: "Handoff list \<Rightarrow> (string \<Rightarrow> Workflow option) sop" where
  "loadWorkflows hs = foldE loadWorkflowInto (\<lambda>_. None) hs"

definition workProjectionInputs :: "string \<Rightarrow> (Handoff list \<times> (string \<Rightarrow> Workflow option)) sop" where
  "workProjectionInputs workflowID =
     (if workflowID \<noteq> [] then
        bindE (LoadWorkflow workflowID) (\<lambda>w.
        bindE (ListWorkflowHandoffs workflowID) (\<lambda>hs.
        ret (hs, \<lambda>i. if i = wf_ID w then Some w else None)))
      else
        bindE ListHandoffs (\<lambda>hs.
        bindE (loadWorkflows hs) (\<lambda>ws. ret (hs, ws))))"

text \<open>The zero \<open>Workflow\<close>, what a Go map answers for an absent key.\<close>

definition NoWorkflow :: Workflow where
  "NoWorkflow = \<lparr>wf_ID = [], wf_Kind = [], wf_InitiatorActor = NoActor, wf_Status = WorkflowActive,
     wf_RootHandoffID = [], wf_CurrentHandoffID = [], wf_CreatedAt = 0, wf_UpdatedAt = 0,
     wf_CompletedAt = None\<rparr>"

definition workflow_at :: "(string \<Rightarrow> Workflow option) \<Rightarrow> string \<Rightarrow> Workflow" where
  "workflow_at ws i = (case ws i of None \<Rightarrow> NoWorkflow | Some w \<Rightarrow> w)"

fun earliestWatch :: "Watch option \<Rightarrow> Watch list \<Rightarrow> Watch option" where
  "earliestWatch best [] = best"
| "earliestWatch best (w # ws) =
     (if watch_Status w \<noteq> ''active'' then earliestWatch best ws
      else case best of
        None \<Rightarrow> earliestWatch (Some w) ws
      | Some b \<Rightarrow>
          if watch_DeadlineAt w < watch_DeadlineAt b
             \<or> watch_DeadlineAt w = watch_DeadlineAt b \<and> watch_ID w < watch_ID b
          then earliestWatch (Some w) ws else earliestWatch best ws)"

definition earliestActiveWatch :: "string \<Rightarrow> Watch option sop" where
  "earliestActiveWatch h = bindE (ListWatches h) (\<lambda>ws. ret (earliestWatch None ws))"

definition workItemDeadline :: "WorkItem \<Rightarrow> time" where
  "workItemDeadline item =
     (case wi_ActiveWatch item of
        Some w \<Rightarrow> watch_DeadlineAt w
      | None \<Rightarrow> (case h_DeadlineAt (wi_Handoff item) of Some t \<Rightarrow> t | None \<Rightarrow> 0))"

definition workItemKey :: "WorkItem \<Rightarrow> time \<times> bool \<times> time \<times> string" where
  "workItemKey item = (workItemDeadline item, \<not> h_RequiredForWorkflowCompletion (wi_Handoff item),
     h_CreatedAt (wi_Handoff item), h_ID (wi_Handoff item))"

definition sortWorkItems :: "WorkItem list \<Rightarrow> WorkItem list" where
  "sortWorkItems items = sort_key workItemKey items"

definition limitWorkItems :: "'a list \<Rightarrow> int \<Rightarrow> 'a list" where
  "limitWorkItems items limit =
     (if limit \<le> 0 \<or> int (length items) \<le> limit then items else take (nat limit) items)"

definition blockedItemKey :: "BlockedWorkItem \<Rightarrow> bool \<times> time \<times> string" where
  "blockedItemKey item = (\<not> h_RequiredForWorkflowCompletion (bwi_Handoff item),
     h_CreatedAt (bwi_Handoff item), h_ID (bwi_Handoff item))"

definition sortBlockedWorkItems :: "BlockedWorkItem list \<Rightarrow> BlockedWorkItem list" where
  "sortBlockedWorkItems items = sort_key blockedItemKey items"

definition selectedForWork :: "WorkQuery \<Rightarrow> AgentRegistration list \<Rightarrow> Handoff \<Rightarrow> bool" where
  "selectedForWork q as h \<longleftrightarrow> \<not> (isTerminalHandoffState (h_State h) \<or> \<not> workQueryMatchesHandoff h q as)"

definition nextWorkItem ::
  "WorkQuery \<Rightarrow> AgentRegistration list \<Rightarrow> (string \<Rightarrow> Handoff option) \<Rightarrow> (string \<Rightarrow> Workflow option)
    \<Rightarrow> WorkItem list \<Rightarrow> Handoff \<Rightarrow> WorkItem list sop" where
  "nextWorkItem q as byID workflows items h =
     (if \<not> selectedForWork q as h then ret items
      else
        bindE (workBlockReasons h byID as) (\<lambda>(reasons, suggestions).
        if hasNextWorkBlockingReason reasons then ret items
        else
          bindE (earliestActiveWatch (h_ID h)) (\<lambda>activeWatch.
          ret (items @ [\<lparr>wi_Workflow = workflow_at workflows (h_WorkflowID h), wi_Handoff = h,
            wi_ActiveWatch = activeWatch, wi_Warnings = nonBlockingWorkReasons reasons,
            wi_Suggestions = suggestions\<rparr>]))))"

definition NextWork :: "WorkQuery \<Rightarrow> WorkItem list sop" where
  "NextWork query0 =
     (let q = trimWorkQuery query0 in
      bindE (workProjectionInputs (wq_WorkflowID q)) (\<lambda>(handoffs, workflows).
      bindE (ListAgentRegistrations \<lparr>alf_Capability = [], alf_ProjectRef = [], alf_TaskKind = [], alf_Status = []\<rparr>) (\<lambda>as.
      bindE (foldE (nextWorkItem q as (handoffsByID handoffs) workflows) [] handoffs) (\<lambda>items.
      ret (limitWorkItems (sortWorkItems items) (wq_Limit q))))))"

definition blockedWorkItem ::
  "WorkQuery \<Rightarrow> AgentRegistration list \<Rightarrow> (string \<Rightarrow> Handoff option) \<Rightarrow> (string \<Rightarrow> Workflow option)
    \<Rightarrow> BlockedWorkItem list \<Rightarrow> Handoff \<Rightarrow> BlockedWorkItem list sop" where
  "blockedWorkItem q as byID workflows items h =
     (if \<not> selectedForWork q as h then ret items
      else
        bindE (workBlockReasons h byID as) (\<lambda>(reasons, suggestions).
        if reasons = [] then ret items
        else ret (items @ [\<lparr>bwi_Workflow = workflow_at workflows (h_WorkflowID h), bwi_Handoff = h,
          bwi_Reasons = reasons, bwi_Suggestions = suggestions\<rparr>])))"

definition BlockedWork :: "WorkQuery \<Rightarrow> BlockedWorkItem list sop" where
  "BlockedWork query0 =
     (let q = trimWorkQuery query0 in
      bindE (workProjectionInputs (wq_WorkflowID q)) (\<lambda>(handoffs, workflows).
      bindE (ListAgentRegistrations \<lparr>alf_Capability = [], alf_ProjectRef = [], alf_TaskKind = [], alf_Status = []\<rparr>) (\<lambda>as.
      bindE (foldE (blockedWorkItem q as (handoffsByID handoffs) workflows) [] handoffs) (\<lambda>items.
      ret (limitWorkItems (sortBlockedWorkItems items) (wq_Limit q))))))"

section \<open>The workflow status view\<close>

fun workflowHasBlockedWatch :: "Handoff list \<Rightarrow> bool sop" where
  "workflowHasBlockedWatch [] = ret False"
| "workflowHasBlockedWatch (h # hs) =
     (if \<not> h_RequiredForWorkflowCompletion h then workflowHasBlockedWatch hs
      else
        bindE (ListWatches (h_ID h)) (\<lambda>watches.
        bindE (EffectiveEvents (h_ID h)) (\<lambda>events.
        if list_ex (remindedWatch events) watches then ret True else workflowHasBlockedWatch hs)))"

definition WorkflowStatusView :: "string \<Rightarrow> (Workflow \<times> Handoff list) sop" where
  "WorkflowStatusView workflowID =
     bindE (LoadWorkflow workflowID) (\<lambda>w.
     bindE (ListWorkflowHandoffs workflowID) (\<lambda>hs.
     bindE now_op (\<lambda>now.
     let projected = ProjectWorkflow w hs now in
     bindE (workflowHasBlockedWatch hs) (\<lambda>blocked.
     ret (if blocked \<and> wf_Status projected = WorkflowActive
          then projected\<lparr>wf_Status := WorkflowBlocked\<rparr> else projected, hs)))))"

section \<open>The watchdog\<close>

definition reminderCooldown :: duration where
  "reminderCooldown = 5 * minute"

text \<open>A watch the watchdog reminds of: due, still waiting, and not reminded within the cooldown.\<close>

definition needsReminder :: "time \<Rightarrow> EventRecord list \<Rightarrow> Watch \<Rightarrow> bool" where
  "needsReminder now events w =
     (if watch_Status w \<noteq> ''active'' \<or> watch_DeadlineAt w > now then False
      else if hasEventType events (watch_EventType w) then False
      else if watch_LastResult w = ''reminder_sent'' \<and> timeSub now (watch_LastCheckedAt w) < reminderCooldown
      then False else True)"

definition remind :: "time \<Rightarrow> Handoff \<Rightarrow> EventRecord list \<Rightarrow> int \<times> string list \<Rightarrow> Watch \<Rightarrow> (int \<times> string list) sop" where
  "remind now h events acc w =
     (if \<not> needsReminder now events w then ret acc
      else
        bindE (NewID ''evt'') (\<lambda>i.
        bindE (RecordObserverHint (NoEvent\<lparr>ev_ID := i, ev_WorkflowID := h_WorkflowID h,
          ev_HandoffID := h_ID h, ev_Type := EventReminderSent, ev_ProducerEventTime := now,
          ev_IngestedAt := now, ev_ProducerActor := ActorOf ActorSystem ''watchdog''\<rparr>) None) (\<lambda>_.
        bindE (UpdateWatchCheck (watch_ID w) now ''reminder_sent'') (\<lambda>_.
        ret (fst acc + 1,
             if h_RequiredForWorkflowCompletion h then List.insert (h_WorkflowID h) (snd acc) else snd acc)))))"

definition watchHandoff :: "time \<Rightarrow> int \<times> string list \<Rightarrow> Handoff \<Rightarrow> (int \<times> string list) sop" where
  "watchHandoff now acc h =
     bindE (ListWatches (h_ID h)) (\<lambda>watches.
     bindE (EffectiveEvents (h_ID h)) (\<lambda>events.
     foldE (remind now h events) acc watches))"

text \<open>\<open>RemindersSent\<close> and \<open>BlockedWorkflows\<close>.\<close>

definition RunWatchdog :: "time \<Rightarrow> (int \<times> int) sop" where
  "RunWatchdog inputNow =
     bindE (if is_zero inputNow then now_op else ret inputNow) (\<lambda>now.
     bindE ListHandoffs (\<lambda>handoffs.
     bindE (foldE (watchHandoff now) (0, []) handoffs) (\<lambda>(sent, blocked).
     ret (sent, int (length blocked)))))"

end
