(* ===== verification/Orch_History.thy ===== *)
theory Orch_History
  imports Orch_Work "HOL-Library.Sublist"
begin

text \<open>
  What the orchestrator never takes back: accepted events, the ingestion audit, repairs,
  signals, candidates, divergences and idempotency records are append-only, and no
  workflow or handoff disappears. \<open>history_le\<close> is kept by every statement, so every
  operation keeps it whatever fails (\<open>preserves\<close> calculus).
\<close>

definition history_le :: "store \<Rightarrow> store \<Rightarrow> bool" where
  "history_le d d' \<longleftrightarrow>
     prefix (st_accepted d) (st_accepted d') \<and> prefix (st_audit d) (st_audit d') \<and>
     prefix (st_repairs d) (st_repairs d') \<and> prefix (st_signals d) (st_signals d') \<and>
     prefix (st_candidates d) (st_candidates d') \<and> prefix (st_divergences d) (st_divergences d') \<and>
     prefix (st_creations d) (st_creations d') \<and> prefix (st_applications d) (st_applications d') \<and>
     prefix (st_artifacts d) (st_artifacts d') \<and>
     prefix (map attempt_ID (st_attempts d)) (map attempt_ID (st_attempts d')) \<and>
     prefix (map h_ID (st_handoffs d)) (map h_ID (st_handoffs d')) \<and>
     prefix (map wf_ID (st_workflows d)) (map wf_ID (st_workflows d'))"

lemma history_le_refl [simp]: "history_le d d"
  by (simp add: history_le_def)

lemma history_le_trans: "history_le d d' \<Longrightarrow> history_le d' d'' \<Longrightarrow> history_le d d''"
  by (auto simp: history_le_def intro: prefix_order.trans)

abbreviation keeps_history :: "'a sop \<Rightarrow> bool" where
  "keeps_history m \<equiv> (\<forall>d0. preserves (history_le d0) m)"

lemma keepsD: "keeps_history m \<Longrightarrow> history_le (w_db w) (w_db (snd (m w)))"
  by (auto intro: preservesD)

section \<open>Statements\<close>

lemma preserves_insertE [preserves_intros]:
  "(\<And>d. P d \<Longrightarrow> P (put d)) \<Longrightarrow> preserves P (insertE cs put)"
  unfolding insertE_def by (rule preserves_statement) (auto split: option.splits)

lemma preserves_updateE [preserves_intros]:
  "(\<And>d. P d \<Longrightarrow> P (put d)) \<Longrightarrow> preserves P (updateE l r n put)"
  unfolding updateE_def by (intro preserves_intros) auto

lemma preserves_selectE [preserves_intros]: "preserves P (selectE l i rows)"
  unfolding selectE_def by (intro preserves_intros)

lemma preserves_queryRowE [preserves_intros]: "preserves P (queryRowE row)"
  unfolding queryRowE_def by (rule preserves_statement) (auto split: option.splits)

lemma preserves_column [preserves_intros]: "preserves P (queryStringColumn l rows)"
  unfolding queryStringColumn_def by (intro preserves_intros)

lemma preserves_NewID [preserves_intros]: "preserves P (NewID p)"
  by (auto simp: preserves_def NewID_def split: option.split)

lemma upsert_ids: "prefix (map key rows) (map key (upsert_by key (\<lambda>_. r) r rows))"
  unfolding upsert_by_def
  using map_update_where_same [of "\<lambda>x. key x = key r" key "\<lambda>_. r" rows] by auto

lemma history_tables [preserves_intros]:
  "history_le d0 d \<Longrightarrow> history_le d0 (d\<lparr>st_accepted := st_accepted d @ [e]\<rparr>)"
  "history_le d0 d \<Longrightarrow> history_le d0 (d\<lparr>st_audit := st_audit d @ [e]\<rparr>)"
  "history_le d0 d \<Longrightarrow> history_le d0 (d\<lparr>st_repairs := st_repairs d @ [r]\<rparr>)"
  "history_le d0 d \<Longrightarrow> history_le d0 (d\<lparr>st_signals := st_signals d @ [s]\<rparr>)"
  "history_le d0 d \<Longrightarrow> history_le d0 (d\<lparr>st_candidates := st_candidates d @ [c]\<rparr>)"
  "history_le d0 d \<Longrightarrow> history_le d0 (d\<lparr>st_divergences := st_divergences d @ [v]\<rparr>)"
  "history_le d0 d \<Longrightarrow> history_le d0 (d\<lparr>st_creations := st_creations d @ [k]\<rparr>)"
  "history_le d0 d \<Longrightarrow> history_le d0 (d\<lparr>st_applications := st_applications d @ [p]\<rparr>)"
  "history_le d0 d \<Longrightarrow> history_le d0 (d\<lparr>st_artifacts := st_artifacts d @ [a]\<rparr>)"
  "history_le d0 d \<Longrightarrow> history_le d0 (d\<lparr>st_attempts := st_attempts d @ [t]\<rparr>)"
  "history_le d0 d \<Longrightarrow> history_le d0 (d\<lparr>st_bindings := bs\<rparr>)"
  "history_le d0 d \<Longrightarrow> history_le d0 (d\<lparr>st_watches := ws\<rparr>)"
  "history_le d0 d \<Longrightarrow> history_le d0 (d\<lparr>st_agents := gs\<rparr>)"
  by (simp_all add: history_le_def)

lemma history_rows [preserves_intros]:
  "history_le d0 d \<Longrightarrow> history_le d0 (d\<lparr>st_handoffs := upsert_by h_ID (\<lambda>_. h) h (st_handoffs d)\<rparr>)"
  "history_le d0 d \<Longrightarrow> history_le d0 (d\<lparr>st_workflows := upsert_by wf_ID (\<lambda>_. w) w (st_workflows d)\<rparr>)"
  using upsert_ids [of h_ID "st_handoffs d" h] upsert_ids [of wf_ID "st_workflows d" w]
  by (auto simp: history_le_def intro: prefix_order.trans)

lemma history_updates:
  assumes "history_le d0 d"
  shows "(\<And>r. c r \<Longrightarrow> h_ID (f r) = h_ID r) \<Longrightarrow> history_le d0 (d\<lparr>st_handoffs := update_where c f (st_handoffs d)\<rparr>)"
    and "(\<And>r. b r \<Longrightarrow> attempt_ID (g r) = attempt_ID r) \<Longrightarrow>
      history_le d0 (d\<lparr>st_attempts := update_where b g (st_attempts d)\<rparr>)"
  using assms map_update_where_same [of c h_ID f "st_handoffs d"]
    map_update_where_same [of b attempt_ID g "st_attempts d"]
  by (auto simp: history_le_def)

lemmas statement_defs = saveWorkflowExec_def saveAgentRegistrationExec_def SaveAgentRegistration_def
  saveOwnershipBindingExec_def saveHandoffExec_def SaveHandoff_def loadHandoffTx_def LoadHandoff_def
  loadWorkflowTx_def LoadWorkflow_def loadOwnershipBindingTx_def LoadOwnershipBinding_def
  loadWatchTx_def LoadWatch_def saveWatchExec_def saveRepairExec_def saveDispatchAttemptExec_def
  SaveDispatchAttempt_def saveDispatchAttemptStatusExec_def SaveDispatchAttemptStatus_def
  saveDivergenceExec_def appendObservedSignalExec_def appendRepairCandidateExec_def saveArtifactExec_def
  saveA2AInboundTaskCreationExec_def insertAcceptedEventRow_def insertAuditEventRow_def
  validateEventWorkflowMatch_def ListWatches_def EffectiveEvents_def ListHandoffs_def
  ListWorkflowHandoffs_def ListAgentRegistrations_def optionalRowE_def
  loadA2AInboundTaskCreationTx_def lookupAcceptedEventHandoffID_def

lemma keeps_saveProjected [preserves_intros]: "preserves (history_le d0) (saveProjectedHandoffTx h v)"
  unfolding saveProjectedHandoffTx_def Let_def statement_defs
  by (intro preserves_intros history_updates) simp_all

lemma keeps_ownership [preserves_intros]: "preserves (history_le d0) (UpdateHandoffOwnership h)"
  unfolding UpdateHandoffOwnership_def updateHandoffOwnershipExec_def statement_defs
  by (intro preserves_intros history_updates) (simp_all add: with_ownership_def)

lemma keeps_attemptStatus [preserves_intros]: "preserves (history_le d0) (SaveDispatchAttemptStatus a)"
  unfolding statement_defs by (intro preserves_intros history_updates) simp_all

section \<open>Operations\<close>

lemma keeps_newRoot [preserves_intros]: "preserves P (newRootHandoffCreation input now)"
  unfolding newRootHandoffCreation_def CreateDefaultWatches_def newWatch_def Let_def
  by (intro preserves_intros)

lemma keeps_register: "preserves (history_le d0) (RegisterAgent agent)"
  unfolding RegisterAgent_def Let_def statement_defs by (intro preserves_intros)

lemma keeps_create: "preserves (history_le d0) (CreateHandoff input)"
  unfolding CreateHandoff_def statement_defs by (intro preserves_intros)

lemma keeps_createIdempotent: "preserves (history_le d0) (CreateHandoffIdempotent input)"
  unfolding CreateHandoffIdempotent_def inboundArtifact_def Let_def statement_defs
  by (intro preserves_intros)

lemma keeps_append: "preserves (history_le d0) (AppendHandoff wid input)"
  unfolding AppendHandoff_def CreateDefaultWatches_def newWatch_def loadRelatedHandoffTx_def Let_def statement_defs
  by (intro preserves_intros)

lemma keeps_fillEvent [preserves_intros]: "preserves P (fillEvent e)"
  unfolding fillEvent_def by (intro preserves_intros)

lemma keeps_recordAccepted [preserves_intros]: "preserves (history_le d0) (RecordAcceptedEvent e)"
  unfolding RecordAcceptedEvent_def recordAcceptedEventTx_def Let_def statement_defs
  by (intro preserves_intros)

lemma keeps_recordRejected [preserves_intros]: "preserves (history_le d0) (RecordRejectedEvent e)"
  unfolding RecordRejectedEvent_def statement_defs by (intro preserves_intros)

lemma keeps_record [preserves_intros]: "preserves (history_le d0) (RecordAuthoritativeEvent e)"
  unfolding RecordAuthoritativeEvent_def Let_def statement_defs by (intro preserves_intros)

lemma keeps_dependencies [preserves_intros]: "preserves (history_le d0) (ensureHandoffDependenciesCompleted h)"
  unfolding ensureHandoffDependenciesCompleted_def loadRelatedHandoffTx_def statement_defs
  by (intro preserves_intros)

lemma keeps_protocol [preserves_intros]: "preserves (history_le d0) (ApplyProtocolAction req)"
  unfolding ApplyProtocolAction_def statement_defs by (intro preserves_intros)

lemma keeps_persist [preserves_intros]: "preserves (history_le d0) (persistObservedSignal h a x s)"
  unfolding persistObservedSignal_def BuildRepairCandidates_def Let_def statement_defs
  by (intro preserves_intros)

lemma keeps_signal [preserves_intros]: "preserves (history_le d0) (RecordObservedSignal e x)"
  unfolding RecordObservedSignal_def observeHint_def observeEvent_def Let_def statement_defs
  by (intro preserves_intros)

lemma keeps_lifecycle [preserves_intros]: "preserves (history_le d0) (applyLifecycleEvent h input e)"
  unfolding applyLifecycleEvent_def by (intro preserves_intros)

lemma keeps_adapter [preserves_intros]:
  "preserves (history_le d0) (runAdapter execute decode h input a r)"
  unfolding runAdapter_def Let_def by (intro preserves_intros)

lemma keeps_dispatch: "preserves (history_le d0) (DispatchHandoff adapter input)"
  unfolding DispatchHandoff_def Let_def statement_defs by (intro preserves_intros)

lemma keeps_replay [preserves_intros]: "preserves (history_le d0) (replayHandoffProjectionTx i)"
  unfolding replayHandoffProjectionTx_def CreateDefaultWatches_def newWatch_def replaceWatchesExec_def
    Let_def statement_defs
  by (intro preserves_intros)

lemma keeps_invalidate: "preserves (history_le d0) (InvalidateEvent i why actor)"
  unfolding InvalidateEvent_def BuildDefaultRepairRecords_def saveDefaultRepairs_def Let_def statement_defs
  by (intro preserves_intros)

lemma keeps_backfill: "preserves (history_le d0) (BackfillEvent e why actor)"
  unfolding BackfillEvent_def Let_def statement_defs by (intro preserves_intros)

lemma keeps_reopen: "preserves (history_le d0) (ReopenHandoff h why actor)"
  unfolding ReopenHandoff_def invalidationFor_def Let_def statement_defs by (intro preserves_intros)

lemma keeps_updateWatch: "preserves (history_le d0) (UpdateWatch winput)"
  unfolding UpdateWatch_def UpdateWatchRow_def Let_def statement_defs by (intro preserves_intros)

lemma keeps_updateOwnership: "preserves (history_le d0) (UpdateOwnership oinput)"
  unfolding UpdateOwnership_def Let_def statement_defs by (intro preserves_intros)

lemma keeps_watchdog: "preserves (history_le d0) (RunWatchdog now)"
  unfolding RunWatchdog_def watchHandoff_def remind_def RecordObserverHint_def UpdateWatchCheck_def statement_defs
  by (intro preserves_intros)

end
