(* ===== verification/Orch_Contracts.thy ===== *)
theory Orch_Contracts
  imports Orch_History
begin

text \<open>
  What the operations of the orchestrator service promise on success and on failure, as
  \<open>guarantees\<close> over the database, and the reachable databases: the closure of the empty
  database under every operation of the service.
\<close>

section \<open>The watchdog keeps the invariant\<close>

lemma RecordObserverHint_safe:
  "store_inv d \<Longrightarrow> guarantees (RecordObserverHint e x) (\<lambda>_. store_inv) store_inv d"
  unfolding RecordObserverHint_def by (rule RecordObservedSignal_safe)

lemma remind_safe: "store_inv d \<Longrightarrow> guarantees (remind now h es acc w) (\<lambda>_. store_inv) store_inv d"
  unfolding remind_def
  by (intro vcg guarantees_mono [OF RecordObserverHint_safe] guarantees_mono [OF UpdateWatchCheck_safe]) auto

lemma watchHandoff_safe: "store_inv d \<Longrightarrow> guarantees (watchHandoff now acc h) (\<lambda>_. store_inv) store_inv d"
  unfolding watchHandoff_def
  by (intro vcg guarantees_foldE [where I = "\<lambda>_. store_inv"] remind_safe)

lemma RunWatchdog_safe: "store_inv d \<Longrightarrow> guarantees (RunWatchdog now) (\<lambda>_. store_inv) store_inv d"
  unfolding RunWatchdog_def
  by (intro vcg guarantees_ListHandoffs guarantees_foldE [where I = "\<lambda>_. store_inv"] watchHandoff_safe)
    (auto simp: store_inv_def inv_keys)

section \<open>Recording an event\<close>

definition record_outcome :: "store \<Rightarrow> EventDecision \<times> error option \<Rightarrow> store \<Rightarrow> bool" where
  "record_outcome d res d' \<longleftrightarrow>
     (let e = ed_Event (fst res) in
      \<exists>m. find_by h_ID (ev_HandoffID e) (st_handoffs d) = Some m \<and>
        (case snd res of
           None \<Rightarrow> ev_Accepted e \<and> accepts m e \<and> \<not> isObservedSignalEvent (ev_Type e)
             \<and> ev_WorkflowID e = h_WorkflowID m
             \<and> ed_Handoff (fst res) = projection_of m e \<and> d' = commit_event m e d
         | Some err \<Rightarrow> \<not> ev_Accepted e \<and> \<not> accepts m e \<and> err = ErrorText (ev_RejectionReason e)
             \<and> ed_Handoff (fst res) = m \<and> d' = d\<lparr>st_audit := st_audit d @ [e]\<rparr>))"

lemma Apply_flags:
  "Apply m (e\<lparr>ev_WorkflowID := w, ev_Accepted := b, ev_RejectionReason := r\<rparr>) = Apply m e"
  by (cases "ev_Type e") (simp_all add: Apply_def dispatchCase_def caseTransportRequested_def
    caseReceived_def caseClaimed_def caseStarted_def caseCheckpointed_def caseSubmitted_def
    caseReviewed_def caseCompleted_def caseFailed_def caseExpired_def validateTransportActor_def
    validateSystemActor_def validateReceiverActor_def validateWorkerActor_def validateReviewerActor_def
    Let_def cong: option.case_cong)

lemma guarantees_recordRejected:
  assumes "E d" and "\<not> ev_Accepted e \<Longrightarrow> Q () (d\<lparr>st_audit := st_audit d @ [e]\<rparr>)"
  shows "guarantees (RecordRejectedEvent e) Q E d"
  unfolding RecordRejectedEvent_def by (intro vcg) (use assms in auto)

lemma record_contract:
  assumes "store_inv d"
  shows "guarantees (RecordAuthoritativeEvent e) (record_outcome d) (\<lambda>d'. d' = d) d"
  unfolding RecordAuthoritativeEvent_def Let_def
proof (intro vcg guarantees_recordRejected guarantees_RecordAccepted assms)
  fix i p g m
  let ?e = "e\<lparr>ev_ID := i, ev_ProducerEventTime := p, ev_IngestedAt := g\<rparr>"
  assume m: "find_by h_ID (ev_HandoffID ?e) (st_handoffs d) = Some m"
    and rejected: "\<not> dec_Accepted (snd (Apply (NewStateMachine m) ?e))"
  have new: "NewStateMachine m = m"
    using inv_handoff(2) [OF assms m] by (simp add: backed_def NewStateMachine_wf)
  let ?r = "\<lambda>w reason. ?e\<lparr>ev_WorkflowID := w, ev_Accepted := False, ev_RejectionReason := reason\<rparr>"
  have "\<not> accepts m (?r w reason)" for w reason
    using rejected new by (simp add: accepts_def Apply_flags)
  with m show "record_outcome d
      (\<lparr>ed_Event = ?r (if ev_WorkflowID ?e = [] then h_WorkflowID m else ev_WorkflowID ?e)
           (dec_Reason (snd (Apply (NewStateMachine m) ?e))),
         ed_Decision = snd (Apply (NewStateMachine m) ?e), ed_Handoff = m\<rparr>,
       Some (ErrorText (dec_Reason (snd (Apply (NewStateMachine m) ?e)))))
      (d\<lparr>st_audit := st_audit d @ [?r (if ev_WorkflowID ?e = [] then h_WorkflowID m else ev_WorkflowID ?e)
           (dec_Reason (snd (Apply (NewStateMachine m) ?e)))]\<rparr>)"
    by (simp add: record_outcome_def)
qed (auto simp: record_outcome_def)

section \<open>Signals\<close>

text \<open>A signal touches only the signal tables and the audit.\<close>

definition signals_only :: "store \<Rightarrow> store \<Rightarrow> bool" where
  "signals_only d d' \<longleftrightarrow> st_workflows d' = st_workflows d \<and> st_agents d' = st_agents d
     \<and> st_handoffs d' = st_handoffs d \<and> st_accepted d' = st_accepted d \<and> st_attempts d' = st_attempts d
     \<and> st_artifacts d' = st_artifacts d \<and> st_creations d' = st_creations d
     \<and> st_applications d' = st_applications d \<and> st_watches d' = st_watches d
     \<and> st_repairs d' = st_repairs d \<and> st_bindings d' = st_bindings d"

lemma signals_only_refl [simp]: "signals_only d d"
  by (simp add: signals_only_def)

lemma signals_only_step:
  assumes "signals_only d d'"
  shows "signals_only d (d'\<lparr>st_audit := a\<rparr>)" "signals_only d (d'\<lparr>st_divergences := v\<rparr>)"
    "signals_only d (d'\<lparr>st_signals := s\<rparr>)" "signals_only d (d'\<lparr>st_candidates := c\<rparr>)"
  using assms by (simp_all add: signals_only_def)

lemma signals_only_fields:
  "signals_only d d' \<Longrightarrow> st_handoffs d' = st_handoffs d" "signals_only d d' \<Longrightarrow> st_accepted d' = st_accepted d"
  "signals_only d d' \<Longrightarrow> st_repairs d' = st_repairs d" "signals_only d d' \<Longrightarrow> st_watches d' = st_watches d"
  "signals_only d d' \<Longrightarrow> st_bindings d' = st_bindings d" "signals_only d d' \<Longrightarrow> st_workflows d' = st_workflows d"
  by (auto simp: signals_only_def)

lemma persist_contract:
  "guarantees (persistObservedSignal h a x s)
     (\<lambda>_ d'. signals_only d d' \<and> st_signals d' = st_signals d @ [s]) (\<lambda>d'. d' = d) d"
proof -
  have tail: "guarantees (forE cs appendRepairCandidateExec)
      (\<lambda>_ d'. signals_only d d' \<and> st_signals d' = st_signals d @ [s]) (\<lambda>_. True) d'"
    if "signals_only d d'" "st_signals d' = st_signals d @ [s]" for cs d'
    by (rule guarantees_forE [where I = "\<lambda>d'. signals_only d d' \<and> st_signals d' = st_signals d @ [s]"])
      (use that in \<open>auto intro!: vcg signals_only_step\<close>)
  show ?thesis
    unfolding persistObservedSignal_def
    by (intro vcg tail) (auto intro!: signals_only_step)
qed

lemma signal_contract:
  "guarantees (RecordObservedSignal e x)
     (\<lambda>_ d'. signals_only d d' \<and> (\<exists>s. st_signals d' = st_signals d @ [s])) (\<lambda>d'. d' = d) d"
  unfolding RecordObservedSignal_def observeHint_def observeEvent_def Let_def
  by (intro vcg guarantees_mono [OF persist_contract]) auto

section \<open>Idempotent creation\<close>

definition creation_of :: "store \<Rightarrow> string \<Rightarrow> a2aInboundTaskCreationRecord option" where
  "creation_of d k = find_by cr_IdempotencyKey k (st_creations d)"

definition record_creation :: "store \<Rightarrow> string \<Rightarrow> a2aInboundTaskCreationRecord \<Rightarrow> store option" where
  "record_creation d k r =
     (if cr_IdempotencyKey r = k \<and> creation_of d k = None
      then Some (d\<lparr>st_creations := st_creations d @ [r]\<rparr>) else None)"

interpretation creations: keyed_ledger creation_of record_creation
  by unfold_locales
    (auto simp: creation_of_def record_creation_def find_by_append split: if_splits option.splits)

definition application_of :: "store \<Rightarrow> string \<Rightarrow> collaborationTemplateApplicationRecord option" where
  "application_of d k = find_by ta_IdempotencyKey k (st_applications d)"

definition record_application ::
  "store \<Rightarrow> string \<Rightarrow> collaborationTemplateApplicationRecord \<Rightarrow> store option" where
  "record_application d k r =
     (if ta_IdempotencyKey r = k \<and> application_of d k = None
      then Some (d\<lparr>st_applications := st_applications d @ [r]\<rparr>) else None)"

interpretation applications: keyed_ledger application_of record_application
  by unfold_locales
    (auto simp: application_of_def record_application_def find_by_append split: if_splits option.splits)

lemma saveCreation_ledger:
  "guarantees (saveA2AInboundTaskCreationExec r)
     (\<lambda>_ d'. record_creation d (cr_IdempotencyKey r) r = Some d') (\<lambda>d'. d' = d) d"
  by (intro vcg) (auto simp: record_creation_def creation_of_def scan_simps)

lemma creation_taken:
  "creation_of d (cr_IdempotencyKey r) = Some r0 \<Longrightarrow>
   guarantees (saveA2AInboundTaskCreationExec r) (\<lambda>_ _. False) (\<lambda>d'. d' = d) d"
  using saveCreation_ledger [of r d] creations.recorded_once [of d "cr_IdempotencyKey r" r0 r]
  by (auto elim!: guarantees_mono)

definition creation_outcome :: "store \<Rightarrow> IdempotentCreateHandoffInput \<Rightarrow> CreateHandoffResult \<times> bool \<Rightarrow> store \<Rightarrow> bool" where
  "creation_outcome d input res d' \<longleftrightarrow>
     (case creation_of d (ii_IdempotencyKey input) of
        Some r \<Rightarrow> snd res \<and> d' = d \<and> cr_PayloadHash r = ii_PayloadHash input
          \<and> find_by h_ID (cr_HandoffID r) (st_handoffs d) = Some (cres_Handoff (fst res))
          \<and> find_by wf_ID (cr_WorkflowID r) (st_workflows d) = Some (cres_Workflow (fst res))
      | None \<Rightarrow> \<not> snd res \<and>
          (\<exists>r. creation_of d' (ii_IdempotencyKey input) = Some r \<and> cr_PayloadHash r = ii_PayloadHash input
             \<and> cr_HandoffID r = h_ID (cres_Handoff (fst res)) \<and> cr_WorkflowID r = wf_ID (cres_Workflow (fst res)))
          \<and> find_by h_ID (h_ID (cres_Handoff (fst res))) (st_handoffs d') = Some (cres_Handoff (fst res))
          \<and> find_by wf_ID (wf_ID (cres_Workflow (fst res))) (st_workflows d') = Some (cres_Workflow (fst res))
          \<and> h_State (cres_Handoff (fst res)) = StateCreated
          \<and> h_ArtifactCount (cres_Handoff (fst res)) = int (length (ii_ArtifactRefs input)))"

text \<open>A loop of inserts leaves exactly its rows behind.\<close>

lemma saveWatches_exact:
  assumes "\<And>d. E d" and "Q () (d\<lparr>st_watches := st_watches d @ ws\<rparr>)"
  shows "guarantees (forE ws saveWatchExec) Q E d"
  using assms(2)
proof (induction ws arbitrary: d)
  case (Cons w ws)
  then show ?case by (auto intro!: vcg guarantees_saveWatch assms(1) Cons.IH)
qed (auto intro!: vcg)

lemma saveArtifacts_exact:
  assumes "\<And>d. E d" and "Q () (d\<lparr>st_artifacts := st_artifacts d @ as\<rparr>)"
  shows "guarantees (forE as saveArtifactExec) Q E d"
  using assms(2)
proof (induction as arbitrary: d)
  case (Cons a as)
  then show ?case by (auto intro!: vcg guarantees_saveArtifact assms(1) Cons.IH)
qed (auto intro!: vcg)

lemma saveRepairs_exact:
  assumes "\<And>d. E d" and "Q () (d\<lparr>st_repairs := st_repairs d @ rs\<rparr>)"
  shows "guarantees (forE rs saveRepairExec) Q E d"
  using assms(2)
proof (induction rs arbitrary: d)
  case (Cons r rs)
  then show ?case by (auto intro!: vcg assms(1) Cons.IH)
qed (auto intro!: vcg)

lemma CreateHandoffIdempotent_contract:
  "guarantees (CreateHandoffIdempotent input) (creation_outcome d input) (\<lambda>d'. d' = d) d"
  unfolding CreateHandoffIdempotent_def Let_def
  by (intro vcg saveWatches_exact saveArtifacts_exact)
    (auto simp: creation_outcome_def creation_of_def find_by_append find_by_upsert split: option.splits)

definition creates_root :: "store \<Rightarrow> CreateHandoffInput \<Rightarrow> CreateHandoffResult \<Rightarrow> store \<Rightarrow> bool" where
  "creates_root d input r d' \<longleftrightarrow>
     (let w = cres_Workflow r; h = cres_Handoff r in
      h = newHandoff (wf_RootHandoffID w) (wf_ID w) (ci_WorkflowKind input) input (h_CreatedAt h)
      \<and> d' = (put_handoff h (put_workflow w d))\<lparr>st_watches := st_watches d @ cres_Watches r\<rparr>
      \<and> length (cres_Watches r) = 3
      \<and> (\<forall>x\<in>set (cres_Watches r). watch_HandoffID x = h_ID h \<and> watch_Status x = ''active''))"

lemma newHandoff_created [simp]: "h_CreatedAt (newHandoff i w k input now) = now"
  by (simp add: newHandoff_def)

lemma guarantees_newRoot_exact:
  assumes "\<And>w i ws. wf_RootHandoffID w = i \<Longrightarrow> length ws = 3 \<Longrightarrow>
     \<forall>x\<in>set ws. watch_HandoffID x = i \<and> watch_Status x = ''active'' \<Longrightarrow>
     Q (w, newHandoff i (wf_ID w) (ci_WorkflowKind input) input now, ws) d"
  shows "guarantees (newRootHandoffCreation input now) Q E d"
  unfolding newRootHandoffCreation_def Let_def
  by (intro vcg) (use assms [of "\<lparr>wf_ID = _, wf_Kind = _, wf_InitiatorActor = _, wf_Status = _,
     wf_RootHandoffID = _, wf_CurrentHandoffID = _, wf_CreatedAt = _, wf_UpdatedAt = _, wf_CompletedAt = _\<rparr>"]
    in simp)

lemma CreateHandoff_contract:
  "guarantees (CreateHandoff input) (creates_root d input) (\<lambda>d'. d' = d) d"
  unfolding CreateHandoff_def
  by (intro guarantees_newRoot_exact saveWatches_exact vcg)
    (auto intro!: vcg saveWatches_exact simp: creates_root_def)

section \<open>Repairs\<close>

lemma guarantees_replay_exact:
  assumes keys: "distinct (map h_ID (st_handoffs d))" and E: "\<And>d. E d"
    and Q: "\<And>h t0 t1 ws. find_by h_ID i (st_handoffs d) = Some h \<Longrightarrow> length ws = 3 \<Longrightarrow>
      \<forall>x\<in>set ws. watch_HandoffID x = i \<and> watch_Status x = ''active'' \<Longrightarrow>
      Q () ((put_handoff (replayedProjection h (replayEvents d i) t0 t1) d)\<lparr>
        st_watches := filter (\<lambda>x. watch_HandoffID x \<noteq> i) (st_watches d) @ ws\<rparr>)"
  shows "guarantees (replayHandoffProjectionTx i) Q E d"
  unfolding replayHandoffProjectionTx_def Let_def
proof (intro vcg E)
  fix h t0 t1
  assume h: "find_by h_ID i (st_handoffs d) = Some h"
  let ?p = "replayedProjection h (replayEvents d i) t0 t1"
  show "guarantees (saveProjectedHandoffTx ?p (h_StateVersion h))
      (\<lambda>_. guarantees (bindE now_op (\<lambda>t2. bindE (CreateDefaultWatches ?p t2) (replaceWatchesExec i))) Q E) E d"
    using find_by_Some [OF h] h keys
    unfolding replaceWatchesExec_def
    by (intro guarantees_saveProjected [where old = h] vcg saveWatches_exact E)
      (simp_all add: replayedProjection_progress Q [OF h])
qed

definition reopened :: "store \<Rightarrow> string \<Rightarrow> store \<Rightarrow> bool" where
  "reopened d i d' \<longleftrightarrow>
     (\<exists>h h'. find_by h_ID i (st_handoffs d) = Some h \<and> isReopenableState (h_State h)
        \<and> find_by h_ID i (st_handoffs d') = Some h' \<and> h_State h' = StateCreated \<and> h_StateVersion h' = 0
        \<and> \<not> h_HasReceived h' \<and> h_ArtifactCount h' = 0 \<and> h_LeaseExpiresAt h' = None
        \<and> same_terms h' h
        \<and> effective d' i = {} \<and> st_accepted d' = st_accepted d
        \<and> length (filter (\<lambda>x. watch_HandoffID x = i) (st_watches d')) = 3)"

lemma replayed_none:
  "h_State (replayedProjection h [] t0 t1) = StateCreated"
  "h_StateVersion (replayedProjection h [] t0 t1) = 0"
  "\<not> h_HasReceived (replayedProjection h [] t0 t1)"
  "h_ArtifactCount (replayedProjection h [] t0 t1) = 0"
  "h_LeaseExpiresAt (replayedProjection h [] t0 t1) = None"
  "h_CurrentOwner (replayedProjection h [] t0 t1) = NoActor"
  "same_terms (replayedProjection h es t0 t1) h"
  unfolding replayedProjection_def replayed_run Let_def
  by (simp_all add: preserveStaticHandoffFields_def replayBase_def same_terms_def)

lemma effective_all_invalid:
  assumes "\<forall>e\<in>set (st_accepted d). ev_HandoffID e = i \<longrightarrow> ev_ID e \<in> set (invalidations d)"
  shows "effective d i = {}" "replayEvents d i = []"
proof -
  show eff: "effective d i = {}" using assms by (auto simp: effective_def)
  show "replayEvents d i = []" using eff set_replayEvents [of d i] by (metis set_empty)
qed

lemma list_all2_map_eq: "list_all2 (\<lambda>i r. f r = i \<and> P r) is rs \<Longrightarrow> map f rs = is \<and> (\<forall>r\<in>set rs. P r)"
  by (induction rule: list_all2_induct) simp_all

lemma reopen_invalidates:
  assumes "list_all2 (\<lambda>i r. repair_InvalidatesID r = i \<and> repair_Action r = ''invalidate_event'') (map ev_ID (event_order (filter (\<lambda>e. ev_HandoffID e = h) (st_accepted d)))) rs"
    and "e \<in> set (st_accepted d)" and "ev_HandoffID e = h"
  shows "ev_ID e \<in> repair_InvalidatesID ` {r \<in> set rs. repair_Action r = ''invalidate_event''}"
proof -
  from list_all2_map_eq [OF assms(1)]
  have ids: "map repair_InvalidatesID rs = map ev_ID (event_order (filter (\<lambda>e. ev_HandoffID e = h) (st_accepted d)))"
    and act: "\<forall>r\<in>set rs. repair_Action r = ''invalidate_event''" by simp_all
  have "ev_ID e \<in> set (map repair_InvalidatesID rs)" using assms(2,3) unfolding ids by simp
  with act show ?thesis by auto
qed

lemma guarantees_invalidations_exact:
  assumes "\<And>rs. list_all2 (\<lambda>i r. repair_InvalidatesID r = i \<and> repair_Action r = ''invalidate_event'') ids rs \<Longrightarrow> Q rs d"
    and "E d"
  shows "guarantees (mapE (invalidationFor why actor) ids) Q E d"
proof (rule guarantees_mapE_rows)
  show "guarantees (invalidationFor why actor x)
      (\<lambda>y d'. d' = d \<and> repair_InvalidatesID y = x \<and> repair_Action y = ''invalidate_event'') (\<lambda>d'. d' = d) d" for x
    unfolding invalidationFor_def by (intro vcg) simp
qed (use assms in auto)

lemma reopened_after:
  assumes h: "find_by h_ID i (st_handoffs d) = Some h" and ok: "isReopenableState (h_State h)"
    and rs: "list_all2 (\<lambda>i r. repair_InvalidatesID r = i \<and> repair_Action r = ''invalidate_event'')
      (map ev_ID (event_order (filter (\<lambda>e. ev_HandoffID e = i) (st_accepted d)))) rs"
    and ws: "length ws = 3" "\<forall>x\<in>set ws. watch_HandoffID x = i \<and> watch_Status x = ''active''"
    and d2: "d2 = d\<lparr>st_repairs := st_repairs d @ q # rs\<rparr>"
  shows "reopened d i ((put_handoff (replayedProjection h (replayEvents d2 i) t0 t1) d2)\<lparr>
        st_watches := filter (\<lambda>x. watch_HandoffID x \<noteq> i) (st_watches d2) @ ws\<rparr>)"
    (is "reopened d i ?d")
proof -
  have id: "h_ID h = i" using find_by_Some [OF h] by simp
  have d2': "st_handoffs d2 = st_handoffs d" using d2 by simp
  have inval: "\<forall>e\<in>set (st_accepted d2). ev_HandoffID e = i \<longrightarrow> ev_ID e \<in> set (invalidations d2)"
    using reopen_invalidates [OF rs] d2 by (auto simp: invalidations_def)
  have none: "replayEvents d2 i = []" using inval by (rule effective_all_invalid)
  have "effective ?d i = effective d2 i" by (auto simp: effective_def invalidations_def)
  with effective_all_invalid(1) [OF inval] have "effective ?d i = {}" by simp
  moreover have "find_by h_ID i (st_handoffs ?d) = Some (replayedProjection h [] t0 t1)"
    using h id by (simp add: none find_by_upsert replayedProjection_progress d2')
  moreover have "filter (\<lambda>x. watch_HandoffID x = i) ws = ws" using ws(2) by (simp add: filter_id_conv)
  ultimately show ?thesis
    unfolding reopened_def
    using h ok d2 ws(1) replayed_none(7) [of h "[]" t0 t1] replayed_none(1-5) [of h t0 t1]
    by (intro exI [of _ h] exI [of _ "replayedProjection h [] t0 t1"]) simp
qed

lemma ReopenHandoff_contract:
  "distinct (map h_ID (st_handoffs d)) \<Longrightarrow>
   guarantees (ReopenHandoff i why actor) (\<lambda>_ d'. reopened d i d') (\<lambda>d'. d' = d) d"
  unfolding ReopenHandoff_def Let_def
  by (intro guarantees_invalidations_exact saveRepairs_exact guarantees_replay_exact vcg)
    (simp_all add: reopened_after [OF _ _ _ _ _ refl, simplified])

definition invalidated :: "store \<Rightarrow> string \<Rightarrow> store \<Rightarrow> bool" where
  "invalidated d i d' \<longleftrightarrow>
     (\<exists>e h h' t0 t1. find_by ev_ID i (st_accepted d) = Some e
        \<and> find_by h_ID (ev_HandoffID e) (st_handoffs d) = Some h
        \<and> effective d' (ev_HandoffID e) = effective d (ev_HandoffID e) - {x. ev_ID x = i}
        \<and> st_accepted d' = st_accepted d
        \<and> h' = replayedProjection h (replayEvents d' (ev_HandoffID e)) t0 t1
        \<and> st_handoffs d' = upsert_by h_ID (\<lambda>_. h') h' (st_handoffs d))"

lemma invalidated_after:
  assumes e: "find_by ev_ID i (st_accepted d) = Some e"
    and h: "find_by h_ID (ev_HandoffID e) (st_handoffs d) = Some h"
    and r: "repair_Action r = ''invalidate_event''" "repair_InvalidatesID r = i"
    and d2: "d2 = d\<lparr>st_repairs := st_repairs d @ [r]\<rparr>"
  shows "invalidated d i ((put_handoff (replayedProjection h (replayEvents d2 (ev_HandoffID e)) t0 t1) d2)\<lparr>
        st_watches := ws\<rparr>)"
    (is "invalidated d i ?d")
proof -
  have "invalidations ?d = invalidations d @ [i]" using r d2 by (simp add: invalidations_def)
  moreover from this have "replayEvents ?d (ev_HandoffID e) = replayEvents d2 (ev_HandoffID e)"
    using d2 by (simp add: replayEvents_def invalidations_def)
  ultimately show ?thesis
    unfolding invalidated_def using e h d2
    by (intro exI [of _ e] exI [of _ h] exI [of _ t0] exI [of _ t1] exI conjI) (auto simp: effective_def)
qed

lemma InvalidateEvent_contract:
  "distinct (map h_ID (st_handoffs d)) \<Longrightarrow>
   guarantees (InvalidateEvent i why actor) (\<lambda>_ d'. invalidated d i d') (\<lambda>d'. d' = d) d"
  unfolding InvalidateEvent_def lookupAcceptedEventHandoffID_def saveDefaultRepairs_def
  by (intro vcg) (auto intro!: guarantees_replay_exact vcg simp: invalidated_after)

end
