(* ===== verification/Orch_Template.thy ===== *)
theory Orch_Template
  imports Orch_Contracts
begin

text \<open>
  \<open>internal/orchestrator/collaboration_template.go\<close>: a template expands into a workflow of three
  handoffs with dependencies, once per idempotency key. The SHA-256 of the JSON payload is the
  parameter \<open>hash\<close>.
\<close>

section \<open>Data\<close>

record CollaborationTemplateDependency =
  td_HandoffRole :: string
  td_DependsOnRole :: string

record CollaborationTemplate =
  ct_Name :: string
  ct_Description :: string
  ct_HandoffCount :: int
  ct_RequiresReview :: bool
  ct_GraphPattern :: string
  ct_Roles :: "string list"
  ct_Dependencies :: "CollaborationTemplateDependency list"
  ct_AcceptanceCriteria :: "string list"
  ct_SafetyBoundaries :: "string list"

record CollaborationTemplateRole =
  role_ReceiverID :: string
  role_ProjectRef :: string

record CollaborationTemplateApplyInput =
  ti_TemplateName :: string
  ti_WorkflowKind :: string
  ti_Intent :: string
  ti_Upstream :: CollaborationTemplateRole
  ti_Downstream :: CollaborationTemplateRole
  ti_Reviewer :: CollaborationTemplateRole
  ti_IdempotencyKey :: string

record CollaborationTemplateApplyResult =
  tres_TemplateName :: string
  tres_Workflow :: Workflow
  tres_Handoffs :: "Handoff list"
  tres_Replayed :: bool

abbreviation CollaborationTemplateUpstreamDownstreamReview :: string where
  "CollaborationTemplateUpstreamDownstreamReview \<equiv> ''upstream_downstream_review''"
abbreviation CollaborationTemplateReviewGate :: string where
  "CollaborationTemplateReviewGate \<equiv> ''review_gate''"
abbreviation CollaborationTemplateFanoutReview :: string where
  "CollaborationTemplateFanoutReview \<equiv> ''fanout_review''"
abbreviation defaultCollaborationTemplateWorkflowKind :: string where
  "defaultCollaborationTemplateWorkflowKind \<equiv> ''multi_project_collaboration''"

definition dependsOn :: "string \<Rightarrow> string \<Rightarrow> CollaborationTemplateDependency" where
  "dependsOn role on = \<lparr>td_HandoffRole = role, td_DependsOnRole = on\<rparr>"

definition templateSafetyBoundaries :: "string list" where
  "templateSafetyBoundaries =
     [''truth-plane-only workflow and handoff creation'',
      ''does not launch workers or runtime sessions'',
      ''does not call sender delivery or Telegram'',
      ''does not accept command, args, local paths, prompts, tokens, session IDs, or job IDs'']"

definition ListCollaborationTemplates :: "CollaborationTemplate list" where
  "ListCollaborationTemplates =
    [\<lparr>ct_Name = CollaborationTemplateUpstreamDownstreamReview,
      ct_Description = ''Create an upstream -> downstream -> reviewer workflow using durable handoffs.'',
      ct_HandoffCount = 3, ct_RequiresReview = True, ct_GraphPattern = ''linear_upstream_downstream_review'',
      ct_Roles = [''upstream'', ''downstream'', ''reviewer''],
      ct_Dependencies = [dependsOn ''downstream'' ''upstream'', dependsOn ''reviewer'' ''downstream''],
      ct_AcceptanceCriteria =
        [''creates one workflow with upstream, downstream, and reviewer handoffs'',
         ''downstream is blocked until upstream completes'',
         ''reviewer is blocked until downstream completes'',
         ''all handoffs are required for workflow completion'',
         ''default watches are created for each handoff''],
      ct_SafetyBoundaries = templateSafetyBoundaries\<rparr>,
     \<lparr>ct_Name = CollaborationTemplateReviewGate,
      ct_Description = ''Create an upstream -> reviewer gate -> downstream workflow using durable handoffs.'',
      ct_HandoffCount = 3, ct_RequiresReview = True, ct_GraphPattern = ''review_gate'',
      ct_Roles = [''upstream'', ''reviewer'', ''downstream''],
      ct_Dependencies = [dependsOn ''reviewer'' ''upstream'', dependsOn ''downstream'' ''reviewer''],
      ct_AcceptanceCriteria =
        [''creates one workflow with upstream, reviewer, and downstream handoffs'',
         ''reviewer is blocked until upstream completes'',
         ''downstream is blocked until reviewer completes'',
         ''all handoffs are required for workflow completion'',
         ''default watches are created for each handoff''],
      ct_SafetyBoundaries = templateSafetyBoundaries\<rparr>,
     \<lparr>ct_Name = CollaborationTemplateFanoutReview,
      ct_Description = ''Create an upstream fanout to downstream and reviewer using durable handoffs.'',
      ct_HandoffCount = 3, ct_RequiresReview = True, ct_GraphPattern = ''fanout_review'',
      ct_Roles = [''upstream'', ''downstream'', ''reviewer''],
      ct_Dependencies = [dependsOn ''downstream'' ''upstream'', dependsOn ''reviewer'' ''upstream''],
      ct_AcceptanceCriteria =
        [''creates one workflow with upstream, downstream, and reviewer handoffs'',
         ''downstream is blocked until upstream completes'',
         ''reviewer is blocked until upstream completes'',
         ''downstream and reviewer become available independently after upstream completes'',
         ''all handoffs are required for workflow completion'',
         ''default watches are created for each handoff''],
      ct_SafetyBoundaries = templateSafetyBoundaries\<rparr>]"

section \<open>Input\<close>

definition trimCollaborationTemplateRole :: "CollaborationTemplateRole \<Rightarrow> CollaborationTemplateRole" where
  "trimCollaborationTemplateRole role = \<lparr>role_ReceiverID = trimSpace (role_ReceiverID role),
     role_ProjectRef = trimSpace (role_ProjectRef role)\<rparr>"

definition trimCollaborationTemplateApplyInput ::
  "CollaborationTemplateApplyInput \<Rightarrow> CollaborationTemplateApplyInput" where
  "trimCollaborationTemplateApplyInput input = \<lparr>ti_TemplateName = trimSpace (ti_TemplateName input),
     ti_WorkflowKind = trimSpace (ti_WorkflowKind input), ti_Intent = trimSpace (ti_Intent input),
     ti_Upstream = trimCollaborationTemplateRole (ti_Upstream input),
     ti_Downstream = trimCollaborationTemplateRole (ti_Downstream input),
     ti_Reviewer = trimCollaborationTemplateRole (ti_Reviewer input),
     ti_IdempotencyKey = trimSpace (ti_IdempotencyKey input)\<rparr>"

definition collaborationRoleIDChar :: "char \<Rightarrow> bool" where
  "collaborationRoleIDChar c = (let b = byte_val c in
     97 \<le> b \<and> b \<le> 122 \<or> 65 \<le> b \<and> b \<le> 90 \<or> 48 \<le> b \<and> b \<le> 57 \<or> b = 95 \<or> b = 45 \<or> b = 46)"

definition collaborationProjectRefChar :: "char \<Rightarrow> bool" where
  "collaborationProjectRefChar c = (let b = byte_val c in
     97 \<le> b \<and> b \<le> 122 \<or> 65 \<le> b \<and> b \<le> 90 \<or> 48 \<le> b \<and> b \<le> 57 \<or> b = 95 \<or> b = 45 \<or> b = 46)"

definition unsafeCollaborationRoleID :: "string \<Rightarrow> bool" where
  "unsafeCollaborationRoleID i = list_ex (\<lambda>c. \<not> collaborationRoleIDChar c) i"

definition unsafeCollaborationProjectRef :: "string \<Rightarrow> bool" where
  "unsafeCollaborationProjectRef projectRef =
     (if \<not> hasPrefix projectRef ''project://'' \<or> length projectRef = length ''project://'' then True
      else let remainder = trimPrefix projectRef ''project://'' in
        if hasPrefix remainder ''/'' \<or> hasPrefix remainder ''~'' \<or> hasPrefix remainder ''.'' then True
        else list_ex (\<lambda>segment. segment = [] \<or> segment = ''.'' \<or> segment = ''..''
               \<or> list_ex (\<lambda>c. \<not> collaborationProjectRefChar c) segment) (splitOn (CHR ''/'') remainder))"

definition validateCollaborationTemplateRole :: "string \<Rightarrow> CollaborationTemplateRole \<Rightarrow> error option" where
  "validateCollaborationTemplateRole name role =
     (if role_ReceiverID role = [] then Some (ErrorText (name @ '' receiver_id is required''))
      else if unsafeCollaborationRoleID (role_ReceiverID role)
        then Some (ErrorText (name @ '' receiver_id contains unsafe characters''))
      else if role_ProjectRef role = [] then Some (ErrorText (name @ '' project_ref is required''))
      else if unsafeCollaborationProjectRef (role_ProjectRef role)
        then Some (ErrorText (name @ '' project_ref must use project:// and avoid local path syntax''))
      else None)"

section \<open>Building the records\<close>

definition templateRoleReceiver :: "CollaborationTemplateRole \<Rightarrow> ActorRef" where
  "templateRoleReceiver role = ActorOf ActorAgent (role_ReceiverID role)"

definition templateRoleDeliveryTarget :: "CollaborationTemplateRole \<Rightarrow> string" where
  "templateRoleDeliveryTarget role = ''agent:'' @ role_ReceiverID role"

text \<open>Root and appended handoffs share the fields of \<open>newHandoff\<close>.\<close>

definition templateInput ::
  "string \<Rightarrow> string \<Rightarrow> ActorRef \<Rightarrow> CollaborationTemplateRole \<Rightarrow> string list \<Rightarrow> CreateHandoffInput" where
  "templateInput kind intent sender role deps = \<lparr>ci_WorkflowKind = kind, ci_Sender = sender,
     ci_Receiver = templateRoleReceiver role, ci_Reviewer = NoActor, ci_TaskKind = TaskGeneric,
     ci_Intent = intent, ci_ParentHandoffID = None, ci_DependsOnHandoffIDs = deps,
     ci_RequiredForWorkflowCompletion = True, ci_ArtifactPolicy = NoArtifactPolicy, ci_NeedsReview = False,
     ci_PayloadRef = role_ProjectRef role, ci_DeliveryTargetRef = []\<rparr>"

definition rootInput :: "CollaborationTemplateApplyInput \<Rightarrow> CreateHandoffInput" where
  "rootInput input = templateInput (ti_WorkflowKind input) (ti_Intent input)
     (ActorOf ActorSystem ''clawside-template'') (ti_Upstream input) []"

definition newTemplateAppendHandoff ::
  "Workflow \<Rightarrow> ActorRef \<Rightarrow> CollaborationTemplateRole \<Rightarrow> string \<Rightarrow> string list \<Rightarrow> time \<Rightarrow> ('db, Handoff) op" where
  "newTemplateAppendHandoff workflow sender role intent dependencies now =
     bindE (NewID ''hf'') (\<lambda>i. ret (newHandoff i (wf_ID workflow) (wf_Kind workflow)
       (templateInput (wf_Kind workflow) intent sender role dependencies) now))"

type_synonym template_records = "Workflow \<times> Handoff list \<times> Watch list list"

type_synonym 'db builder = "CollaborationTemplateApplyInput \<Rightarrow> time \<Rightarrow> ('db, template_records) op"

text \<open>The two appended handoffs, \<open>second\<close> made before \<open>third\<close>, and the watches after both.\<close>

definition templateRecords ::
  "time \<Rightarrow> Workflow \<Rightarrow> Handoff \<Rightarrow> Watch list \<Rightarrow> Handoff \<Rightarrow> Handoff \<Rightarrow> ('db, template_records) op" where
  "templateRecords now workflow root rootWatches middle final =
     bindE (CreateDefaultWatches middle now) (\<lambda>middleWatches.
     bindE (CreateDefaultWatches final now) (\<lambda>finalWatches.
     ret (workflow\<lparr>wf_CurrentHandoffID := h_ID final, wf_UpdatedAt := now\<rparr>,
          [root, middle, final], [rootWatches, middleWatches, finalWatches])))"

definition buildUpstreamDownstreamReviewTemplate :: "'db builder" where
  "buildUpstreamDownstreamReviewTemplate input now =
     bindE (newRootHandoffCreation (rootInput input) now) (\<lambda>(workflow, upstream, upstreamWatches).
     bindE (newTemplateAppendHandoff workflow (h_ReceiverActor upstream) (ti_Downstream input)
       (ti_Intent input) [h_ID upstream] now) (\<lambda>downstream.
     bindE (newTemplateAppendHandoff workflow (h_ReceiverActor downstream) (ti_Reviewer input)
       (ti_Intent input) [h_ID downstream] now) (\<lambda>reviewer.
     templateRecords now workflow upstream upstreamWatches downstream reviewer)))"

definition buildReviewGateTemplate :: "'db builder" where
  "buildReviewGateTemplate input now =
     bindE (newRootHandoffCreation (rootInput input) now) (\<lambda>(workflow, upstream, upstreamWatches).
     bindE (newTemplateAppendHandoff workflow (h_ReceiverActor upstream) (ti_Reviewer input)
       (ti_Intent input) [h_ID upstream] now) (\<lambda>reviewer.
     bindE (newTemplateAppendHandoff workflow (h_ReceiverActor reviewer) (ti_Downstream input)
       (ti_Intent input) [h_ID reviewer] now) (\<lambda>downstream.
     templateRecords now workflow upstream upstreamWatches reviewer downstream)))"

definition buildFanoutReviewTemplate :: "'db builder" where
  "buildFanoutReviewTemplate input now =
     bindE (newRootHandoffCreation (rootInput input) now) (\<lambda>(workflow, upstream, upstreamWatches).
     bindE (newTemplateAppendHandoff workflow (h_ReceiverActor upstream) (ti_Downstream input)
       (ti_Intent input) [h_ID upstream] now) (\<lambda>downstream.
     bindE (newTemplateAppendHandoff workflow (h_ReceiverActor upstream) (ti_Reviewer input)
       (ti_Intent input) [h_ID upstream] now) (\<lambda>reviewer.
     templateRecords now workflow upstream upstreamWatches downstream reviewer)))"

definition collaborationTemplateBuilder :: "string \<Rightarrow> error + 'db builder" where
  "collaborationTemplateBuilder name =
     (if name = CollaborationTemplateUpstreamDownstreamReview then Inr buildUpstreamDownstreamReviewTemplate
      else if name = CollaborationTemplateReviewGate then Inr buildReviewGateTemplate
      else if name = CollaborationTemplateFanoutReview then Inr buildFanoutReviewTemplate
      else Inl (ErrorText (''unknown collaboration template '' @ [byte_of 34] @ name @ [byte_of 34])))"

section \<open>Storing them\<close>

definition saveCollaborationTemplateRecordsExec :: "template_records \<Rightarrow> unit sop" where
  "saveCollaborationTemplateRecordsExec = (\<lambda>(workflow, handoffs, watches).
     bindE (saveWorkflowExec workflow) (\<lambda>_.
     forE (zip handoffs watches) (\<lambda>(handoff, ws).
       bindE (saveHandoffExec handoff) (\<lambda>_. forE ws saveWatchExec))))"

definition collaborationTemplateHandoffIDs :: "Handoff list \<Rightarrow> string list" where
  "collaborationTemplateHandoffIDs handoffs = map h_ID handoffs"

definition loadCollaborationTemplateApplicationResultTx ::
  "collaborationTemplateApplicationRecord \<Rightarrow> (Workflow \<times> Handoff list) sop" where
  "loadCollaborationTemplateApplicationResultTx record =
     bindE (loadWorkflowTx (ta_WorkflowID record)) (\<lambda>workflow.
     bindE (mapE loadHandoffTx (ta_HandoffIDs record)) (\<lambda>handoffs. ret (workflow, handoffs)))"

definition createCollaborationTemplateRecords ::
  "CollaborationTemplateApplyInput \<Rightarrow> store builder \<Rightarrow> (Workflow \<times> Handoff list) sop" where
  "createCollaborationTemplateRecords input buildTemplate =
     bindE now_op (\<lambda>now.
     bindE (buildTemplate input now) (\<lambda>(workflow, handoffs, watches).
     in_tx ''begin collaboration template tx'' ''commit collaboration template tx''
       (bindE (saveCollaborationTemplateRecordsExec (workflow, handoffs, watches)) (\<lambda>_.
        ret (workflow, handoffs)))))"

definition createUpstreamDownstreamReviewTemplate ::
  "CollaborationTemplateApplyInput \<Rightarrow> (Workflow \<times> Handoff list) sop" where
  "createUpstreamDownstreamReviewTemplate input =
     createCollaborationTemplateRecords input buildUpstreamDownstreamReviewTemplate"

definition createReviewGateTemplate ::
  "CollaborationTemplateApplyInput \<Rightarrow> (Workflow \<times> Handoff list) sop" where
  "createReviewGateTemplate input = createCollaborationTemplateRecords input buildReviewGateTemplate"

definition createFanoutReviewTemplate ::
  "CollaborationTemplateApplyInput \<Rightarrow> (Workflow \<times> Handoff list) sop" where
  "createFanoutReviewTemplate input = createCollaborationTemplateRecords input buildFanoutReviewTemplate"

text \<open>The checks before the transaction: the trimmed input and its builder, or the first error.\<close>

definition checkTemplateInput ::
  "CollaborationTemplateApplyInput \<Rightarrow> error + (CollaborationTemplateApplyInput \<times> 'db builder)" where
  "checkTemplateInput raw =
     (let trimmed = trimCollaborationTemplateApplyInput raw in
      case collaborationTemplateBuilder (ti_TemplateName trimmed) of
        Inl e \<Rightarrow> Inl e
      | Inr buildTemplate \<Rightarrow>
          let input = (if ti_WorkflowKind trimmed = []
                then trimmed\<lparr>ti_WorkflowKind := defaultCollaborationTemplateWorkflowKind\<rparr> else trimmed) in
          if ti_Intent input = [] then Inl (ErrorText ''intent is required'')
          else case validateCollaborationTemplateRole ''upstream'' (ti_Upstream input) of
            Some e \<Rightarrow> Inl e
          | None \<Rightarrow> case validateCollaborationTemplateRole ''downstream'' (ti_Downstream input) of
            Some e \<Rightarrow> Inl e
          | None \<Rightarrow> case validateCollaborationTemplateRole ''reviewer'' (ti_Reviewer input) of
            Some e \<Rightarrow> Inl e
          | None \<Rightarrow> Inr (input, buildTemplate))"

definition collaborationTemplateApplyPayloadHash ::
  "(CollaborationTemplateApplyInput \<Rightarrow> string) \<Rightarrow> CollaborationTemplateApplyInput \<Rightarrow> string" where
  "collaborationTemplateApplyPayloadHash hash input = hash (input\<lparr>ti_IdempotencyKey := []\<rparr>)"

text \<open>Building and saving, the part after the idempotency lookup.\<close>

definition applyFreshTemplate ::
  "CollaborationTemplateApplyInput \<Rightarrow> store builder \<Rightarrow> string \<Rightarrow> time \<Rightarrow> CollaborationTemplateApplyResult sop" where
  "applyFreshTemplate input buildTemplate payloadHash now =
     bindE (buildTemplate input now) (\<lambda>(workflow, handoffs, watches).
     bindE (saveCollaborationTemplateRecordsExec (workflow, handoffs, watches)) (\<lambda>_.
     bindE (if ti_IdempotencyKey input \<noteq> [] then saveCollaborationTemplateApplicationExec
              \<lparr>ta_IdempotencyKey = ti_IdempotencyKey input, ta_PayloadHash = payloadHash,
               ta_TemplateName = ti_TemplateName input, ta_WorkflowID = wf_ID workflow,
               ta_HandoffIDs = collaborationTemplateHandoffIDs handoffs, ta_CreatedAt = now\<rparr>
            else ret ()) (\<lambda>_.
     ret \<lparr>tres_TemplateName = ti_TemplateName input, tres_Workflow = workflow, tres_Handoffs = handoffs,
          tres_Replayed = False\<rparr>)))"

definition ApplyCollaborationTemplate ::
  "(CollaborationTemplateApplyInput \<Rightarrow> string) \<Rightarrow> CollaborationTemplateApplyInput \<Rightarrow>
   CollaborationTemplateApplyResult sop" where
  "ApplyCollaborationTemplate hash raw =
     (case checkTemplateInput raw of
        Inl e \<Rightarrow> throw e
      | Inr (input, buildTemplate) \<Rightarrow>
        (let payloadHash = (if ti_IdempotencyKey input \<noteq> []
               then collaborationTemplateApplyPayloadHash hash input else []) in
        bindE now_op (\<lambda>now.
        in_tx_early ''begin collaboration template tx'' ''commit collaboration template tx''
          (bindE (if ti_IdempotencyKey input \<noteq> []
                  then loadCollaborationTemplateApplicationTx (ti_IdempotencyKey input) else ret None) (\<lambda>found.
           case found of
             Some record \<Rightarrow>
               if ta_PayloadHash record \<noteq> payloadHash then throw ErrIdempotencyConflict
               else bindE (loadCollaborationTemplateApplicationResultTx record) (\<lambda>(workflow, handoffs).
                 ret (Inl \<lparr>tres_TemplateName = ta_TemplateName record, tres_Workflow = workflow,
                           tres_Handoffs = handoffs, tres_Replayed = True\<rparr>))
           | None \<Rightarrow>
               bindE (applyFreshTemplate input buildTemplate payloadHash now) (\<lambda>r. ret (Inr r)))))))"


section \<open>The builders follow the catalogue\<close>

text \<open>
  \<open>matchesCatalogue t\<close> reads the records a template creates off its catalogue entry: one handoff
  per role, in the order of \<open>ct_Roles\<close>, depending on the handoffs of the roles its dependencies
  name and sent by the receiver of the first of them (the root: by the template system actor).
\<close>

definition templateRole :: "CollaborationTemplateApplyInput \<Rightarrow> string \<Rightarrow> CollaborationTemplateRole" where
  "templateRole input role =
     (if role = ''upstream'' then ti_Upstream input
      else if role = ''downstream'' then ti_Downstream input else ti_Reviewer input)"

definition roleDependencies :: "CollaborationTemplate \<Rightarrow> string \<Rightarrow> string list" where
  "roleDependencies t role =
     map td_DependsOnRole (filter (\<lambda>dep. td_HandoffRole dep = role) (ct_Dependencies t))"

definition roleHandoffID :: "CollaborationTemplate \<Rightarrow> Handoff list \<Rightarrow> string \<Rightarrow> string" where
  "roleHandoffID t handoffs role =
     (case map_of (zip (ct_Roles t) (map h_ID handoffs)) role of Some i \<Rightarrow> i | None \<Rightarrow> [])"

definition catalogueHandoff ::
  "CollaborationTemplate \<Rightarrow> CollaborationTemplateApplyInput \<Rightarrow> time \<Rightarrow> string \<Rightarrow> Handoff list \<Rightarrow> string \<Rightarrow> Handoff" where
  "catalogueHandoff t input now workflowID handoffs role =
     (let deps = roleDependencies t role;
          sender = (case deps of [] \<Rightarrow> ActorOf ActorSystem ''clawside-template''
                    | dep # _ \<Rightarrow> templateRoleReceiver (templateRole input dep)) in
      newHandoff (roleHandoffID t handoffs role) workflowID (ti_WorkflowKind input)
        (templateInput (ti_WorkflowKind input) (ti_Intent input) sender (templateRole input role)
          (map (roleHandoffID t handoffs) deps)) now)"

definition watchedBy :: "Handoff \<Rightarrow> Watch list \<Rightarrow> bool" where
  "watchedBy h ws \<longleftrightarrow> length ws = 3 \<and> (\<forall>w\<in>set ws. watch_HandoffID w = h_ID h \<and> watch_Status w = ''active'')"

definition matchesCatalogue ::
  "CollaborationTemplate \<Rightarrow> CollaborationTemplateApplyInput \<Rightarrow> time \<Rightarrow> template_records \<Rightarrow> bool" where
  "matchesCatalogue t input now = (\<lambda>(workflow, handoffs, watches).
     handoffs = map (catalogueHandoff t input now (wf_ID workflow) handoffs) (ct_Roles t)
     \<and> int (length handoffs) = ct_HandoffCount t \<and> list_all2 watchedBy handoffs watches
     \<and> workflow = \<lparr>wf_ID = wf_ID workflow, wf_Kind = ti_WorkflowKind input,
         wf_InitiatorActor = ActorOf ActorSystem ''clawside-template'', wf_Status = WorkflowActive,
         wf_RootHandoffID = h_ID (hd handoffs), wf_CurrentHandoffID = h_ID (last handoffs),
         wf_CreatedAt = now, wf_UpdatedAt = now, wf_CompletedAt = None\<rparr>)"

lemmas builder_defs = buildUpstreamDownstreamReviewTemplate_def buildReviewGateTemplate_def
  buildFanoutReviewTemplate_def templateRecords_def newTemplateAppendHandoff_def

lemma guarantees_newRoot_fields:
  assumes "\<And>wid hid ws. watchedBy (newHandoff hid wid (ci_WorkflowKind input) input now) ws \<Longrightarrow>
     Q (\<lparr>wf_ID = wid, wf_Kind = ci_WorkflowKind input, wf_InitiatorActor = ci_Sender input,
          wf_Status = WorkflowActive, wf_RootHandoffID = hid, wf_CurrentHandoffID = hid,
          wf_CreatedAt = now, wf_UpdatedAt = now, wf_CompletedAt = None\<rparr>,
        newHandoff hid wid (ci_WorkflowKind input) input now, ws) d"
  shows "guarantees (newRootHandoffCreation input now) Q E d"
  unfolding newRootHandoffCreation_def Let_def
  by (intro vcg) (rule assms, simp add: watchedBy_def)

lemma newHandoff_receiver [simp]: "h_ReceiverActor (newHandoff i w k input now) = ci_Receiver input"
  by (simp add: newHandoff_def)

lemma templateInput_fields [simp]:
  "ci_WorkflowKind (templateInput k i s r deps) = k" "ci_Receiver (templateInput k i s r deps) = templateRoleReceiver r"
  "ci_Sender (templateInput k i s r deps) = s"
  by (simp_all add: templateInput_def)

lemma rootInput_fields [simp]:
  "ci_WorkflowKind (rootInput input) = ti_WorkflowKind input"
  "ci_Receiver (rootInput input) = templateRoleReceiver (ti_Upstream input)"
  "ci_Sender (rootInput input) = ActorOf ActorSystem ''clawside-template''"
  by (simp_all add: rootInput_def)

lemmas catalogue_simps = matchesCatalogue_def catalogueHandoff_def roleDependencies_def roleHandoffID_def
  templateRole_def dependsOn_def rootInput_def watchedBy_def

lemma roles_distinct [simp]:
  "''upstream'' \<noteq> ''downstream''" "''upstream'' \<noteq> ''reviewer''" "''downstream'' \<noteq> ''reviewer''"
  "''downstream'' \<noteq> ''upstream''" "''reviewer'' \<noteq> ''upstream''" "''reviewer'' \<noteq> ''downstream''"
  by simp_all

lemmas catalogue_entries = ListCollaborationTemplates_def catalogue_simps

lemma guarantees_linear:
  assumes "\<And>records. matchesCatalogue (ListCollaborationTemplates ! 0) input now records \<Longrightarrow> Q records d"
  shows "guarantees (buildUpstreamDownstreamReviewTemplate input now) Q E d"
  unfolding builder_defs
  by (rule guarantees_bindE, rule guarantees_newRoot_fields, simp only: prod.case, intro vcg, rule assms)
    (simp add: catalogue_entries)

lemma guarantees_gate:
  assumes "\<And>records. matchesCatalogue (ListCollaborationTemplates ! 1) input now records \<Longrightarrow> Q records d"
  shows "guarantees (buildReviewGateTemplate input now) Q E d"
  unfolding builder_defs
  by (rule guarantees_bindE, rule guarantees_newRoot_fields, simp only: prod.case, intro vcg, rule assms)
    (simp add: catalogue_entries)

lemma guarantees_fanout:
  assumes "\<And>records. matchesCatalogue (ListCollaborationTemplates ! 2) input now records \<Longrightarrow> Q records d"
  shows "guarantees (buildFanoutReviewTemplate input now) Q E d"
  unfolding builder_defs
  by (rule guarantees_bindE, rule guarantees_newRoot_fields, simp only: prod.case, intro vcg, rule assms)
    (simp add: catalogue_entries)

lemma guarantees_builder:
  assumes "t \<in> set ListCollaborationTemplates" and "collaborationTemplateBuilder (ct_Name t) = Inr builder"
    and "\<And>records. matchesCatalogue t input now records \<Longrightarrow> Q records d"
  shows "guarantees (builder input now) Q E d"
proof -
  consider "t = ListCollaborationTemplates ! 0" "builder = buildUpstreamDownstreamReviewTemplate"
    | "t = ListCollaborationTemplates ! 1" "builder = buildReviewGateTemplate"
    | "t = ListCollaborationTemplates ! 2" "builder = buildFanoutReviewTemplate"
    using assms(1,2) by (auto simp: ListCollaborationTemplates_def collaborationTemplateBuilder_def)
  then show ?thesis
    by cases (use assms(3) in \<open>auto intro: guarantees_linear guarantees_gate guarantees_fanout\<close>)
qed

lemma builder_listed:
  "collaborationTemplateBuilder name = Inr builder \<Longrightarrow> \<exists>t\<in>set ListCollaborationTemplates. ct_Name t = name"
  by (auto simp: collaborationTemplateBuilder_def ListCollaborationTemplates_def split: if_splits)

lemma checkTemplateInput_builder:
  "checkTemplateInput raw = Inr (input, builder) \<Longrightarrow> collaborationTemplateBuilder (ti_TemplateName input) = Inr builder"
  by (auto simp: checkTemplateInput_def Let_def split: sum.splits option.splits if_splits)

section \<open>Applying a template\<close>

lemma guarantees_loadApplication [vcg]:
  "E d \<Longrightarrow> Q (application_of d k) d \<Longrightarrow> guarantees (loadCollaborationTemplateApplicationTx k) Q E d"
  unfolding loadCollaborationTemplateApplicationTx_def application_of_def by (intro vcg)

lemma guarantees_saveApplication [vcg]:
  assumes "E d"
    and "ta_IdempotencyKey r \<notin> ta_IdempotencyKey ` set (st_applications d) \<Longrightarrow> has_workflow d (ta_WorkflowID r) \<Longrightarrow>
      Q () (d\<lparr>st_applications := st_applications d @ [r]\<rparr>)"
  shows "guarantees (saveCollaborationTemplateApplicationExec r) Q E d"
  unfolding saveCollaborationTemplateApplicationExec_def using assms
  by (intro vcg) (auto simp: UNIQUE_def REFERENCES_def split: if_splits)

lemma guarantees_loadApplied [vcg]:
  assumes "E d"
    and "\<And>w hs. find_by wf_ID (ta_WorkflowID r) (st_workflows d) = Some w \<Longrightarrow>
      list_all2 (\<lambda>i h. find_by h_ID i (st_handoffs d) = Some h) (ta_HandoffIDs r) hs \<Longrightarrow> Q (w, hs) d"
  shows "guarantees (loadCollaborationTemplateApplicationResultTx r) Q E d"
  unfolding loadCollaborationTemplateApplicationResultTx_def
  by (intro vcg guarantees_mapE_rows [where P = "\<lambda>i h. find_by h_ID i (st_handoffs d) = Some h"])
    (use assms in \<open>auto intro!: vcg\<close>)

text \<open>What saving the records does to the database.\<close>

definition store_template :: "template_records \<Rightarrow> store \<Rightarrow> store" where
  "store_template = (\<lambda>(workflow, handoffs, watches) d.
     foldl (\<lambda>d (h, ws). (put_handoff h d)\<lparr>st_watches := st_watches d @ ws\<rparr>)
       (put_workflow workflow d) (zip handoffs watches))"

lemma saveRecords_exact:
  assumes "\<And>d. E d" and "Q () (store_template records d)"
  shows "guarantees (saveCollaborationTemplateRecordsExec records) Q E d"
proof -
  have loop: "guarantees (forE rows (\<lambda>(h, ws). bindE (saveHandoffExec h) (\<lambda>_. forE ws saveWatchExec))) Q E d"
    if "Q () (foldl (\<lambda>d (h, ws). (put_handoff h d)\<lparr>st_watches := st_watches d @ ws\<rparr>) d rows)" for rows d
    using that
  proof (induction rows arbitrary: d)
    case (Cons r rows)
    then show ?case
      by (cases r) (auto intro!: vcg saveWatches_exact assms(1) Cons.IH)
  qed (auto intro!: vcg)
  show ?thesis
    unfolding saveCollaborationTemplateRecordsExec_def
    by (cases records) (use assms in \<open>auto simp: store_template_def intro!: vcg loop\<close>)
qed

lemma saveRecords_safe:
  assumes "\<And>d. E d" and "inv_but {} d" and "matchesCatalogue t input now (workflow, handoffs, watches)"
    and "\<And>d. inv_but {} d \<Longrightarrow> Q () d"
  shows "guarantees (saveCollaborationTemplateRecordsExec (workflow, handoffs, watches)) Q E d"
proof -
  let ?I = "\<lambda>d. inv_but {} d \<and> has_workflow d (wf_ID workflow)"
  have fresh: "\<exists>i k inp. h = newHandoff i (wf_ID workflow) k inp now" if "(h, ws) \<in> set (zip handoffs watches)" for h ws
  proof -
    have "h \<in> set (map (catalogueHandoff t input now (wf_ID workflow) handoffs) (ct_Roles t))"
      using set_zip_leftD [OF that] assms(3) by (simp add: matchesCatalogue_def)
    then show ?thesis by (auto simp: catalogueHandoff_def Let_def)
  qed
  have "guarantees (forE (zip handoffs watches)
      (\<lambda>(h, ws). bindE (saveHandoffExec h) (\<lambda>_. forE ws saveWatchExec))) Q E (put_workflow workflow d)"
  proof (rule guarantees_forE [where I = ?I])
    show "?I (put_workflow workflow d)" using assms(2) by (simp add: inv_put_workflow)
  next
    fix x d'
    assume "x \<in> set (zip handoffs watches)" "?I d'"
    then show "guarantees (case x of (h, ws) \<Rightarrow> bindE (saveHandoffExec h) (\<lambda>_. forE ws saveWatchExec)) (\<lambda>_. ?I) E d'"
      using inv_put_handoff [of "{}" d' "fst x"]
      by (auto simp: has_workflow_def newHandoff_backed dest!: fresh
        intro!: vcg guarantees_saveWatches [where X = "{}"] assms(1))
  qed (use assms(4) in auto)
  then show ?thesis
    unfolding saveCollaborationTemplateRecordsExec_def by (auto intro!: vcg assms(1))
qed

text \<open>
  A successful application: a replay returns what the recorded application created and leaves
  the database alone; a first application stores exactly the catalogue's records, and the
  application itself when it has a key.
\<close>

definition applied_fresh ::
  "store \<Rightarrow> CollaborationTemplateApplyInput \<Rightarrow> string \<Rightarrow> CollaborationTemplateApplyResult \<Rightarrow> store \<Rightarrow> bool" where
  "applied_fresh d input payloadHash res d' \<longleftrightarrow>
     (\<exists>t\<in>set ListCollaborationTemplates. \<exists>now watches.
        let records = (tres_Workflow res, tres_Handoffs res, watches) in
        ct_Name t = ti_TemplateName input \<and> matchesCatalogue t input now records
        \<and> d' = (if ti_IdempotencyKey input = [] then store_template records d
                else (store_template records d)\<lparr>st_applications := st_applications d @
                  [\<lparr>ta_IdempotencyKey = ti_IdempotencyKey input, ta_PayloadHash = payloadHash,
                    ta_TemplateName = ti_TemplateName input, ta_WorkflowID = wf_ID (tres_Workflow res),
                    ta_HandoffIDs = map h_ID (tres_Handoffs res), ta_CreatedAt = now\<rparr>]\<rparr>))"

definition applied_before ::
  "store \<Rightarrow> collaborationTemplateApplicationRecord \<Rightarrow> CollaborationTemplateApplyResult \<Rightarrow> bool" where
  "applied_before d r res \<longleftrightarrow>
     tres_TemplateName res = ta_TemplateName r
     \<and> find_by wf_ID (ta_WorkflowID r) (st_workflows d) = Some (tres_Workflow res)
     \<and> list_all2 (\<lambda>i h. find_by h_ID i (st_handoffs d) = Some h) (ta_HandoffIDs r) (tres_Handoffs res)"

definition payload_of :: "(CollaborationTemplateApplyInput \<Rightarrow> string) \<Rightarrow> CollaborationTemplateApplyInput \<Rightarrow> string" where
  "payload_of hash input =
     (if ti_IdempotencyKey input \<noteq> [] then collaborationTemplateApplyPayloadHash hash input else [])"

definition previous_application ::
  "store \<Rightarrow> CollaborationTemplateApplyInput \<Rightarrow> collaborationTemplateApplicationRecord option" where
  "previous_application d input =
     (if ti_IdempotencyKey input = [] then None else application_of d (ti_IdempotencyKey input))"

definition template_outcome ::
  "(CollaborationTemplateApplyInput \<Rightarrow> string) \<Rightarrow> CollaborationTemplateApplyInput \<Rightarrow> store \<Rightarrow>
   CollaborationTemplateApplyResult \<Rightarrow> store \<Rightarrow> bool" where
  "template_outcome hash input d res d' \<longleftrightarrow>
     (case previous_application d input of
        Some r \<Rightarrow> tres_Replayed res \<and> ta_PayloadHash r = payload_of hash input \<and> applied_before d r res \<and> d' = d
      | None \<Rightarrow> \<not> tres_Replayed res \<and> tres_TemplateName res = ti_TemplateName input
          \<and> applied_fresh d input (payload_of hash input) res d')"

lemma store_template_frame [simp]:
  "st_applications (store_template records d) = st_applications d"
  "st_accepted (store_template records d) = st_accepted d"
  "st_attempts (store_template records d) = st_attempts d"
proof -
  let ?f = "\<lambda>d (h, ws). (put_handoff h d)\<lparr>st_watches := st_watches d @ ws\<rparr>"
  have "st_applications (foldl ?f e rows) = st_applications e \<and> st_accepted (foldl ?f e rows) = st_accepted e
      \<and> st_attempts (foldl ?f e rows) = st_attempts e" for e rows
    by (induction rows arbitrary: e) (auto simp: put_handoff_def put_binding_def)
  then show "st_applications (store_template records d) = st_applications d"
    "st_accepted (store_template records d) = st_accepted d"
    "st_attempts (store_template records d) = st_attempts d"
    by (simp_all add: store_template_def put_workflow_def split: prod.split)
qed

lemma applyFresh_contract:
  assumes "collaborationTemplateBuilder (ti_TemplateName input) = Inr builder"
  shows "guarantees (applyFreshTemplate input builder p now)
    (\<lambda>res d'. \<not> tres_Replayed res \<and> tres_TemplateName res = ti_TemplateName input \<and> applied_fresh d input p res d')
    (\<lambda>_. True) d"
proof -
  obtain t where t: "t \<in> set ListCollaborationTemplates" "ct_Name t = ti_TemplateName input"
    using builder_listed [OF assms] by blast
  show ?thesis
    unfolding applyFreshTemplate_def using t assms
    by (intro vcg guarantees_builder [where t = t] saveRecords_exact)
       (auto simp: applied_fresh_def Let_def collaborationTemplateHandoffIDs_def intro!: vcg saveRecords_exact)
qed

lemma applyTemplate_contract:
  assumes "checkTemplateInput raw = Inr (input, builder :: store builder)"
  shows "guarantees (ApplyCollaborationTemplate hash raw) (template_outcome hash input d) (\<lambda>d'. d' = d) d"
  unfolding ApplyCollaborationTemplate_def using assms checkTemplateInput_builder [OF assms]
  by (auto simp: Let_def template_outcome_def previous_application_def payload_of_def applied_before_def
    intro!: vcg guarantees_mono [OF applyFresh_contract])

lemma apply_outcome:
  assumes "checkTemplateInput raw = Inr (input, builder :: store builder)"
    and "ApplyCollaborationTemplate hash raw w = (Inr res, w')"
  shows "template_outcome hash input (w_db w) res (w_db w')"
  using applyTemplate_contract [OF assms(1), of hash "w_db w"] assms(2) by (auto dest: guaranteesD)

lemma applyTemplate_error:
  assumes "checkTemplateInput raw = (Inl e :: error + CollaborationTemplateApplyInput \<times> store builder)"
  shows "ApplyCollaborationTemplate hash raw w = (Inl e, w)"
  unfolding ApplyCollaborationTemplate_def assms by (simp add: throw_def)

lemma ApplyCollaborationTemplate_safe:
  "store_inv d \<Longrightarrow> guarantees (ApplyCollaborationTemplate hash raw) (\<lambda>_. store_inv) store_inv d"
proof (cases "checkTemplateInput raw :: error + CollaborationTemplateApplyInput \<times> store builder")
  case (Inl e)
  then show "store_inv d \<Longrightarrow> ?thesis" unfolding ApplyCollaborationTemplate_def by (auto intro: vcg)
next
  case (Inr r)
  obtain input builder where r: "r = (input, builder)" by fastforce
  assume inv: "store_inv d"
  have b: "collaborationTemplateBuilder (ti_TemplateName input) = Inr builder"
    using Inr r checkTemplateInput_builder by blast
  then obtain t where t: "t \<in> set ListCollaborationTemplates" "ct_Name t = ti_TemplateName input"
    using builder_listed by blast
  have fresh: "guarantees (applyFreshTemplate input builder p now) (\<lambda>_. inv_but {}) (\<lambda>_. True) d" for p now
    unfolding applyFreshTemplate_def using inv b t
    by (intro vcg guarantees_builder [where t = t])
       (auto simp: store_inv_def intro!: vcg saveRecords_safe inv_application)
  show ?thesis
    unfolding ApplyCollaborationTemplate_def Inr r Let_def using inv
    by (auto simp: store_inv_def intro!: vcg guarantees_mono [OF fresh])
qed

lemma keeps_builder:
  "collaborationTemplateBuilder name = Inr builder \<Longrightarrow> preserves P (builder input now)"
  by (auto simp: collaborationTemplateBuilder_def builder_defs CreateDefaultWatches_def newWatch_def
    intro!: preserves_intros split: if_splits)

lemma keeps_template: "preserves (history_le d0) (ApplyCollaborationTemplate hash raw)"
proof (cases "checkTemplateInput raw :: error + CollaborationTemplateApplyInput \<times> store builder")
  case (Inl e)
  then show ?thesis unfolding ApplyCollaborationTemplate_def by (auto intro: preserves_intros)
next
  case (Inr r)
  obtain input builder where r: "r = (input, builder)" by fastforce
  then have b: "collaborationTemplateBuilder (ti_TemplateName input) = Inr builder"
    using Inr checkTemplateInput_builder by blast
  show ?thesis
    unfolding ApplyCollaborationTemplate_def Inr r Let_def applyFreshTemplate_def sum.case prod.case
      loadCollaborationTemplateApplicationTx_def loadCollaborationTemplateApplicationResultTx_def
      saveCollaborationTemplateRecordsExec_def saveCollaborationTemplateApplicationExec_def statement_defs
    by (intro preserves_intros keeps_builder [OF b])
qed

section \<open>Accepted roles\<close>

text \<open>A project reference is safe when it is a \<open>project://\<close> path of plain segments.\<close>

definition plain_segment :: "string \<Rightarrow> bool" where
  "plain_segment segment \<longleftrightarrow> segment \<noteq> [] \<and> segment \<noteq> ''.'' \<and> segment \<noteq> ''..''
     \<and> list_all collaborationProjectRefChar segment"

lemma path_chars: "\<not> collaborationProjectRefChar (CHR ''/'')" "\<not> collaborationProjectRefChar (CHR ''~'')"
  by code_simp+

lemma plain_no_slash: "plain_segment x \<Longrightarrow> CHR ''/'' \<notin> set x"
  using path_chars(1) by (auto simp: plain_segment_def list_all_iff)

lemma plain_no_tilde: "plain_segment x \<Longrightarrow> CHR ''~'' \<notin> set x"
  using path_chars(2) by (auto simp: plain_segment_def list_all_iff)

lemma safe_remainder:
  "\<not> unsafeCollaborationProjectRef (''project://'' @ r) \<longleftrightarrow>
   list_all plain_segment (splitOn (CHR ''/'') r) \<and> hd r \<noteq> CHR ''.''"
proof (cases r)
  case Nil
  then show ?thesis by (simp add: unsafeCollaborationProjectRef_def hasPrefix_iff plain_segment_def)
next
  case (Cons c cs)
  let ?segs = "splitOn (CHR ''/'') r"
  have first: "plain_segment (takeWhile (\<lambda>c. c \<noteq> CHR ''/'') r)" if "list_all plain_segment ?segs"
    using that splitOn_head [of "CHR ''/''" r] splitOn_nonempty [of "CHR ''/''" r]
    by (cases ?segs) auto
  have slash: "c \<noteq> CHR ''/''" if "list_all plain_segment ?segs"
    using first [OF that] Cons by (auto simp: plain_segment_def)
  have tilde: "c \<noteq> CHR ''~''" if "list_all plain_segment ?segs"
    using plain_no_tilde [OF first [OF that]] slash [OF that] Cons by auto
  have "unsafeCollaborationProjectRef (''project://'' @ r) \<longleftrightarrow>
      c = CHR ''/'' \<or> c = CHR ''~'' \<or> c = CHR ''.'' \<or> \<not> list_all plain_segment ?segs"
    unfolding unsafeCollaborationProjectRef_def trimPrefix_append Let_def
    using Cons by (auto simp: hasPrefix_iff plain_segment_def list_ex_iff list_all_iff)
  with slash tilde Cons show ?thesis by auto
qed

lemma joined_head:
  "xs \<noteq> [] \<Longrightarrow> hd xs \<noteq> [] \<Longrightarrow> hd (joinText sep xs) = hd (hd xs)"
  by (cases xs; cases "tl xs") auto

lemma safe_project_ref:
  "\<not> unsafeCollaborationProjectRef ref \<longleftrightarrow>
   (\<exists>segments. ref = ''project://'' @ joinText ''/'' segments \<and> segments \<noteq> [] \<and> list_all plain_segment segments
      \<and> hd (hd segments) \<noteq> CHR ''.'')" (is "_ \<longleftrightarrow> ?rhs")
proof
  assume safe: "\<not> unsafeCollaborationProjectRef ref"
  then have "hasPrefix ref ''project://''" unfolding unsafeCollaborationProjectRef_def by argo
  then obtain r where r: "ref = ''project://'' @ r" unfolding hasPrefix_iff by blast
  let ?segs = "splitOn (CHR ''/'') r"
  have all: "list_all plain_segment ?segs" and hd: "hd r \<noteq> CHR ''.''"
    using safe safe_remainder [of r] r by auto
  have join: "joinText ''/'' ?segs = r" by (rule splitOn_join)
  have ne: "?segs \<noteq> []" by (rule splitOn_nonempty)
  have "hd ?segs \<noteq> []" using all ne by (cases ?segs) (auto simp: plain_segment_def)
  then have "hd (hd ?segs) = hd r" using joined_head [OF ne, of "''/''"] join by simp
  with r all hd join ne show ?rhs by (intro exI [of _ ?segs]) simp
next
  assume ?rhs
  then obtain segments where s: "ref = ''project://'' @ joinText ''/'' segments" "segments \<noteq> []"
    "list_all plain_segment segments" "hd (hd segments) \<noteq> CHR ''.''" by blast
  have split: "splitOn (CHR ''/'') (joinText ''/'' segments) = segments"
    using s(2,3) plain_no_slash by (intro splitOn_joinText) (auto simp: list_all_iff)
  have "hd segments \<noteq> []" using s(2,3) by (cases segments) (auto simp: plain_segment_def)
  then have "hd (joinText ''/'' segments) = hd (hd segments)" using s(2) by (intro joined_head)
  with split s show "\<not> unsafeCollaborationProjectRef ref"
    using safe_remainder [of "joinText ''/'' segments"] by simp
qed

lemma accepted_role:
  "validateCollaborationTemplateRole name role = None \<longleftrightarrow>
     role_ReceiverID role \<noteq> [] \<and> list_all collaborationRoleIDChar (role_ReceiverID role)
     \<and> \<not> unsafeCollaborationProjectRef (role_ProjectRef role)"
  by (auto simp: validateCollaborationTemplateRole_def unsafeCollaborationRoleID_def list_ex_iff list_all_iff
    unsafeCollaborationProjectRef_def hasPrefix_iff)
end
