(* ===== verification/Orch_Reach.thy ===== *)
theory Orch_Reach
  imports Orch_Template
begin

text \<open>
  The orchestrator as a transition system over its database: one step is one call of a
  service operation in some world (clock, identifiers, failing statements), whatever its
  result. Reachable databases satisfy the invariant, and their history only grows.
\<close>

inductive service_step :: "store \<Rightarrow> store \<Rightarrow> bool" where
  register: "RegisterAgent agent w = (r0, w') \<Longrightarrow> service_step (w_db w) (w_db w')"
| create: "CreateHandoff cinput w = (r1, w') \<Longrightarrow> service_step (w_db w) (w_db w')"
| create_idempotent: "CreateHandoffIdempotent iinput w = (r2, w') \<Longrightarrow> service_step (w_db w) (w_db w')"
| append: "AppendHandoff wid cinput w = (r1, w') \<Longrightarrow> service_step (w_db w) (w_db w')"
| record_event: "RecordAuthoritativeEvent e w = (r3, w') \<Longrightarrow> service_step (w_db w) (w_db w')"
| protocol: "ApplyProtocolAction req w = (r3, w') \<Longrightarrow> service_step (w_db w) (w_db w')"
| signal: "RecordObservedSignal e hint w = (r4, w') \<Longrightarrow> service_step (w_db w) (w_db w')"
| dispatch: "DispatchHandoff adapter dinput w = (r5, w') \<Longrightarrow> service_step (w_db w) (w_db w')"
| invalidate: "InvalidateEvent i why actor w = (r6, w') \<Longrightarrow> service_step (w_db w) (w_db w')"
| backfill: "BackfillEvent e why actor w = (r6, w') \<Longrightarrow> service_step (w_db w) (w_db w')"
| reopen: "ReopenHandoff i why actor w = (r6, w') \<Longrightarrow> service_step (w_db w) (w_db w')"
| update_watch: "UpdateWatch winput w = (r7, w') \<Longrightarrow> service_step (w_db w) (w_db w')"
| update_ownership: "UpdateOwnership oinput w = (r8, w') \<Longrightarrow> service_step (w_db w) (w_db w')"
| watchdog: "RunWatchdog now w = (r9, w') \<Longrightarrow> service_step (w_db w) (w_db w')"
| template: "ApplyCollaborationTemplate hash tinput w = (r10, w') \<Longrightarrow> service_step (w_db w) (w_db w')"

definition reachable :: "store \<Rightarrow> bool" where
  "reachable d \<longleftrightarrow> service_step\<^sup>*\<^sup>* empty_store d"

lemma safeD:
  assumes "guarantees m (\<lambda>_. P) P (w_db w)" and "m w = (r, w')"
  shows "P (w_db w')"
  using assms by (cases r) (auto dest: guaranteesD)

lemma service_step_inv: "service_step d d' \<Longrightarrow> store_inv d \<Longrightarrow> store_inv d'"
proof (induction rule: service_step.induct)
  case register then show ?case by (blast intro: safeD RegisterAgent_safe)
next
  case create then show ?case by (blast intro: safeD CreateHandoff_safe)
next
  case create_idempotent then show ?case by (blast intro: safeD CreateHandoffIdempotent_safe)
next
  case append then show ?case by (blast intro: safeD AppendHandoff_safe)
next
  case record_event then show ?case by (blast intro: safeD RecordAuthoritativeEvent_safe)
next
  case protocol then show ?case by (blast intro: safeD ApplyProtocolAction_safe)
next
  case signal then show ?case by (blast intro: safeD RecordObservedSignal_safe)
next
  case dispatch then show ?case by (blast intro: safeD DispatchHandoff_safe)
next
  case invalidate then show ?case by (blast intro: safeD InvalidateEvent_safe)
next
  case backfill then show ?case by (blast intro: safeD BackfillEvent_safe)
next
  case reopen then show ?case by (blast intro: safeD ReopenHandoff_safe)
next
  case update_watch then show ?case by (blast intro: safeD UpdateWatch_safe)
next
  case update_ownership then show ?case by (blast intro: safeD UpdateOwnership_safe)
next
  case watchdog then show ?case by (blast intro: safeD RunWatchdog_safe)
next
  case template then show ?case by (blast intro: safeD ApplyCollaborationTemplate_safe)
qed

lemma historyD: "preserves (history_le (w_db w)) m \<Longrightarrow> m w = (r, w') \<Longrightarrow> history_le (w_db w) (w_db w')"
  using preservesD [of "history_le (w_db w)" m w] by simp

lemmas keeps_operations = keeps_register keeps_create keeps_createIdempotent keeps_append keeps_record
  keeps_protocol keeps_signal keeps_dispatch keeps_invalidate keeps_backfill keeps_reopen
  keeps_updateWatch keeps_updateOwnership keeps_watchdog keeps_template

lemma service_step_history: "service_step d d' \<Longrightarrow> history_le d d'"
  by (induction rule: service_step.induct) (rule historyD, rule keeps_operations, assumption)+

lemma reachable_inv: "reachable d \<Longrightarrow> store_inv d"
  unfolding reachable_def by (induction rule: rtranclp_induct) (auto intro: empty_store_inv service_step_inv)

lemma steps_history: "service_step\<^sup>*\<^sup>* d d' \<Longrightarrow> history_le d d'"
  by (induction rule: rtranclp_induct) (auto intro: history_le_trans service_step_history)

lemma steps_reachable: "reachable d \<Longrightarrow> service_step\<^sup>*\<^sup>* d d' \<Longrightarrow> reachable d'"
  unfolding reachable_def by auto

lemma find_by_prefix: "prefix xs ys \<Longrightarrow> find_by key k xs = Some r \<Longrightarrow> find_by key k ys = Some r"
  by (auto simp: prefix_def find_by_append)

lemma creation_stays: "service_step\<^sup>*\<^sup>* d d' \<Longrightarrow> creation_of d k = Some r \<Longrightarrow> creation_of d' k = Some r"
  using steps_history [of d d'] by (auto simp: creation_of_def history_le_def intro: find_by_prefix)

lemma application_stays:
  "service_step\<^sup>*\<^sup>* d d' \<Longrightarrow> application_of d k = Some r \<Longrightarrow> application_of d' k = Some r"
  using steps_history [of d d'] by (auto simp: application_of_def history_le_def intro: find_by_prefix)

text \<open>A template applied again under its key, whatever happened in between.\<close>

lemma found_ids: "list_all2 (\<lambda>i r. find_by key i rows = Some r) ids rs \<Longrightarrow> map key rs = ids"
  by (induction rule: list_all2_induct) (auto dest: find_by_Some)

lemma applied_before_ids:
  assumes "applied_before d r res"
  shows "wf_ID (tres_Workflow res) = ta_WorkflowID r" "map h_ID (tres_Handoffs res) = ta_HandoffIDs r"
  using assms by (auto simp: applied_before_def dest: find_by_Some intro: found_ids)

lemma fresh_application:
  assumes "template_outcome hash input d res d'" and "ti_IdempotencyKey input \<noteq> []"
  obtains r where "application_of d' (ti_IdempotencyKey input) = Some r"
    and "ta_PayloadHash r = payload_of hash input" and "ta_WorkflowID r = wf_ID (tres_Workflow res)"
    and "ta_HandoffIDs r = map h_ID (tres_Handoffs res)"
proof (cases "application_of d (ti_IdempotencyKey input)")
  case None
  with assms have "applied_fresh d input (payload_of hash input) res d'"
    by (simp add: template_outcome_def previous_application_def)
  with assms(2) None show thesis
    by (auto simp: applied_fresh_def Let_def application_of_def find_by_append intro!: that split: option.splits)
next
  case (Some r)
  with assms have "ta_PayloadHash r = payload_of hash input" "applied_before d r res" "d' = d"
    by (auto simp: template_outcome_def previous_application_def)
  then show thesis using Some applied_before_ids [of d r res] by (intro that) auto
qed

lemma replayed_application:
  assumes "template_outcome hash input d res d'" and "previous_application d input = Some r"
  shows "tres_Replayed res" "d' = d" "ta_PayloadHash r = payload_of hash input"
    "wf_ID (tres_Workflow res) = ta_WorkflowID r" "map h_ID (tres_Handoffs res) = ta_HandoffIDs r"
  using assms by (auto simp: template_outcome_def dest: applied_before_ids)

end
