(* ===== verification/Orch_Queue.thy ===== *)
theory Orch_Queue
  imports Orch_Reach
begin

text \<open>
  What the work queues answer: \<open>NextWork\<close> lists exactly the selected handoffs that nothing
  blocks, each with its stored workflow, in the order of its key; \<open>BlockedWork\<close> lists every
  selected handoff that \<open>NextWork\<close> leaves out. Both only read.
\<close>

section \<open>Reasons\<close>

lemma reason_code [simp]: "wbr_Code (reason c s) = c"
  by (simp add: reason_def)

definition watches_of :: "store \<Rightarrow> string \<Rightarrow> Watch list" where
  "watches_of d h = order_by watch_CreatedAt watch_ID (filter (\<lambda>x. watch_HandoffID x = h) (st_watches d))"

definition next_ready :: "store \<Rightarrow> Handoff list \<Rightarrow> Handoff \<Rightarrow> bool" where
  "next_ready d hs h \<longleftrightarrow>
     (\<forall>i\<in>set (h_DependsOnHandoffIDs h). \<exists>k. handoffsByID hs i = Some k \<and> h_State k = StateCompleted) \<and>
     (\<forall>w\<in>set (st_watches d). watch_HandoffID w = h_ID h \<longrightarrow> watch_Status w = ''active'' \<longrightarrow>
        watch_LastResult w = ''reminder_sent'' \<longrightarrow>
        (\<exists>e\<in>set (effective_list d (h_ID h)). ev_Type e = watch_EventType w)) \<and>
     (requiresReview h \<longrightarrow> h_ReviewerActor h \<noteq> NoActor)"

lemma owner_never_blocks: "\<not> hasNextWorkBlockingReason (fst (ownerReasons h as now))"
  by (simp add: ownerReasons_def hasNextWorkBlockingReason_def isNextWorkBlockingReason_def)

lemma lease_never_blocks: "\<not> hasNextWorkBlockingReason (fst (leaseReasons h as now))"
  by (simp add: leaseReasons_def hasNextWorkBlockingReason_def isNextWorkBlockingReason_def)

lemma dependency_blocks:
  "hasNextWorkBlockingReason (dependencyReasons byID h) \<longleftrightarrow> (\<exists>i\<in>set (h_DependsOnHandoffIDs h). dependency_open byID i)"
  by (auto simp: dependencyReasons_def hasNextWorkBlockingReason_def isNextWorkBlockingReason_def list_ex_iff)

lemma watch_blocks:
  "hasNextWorkBlockingReason (watchReasons ws es) \<longleftrightarrow> (\<exists>w\<in>set ws. remindedWatch es w)"
  by (auto simp: watchReasons_def hasNextWorkBlockingReason_def isNextWorkBlockingReason_def list_ex_iff)

lemma reviewer_blocks:
  "hasNextWorkBlockingReason (reviewerReasons h) \<longleftrightarrow> requiresReview h \<and> h_ReviewerActor h = NoActor"
  by (auto simp: reviewerReasons_def hasNextWorkBlockingReason_def isNextWorkBlockingReason_def
      requiresReview_def isEmptyActor_iff)

lemma blocking_append:
  "hasNextWorkBlockingReason (rs @ qs) \<longleftrightarrow> hasNextWorkBlockingReason rs \<or> hasNextWorkBlockingReason qs"
  by (simp add: hasNextWorkBlockingReason_def)

lemma blockReasons_ready:
  "hasNextWorkBlockingReason (fst (blockReasons h (handoffsByID hs) as now (watches_of d (h_ID h))
      (effective_list d (h_ID h)))) \<longleftrightarrow> \<not> next_ready d hs h"
proof -
  have "fst (blockReasons h (handoffsByID hs) as now (watches_of d (h_ID h)) (effective_list d (h_ID h))) =
      dependencyReasons (handoffsByID hs) h @ watchReasons (watches_of d (h_ID h)) (effective_list d (h_ID h))
      @ fst (ownerReasons h as now) @ fst (leaseReasons h as now) @ reviewerReasons h"
    by (simp add: blockReasons_def split: prod.split)
  then show ?thesis
    by (simp only: blocking_append owner_never_blocks lease_never_blocks dependency_blocks watch_blocks
        reviewer_blocks)
      (auto simp: next_ready_def dependency_open_def remindedWatch_def hasEventType_def list_ex_iff
        watches_of_def split: option.splits)
qed

lemma guarantees_workBlockReasons [vcg]:
  assumes "E d"
    and "\<And>now. Q (blockReasons h byID as now (watches_of d (h_ID h)) (effective_list d (h_ID h))) d"
  shows "guarantees (workBlockReasons h byID as) Q E d"
  unfolding workBlockReasons_def
  by (intro vcg) (use assms in \<open>simp_all add: watches_of_def\<close>)

section \<open>Inputs\<close>

definition visible :: "store \<Rightarrow> string \<Rightarrow> Handoff list" where
  "visible d w = order_by h_CreatedAt h_ID
     (if w = [] then st_handoffs d else filter (\<lambda>h. h_WorkflowID h = w) (st_handoffs d))"

definition stored_workflows :: "store \<Rightarrow> (string \<Rightarrow> Workflow option) \<Rightarrow> bool" where
  "stored_workflows d ws \<longleftrightarrow> (\<forall>i w. ws i = Some w \<longrightarrow> find_by wf_ID i (st_workflows d) = Some w)"

lemma loadWorkflowInto_step:
  assumes "stored_workflows d ws" and "E d"
    and "\<And>ws'. stored_workflows d ws' \<Longrightarrow> ws \<subseteq>\<^sub>m ws' \<Longrightarrow> ws' (h_WorkflowID h) \<noteq> None \<Longrightarrow> Q ws' d"
  shows "guarantees (loadWorkflowInto ws h) Q E d"
  unfolding loadWorkflowInto_def
proof (intro vcg)
  fix w
  assume w: "find_by wf_ID (h_WorkflowID h) (st_workflows d) = Some w" and "\<not> ws (h_WorkflowID h) \<noteq> None"
  with find_by_Some [OF w] assms(1) show "Q (ws(wf_ID w \<mapsto> w)) d"
    by (intro assms(3)) (auto simp: stored_workflows_def map_le_def)
qed (use assms in auto)

lemma loadWorkflows_fold:
  assumes "stored_workflows d ws" and "E d"
    and "\<And>ws'. stored_workflows d ws' \<Longrightarrow> ws \<subseteq>\<^sub>m ws' \<Longrightarrow> \<forall>h\<in>set hs. ws' (h_WorkflowID h) \<noteq> None \<Longrightarrow> Q ws' d"
  shows "guarantees (foldE loadWorkflowInto ws hs) Q E d"
  using assms
proof (induction hs arbitrary: ws)
  case (Cons h hs)
  have "guarantees (foldE loadWorkflowInto ws1 hs) Q E d"
    if ws1: "stored_workflows d ws1" "ws \<subseteq>\<^sub>m ws1" "ws1 (h_WorkflowID h) \<noteq> None" for ws1
  proof (rule Cons.IH [OF ws1(1) Cons.prems(2)])
    fix ws2
    assume "stored_workflows d ws2" "ws1 \<subseteq>\<^sub>m ws2" "\<forall>h\<in>set hs. ws2 (h_WorkflowID h) \<noteq> None"
    moreover from this ws1(3) have "ws2 (h_WorkflowID h) \<noteq> None" by (auto simp: map_le_def dom_def)
    ultimately show "Q ws2 d" using ws1(2) by (intro Cons.prems(3)) (auto intro: map_le_trans)
  qed
  then show ?case using Cons.prems by (auto intro!: vcg loadWorkflowInto_step)
qed (auto intro!: vcg)

lemma guarantees_inputs:
  assumes inv: "store_inv d" and "E d"
    and Q: "\<And>ws. \<forall>h\<in>set (visible d w). find_by wf_ID (h_WorkflowID h) (st_workflows d) =
        Some (workflow_at ws (h_WorkflowID h)) \<Longrightarrow> Q (visible d w, ws) d"
  shows "guarantees (workProjectionInputs w) Q E d"
proof -
  have loads: "guarantees (loadWorkflows (visible d w)) (\<lambda>ws. guarantees (ret (visible d w, ws)) Q E) E d"
    unfolding loadWorkflows_def
  proof (rule loadWorkflows_fold)
    show "stored_workflows d (\<lambda>_. None)" by (simp add: stored_workflows_def)
    fix ws
    assume "stored_workflows d ws" "\<forall>h\<in>set (visible d w). ws (h_WorkflowID h) \<noteq> None"
    then show "guarantees (ret (visible d w, ws)) Q E d"
      by (intro vcg Q) (auto simp: stored_workflows_def workflow_at_def split: option.split)
  qed (rule assms(2))
  have "distinct (map h_ID (st_handoffs d))" using inv by (simp add: store_inv_def inv_keys)
  moreover have "Q (visible d w, \<lambda>i. if i = wf_ID wa then Some wa else None) d"
    if "w \<noteq> []" "find_by wf_ID w (st_workflows d) = Some wa" for wa
    using that find_by_Some [OF that(2)] by (intro Q) (auto simp: visible_def workflow_at_def)
  ultimately show ?thesis
    using loads unfolding workProjectionInputs_def
    by (intro vcg guarantees_ListWorkflowHandoffs guarantees_ListHandoffs)
      (simp_all add: visible_def assms(2))
qed

section \<open>The queues\<close>

text \<open>One handoff at a time: the item is added exactly when nothing blocks it.\<close>

definition stored_items :: "store \<Rightarrow> ('i \<Rightarrow> Handoff) \<Rightarrow> ('i \<Rightarrow> Workflow) \<Rightarrow> 'i list \<Rightarrow> bool" where
  "stored_items d handoff workflow items \<longleftrightarrow>
     (\<forall>x\<in>set items. find_by wf_ID (h_WorkflowID (handoff x)) (st_workflows d) = Some (workflow x))"

lemma nextWorkItem_step:
  assumes "find_by wf_ID (h_WorkflowID h) (st_workflows d) = Some (workflow_at ws (h_WorkflowID h))"
    and "stored_items d wi_Handoff wi_Workflow acc" and "E d"
    and Q: "\<And>items. stored_items d wi_Handoff wi_Workflow items \<Longrightarrow>
      map wi_Handoff items = map wi_Handoff acc @ (if selectedForWork q as h \<and> next_ready d hs h then [h] else []) \<Longrightarrow>
      Q items d"
  shows "guarantees (nextWorkItem q as (handoffsByID hs) ws acc h) Q E d"
  unfolding nextWorkItem_def earliestActiveWatch_def
proof (intro vcg assms(3))
  show "\<not> selectedForWork q as h \<Longrightarrow> Q acc d" using assms(2) by (intro Q) simp_all
next
  fix now reasons suggestions
  assume sel: "\<not> \<not> selectedForWork q as h"
    and b: "blockReasons h (handoffsByID hs) as now (watches_of d (h_ID h)) (effective_list d (h_ID h)) = (reasons, suggestions)"
  have blocked: "hasNextWorkBlockingReason reasons \<longleftrightarrow> \<not> next_ready d hs h"
    using blockReasons_ready [of h hs as now d] b by simp
  then show "hasNextWorkBlockingReason reasons \<Longrightarrow> Q acc d" using assms(2) by (intro Q) simp_all
  assume "\<not> hasNextWorkBlockingReason reasons"
  with blocked sel assms(1,2)
  show "Q (acc @ [\<lparr>wi_Workflow = workflow_at ws (h_WorkflowID h), wi_Handoff = h,
           wi_ActiveWatch = earliestWatch None (order_by watch_CreatedAt watch_ID (filter (\<lambda>x. watch_HandoffID x = h_ID h) (st_watches d))),
           wi_Warnings = nonBlockingWorkReasons reasons, wi_Suggestions = suggestions\<rparr>]) d"
    by (intro Q) (auto simp: stored_items_def)
qed

lemma nextWork_fold:
  assumes "\<forall>h\<in>set ks. find_by wf_ID (h_WorkflowID h) (st_workflows d) = Some (workflow_at ws (h_WorkflowID h))"
    and "stored_items d wi_Handoff wi_Workflow acc" and "E d"
    and "\<And>items. stored_items d wi_Handoff wi_Workflow items \<Longrightarrow>
      map wi_Handoff items = map wi_Handoff acc @ filter (\<lambda>h. selectedForWork q as h \<and> next_ready d hs h) ks \<Longrightarrow>
      Q items d"
  shows "guarantees (foldE (nextWorkItem q as (handoffsByID hs) ws) acc ks) Q E d"
  using assms
proof (induction ks arbitrary: acc)
  case (Cons h ks)
  have "guarantees (foldE (nextWorkItem q as (handoffsByID hs) ws) items ks) Q E d"
    if "stored_items d wi_Handoff wi_Workflow items"
      "map wi_Handoff items = map wi_Handoff acc @ (if selectedForWork q as h \<and> next_ready d hs h then [h] else [])" for items
    using Cons.prems that by (intro Cons.IH) auto
  then show ?case using Cons.prems by (auto intro!: vcg nextWorkItem_step)
qed (auto intro!: vcg)

definition all_agents :: "store \<Rightarrow> AgentRegistration list" where
  "all_agents d = filter (\<lambda>a. agentMatchesFilter a
     \<lparr>alf_Capability = [], alf_ProjectRef = [], alf_TaskKind = [], alf_Status = []\<rparr>) (recent_first (st_agents d))"

definition next_queue :: "store \<Rightarrow> WorkQuery \<Rightarrow> Handoff list" where
  "next_queue d q0 =
     (let q = trimWorkQuery q0; hs = visible d (wq_WorkflowID q) in
      filter (\<lambda>h. selectedForWork q (all_agents d) h \<and> next_ready d hs h) hs)"

definition next_outcome :: "store \<Rightarrow> WorkQuery \<Rightarrow> WorkItem list \<Rightarrow> bool" where
  "next_outcome d q items \<longleftrightarrow>
     (\<exists>all. items = limitWorkItems all (wq_Limit q) \<and> sorted (map workItemKey all)
        \<and> mset (map wi_Handoff all) = mset (next_queue d q) \<and> stored_items d wi_Handoff wi_Workflow all)"

lemma trimWorkQuery_limit [simp]: "wq_Limit (trimWorkQuery q) = wq_Limit q"
  by (simp add: trimWorkQuery_def)

lemma NextWork_contract:
  assumes "store_inv d"
  shows "guarantees (NextWork q) (\<lambda>items d'. d' = d \<and> next_outcome d q items) (\<lambda>d'. d' = d) d"
  unfolding NextWork_def Let_def
proof (intro vcg guarantees_inputs assms)
  fix hs and ws k :: "string \<Rightarrow> Workflow option"
  let ?q = "trimWorkQuery q"
  assume stored: "\<forall>h\<in>set (visible d (wq_WorkflowID ?q)). find_by wf_ID (h_WorkflowID h) (st_workflows d) =
      Some (workflow_at k (h_WorkflowID h))"
    and eq: "(visible d (wq_WorkflowID ?q), k) = (hs, ws)"
  show "guarantees (foldE (nextWorkItem ?q (filter (\<lambda>a. agentMatchesFilter a
        \<lparr>alf_Capability = [], alf_ProjectRef = [], alf_TaskKind = [], alf_Status = []\<rparr>) (recent_first (st_agents d)))
        (handoffsByID hs) ws) [] hs)
      (\<lambda>items. guarantees (ret (limitWorkItems (sortWorkItems items) (wq_Limit ?q)))
        (\<lambda>items d'. d' = d \<and> next_outcome d q items) (\<lambda>d'. d' = d)) (\<lambda>d'. d' = d) d"
    unfolding all_agents_def [symmetric]
  proof (rule nextWork_fold)
    show "stored_items d wi_Handoff wi_Workflow []" by (simp add: stored_items_def)
    fix items :: "WorkItem list"
    assume "stored_items d wi_Handoff wi_Workflow items"
      and "map wi_Handoff items = map wi_Handoff [] @ filter (\<lambda>h. selectedForWork ?q (all_agents d) h \<and> next_ready d hs h) hs"
    moreover have "mset (map wi_Handoff (sortWorkItems items)) = mset (map wi_Handoff items)"
      by (simp add: sortWorkItems_def)
    moreover have "filter (\<lambda>h. selectedForWork ?q (all_agents d) h \<and> next_ready d hs h) hs = next_queue d q"
      using eq by (simp add: next_queue_def Let_def)
    ultimately have "next_outcome d q (limitWorkItems (sortWorkItems items) (wq_Limit q))"
      unfolding next_outcome_def using eq
      by (intro exI [of _ "sortWorkItems items"])
        (simp add: sortWorkItems_def stored_items_def del: mset_map)
    then show "guarantees (ret (limitWorkItems (sortWorkItems items) (wq_Limit ?q)))
        (\<lambda>items d'. d' = d \<and> next_outcome d q items) (\<lambda>d'. d' = d) d"
      by (intro vcg) simp
  qed (use stored eq in auto)
qed simp_all

section \<open>Blocked work\<close>

definition blocked_between :: "(Handoff \<Rightarrow> bool) \<Rightarrow> (Handoff \<Rightarrow> bool) \<Rightarrow> Handoff list \<Rightarrow> BlockedWorkItem list \<Rightarrow> bool" where
  "blocked_between must may hs items \<longleftrightarrow>
     {h \<in> set hs. must h} \<subseteq> bwi_Handoff ` set items \<and> bwi_Handoff ` set items \<subseteq> {h \<in> set hs. may h}
     \<and> (\<forall>x\<in>set items. bwi_Reasons x \<noteq> [])"

lemma blockedWorkItem_step:
  assumes "blocked_between (\<lambda>h. selectedForWork q as h \<and> \<not> next_ready d hs h) (selectedForWork q as) ks acc"
    and "E d"
    and Q: "\<And>items. blocked_between (\<lambda>h. selectedForWork q as h \<and> \<not> next_ready d hs h) (selectedForWork q as) (ks @ [h]) items \<Longrightarrow> Q items d"
  shows "guarantees (blockedWorkItem q as (handoffsByID hs) ws acc h) Q E d"
  unfolding blockedWorkItem_def
proof (intro vcg assms(2))
  show "\<not> selectedForWork q as h \<Longrightarrow> Q acc d" using assms(1) by (intro Q) (auto simp: blocked_between_def)
next
  fix now reasons suggestions
  assume sel: "\<not> \<not> selectedForWork q as h"
    and b: "blockReasons h (handoffsByID hs) as now (watches_of d (h_ID h)) (effective_list d (h_ID h)) = (reasons, suggestions)"
  have "next_ready d hs h" if "reasons = []"
    using blockReasons_ready [of h hs as now d] b that by (simp add: hasNextWorkBlockingReason_def)
  then show "reasons = [] \<Longrightarrow> Q acc d" using assms(1) by (intro Q) (auto simp: blocked_between_def)
  assume "reasons \<noteq> []"
  then show "Q (acc @ [\<lparr>bwi_Workflow = workflow_at ws (h_WorkflowID h), bwi_Handoff = h,
      bwi_Reasons = reasons, bwi_Suggestions = suggestions\<rparr>]) d"
    using assms(1) sel by (intro Q) (auto simp: blocked_between_def)
qed

lemma blockedWork_fold:
  assumes "blocked_between (\<lambda>h. selectedForWork q as h \<and> \<not> next_ready d hs h) (selectedForWork q as) ks acc"
    and "E d"
    and "\<And>items. blocked_between (\<lambda>h. selectedForWork q as h \<and> \<not> next_ready d hs h) (selectedForWork q as) (ks @ ls) items \<Longrightarrow> Q items d"
  shows "guarantees (foldE (blockedWorkItem q as (handoffsByID hs) ws) acc ls) Q E d"
  using assms
proof (induction ls arbitrary: acc ks)
  case (Cons h ls)
  have "guarantees (foldE (blockedWorkItem q as (handoffsByID hs) ws) items ls) Q E d"
    if "blocked_between (\<lambda>h. selectedForWork q as h \<and> \<not> next_ready d hs h) (selectedForWork q as) (ks @ [h]) items" for items
    using Cons.prems that by (intro Cons.IH [of "ks @ [h]"]) auto
  then show ?case using Cons.prems by (auto intro!: vcg blockedWorkItem_step)
qed (auto intro!: vcg)

definition blocked_outcome :: "store \<Rightarrow> WorkQuery \<Rightarrow> BlockedWorkItem list \<Rightarrow> bool" where
  "blocked_outcome d q0 items \<longleftrightarrow>
     (let q = trimWorkQuery q0; hs = visible d (wq_WorkflowID q); selected = selectedForWork q (all_agents d) in
      \<exists>all. items = limitWorkItems all (wq_Limit q) \<and> sorted (map blockedItemKey all)
        \<and> blocked_between (\<lambda>h. selected h \<and> \<not> next_ready d hs h) selected hs all)"

lemma BlockedWork_contract:
  assumes "store_inv d"
  shows "guarantees (BlockedWork q) (\<lambda>items d'. d' = d \<and> blocked_outcome d q items) (\<lambda>d'. d' = d) d"
  unfolding BlockedWork_def Let_def
proof (intro vcg guarantees_inputs assms)
  fix hs and ws k :: "string \<Rightarrow> Workflow option"
  let ?q = "trimWorkQuery q"
  assume eq: "(visible d (wq_WorkflowID ?q), k) = (hs, ws)"
  show "guarantees (foldE (blockedWorkItem ?q (filter (\<lambda>a. agentMatchesFilter a
        \<lparr>alf_Capability = [], alf_ProjectRef = [], alf_TaskKind = [], alf_Status = []\<rparr>) (recent_first (st_agents d)))
        (handoffsByID hs) ws) [] hs)
      (\<lambda>items. guarantees (ret (limitWorkItems (sortBlockedWorkItems items) (wq_Limit ?q)))
        (\<lambda>items d'. d' = d \<and> blocked_outcome d q items) (\<lambda>d'. d' = d)) (\<lambda>d'. d' = d) d"
    unfolding all_agents_def [symmetric]
  proof (rule blockedWork_fold [where ks = "[]"])
    fix items :: "BlockedWorkItem list"
    assume "blocked_between (\<lambda>h. selectedForWork ?q (all_agents d) h \<and> \<not> next_ready d hs h)
      (selectedForWork ?q (all_agents d)) ([] @ hs) items"
    then have "blocked_outcome d q (limitWorkItems (sortBlockedWorkItems items) (wq_Limit q))"
      unfolding blocked_outcome_def Let_def using eq
      by (intro exI [of _ "sortBlockedWorkItems items"])
        (auto simp: sortBlockedWorkItems_def blocked_between_def)
    then show "guarantees (ret (limitWorkItems (sortBlockedWorkItems items) (wq_Limit ?q)))
        (\<lambda>items d'. d' = d \<and> blocked_outcome d q items) (\<lambda>d'. d' = d) d"
      by (intro vcg) simp
  qed (simp_all add: blocked_between_def)
qed simp_all

end
