(* ===== verification/Orch_Progress.thy ===== *)
theory Orch_Progress
  imports Orch_Queue
begin

text \<open>
  What the service can always do: a calculus of total correctness for worlds without faults,
  the success of recording an acceptable event, and the completion of every handoff that is
  not doomed by a sequence of recorded events.
\<close>

section \<open>Success in a world without faults\<close>

named_theorems deliver \<open>rules of the success calculus\<close>

definition delivers :: "('db, 'a) op \<Rightarrow> ('a \<Rightarrow> 'db \<Rightarrow> bool) \<Rightarrow> 'db \<Rightarrow> bool" where
  "delivers m Q d \<longleftrightarrow>
     (\<forall>w. w_db w = d \<longrightarrow> w_faults w = [] \<longrightarrow>
        (\<exists>a w'. m w = (Inr a, w') \<and> w_faults w' = [] \<and> Q a (w_db w')))"

lemma deliversI:
  assumes "\<And>w. w_db w = d \<Longrightarrow> w_faults w = [] \<Longrightarrow> \<exists>a w'. m w = (Inr a, w') \<and> w_faults w' = [] \<and> Q a (w_db w')"
  shows "delivers m Q d"
  using assms by (simp add: delivers_def)

lemma deliversD:
  assumes "delivers m Q (w_db w)" and "w_faults w = []"
  obtains a w' where "m w = (Inr a, w')" and "w_faults w' = []" and "Q a (w_db w')"
  using assms by (auto simp: delivers_def)

lemma delivers_ret [deliver]: "Q a d \<Longrightarrow> delivers (ret a) Q d"
  by (simp add: delivers_def ret_def)

lemma delivers_bindE [deliver]:
  assumes "delivers m (\<lambda>a d'. delivers (f a) Q d') d"
  shows "delivers (bindE m f) Q d"
proof (rule deliversI)
  fix w :: "'a world"
  assume w: "w_db w = d" "w_faults w = []"
  from assms w obtain a w1 where m: "m w = (Inr a, w1)" "w_faults w1 = []" "delivers (f a) Q (w_db w1)"
    by (auto simp: delivers_def)
  from deliversD [OF m(3,2)] obtain b w2 where "f a w1 = (Inr b, w2)" "w_faults w2 = []" "Q b (w_db w2)" .
  with m(1) show "\<exists>b w'. bindE m f w = (Inr b, w') \<and> w_faults w' = [] \<and> Q b (w_db w')"
    by (auto simp: bindE_Inr)
qed

lemma delivers_wrapE [deliver]: "delivers m Q d \<Longrightarrow> delivers (wrapE l m) Q d"
  by (simp add: delivers_def wrapE_Inr)

lemma delivers_mono: "delivers m Q d \<Longrightarrow> (\<And>a d'. Q a d' \<Longrightarrow> Q' a d') \<Longrightarrow> delivers m Q' d"
  unfolding delivers_def by blast

lemma delivers_statement:
  "f d = Inr (a, d') \<Longrightarrow> Q a d' \<Longrightarrow> delivers (statement f) Q d"
  by (simp add: delivers_def statement_def)

lemma delivers_query [deliver]: "Q (f d) d \<Longrightarrow> delivers (query f) Q d"
  unfolding query_def by (rule delivers_statement) simp_all

lemma delivers_checkE [deliver]: "b \<Longrightarrow> Q () d \<Longrightarrow> delivers (checkE b e) Q d"
  by (simp add: checkE_def delivers_ret)

lemma delivers_insertE [deliver]:
  "violation (cs d) = None \<Longrightarrow> Q () (put d) \<Longrightarrow> delivers (insertE cs put) Q d"
  unfolding insertE_def by (rule delivers_statement) simp_all

lemma delivers_updateE [deliver]: "Q (n d) (put d) \<Longrightarrow> delivers (updateE l r n put) Q d"
  unfolding updateE_def by (intro deliver delivers_statement) simp_all

lemma delivers_queryRowE [deliver]: "row d = Some r \<Longrightarrow> Q r d \<Longrightarrow> delivers (queryRowE row) Q d"
  unfolding queryRowE_def by (rule delivers_statement) simp_all

lemma delivers_in_tx [deliver]:
  assumes "delivers m Q d"
  shows "delivers (in_tx lb lc m) Q d"
proof -
  have "delivers (bindE (wrapE lb (query (\<lambda>_. ())))
      (\<lambda>_. bindE m (\<lambda>a. bindE (wrapE lc (query (\<lambda>_. ()))) (\<lambda>_. ret a)))) Q d"
    by (intro deliver delivers_mono [OF assms])
  then show ?thesis unfolding delivers_def in_tx_def by fastforce
qed

section \<open>Recording an acceptable event succeeds\<close>

text \<open>An event that the caller has stamped and addressed, new to the store.\<close>

definition recordable :: "store \<Rightarrow> Handoff \<Rightarrow> EventRecord \<Rightarrow> bool" where
  "recordable d m e \<longleftrightarrow> ev_ID e \<noteq> [] \<and> \<not> is_zero (ev_ProducerEventTime e) \<and> \<not> is_zero (ev_IngestedAt e)
     \<and> ev_WorkflowID e \<noteq> [] \<and> ev_WorkflowID e = h_WorkflowID m
     \<and> ev_ID e \<notin> ev_ID ` set (st_accepted d)
     \<and> (ev_IdempotencyKey e \<noteq> [] \<longrightarrow> (ev_HandoffID e, ev_IdempotencyKey e)
          \<notin> (\<lambda>x. (ev_HandoffID x, ev_IdempotencyKey x)) ` set (st_accepted d))"

lemma delivers_loadHandoff [deliver]:
  "find_by h_ID i (st_handoffs d) = Some h \<Longrightarrow> Q h d \<Longrightarrow> delivers (loadHandoffTx i) Q d"
  unfolding loadHandoffTx_def by (intro deliver)

lemma delivers_saveBinding [deliver]:
  "has_handoff d (h_ID h) \<Longrightarrow> Q () (put_binding h d) \<Longrightarrow>
   delivers (saveOwnershipBindingExec (OwnershipBindingFromHandoff h)) Q d"
  unfolding saveOwnershipBindingExec_def put_binding_def
  by (intro deliver) (simp_all add: REFERENCES_def)

lemma delivers_saveProjected:
  assumes "distinct (map h_ID (st_handoffs d))" and "find_by h_ID (h_ID h) (st_handoffs d) = Some old"
    and "h_StateVersion old = v" and "Q () (put_handoff h d)"
  shows "delivers (saveProjectedHandoffTx h v) Q d"
proof -
  let ?hit = "\<lambda>r. h_ID r = h_ID h \<and> h_StateVersion r = v"
  have old: "old \<in> set (st_handoffs d)" "h_ID old = h_ID h" using find_by_Some [OF assms(2)] by auto
  have only: "r = old" if "r \<in> set (st_handoffs d)" "h_ID r = h_ID h" for r
    using find_by_unique [OF assms(1) that(1)] that(2) assms(2) by simp
  then have up: "update_where ?hit (\<lambda>_. h) (st_handoffs d) = upsert_by h_ID (\<lambda>_. h) h (st_handoffs d)"
    using assms(2,3) by (auto simp: upsert_by_def update_where_def)
  have "filter ?hit (st_handoffs d) = filter (\<lambda>r. r = old) (st_handoffs d)"
    by (rule filter_cong [OF refl]) (metis only old(2) assms(3))
  moreover have "distinct (st_handoffs d)" using assms(1) by (simp add: distinct_map)
  ultimately have "count_where ?hit (st_handoffs d) = 1"
    using old(1) iffD1 [OF distinct_count_atmost_1, rule_format, of "st_handoffs d" old]
    by (simp add: count_where_def filter_eq_replicate)
  moreover have "has_handoff (d\<lparr>st_handoffs := upsert_by h_ID (\<lambda>_. h) h (st_handoffs d)\<rparr>) (h_ID h)"
    by (simp add: has_handoff_def find_by_upsert split: option.split)
  ultimately show ?thesis
    unfolding saveProjectedHandoffTx_def Let_def
    by (intro deliver) (use assms(4) in \<open>simp_all add: up put_handoff_def\<close>)
qed

lemma delivers_insertAccepted:
  assumes "recordable d m e" and "has_handoff d (ev_HandoffID e)" and "has_workflow d (ev_WorkflowID e)"
    and "Q () (d\<lparr>st_accepted := st_accepted d @ [e]\<rparr>)"
  shows "delivers (insertAcceptedEventRow e) Q d"
  unfolding insertAcceptedEventRow_def
  using assms by (intro deliver) (auto simp: recordable_def UNIQUE_def REFERENCES_def)

lemma delivers_recordTx:
  assumes inv: "store_inv d" and m: "find_by h_ID (ev_HandoffID e) (st_handoffs d) = Some m"
    and acc: "accepts m e" and rec: "recordable d m e" and Q: "Q (projection_of m e) (commit_event m e d)"
  shows "delivers (recordAcceptedEventTx e) Q d"
  unfolding recordAcceptedEventTx_def Let_def
proof (intro deliver)
  note h = inv_handoff [OF inv m]
  have new: "NewStateMachine m = m" using h(2) by (simp add: backed_def NewStateMachine_wf)
  let ?d = "d\<lparr>st_accepted := st_accepted d @ [e]\<rparr>"
  have keys: "distinct (map h_ID (st_handoffs d))" using inv by (simp add: store_inv_def inv_keys)
  have save: "delivers (saveProjectedHandoffTx (projection_of m e) (h_StateVersion m))
      (\<lambda>_. delivers (ret (projection_of m e)) Q) ?d"
    using m h(1) keys Q by (intro delivers_saveProjected [where old = m] deliver) (simp_all add: commit_event_def)
  have insert: "delivers (insertAcceptedEventRow e) (\<lambda>_. delivers
      (bindE (saveProjectedHandoffTx (projection_of m e) (h_StateVersion m)) (\<lambda>_. ret (projection_of m e))) Q) d"
    by (intro delivers_insertAccepted [OF rec] deliver save) (use h rec in \<open>auto simp: recordable_def\<close>)
  show "delivers (validateEventWorkflowMatch m e) (\<lambda>_. delivers
      (if \<not> dec_Accepted (snd (Apply (NewStateMachine m) e))
       then throw (ErrorText (''accepted event '' @ ev_ID e @ '' rejected by state machine: '' @
              dec_Reason (snd (Apply (NewStateMachine m) e))))
       else bindE (insertAcceptedEventRow e) (\<lambda>_.
            bindE (saveProjectedHandoffTx (projection_of m e) (h_StateVersion m)) (\<lambda>_. ret (projection_of m e)))) Q) d"
    using rec acc insert new
    by (auto simp: validateEventWorkflowMatch_def recordable_def accepts_def intro!: delivers_ret delivers_bindE)
qed (rule m)

lemma record_delivers:
  assumes inv: "store_inv d" and m: "find_by h_ID (ev_HandoffID e) (st_handoffs d) = Some m"
    and acc: "accepts m e" and sig: "\<not> isObservedSignalEvent (ev_Type e)" and rec: "recordable d m e"
  shows "delivers (RecordAuthoritativeEvent e)
    (\<lambda>r d'. snd r = None \<and> d' = commit_event m (e\<lparr>ev_Accepted := True\<rparr>) d) d"
proof -
  let ?e = "e\<lparr>ev_Accepted := True\<rparr>"
  have new: "NewStateMachine m = m"
    using inv_handoff(2) [OF inv m] by (simp add: backed_def NewStateMachine_wf)
  have acc': "accepts m ?e"
    using acc Apply_flags [where m = m and e = e and b = True and w = "ev_WorkflowID e" and r = "ev_RejectionReason e"] by (simp add: accepts_def)
  have stamp: "fillEvent e = ret e"
    using rec by (simp add: recordable_def fillEvent_def)
  have tx: "delivers (RecordAcceptedEvent ?e)
      (\<lambda>h d'. h = projection_of m ?e \<and> d' = commit_event m ?e d) d"
    using inv m acc' sig rec
    by (simp add: RecordAcceptedEvent_def) (intro deliver delivers_recordTx, auto simp: recordable_def)
  have accepted: "delivers (bindE (RecordAcceptedEvent ?e) (\<lambda>p. ret (\<lparr>ed_Event = ?e, ed_Decision = c, ed_Handoff = p\<rparr>, None)))
      (\<lambda>r d'. snd r = None \<and> d' = commit_event m ?e d) d" for c
    by (intro deliver delivers_mono [OF tx]) simp
  have run: "delivers (bindE (loadHandoffTx (ev_HandoffID e)) k) R d" if "delivers (k m) R d" for k R
    by (rule delivers_bindE, rule delivers_loadHandoff [OF m], rule that)
  show ?thesis
    unfolding RecordAuthoritativeEvent_def stamp Let_def bindE_ret
    using sig acc new accepted by (auto simp: accepts_def intro!: run)
qed

section \<open>What the lifecycle reads\<close>

text \<open>What is left of a handoff and of an event when the times and identifiers are wiped.\<close>

definition core :: "Handoff \<Rightarrow> Handoff" where
  "core h = h\<lparr>h_LeasedAt := None, h_LeaseExpiresAt := None, h_CompletedAt := None,
     h_UpdatedAt := 0, h_LastAuthoritativeEventID := []\<rparr>"

definition report :: "EventRecord \<Rightarrow> EventRecord" where
  "report e = e\<lparr>ev_ID := [], ev_WorkflowID := [], ev_HandoffID := [], ev_ProducerEventTime := 0,
     ev_IngestedAt := 0, ev_Accepted := False, ev_IdempotencyKey := []\<rparr>"

lemma core_fields [simp]:
  "h_State (core h) = h_State h" "h_ReviewDecision (core h) = h_ReviewDecision h"
  "h_DeliveryTargetRef (core h) = h_DeliveryTargetRef h" "h_ReceiverActor (core h) = h_ReceiverActor h"
  "h_ReviewerActor (core h) = h_ReviewerActor h" "h_LeaseHolder (core h) = h_LeaseHolder h"
  "h_CurrentOwner (core h) = h_CurrentOwner h" "h_StateVersion (core h) = h_StateVersion h"
  "h_ID (core h) = h_ID h" "h_WorkflowID (core h) = h_WorkflowID h"
  by (simp_all add: core_def)

lemma core_requires [simp]:
  "requiresReview (core h) = requiresReview h" "requiresArtifacts (core h) = requiresArtifacts h"
  "requiresSubmitted (core h) = requiresSubmitted h" "requiredArtifactCount (core h) = requiredArtifactCount h"
  "h_HasReceived (core h) = h_HasReceived h" "h_HasClaimed (core h) = h_HasClaimed h"
  "h_HasStarted (core h) = h_HasStarted h" "h_HasCheckpointed (core h) = h_HasCheckpointed h"
  "h_HasSubmitted (core h) = h_HasSubmitted h" "h_HasReviewed (core h) = h_HasReviewed h"
  "h_ArtifactCount (core h) = h_ArtifactCount h"
  by (simp_all add: core_def requiresReview_def requiresArtifacts_def requiresSubmitted_def requiredArtifactCount_def)

lemma core_predicates [simp]:
  "validateCompletionPrereqs (core h) = validateCompletionPrereqs h"
  "canTransitionToCompleted (core h) = canTransitionToCompleted h"
  "revisionRequested (core h) = revisionRequested h"
  by (simp_all add: validateCompletionPrereqs_def canTransitionToCompleted_def revisionRequested_def
      split: HandoffState.split)

lemma core_wf [simp]: "lifecycle_wf (core h) = lifecycle_wf h"
  by (simp add: lifecycle_wf_def flag_chain_def state_flags_def split: HandoffState.split)

lemma report_fields [simp]:
  "ev_Type (report e) = ev_Type e" "ev_ProducerActor (report e) = ev_ProducerActor e"
  "ev_SubjectActor (report e) = ev_SubjectActor e" "ev_ArtifactCount (report e) = ev_ArtifactCount e"
  "ev_ReviewDecision (report e) = ev_ReviewDecision e"
  by (simp_all add: report_def)

lemma core_accepts:
  assumes "lifecycle_wf h" and "\<not> transportResult (ev_Type e)"
  shows "accepts (core h) (report e) = accepts h e"
proof -
  have "side_condition (core h) (report e) (ev_Type e) = side_condition h e (ev_Type e)"
    by (cases "ev_Type e") simp_all
  moreover have "authority (core h) (report e) (ev_Type e) = authority h e (ev_Type e)"
    by (cases "ev_Type e") (simp_all add: worker_authority_def named_authority_def system_authority_def)
  ultimately show ?thesis using assms by (simp add: accepts_exactly)
qed

lemma core_dispatch:
  assumes "dispatchCase h e = Inr n" and "dispatchCase (core h) (report e) = Inr n'"
  shows "core n' = core n"
  using assms
  by (cases "ev_Type e") (simp_all add: dispatchCase_def apply_cases, simp_all add: core_def with_lease_def)

lemma core_next:
  assumes "lifecycle_wf h" and "\<not> transportResult (ev_Type e)"
  shows "core (machine_next (core h) (report e)) = core (machine_next h e)"
proof (cases "accepts h e")
  case True
  with assms have acc: "accepts (core h) (report e)" by (simp add: core_accepts)
  from True assms obtain n where n: "dispatchCase h e = Inr n" by (auto simp: accepts_iff wf_hydrated)
  from acc assms obtain n' where n': "dispatchCase (core h) (report e) = Inr n'"
    by (auto simp: accepts_iff wf_hydrated)
  have eq: "core n' = core n" by (rule core_dispatch [OF n n'])
  have "machine_next h e = n\<lparr>h_StateVersion := h_StateVersion n + 1\<rparr>"
    using machine_next_Inr [of e h n] bump_wf [OF n] n assms by (simp add: wf_hydrated)
  moreover have "machine_next (core h) (report e) = n'\<lparr>h_StateVersion := h_StateVersion n' + 1\<rparr>"
    using machine_next_Inr [of "report e" "core h" n'] bump_wf [OF n'] n' assms by (simp add: wf_hydrated)
  moreover have "h_StateVersion n' = h_StateVersion n" using arg_cong [OF eq, of h_StateVersion] by simp
  moreover have "core (k\<lparr>h_StateVersion := v\<rparr>) = (core k)\<lparr>h_StateVersion := v\<rparr>" for k v
    by (simp add: core_def)
  ultimately show ?thesis using eq by simp
next
  case False
  with assms show ?thesis by (simp add: core_accepts machine_next_reject) (simp add: core_def)
qed

lemma dispatchCase_static: "dispatchCase m e = Inr n \<Longrightarrow> preserveStaticHandoffFields n m = n"
  by (cases "ev_Type e")
    (auto simp: dispatchCase_def apply_cases preserveStaticHandoffFields_def with_lease_def)

lemma machine_next_static:
  assumes "lifecycle_wf m"
  shows "preserveStaticHandoffFields (machine_next m e) m = machine_next m e"
  using assms
proof (cases rule: machine_next_cases [of m e])
  case (advance n)
  have "preserveStaticHandoffFields (n\<lparr>h_StateVersion := v\<rparr>) m = (preserveStaticHandoffFields n m)\<lparr>h_StateVersion := v\<rparr>" for v
    by (simp add: preserveStaticHandoffFields_def)
  with advance show ?thesis using dispatchCase_static [of m e n] by simp
qed (simp_all add: preserveStaticHandoffFields_def)

text \<open>The stored projection is the machine's state, up to the two fields that record the event.\<close>

lemma core_projection:
  assumes "lifecycle_wf m" and "accepts m e"
  shows "core (projection_of m e) = core (machine_next m e)"
proof -
  have "fst (Apply (NewStateMachine m) e) = machine_next m e"
    using assms by (simp add: NewStateMachine_wf machine_next_def)
  then show ?thesis
    by (simp add: projection_of_def core_def machine_next_static [OF assms(1)])
qed

section \<open>Driving a handoff to completion\<close>

text \<open>A client that records one event after the other and stops at the first refusal.\<close>

definition record_all :: "EventRecord list \<Rightarrow> unit sop" where
  "record_all es = forE es (\<lambda>e.
     bindE (RecordAuthoritativeEvent e) (\<lambda>r. case snd r of None \<Rightarrow> ret () | Some err \<Rightarrow> throw err))"

lemma record_all_Cons:
  assumes "delivers (RecordAuthoritativeEvent e) (\<lambda>r d'. snd r = None \<and> d' = d1) d"
    and "delivers (record_all es) Q d1"
  shows "delivers (record_all (e # es)) Q d"
proof -
  have "delivers (RecordAuthoritativeEvent e) (\<lambda>r. delivers
      (bindE (case snd r of None \<Rightarrow> ret () | Some err \<Rightarrow> throw err) (\<lambda>_. record_all es)) Q) d"
    by (rule delivers_mono [OF assms(1)]) (use assms(2) in simp)
  then show ?thesis by (simp add: record_all_def bindE_assoc delivers_bindE)
qed

lemma milestone_not_signal:
  "lifecycle_wf m \<Longrightarrow> accepts m e \<Longrightarrow> \<not> transportResult (ev_Type e) \<Longrightarrow> \<not> isObservedSignalEvent (ev_Type e)"
  by (cases "ev_Type e") (simp_all add: accepts_iff wf_hydrated dispatchCase_def isObservedSignalEvent_def)

definition addressed :: "EventRecord \<Rightarrow> string \<Rightarrow> Handoff \<Rightarrow> EventRecord" where
  "addressed e i m = e\<lparr>ev_ID := i, ev_WorkflowID := h_WorkflowID m, ev_HandoffID := h_ID m,
     ev_ProducerEventTime := 1, ev_IngestedAt := 1, ev_Accepted := False, ev_IdempotencyKey := []\<rparr>"

lemma fresh_id: "\<exists>i. i \<noteq> [] \<and> i \<notin> ev_ID ` set (es :: EventRecord list)"
proof -
  have "infinite (UNIV :: string set)" by (rule infinite_UNIV_listI)
  moreover have "finite (insert [] (ev_ID ` set es))" by simp
  ultimately have "\<exists>i. i \<notin> insert [] (ev_ID ` set es)" by (rule ex_new_if_finite)
  then show ?thesis by blast
qed

lemma record_milestone:
  assumes inv: "store_inv d" and k: "find_by h_ID (h_ID m) (st_handoffs d) = Some k" and eq: "core k = core m"
    and wf: "lifecycle_wf m" and acc: "accepts m e" and step: "\<not> transportResult (ev_Type e)"
    and w: "h_WorkflowID m \<noteq> []" and i: "i \<noteq> []" "i \<notin> ev_ID ` set (st_accepted d)"
  obtains d1 k1 where
    "delivers (RecordAuthoritativeEvent (addressed e i m)) (\<lambda>r d'. snd r = None \<and> d' = d1) d"
    and "store_inv d1" and "find_by h_ID (h_ID m) (st_handoffs d1) = Some k1" and "core k1 = core (machine_next m e)"
proof
  let ?x = "addressed e i m" and ?y = "(addressed e i m)\<lparr>ev_Accepted := True\<rparr>"
  have wfk: "lifecycle_wf k" using core_wf [of k] core_wf [of m] eq wf by simp
  have rep: "report ?x = report e" "report ?y = report e" by (simp_all add: report_def addressed_def)
  have type: "ev_Type ?x = ev_Type e" "ev_HandoffID ?x = h_ID m" "ev_HandoffID ?y = h_ID m" "ev_Type ?y = ev_Type e"
    by (simp_all add: addressed_def)
  have wid: "h_WorkflowID k = h_WorkflowID m" using core_fields(10) [of k] core_fields(10) [of m] eq by simp
  have acck: "accepts k z" if "report z = report e" for z
    using core_accepts [OF wfk, of z] core_accepts [OF wf step] acc eq that step report_fields(1) [of z]
      report_fields(1) [of e] by simp
  have rec: "recordable d k ?x"
    using i w wid by (simp add: recordable_def addressed_def is_zero_def)
  show "delivers (RecordAuthoritativeEvent ?x) (\<lambda>r d'. snd r = None \<and> d' = commit_event k ?y d) d"
    using inv k acck [OF rep(1)] milestone_not_signal [OF wf acc step] rec
    by (intro record_delivers) (simp_all add: type)
  show "store_inv (commit_event k ?y d)"
    using i inv_handoff [OF inv k] wid
    by (intro commit_event_inv inv acck [OF rep(2)]) (simp_all add: k addressed_def)
  have "h_ID k = h_ID m" using find_by_Some [OF k] by simp
  then show "find_by h_ID (h_ID m) (st_handoffs (commit_event k ?y d)) = Some (projection_of k ?y)"
    using k by (simp add: commit_event_def find_by_upsert)
  have "core (projection_of k ?y) = core (machine_next k ?y)"
    by (rule core_projection [OF wfk acck [OF rep(2)]])
  also have "\<dots> = core (machine_next m e)"
    using core_next [OF wfk, of ?y] core_next [OF wf step] eq rep(2) step type by simp
  finally show "core (projection_of k ?y) = core (machine_next m e)" .
qed

lemma drive:
  assumes "store_inv d" and "find_by h_ID (h_ID m) (st_handoffs d) = Some k" and "core k = core m"
    and "lifecycle_wf m" and "h_WorkflowID m \<noteq> []"
  shows "\<exists>xs. delivers (record_all xs) (\<lambda>_ d'. store_inv d' \<and>
    (\<exists>h. find_by h_ID (h_ID m) (st_handoffs d') = Some h \<and> core h = core (run m es))) d"
  using assms
proof (induction es arbitrary: d k m)
  case Nil
  then show ?case by (intro exI [of _ "[]"]) (simp add: record_all_def delivers_ret)
next
  case (Cons e es)
  note wf = Cons.prems(4)
  show ?case
  proof (cases "accepts m e \<and> \<not> transportResult (ev_Type e)")
    case True
    obtain i where i: "i \<noteq> []" "i \<notin> ev_ID ` set (st_accepted d)" using fresh_id by blast
    obtain d1 k1 where one: "delivers (RecordAuthoritativeEvent (addressed e i m)) (\<lambda>r d'. snd r = None \<and> d' = d1) d"
      and d1: "store_inv d1" "find_by h_ID (h_ID m) (st_handoffs d1) = Some k1" "core k1 = core (machine_next m e)"
      using record_milestone [OF Cons.prems(1-4) _ _ Cons.prems(5) i] True by metis
    have same: "h_ID (machine_next m e) = h_ID m" "h_WorkflowID (machine_next m e) = h_WorkflowID m"
      using machine_next_terms [OF wf, of e] by (simp_all add: same_terms_def)
    have "\<exists>xs. delivers (record_all xs) (\<lambda>_ d'. store_inv d' \<and>
        (\<exists>h. find_by h_ID (h_ID (machine_next m e)) (st_handoffs d') = Some h
           \<and> core h = core (run (machine_next m e) es))) d1"
      using d1 Cons.prems(5) by (intro Cons.IH [where k = k1] machine_next_wf [OF wf]) (simp_all add: same)
    then show ?thesis using record_all_Cons [OF one] same by auto
  next
    case False
    with wf have "machine_next m e = m" by (auto simp: machine_next_reject machine_next_transport)
    then show ?thesis using Cons by simp
  qed
qed

lemma service_can_complete:
  assumes inv: "store_inv d" and m: "find_by h_ID i (st_handoffs d) = Some m" and ready: "ready m"
    and alive: "\<not> doomed m" and w: "h_WorkflowID m \<noteq> []"
  shows "\<exists>xs. delivers (record_all xs) (\<lambda>_ d'. store_inv d' \<and>
    (\<exists>h. find_by h_ID i (st_handoffs d') = Some h \<and> h_State h = StateCompleted)) d"
proof -
  from completable_iff [OF ready] alive obtain es where es: "h_State (run m es) = StateCompleted"
    by (auto simp: completable_def)
  have "h_ID m = i" using find_by_Some [OF m] by simp
  with drive [OF inv, of m m es] m ready w obtain xs where
    "delivers (record_all xs) (\<lambda>_ d'. store_inv d' \<and>
      (\<exists>h. find_by h_ID i (st_handoffs d') = Some h \<and> core h = core (run m es))) d"
    by (auto simp: ready_def)
  then have "delivers (record_all xs) (\<lambda>_ d'. store_inv d' \<and>
      (\<exists>h. find_by h_ID i (st_handoffs d') = Some h \<and> h_State h = StateCompleted)) d"
    by (rule delivers_mono) (metis core_fields(1) es)
  then show ?thesis by blast
qed

text \<open>Such a run is a sequence of service steps.\<close>

lemma record_all_steps: "record_all xs w = (r, w') \<Longrightarrow> service_step\<^sup>*\<^sup>* (w_db w) (w_db w')"
proof (induction xs arbitrary: w r)
  case Nil
  then show ?case by (simp add: record_all_def ret_def)
next
  case (Cons e xs)
  obtain q w1 where one: "RecordAuthoritativeEvent e w = (q, w1)" by fastforce
  then have "service_step (w_db w) (w_db w1)" by (rule service_step.intros)
  moreover have "service_step\<^sup>*\<^sup>* (w_db w1) (w_db w')"
    using Cons one
    by (auto simp: record_all_def bindE_def ret_def throw_def split: sum.splits prod.splits option.splits)
  ultimately show ?case by (rule converse_rtranclp_into_rtranclp)
qed

lemma delivers_reaches:
  assumes "delivers (record_all xs) (\<lambda>_. P) d"
  obtains d' where "service_step\<^sup>*\<^sup>* d d'" and "P d'"
proof -
  let ?w = "\<lparr>w_db = d, w_faults = [], w_uuid = (\<lambda>_. None), w_ids = 0, w_clock = (\<lambda>_. 0), w_tick = 0\<rparr>"
  from assms have "delivers (record_all xs) (\<lambda>_. P) (w_db ?w)" by simp
  then obtain a w' where run: "record_all xs ?w = (Inr a, w')" "P (w_db w')" by (rule deliversD) auto
  from record_all_steps [OF run(1)] have "service_step\<^sup>*\<^sup>* d (w_db w')" by simp
  then show thesis using run(2) by (rule that)
qed

section \<open>Outdated projections\<close>

lemma stale_write:
  assumes h: "find_by h_ID (h_ID h) (st_handoffs d) = Some old" and v: "h_StateVersion old \<noteq> v"
    and keys: "distinct (map h_ID (st_handoffs d))"
  shows "guarantees (saveProjectedHandoffTx h v) (\<lambda>_ _. False) (\<lambda>d'. d' = d) d"
proof -
  let ?hit = "\<lambda>r. h_ID r = h_ID h \<and> h_StateVersion r = v"
  have "\<not> ?hit r" if "r \<in> set (st_handoffs d)" for r
    using find_by_unique [OF keys that] h v by auto
  then have "count_where ?hit (st_handoffs d) = 0" by (simp add: count_where_def filter_empty_conv)
  moreover from this have "update_where ?hit (\<lambda>_. h) (st_handoffs d) = st_handoffs d"
    by (rule update_where_none)
  ultimately show ?thesis
    unfolding saveProjectedHandoffTx_def Let_def by (intro vcg) simp_all
qed

end
