(* ===== verification/Orch_Evidence.thy ===== *)
theory Orch_Evidence
  imports Orch_Queue
begin

text \<open>
  \<open>internal/orchestrator/evidence_summary.go\<close>: a read-only summary of one workflow or of all of
  them, put together from the status views, the work queues, watches, repairs, divergences and
  registered agents, with its lists sorted.
\<close>

section \<open>Data\<close>

record CoordinationEvidenceQuery =
  ceq_WorkflowID :: string
  ceq_IncludeAgents :: bool

record CoordinationEvidenceHandoff =
  ceh_ID :: string
  ceh_WorkflowID :: string
  ceh_State :: string
  ceh_TaskKind :: string
  ceh_Required :: bool
  ceh_DependsOnHandoffIDs :: "string list"
  ceh_ReceiverID :: string
  ceh_CurrentOwnerID :: string
  ceh_WatchCount :: nat
  ceh_RepairCount :: nat
  ceh_DivergenceCount :: nat

record CoordinationEvidenceWorkflow =
  cew_ID :: string
  cew_Kind :: string
  cew_Status :: string
  cew_CurrentHandoffID :: string
  cew_HandoffCount :: nat
  cew_WatchCount :: nat
  cew_RepairCount :: nat
  cew_DivergenceCount :: nat
  cew_BlockedCount :: nat
  cew_NextWorkCount :: nat
  cew_Handoffs :: "CoordinationEvidenceHandoff list"

record CoordinationEvidenceBlockReason =
  cebr_WorkflowID :: string
  cebr_HandoffID :: string
  cebr_Type :: string
  cebr_Detail :: string

record CoordinationEvidenceSuggestion =
  cesg_WorkflowID :: string
  cesg_HandoffID :: string
  cesg_Action :: string
  cesg_Reason :: string

record CoordinationEvidenceAgent =
  cea_ID :: string
  cea_Status :: string
  cea_Capabilities :: "string list"
  cea_TaskKinds :: "string list"
  cea_LastHeartbeat :: "time option"

record CoordinationEvidenceSummary =
  ces_GeneratedAt :: time
  ces_WorkflowCount :: nat
  ces_HandoffCount :: nat
  ces_WatchCount :: nat
  ces_RepairCount :: nat
  ces_DivergenceCount :: nat
  ces_BlockedCount :: nat
  ces_NextWorkCount :: nat
  ces_AgentCount :: nat
  ces_Workflows :: "CoordinationEvidenceWorkflow list"
  ces_BlockedReasons :: "CoordinationEvidenceBlockReason list"
  ces_Suggestions :: "CoordinationEvidenceSuggestion list"
  ces_Agents :: "CoordinationEvidenceAgent list"

section \<open>Entries\<close>

definition coordinationEvidenceBlockReason ::
  "string \<Rightarrow> string \<Rightarrow> WorkBlockReason \<Rightarrow> CoordinationEvidenceBlockReason" where
  "coordinationEvidenceBlockReason workflowID handoffID r =
     (let detail0 = wbr_Detail r;
          detail1 = (if wbr_DependencyHandoffID r \<noteq> []
            then trimSpace (detail0 @ '' dependency='' @ wbr_DependencyHandoffID r) else detail0);
          detail2 = (if wbr_WatchID r \<noteq> [] then trimSpace (detail1 @ '' watch='' @ wbr_WatchID r) else detail1) in
      \<lparr>cebr_WorkflowID = workflowID, cebr_HandoffID = handoffID, cebr_Type = wbr_Code r, cebr_Detail = detail2\<rparr>)"

definition coordinationEvidenceSuggestion ::
  "string \<Rightarrow> string \<Rightarrow> ActionSuggestion \<Rightarrow> CoordinationEvidenceSuggestion" where
  "coordinationEvidenceSuggestion workflowID handoffID s = \<lparr>cesg_WorkflowID = workflowID,
     cesg_HandoffID = handoffID, cesg_Action = sug_Code s, cesg_Reason = sug_Summary s\<rparr>"

definition coordinationEvidenceTaskKinds :: "TaskKind list \<Rightarrow> string list" where
  "coordinationEvidenceTaskKinds kinds = map (\<lambda>k. k) kinds"

definition coordinationEvidenceAgent :: "AgentRegistration \<Rightarrow> CoordinationEvidenceAgent" where
  "coordinationEvidenceAgent a = \<lparr>cea_ID = actor_ID (agent_Actor a), cea_Status = agentStatus a,
     cea_Capabilities = agent_Capabilities a, cea_TaskKinds = coordinationEvidenceTaskKinds (agent_TaskKinds a),
     cea_LastHeartbeat = agent_LastHeartbeatAt a\<rparr>"

definition sortCoordinationEvidenceAgents :: "CoordinationEvidenceAgent list \<Rightarrow> CoordinationEvidenceAgent list" where
  "sortCoordinationEvidenceAgents agents = sort_key cea_ID agents"

definition blockReasonKey :: "CoordinationEvidenceBlockReason \<Rightarrow> string \<times> string \<times> string \<times> string" where
  "blockReasonKey r = (cebr_WorkflowID r, cebr_HandoffID r, cebr_Type r, cebr_Detail r)"

definition sortCoordinationEvidenceBlockReasons ::
  "CoordinationEvidenceBlockReason list \<Rightarrow> CoordinationEvidenceBlockReason list" where
  "sortCoordinationEvidenceBlockReasons reasons = sort_key blockReasonKey reasons"

definition evidenceSuggestionKey :: "CoordinationEvidenceSuggestion \<Rightarrow> string \<times> string \<times> string \<times> string" where
  "evidenceSuggestionKey s = (cesg_WorkflowID s, cesg_HandoffID s, cesg_Action s, cesg_Reason s)"

definition sortCoordinationEvidenceSuggestions ::
  "CoordinationEvidenceSuggestion list \<Rightarrow> CoordinationEvidenceSuggestion list" where
  "sortCoordinationEvidenceSuggestions suggestions = sort_key evidenceSuggestionKey suggestions"

section \<open>One workflow\<close>

definition coordinationEvidenceHandoff :: "Handoff \<Rightarrow> CoordinationEvidenceHandoff sop" where
  "coordinationEvidenceHandoff h =
     bindE (ListWatches (h_ID h)) (\<lambda>watches.
     bindE (ListRepairs (h_ID h)) (\<lambda>repairs.
     bindE (ListDivergences (h_ID h)) (\<lambda>divergences.
     ret \<lparr>ceh_ID = h_ID h, ceh_WorkflowID = h_WorkflowID h, ceh_State = handoffStateText (h_State h),
          ceh_TaskKind = h_TaskKind h, ceh_Required = h_RequiredForWorkflowCompletion h,
          ceh_DependsOnHandoffIDs = h_DependsOnHandoffIDs h, ceh_ReceiverID = actor_ID (h_ReceiverActor h),
          ceh_CurrentOwnerID = actor_ID (h_CurrentOwner h), ceh_WatchCount = length watches,
          ceh_RepairCount = length repairs, ceh_DivergenceCount = length divergences\<rparr>)))"

definition addHandoffEvidence :: "CoordinationEvidenceWorkflow \<Rightarrow> CoordinationEvidenceHandoff \<Rightarrow> CoordinationEvidenceWorkflow" where
  "addHandoffEvidence s h = s\<lparr>cew_WatchCount := cew_WatchCount s + ceh_WatchCount h,
     cew_RepairCount := cew_RepairCount s + ceh_RepairCount h,
     cew_DivergenceCount := cew_DivergenceCount s + ceh_DivergenceCount h,
     cew_Handoffs := cew_Handoffs s @ [h]\<rparr>"

definition workOf :: "string \<Rightarrow> WorkQuery" where
  "workOf workflowID = \<lparr>wq_AgentID = [], wq_Capability = [], wq_ProjectRef = [], wq_WorkflowID = workflowID,
     wq_TaskKind = [], wq_Limit = 0\<rparr>"

type_synonym workflow_evidence = "CoordinationEvidenceWorkflow \<times> CoordinationEvidenceBlockReason list \<times>
  CoordinationEvidenceSuggestion list"

definition coordinationEvidenceWorkflow :: "Workflow \<times> Handoff list \<Rightarrow> workflow_evidence sop" where
  "coordinationEvidenceWorkflow view = (case view of (workflow, handoffs) \<Rightarrow>
     bindE (BlockedWork (workOf (wf_ID workflow))) (\<lambda>blocked.
     bindE (NextWork (workOf (wf_ID workflow))) (\<lambda>nextItems.
     let start = \<lparr>cew_ID = wf_ID workflow, cew_Kind = wf_Kind workflow,
           cew_Status = workflowStatusText (wf_Status workflow), cew_CurrentHandoffID = wf_CurrentHandoffID workflow,
           cew_HandoffCount = length handoffs, cew_WatchCount = 0, cew_RepairCount = 0, cew_DivergenceCount = 0,
           cew_BlockedCount = length blocked, cew_NextWorkCount = length nextItems, cew_Handoffs = []\<rparr>;
         reasons = concat (map (\<lambda>item. map (coordinationEvidenceBlockReason (wf_ID (bwi_Workflow item))
           (h_ID (bwi_Handoff item))) (bwi_Reasons item)) blocked);
         suggestions = concat (map (\<lambda>item. map (coordinationEvidenceSuggestion (wf_ID (bwi_Workflow item))
           (h_ID (bwi_Handoff item))) (bwi_Suggestions item)) blocked) in
     bindE (foldE (\<lambda>s h. bindE (coordinationEvidenceHandoff h) (\<lambda>e. ret (addHandoffEvidence s e))) start handoffs)
       (\<lambda>s. ret (s, reasons, suggestions)))))"

definition coordinationEvidenceWorkflowViews :: "string \<Rightarrow> (Workflow \<times> Handoff list) list sop" where
  "coordinationEvidenceWorkflowViews workflowID =
     (if workflowID \<noteq> [] then bindE (WorkflowStatusView workflowID) (\<lambda>view. ret [view])
      else bindE ListWorkflows (\<lambda>workflows. mapE (\<lambda>workflow. WorkflowStatusView (wf_ID workflow)) workflows))"

section \<open>The summary\<close>

definition addWorkflowEvidence :: "CoordinationEvidenceSummary \<Rightarrow> workflow_evidence \<Rightarrow> CoordinationEvidenceSummary" where
  "addWorkflowEvidence s evidence = (case evidence of (w, reasons, suggestions) \<Rightarrow>
     s\<lparr>ces_Workflows := ces_Workflows s @ [w],
       ces_HandoffCount := ces_HandoffCount s + cew_HandoffCount w,
       ces_WatchCount := ces_WatchCount s + cew_WatchCount w,
       ces_RepairCount := ces_RepairCount s + cew_RepairCount w,
       ces_DivergenceCount := ces_DivergenceCount s + cew_DivergenceCount w,
       ces_BlockedCount := ces_BlockedCount s + cew_BlockedCount w,
       ces_NextWorkCount := ces_NextWorkCount s + cew_NextWorkCount w,
       ces_BlockedReasons := ces_BlockedReasons s @ reasons,
       ces_Suggestions := ces_Suggestions s @ suggestions\<rparr>)"

definition EmptySummary :: "time \<Rightarrow> CoordinationEvidenceSummary" where
  "EmptySummary now = \<lparr>ces_GeneratedAt = now, ces_WorkflowCount = 0, ces_HandoffCount = 0, ces_WatchCount = 0,
     ces_RepairCount = 0, ces_DivergenceCount = 0, ces_BlockedCount = 0, ces_NextWorkCount = 0, ces_AgentCount = 0,
     ces_Workflows = [], ces_BlockedReasons = [], ces_Suggestions = [], ces_Agents = []\<rparr>"

definition addAgents :: "bool \<Rightarrow> CoordinationEvidenceSummary \<Rightarrow> CoordinationEvidenceSummary sop" where
  "addAgents include s =
     (if include then
        bindE (ListAgents \<lparr>alf_Capability = [], alf_ProjectRef = [], alf_TaskKind = [], alf_Status = []\<rparr>) (\<lambda>agents.
        ret (s\<lparr>ces_AgentCount := length agents,
               ces_Agents := sortCoordinationEvidenceAgents (map coordinationEvidenceAgent agents)\<rparr>))
      else ret s)"

definition CoordinationEvidenceSummaryOp :: "CoordinationEvidenceQuery \<Rightarrow> CoordinationEvidenceSummary sop" where
  "CoordinationEvidenceSummaryOp q =
     bindE now_op (\<lambda>now.
     bindE (coordinationEvidenceWorkflowViews (trimSpace (ceq_WorkflowID q))) (\<lambda>views.
     bindE (foldE (\<lambda>s view. bindE (coordinationEvidenceWorkflow view) (\<lambda>e. ret (addWorkflowEvidence s e)))
        (EmptySummary now) views) (\<lambda>s.
     bindE (addAgents (ceq_IncludeAgents q) (s\<lparr>ces_WorkflowCount := length (ces_Workflows s)\<rparr>)) (\<lambda>t.
     ret (t\<lparr>ces_BlockedReasons := sortCoordinationEvidenceBlockReasons (ces_BlockedReasons t),
            ces_Suggestions := sortCoordinationEvidenceSuggestions (ces_Suggestions t)\<rparr>)))))"

section \<open>What the summary counts\<close>

definition handoffsOf :: "store \<Rightarrow> Workflow \<Rightarrow> Handoff list" where
  "handoffsOf d w = order_by h_CreatedAt h_ID (filter (\<lambda>h. h_WorkflowID h = wf_ID w) (st_handoffs d))"

definition repairs_of :: "store \<Rightarrow> string \<Rightarrow> RepairRecord list" where
  "repairs_of d h = filter (\<lambda>r. h = [] \<or> repair_TargetType r = ''handoff'' \<and> repair_TargetID r = h
     \<or> repair_InvalidatesID r \<in> ev_ID ` {e \<in> set (st_accepted d). ev_HandoffID e = h}) (st_repairs d)"

definition divergences_of :: "store \<Rightarrow> string \<Rightarrow> ObserverHint list" where
  "divergences_of d h = filter (\<lambda>x. hint_HandoffID x = h) (st_divergences d)"

lemma length_order_by [simp]: "length (order_by t i rows) = length rows"
  by (simp add: order_by_def)

lemma mset_order_by [simp]: "mset (order_by t i rows) = mset rows"
  by (simp add: order_by_def)

definition handoff_evidence_ok :: "store \<Rightarrow> Handoff \<Rightarrow> CoordinationEvidenceHandoff \<Rightarrow> bool" where
  "handoff_evidence_ok d h e \<longleftrightarrow> ceh_ID e = h_ID h \<and> ceh_State e = handoffStateText (h_State h)
     \<and> ceh_WatchCount e = length (watches_of d (h_ID h)) \<and> ceh_RepairCount e = length (repairs_of d (h_ID h))
     \<and> ceh_DivergenceCount e = length (divergences_of d (h_ID h))"

lemma guarantees_handoffEvidence:
  assumes "E d" and "\<And>e. handoff_evidence_ok d h e \<Longrightarrow> Q e d"
  shows "guarantees (coordinationEvidenceHandoff h) Q E d"
  unfolding coordinationEvidenceHandoff_def ListRepairs_def ListDivergences_def
  by (intro vcg assms)
    (simp_all add: handoff_evidence_ok_def watches_of_def repairs_of_def divergences_of_def)

text \<open>A fold that reads one entry per row, the rows being related to those of another list.\<close>

lemma guarantees_foldE_rows:
  assumes "list_all2 R zs xs"
    and "\<And>z x. R z x \<Longrightarrow> guarantees (f x) (\<lambda>y d'. d' = d \<and> P z y) (\<lambda>d'. d' = d) d"
    and "E d" and "\<And>ys. list_all2 P zs ys \<Longrightarrow> Q (foldl g s ys) d"
  shows "guarantees (foldE (\<lambda>s x. bindE (f x) (\<lambda>y. ret (g s y))) s xs) Q E d"
  using assms(1,4)
proof (induction arbitrary: s rule: list_all2_induct)
  case Nil
  then show ?case by (auto intro!: vcg)
next
  case (Cons z zs x xs)
  have "guarantees (foldE (\<lambda>s x. bindE (f x) (\<lambda>y. ret (g s y))) (g s y) xs) Q E d" if "P z y" for y
  proof (rule Cons.IH)
    fix ys
    assume "list_all2 P zs ys"
    with that Cons.prems [of "y # ys"] show "Q (foldl g (g s y) ys) d" by simp
  qed
  with assms(2) [OF Cons.hyps(1)] assms(3) show ?case
    by (auto intro!: vcg elim!: guarantees_mono)
qed

lemma added_handoffs:
  "let t = foldl addHandoffEvidence s es in
   cew_ID t = cew_ID s \<and> cew_Status t = cew_Status s \<and> cew_HandoffCount t = cew_HandoffCount s \<and> cew_BlockedCount t = cew_BlockedCount s
   \<and> cew_NextWorkCount t = cew_NextWorkCount s \<and> cew_Handoffs t = cew_Handoffs s @ es
   \<and> cew_WatchCount t = cew_WatchCount s + sum_list (map ceh_WatchCount es)
   \<and> cew_RepairCount t = cew_RepairCount s + sum_list (map ceh_RepairCount es)
   \<and> cew_DivergenceCount t = cew_DivergenceCount s + sum_list (map ceh_DivergenceCount es)"
  by (induction es arbitrary: s) (simp_all add: Let_def addHandoffEvidence_def)

lemma list_all2_map_fields:
  "list_all2 (\<lambda>x y. f y = g x) xs ys \<Longrightarrow> map f ys = map g xs"
  by (induction rule: list_all2_induct) auto

definition blocked_entries ::
  "BlockedWorkItem list \<Rightarrow> CoordinationEvidenceBlockReason list \<times> CoordinationEvidenceSuggestion list" where
  "blocked_entries items =
     ([coordinationEvidenceBlockReason (wf_ID (bwi_Workflow item)) (h_ID (bwi_Handoff item)) r.
         item \<leftarrow> items, r \<leftarrow> bwi_Reasons item],
      [coordinationEvidenceSuggestion (wf_ID (bwi_Workflow item)) (h_ID (bwi_Handoff item)) s.
         item \<leftarrow> items, s \<leftarrow> bwi_Suggestions item])"

text \<open>The status a view shows: the projected one, or blocked instead of active when a watch is due.\<close>

definition status_shown :: "Handoff list \<Rightarrow> WorkflowStatus \<Rightarrow> bool" where
  "status_shown hs s \<longleftrightarrow> s = projected_status hs \<or> s = WorkflowBlocked \<and> projected_status hs = WorkflowActive"

definition evidence_status_ok :: "store \<Rightarrow> Workflow \<Rightarrow> CoordinationEvidenceWorkflow \<Rightarrow> bool" where
  "evidence_status_ok d w e \<longleftrightarrow> (\<exists>s. status_shown (handoffsOf d w) s \<and> cew_Status e = workflowStatusText s)"

definition workflow_evidence_ok :: "store \<Rightarrow> Workflow \<Rightarrow> workflow_evidence \<Rightarrow> bool" where
  "workflow_evidence_ok d w = (\<lambda>(e, reasons, suggestions).
     cew_ID e = wf_ID w \<and> evidence_status_ok d w e \<and> cew_HandoffCount e = length (handoffsOf d w)
     \<and> map ceh_ID (cew_Handoffs e) = map h_ID (handoffsOf d w)
     \<and> cew_WatchCount e = (\<Sum>h\<leftarrow>handoffsOf d w. length (watches_of d (h_ID h)))
     \<and> cew_RepairCount e = (\<Sum>h\<leftarrow>handoffsOf d w. length (repairs_of d (h_ID h)))
     \<and> cew_DivergenceCount e = (\<Sum>h\<leftarrow>handoffsOf d w. length (divergences_of d (h_ID h)))
     \<and> cew_NextWorkCount e = length (next_queue d (workOf (wf_ID w)))
     \<and> (\<exists>items. blocked_outcome d (workOf (wf_ID w)) items \<and> cew_BlockedCount e = length items
          \<and> (reasons, suggestions) = blocked_entries items))"

lemma next_outcome_length: "next_outcome d (workOf i) items \<Longrightarrow> length items = length (next_queue d (workOf i))"
  unfolding next_outcome_def workOf_def limitWorkItems_def
  by (auto dest!: mset_eq_length simp del: mset_map)

lemma guarantees_workflowEvidence:
  assumes "store_inv d" and "E d" and "handoffs = handoffsOf d w" and "wf_ID v = wf_ID w"
    and shown: "status_shown (handoffsOf d w) (wf_Status v)"
    and Q: "\<And>e. workflow_evidence_ok d w e \<Longrightarrow> Q e d"
  shows "guarantees (coordinationEvidenceWorkflow (v, handoffs)) Q E d"
proof -
  have loop: "guarantees (bindE (foldE (\<lambda>s h. bindE (coordinationEvidenceHandoff h) (\<lambda>e. ret (addHandoffEvidence s e))) start handoffs)
       (\<lambda>s. ret (s, blocked_entries items))) Q E d"
    if b: "blocked_outcome d (workOf (wf_ID w)) items" and n: "next_outcome d (workOf (wf_ID w)) nexts"
      and st: "cew_ID start = wf_ID w" "cew_Status start = workflowStatusText (wf_Status v)" "cew_HandoffCount start = length handoffs" "cew_BlockedCount start = length items"
        "cew_NextWorkCount start = length nexts" "cew_Handoffs start = []" "cew_WatchCount start = 0"
        "cew_RepairCount start = 0" "cew_DivergenceCount start = 0" for items nexts start
  proof (rule guarantees_bindE, rule guarantees_foldE_rows [where R = "(=)" and P = "handoff_evidence_ok d"])
    show "list_all2 (=) handoffs handoffs" by (rule list.rel_refl) simp
  next
    fix es
    assume es: "list_all2 (handoff_evidence_ok d) handoffs es"
    then have "map ceh_ID es = map h_ID handoffs"
      "map ceh_WatchCount es = map (\<lambda>h. length (watches_of d (h_ID h))) handoffs"
      "map ceh_RepairCount es = map (\<lambda>h. length (repairs_of d (h_ID h))) handoffs"
      "map ceh_DivergenceCount es = map (\<lambda>h. length (divergences_of d (h_ID h))) handoffs"
      by (auto intro!: list_all2_map_fields elim!: list_all2_mono simp: handoff_evidence_ok_def)
    then show "guarantees (ret (foldl addHandoffEvidence start es, blocked_entries items)) Q E d"
      using added_handoffs [of start es] b st next_outcome_length [OF n] assms(3) shown
      by (intro vcg Q) (auto simp: workflow_evidence_ok_def evidence_status_ok_def Let_def split: prod.split)
  qed (auto intro!: guarantees_handoffEvidence assms(2))
  show ?thesis
    unfolding coordinationEvidenceWorkflow_def prod.case Let_def assms(4)
    by (rule guarantees_bindE, rule guarantees_mono [OF BlockedWork_contract [OF assms(1)]], elim conjE, hypsubst,
        rule guarantees_bindE, rule guarantees_mono [OF NextWork_contract [OF assms(1)]], elim conjE, hypsubst,
        rule loop [unfolded blocked_entries_def])
      (simp_all add: assms(2))
qed

section \<open>The views\<close>

lemma ProjectWorkflow_ID [simp]: "wf_ID (ProjectWorkflow w hs now) = wf_ID w"
  by (simp add: ProjectWorkflow_def Let_def split: option.split prod.split)

lemma guarantees_blockedWatch [vcg]:
  assumes "E d" and "\<And>b. Q b d"
  shows "guarantees (workflowHasBlockedWatch hs) Q E d"
  using assms by (induction hs) (auto intro!: vcg)

lemma guarantees_statusView:
  assumes "store_inv d" and "E d"
    and "\<And>w v. find_by wf_ID i (st_workflows d) = Some w \<Longrightarrow> wf_ID v = wf_ID w \<Longrightarrow>
      status_shown (handoffsOf d w) (wf_Status v) \<Longrightarrow> Q (v, handoffsOf d w) d"
  shows "guarantees (WorkflowStatusView i) Q E d"
  unfolding WorkflowStatusView_def Let_def
proof (intro vcg guarantees_ListWorkflowHandoffs assms(2))
  show "distinct (map h_ID (st_handoffs d))" using assms(1) by (simp add: store_inv_def inv_keys)
  fix w now blocked
  assume w: "find_by wf_ID i (st_workflows d) = Some w"
  have "order_by h_CreatedAt h_ID (filter (\<lambda>h. h_WorkflowID h = i) (st_handoffs d)) = handoffsOf d w"
    using find_by_Some [OF w] by (simp add: handoffsOf_def)
  then show "Q (if blocked \<and> wf_Status (ProjectWorkflow w (order_by h_CreatedAt h_ID (filter (\<lambda>h. h_WorkflowID h = i) (st_handoffs d))) now) = WorkflowActive
      then (ProjectWorkflow w (order_by h_CreatedAt h_ID (filter (\<lambda>h. h_WorkflowID h = i) (st_handoffs d))) now)\<lparr>wf_Status := WorkflowBlocked\<rparr>
      else ProjectWorkflow w (order_by h_CreatedAt h_ID (filter (\<lambda>h. h_WorkflowID h = i) (st_handoffs d))) now,
      order_by h_CreatedAt h_ID (filter (\<lambda>h. h_WorkflowID h = i) (st_handoffs d))) d"
    using assms(3) [OF w] by (simp add: status_shown_def ProjectWorkflow_status)
qed

definition selectedWorkflows :: "store \<Rightarrow> string \<Rightarrow> Workflow list" where
  "selectedWorkflows d i =
     (if i \<noteq> [] then filter (\<lambda>w. wf_ID w = i) (st_workflows d) else order_by wf_CreatedAt wf_ID (st_workflows d))"

lemma guarantees_LoadWorkflows:
  assumes "E d" and "distinct (map wf_ID (st_workflows d))" and "set ws \<subseteq> set (st_workflows d)" and "Q ws d"
  shows "guarantees (mapE LoadWorkflow (map wf_ID ws)) Q E d"
proof (rule guarantees_mapE_rows)
  show "guarantees (LoadWorkflow i) (\<lambda>w d'. d' = d \<and> find_by wf_ID i (st_workflows d) = Some w) (\<lambda>d'. d' = d) d"
    for i by (intro vcg conjI) simp_all
  show "E d" by (rule assms)
  show "Q ks d" if "list_all2 (\<lambda>i w. find_by wf_ID i (st_workflows d) = Some w) (map wf_ID ws) ks" for ks
    using load_all [OF that assms(2,3)] assms(4) by simp
qed

lemma guarantees_ListWorkflows:
  assumes "E d" and "distinct (map wf_ID (st_workflows d))" and "Q (order_by wf_CreatedAt wf_ID (st_workflows d)) d"
  shows "guarantees ListWorkflows Q E d"
  unfolding ListWorkflows_def using assms by (intro vcg guarantees_LoadWorkflows) auto

lemma find_by_filter: "distinct (map key rows) \<Longrightarrow> find_by key k rows = Some r \<Longrightarrow> filter (\<lambda>x. key x = k) rows = [r]"
proof (induction rows)
  case (Cons x xs)
  then show ?case
    by (cases "key x = k") (auto simp: find_by_def filter_empty_conv intro: rev_image_eqI)
qed (simp add: find_by_def)

definition view_of :: "store \<Rightarrow> Workflow \<Rightarrow> Workflow \<times> Handoff list \<Rightarrow> bool" where
  "view_of d w view \<longleftrightarrow> wf_ID (fst view) = wf_ID w \<and> snd view = handoffsOf d w
     \<and> status_shown (handoffsOf d w) (wf_Status (fst view))"

lemma guarantees_views:
  assumes inv: "store_inv d" and "E d"
    and Q: "\<And>views. (i \<noteq> [] \<Longrightarrow> selectedWorkflows d i \<noteq> []) \<Longrightarrow>
      list_all2 (view_of d) (selectedWorkflows d i) views \<Longrightarrow> Q views d"
  shows "guarantees (coordinationEvidenceWorkflowViews i) Q E d"
proof -
  have keys: "distinct (map wf_ID (st_workflows d))" using inv by (simp add: store_inv_def inv_keys)
  have one: "Q [(v, handoffsOf d w)] d" if "i \<noteq> []" "find_by wf_ID i (st_workflows d) = Some w" "wf_ID v = wf_ID w"
      "status_shown (handoffsOf d w) (wf_Status v)" for v w
    using that find_by_filter [OF keys that(2)] by (intro Q) (simp_all add: selectedWorkflows_def view_of_def)
  have each: "guarantees (WorkflowStatusView (wf_ID w)) (\<lambda>view d'. d' = d \<and> view_of d w view) (\<lambda>d'. d' = d) d"
    if "w \<in> set (st_workflows d)" for w
    using find_by_unique [OF keys that] by (intro guarantees_statusView inv) (auto simp: view_of_def)
  show ?thesis
    unfolding coordinationEvidenceWorkflowViews_def
    by (intro vcg guarantees_statusView guarantees_ListWorkflows inv keys assms(2) one)
       (auto intro!: guarantees_mapE_rows [where P = "view_of d"] each assms(2) Q simp: selectedWorkflows_def)
qed

section \<open>The totals\<close>

definition coveredHandoffs :: "store \<Rightarrow> Workflow list \<Rightarrow> Handoff list" where
  "coveredHandoffs d ws = filter (\<lambda>h. h_WorkflowID h \<in> wf_ID ` set ws) (st_handoffs d)"

lemma mset_filter_or:
  "(\<And>x. x \<in> set xs \<Longrightarrow> \<not> (P x \<and> R x)) \<Longrightarrow>
   mset (filter (\<lambda>x. P x \<or> R x) xs) = mset (filter P xs) + mset (filter R xs)"
  by (induction xs) auto

lemma covered_split:
  "distinct (map wf_ID ws) \<Longrightarrow> mset (coveredHandoffs d ws) = (\<Sum>w\<leftarrow>ws. mset (handoffsOf d w))"
proof (induction ws)
  case (Cons w ws)
  then have "mset (filter (\<lambda>h. h_WorkflowID h = wf_ID w \<or> h_WorkflowID h \<in> wf_ID ` set ws) (st_handoffs d)) =
      mset (filter (\<lambda>h. h_WorkflowID h = wf_ID w) (st_handoffs d)) + mset (coveredHandoffs d ws)"
    unfolding coveredHandoffs_def by (intro mset_filter_or) auto
  with Cons show ?case by (simp add: coveredHandoffs_def handoffsOf_def)
qed (simp add: coveredHandoffs_def)

lemma covered_sum:
  fixes f :: "Handoff \<Rightarrow> nat"
  assumes "distinct (map wf_ID ws)"
  shows "(\<Sum>w\<leftarrow>ws. \<Sum>h\<leftarrow>handoffsOf d w. f h) = (\<Sum>h\<leftarrow>coveredHandoffs d ws. f h)"
proof -
  have "(\<Sum>w\<leftarrow>ws. \<Sum>h\<leftarrow>handoffsOf d w. f h) = sum_mset (image_mset f (\<Sum>w\<leftarrow>ws. mset (handoffsOf d w)))"
    by (induction ws) (simp_all add: sum_mset_sum_list [symmetric])
  also have "\<dots> = sum_mset (image_mset f (mset (coveredHandoffs d ws)))" using covered_split [OF assms] by simp
  also have "\<dots> = (\<Sum>h\<leftarrow>coveredHandoffs d ws. f h)" by (simp flip: sum_mset_sum_list)
  finally show ?thesis .
qed

lemma count_by_owner:
  assumes "distinct (map key rows)"
  shows "(\<Sum>r\<leftarrow>rows. length (filter (\<lambda>x. f x = key r) xs)) = length (filter (\<lambda>x. f x \<in> key ` set rows) xs)"
  using assms
proof (induction rows)
  case (Cons r rows)
  then have "mset (filter (\<lambda>x. f x = key r \<or> f x \<in> key ` set rows) xs) =
      mset (filter (\<lambda>x. f x = key r) xs) + mset (filter (\<lambda>x. f x \<in> key ` set rows) xs)"
    by (intro mset_filter_or) auto
  from arg_cong [OF this, of size] have "length (filter (\<lambda>x. f x = key r \<or> f x \<in> key ` set rows) xs) =
      length (filter (\<lambda>x. f x = key r) xs) + length (filter (\<lambda>x. f x \<in> key ` set rows) xs)"
    by (simp only: size_union size_mset)
  with Cons show ?case by simp
qed simp

lemma added_workflows:
  "let t = foldl addWorkflowEvidence s es in
   ces_Workflows t = ces_Workflows s @ map fst es
   \<and> ces_HandoffCount t = ces_HandoffCount s + (\<Sum>e\<leftarrow>es. cew_HandoffCount (fst e))
   \<and> ces_WatchCount t = ces_WatchCount s + (\<Sum>e\<leftarrow>es. cew_WatchCount (fst e))
   \<and> ces_RepairCount t = ces_RepairCount s + (\<Sum>e\<leftarrow>es. cew_RepairCount (fst e))
   \<and> ces_DivergenceCount t = ces_DivergenceCount s + (\<Sum>e\<leftarrow>es. cew_DivergenceCount (fst e))
   \<and> ces_BlockedCount t = ces_BlockedCount s + (\<Sum>e\<leftarrow>es. cew_BlockedCount (fst e))
   \<and> ces_NextWorkCount t = ces_NextWorkCount s + (\<Sum>e\<leftarrow>es. cew_NextWorkCount (fst e))
   \<and> ces_BlockedReasons t = ces_BlockedReasons s @ concat (map (fst \<circ> snd) es)
   \<and> ces_Suggestions t = ces_Suggestions s @ concat (map (snd \<circ> snd) es)
   \<and> ces_AgentCount t = ces_AgentCount s \<and> ces_Agents t = ces_Agents s"
  by (induction es arbitrary: s) (simp_all add: Let_def addWorkflowEvidence_def split: prod.split)

lemma blocked_entries_append:
  "blocked_entries (xs @ ys) = (fst (blocked_entries xs) @ fst (blocked_entries ys), snd (blocked_entries xs) @ snd (blocked_entries ys))"
  by (simp add: blocked_entries_def)

lemma blocked_lists:
  "list_all2 (workflow_evidence_ok d) ws es \<Longrightarrow>
   \<exists>blocked. list_all2 (\<lambda>w items. blocked_outcome d (workOf (wf_ID w)) items) ws blocked
     \<and> (\<Sum>e\<leftarrow>es. cew_BlockedCount (fst e)) = length (concat blocked)
     \<and> (concat (map (fst \<circ> snd) es), concat (map (snd \<circ> snd) es)) = blocked_entries (concat blocked)"
proof (induction rule: list_all2_induct)
  case Nil
  then show ?case by (simp add: blocked_entries_def)
next
  case (Cons w ws e es)
  obtain x rs ss where e: "e = (x, rs, ss)" by (cases e) auto
  with Cons(1) obtain items where i: "blocked_outcome d (workOf (wf_ID w)) items" "cew_BlockedCount x = length items"
    "(rs, ss) = blocked_entries items" by (auto simp: workflow_evidence_ok_def)
  from Cons.IH obtain blocked where b: "list_all2 (\<lambda>w items. blocked_outcome d (workOf (wf_ID w)) items) ws blocked"
    "(\<Sum>e\<leftarrow>es. cew_BlockedCount (fst e)) = length (concat blocked)"
    "(concat (map (fst \<circ> snd) es), concat (map (snd \<circ> snd) es)) = blocked_entries (concat blocked)" by blast
  from b(3) i(3) have "(rs @ concat (map (fst \<circ> snd) es), ss @ concat (map (snd \<circ> snd) es)) =
      blocked_entries (items @ concat blocked)"
    unfolding blocked_entries_append by (metis fst_conv snd_conv)
  with i(1,2) b(1,2) e show ?case by (intro exI [of _ "items # blocked"]) (simp add: comp_def)
qed

definition agents_listed :: "store \<Rightarrow> bool \<Rightarrow> CoordinationEvidenceSummary \<Rightarrow> bool" where
  "agents_listed d include s \<longleftrightarrow>
     (if include then ces_AgentCount s = length (st_agents d) \<and> sorted (map cea_ID (ces_Agents s))
        \<and> mset (ces_Agents s) = image_mset coordinationEvidenceAgent (mset (st_agents d))
      else ces_AgentCount s = 0 \<and> ces_Agents s = [])"

definition blocked_listed :: "store \<Rightarrow> Workflow list \<Rightarrow> CoordinationEvidenceSummary \<Rightarrow> bool" where
  "blocked_listed d ws s \<longleftrightarrow>
     sorted (map blockReasonKey (ces_BlockedReasons s)) \<and> sorted (map evidenceSuggestionKey (ces_Suggestions s))
     \<and> (\<exists>blocked. list_all2 (\<lambda>w items. blocked_outcome d (workOf (wf_ID w)) items) ws blocked
          \<and> ces_BlockedCount s = length (concat blocked)
          \<and> mset (ces_BlockedReasons s) = mset (fst (blocked_entries (concat blocked)))
          \<and> mset (ces_Suggestions s) = mset (snd (blocked_entries (concat blocked))))"

definition totals_ok :: "store \<Rightarrow> Workflow list \<Rightarrow> CoordinationEvidenceSummary \<Rightarrow> bool" where
  "totals_ok d ws s \<longleftrightarrow>
     (let ids = h_ID ` set (coveredHandoffs d ws) in
      map cew_ID (ces_Workflows s) = map wf_ID ws \<and> ces_WorkflowCount s = length ws
      \<and> list_all2 (evidence_status_ok d) ws (ces_Workflows s)
      \<and> ces_HandoffCount s = length (coveredHandoffs d ws)
      \<and> ces_WatchCount s = length (filter (\<lambda>x. watch_HandoffID x \<in> ids) (st_watches d))
      \<and> ces_DivergenceCount s = length (filter (\<lambda>x. hint_HandoffID x \<in> ids) (st_divergences d))
      \<and> ces_RepairCount s = (\<Sum>h\<leftarrow>coveredHandoffs d ws. length (repairs_of d (h_ID h)))
      \<and> ces_NextWorkCount s = (\<Sum>w\<leftarrow>ws. length (next_queue d (workOf (wf_ID w)))))"

definition evidence_outcome :: "store \<Rightarrow> CoordinationEvidenceQuery \<Rightarrow> CoordinationEvidenceSummary \<Rightarrow> bool" where
  "evidence_outcome d q s \<longleftrightarrow>
     (let i = trimSpace (ceq_WorkflowID q); ws = selectedWorkflows d i in
      (i \<noteq> [] \<longrightarrow> ws \<noteq> []) \<and> totals_ok d ws s \<and> blocked_listed d ws s \<and> agents_listed d (ceq_IncludeAgents q) s)"

lemma recent_first_mset: "mset (recent_first xs) = mset xs"
  by (simp add: recent_first_def)

lemma guarantees_addAgents:
  assumes "E d" and "ces_AgentCount s = 0" and "ces_Agents s = []"
    and "\<And>as n. agents_listed d include (s\<lparr>ces_AgentCount := n, ces_Agents := as\<rparr>) \<Longrightarrow>
      Q (s\<lparr>ces_AgentCount := n, ces_Agents := as\<rparr>) d"
  shows "guarantees (addAgents include s) Q E d"
proof -
  have all: "agentMatchesFilter a \<lparr>alf_Capability = [], alf_ProjectRef = [], alf_TaskKind = [], alf_Status = []\<rparr>" for a
    by (simp add: agentMatchesFilter_def)
  have "agents_listed d False s" using assms(2,3) by (simp add: agents_listed_def)
  moreover have "s = s\<lparr>ces_AgentCount := 0, ces_Agents := []\<rparr>" using assms(2,3) by simp
  ultimately have none: "Q s d" if "\<not> include" using assms(4) [of "[]" 0] that by simp
  show ?thesis
    unfolding addAgents_def ListAgents_def
    by (intro vcg assms(1) none assms(4))
      (simp_all add: all agents_listed_def sortCoordinationEvidenceAgents_def recent_first_mset
        mset_eq_length [OF recent_first_mset])
qed

lemma totals:
  assumes inv: "store_inv d" and es: "list_all2 (workflow_evidence_ok d) (selectedWorkflows d i) es"
    and n: "n = length es"
  shows "totals_ok d (selectedWorkflows d i)
    ((foldl addWorkflowEvidence (EmptySummary now) es)\<lparr>ces_WorkflowCount := n, ces_AgentCount := k, ces_Agents := as,
       ces_BlockedReasons := rs, ces_Suggestions := ss\<rparr>)"
proof -
  let ?ws = "selectedWorkflows d i"
  have "distinct (map wf_ID (st_workflows d))" and hs: "distinct (map h_ID (st_handoffs d))"
    using inv by (simp_all add: store_inv_def inv_keys)
  then have ws: "distinct (map wf_ID ?ws)"
    by (simp add: selectedWorkflows_def distinct_map_filter)
  have ids: "distinct (map h_ID (coveredHandoffs d ?ws))" using hs by (simp add: coveredHandoffs_def distinct_map_filter)
  have eqs: "map (\<lambda>e. cew_ID (fst e)) es = map wf_ID ?ws"
    "map (\<lambda>e. cew_HandoffCount (fst e)) es = map (\<lambda>w. length (handoffsOf d w)) ?ws"
    "map (\<lambda>e. cew_WatchCount (fst e)) es = map (\<lambda>w. \<Sum>h\<leftarrow>handoffsOf d w. length (watches_of d (h_ID h))) ?ws"
    "map (\<lambda>e. cew_RepairCount (fst e)) es = map (\<lambda>w. \<Sum>h\<leftarrow>handoffsOf d w. length (repairs_of d (h_ID h))) ?ws"
    "map (\<lambda>e. cew_DivergenceCount (fst e)) es = map (\<lambda>w. \<Sum>h\<leftarrow>handoffsOf d w. length (divergences_of d (h_ID h))) ?ws"
    "map (\<lambda>e. cew_NextWorkCount (fst e)) es = map (\<lambda>w. length (next_queue d (workOf (wf_ID w)))) ?ws"
    using es by (auto intro!: list_all2_map_fields elim!: list_all2_mono simp: workflow_evidence_ok_def)
  have count: "(\<Sum>w\<leftarrow>?ws. length (handoffsOf d w)) = length (coveredHandoffs d ?ws)"
    using covered_sum [OF ws, where d = d and f = "\<lambda>_. 1"] by (simp add: sum_list_triv)
  have st: "list_all2 (evidence_status_ok d) ?ws (map fst es)"
    using es by (auto simp: list_all2_map2 workflow_evidence_ok_def elim!: list_all2_mono)
  have len: "length es = length ?ws" using es by (simp add: list_all2_lengthD)
  show ?thesis
    using added_workflows [of "EmptySummary now" es] eqs n len count ids st
      covered_sum [OF ws, where d = d and f = "\<lambda>h. length (watches_of d (h_ID h))"]
      covered_sum [OF ws, where d = d and f = "\<lambda>h. length (repairs_of d (h_ID h))"]
      covered_sum [OF ws, where d = d and f = "\<lambda>h. length (divergences_of d (h_ID h))"]
    by (simp add: totals_ok_def Let_def EmptySummary_def watches_of_def divergences_of_def comp_def
        count_by_owner [OF ids])
qed

lemma evidence_contract:
  assumes inv: "store_inv d"
  shows "guarantees (CoordinationEvidenceSummaryOp q) (\<lambda>s d'. d' = d \<and> evidence_outcome d q s) (\<lambda>d'. d' = d) d"
proof -
  let ?i = "trimSpace (ceq_WorkflowID q)"
  let ?Q = "\<lambda>s d'. d' = d \<and> evidence_outcome d q s" and ?E = "\<lambda>d'. d' = d"
  have finish: "guarantees (bindE (addAgents (ceq_IncludeAgents q) (s\<lparr>ces_WorkflowCount := length (ces_Workflows s)\<rparr>)) (\<lambda>t.
     ret (t\<lparr>ces_BlockedReasons := sortCoordinationEvidenceBlockReasons (ces_BlockedReasons t),
            ces_Suggestions := sortCoordinationEvidenceSuggestions (ces_Suggestions t)\<rparr>))) ?Q ?E d"
    if ws: "?i \<noteq> [] \<Longrightarrow> selectedWorkflows d ?i \<noteq> []" and es: "list_all2 (workflow_evidence_ok d) (selectedWorkflows d ?i) es"
      and s: "s = foldl addWorkflowEvidence (EmptySummary now) es" for now es s
  proof (rule guarantees_bindE, rule guarantees_addAgents)
    have added: "length (ces_Workflows s) = length es" "ces_BlockedCount s = (\<Sum>e\<leftarrow>es. cew_BlockedCount (fst e))"
      "ces_BlockedReasons s = concat (map (fst \<circ> snd) es)" "ces_Suggestions s = concat (map (snd \<circ> snd) es)"
      "ces_AgentCount s = 0" "ces_Agents s = []"
      using added_workflows [of "EmptySummary now" es] s by (simp_all add: Let_def EmptySummary_def)
    then show "ces_AgentCount (s\<lparr>ces_WorkflowCount := length (ces_Workflows s)\<rparr>) = 0"
      "ces_Agents (s\<lparr>ces_WorkflowCount := length (ces_Workflows s)\<rparr>) = []" by simp_all
    fix as k
    let ?t = "s\<lparr>ces_WorkflowCount := length (ces_Workflows s), ces_AgentCount := k, ces_Agents := as\<rparr>"
    assume agents: "agents_listed d (ceq_IncludeAgents q) ?t"
    let ?r = "?t\<lparr>ces_BlockedReasons := sortCoordinationEvidenceBlockReasons (ces_BlockedReasons ?t),
            ces_Suggestions := sortCoordinationEvidenceSuggestions (ces_Suggestions ?t)\<rparr>"
    have "totals_ok d (selectedWorkflows d ?i) ?r"
      using totals [OF inv es refl, where now = now and k = k and as = as] added(1) unfolding s by simp
    moreover have "blocked_listed d (selectedWorkflows d ?i) ?r"
    proof -
      from blocked_lists [OF es] obtain blocked where
        "list_all2 (\<lambda>w items. blocked_outcome d (workOf (wf_ID w)) items) (selectedWorkflows d ?i) blocked"
        "(\<Sum>e\<leftarrow>es. cew_BlockedCount (fst e)) = length (concat blocked)"
        "concat (map (fst \<circ> snd) es) = fst (blocked_entries (concat blocked))"
        "concat (map (snd \<circ> snd) es) = snd (blocked_entries (concat blocked))" by (metis fst_conv snd_conv)
      then show ?thesis
        unfolding blocked_listed_def sortCoordinationEvidenceBlockReasons_def sortCoordinationEvidenceSuggestions_def
        using added by (auto simp del: length_concat intro!: exI [of _ blocked])
    qed
    moreover have "agents_listed d (ceq_IncludeAgents q) ?r"
      using agents by (cases "ceq_IncludeAgents q") (simp_all add: agents_listed_def)
    ultimately show "guarantees (ret ?r) ?Q ?E d"
      using ws by (intro vcg) (simp add: evidence_outcome_def Let_def)
  qed simp
  have each: "guarantees (coordinationEvidenceWorkflow view) (\<lambda>e d'. d' = d \<and> workflow_evidence_ok d w e) (\<lambda>d'. d' = d) d"
    if "view_of d w view" for w view
    using that by (cases view) (auto simp: view_of_def intro!: guarantees_workflowEvidence [OF inv, where w = w])
  show ?thesis
    unfolding CoordinationEvidenceSummaryOp_def
    by (intro vcg guarantees_views [OF inv]) (auto intro!: guarantees_foldE_rows [OF _ each] finish)
qed

end
