(* ===== verification/Orch_Demo.thy ===== *)
theory Orch_Demo
  imports Orch_Progress Orch_Evidence
begin

text \<open>
  A concrete run of the orchestrator for the instances of the properties: a world without
  faults, one reviewed root handoff and the store its creation leaves, which is reachable and
  from which the handoff can be completed.
\<close>

definition worker :: ActorRef where
  "worker = ActorOf ActorAgent ''w''"

definition requester :: ActorRef where
  "requester = ActorOf ActorUser ''u''"

definition start_world :: "store world" where
  "start_world = \<lparr>w_db = empty_store, w_faults = [], w_uuid = (\<lambda>i. Some (formatInt (int i))), w_ids = 0,
     w_clock = (\<lambda>i. (1000 + int i) * second), w_tick = 0\<rparr>"

definition demo_input :: CreateHandoffInput where
  "demo_input = \<lparr>ci_WorkflowKind = ''k'', ci_Sender = requester, ci_Receiver = worker, ci_Reviewer = requester,
     ci_TaskKind = TaskReviewRequired, ci_Intent = [], ci_ParentHandoffID = None, ci_DependsOnHandoffIDs = [],
     ci_RequiredForWorkflowCompletion = True, ci_ArtifactPolicy = NoArtifactPolicy, ci_NeedsReview = True,
     ci_PayloadRef = [], ci_DeliveryTargetRef = []\<rparr>"

definition demo_handoff :: Handoff where
  "demo_handoff = newHandoff ''hf_1'' ''wf_0'' ''k'' demo_input (1000 * second)"

definition created_world :: "store world" where
  "created_world = snd (CreateHandoff demo_input start_world)"

definition demo_event :: "EventType \<Rightarrow> EventRecord" where
  "demo_event t = NoEvent\<lparr>ev_ID := ''e'', ev_WorkflowID := ''wf_0'', ev_HandoffID := ''hf_1'', ev_Type := t,
     ev_ProducerActor := worker, ev_SubjectActor := worker, ev_ProducerEventTime := 2000 * second,
     ev_IngestedAt := 2000 * second\<rparr>"

lemma created_handoffs: "st_handoffs (w_db created_world) = [demo_handoff]"
  by code_simp

lemma created_faults: "w_faults created_world = []"
  by code_simp

lemma created_events: "st_accepted (w_db created_world) = []"
  by code_simp

lemma created_reachable: "reachable (w_db created_world)"
proof -
  obtain r w where r: "CreateHandoff demo_input start_world = (r, w)" by fastforce
  then have "service_step (w_db start_world) (w_db w)" by (rule service_step.intros)
  then show ?thesis using r by (simp add: reachable_def created_world_def start_world_def r_into_rtranclp)
qed

lemma demo_ready: "ready demo_handoff" "\<not> doomed demo_handoff" "h_WorkflowID demo_handoff \<noteq> []" "h_ID demo_handoff = ''hf_1''"
  by (simp_all add: ready_def lifecycle_wf_def flag_chain_def state_flags_def missingActor_def doomed_def
      dead_review_def demo_handoff_def newHandoff_def demo_input_def worker_def requester_def ActorOf_def)

lemma created_lookup: "find_by h_ID ''hf_1'' (st_handoffs (w_db created_world)) = Some demo_handoff"
  by (simp add: created_handoffs demo_ready)

lemma completed_reachable:
  obtains d h where "reachable d" and "find_by h_ID ''hf_1'' (st_handoffs d) = Some h"
    and "h_State h = StateCompleted"
proof -
  have inv: "store_inv (w_db created_world)" by (rule reachable_inv [OF created_reachable])
  from service_can_complete [OF inv created_lookup demo_ready(1-3)] obtain xs where
    "delivers (record_all xs) (\<lambda>_ d'. store_inv d' \<and>
      (\<exists>h. find_by h_ID ''hf_1'' (st_handoffs d') = Some h \<and> h_State h = StateCompleted)) (w_db created_world)"
    by blast
  then obtain d where "service_step\<^sup>*\<^sup>* (w_db created_world) d"
    and "\<exists>h. find_by h_ID ''hf_1'' (st_handoffs d) = Some h \<and> h_State h = StateCompleted"
    by (rule delivers_reaches) blast
  with steps_reachable [OF created_reachable] that show thesis by blast
qed

text \<open>A store with one idempotency record, as a world without faults.\<close>

definition keyed_record :: a2aInboundTaskCreationRecord where
  "keyed_record = \<lparr>cr_IdempotencyKey = ''k'', cr_PayloadHash = ''p'', cr_WorkflowID = ''wf'',
     cr_HandoffID = ''hf'', cr_CreatedAt = 0\<rparr>"

definition keyed_world :: "store world" where
  "keyed_world = start_world\<lparr>w_db := empty_store\<lparr>st_creations := [keyed_record]\<rparr>\<rparr>"

definition all_work :: WorkQuery where
  "all_work = \<lparr>wq_AgentID = [], wq_Capability = [], wq_ProjectRef = [], wq_WorkflowID = [], wq_TaskKind = [], wq_Limit = 0\<rparr>"

text \<open>A template applied under a key, and applied again.\<close>

definition demo_template :: CollaborationTemplateApplyInput where
  "demo_template = \<lparr>ti_TemplateName = ''review_gate'', ti_WorkflowKind = ''k'', ti_Intent = ''i'',
     ti_Upstream = \<lparr>role_ReceiverID = ''u'', role_ProjectRef = ''project://p''\<rparr>,
     ti_Downstream = \<lparr>role_ReceiverID = ''d'', role_ProjectRef = ''project://p''\<rparr>,
     ti_Reviewer = \<lparr>role_ReceiverID = ''r'', role_ProjectRef = ''project://p''\<rparr>,
     ti_IdempotencyKey = ''key''\<rparr>"

lemma demo_template_trims: "trimSpace ''review_gate'' = ''review_gate''" "trimSpace ''k'' = ''k''"
  "trimSpace ''i'' = ''i''" "trimSpace ''u'' = ''u''" "trimSpace ''d'' = ''d''" "trimSpace ''r'' = ''r''"
  "trimSpace ''project://p'' = ''project://p''" "trimSpace ''key'' = ''key''"
  by (simp_all add: trimSpace_visible visible_char_def)

lemma demo_role_valid:
  "validateCollaborationTemplateRole n \<lparr>role_ReceiverID = ''u'', role_ProjectRef = ''project://p''\<rparr> = None"
  "validateCollaborationTemplateRole n \<lparr>role_ReceiverID = ''d'', role_ProjectRef = ''project://p''\<rparr> = None"
  "validateCollaborationTemplateRole n \<lparr>role_ReceiverID = ''r'', role_ProjectRef = ''project://p''\<rparr> = None"
  unfolding accepted_role by code_simp+

lemma demo_template_checked: "checkTemplateInput demo_template = Inr (demo_template, buildReviewGateTemplate)"
  by (simp add: checkTemplateInput_def trimCollaborationTemplateApplyInput_def trimCollaborationTemplateRole_def
    demo_template_def demo_template_trims demo_role_valid collaborationTemplateBuilder_def)

definition template_world :: "store world" where
  "template_world = snd (ApplyCollaborationTemplate (\<lambda>_. ''h'') demo_template start_world)"

lemma template_runs:
  "\<exists>res. ApplyCollaborationTemplate (\<lambda>_. ''h'') demo_template start_world = (Inr res, template_world)"
  "\<exists>res. fst (ApplyCollaborationTemplate (\<lambda>_. ''h'') demo_template template_world) = Inr res"
proof -
  have "\<not> isl (fst (ApplyCollaborationTemplate (\<lambda>_. ''h'') demo_template start_world))"
    "\<not> isl (fst (ApplyCollaborationTemplate (\<lambda>_. ''h'') demo_template template_world))"
    unfolding template_world_def ApplyCollaborationTemplate_def demo_template_checked sum.case prod.case
    by code_simp+
  then show "\<exists>res. ApplyCollaborationTemplate (\<lambda>_. ''h'') demo_template start_world = (Inr res, template_world)"
    "\<exists>res. fst (ApplyCollaborationTemplate (\<lambda>_. ''h'') demo_template template_world) = Inr res"
    by (auto simp: template_world_def isl_def split_sum_ex prod_eq_iff) (metis isl_def sum.collapse(2))+
qed

end
