(* ===== verification/Tool_Handlers.thy ===== *)
theory Tool_Handlers
  imports Orch_Reach Orch_Evidence
begin

text \<open>
  \<open>internal/toolserver/handlers.go\<close> and \<open>internal/openclawevents/bridge.go\<close>: the tool calls of an
  agent on the orchestrator. Every handler checks and trims its input and calls the service or
  the store. \<open>parse\<close> is \<open>time.Parse\<close> for RFC 3339 texts. The handlers of the sender client and
  of the swarm execution store are in other packages and not here.
\<close>

section \<open>Texts of the enumerations read back\<close>

definition eventTypes :: "EventType list" where
  "eventTypes = [EventTransportRequested, EventTransportAccepted, EventTransportRejected,
     EventTransportTimeout, EventTransportDeliveryConfirmed, EventReceived, EventClaimed, EventStarted,
     EventCheckpointed, EventSubmitted, EventReviewed, EventCompleted, EventFailed, EventExpired,
     EventArtifactAttached, EventArtifactReplaced, EventArtifactValidated, EventWatchTriggered,
     EventReminderSent, EventEscalationOpened, EventEscalationResolved]"

definition EventTypeOf :: "string \<Rightarrow> EventType" where
  "EventTypeOf s = (case find (\<lambda>t. eventTypeText t = s) eventTypes of Some t \<Rightarrow> t | None \<Rightarrow> EventOther s)"

definition ProtocolActionOf :: "string \<Rightarrow> ProtocolAction" where
  "ProtocolActionOf s = (case find (\<lambda>a. protocolActionText a = s) supportedProtocolActions of
     Some a \<Rightarrow> a | None \<Rightarrow> ProtocolActionOther s)"

lemma eventType_roundtrip: "eventTypeText (EventTypeOf s) = s"
  by (auto simp: EventTypeOf_def find_Some_iff split: option.split)

lemma protocolAction_roundtrip: "protocolActionText (ProtocolActionOf s) = s"
  by (auto simp: ProtocolActionOf_def find_Some_iff split: option.split)

section \<open>Inputs and outputs\<close>

record ActorRefInput =
  ari_Type :: string
  ari_ID :: string
  ari_Address :: string

record ArtifactPolicyInput =
  api_Mode :: string
  api_Types :: "string list"
  api_MinCount :: int
  api_AllowReplace :: bool

record HandoffCreateInput =
  hci_WorkflowKind :: string
  hci_WorkflowID :: string
  hci_Sender :: ActorRefInput
  hci_Receiver :: ActorRefInput
  hci_Reviewer :: "ActorRefInput option"
  hci_TaskKind :: string
  hci_Intent :: string
  hci_ParentHandoffID :: "string option"
  hci_DependsOnHandoffIDs :: "string list"
  hci_RequiredForWorkflowCompletion :: bool
  hci_NeedsReview :: bool
  hci_ArtifactPolicy :: "ArtifactPolicyInput option"
  hci_PayloadRef :: string
  hci_DeliveryTargetRef :: string

record ControlledTaskArtifactRef =
  tar_URI :: string
  tar_Type :: string
  tar_Version :: string
  tar_Checksum :: string

record ControlledTaskCreateInput =
  cti_IdempotencyKey :: string
  cti_PayloadHash :: string
  cti_Intent :: string
  cti_ReceiverID :: string
  cti_ProjectRef :: string
  cti_ArtifactRefs :: "ControlledTaskArtifactRef list"

record ControlledTaskCreateOutput =
  cto_Workflow :: Workflow
  cto_Handoff :: Handoff
  cto_Watches :: "Watch list"
  cto_Replayed :: bool

record HandoffGetOutput =
  hgo_Handoff :: Handoff
  hgo_Timeline :: "EventRecord list"

record HandoffDispatchInput =
  hdi_HandoffID :: string
  hdi_Adapter :: string
  hdi_Target :: string
  hdi_Command :: string
  hdi_Args :: "string list"
  hdi_Message :: string

record A2AAgentTurnOutput =
  ato_ReplyText :: string
  ato_WorkflowID :: string
  ato_HandoffID :: string
  ato_HandoffState :: string
  ato_AttemptResultStatus :: string
  ato_ExternalIDPresent :: bool

record A2AAgentTurnStartOutput =
  aso_Status :: string
  aso_WorkflowID :: string
  aso_HandoffID :: string
  aso_HandoffState :: string

record A2AAgentTurnResultOutput =
  aro_Status :: string
  aro_ReplyText :: string
  aro_WorkflowID :: string
  aro_HandoffID :: string
  aro_HandoffState :: string
  aro_AttemptResultStatus :: string
  aro_ExternalIDPresent :: bool

record HandoffProgressInput =
  hpi_Action :: string
  hpi_WorkflowID :: string
  hpi_HandoffID :: string
  hpi_Actor :: ActorRefInput
  hpi_ArtifactCount :: int
  hpi_ReviewDecision :: string

record AgentRegisterInput =
  agi_Actor :: ActorRefInput
  agi_Capabilities :: "string list"
  agi_ProjectRefs :: "string list"
  agi_TaskKinds :: "string list"
  agi_DeliveryTargetRef :: string
  agi_Status :: string
  agi_LastHeartbeatAt :: "string option"

record AgentListInput =
  ali_Capability :: string
  ali_ProjectRef :: string
  ali_TaskKind :: string
  ali_Status :: string

record WorkQueryInput =
  wqi_AgentID :: string
  wqi_Capability :: string
  wqi_ProjectRef :: string
  wqi_WorkflowID :: string
  wqi_TaskKind :: string
  wqi_Limit :: int

record WatchUpdateInput =
  wui_WatchID :: string
  wui_DeadlineAt :: "string option"
  wui_Status :: "string option"
  wui_EscalationPolicy :: "string option"

record OwnershipUpdateInput =
  oui_HandoffID :: string
  oui_CurrentOwner :: "ActorRefInput option"
  oui_ReviewerActor :: "ActorRefInput option"
  oui_EscalationOwner :: "ActorRefInput option"
  oui_FallbackOwner :: "ActorRefInput option"
  oui_LeaseHolder :: "ActorRefInput option"
  oui_LeasedAt :: "string option"
  oui_LeaseExpiresAt :: "string option"

record RepairInvalidateEventInput =
  rii_EventID :: string
  rii_Reason :: string
  rii_Actor :: ActorRefInput

record RepairBackfillEventInput =
  rbi_WorkflowID :: string
  rbi_HandoffID :: string
  rbi_Type :: string
  rbi_SubjectActor :: ActorRefInput
  rbi_ProducerActor :: ActorRefInput
  rbi_RequestedBy :: ActorRefInput
  rbi_Reason :: string

record RepairReopenHandoffInput =
  rri_HandoffID :: string
  rri_Reason :: string
  rri_Actor :: ActorRefInput

record DivergenceRecordInput =
  dri_WorkflowID :: string
  dri_HandoffID :: string
  dri_Type :: string
  dri_ProducerActor :: ActorRefInput
  dri_AttemptID :: string

record DivergenceRecordOutput =
  dro_Divergence :: ObserverHint
  dro_RepairCandidates :: "RepairCandidate list"

text \<open>
  \<open>hs_adapter\<close> is the adapter of the service; the dispatch command and timeout are the handlers' own.
\<close>

record Handlers =
  hs_adapter :: "(runner \<times> decoder) option"
  hs_openClawCommand :: string
  hs_openClawArgs :: "string list"
  hs_dispatchTimeout :: duration

definition defaultA2AAgentTurnDispatchTimeout :: duration where
  "defaultA2AAgentTurnDispatchTimeout = 3 * minute"

definition NewHandlers :: "(runner \<times> decoder) option \<Rightarrow> Handlers" where
  "NewHandlers adapter = \<lparr>hs_adapter = adapter, hs_openClawCommand = [], hs_openClawArgs = [],
     hs_dispatchTimeout = defaultA2AAgentTurnDispatchTimeout\<rparr>"

definition SetOpenClawDispatchDefaults :: "string \<Rightarrow> string list \<Rightarrow> Handlers \<Rightarrow> Handlers" where
  "SetOpenClawDispatchDefaults command args h = h\<lparr>hs_openClawCommand := trimSpace command, hs_openClawArgs := args\<rparr>"

definition SetA2AAgentTurnDispatchTimeout :: "duration \<Rightarrow> Handlers \<Rightarrow> Handlers" where
  "SetA2AAgentTurnDispatchTimeout timeout h = h\<lparr>hs_dispatchTimeout :=
     (if timeout \<le> 0 then defaultA2AAgentTurnDispatchTimeout else timeout)\<rparr>"

section \<open>Converting inputs\<close>

definition fromE :: "error + 'a \<Rightarrow> ('db, 'a) op" where
  "fromE r = (case r of Inl e \<Rightarrow> throw e | Inr a \<Rightarrow> ret a)"

definition toActorRef :: "ActorRefInput \<Rightarrow> error + ActorRef" where
  "toActorRef input =
     (if trimSpace (ari_Type input) = [] \<or> trimSpace (ari_ID input) = []
      then Inl (ErrorText ''actor requires type and id'')
      else Inr \<lparr>actor_Type = trimSpace (ari_Type input), actor_ID = trimSpace (ari_ID input),
             actor_Address = trimSpace (ari_Address input)\<rparr>)"

definition optionalOf :: "('a \<Rightarrow> error + 'b) \<Rightarrow> 'a option \<Rightarrow> error + 'b option" where
  "optionalOf f input = (case input of None \<Rightarrow> Inr None | Some x \<Rightarrow>
     (case f x of Inl e \<Rightarrow> Inl e | Inr y \<Rightarrow> Inr (Some y)))"

definition optionalActorRef :: "ActorRefInput option \<Rightarrow> error + ActorRef option" where
  "optionalActorRef input = optionalOf toActorRef input"

definition optionalTime :: "(string \<Rightarrow> error + time) \<Rightarrow> string option \<Rightarrow> error + time option" where
  "optionalTime parse input = optionalOf (\<lambda>s. parse (trimSpace s)) input"

definition trimOptionalString :: "string option \<Rightarrow> string option" where
  "trimOptionalString input = map_option trimSpace input"

definition trimStringSlice :: "string list \<Rightarrow> string list" where
  "trimStringSlice values = map trimSpace values"

definition trimNonEmptyStringSlice :: "string list \<Rightarrow> string list" where
  "trimNonEmptyStringSlice values = filter (\<lambda>v. v \<noteq> []) (map trimSpace values)"

definition toTaskKinds :: "string list \<Rightarrow> TaskKind list" where
  "toTaskKinds values = filter (\<lambda>v. v \<noteq> []) (map trimSpace values)"

definition toArtifactPolicy :: "ArtifactPolicyInput option \<Rightarrow> ArtifactPolicy" where
  "toArtifactPolicy input = (case input of None \<Rightarrow> NoArtifactPolicy
     | Some p \<Rightarrow> \<lparr>ap_Mode = trimSpace (api_Mode p), ap_Types = api_Types p, ap_MinCount = api_MinCount p,
          ap_AllowReplace = api_AllowReplace p\<rparr>)"

definition toWorkQuery :: "WorkQueryInput \<Rightarrow> WorkQuery" where
  "toWorkQuery input = \<lparr>wq_AgentID = trimSpace (wqi_AgentID input), wq_Capability = trimSpace (wqi_Capability input),
     wq_ProjectRef = trimSpace (wqi_ProjectRef input), wq_WorkflowID = trimSpace (wqi_WorkflowID input),
     wq_TaskKind = trimSpace (wqi_TaskKind input), wq_Limit = wqi_Limit input\<rparr>"

definition requireHandoffID :: "string \<Rightarrow> error + string" where
  "requireHandoffID raw =
     (if trimSpace raw = [] then Inl (ErrorText ''handoff_id is required'') else Inr (trimSpace raw))"

definition normalizeProtocolAction :: "string \<Rightarrow> ProtocolAction" where
  "normalizeProtocolAction raw =
     (let t = trimSpace raw in
      if t = ''receive'' then ProtocolActionReceive
      else if t = ''claim'' then ProtocolActionClaim
      else if t = ''start'' then ProtocolActionStart
      else if t = ''checkpoint'' then ProtocolActionCheckpoint
      else if t = ''submit'' then ProtocolActionSubmit
      else if t = ''review'' then ProtocolActionReview
      else if t = ''request_revision'' \<or> t = ''request-revision'' then ProtocolActionRequestRevision
      else if t = ''approve'' then ProtocolActionApprove
      else if t = ''complete'' then ProtocolActionComplete
      else if t = ''fail'' then ProtocolActionFail
      else ProtocolActionOf t)"

definition isValidWatchStatus :: "string \<Rightarrow> bool" where
  "isValidWatchStatus status \<longleftrightarrow> status = ''active'' \<or> status = ''disabled''"

definition normalizeA2AAgentTurnTarget :: "string \<Rightarrow> string" where
  "normalizeA2AAgentTurnTarget targetAgent =
     (let t = trimSpace targetAgent in if hasPrefix t ''agent:'' then t else ''agent:'' @ t)"

definition normalizeA2AAgentTurnReceiverID :: "string \<Rightarrow> string" where
  "normalizeA2AAgentTurnReceiverID targetAgent = trimPrefix (trimSpace targetAgent) ''agent:''"

section \<open>Handoffs\<close>

definition createInputOf :: "HandoffCreateInput \<Rightarrow> ActorRef \<Rightarrow> ActorRef \<Rightarrow> ActorRef \<Rightarrow> CreateHandoffInput" where
  "createInputOf input sender receiver reviewer =
     \<lparr>ci_WorkflowKind = trimSpace (hci_WorkflowKind input), ci_Sender = sender, ci_Receiver = receiver,
      ci_Reviewer = reviewer, ci_TaskKind = trimSpace (hci_TaskKind input), ci_Intent = trimSpace (hci_Intent input),
      ci_ParentHandoffID = trimOptionalString (hci_ParentHandoffID input),
      ci_DependsOnHandoffIDs = trimStringSlice (hci_DependsOnHandoffIDs input),
      ci_RequiredForWorkflowCompletion = hci_RequiredForWorkflowCompletion input,
      ci_ArtifactPolicy = toArtifactPolicy (hci_ArtifactPolicy input), ci_NeedsReview = hci_NeedsReview input,
      ci_PayloadRef = trimSpace (hci_PayloadRef input), ci_DeliveryTargetRef = trimSpace (hci_DeliveryTargetRef input)\<rparr>"

definition HandleHandoffCreate :: "HandoffCreateInput \<Rightarrow> CreateHandoffResult sop" where
  "HandleHandoffCreate input =
     bindE (fromE (toActorRef (hci_Sender input))) (\<lambda>sender.
     bindE (fromE (toActorRef (hci_Receiver input))) (\<lambda>receiver.
     bindE (case hci_Reviewer input of None \<Rightarrow> ret NoActor | Some r \<Rightarrow> fromE (toActorRef r)) (\<lambda>reviewer.
     let createInput = createInputOf input sender receiver reviewer;
         workflowID = trimSpace (hci_WorkflowID input) in
     if workflowID = [] then CreateHandoff createInput else AppendHandoff workflowID createInput)))"

definition controlledTask :: "ControlledTaskCreateInput \<Rightarrow> IdempotentCreateHandoffInput" where
  "controlledTask input =
     \<lparr>ii_IdempotencyKey = trimSpace (cti_IdempotencyKey input), ii_PayloadHash = trimSpace (cti_PayloadHash input),
      ii_Handoff = \<lparr>ci_WorkflowKind = ''a2a_inbound'', ci_Sender = ActorOf ActorWebhook ''a2a-inbound'',
        ci_Receiver = ActorOf ActorAgent (trimSpace (cti_ReceiverID input)), ci_Reviewer = NoActor,
        ci_TaskKind = TaskGeneric, ci_Intent = trimSpace (cti_Intent input), ci_ParentHandoffID = None,
        ci_DependsOnHandoffIDs = [], ci_RequiredForWorkflowCompletion = True, ci_ArtifactPolicy = NoArtifactPolicy,
        ci_NeedsReview = False, ci_PayloadRef = trimSpace (cti_ProjectRef input), ci_DeliveryTargetRef = []\<rparr>,
      ii_ArtifactRefs = map (\<lambda>a. \<lparr>ref_URI = trimSpace (tar_URI a), ref_Type = trimSpace (tar_Type a),
        ref_Version = trimSpace (tar_Version a), ref_Checksum = trimSpace (tar_Checksum a)\<rparr>) (cti_ArtifactRefs input)\<rparr>"

definition HandleControlledTaskCreate :: "ControlledTaskCreateInput \<Rightarrow> ControlledTaskCreateOutput sop" where
  "HandleControlledTaskCreate input =
     bindE (CreateHandoffIdempotent (controlledTask input)) (\<lambda>(result, replayed).
     ret \<lparr>cto_Workflow = cres_Workflow result, cto_Handoff = cres_Handoff result, cto_Watches = cres_Watches result,
          cto_Replayed = replayed\<rparr>)"

definition HandleHandoffGet :: "string \<Rightarrow> HandoffGetOutput sop" where
  "HandleHandoffGet handoffID =
     bindE (LoadHandoff (trimSpace handoffID)) (\<lambda>handoff.
     bindE (ListEvents (h_ID handoff)) (\<lambda>timeline.
     ret \<lparr>hgo_Handoff = handoff, hgo_Timeline = timeline\<rparr>))"

definition HandleHandoffDispatch :: "Handlers \<Rightarrow> HandoffDispatchInput \<Rightarrow> (DispatchAttempt \<times> EventRecord list) sop" where
  "HandleHandoffDispatch hs input =
     (let adapter = trimSpace (hdi_Adapter input);
          own = adapter = ''openclaw'';
          command = (if own then hs_openClawCommand hs else trimSpace (hdi_Command input));
          args = (if own then hs_openClawArgs hs else hdi_Args input) in
      DispatchHandoff (hs_adapter hs) \<lparr>di_HandoffID = trimSpace (hdi_HandoffID input), di_Adapter = adapter,
        di_Target = trimSpace (hdi_Target input), di_Command = command, di_Args = args,
        di_Message = hdi_Message input\<rparr>)"

definition HandleHandoffProgress :: "HandoffProgressInput \<Rightarrow> (EventDecision \<times> error option) sop" where
  "HandleHandoffProgress input =
     bindE (fromE (toActorRef (hpi_Actor input))) (\<lambda>actor.
     ApplyProtocolAction \<lparr>preq_Action = normalizeProtocolAction (hpi_Action input),
       preq_HandoffID = trimSpace (hpi_HandoffID input), preq_WorkflowID = trimSpace (hpi_WorkflowID input),
       preq_Actor = actor, preq_ProducerEventTime = 0, preq_IngestedAt = 0,
       preq_ArtifactCount = hpi_ArtifactCount input,
       preq_ReviewDecision = ReviewDecisionOf (trimSpace (hpi_ReviewDecision input)), preq_Payload = []\<rparr>)"

section \<open>Agent turns\<close>

text \<open>Go returns the result and the error; who only looks at the error gets this.\<close>

definition progressError :: "(EventDecision \<times> error option) sop \<Rightarrow> EventDecision sop" where
  "progressError m = bindE m (\<lambda>(result, err). case err of Some e \<Rightarrow> throw e | None \<Rightarrow> ret result)"

definition agentTurn :: "string \<Rightarrow> string \<Rightarrow> string \<Rightarrow> HandoffCreateInput" where
  "agentTurn receiverID message target =
     \<lparr>hci_WorkflowKind = ''a2a_agent_turn'', hci_WorkflowID = [],
      hci_Sender = \<lparr>ari_Type = ActorAgent, ari_ID = ''main'', ari_Address = []\<rparr>,
      hci_Receiver = \<lparr>ari_Type = ActorAgent, ari_ID = receiverID, ari_Address = []\<rparr>, hci_Reviewer = None,
      hci_TaskKind = TaskGeneric, hci_Intent = message, hci_ParentHandoffID = None, hci_DependsOnHandoffIDs = [],
      hci_RequiredForWorkflowCompletion = True, hci_NeedsReview = False, hci_ArtifactPolicy = None,
      hci_PayloadRef = [], hci_DeliveryTargetRef = target\<rparr>"

definition createA2AAgentTurnHandoff ::
  "Handlers \<Rightarrow> string \<Rightarrow> string \<Rightarrow> (CreateHandoffResult \<times> string \<times> string) sop" where
  "createA2AAgentTurnHandoff hs rawTarget rawMessage =
     (let targetAgent = trimSpace rawTarget; message = trimSpace rawMessage in
      if targetAgent = [] then throw (ErrorText ''target_agent is required'')
      else if message = [] then throw (ErrorText ''message is required'')
      else if hs_openClawCommand hs = [] then throw (ErrorText ''openclaw dispatch defaults are not configured'')
      else
        let target = normalizeA2AAgentTurnTarget targetAgent in
        bindE (HandleHandoffCreate (agentTurn (normalizeA2AAgentTurnReceiverID targetAgent) message target)) (\<lambda>created.
        ret (created, target, message)))"

definition turnDispatch :: "string \<Rightarrow> string \<Rightarrow> string \<Rightarrow> HandoffDispatchInput" where
  "turnDispatch handoffID target message = \<lparr>hdi_HandoffID = handoffID, hdi_Adapter = ''openclaw'',
     hdi_Target = target, hdi_Command = [], hdi_Args = [], hdi_Message = message\<rparr>"

definition replyTextRequired :: error where
  "replyTextRequired = ErrorText ''completed event payload reply_text is required''"

text \<open>The reply of the last completed event.\<close>

fun lastCompleted :: "EventRecord list \<Rightarrow> EventRecord option" where
  "lastCompleted [] = None"
| "lastCompleted (e # es) =
     (case lastCompleted es of Some x \<Rightarrow> Some x | None \<Rightarrow> if ev_Type e = EventCompleted then Some e else None)"

definition completedReplyText :: "EventRecord list \<Rightarrow> error + string" where
  "completedReplyText events =
     (case lastCompleted events of
        None \<Rightarrow> Inl replyTextRequired
      | Some e \<Rightarrow> (case map_of (ev_Payload e) ''reply_text'' of
          Some (JString s) \<Rightarrow> if trimSpace s = [] then Inl replyTextRequired else Inr (trimSpace s)
        | _ \<Rightarrow> Inl replyTextRequired))"

definition HandleA2AAgentTurn :: "Handlers \<Rightarrow> string \<Rightarrow> string \<Rightarrow> A2AAgentTurnOutput sop" where
  "HandleA2AAgentTurn hs targetAgent rawMessage =
     bindE (createA2AAgentTurnHandoff hs targetAgent rawMessage) (\<lambda>(created, target, message).
     bindE (HandleHandoffDispatch hs (turnDispatch (h_ID (cres_Handoff created)) target message)) (\<lambda>(attempt, events).
     bindE (fromE (completedReplyText events)) (\<lambda>replyText.
     bindE (LoadHandoff (h_ID (cres_Handoff created))) (\<lambda>handoff.
     ret \<lparr>ato_ReplyText = replyText, ato_WorkflowID = wf_ID (cres_Workflow created), ato_HandoffID = h_ID handoff,
          ato_HandoffState = handoffStateText (h_State handoff), ato_AttemptResultStatus = attempt_ResultStatus attempt,
          ato_ExternalIDPresent = (trimSpace (attempt_ExternalID attempt) \<noteq> [])\<rparr>))))"

text \<open>\<open>HandleA2AAgentTurnStart\<close> answers at once; \<open>dispatchA2AAgentTurn\<close> is its goroutine, a later step.\<close>

definition HandleA2AAgentTurnStart :: "Handlers \<Rightarrow> string \<Rightarrow> string \<Rightarrow> A2AAgentTurnStartOutput sop" where
  "HandleA2AAgentTurnStart hs targetAgent rawMessage =
     bindE (createA2AAgentTurnHandoff hs targetAgent rawMessage) (\<lambda>(created, _, _).
     ret \<lparr>aso_Status = ''pending'', aso_WorkflowID = wf_ID (cres_Workflow created),
          aso_HandoffID = h_ID (cres_Handoff created),
          aso_HandoffState = handoffStateText (h_State (cres_Handoff created))\<rparr>)"

definition failInput :: "string \<Rightarrow> HandoffProgressInput" where
  "failInput handoffID = \<lparr>hpi_Action = ''fail'', hpi_WorkflowID = [], hpi_HandoffID = handoffID,
     hpi_Actor = \<lparr>ari_Type = ActorSystem, ari_ID = ''workflow-controller'', ari_Address = []\<rparr>,
     hpi_ArtifactCount = 0, hpi_ReviewDecision = []\<rparr>"

definition failA2AAgentTurnHandoff :: "string \<Rightarrow> unit sop" where
  "failA2AAgentTurnHandoff handoffID =
     bindE (progressError (HandleHandoffProgress (failInput handoffID))) (\<lambda>_. ret ())"

definition ignoreE :: "('db, 'a) op \<Rightarrow> ('db, unit) op" where
  "ignoreE m = handleE (bindE m (\<lambda>_. ret ())) (\<lambda>_. ret ())"

text \<open>An operation whose error is handled: it answers with its result or its error.\<close>

definition tryE :: "('db, 'a) op \<Rightarrow> ('db, error + 'a) op" where
  "tryE m w = (case m w of (r, w') \<Rightarrow> (Inr r, w'))"

definition failedTransport :: "string \<Rightarrow> bool" where
  "failedTransport status \<longleftrightarrow> status = transportStatusText TransportRejected \<or> status = transportStatusText TransportTimeout"

definition dispatchA2AAgentTurn :: "Handlers \<Rightarrow> string \<Rightarrow> string \<Rightarrow> string \<Rightarrow> unit sop" where
  "dispatchA2AAgentTurn hs handoffID target message =
     bindE (handleE (bindE (HandleHandoffDispatch hs (turnDispatch handoffID target message))
                       (\<lambda>(attempt, _). ret (failedTransport (attempt_ResultStatus attempt))))
              (\<lambda>_. ret True)) (\<lambda>fails.
     if fails then ignoreE (failA2AAgentTurnHandoff handoffID) else ret ())"

fun canTerminalizeStaleA2AAgentTurn :: "HandoffState \<Rightarrow> bool" where
  "canTerminalizeStaleA2AAgentTurn StateUnset = False"
| "canTerminalizeStaleA2AAgentTurn StateCompleted = False"
| "canTerminalizeStaleA2AAgentTurn StateFailed = False"
| "canTerminalizeStaleA2AAgentTurn StateExpired = False"
| "canTerminalizeStaleA2AAgentTurn _ = True"

definition staleTurnEvent :: "string \<Rightarrow> Handoff \<Rightarrow> DispatchAttempt \<Rightarrow> time \<Rightarrow> EventRecord" where
  "staleTurnEvent i handoff attempt now = NoEvent\<lparr>ev_ID := i, ev_WorkflowID := h_WorkflowID handoff,
     ev_HandoffID := h_ID handoff, ev_Type := EventTransportTimeout, ev_ProducerEventTime := now,
     ev_IngestedAt := now, ev_ProducerActor := ActorOf ActorSystem ''adapter'', ev_AttemptID := attempt_ID attempt\<rparr>"

definition terminalizeStaleA2AAgentTurn :: "Handlers \<Rightarrow> Handoff \<Rightarrow> DispatchAttempt list \<Rightarrow> bool sop" where
  "terminalizeStaleA2AAgentTurn hs handoff attempts =
     (if \<not> canTerminalizeStaleA2AAgentTurn (h_State handoff) \<or> attempts = [] then ret False
      else
        let attempt = last attempts in
        if attempt_ResultStatus attempt \<noteq> transportStatusText TransportRequested then ret False
        else
          bindE now_op (\<lambda>now.
          if now < attempt_RequestedAt attempt + hs_dispatchTimeout hs then ret False
          else
            bindE (SaveDispatchAttemptStatus (attempt\<lparr>attempt_ResultStatus := transportStatusText TransportTimeout,
                     attempt_FinishedAt := now\<rparr>)) (\<lambda>_.
            bindE (NewID ''evt'') (\<lambda>i.
            bindE (RecordObservedSignal (staleTurnEvent i handoff attempt now) None) (\<lambda>_.
            bindE (failA2AAgentTurnHandoff (h_ID handoff)) (\<lambda>_. ret True))))))"

definition latestAttemptSummary :: "DispatchAttempt list \<Rightarrow> string \<times> bool" where
  "latestAttemptSummary attempts =
     (if attempts = [] then ([], False)
      else (attempt_ResultStatus (last attempts), trimSpace (attempt_ExternalID (last attempts)) \<noteq> []))"

definition a2aAgentTurnResultStatus :: "HandoffState \<Rightarrow> string \<Rightarrow> string" where
  "a2aAgentTurnResultStatus s attemptStatus =
     (case s of StateCompleted \<Rightarrow> ''completed'' | StateFailed \<Rightarrow> ''failed''
      | _ \<Rightarrow> if failedTransport attemptStatus then attemptStatus else ''pending'')"

definition turnReport :: "Handoff \<Rightarrow> DispatchAttempt list \<Rightarrow> A2AAgentTurnResultOutput sop" where
  "turnReport handoff attempts =
     (let (attemptStatus, present) = latestAttemptSummary attempts;
          output = \<lparr>aro_Status = a2aAgentTurnResultStatus (h_State handoff) attemptStatus, aro_ReplyText = [],
            aro_WorkflowID = h_WorkflowID handoff, aro_HandoffID = h_ID handoff,
            aro_HandoffState = handoffStateText (h_State handoff), aro_AttemptResultStatus = attemptStatus,
            aro_ExternalIDPresent = present\<rparr> in
      if h_State handoff = StateCompleted then
        bindE (ListEvents (h_ID handoff)) (\<lambda>timeline.
        bindE (fromE (completedReplyText timeline)) (\<lambda>replyText.
        ret (output\<lparr>aro_ReplyText := replyText\<rparr>)))
      else ret output)"

definition HandleA2AAgentTurnResult :: "Handlers \<Rightarrow> string \<Rightarrow> A2AAgentTurnResultOutput sop" where
  "HandleA2AAgentTurnResult hs rawID =
     bindE (fromE (requireHandoffID rawID)) (\<lambda>handoffID.
     bindE (LoadHandoff handoffID) (\<lambda>handoff.
     bindE (ListDispatchAttempts (h_ID handoff)) (\<lambda>attempts.
     bindE (terminalizeStaleA2AAgentTurn hs handoff attempts) (\<lambda>terminalized.
     if terminalized then
       bindE (LoadHandoff (h_ID handoff)) (\<lambda>handoff.
       bindE (ListDispatchAttempts (h_ID handoff)) (\<lambda>attempts.
       turnReport handoff attempts))
     else turnReport handoff attempts))))"

section \<open>Runtime events\<close>

record RuntimeEvent =
  oe_Type :: string
  oe_WorkflowID :: string
  oe_HandoffID :: string
  oe_Agent :: string
  oe_Event :: string
  oe_ArtifactCount :: int
  oe_ReviewDecision :: string

datatype IngestStatus = StatusApplied | StatusIgnored | IngestFailed

record IngestResult =
  ir_Index :: nat
  ir_Status :: IngestStatus
  ir_Reason :: string
  ir_WorkflowID :: string
  ir_HandoffID :: string
  ir_Agent :: string
  ir_Action :: string

record IngestSummary =
  is_Processed :: nat
  is_Applied :: nat
  is_Ignored :: nat
  is_Failed :: nat
  is_Results :: "IngestResult list"

definition AgentEventType :: string where
  "AgentEventType = ''openclaw.agent.event''"

definition lifecycleAction :: "string \<Rightarrow> ProtocolAction option" where
  "lifecycleAction v =
     (let t = trimSpace v in
      if t = ''received'' then Some ProtocolActionReceive
      else if t = ''claimed'' then Some ProtocolActionClaim
      else if t = ''started'' then Some ProtocolActionStart
      else if t = ''checkpointed'' then Some ProtocolActionCheckpoint
      else if t = ''submitted'' then Some ProtocolActionSubmit
      else if t = ''reviewed'' then Some ProtocolActionReview
      else if t = ''approved'' then Some ProtocolActionApprove
      else if t = ''revision_required'' then Some ProtocolActionRequestRevision
      else if t = ''completed'' then Some ProtocolActionComplete
      else if t = ''failed'' then Some ProtocolActionFail
      else None)"

definition normalizeAgentID :: "string \<Rightarrow> string" where
  "normalizeAgentID v = trimSpace (trimPrefix (trimSpace v) ''agent:'')"

text \<open>\<open>Inr None\<close>: the event is ignored.\<close>

definition MapEvent :: "RuntimeEvent \<Rightarrow> error + ProtocolRequest option" where
  "MapEvent event =
     (if trimSpace (oe_Type event) \<noteq> AgentEventType then Inr None
      else case lifecycleAction (oe_Event event) of
        None \<Rightarrow> Inr None
      | Some action \<Rightarrow>
          if trimSpace (oe_HandoffID event) = [] then Inl (ErrorText ''handoff_id is required'')
          else if normalizeAgentID (oe_Agent event) = [] then Inl (ErrorText ''agent is required'')
          else Inr (Some \<lparr>preq_Action = action, preq_HandoffID = trimSpace (oe_HandoffID event),
            preq_WorkflowID = trimSpace (oe_WorkflowID event),
            preq_Actor = ActorOf ActorAgent (normalizeAgentID (oe_Agent event)),
            preq_ProducerEventTime = 0, preq_IngestedAt = 0, preq_ArtifactCount = oe_ArtifactCount event,
            preq_ReviewDecision = ReviewDecisionOf (trimSpace (oe_ReviewDecision event)), preq_Payload = []\<rparr>))"

definition NoSummary :: IngestSummary where
  "NoSummary = \<lparr>is_Processed = 0, is_Applied = 0, is_Ignored = 0, is_Failed = 0, is_Results = []\<rparr>"

definition eventResult :: "nat \<Rightarrow> RuntimeEvent \<Rightarrow> IngestStatus \<Rightarrow> string \<Rightarrow> IngestResult" where
  "eventResult index event status why = \<lparr>ir_Index = index, ir_Status = status, ir_Reason = why,
     ir_WorkflowID = trimSpace (oe_WorkflowID event), ir_HandoffID = trimSpace (oe_HandoffID event),
     ir_Agent = trimSpace (oe_Agent event), ir_Action = []\<rparr>"

definition appliedResult :: "nat \<Rightarrow> ProtocolRequest \<Rightarrow> IngestResult" where
  "appliedResult index request = \<lparr>ir_Index = index, ir_Status = StatusApplied, ir_Reason = [],
     ir_WorkflowID = preq_WorkflowID request, ir_HandoffID = preq_HandoffID request,
     ir_Agent = actor_ID (preq_Actor request), ir_Action = protocolActionText (preq_Action request)\<rparr>"

text \<open>One event: its result; a failed application is a result, not an error.\<close>

definition ingestEvent :: "nat \<Rightarrow> RuntimeEvent \<Rightarrow> IngestResult sop" where
  "ingestEvent index event =
     (case MapEvent event of
        Inl e \<Rightarrow> ret (eventResult index event IngestFailed (error_message e))
      | Inr None \<Rightarrow> ret (eventResult index event StatusIgnored ''ignored event'')
      | Inr (Some request) \<Rightarrow>
          handleE (bindE (progressError (ApplyProtocolAction request)) (\<lambda>_. ret (appliedResult index request)))
            (\<lambda>e. ret (eventResult index event IngestFailed (error_message e))))"

definition countResult :: "IngestSummary \<Rightarrow> IngestResult \<Rightarrow> IngestSummary" where
  "countResult s r = s\<lparr>is_Processed := is_Processed s + 1,
     is_Applied := is_Applied s + (if ir_Status r = StatusApplied then 1 else 0),
     is_Ignored := is_Ignored s + (if ir_Status r = StatusIgnored then 1 else 0),
     is_Failed := is_Failed s + (if ir_Status r = IngestFailed then 1 else 0),
     is_Results := is_Results s @ [r]\<rparr>"

definition HandleOpenClawEventIngest :: "RuntimeEvent list \<Rightarrow> IngestSummary sop" where
  "HandleOpenClawEventIngest events =
     foldE (\<lambda>s (index, event). bindE (ingestEvent index event) (\<lambda>r. ret (countResult s r)))
       NoSummary (enumerate 0 events)"

section \<open>Reading\<close>

definition HandleWorkflowList :: "(Workflow \<times> Handoff list) list sop" where
  "HandleWorkflowList = bindE ListWorkflows (\<lambda>workflows. mapE (\<lambda>w. WorkflowStatusView (wf_ID w)) workflows)"

definition HandleWorkflowStatus :: "string \<Rightarrow> (Workflow \<times> Handoff list) sop" where
  "HandleWorkflowStatus workflowID = WorkflowStatusView (trimSpace workflowID)"

definition HandleAgentList :: "AgentListInput \<Rightarrow> AgentRegistration list sop" where
  "HandleAgentList input = ListAgents \<lparr>alf_Capability = trimSpace (ali_Capability input),
     alf_ProjectRef = trimSpace (ali_ProjectRef input), alf_TaskKind = trimSpace (ali_TaskKind input),
     alf_Status = trimSpace (ali_Status input)\<rparr>"

definition HandleNextWork :: "WorkQueryInput \<Rightarrow> WorkItem list sop" where
  "HandleNextWork input = NextWork (toWorkQuery input)"

definition HandleBlockedWork :: "WorkQueryInput \<Rightarrow> BlockedWorkItem list sop" where
  "HandleBlockedWork input = BlockedWork (toWorkQuery input)"

definition HandleCollaborationTemplateList :: "CollaborationTemplate list sop" where
  "HandleCollaborationTemplateList = ret ListCollaborationTemplates"

definition HandleCoordinationEvidenceSummary :: "string \<Rightarrow> bool \<Rightarrow> CoordinationEvidenceSummary sop" where
  "HandleCoordinationEvidenceSummary workflowID includeAgents =
     CoordinationEvidenceSummaryOp \<lparr>ceq_WorkflowID = workflowID, ceq_IncludeAgents = includeAgents\<rparr>"

definition HandleWatchList :: "string \<Rightarrow> Watch list sop" where
  "HandleWatchList rawID = bindE (fromE (requireHandoffID rawID)) ListWatches"

definition HandleOwnershipGet :: "string \<Rightarrow> OwnershipBinding sop" where
  "HandleOwnershipGet rawID = bindE (fromE (requireHandoffID rawID)) LoadOwnershipBinding"

definition HandleRepairList :: "string \<Rightarrow> RepairRecord list sop" where
  "HandleRepairList handoffID = ListRepairs (trimSpace handoffID)"

definition HandleRepairCandidateList :: "string \<Rightarrow> RepairCandidate list sop" where
  "HandleRepairCandidateList rawID = bindE (fromE (requireHandoffID rawID)) ListRepairCandidatesByHandoff"

definition HandleDivergenceList :: "string \<Rightarrow> ObserverHint list sop" where
  "HandleDivergenceList rawID = bindE (fromE (requireHandoffID rawID)) ListDivergences"

section \<open>Writing\<close>

definition HandleAgentRegister :: "(string \<Rightarrow> error + time) \<Rightarrow> AgentRegisterInput \<Rightarrow> AgentRegistration sop" where
  "HandleAgentRegister parse input =
     bindE (fromE (toActorRef (agi_Actor input))) (\<lambda>actor.
     bindE (fromE (optionalTime parse (agi_LastHeartbeatAt input))) (\<lambda>heartbeat.
     RegisterAgent \<lparr>agent_Actor = actor, agent_Capabilities = trimNonEmptyStringSlice (agi_Capabilities input),
       agent_ProjectRefs = trimNonEmptyStringSlice (agi_ProjectRefs input),
       agent_TaskKinds = toTaskKinds (agi_TaskKinds input),
       agent_DeliveryTargetRef = trimSpace (agi_DeliveryTargetRef input), agent_Status = trimSpace (agi_Status input),
       agent_LastHeartbeatAt = heartbeat, agent_CreatedAt = 0, agent_UpdatedAt = 0\<rparr>))"

definition HandleCollaborationTemplateApply ::
  "(CollaborationTemplateApplyInput \<Rightarrow> string) \<Rightarrow> CollaborationTemplateApplyInput \<Rightarrow>
   CollaborationTemplateApplyResult sop" where
  "HandleCollaborationTemplateApply hash input = ApplyCollaborationTemplate hash input"

definition HandleWatchRun :: "(string \<Rightarrow> error + time) \<Rightarrow> string \<Rightarrow> (int \<times> int) sop" where
  "HandleWatchRun parse now = bindE (fromE (parse (trimSpace now))) RunWatchdog"

definition watchStatus :: "string \<Rightarrow> error + string" where
  "watchStatus s = (if isValidWatchStatus (trimSpace s) then Inr (trimSpace s)
     else Inl (ErrorText ''watch status must be active or disabled''))"

definition HandleWatchUpdate :: "(string \<Rightarrow> error + time) \<Rightarrow> WatchUpdateInput \<Rightarrow> Watch sop" where
  "HandleWatchUpdate parse input =
     (if trimSpace (wui_WatchID input) = [] then throw (ErrorText ''watch_id is required'')
      else
        bindE (fromE (optionalTime parse (wui_DeadlineAt input))) (\<lambda>deadline.
        bindE (fromE (optionalOf watchStatus (wui_Status input))) (\<lambda>status.
        UpdateWatch \<lparr>uw_WatchID = trimSpace (wui_WatchID input), uw_DeadlineAt = deadline, uw_Status = status,
          uw_EscalationPolicy = trimOptionalString (wui_EscalationPolicy input)\<rparr>)))"

definition HandleOwnershipUpdate :: "(string \<Rightarrow> error + time) \<Rightarrow> OwnershipUpdateInput \<Rightarrow> OwnershipBinding sop" where
  "HandleOwnershipUpdate parse input =
     bindE (fromE (requireHandoffID (oui_HandoffID input))) (\<lambda>handoffID.
     bindE (fromE (optionalActorRef (oui_CurrentOwner input))) (\<lambda>currentOwner.
     bindE (fromE (optionalActorRef (oui_ReviewerActor input))) (\<lambda>reviewerActor.
     bindE (fromE (optionalActorRef (oui_EscalationOwner input))) (\<lambda>escalationOwner.
     bindE (fromE (optionalActorRef (oui_FallbackOwner input))) (\<lambda>fallbackOwner.
     bindE (fromE (optionalActorRef (oui_LeaseHolder input))) (\<lambda>leaseHolder.
     bindE (fromE (optionalTime parse (oui_LeasedAt input))) (\<lambda>leasedAt.
     bindE (fromE (optionalTime parse (oui_LeaseExpiresAt input))) (\<lambda>leaseExpiresAt.
     UpdateOwnership \<lparr>uo_HandoffID = handoffID, uo_CurrentOwner = currentOwner, uo_ReviewerActor = reviewerActor,
       uo_EscalationOwner = escalationOwner, uo_FallbackOwner = fallbackOwner, uo_LeaseHolder = leaseHolder,
       uo_LeasedAt = leasedAt, uo_LeaseExpiresAt = leaseExpiresAt\<rparr>))))))))"

definition HandleRepairInvalidateEvent :: "RepairInvalidateEventInput \<Rightarrow> RepairRecord sop" where
  "HandleRepairInvalidateEvent input =
     bindE (fromE (toActorRef (rii_Actor input))) (\<lambda>actor.
     InvalidateEvent (trimSpace (rii_EventID input)) (trimSpace (rii_Reason input)) actor)"

definition HandleRepairBackfillEvent :: "RepairBackfillEventInput \<Rightarrow> RepairRecord sop" where
  "HandleRepairBackfillEvent input =
     bindE (fromE (toActorRef (rbi_SubjectActor input))) (\<lambda>subject.
     bindE (fromE (toActorRef (rbi_ProducerActor input))) (\<lambda>producer.
     bindE (fromE (toActorRef (rbi_RequestedBy input))) (\<lambda>requestedBy.
     BackfillEvent (NoEvent\<lparr>ev_WorkflowID := trimSpace (rbi_WorkflowID input),
         ev_HandoffID := trimSpace (rbi_HandoffID input), ev_Type := EventTypeOf (trimSpace (rbi_Type input)),
         ev_SubjectActor := subject, ev_ProducerActor := producer\<rparr>)
       (trimSpace (rbi_Reason input)) requestedBy)))"

definition HandleRepairReopenHandoff :: "RepairReopenHandoffInput \<Rightarrow> RepairRecord sop" where
  "HandleRepairReopenHandoff input =
     bindE (fromE (toActorRef (rri_Actor input))) (\<lambda>actor.
     ReopenHandoff (trimSpace (rri_HandoffID input)) (trimSpace (rri_Reason input)) actor)"

fun lastDivergence :: "string \<Rightarrow> ObserverHint list \<Rightarrow> ObserverHint option" where
  "lastDivergence t [] = None"
| "lastDivergence t (x # xs) =
     (case lastDivergence t xs of Some y \<Rightarrow> Some y | None \<Rightarrow> if hint_SignalType x = t then Some x else None)"

definition HandleDivergenceRecord :: "DivergenceRecordInput \<Rightarrow> DivergenceRecordOutput sop" where
  "HandleDivergenceRecord input =
     bindE (fromE (requireHandoffID (dri_HandoffID input))) (\<lambda>handoffID.
     bindE (fromE (toActorRef (dri_ProducerActor input))) (\<lambda>producer.
     let signalType = trimSpace (dri_Type input) in
     bindE (RecordObservedSignal (NoEvent\<lparr>ev_WorkflowID := trimSpace (dri_WorkflowID input),
         ev_HandoffID := handoffID, ev_Type := EventTypeOf signalType, ev_ProducerActor := producer,
         ev_AttemptID := trimSpace (dri_AttemptID input)\<rparr>) None) (\<lambda>_.
     bindE (ListDivergences handoffID) (\<lambda>divergences.
     case lastDivergence signalType divergences of
       None \<Rightarrow> throw (ErrorText ''recorded divergence was not found'')
     | Some x \<Rightarrow>
         bindE (ListRepairCandidatesByHandoff handoffID) (\<lambda>candidates.
         ret \<lparr>dro_Divergence = x, dro_RepairCandidates = candidates\<rparr>)))))"

end
