(* ===== verification/Tool_Reach.thy ===== *)
theory Tool_Reach
  imports Tool_Handlers
begin

text \<open>
  What a tool call may do to the database: \<open>stepwise m\<close> says that \<open>m\<close>, whatever its result,
  does a sequence of service steps and transport-status updates and nothing else. Every writing
  handler is stepwise, every reading handler leaves the database alone.
\<close>

section \<open>A system that moves by steps\<close>

locale moving_system =
  fixes move :: "'d \<Rightarrow> 'd \<Rightarrow> bool"
    and inv :: "'d \<Rightarrow> bool"
    and grows :: "'d \<Rightarrow> 'd \<Rightarrow> bool"
  assumes move_inv: "move d d' \<Longrightarrow> inv d \<Longrightarrow> inv d'"
    and move_grows: "move d d' \<Longrightarrow> grows d d'"
    and grows_refl: "grows d d"
    and grows_trans: "grows d d' \<Longrightarrow> grows d' d'' \<Longrightarrow> grows d d''"
begin

lemma moves_inv: "move\<^sup>*\<^sup>* d d' \<Longrightarrow> inv d \<Longrightarrow> inv d'"
  by (induction rule: rtranclp_induct) (auto intro: move_inv)

lemma moves_grows: "move\<^sup>*\<^sup>* d d' \<Longrightarrow> grows d d'"
  by (induction rule: rtranclp_induct) (auto intro: move_grows grows_refl grows_trans)

end

text \<open>
  \<open>attempt_status\<close> is the one statement that the handlers send to the store themselves: the
  transport status of an attempt that is too old.
\<close>

inductive platform_step :: "store \<Rightarrow> store \<Rightarrow> bool" where
  service: "service_step d d' \<Longrightarrow> platform_step d d'"
| attempt_status: "SaveDispatchAttemptStatus a w = (r, w') \<Longrightarrow> platform_step (w_db w) (w_db w')"

lemma attemptStatus_inv: "store_inv d \<Longrightarrow> guarantees (SaveDispatchAttemptStatus a) (\<lambda>_. store_inv) store_inv d"
  by (rule saveAttemptStatus_safe)

lemma platform_step_inv: "platform_step d d' \<Longrightarrow> store_inv d \<Longrightarrow> store_inv d'"
proof (induction rule: platform_step.induct)
  case service then show ?case by (rule service_step_inv)
next
  case attempt_status then show ?case by (blast intro: safeD attemptStatus_inv)
qed

lemma platform_step_history: "platform_step d d' \<Longrightarrow> history_le d d'"
proof (induction rule: platform_step.induct)
  case service then show ?case by (rule service_step_history)
next
  case attempt_status then show ?case by (rule historyD [OF keeps_attemptStatus])
qed

interpretation platform: moving_system platform_step store_inv history_le
  by unfold_locales (auto intro: platform_step_inv platform_step_history history_le_trans history_le_refl)

lemma platform_creation_stays:
  "platform_step\<^sup>*\<^sup>* d d' \<Longrightarrow> creation_of d k = Some r \<Longrightarrow> creation_of d' k = Some r"
  using platform.moves_grows [of d d'] by (auto simp: creation_of_def history_le_def intro: find_by_prefix)

section \<open>Operations that read\<close>

lemmas list_defs = ListEvents_def EffectiveEvents_def ListDispatchAttempts_def ListDivergences_def
  ListRepairCandidatesByHandoff_def ListRepairs_def ListAgents_def earliestActiveWatch_def

lemma reads_lists [preserves_intros]:
  "preserves P (LoadHandoff i)" "preserves P (LoadWorkflow i)" "preserves P (ListEvents i)"
  "preserves P (ListDispatchAttempts i)" "preserves P (ListDivergences i)"
  "preserves P (ListRepairCandidatesByHandoff i)" "preserves P (ListRepairs i)" "preserves P (ListWatches i)"
  "preserves P (ListAgents f)" "preserves P (ListAgentRegistrations f)" "preserves P (earliestActiveWatch i)"
  "preserves P (LoadOwnershipBinding i)" "preserves P ListHandoffs" "preserves P (ListWorkflowHandoffs i)"
  "preserves P (EffectiveEvents i)"
  unfolding list_defs statement_defs by (intro preserves_intros)+

lemma reads_workflows [preserves_intros]: "preserves P ListWorkflows"
  unfolding ListWorkflows_def by (intro preserves_intros)

lemma reads_blockedWatch [preserves_intros]: "preserves P (workflowHasBlockedWatch hs)"
  by (induction hs) (auto intro!: preserves_intros)

lemma reads_statusView [preserves_intros]: "preserves P (WorkflowStatusView i)"
  unfolding WorkflowStatusView_def Let_def by (intro preserves_intros)

lemma reads_work [preserves_intros]: "preserves P (NextWork q)" "preserves P (BlockedWork q)"
  unfolding NextWork_def BlockedWork_def workProjectionInputs_def loadWorkflows_def loadWorkflowInto_def
    nextWorkItem_def blockedWorkItem_def workBlockReasons_def Let_def
  by (intro preserves_intros)+

lemma reads_evidence [preserves_intros]: "preserves P (CoordinationEvidenceSummaryOp q)"
  unfolding CoordinationEvidenceSummaryOp_def coordinationEvidenceWorkflowViews_def
    coordinationEvidenceWorkflow_def coordinationEvidenceHandoff_def addAgents_def Let_def
  by (intro preserves_intros)

lemma reads_fromE [preserves_intros]: "preserves P (fromE r)"
  unfolding fromE_def by (intro preserves_intros)

text \<open>The reading handlers.\<close>

lemma reads_handlers:
  "preserves P (HandleHandoffGet i)" "preserves P HandleWorkflowList" "preserves P (HandleWorkflowStatus i)"
  "preserves P (HandleAgentList ainput)" "preserves P (HandleNextWork q)" "preserves P (HandleBlockedWork q)"
  "preserves P HandleCollaborationTemplateList" "preserves P (HandleCoordinationEvidenceSummary i b)"
  "preserves P (HandleWatchList i)" "preserves P (HandleOwnershipGet i)" "preserves P (HandleRepairList i)"
  "preserves P (HandleRepairCandidateList i)" "preserves P (HandleDivergenceList i)"
  unfolding HandleHandoffGet_def HandleWorkflowList_def HandleWorkflowStatus_def HandleAgentList_def
    HandleNextWork_def HandleBlockedWork_def HandleCollaborationTemplateList_def
    HandleCoordinationEvidenceSummary_def HandleWatchList_def HandleOwnershipGet_def HandleRepairList_def
    HandleRepairCandidateList_def HandleDivergenceList_def
  by (intro preserves_intros)+

section \<open>Operations that do steps\<close>

definition stepwise :: "'a sop \<Rightarrow> bool" where
  "stepwise m \<longleftrightarrow> (\<forall>d0. preserves (platform_step\<^sup>*\<^sup>* d0) m)"

lemma stepwiseD: "stepwise m \<Longrightarrow> m w = (r, w') \<Longrightarrow> platform_step\<^sup>*\<^sup>* (w_db w) (w_db w')"
  unfolding stepwise_def using preservesD [of "platform_step\<^sup>*\<^sup>* (w_db w)" m w] by simp

lemma stepwise_preserves: "stepwise m \<Longrightarrow> preserves (platform_step\<^sup>*\<^sup>* d0) m"
  by (simp add: stepwise_def)

lemma stepwise_step: "(\<And>w r w'. m w = (r, w') \<Longrightarrow> platform_step (w_db w) (w_db w')) \<Longrightarrow> stepwise m"
  unfolding stepwise_def preserves_def
  by (metis prod.collapse rtranclp.rtrancl_into_rtrancl)

lemma stepwise_service: "(\<And>w r w'. m w = (r, w') \<Longrightarrow> service_step (w_db w) (w_db w')) \<Longrightarrow> stepwise m"
  by (rule stepwise_step, rule platform_step.service)

named_theorems steps \<open>operations that only do platform steps\<close>

lemma steps_service [steps]:
  "stepwise (RegisterAgent agent)" "stepwise (CreateHandoff cinput)" "stepwise (CreateHandoffIdempotent iinput)"
  "stepwise (AppendHandoff wid cinput)" "stepwise (ApplyProtocolAction req)" "stepwise (RecordObservedSignal e hint)"
  "stepwise (DispatchHandoff adapter dinput)" "stepwise (InvalidateEvent i why actor)"
  "stepwise (BackfillEvent e why actor)" "stepwise (ReopenHandoff i why actor)" "stepwise (UpdateWatch winput)"
  "stepwise (UpdateOwnership oinput)" "stepwise (RunWatchdog now)" "stepwise (ApplyCollaborationTemplate hash tinput)"
  by (rule stepwise_service, erule service_step.intros)+

lemma steps_attemptStatus [steps]: "stepwise (SaveDispatchAttemptStatus a)"
  by (rule stepwise_step, erule platform_step.attempt_status)

lemma steps_bindE [steps]: "stepwise m \<Longrightarrow> (\<And>a. stepwise (f a)) \<Longrightarrow> stepwise (bindE m f)"
  unfolding stepwise_def by (intro allI preserves_intros) auto

lemma steps_handleE [steps]: "stepwise m \<Longrightarrow> (\<And>e. stepwise (h e)) \<Longrightarrow> stepwise (handleE m h)"
  unfolding stepwise_def by (intro allI preserves_intros) auto

lemma steps_foldE [steps]: "(\<And>s x. stepwise (f s x)) \<Longrightarrow> stepwise (foldE f s xs)"
  unfolding stepwise_def by (intro allI preserves_intros) auto

lemma steps_reading [steps]:
  "stepwise (ret a)" "stepwise (throw e)" "stepwise now_op" "stepwise (NewID p)" "stepwise (LoadHandoff i)"
  "stepwise (ListEvents i)" "stepwise (ListDispatchAttempts i)" "stepwise (ListDivergences i)"
  "stepwise (ListRepairCandidatesByHandoff i)" "stepwise (fromE r)"
  unfolding stepwise_def by (intro allI preserves_intros)+

lemma steps_if [steps]: "(b \<Longrightarrow> stepwise m) \<Longrightarrow> (\<not> b \<Longrightarrow> stepwise n) \<Longrightarrow> stepwise (if b then m else n)"
  by simp

lemma steps_case [steps]:
  "(x = None \<Longrightarrow> stepwise m) \<Longrightarrow> (\<And>a. x = Some a \<Longrightarrow> stepwise (f a)) \<Longrightarrow>
     stepwise (case x of None \<Rightarrow> m | Some a \<Rightarrow> f a)"
  "(\<And>a. y = Inl a \<Longrightarrow> stepwise (k a)) \<Longrightarrow> (\<And>b. y = Inr b \<Longrightarrow> stepwise (g b)) \<Longrightarrow>
     stepwise (case y of Inl a \<Rightarrow> k a | Inr b \<Rightarrow> g b)"
  "(\<And>a b. p = (a, b) \<Longrightarrow> stepwise (q a b)) \<Longrightarrow> stepwise (case p of (a, b) \<Rightarrow> q a b)"
  by (simp_all split: option.split sum.split prod.split)

lemma guarantees_tryE [vcg]:
  "guarantees m (\<lambda>a. Q (Inr a)) (\<lambda>d'. \<forall>e. Q (Inl e) d') d \<Longrightarrow> guarantees (tryE m) Q E d"
proof (rule guaranteesI)
  fix w a w'
  assume m: "guarantees m (\<lambda>a. Q (Inr a)) (\<lambda>d'. \<forall>e. Q (Inl e) d') d" "w_db w = d" "tryE m w = (Inr a, w')"
  then show "Q a (w_db w')" by (cases a) (auto simp: tryE_def dest: guaranteesD split: prod.splits)
qed (auto simp: tryE_def split: prod.splits)

lemma preserves_tryE [preserves_intros]: "preserves P m \<Longrightarrow> preserves P (tryE m)"
  by (auto simp: preserves_def tryE_def split: prod.splits)

lemma steps_tryE [steps]: "stepwise m \<Longrightarrow> stepwise (tryE m)"
  unfolding stepwise_def by (intro allI preserves_intros) auto

section \<open>The writing handlers\<close>

lemma steps_create [steps]: "stepwise (HandleHandoffCreate input)"
  unfolding HandleHandoffCreate_def Let_def by (intro steps)

lemma steps_controlled [steps]: "stepwise (HandleControlledTaskCreate input)"
  unfolding HandleControlledTaskCreate_def by (intro steps)

lemma steps_dispatch [steps]: "stepwise (HandleHandoffDispatch hs input)"
  unfolding HandleHandoffDispatch_def Let_def by (intro steps)

lemma steps_progress [steps]: "stepwise (HandleHandoffProgress input)"
  unfolding HandleHandoffProgress_def by (intro steps)

lemma steps_progressError [steps]: "stepwise m \<Longrightarrow> stepwise (progressError m)"
  unfolding progressError_def by (intro steps)

lemma steps_createTurn [steps]: "stepwise (createA2AAgentTurnHandoff hs target message)"
  unfolding createA2AAgentTurnHandoff_def Let_def by (intro steps)

lemma steps_turn [steps]: "stepwise (HandleA2AAgentTurn hs target message)"
  unfolding HandleA2AAgentTurn_def by (intro steps)

lemma steps_turnStart [steps]: "stepwise (HandleA2AAgentTurnStart hs target message)"
  unfolding HandleA2AAgentTurnStart_def by (intro steps)

lemma steps_failTurn [steps]: "stepwise (failA2AAgentTurnHandoff i)"
  unfolding failA2AAgentTurnHandoff_def by (intro steps)

lemma steps_ignoreE [steps]: "stepwise m \<Longrightarrow> stepwise (ignoreE m)"
  unfolding ignoreE_def by (intro steps)

lemma steps_turnDispatch [steps]: "stepwise (dispatchA2AAgentTurn hs i target message)"
  unfolding dispatchA2AAgentTurn_def by (intro steps)

lemma steps_stale [steps]: "stepwise (terminalizeStaleA2AAgentTurn hs h attempts)"
  unfolding terminalizeStaleA2AAgentTurn_def Let_def by (intro steps)

lemma steps_turnResult [steps]: "stepwise (HandleA2AAgentTurnResult hs i)"
  unfolding HandleA2AAgentTurnResult_def turnReport_def Let_def by (intro steps)

lemma steps_ingestEvent [steps]: "stepwise (ingestEvent index event)"
  unfolding ingestEvent_def by (intro steps)

lemma steps_ingest [steps]: "stepwise (HandleOpenClawEventIngest events)"
  unfolding HandleOpenClawEventIngest_def by (intro steps)

lemma steps_agentRegister [steps]: "stepwise (HandleAgentRegister parse ainput)"
  unfolding HandleAgentRegister_def by (intro steps)

lemma steps_templateApply [steps]: "stepwise (HandleCollaborationTemplateApply hash tinput)"
  unfolding HandleCollaborationTemplateApply_def by (intro steps)

lemma steps_watch [steps]: "stepwise (HandleWatchRun parse now)" "stepwise (HandleWatchUpdate parse winput)"
  unfolding HandleWatchRun_def HandleWatchUpdate_def by (intro steps)+

lemma steps_ownership [steps]: "stepwise (HandleOwnershipUpdate parse oinput)"
  unfolding HandleOwnershipUpdate_def by (intro steps)

lemma steps_repair [steps]:
  "stepwise (HandleRepairInvalidateEvent iinput)" "stepwise (HandleRepairBackfillEvent binput)"
  "stepwise (HandleRepairReopenHandoff rinput)"
  unfolding HandleRepairInvalidateEvent_def HandleRepairBackfillEvent_def HandleRepairReopenHandoff_def
  by (intro steps)+

lemma steps_divergence [steps]: "stepwise (HandleDivergenceRecord dinput)"
  unfolding HandleDivergenceRecord_def Let_def by (intro steps)

section \<open>Tool calls\<close>

text \<open>
  One call of a writing handler, or the background dispatch of an agent turn that was started
  before.
\<close>

inductive tool_step :: "store \<Rightarrow> store \<Rightarrow> bool" where
  tool_create: "HandleHandoffCreate cinput w = (r0, w') \<Longrightarrow> tool_step (w_db w) (w_db w')"
| tool_controlled: "HandleControlledTaskCreate tinput w = (r1, w') \<Longrightarrow> tool_step (w_db w) (w_db w')"
| tool_dispatch: "HandleHandoffDispatch hs dinput w = (r2, w') \<Longrightarrow> tool_step (w_db w) (w_db w')"
| tool_progress: "HandleHandoffProgress pinput w = (r3, w') \<Longrightarrow> tool_step (w_db w) (w_db w')"
| tool_turn: "HandleA2AAgentTurn hs agent message w = (r4, w') \<Longrightarrow> tool_step (w_db w) (w_db w')"
| tool_turn_start: "HandleA2AAgentTurnStart hs agent message w = (r5, w') \<Longrightarrow> tool_step (w_db w) (w_db w')"
| tool_turn_dispatch: "dispatchA2AAgentTurn hs i agent message w = (r6, w') \<Longrightarrow> tool_step (w_db w) (w_db w')"
| tool_turn_result: "HandleA2AAgentTurnResult hs i w = (r7, w') \<Longrightarrow> tool_step (w_db w) (w_db w')"
| tool_ingest: "HandleOpenClawEventIngest events w = (r8, w') \<Longrightarrow> tool_step (w_db w) (w_db w')"
| tool_register: "HandleAgentRegister parse ainput w = (r9, w') \<Longrightarrow> tool_step (w_db w) (w_db w')"
| tool_template: "HandleCollaborationTemplateApply hash ctinput w = (r10, w') \<Longrightarrow> tool_step (w_db w) (w_db w')"
| tool_watch_run: "HandleWatchRun parse now w = (r11, w') \<Longrightarrow> tool_step (w_db w) (w_db w')"
| tool_watch_update: "HandleWatchUpdate parse winput w = (r12, w') \<Longrightarrow> tool_step (w_db w) (w_db w')"
| tool_ownership: "HandleOwnershipUpdate parse oinput w = (r13, w') \<Longrightarrow> tool_step (w_db w) (w_db w')"
| tool_invalidate: "HandleRepairInvalidateEvent iinput w = (r14, w') \<Longrightarrow> tool_step (w_db w) (w_db w')"
| tool_backfill: "HandleRepairBackfillEvent binput w = (r14, w') \<Longrightarrow> tool_step (w_db w) (w_db w')"
| tool_reopen: "HandleRepairReopenHandoff rinput w = (r14, w') \<Longrightarrow> tool_step (w_db w) (w_db w')"
| tool_divergence: "HandleDivergenceRecord dvinput w = (r15, w') \<Longrightarrow> tool_step (w_db w) (w_db w')"

lemma tool_step_moves: "tool_step d d' \<Longrightarrow> platform_step\<^sup>*\<^sup>* d d'"
  by (induction rule: tool_step.induct) (erule stepwiseD [rotated], rule steps)+

lemma tool_steps_move: "tool_step\<^sup>*\<^sup>* d d' \<Longrightarrow> platform_step\<^sup>*\<^sup>* d d'"
  by (induction rule: rtranclp_induct) (auto dest: tool_step_moves intro: rtranclp_trans)

interpretation tools: moving_system tool_step store_inv history_le
  by unfold_locales
    (auto dest: tool_step_moves intro: platform.moves_inv platform.moves_grows history_le_trans)

end
