(* ===== verification/Tool_Contracts.thy ===== *)
theory Tool_Contracts
  imports Tool_Reach
begin

text \<open>
  What the tool calls promise: an event is recorded with the type and the actors it was asked
  for, a failed agent turn leaves a failed handoff, and a batch of runtime events is accounted
  for event by event.
\<close>

section \<open>Recording what was asked for\<close>

definition same_request :: "EventRecord \<Rightarrow> EventRecord \<Rightarrow> bool" where
  "same_request e x \<longleftrightarrow> ev_Type x = ev_Type e \<and> ev_HandoffID x = ev_HandoffID e
     \<and> ev_ProducerActor x = ev_ProducerActor e \<and> ev_SubjectActor x = ev_SubjectActor e
     \<and> ev_ReviewDecision x = ev_ReviewDecision e \<and> ev_ArtifactCount x = ev_ArtifactCount e
     \<and> ev_Payload x = ev_Payload e"

lemma guarantees_accepted_any:
  "(\<And>a d'. Q a d') \<Longrightarrow> (\<And>d'. E d') \<Longrightarrow> guarantees m Q E d"
  by (rule guaranteesI) auto

lemma guarantees_conj:
  "guarantees m Q E d \<Longrightarrow> guarantees m R (\<lambda>_. True) d \<Longrightarrow> guarantees m (\<lambda>a d'. Q a d' \<and> R a d') E d"
  by (rule guaranteesI) (auto dest: guaranteesD)

lemma record_request:
  assumes "store_inv d"
  shows "guarantees (RecordAuthoritativeEvent e)
    (\<lambda>res d'. record_outcome d res d' \<and> same_request e (ed_Event (fst res))) (\<lambda>d'. d' = d) d"
proof -
  have "guarantees (RecordAuthoritativeEvent e) (\<lambda>res _. same_request e (ed_Event (fst res))) (\<lambda>_. True) d"
    unfolding RecordAuthoritativeEvent_def fillEvent_def Let_def
    by (intro vcg guarantees_accepted_any) (auto simp: same_request_def)
  then show ?thesis by (intro guarantees_conj record_contract assms)
qed

text \<open>The event a protocol request stands for, on the handoff it names.\<close>

definition protocol_outcome :: "store \<Rightarrow> ProtocolRequest \<Rightarrow> EventDecision \<times> error option \<Rightarrow> store \<Rightarrow> bool" where
  "protocol_outcome d req res d' \<longleftrightarrow> record_outcome d res d' \<and>
     (\<exists>h e. find_by h_ID (preq_HandoffID req) (st_handoffs d) = Some h
        \<and> protocolEventFromRequest h req = Inr e \<and> same_request e (ed_Event (fst res)))"

lemma protocol_contract:
  assumes "store_inv d"
  shows "guarantees (ApplyProtocolAction req) (protocol_outcome d req) (\<lambda>d'. d' = d) d"
  unfolding ApplyProtocolAction_def
  by (intro vcg guarantees_mono [OF record_request]) (use assms in \<open>auto simp: protocol_outcome_def\<close>)

section \<open>Failing a handoff\<close>

definition byController :: "EventRecord \<Rightarrow> bool" where
  "byController e \<longleftrightarrow> ev_Type e = EventFailed
     \<and> ev_ProducerActor e = ActorOf ActorSystem ''workflow-controller''
     \<and> ev_SubjectActor e = ActorOf ActorSystem ''workflow-controller''"

lemma controller_fails:
  assumes "lifecycle_wf m" and "byController e"
  shows "accepts m e \<longleftrightarrow> canTransitionToFailed (h_State m)"
    and "accepts m e \<Longrightarrow> h_State (projection_of m e) = StateFailed"
proof -
  have "validateWorkerActor m e l = None" for l
    using assms(2) by (simp add: byController_def validateWorkerActor_def missingActor_def sameActor_def
        workflowController_def ActorOf_def Let_def)
  with assms show acc: "accepts m e \<longleftrightarrow> canTransitionToFailed (h_State m)"
    by (auto simp: accepts_iff wf_hydrated byController_def dispatchCase_def caseFailed_def)
  show "h_State (projection_of m e) = StateFailed" if "accepts m e"
    using accepted_lands [OF assms(1) that] projection_progress(1) [OF assms(1) that] assms(2)
    by (simp add: byController_def same_progress_def)
qed

lemma fail_request:
  "toActorRef (hpi_Actor (failInput i)) = Inr (ActorOf ActorSystem ''workflow-controller'')"
  "normalizeProtocolAction (hpi_Action (failInput i)) = ProtocolActionFail"
proof -
  have [simp]: "trimSpace ''system'' = ''system''" "trimSpace ''workflow-controller'' = ''workflow-controller''"
    "trimSpace ''fail'' = ''fail''" "trimSpace [] = []"
    by (simp_all add: trimSpace_visible visible_char_def)
  show "toActorRef (hpi_Actor (failInput i)) = Inr (ActorOf ActorSystem ''workflow-controller'')"
    by (simp add: toActorRef_def failInput_def ActorOf_def)
  show "normalizeProtocolAction (hpi_Action (failInput i)) = ProtocolActionFail"
    by (simp add: failInput_def normalizeProtocolAction_def Let_def)
qed

lemma guarantees_fromE [vcg]:
  "(\<And>e. r = Inl e \<Longrightarrow> E d) \<Longrightarrow> (\<And>a. r = Inr a \<Longrightarrow> Q a d) \<Longrightarrow> guarantees (fromE r) Q E d"
  unfolding fromE_def by (intro vcg)

lemma guarantees_progressError:
  "guarantees m (\<lambda>res d'. case snd res of None \<Rightarrow> Q (fst res) d' | Some err \<Rightarrow> E d') E d \<Longrightarrow>
   guarantees (progressError m) Q E d"
  unfolding progressError_def
  by (intro vcg) (auto elim!: guarantees_mono intro!: vcg split: option.splits)

text \<open>
  The workflow controller fails handoff \<open>i\<close>: one \<open>failed\<close> event is committed on it; or the
  event is refused, because the handoff is in a final state, and only audited.
\<close>

definition controller_failed :: "store \<Rightarrow> string \<Rightarrow> store \<Rightarrow> bool" where
  "controller_failed d i d' \<longleftrightarrow>
     (\<exists>m e. find_by h_ID i (st_handoffs d) = Some m \<and> canTransitionToFailed (h_State m)
        \<and> byController e \<and> ev_HandoffID e = i \<and> ev_Accepted e \<and> d' = commit_event m e d)"

definition fail_refused :: "store \<Rightarrow> string \<Rightarrow> store \<Rightarrow> bool" where
  "fail_refused d i d' \<longleftrightarrow> d' = d \<or>
     (\<exists>m e. find_by h_ID i (st_handoffs d) = Some m \<and> \<not> canTransitionToFailed (h_State m)
        \<and> byController e \<and> ev_HandoffID e = i \<and> \<not> ev_Accepted e \<and> d' = d\<lparr>st_audit := st_audit d @ [e]\<rparr>)"

lemma fail_event:
  assumes "protocolEventFromRequest h req = Inr e" and "preq_Action req = ProtocolActionFail"
    and "preq_Actor req = ActorOf ActorSystem ''workflow-controller''" and "same_request e x"
  shows "byController x" "ev_HandoffID x = preq_HandoffID req"
  using assms by (auto simp: protocolEventFromRequest_def same_request_def byController_def Let_def)

lemma controller_contract:
  assumes "store_inv d" and "toActorRef (hpi_Actor input) = Inr (ActorOf ActorSystem ''workflow-controller'')"
    and "normalizeProtocolAction (hpi_Action input) = ProtocolActionFail"
  shows "guarantees (progressError (HandleHandoffProgress input))
    (\<lambda>_ d'. controller_failed d (trimSpace (hpi_HandoffID input)) d') (fail_refused d (trimSpace (hpi_HandoffID input))) d"
proof -
  let ?i = "trimSpace (hpi_HandoffID input)"
  let ?req = "\<lparr>preq_Action = ProtocolActionFail, preq_HandoffID = ?i, preq_WorkflowID = trimSpace (hpi_WorkflowID input),
       preq_Actor = ActorOf ActorSystem ''workflow-controller'', preq_ProducerEventTime = 0, preq_IngestedAt = 0,
       preq_ArtifactCount = hpi_ArtifactCount input,
       preq_ReviewDecision = ReviewDecisionOf (trimSpace (hpi_ReviewDecision input)), preq_Payload = []\<rparr>"
  have handler: "HandleHandoffProgress input = ApplyProtocolAction ?req"
    using assms by (simp add: HandleHandoffProgress_def fromE_def)
  have out: "case snd res of None \<Rightarrow> controller_failed d ?i d' | Some err \<Rightarrow> fail_refused d ?i d'"
    if "protocol_outcome d ?req res d'" for res d'
  proof -
    from that obtain h e where e: "protocolEventFromRequest h ?req = Inr e" "same_request e (ed_Event (fst res))"
      and r: "record_outcome d res d'" by (auto simp: protocol_outcome_def)
    have by_c: "byController (ed_Event (fst res))" "ev_HandoffID (ed_Event (fst res)) = ?i"
      using fail_event [OF e(1) _ _ e(2)] by simp_all
    from r by_c(2) obtain m where m: "find_by h_ID ?i (st_handoffs d) = Some m"
      by (auto simp: record_outcome_def Let_def)
    have wf: "lifecycle_wf m" using inv_handoff(2) [OF assms(1) m] by (simp add: backed_def)
    show ?thesis using r by_c m controller_fails(1) [OF wf by_c(1)]
      by (auto simp: record_outcome_def Let_def controller_failed_def fail_refused_def split: option.splits)
  qed
  show ?thesis unfolding handler
    by (intro guarantees_progressError guarantees_mono [OF protocol_contract [OF assms(1)]])
      (use out in \<open>auto simp: fail_refused_def\<close>)
qed

lemma fail_contract:
  assumes "store_inv d"
  shows "guarantees (progressError (HandleHandoffProgress (failInput i)))
    (\<lambda>_ d'. controller_failed d (trimSpace i) d') (fail_refused d (trimSpace i)) d"
  using controller_contract [OF assms fail_request, of i] by (simp add: failInput_def)

lemma controller_failed_effect:
  assumes "store_inv d" and "controller_failed d i d'"
  obtains m e where "find_by h_ID i (st_handoffs d) = Some m" and "canTransitionToFailed (h_State m)"
    and "byController e" and "ev_HandoffID e = i" and "st_accepted d' = st_accepted d @ [e]"
    and "find_by h_ID i (st_handoffs d') = Some (projection_of m e)" and "h_State (projection_of m e) = StateFailed"
    and "\<And>j. j \<noteq> i \<Longrightarrow> find_by h_ID j (st_handoffs d') = find_by h_ID j (st_handoffs d)"
    and "st_attempts d' = st_attempts d"
proof -
  from assms(2) obtain m e where m: "find_by h_ID i (st_handoffs d) = Some m" "canTransitionToFailed (h_State m)"
      "byController e" "ev_HandoffID e = i" and d': "d' = commit_event m e d"
    by (auto simp: controller_failed_def)
  have "lifecycle_wf m" using inv_handoff(2) [OF assms(1) m(1)] by (simp add: backed_def)
  then have "h_State (projection_of m e) = StateFailed" using controller_fails m(2,3) by blast
  moreover have "h_ID m = i" using m(1) by (auto dest: find_by_Some)
  ultimately show thesis using m
    by (intro that [of m e]) (simp_all add: d' commit_event_def find_by_upsert put_handoff_def put_binding_def)
qed

section \<open>Agent turns\<close>

definition attempts_of :: "store \<Rightarrow> string \<Rightarrow> DispatchAttempt list" where
  "attempts_of d i =
     order_by attempt_RequestedAt attempt_ID (filter (\<lambda>a. attempt_HandoffID a = i) (st_attempts d))"

lemma guarantees_ListDispatchAttempts [vcg]:
  "E d \<Longrightarrow> Q (attempts_of d i) d \<Longrightarrow> guarantees (ListDispatchAttempts i) Q E d"
  unfolding ListDispatchAttempts_def attempts_of_def by (intro vcg)

lemma guarantees_ListEvents [vcg]:
  "E d \<Longrightarrow> Q (effective_list d i) d \<Longrightarrow> guarantees (ListEvents i) Q E d"
  unfolding ListEvents_def by (intro vcg)

text \<open>The attempt that waits for an answer, and whether it waited too long.\<close>

definition waiting_attempt :: "Handoff \<Rightarrow> DispatchAttempt list \<Rightarrow> DispatchAttempt option" where
  "waiting_attempt h attempts =
     (if canTerminalizeStaleA2AAgentTurn (h_State h) \<and> attempts \<noteq> []
         \<and> attempt_ResultStatus (last attempts) = transportStatusText TransportRequested
      then Some (last attempts) else None)"

lemma terminalize_cases:
  "terminalizeStaleA2AAgentTurn hs h attempts =
     (case waiting_attempt h attempts of
        None \<Rightarrow> ret False
      | Some a \<Rightarrow>
          bindE now_op (\<lambda>now.
          if now < attempt_RequestedAt a + hs_dispatchTimeout hs then ret False
          else
            bindE (SaveDispatchAttemptStatus (a\<lparr>attempt_ResultStatus := transportStatusText TransportTimeout,
                     attempt_FinishedAt := now\<rparr>)) (\<lambda>_.
            bindE (NewID ''evt'') (\<lambda>i.
            bindE (RecordObservedSignal (staleTurnEvent i h a now) None) (\<lambda>_.
            bindE (failA2AAgentTurnHandoff (h_ID h)) (\<lambda>_. ret True))))))"
  by (simp add: terminalizeStaleA2AAgentTurn_def waiting_attempt_def Let_def)

text \<open>
  A turn that was given up: its attempt is timed out and its handoff failed, by an event of the
  workflow controller; every other handoff is as before.
\<close>

definition turn_given_up :: "store \<Rightarrow> string \<Rightarrow> string \<Rightarrow> store \<Rightarrow> bool" where
  "turn_given_up d i a d' \<longleftrightarrow>
     (\<exists>h e. find_by h_ID i (st_handoffs d') = Some h \<and> h_State h = StateFailed
        \<and> byController e \<and> ev_HandoffID e = i \<and> st_accepted d' = st_accepted d @ [e])
     \<and> (\<forall>j. j \<noteq> i \<longrightarrow> find_by h_ID j (st_handoffs d') = find_by h_ID j (st_handoffs d))
     \<and> (\<forall>x\<in>set (st_attempts d'). attempt_ID x = a \<longrightarrow>
          attempt_ResultStatus x = transportStatusText TransportTimeout)"

definition set_attempt :: "DispatchAttempt \<Rightarrow> store \<Rightarrow> store" where
  "set_attempt a d = d\<lparr>st_attempts := update_where (\<lambda>r. attempt_ID r = attempt_ID a)
     (\<lambda>r. r\<lparr>attempt_ResultStatus := attempt_ResultStatus a, attempt_FinishedAt := attempt_FinishedAt a,
            attempt_ExternalID := attempt_ExternalID a\<rparr>) (st_attempts d)\<rparr>"

lemma set_attempt_fields [simp]:
  "st_handoffs (set_attempt a d) = st_handoffs d" "st_accepted (set_attempt a d) = st_accepted d"
  by (simp_all add: set_attempt_def)

lemma set_attempt_status:
  "x \<in> set (st_attempts (set_attempt a d)) \<Longrightarrow> attempt_ID x = attempt_ID a \<Longrightarrow>
   attempt_ResultStatus x = attempt_ResultStatus a"
  by (auto simp: set_attempt_def update_where_def split: if_splits)

lemma attemptStatus_exact:
  assumes "store_inv d"
  shows "guarantees (SaveDispatchAttemptStatus a) (\<lambda>_ d'. store_inv d' \<and> d' = set_attempt a d) (\<lambda>_. True) d"
proof (rule guarantees_conj)
  show "guarantees (SaveDispatchAttemptStatus a) (\<lambda>_. store_inv) (\<lambda>_. True) d"
    by (rule guarantees_mono [OF attemptStatus_inv [OF assms]]) auto
  show "guarantees (SaveDispatchAttemptStatus a) (\<lambda>_ d'. d' = set_attempt a d) (\<lambda>_. True) d"
    unfolding SaveDispatchAttemptStatus_def saveDispatchAttemptStatusExec_def set_attempt_def by (intro vcg) auto
qed

lemma signals_inv_step:
  "store_inv d \<Longrightarrow> guarantees (RecordObservedSignal e x) (\<lambda>_ d'. store_inv d' \<and> signals_only d d') (\<lambda>_. True) d"
  by (rule guarantees_conj; rule guarantees_mono, rule RecordObservedSignal_safe signal_contract) auto

lemma give_up_contract:
  assumes "store_inv d" and "attempt_ResultStatus a = transportStatusText TransportTimeout"
  shows "guarantees (bindE (SaveDispatchAttemptStatus a) (\<lambda>_. bindE (NewID p) (\<lambda>i.
     bindE (RecordObservedSignal (f i) None) (\<lambda>_. bindE (failA2AAgentTurnHandoff k) (\<lambda>_. ret True)))))
    (\<lambda>b d'. b \<and> turn_given_up d (trimSpace k) (attempt_ID a) d') (\<lambda>_. True) d"
proof -
  have up: "turn_given_up d (trimSpace k) (attempt_ID a) d3"
    if "store_inv d2" "signals_only (set_attempt a d) d2" "controller_failed d2 (trimSpace k) d3" for d2 d3
    using that(2) by (rule_tac controller_failed_effect [OF that(1,3)])
      (auto simp: turn_given_up_def signals_only_def assms(2) dest: set_attempt_status)
  have failing: "guarantees (progressError (HandleHandoffProgress (failInput k)))
      (\<lambda>_. turn_given_up d (trimSpace k) (attempt_ID a)) (\<lambda>_. True) d2"
    if "store_inv d2" "signals_only (set_attempt a d) d2" for d2
    by (rule guarantees_mono [OF fail_contract [OF that(1)]]) (use up [OF that] in auto)
  show ?thesis unfolding failA2AAgentTurnHandoff_def
    by (intro guarantees_bindE guarantees_mono [OF attemptStatus_exact [OF assms(1)]])
      (auto intro!: vcg guarantees_mono [OF signals_inv_step] guarantees_mono [OF failing])
qed

lemma terminalize_contract:
  assumes "store_inv d"
  shows "guarantees (terminalizeStaleA2AAgentTurn hs h attempts)
    (\<lambda>b d'. if b then \<exists>a. waiting_attempt h attempts = Some a \<and> turn_given_up d (trimSpace (h_ID h)) (attempt_ID a) d'
            else d' = d) (\<lambda>_. True) d"
  unfolding terminalize_cases
  by (intro vcg guarantees_mono [OF give_up_contract [OF assms]]) auto

lemma terminalize_time:
  assumes "terminalizeStaleA2AAgentTurn hs h attempts w = (Inr False, w')" and "waiting_attempt h attempts = Some a"
  shows "w_clock w (w_tick w) < attempt_RequestedAt a + hs_dispatchTimeout hs"
  using assms unfolding terminalize_cases
  by (auto simp: bindE_Inr now_op_def ret_def throw_def split: if_splits)

text \<open>The result of a turn describes the database that the call leaves behind.\<close>

definition turn_reported :: "store \<Rightarrow> string \<Rightarrow> A2AAgentTurnResultOutput \<Rightarrow> bool" where
  "turn_reported d i out \<longleftrightarrow> (\<exists>h. find_by h_ID i (st_handoffs d) = Some h
     \<and> aro_HandoffID out = i \<and> aro_WorkflowID out = h_WorkflowID h
     \<and> aro_HandoffState out = handoffStateText (h_State h)
     \<and> (aro_AttemptResultStatus out, aro_ExternalIDPresent out) = latestAttemptSummary (attempts_of d i)
     \<and> aro_Status out = a2aAgentTurnResultStatus (h_State h) (aro_AttemptResultStatus out)
     \<and> (if h_State h = StateCompleted then completedReplyText (effective_list d i) = Inr (aro_ReplyText out)
        else aro_ReplyText out = []))"

lemma find_ID: "find_by h_ID i (st_handoffs d) = Some h \<Longrightarrow> h_ID h = i"
  by (auto dest: find_by_Some)

lemma turnReport_contract:
  assumes "find_by h_ID i (st_handoffs d) = Some h"
  shows "guarantees (turnReport h (attempts_of d i)) (\<lambda>out d'. d' = d \<and> turn_reported d i out) (\<lambda>_. True) d"
  using find_ID [OF assms] assms unfolding turnReport_def Let_def
  by (intro vcg) (auto simp: turn_reported_def)

lemma turn_result_contract:
  assumes "store_inv d"
  shows "guarantees (HandleA2AAgentTurnResult hs raw)
    (\<lambda>out d'. turn_reported d' (trimSpace raw) out
       \<and> (d' = d \<or> (\<exists>a. turn_given_up d (trimSpace raw) a d'))) (\<lambda>_. True) d"
proof -
  let ?i = "trimSpace raw"
  have report: "guarantees (turnReport h (attempts_of d' (h_ID h)))
      (\<lambda>out d'. turn_reported d' ?i out \<and> (d' = d \<or> (\<exists>a. turn_given_up d ?i a d'))) (\<lambda>_. True) d'"
    if "find_by h_ID ?i (st_handoffs d') = Some h" "d' = d \<or> (\<exists>a. turn_given_up d ?i a d')" for d' h
    using find_ID [OF that(1)] that by (auto intro: guarantees_mono [OF turnReport_contract])
  show ?thesis
    unfolding HandleA2AAgentTurnResult_def requireHandoffID_def
    by (intro vcg guarantees_mono [OF terminalize_contract [OF assms]] report)
      (auto dest: find_ID intro: report split: if_splits)
qed

text \<open>Whoever asks for an overdue turn finds it given up.\<close>

lemma reading_clock:
  "LoadHandoff i w = (r, w') \<Longrightarrow> w_clock w' = w_clock w"
  "ListDispatchAttempts i w = (r', w') \<Longrightarrow> w_clock w' = w_clock w"
  unfolding LoadHandoff_def loadHandoffTx_def ListDispatchAttempts_def queryRowE_def selectE_def
  by (auto simp: op_simps split: prod.splits sum.splits list.splits option.splits)

lemma overdue_given_up:
  assumes "store_inv (w_db w)" and run: "HandleA2AAgentTurnResult hs raw w = (Inr out, w')"
    and h: "find_by h_ID (trimSpace raw) (st_handoffs (w_db w)) = Some h"
    and a: "waiting_attempt h (attempts_of (w_db w) (trimSpace raw)) = Some a"
    and late: "\<forall>n. attempt_RequestedAt a + hs_dispatchTimeout hs \<le> w_clock w n"
  shows "turn_given_up (w_db w) (trimSpace raw) (attempt_ID a) (w_db w') \<and> aro_Status out = ''failed''"
proof -
  let ?i = "trimSpace raw" and ?d = "w_db w"
  have id: "h_ID h = ?i" using h by (rule find_ID)
  have nonempty: "?i \<noteq> []" using run by (auto simp: HandleA2AAgentTurnResult_def requireHandoffID_def fromE_def throw_def)
  have load: "guarantees (LoadHandoff ?i) (\<lambda>x d'. x = h \<and> d' = ?d) (\<lambda>_. True) ?d"
    using h by (intro vcg) auto
  have attempts: "guarantees (ListDispatchAttempts ?i) (\<lambda>x d'. x = attempts_of ?d ?i \<and> d' = ?d) (\<lambda>_. True) ?d"
    by (intro vcg) auto
  from run nonempty obtain x w1 y w2 b w3 where l: "LoadHandoff ?i w = (Inr x, w1)"
    and r: "ListDispatchAttempts (h_ID x) w1 = (Inr y, w2)"
    and t: "terminalizeStaleA2AAgentTurn hs x y w2 = (Inr b, w3)"
    and rest: "(if b then bindE (LoadHandoff (h_ID x)) (\<lambda>h. bindE (ListDispatchAttempts (h_ID h)) (turnReport h))
       else turnReport x y) w3 = (Inr out, w')"
    by (auto simp: HandleA2AAgentTurnResult_def requireHandoffID_def fromE_def bindE_Inr)
  from guaranteesD(2) [OF load l] have x: "x = h" "w_db w1 = ?d" by simp_all
  from guaranteesD(2) [OF attempts [folded x(2)], of y w2] r x id have y: "y = attempts_of ?d ?i" "w_db w2 = ?d"
    by simp_all
  have clock: "w_clock w2 = w_clock w" using reading_clock(1) [OF l] reading_clock(2) [OF r] by simp
  have b using terminalize_time [of hs h y w2 w3 a] t a late x(1) y(1) clock by (cases b) (auto simp: not_le [symmetric])
  with guaranteesD(2) [OF terminalize_contract t] assms(1) a x(1) y id
  have up: "turn_given_up ?d ?i (attempt_ID a) (w_db w3)" by simp
  have same: "w_db w' = w_db w3"
  proof -
    have "preserves (\<lambda>d. d = w_db w3) (bindE (LoadHandoff (h_ID x)) (\<lambda>h. bindE (ListDispatchAttempts (h_ID h)) (turnReport h)))"
      unfolding turnReport_def Let_def by (intro preserves_intros)
    from preservesD [OF this, of w3] rest \<open>b\<close> show ?thesis by simp
  qed
  from guaranteesD(2) [OF turn_result_contract [OF assms(1)] run] up same
  have "aro_Status out = ''failed''" by (auto simp: turn_reported_def turn_given_up_def a2aAgentTurnResultStatus_def)
  with up same show ?thesis by simp
qed

section \<open>Runtime events\<close>

text \<open>
  \<open>event_outcome d index event r d'\<close>: an unknown event changes nothing and is ignored, an
  event without its identifiers changes nothing and fails, and any other is one protocol action.
\<close>

definition event_outcome :: "store \<Rightarrow> nat \<Rightarrow> RuntimeEvent \<Rightarrow> IngestResult \<Rightarrow> store \<Rightarrow> bool" where
  "event_outcome d index event r d' \<longleftrightarrow> ir_Index r = index \<and>
     (case MapEvent event of
        Inl e \<Rightarrow> ir_Status r = IngestFailed \<and> ir_Reason r = error_message e \<and> d' = d
      | Inr None \<Rightarrow> ir_Status r = StatusIgnored \<and> d' = d
      | Inr (Some req) \<Rightarrow>
          (case ir_Status r of
             StatusApplied \<Rightarrow> (\<exists>res. protocol_outcome d req res d' \<and> snd res = None) \<and> r = appliedResult index req
           | IngestFailed \<Rightarrow> d' = d \<or> (\<exists>res err. protocol_outcome d req res d' \<and> snd res = Some err
               \<and> ir_Reason r = error_message err)
           | StatusIgnored \<Rightarrow> False))"

lemma bindE_run: "m w = (Inr a, w1) \<Longrightarrow> bindE m f w = f a w1"
  by (simp add: bindE_def)

lemma progressError_cases:
  assumes "progressError m w = (r, w')"
  obtains a where "r = Inr a" "m w = (Inr (a, None), w')"
  | a e where "r = Inl e" "m w = (Inr (a, Some e), w')"
  | e where "r = Inl e" "m w = (Inl e, w')"
  using assms unfolding progressError_def bindE_def
  by (auto simp: ret_def throw_def split: prod.splits sum.splits option.splits)

lemma ingest_event_contract:
  assumes "store_inv (w_db w)"
  obtains r w' where "ingestEvent index event w = (Inr r, w')" "event_outcome (w_db w) index event r (w_db w')"
    "store_inv (w_db w')"
proof (cases "\<exists>req. MapEvent event = Inr (Some req)")
  case False
  with assms show thesis
    by (cases "MapEvent event")
      (auto intro!: that simp: ingestEvent_def event_outcome_def eventResult_def ret_def split: option.splits)
next
  case True
  then obtain req where req: "MapEvent event = Inr (Some req)" by blast
  obtain r0 w' where run: "progressError (ApplyProtocolAction req) w = (r0, w')" by fastforce
  note contract = guaranteesD [OF protocol_contract [OF assms, of req]]
  have inv: "store_inv (w_db w')"
    using run by (rule progressError_cases) (use safeD [OF ApplyProtocolAction_safe [OF assms]] in auto)
  have go: "ingestEvent index event w = (case r0 of Inr _ \<Rightarrow> (Inr (appliedResult index req), w')
      | Inl e \<Rightarrow> (Inr (eventResult index event IngestFailed (error_message e)), w'))"
    using req run by (simp add: ingestEvent_def handleE_def bindE_def ret_def split: sum.split)
  show thesis using run
  proof (rule progressError_cases)
    fix a assume "r0 = Inr a" "ApplyProtocolAction req w = (Inr (a, None), w')"
    then show thesis using go contract(2) req inv
      by (auto intro!: that simp: event_outcome_def appliedResult_def)
  next
    fix a e assume r: "r0 = Inl e" "ApplyProtocolAction req w = (Inr (a, Some e), w')"
    from contract(2) [OF r(2)] have "protocol_outcome (w_db w) req (a, Some e) (w_db w')" .
    then have "event_outcome (w_db w) index event (eventResult index event IngestFailed (error_message e)) (w_db w')"
      using req by (auto simp: event_outcome_def eventResult_def)
    then show thesis using go r(1) inv by (intro that) simp_all
  next
    fix e assume "r0 = Inl e" "ApplyProtocolAction req w = (Inl e, w')"
    then show thesis using go contract(1) req inv
      by (auto intro!: that simp: event_outcome_def eventResult_def)
  qed
qed

fun ingested :: "nat \<Rightarrow> store \<Rightarrow> RuntimeEvent list \<Rightarrow> IngestResult list \<Rightarrow> store \<Rightarrow> bool" where
  "ingested k d [] [] d' = (d' = d)"
| "ingested k d (e # es) (r # rs) d' = (\<exists>d1. event_outcome d k e r d1 \<and> ingested (k + 1) d1 es rs d')"
| "ingested k d _ _ d' = False"

definition counted :: "IngestSummary \<Rightarrow> bool" where
  "counted s \<longleftrightarrow> is_Processed s = length (is_Results s)
     \<and> is_Applied s = length (filter (\<lambda>r. ir_Status r = StatusApplied) (is_Results s))
     \<and> is_Ignored s = length (filter (\<lambda>r. ir_Status r = StatusIgnored) (is_Results s))
     \<and> is_Failed s = length (filter (\<lambda>r. ir_Status r = IngestFailed) (is_Results s))"

lemma counted_result: "counted s \<Longrightarrow> counted (countResult s r)"
  by (simp add: counted_def countResult_def)

lemma counted_sum: "counted s \<Longrightarrow> is_Applied s + is_Ignored s + is_Failed s = is_Processed s"
proof -
  have "length (filter (\<lambda>r. ir_Status r = StatusApplied) rs) + length (filter (\<lambda>r. ir_Status r = StatusIgnored) rs)
      + length (filter (\<lambda>r. ir_Status r = IngestFailed) rs) = length rs" for rs
  proof (induction rs)
    case (Cons r rs) then show ?case by (cases "ir_Status r") auto
  qed simp
  then show "counted s \<Longrightarrow> ?thesis" by (simp add: counted_def)
qed

lemma ingest_loop:
  assumes "store_inv (w_db w)" and "counted s"
  shows "\<exists>s' rs w'. foldE (\<lambda>s (index, event). bindE (ingestEvent index event) (\<lambda>r. ret (countResult s r)))
      s (enumerate k es) w = (Inr s', w') \<and> counted s' \<and> is_Results s' = is_Results s @ rs
      \<and> ingested k (w_db w) es rs (w_db w')"
  using assms
proof (induction es arbitrary: k s w)
  case Nil
  then show ?case by (auto simp: ret_def intro: exI [of _ "[]"])
next
  case (Cons e es)
  from Cons.prems(1) obtain r w1 where r: "ingestEvent k e w = (Inr r, w1)" "event_outcome (w_db w) k e r (w_db w1)"
    "store_inv (w_db w1)" by (rule ingest_event_contract)
  from Cons.IH [where k = "Suc k", OF r(3) counted_result [OF Cons.prems(2), of r]]
  obtain s' rs w' where s': "foldE (\<lambda>s (index, event). bindE (ingestEvent index event) (\<lambda>r. ret (countResult s r)))
      (countResult s r) (enumerate (Suc k) es) w1 = (Inr s', w')" "counted s'"
      "is_Results s' = is_Results (countResult s r) @ rs" "ingested (Suc k) (w_db w1) es rs (w_db w')"
    by blast
  moreover have "bindE (ingestEvent k e) (\<lambda>r. ret (countResult s r)) w = (Inr (countResult s r), w1)"
    using r(1) by (simp add: bindE_def ret_def)
  ultimately have "foldE (\<lambda>s (index, event). bindE (ingestEvent index event) (\<lambda>r. ret (countResult s r)))
      s (enumerate k (e # es)) w = (Inr s', w')"
    by (simp add: bindE_run)
  moreover have "is_Results s' = is_Results s @ r # rs" using s'(3) by (simp add: countResult_def)
  ultimately show ?case using r(2) s'(2,4) by fastforce
qed

lemma ingest_contract:
  assumes "store_inv (w_db w)"
  shows "\<exists>s w'. HandleOpenClawEventIngest events w = (Inr s, w') \<and> counted s
     \<and> ingested 0 (w_db w) events (is_Results s) (w_db w')"
  using ingest_loop [OF assms, of NoSummary 0 events]
  by (auto simp: HandleOpenClawEventIngest_def NoSummary_def counted_def)

lemma ingested_length: "ingested k d es rs d' \<Longrightarrow> length rs = length es"
  by (induction k d es rs d' rule: ingested.induct) auto

end
