(* ===== verification/A2a_Text.thy ===== *)
theory A2a_Text
  imports Tool_Contracts
begin

text \<open>
  What the A2A server lets in and out as text (\<open>internal/a2aserver/handler.go\<close>): the checks of
  \<open>clawside.task.create\<close>, and the sanitizer of every read result.
\<close>

section \<open>Checks on text\<close>

definition hasSuffix :: "string \<Rightarrow> string \<Rightarrow> bool" where
  "hasSuffix s x = hasPrefix (rev s) (rev x)"

definition trimSuffix :: "string \<Rightarrow> string \<Rightarrow> string" where
  "trimSuffix s x = rev (trimPrefix (rev s) (rev x))"

text \<open>
  \<open>utf8.ValidString\<close>: a rune of several bytes is a well-formed encoding, a rune of one byte has
  to be ASCII.
\<close>

function valid_utf8 :: "nat list \<Rightarrow> bool" where
  "valid_utf8 bs \<longleftrightarrow>
     (if bs = [] then True
      else (rune_size bs = 1 \<longrightarrow> hd bs < 128) \<and> valid_utf8 (drop (rune_size bs) bs))"
  by pat_completeness auto
termination
  by (relation "measure length") (auto simp: drop_rune_less simp del: rune_size.simps)

declare valid_utf8.simps [simp del]

definition validString :: "string \<Rightarrow> bool" where
  "validString s = valid_utf8 (map byte_val s)"

text \<open>The loop of the code is over runes; below 128 a rune of a valid text is its byte.\<close>

definition validOptionalTaskCreateString :: "string \<Rightarrow> nat \<Rightarrow> bool" where
  "validOptionalTaskCreateString value maxLength =
     (if length value > maxLength \<or> \<not> validString value then False
      else list_all (\<lambda>c. \<not> (byte_val c < 32 \<or> byte_val c = 127)) value)"

definition validRequiredTaskCreateString :: "string \<Rightarrow> nat \<Rightarrow> bool" where
  "validRequiredTaskCreateString value maxLength \<longleftrightarrow>
     value \<noteq> [] \<and> validOptionalTaskCreateString value maxLength"

definition backslash :: string where
  "backslash = [CHR 0x5C]"

definition localPathPrefixes :: "string list" where
  "localPathPrefixes = ['' '', [CHR 0x09], [CHR 0x0A], [CHR 0x22], [CHR 0x27], [CHR 0x60], ''('', ''['', ''{'',
     '':'', ''='', '','', '';'']"

definition localPathLikeTaskCreateString :: "string \<Rightarrow> bool" where
  "localPathLikeTaskCreateString lower =
     (if containsText lower ''file:///users/'' \<or> containsText lower ('':'' @ backslash @ ''users'' @ backslash)
         \<or> containsText lower (backslash @ ''users'' @ backslash) then True
      else list_ex (\<lambda>marker. hasPrefix lower marker
             \<or> list_ex (\<lambda>prefix. containsText lower (prefix @ marker)) localPathPrefixes)
           [''/users/'', ''~/projects/''])"

definition unsafeMarkers :: "string list" where
  "unsafeMarkers = [''private prompt'', ''sk-ant-'', ''bearer '', ''secret_token'', ''begin private key'',
     ''.internal'', ''://localhost'', ''://127.'', ''://10.'', ''://192.168.'', ''://172.16.'', ''://172.17.'',
     ''://172.18.'', ''://172.19.'', ''://172.20.'', ''://172.21.'', ''://172.22.'', ''://172.23.'',
     ''://172.24.'', ''://172.25.'', ''://172.26.'', ''://172.27.'', ''://172.28.'', ''://172.29.'',
     ''://172.30.'', ''://172.31.'']"

definition unsafeTaskCreateString :: "string \<Rightarrow> bool" where
  "unsafeTaskCreateString lower \<longleftrightarrow>
     localPathLikeTaskCreateString lower \<or> list_ex (containsText lower) unsafeMarkers"

definition safeTaskCreateText :: "(string \<Rightarrow> string) \<Rightarrow> string \<Rightarrow> bool" where
  "safeTaskCreateText ul value = (\<not> unsafeTaskCreateString (toLower ul value))"

definition safeTaskCreateExternalRef :: "(string \<Rightarrow> string) \<Rightarrow> string \<Rightarrow> bool" where
  "safeTaskCreateExternalRef ul ref =
     (if ref = [] then True
      else if unsafeTaskCreateString (toLower ul ref) then False
      else hasPrefix (toLower ul ref) ''project://'' \<or> hasPrefix (toLower ul ref) ''https://''
        \<or> hasPrefix (toLower ul ref) ''http://'')"

section \<open>The sanitizer\<close>

definition a2aReadSensitiveKeys :: "string list" where
  "a2aReadSensitiveKeys = [''address'', ''args'', ''command'', ''cwd'', ''deliveryTargetRef'', ''delivery_job'',
     ''delivery_job_id'', ''delivery_target_ref'', ''idempotency_key'', ''intent'', ''local_path'', ''path'',
     ''payload'', ''payloadRef'', ''payload_ref'', ''prompt'', ''secret'', ''sender_job'', ''sender_job_id'',
     ''session_id'', ''stderr'', ''stdout'', ''token'']"

fun sanitizeA2AJSONValue :: "(string \<Rightarrow> string) \<Rightarrow> json \<Rightarrow> json" where
  "sanitizeA2AJSONValue ul (JObject kvs) =
     JObject (map (\<lambda>(key, child). (key, sanitizeA2AJSONValue ul child))
       (filter (\<lambda>(key, child). key \<notin> set a2aReadSensitiveKeys) kvs))"
| "sanitizeA2AJSONValue ul (JList values) = JList (map (sanitizeA2AJSONValue ul) values)"
| "sanitizeA2AJSONValue ul (JString s) = JString (if unsafeTaskCreateString (toLower ul s) then [] else s)"
| "sanitizeA2AJSONValue ul v = v"

text \<open>
  What may leave the server: at no depth a sensitive key or a text with an unsafe marker.
\<close>

inductive harmless :: "(string \<Rightarrow> string) \<Rightarrow> json \<Rightarrow> bool" for ul where
  harmless_null: "harmless ul JNull"
| harmless_bool: "harmless ul (JBool b)"
| harmless_number: "harmless ul (JNumber n)"
| harmless_string: "\<not> unsafeTaskCreateString (toLower ul s) \<Longrightarrow> harmless ul (JString s)"
| harmless_list: "(\<And>v. v \<in> set vs \<Longrightarrow> harmless ul v) \<Longrightarrow> harmless ul (JList vs)"
| harmless_object: "(\<And>k v. (k, v) \<in> set kvs \<Longrightarrow> k \<notin> set a2aReadSensitiveKeys \<and> harmless ul v) \<Longrightarrow>
     harmless ul (JObject kvs)"

inductive_simps harmless_simps [simp]:
  "harmless ul JNull" "harmless ul (JBool b)" "harmless ul (JNumber n)" "harmless ul (JString s)"
  "harmless ul (JList vs)" "harmless ul (JObject kvs)"

lemma empty_text_safe: "\<not> unsafeTaskCreateString (toLower ul [])"
  by (simp add: unsafeTaskCreateString_def localPathLikeTaskCreateString_def unsafeMarkers_def toLower_def
      is_ascii_def localPathPrefixes_def hasPrefix_def)

lemma sanitized_harmless: "harmless ul (sanitizeA2AJSONValue ul v)"
  by (induction ul v rule: sanitizeA2AJSONValue.induct) (auto simp: empty_text_safe)

lemma harmless_unchanged: "harmless ul v \<Longrightarrow> sanitizeA2AJSONValue ul v = v"
proof (induction rule: harmless.induct)
  case (harmless_list vs)
  then show ?case by (simp add: map_idI)
next
  case (harmless_object kvs)
  then have "filter (\<lambda>(key, child). key \<notin> set a2aReadSensitiveKeys) kvs = kvs"
    by (auto intro!: filter_True)
  moreover have "map (\<lambda>(key, child). (key, sanitizeA2AJSONValue ul child)) kvs = kvs"
    using harmless_object by (intro map_idI) auto
  ultimately show ?case by simp
qed simp_all

lemma harmless_iff: "harmless ul v \<longleftrightarrow> sanitizeA2AJSONValue ul v = v"
  using harmless_unchanged sanitized_harmless by metis

lemma sanitize_idem: "sanitizeA2AJSONValue ul (sanitizeA2AJSONValue ul v) = sanitizeA2AJSONValue ul v"
  by (rule harmless_unchanged [OF sanitized_harmless])

end
