(* ===== verification/A2a_Handler.thy ===== *)
theory A2a_Handler
  imports A2a_Text
begin

text \<open>
  \<open>internal/a2aserver\<close>: the A2A interface of the orchestrator, one definition per function of
  \<open>handler.go\<close>. A response is its status and its body before JSON encoding. \<open>A2aEnv\<close> holds what is
  not code of the repository: the JSON parser and the encoders of \<open>encoding/json\<close>, SHA-256 of the
  encoded input, and \<open>unicode.ToLower\<close>. JSON numbers keep their literal text.
\<close>

section \<open>Data\<close>

record TasksGetInput =
  tgi_ID :: string
  tgi_HistoryLength :: "int option"

record TaskArtifactRef =
  tr_URI :: string
  tr_Type :: string
  tr_Version :: string
  tr_Checksum :: string

record TaskCreateInput =
  tci_IdempotencyKey :: string
  tci_Intent :: string
  tci_ReceiverID :: string
  tci_ProjectRef :: string
  tci_ArtifactRefs :: "TaskArtifactRef list"

record A2ATaskEvent =
  te_Kind :: string
  te_EventID :: string
  te_Type :: string
  te_Timestamp :: time_text
  te_Accepted :: bool

record A2ATaskStatus =
  ts_State :: string
  ts_Timestamp :: time_text

text \<open>The metadata map of a task; \<open>md_intent\<close> is the entry that may be missing.\<close>

record A2ATaskMetadata =
  md_workflowId :: string
  md_workflowKind :: string
  md_internalState :: string
  md_taskKind :: string
  md_receiver :: "string \<times> string"
  md_currentOwner :: "string \<times> string"
  md_needsReview :: bool
  md_artifactCount :: int
  md_intent :: "string option"

record A2ATask =
  at_ID :: string
  at_ContextID :: string
  at_Status :: A2ATaskStatus
  at_History :: "A2ATaskEvent list"
  at_Metadata :: A2ATaskMetadata

record TaskCreateOutput =
  tco_Task :: A2ATask
  tco_WorkflowID :: string
  tco_HandoffID :: string
  tco_IdempotencyReplayed :: bool

record TaskStreamEvent =
  tse_Task :: A2ATask
  tse_HandoffID :: string
  tse_WorkflowID :: string
  tse_EventID :: string
  tse_Timestamp :: time_text

record RPCRequest =
  rpc_JSONRPC :: string
  rpc_ID :: "json option"
  rpc_Method :: string
  rpc_Params :: "json option"

record RPCError =
  re_Code :: int
  re_Message :: string
  re_Data :: "string option"

datatype rpc_result = ReadResult json | TaskCreated TaskCreateOutput | TaskResult A2ATask

record RPCResponse =
  rr_ID :: json
  rr_Result :: "rpc_result option"
  rr_Error :: "RPCError option"

record A2aConfig =
  cfg_PublicURL :: string
  cfg_AuthKey :: string

record A2aEnv =
  env_parse :: "string \<Rightarrow> json option"
  env_hash :: "TaskCreateInput \<Rightarrow> string"
  env_lower :: "string \<Rightarrow> string"
  env_workflows :: "(Workflow \<times> Handoff list) list \<Rightarrow> json"
  env_workflow :: "Workflow \<times> Handoff list \<Rightarrow> json"
  env_handoff :: "HandoffGetOutput \<Rightarrow> json"
  env_agents :: "AgentRegistration list \<Rightarrow> json"
  env_next :: "WorkItem list \<Rightarrow> json"
  env_blocked :: "BlockedWorkItem list \<Rightarrow> json"

text \<open>\<open>ar_Body\<close> is \<open>None\<close> when reading it fails, \<open>ar_Query\<close> the parsed query.\<close>

record a2a_request =
  ar_Method :: string
  ar_Path :: string
  ar_Host :: string
  ar_TLS :: bool
  ar_Authorization :: string
  ar_ContentLength :: int
  ar_Body :: "string option"
  ar_Query :: "(string \<times> string list) list"
  ar_Flusher :: bool

section \<open>The agent card\<close>

record AgentSkill =
  sk_ID :: string
  sk_Name :: string
  sk_Description :: string
  sk_InputModes :: "string list"
  sk_OutputModes :: "string list"

record AgentCardMethodMetadata =
  mm_ID :: string
  mm_Transport :: string
  mm_Mode :: string
  mm_Endpoint :: string

record AgentCardMetadata =
  cm_JSONRPC :: string
  cm_TaskEvents :: string
  cm_Methods :: "AgentCardMethodMetadata list"
  cm_RetryMilliseconds :: int
  cm_Reconnect :: string
  cm_Safety :: "string list"

record AgentCard =
  card_ProtocolVersion :: string
  card_Name :: string
  card_Description :: string
  card_URL :: string
  card_Organization :: string
  card_Streaming :: bool
  card_PushNotifications :: bool
  card_DefaultInputModes :: "string list"
  card_DefaultOutputModes :: "string list"
  card_Skills :: "AgentSkill list"
  card_Metadata :: AgentCardMetadata
  card_SecuritySchemes :: "(string \<times> string \<times> string) list"
  card_Security :: "(string \<times> string list) list list"

definition MethodWorkflowList :: string where "MethodWorkflowList = ''clawside.workflow.list''"
definition MethodWorkflowStatus :: string where "MethodWorkflowStatus = ''clawside.workflow.status''"
definition MethodHandoffGet :: string where "MethodHandoffGet = ''clawside.handoff.get''"
definition MethodAgentList :: string where "MethodAgentList = ''clawside.agent.list''"
definition MethodNextWork :: string where "MethodNextWork = ''clawside.work.next''"
definition MethodBlockedWork :: string where "MethodBlockedWork = ''clawside.work.blocked''"
definition MethodTaskCreate :: string where "MethodTaskCreate = ''clawside.task.create''"
definition MethodTasksGet :: string where "MethodTasksGet = ''tasks/get''"
definition MethodTasksCancel :: string where "MethodTasksCancel = ''tasks/cancel''"
definition MethodTasksEvents :: string where "MethodTasksEvents = ''tasks/events''"

lemmas method_names = MethodWorkflowList_def MethodWorkflowStatus_def MethodHandoffGet_def MethodAgentList_def
  MethodNextWork_def MethodBlockedWork_def MethodTaskCreate_def MethodTasksGet_def MethodTasksCancel_def
  MethodTasksEvents_def

definition defaultTaskEventsRetryMs :: int where "defaultTaskEventsRetryMs = 3000"
definition defaultTaskEventsPollMs :: int where "defaultTaskEventsPollMs = 1000"
definition minimumTaskEventsPollMs :: int where "minimumTaskEventsPollMs = 250"
definition maximumTaskEventsPollMs :: int where "maximumTaskEventsPollMs = 10000"
definition maximumTaskEventsHistoryLength :: int where "maximumTaskEventsHistoryLength = 100"

definition newSkill :: "string \<Rightarrow> string \<Rightarrow> string \<Rightarrow> AgentSkill" where
  "newSkill i name description = \<lparr>sk_ID = i, sk_Name = name, sk_Description = description,
     sk_InputModes = [''application/json''], sk_OutputModes = [''application/json'']\<rparr>"

definition newStreamingSkill :: "string \<Rightarrow> string \<Rightarrow> string \<Rightarrow> AgentSkill" where
  "newStreamingSkill i name description =
     (newSkill i name description)\<lparr>sk_OutputModes := [''application/json'', ''text/event-stream'']\<rparr>"

definition newAgentCardMethodMetadata :: "string \<Rightarrow> string \<Rightarrow> string \<Rightarrow> string \<Rightarrow> AgentCardMethodMetadata" where
  "newAgentCardMethodMetadata i transport mode endpoint =
     \<lparr>mm_ID = i, mm_Transport = transport, mm_Mode = mode, mm_Endpoint = endpoint\<rparr>"

definition buildAgentCardMetadata :: AgentCardMetadata where
  "buildAgentCardMetadata = \<lparr>cm_JSONRPC = ''/a2a/rpc'', cm_TaskEvents = ''/a2a/tasks/{handoffID}/events'',
     cm_Methods = [
       newAgentCardMethodMetadata MethodWorkflowList ''json-rpc'' ''read'' ''/a2a/rpc'',
       newAgentCardMethodMetadata MethodWorkflowStatus ''json-rpc'' ''read'' ''/a2a/rpc'',
       newAgentCardMethodMetadata MethodHandoffGet ''json-rpc'' ''read'' ''/a2a/rpc'',
       newAgentCardMethodMetadata MethodAgentList ''json-rpc'' ''read'' ''/a2a/rpc'',
       newAgentCardMethodMetadata MethodNextWork ''json-rpc'' ''read'' ''/a2a/rpc'',
       newAgentCardMethodMetadata MethodBlockedWork ''json-rpc'' ''read'' ''/a2a/rpc'',
       newAgentCardMethodMetadata MethodTaskCreate ''json-rpc'' ''controlled-write'' ''/a2a/rpc'',
       newAgentCardMethodMetadata MethodTasksGet ''json-rpc'' ''read'' ''/a2a/rpc'',
       newAgentCardMethodMetadata MethodTasksCancel ''json-rpc'' ''controlled-write'' ''/a2a/rpc'',
       newAgentCardMethodMetadata MethodTasksEvents ''sse'' ''stream'' ''/a2a/tasks/{handoffID}/events''],
     cm_RetryMilliseconds = defaultTaskEventsRetryMs,
     cm_Reconnect = ''call tasks/get, then resubscribe to the task events stream'',
     cm_Safety = [''bearer_auth_required'', ''no_command_execution'', ''no_worker_launch'', ''no_sender_delivery'',
       ''no_local_path_access'', ''no_private_prompt_or_secret_echo'']\<rparr>"

definition buildAgentCard :: "string \<Rightarrow> AgentCard" where
  "buildAgentCard url = \<lparr>card_ProtocolVersion = ''0.3.0'', card_Name = ''clawside-coordination'',
     card_Description = ''Clawside coordination queries and controlled inbound task creation.'',
     card_URL = url, card_Organization = ''clawside'', card_Streaming = True, card_PushNotifications = False,
     card_DefaultInputModes = [''application/json''], card_DefaultOutputModes = [''application/json''],
     card_Skills = [
       newSkill MethodWorkflowList ''List workflows'' ''List workflows with projected handoffs.'',
       newSkill MethodWorkflowStatus ''Workflow status'' ''Get workflow status and projected handoffs.'',
       newSkill MethodHandoffGet ''Get handoff'' ''Get current handoff truth and timeline.'',
       newSkill MethodAgentList ''List agents'' ''List registered agents by coordination filters.'',
       newSkill MethodNextWork ''Next work'' ''List executable handoffs for an agent or work filter.'',
       newSkill MethodBlockedWork ''Blocked work'' ''List blocked handoffs with reasons and suggestions.'',
       newSkill MethodTaskCreate ''Create controlled task''
         ''Create an idempotent controlled inbound task without runtime or delivery execution.'',
       newSkill MethodTasksGet ''Get task'' ''Get A2A-compatible read-only task status for a Clawside handoff.'',
       newSkill MethodTasksCancel ''Cancel task''
         ''Cancel an A2A task by marking the corresponding Clawside handoff failed in the truth-plane only.'',
       newStreamingSkill MethodTasksEvents ''Task events''
         ''Subscribe to read-only A2A task projection events for a Clawside handoff.''],
     card_Metadata = buildAgentCardMetadata, card_SecuritySchemes = [(''bearer'', ''http'', ''bearer'')],
     card_Security = [[(''bearer'', [])]]\<rparr>"

definition trimRightSlashes :: "string \<Rightarrow> string" where
  "trimRightSlashes s = rev (dropWhile (\<lambda>c. c = CHR ''/'') (rev s))"

definition rpcURL :: "A2aConfig \<Rightarrow> a2a_request \<Rightarrow> string" where
  "rpcURL cfg r =
     (let base0 = trimRightSlashes (cfg_PublicURL cfg);
          scheme = (if ar_TLS r then ''https'' else ''http'');
          base = (if base0 = [] then scheme @ ''://'' @ ar_Host r else base0) in
      if hasSuffix base ''/a2a/rpc'' then base else base @ ''/a2a/rpc'')"

section \<open>Decoding\<close>

text \<open>
  \<open>encoding/json\<close> matches a key with a field up to simple case folding: ASCII letters, and the two
  other characters that fold to one (the Kelvin sign and the long s).
\<close>

fun foldName :: "string \<Rightarrow> string" where
  "foldName [] = []"
| "foldName (c # cs) =
     (if take 3 (map byte_val (c # cs)) = [226, 132, 170] then CHR ''k'' # foldName (drop 2 cs)
      else if take 2 (map byte_val (c # cs)) = [197, 191] then CHR ''s'' # foldName (drop 1 cs)
      else lower_byte c # foldName cs)"

type_synonym 'r struct_spec = "(string \<times> (json \<Rightarrow> 'r \<Rightarrow> 'r option)) list"

text \<open>
  \<open>Decode\<close> into a struct with \<open>DisallowUnknownFields\<close>: one entry after the other, on the value
  decoded so far; \<open>null\<close> leaves it alone, an unknown key or a value of the wrong type is an error.
\<close>

fun decodeEntries :: "'r struct_spec \<Rightarrow> (string \<times> json) list \<Rightarrow> 'r \<Rightarrow> 'r option" where
  "decodeEntries spec [] r = Some r"
| "decodeEntries spec ((k, v) # kvs) r =
     (case find (\<lambda>(name, _). foldName name = foldName k) spec of
        None \<Rightarrow> None
      | Some (_, set_field) \<Rightarrow> (case set_field v r of None \<Rightarrow> None | Some r' \<Rightarrow> decodeEntries spec kvs r'))"

definition decodeStruct :: "'r struct_spec \<Rightarrow> json \<Rightarrow> 'r \<Rightarrow> 'r option" where
  "decodeStruct spec v r = (case v of JNull \<Rightarrow> Some r | JObject kvs \<Rightarrow> decodeEntries spec kvs r | _ \<Rightarrow> None)"

definition textField :: "((string \<Rightarrow> string) \<Rightarrow> 'r \<Rightarrow> 'r) \<Rightarrow> json \<Rightarrow> 'r \<Rightarrow> 'r option" where
  "textField update v r = (case v of JString s \<Rightarrow> Some (update (\<lambda>_. s) r) | JNull \<Rightarrow> Some r | _ \<Rightarrow> None)"

definition intField :: "((int \<Rightarrow> int) \<Rightarrow> 'r \<Rightarrow> 'r) \<Rightarrow> json \<Rightarrow> 'r \<Rightarrow> 'r option" where
  "intField update v r =
     (case v of JNumber s \<Rightarrow> map_option (\<lambda>i. update (\<lambda>_. i) r) (parseInt64 s) | JNull \<Rightarrow> Some r | _ \<Rightarrow> None)"

definition intPointerField :: "((int option \<Rightarrow> int option) \<Rightarrow> 'r \<Rightarrow> 'r) \<Rightarrow> json \<Rightarrow> 'r \<Rightarrow> 'r option" where
  "intPointerField update v r =
     (case v of JNumber s \<Rightarrow> map_option (\<lambda>i. update (\<lambda>_. Some i) r) (parseInt64 s)
      | JNull \<Rightarrow> Some (update (\<lambda>_. None) r) | _ \<Rightarrow> None)"

definition rawField :: "((json option \<Rightarrow> json option) \<Rightarrow> 'r \<Rightarrow> 'r) \<Rightarrow> json \<Rightarrow> 'r \<Rightarrow> 'r option" where
  "rawField update v r = Some (update (\<lambda>_. Some v) r)"

text \<open>The elements of an array are decoded into the elements that the slice has at their places.\<close>

fun decodeElements :: "(json \<Rightarrow> 'e \<Rightarrow> 'e option) \<Rightarrow> 'e \<Rightarrow> 'e list \<Rightarrow> json list \<Rightarrow> 'e list option" where
  "decodeElements dec zero old [] = Some []"
| "decodeElements dec zero old (v # vs) =
     (case dec v (case old of [] \<Rightarrow> zero | e # _ \<Rightarrow> e) of
        None \<Rightarrow> None
      | Some e \<Rightarrow> map_option ((#) e) (decodeElements dec zero (tl old) vs))"

definition artifactSpec :: "TaskArtifactRef struct_spec" where
  "artifactSpec = [(''uri'', textField tr_URI_update), (''type'', textField tr_Type_update),
     (''version'', textField tr_Version_update), (''checksum'', textField tr_Checksum_update)]"

definition NoArtifactRef :: TaskArtifactRef where
  "NoArtifactRef = \<lparr>tr_URI = [], tr_Type = [], tr_Version = [], tr_Checksum = []\<rparr>"

definition artifactsField :: "json \<Rightarrow> TaskCreateInput \<Rightarrow> TaskCreateInput option" where
  "artifactsField v r =
     (case v of
        JNull \<Rightarrow> Some (r\<lparr>tci_ArtifactRefs := []\<rparr>)
      | JList vs \<Rightarrow> map_option (\<lambda>es. r\<lparr>tci_ArtifactRefs := es\<rparr>)
          (decodeElements (decodeStruct artifactSpec) NoArtifactRef (tci_ArtifactRefs r) vs)
      | _ \<Rightarrow> None)"

definition taskCreateSpec :: "TaskCreateInput struct_spec" where
  "taskCreateSpec = [(''idempotency_key'', textField tci_IdempotencyKey_update),
     (''intent'', textField tci_Intent_update),
     (''receiver'', decodeStruct [(''id'', textField tci_ReceiverID_update)]),
     (''project_ref'', textField tci_ProjectRef_update), (''artifact_refs'', artifactsField)]"

definition NoTaskCreate :: TaskCreateInput where
  "NoTaskCreate = \<lparr>tci_IdempotencyKey = [], tci_Intent = [], tci_ReceiverID = [], tci_ProjectRef = [],
     tci_ArtifactRefs = []\<rparr>"

definition tasksGetSpec :: "TasksGetInput struct_spec" where
  "tasksGetSpec = [(''id'', textField tgi_ID_update), (''historyLength'', intPointerField tgi_HistoryLength_update)]"

definition textSpec :: "string \<Rightarrow> string struct_spec" where
  "textSpec name = [(name, textField id)]"

definition agentListSpec :: "AgentListInput struct_spec" where
  "agentListSpec = [(''capability'', textField ali_Capability_update), (''project_ref'', textField ali_ProjectRef_update),
     (''task_kind'', textField ali_TaskKind_update), (''status'', textField ali_Status_update)]"

definition workQuerySpec :: "WorkQueryInput struct_spec" where
  "workQuerySpec = [(''agent_id'', textField wqi_AgentID_update), (''capability'', textField wqi_Capability_update),
     (''project_ref'', textField wqi_ProjectRef_update), (''workflow_id'', textField wqi_WorkflowID_update),
     (''task_kind'', textField wqi_TaskKind_update), (''limit'', intField wqi_Limit_update)]"

definition NoAgentList :: AgentListInput where
  "NoAgentList = \<lparr>ali_Capability = [], ali_ProjectRef = [], ali_TaskKind = [], ali_Status = []\<rparr>"

definition NoWorkQuery :: WorkQueryInput where
  "NoWorkQuery = \<lparr>wqi_AgentID = [], wqi_Capability = [], wqi_ProjectRef = [], wqi_WorkflowID = [],
     wqi_TaskKind = [], wqi_Limit = 0\<rparr>"

definition decodeRPCParams :: "'r struct_spec \<Rightarrow> 'r \<Rightarrow> json option \<Rightarrow> 'r option" where
  "decodeRPCParams spec zero params =
     decodeStruct spec (case params of None \<Rightarrow> JObject [] | Some v \<Rightarrow> v) zero"

definition requestSpec :: "RPCRequest struct_spec" where
  "requestSpec = [(''jsonrpc'', textField rpc_JSONRPC_update), (''id'', rawField rpc_ID_update),
     (''method'', textField rpc_Method_update), (''params'', rawField rpc_Params_update)]"

definition NoRequest :: RPCRequest where
  "NoRequest = \<lparr>rpc_JSONRPC = [], rpc_ID = None, rpc_Method = [], rpc_Params = None\<rparr>"

fun validRPCID :: "json \<Rightarrow> bool" where
  "validRPCID (JString s) = True"
| "validRPCID JNull = True"
| "validRPCID (JNumber n) = True"
| "validRPCID _ = False"

text \<open>Whether the body has an \<open>id\<close>, and whether it is valid; the last entry of a key counts.\<close>

definition inspectRPCID :: "json \<Rightarrow> bool \<times> bool" where
  "inspectRPCID body =
     (case body of
        JObject kvs \<Rightarrow> (case map_of (rev kvs) ''id'' of None \<Rightarrow> (False, True) | Some i \<Rightarrow> (True, validRPCID i))
      | _ \<Rightarrow> (False, True))"

section \<open>Tasks\<close>

definition maxTaskCreateIDLength :: nat where "maxTaskCreateIDLength = 200"
definition maxTaskCreateIntentLength :: nat where "maxTaskCreateIntentLength = 2000"
definition maxTaskCreateRefLength :: nat where "maxTaskCreateRefLength = 1000"
definition maxTaskCreateArtifacts :: nat where "maxTaskCreateArtifacts = 32"

definition trimArtifact :: "TaskArtifactRef \<Rightarrow> TaskArtifactRef" where
  "trimArtifact a = \<lparr>tr_URI = trimSpace (tr_URI a), tr_Type = trimSpace (tr_Type a),
     tr_Version = trimSpace (tr_Version a), tr_Checksum = trimSpace (tr_Checksum a)\<rparr>"

definition validArtifact :: "(string \<Rightarrow> string) \<Rightarrow> TaskArtifactRef \<Rightarrow> bool" where
  "validArtifact ul a =
     (if \<not> validRequiredTaskCreateString (tr_URI a) maxTaskCreateRefLength \<or> \<not> safeTaskCreateExternalRef ul (tr_URI a)
      then False
      else if \<not> validOptionalTaskCreateString (tr_Type a) maxTaskCreateIDLength then False
      else if \<not> validOptionalTaskCreateString (tr_Version a) maxTaskCreateIDLength then False
      else validOptionalTaskCreateString (tr_Checksum a) maxTaskCreateIDLength)"

definition normalizeTaskCreateInput :: "(string \<Rightarrow> string) \<Rightarrow> TaskCreateInput \<Rightarrow> TaskCreateInput option" where
  "normalizeTaskCreateInput ul raw =
     (let input = raw\<lparr>tci_IdempotencyKey := trimSpace (tci_IdempotencyKey raw),
            tci_Intent := trimSpace (tci_Intent raw), tci_ReceiverID := trimSpace (tci_ReceiverID raw),
            tci_ProjectRef := trimSpace (tci_ProjectRef raw)\<rparr> in
      if \<not> validRequiredTaskCreateString (tci_IdempotencyKey input) maxTaskCreateIDLength then None
      else if \<not> validRequiredTaskCreateString (tci_Intent input) maxTaskCreateIntentLength
        \<or> \<not> safeTaskCreateText ul (tci_Intent input) then None
      else if \<not> validRequiredTaskCreateString (tci_ReceiverID input) maxTaskCreateIDLength then None
      else if \<not> validOptionalTaskCreateString (tci_ProjectRef input) maxTaskCreateRefLength
        \<or> \<not> safeTaskCreateExternalRef ul (tci_ProjectRef input) then None
      else if length (tci_ArtifactRefs input) > maxTaskCreateArtifacts then None
      else let refs = map trimArtifact (tci_ArtifactRefs input) in
        if list_all (validArtifact ul) refs then Some (input\<lparr>tci_ArtifactRefs := refs\<rparr>) else None)"

fun toA2ATaskState :: "HandoffState \<Rightarrow> string" where
  "toA2ATaskState StateCreated = ''submitted''"
| "toA2ATaskState StateDispatched = ''submitted''"
| "toA2ATaskState StateSubmitted = ''submitted''"
| "toA2ATaskState StateReceived = ''working''"
| "toA2ATaskState StateClaimed = ''working''"
| "toA2ATaskState StateStarted = ''working''"
| "toA2ATaskState StateCheckpointed = ''working''"
| "toA2ATaskState StateReviewed = ''working''"
| "toA2ATaskState StateCompleted = ''completed''"
| "toA2ATaskState StateFailed = ''failed''"
| "toA2ATaskState StateExpired = ''failed''"
| "toA2ATaskState _ = ''unknown''"

definition eventTime :: "EventRecord \<Rightarrow> time" where
  "eventTime e = (if is_zero (ev_IngestedAt e) then ev_ProducerEventTime e else ev_IngestedAt e)"

definition toA2ATaskEvent :: "EventRecord \<Rightarrow> A2ATaskEvent" where
  "toA2ATaskEvent e = \<lparr>te_Kind = ''event'', te_EventID = ev_ID e, te_Type = eventTypeText (ev_Type e),
     te_Timestamp = formatTime (eventTime e), te_Accepted = ev_Accepted e\<rparr>"

definition toA2ATaskHistory :: "EventRecord list \<Rightarrow> int option \<Rightarrow> A2ATaskEvent list" where
  "toA2ATaskHistory events historyLength =
     (if historyLength = Some 0 then []
      else let start = (case historyLength of
               Some n \<Rightarrow> if 0 < n \<and> n < int (length events) then length events - nat n else 0
             | None \<Rightarrow> 0) in
        map toA2ATaskEvent (drop start events))"

definition a2aActorMetadata :: "ActorRef \<Rightarrow> string \<times> string" where
  "a2aActorMetadata actor = (actor_Type actor, actor_ID actor)"

definition toA2ATask :: "(string \<Rightarrow> string) \<Rightarrow> HandoffGetOutput \<Rightarrow> int option \<Rightarrow> A2ATask" where
  "toA2ATask ul result historyLength =
     (let handoff = hgo_Handoff result in
      \<lparr>at_ID = h_ID handoff, at_ContextID = h_WorkflowID handoff,
       at_Status = \<lparr>ts_State = toA2ATaskState (h_State handoff), ts_Timestamp = formatTime (h_UpdatedAt handoff)\<rparr>,
       at_History = toA2ATaskHistory (hgo_Timeline result) historyLength,
       at_Metadata = \<lparr>md_workflowId = h_WorkflowID handoff, md_workflowKind = h_WorkflowKind handoff,
         md_internalState = handoffStateText (h_State handoff), md_taskKind = h_TaskKind handoff,
         md_receiver = a2aActorMetadata (h_ReceiverActor handoff),
         md_currentOwner = a2aActorMetadata (h_CurrentOwner handoff), md_needsReview = h_NeedsReview handoff,
         md_artifactCount = h_ArtifactCount handoff,
         md_intent = (if safeTaskCreateText ul (h_Intent handoff) then Some (h_Intent handoff) else None)\<rparr>\<rparr>)"

section \<open>The methods\<close>

definition rpcParseError :: int where "rpcParseError = - 32700"
definition rpcInvalidRequest :: int where "rpcInvalidRequest = - 32600"
definition rpcMethodNotFound :: int where "rpcMethodNotFound = - 32601"
definition rpcInvalidParams :: int where "rpcInvalidParams = - 32602"
definition rpcInternalError :: int where "rpcInternalError = - 32603"

lemmas rpc_codes = rpcParseError_def rpcInvalidRequest_def rpcMethodNotFound_def rpcInvalidParams_def
  rpcInternalError_def

definition newRPCError :: "int \<Rightarrow> string \<Rightarrow> string \<Rightarrow> RPCError" where
  "newRPCError code message dataCode = \<lparr>re_Code = code, re_Message = message, re_Data = Some dataCode\<rparr>"

definition defaultRPCErrorDataCode :: "int \<Rightarrow> string" where
  "defaultRPCErrorDataCode code =
     (if code = rpcParseError then ''parse_error''
      else if code = rpcInvalidRequest then ''invalid_request''
      else if code = rpcMethodNotFound then ''method_not_found''
      else if code = rpcInvalidParams then ''invalid_params''
      else ''internal_error'')"

definition normalizeRPCError :: "RPCError \<Rightarrow> RPCError" where
  "normalizeRPCError e =
     (case re_Data e of
        Some code \<Rightarrow> if code \<noteq> [] then e
          else newRPCError (re_Code e) (re_Message e) (defaultRPCErrorDataCode (re_Code e))
      | None \<Rightarrow> newRPCError (re_Code e) (re_Message e) (defaultRPCErrorDataCode (re_Code e)))"

definition rpcErrorFromLookup :: "error \<Rightarrow> RPCError" where
  "rpcErrorFromLookup e =
     (if error_is e ErrNoRows then newRPCError rpcInvalidParams ''invalid params'' ''not_found''
      else newRPCError rpcInternalError ''internal error'' ''internal_error'')"

definition plainRPCError :: "int \<Rightarrow> string \<Rightarrow> RPCError" where
  "plainRPCError code message = \<lparr>re_Code = code, re_Message = message, re_Data = None\<rparr>"

definition invalidParams :: RPCError where
  "invalidParams = plainRPCError rpcInvalidParams ''invalid params''"

definition internalError :: RPCError where
  "internalError = plainRPCError rpcInternalError ''internal error''"

definition answer :: "'a sop \<Rightarrow> (error \<Rightarrow> RPCError) \<Rightarrow> ('a \<Rightarrow> rpc_result) \<Rightarrow> (RPCError + rpc_result) sop" where
  "answer m bad good = bindE (tryE m) (\<lambda>r. ret (case r of Inl e \<Rightarrow> Inl (bad e) | Inr a \<Rightarrow> Inr (good a)))"

definition sanitized :: "A2aEnv \<Rightarrow> json \<Rightarrow> rpc_result" where
  "sanitized env v = ReadResult (sanitizeA2AJSONValue (env_lower env) v)"

definition errInvalidTasksCancel :: error where
  "errInvalidTasksCancel = ErrSentinel ''invalid tasks/cancel''"

definition handleTaskCreate :: "A2aEnv \<Rightarrow> TaskCreateInput \<Rightarrow> TaskCreateOutput sop" where
  "handleTaskCreate env input =
     bindE (HandleControlledTaskCreate \<lparr>cti_IdempotencyKey = tci_IdempotencyKey input,
         cti_PayloadHash = env_hash env input, cti_Intent = tci_Intent input,
         cti_ReceiverID = tci_ReceiverID input, cti_ProjectRef = tci_ProjectRef input,
         cti_ArtifactRefs = map (\<lambda>a. \<lparr>tar_URI = tr_URI a, tar_Type = tr_Type a, tar_Version = tr_Version a,
           tar_Checksum = tr_Checksum a\<rparr>) (tci_ArtifactRefs input)\<rparr>) (\<lambda>result.
     ret \<lparr>tco_Task = toA2ATask (env_lower env) \<lparr>hgo_Handoff = cto_Handoff result, hgo_Timeline = []\<rparr> None,
          tco_WorkflowID = wf_ID (cto_Workflow result), tco_HandoffID = h_ID (cto_Handoff result),
          tco_IdempotencyReplayed = cto_Replayed result\<rparr>)"

definition validTasksGetInput :: "TasksGetInput \<Rightarrow> bool" where
  "validTasksGetInput input =
     (if trimSpace (tgi_ID input) = [] then False
      else case tgi_HistoryLength input of None \<Rightarrow> True | Some n \<Rightarrow> 0 \<le> n)"

definition validTasksCancelInput :: "string \<Rightarrow> bool" where
  "validTasksCancelInput i \<longleftrightarrow> trimSpace i \<noteq> []"

definition handleTasksGet :: "A2aEnv \<Rightarrow> TasksGetInput \<Rightarrow> A2ATask sop" where
  "handleTasksGet env input =
     bindE (HandleHandoffGet (trimSpace (tgi_ID input))) (\<lambda>result.
     ret (toA2ATask (env_lower env) result (tgi_HistoryLength input)))"

definition cancelInput :: "string \<Rightarrow> string \<Rightarrow> HandoffProgressInput" where
  "cancelInput workflowID handoffID = \<lparr>hpi_Action = protocolActionText ProtocolActionFail,
     hpi_WorkflowID = workflowID, hpi_HandoffID = handoffID,
     hpi_Actor = \<lparr>ari_Type = ActorSystem, ari_ID = ''workflow-controller'', ari_Address = []\<rparr>,
     hpi_ArtifactCount = 0, hpi_ReviewDecision = []\<rparr>"

definition handleTasksCancel :: "A2aEnv \<Rightarrow> string \<Rightarrow> A2ATask sop" where
  "handleTasksCancel env i =
     (let handoffID = trimSpace i in
      bindE (HandleHandoffGet handoffID) (\<lambda>current.
      let s = h_State (hgo_Handoff current) in
      if s = StateFailed then ret (toA2ATask (env_lower env) current None)
      else if s = StateCompleted \<or> s = StateExpired then throw errInvalidTasksCancel
      else
        bindE (progressError (HandleHandoffProgress (cancelInput (h_WorkflowID (hgo_Handoff current)) handoffID))) (\<lambda>_.
        bindE (HandleHandoffGet handoffID) (\<lambda>updated.
        ret (toA2ATask (env_lower env) updated None)))))"

definition cancelError :: "error \<Rightarrow> RPCError" where
  "cancelError e =
     (if error_is e errInvalidTasksCancel then newRPCError rpcInvalidParams ''invalid params'' ''invalid_params''
      else rpcErrorFromLookup e)"

definition createError :: "error \<Rightarrow> RPCError" where
  "createError e = (if error_is e ErrIdempotencyConflict then invalidParams else internalError)"

definition withParams :: "'r option \<Rightarrow> ('r \<Rightarrow> (RPCError + rpc_result) sop) \<Rightarrow> (RPCError + rpc_result) sop" where
  "withParams decoded f = (case decoded of None \<Rightarrow> ret (Inl invalidParams) | Some r \<Rightarrow> f r)"

definition dispatchRPC :: "A2aEnv \<Rightarrow> string \<Rightarrow> json option \<Rightarrow> (RPCError + rpc_result) sop" where
  "dispatchRPC env rpcMethod params =
     (if rpcMethod = MethodWorkflowList then
        withParams (decodeRPCParams [] () params) (\<lambda>_.
          answer HandleWorkflowList (\<lambda>_. internalError) (\<lambda>x. sanitized env (env_workflows env x)))
      else if rpcMethod = MethodWorkflowStatus then
        withParams (decodeRPCParams (textSpec ''workflow_id'') [] params) (\<lambda>i.
          answer (HandleWorkflowStatus i) rpcErrorFromLookup (\<lambda>x. sanitized env (env_workflow env x)))
      else if rpcMethod = MethodHandoffGet then
        withParams (decodeRPCParams (textSpec ''handoff_id'') [] params) (\<lambda>i.
          answer (HandleHandoffGet i) rpcErrorFromLookup (\<lambda>x. sanitized env (env_handoff env x)))
      else if rpcMethod = MethodAgentList then
        withParams (decodeRPCParams agentListSpec NoAgentList params) (\<lambda>input.
          answer (HandleAgentList input) (\<lambda>_. internalError) (\<lambda>x. sanitized env (env_agents env x)))
      else if rpcMethod = MethodNextWork then
        withParams (decodeRPCParams workQuerySpec NoWorkQuery params) (\<lambda>input.
          answer (HandleNextWork input) (\<lambda>_. internalError) (\<lambda>x. sanitized env (env_next env x)))
      else if rpcMethod = MethodBlockedWork then
        withParams (decodeRPCParams workQuerySpec NoWorkQuery params) (\<lambda>input.
          answer (HandleBlockedWork input) (\<lambda>_. internalError) (\<lambda>x. sanitized env (env_blocked env x)))
      else if rpcMethod = MethodTaskCreate then
        withParams (decodeRPCParams taskCreateSpec NoTaskCreate params) (\<lambda>raw.
        withParams (normalizeTaskCreateInput (env_lower env) raw) (\<lambda>input.
          answer (handleTaskCreate env input) createError TaskCreated))
      else if rpcMethod = MethodTasksGet then
        withParams (decodeRPCParams tasksGetSpec \<lparr>tgi_ID = [], tgi_HistoryLength = None\<rparr> params) (\<lambda>input.
          if \<not> validTasksGetInput input then ret (Inl invalidParams)
          else answer (handleTasksGet env input) rpcErrorFromLookup TaskResult)
      else if rpcMethod = MethodTasksCancel then
        withParams (decodeRPCParams (textSpec ''id'') [] params) (\<lambda>i.
          if \<not> validTasksCancelInput i then ret (Inl invalidParams)
          else answer (handleTasksCancel env i) cancelError TaskResult)
      else ret (Inl (plainRPCError rpcMethodNotFound ''method not found'')))"

section \<open>The task stream\<close>

text \<open>\<open>taskStreamCursor\<close>: the last event, or the handoff before its first one.\<close>

definition taskStreamCursor :: "HandoffGetOutput \<Rightarrow> string \<times> time" where
  "taskStreamCursor result =
     (if hgo_Timeline result = [] then (h_ID (hgo_Handoff result), h_UpdatedAt (hgo_Handoff result))
      else (ev_ID (last (hgo_Timeline result)), eventTime (last (hgo_Timeline result))))"

definition taskStreamSnapshot :: "A2aEnv \<Rightarrow> string \<Rightarrow> int \<Rightarrow> TaskStreamEvent sop" where
  "taskStreamSnapshot env handoffID historyLength =
     bindE (HandleHandoffGet handoffID) (\<lambda>result.
     let (eventID, timestamp) = taskStreamCursor result in
     ret \<lparr>tse_Task = toA2ATask (env_lower env) result (Some historyLength), tse_HandoffID = h_ID (hgo_Handoff result),
          tse_WorkflowID = h_WorkflowID (hgo_Handoff result), tse_EventID = eventID,
          tse_Timestamp = formatTime timestamp\<rparr>)"

text \<open>
  The code joins the three parts with NUL bytes; the state and the timestamp have none, so the
  joined text determines them.
\<close>

definition taskStreamFingerprint :: "TaskStreamEvent \<Rightarrow> string \<times> string \<times> time_text" where
  "taskStreamFingerprint event = (tse_EventID event, ts_State (at_Status (tse_Task event)),
     ts_Timestamp (at_Status (tse_Task event)))"

text \<open>
  The loop of \<open>handleTaskEvents\<close> over its ticks: the snapshot or error that a tick reads, and
  whether its write succeeds. The end of the list is the end of the request. The result is what the
  client receives.
\<close>

fun taskEventLoop :: "string \<times> string \<times> time_text \<Rightarrow> ((error + TaskStreamEvent) \<times> bool) list \<Rightarrow> TaskStreamEvent list" where
  "taskEventLoop lastFingerprint [] = []"
| "taskEventLoop lastFingerprint ((Inl e, written) # ticks) = []"
| "taskEventLoop lastFingerprint ((Inr snapshot, written) # ticks) =
     (if taskStreamFingerprint snapshot = lastFingerprint then taskEventLoop lastFingerprint ticks
      else if \<not> written then []
      else snapshot # taskEventLoop (taskStreamFingerprint snapshot) ticks)"

definition taskEventsPathPrefix :: string where "taskEventsPathPrefix = ''/a2a/tasks/''"
definition taskEventsPathSuffix :: string where "taskEventsPathSuffix = ''/events''"

definition isTaskEventsPath :: "string \<Rightarrow> bool" where
  "isTaskEventsPath path \<longleftrightarrow> hasPrefix path taskEventsPathPrefix \<and> hasSuffix path taskEventsPathSuffix"

definition parseTaskEventsHandoffID :: "string \<Rightarrow> string option" where
  "parseTaskEventsHandoffID path =
     (if \<not> isTaskEventsPath path then None
      else
        let handoffID = trimSpace (trimSuffix (trimPrefix path taskEventsPathPrefix) taskEventsPathSuffix) in
        if \<not> validRequiredTaskCreateString handoffID maxTaskCreateIDLength then None
        else if list_ex (\<lambda>c. c = CHR ''/'' \<or> c = CHR 0x5C) handoffID then None
        else Some handoffID)"

definition parseOptionalTaskEventsInt :: "string list \<Rightarrow> int \<Rightarrow> int option" where
  "parseOptionalTaskEventsInt values defaultValue =
     (case values of
        [] \<Rightarrow> Some defaultValue
      | [v] \<Rightarrow> if trimSpace v = [] then None else parseInt64 (trimSpace v)
      | _ \<Rightarrow> None)"

definition queryValues :: "(string \<times> string list) list \<Rightarrow> string \<Rightarrow> string list" where
  "queryValues q key = (case map_of q key of None \<Rightarrow> [] | Some vs \<Rightarrow> vs)"

definition parseTaskEventsQuery :: "(string \<times> string list) list \<Rightarrow> (int \<times> duration) option" where
  "parseTaskEventsQuery q =
     (if list_ex (\<lambda>(key, _). key \<noteq> ''historyLength'' \<and> key \<noteq> ''pollIntervalMs'') q then None
      else case parseOptionalTaskEventsInt (queryValues q ''historyLength'') 0 of
        None \<Rightarrow> None
      | Some historyLength \<Rightarrow>
          if historyLength < 0 \<or> historyLength > maximumTaskEventsHistoryLength then None
          else case parseOptionalTaskEventsInt (queryValues q ''pollIntervalMs'') defaultTaskEventsPollMs of
            None \<Rightarrow> None
          | Some pollIntervalMs \<Rightarrow>
              if pollIntervalMs < minimumTaskEventsPollMs \<or> pollIntervalMs > maximumTaskEventsPollMs then None
              else Some (historyLength, pollIntervalMs * 1000000))"

section \<open>HTTP\<close>

datatype a2a_body =
    NoContent | HttpError string | HealthStatus string | CardBody AgentCard | RpcBody RPCResponse
  | StreamBody int TaskStreamEvent int duration

type_synonym a2a_response = "int \<times> a2a_body"

definition a2aAuthorized :: "A2aConfig \<Rightarrow> string \<Rightarrow> bool" where
  "a2aAuthorized cfg header =
     (let authHeader = trimSpace header in
      if authHeader = [] \<or> cfg_AuthKey cfg = [] then False
      else if \<not> hasPrefix authHeader ''Bearer '' then False
      else let provided = trimSpace (trimPrefix authHeader ''Bearer '') in
        if provided = [] then False else provided = cfg_AuthKey cfg)"

definition NewHandler :: "A2aConfig \<Rightarrow> A2aConfig" where
  "NewHandler cfg = \<lparr>cfg_PublicURL = trimSpace (cfg_PublicURL cfg), cfg_AuthKey = trimSpace (cfg_AuthKey cfg)\<rparr>"

definition methodNotAllowed :: a2a_response where
  "methodNotAllowed = (405, HttpError ''method not allowed'')"

definition refused :: "string \<Rightarrow> a2a_response" where
  "refused header =
     (if trimSpace header = [] then (401, HttpError ''missing authorization'')
      else (403, HttpError ''invalid authorization''))"

definition normalizeRPCID :: "json option \<Rightarrow> json" where
  "normalizeRPCID i = (case i of None \<Rightarrow> JNull | Some v \<Rightarrow> v)"

definition rpcErrorResponse :: "json option \<Rightarrow> RPCError \<Rightarrow> a2a_response" where
  "rpcErrorResponse i e = (200, RpcBody \<lparr>rr_ID = normalizeRPCID i, rr_Result = None, rr_Error = Some (normalizeRPCError e)\<rparr>)"

definition writeRPCError :: "json option \<Rightarrow> int \<Rightarrow> string \<Rightarrow> a2a_response" where
  "writeRPCError i code message = rpcErrorResponse i (newRPCError code message (defaultRPCErrorDataCode code))"

definition writeRPCResult :: "json option \<Rightarrow> rpc_result \<Rightarrow> a2a_response" where
  "writeRPCResult i x = (200, RpcBody \<lparr>rr_ID = normalizeRPCID i, rr_Result = Some x, rr_Error = None\<rparr>)"

definition rpcBodyLimitBytes :: nat where
  "rpcBodyLimitBytes = 64 * 1024"

text \<open>
  The request body as JSON, or the response to a body that has none. After \<open>json.Valid\<close> the second
  \<open>Decode\<close> always meets the end of the body.
\<close>

definition rpcBody :: "A2aEnv \<Rightarrow> a2a_request \<Rightarrow> a2a_response + json" where
  "rpcBody env r =
     (case ar_Body r of
        None \<Rightarrow> Inl (writeRPCError None rpcInvalidRequest ''invalid request'')
      | Some body \<Rightarrow>
          if length body > rpcBodyLimitBytes then Inl (writeRPCError None rpcInvalidRequest ''invalid request'')
          else (case trimSpace body of
              [] \<Rightarrow> Inl (writeRPCError None rpcInvalidRequest ''invalid request'')
            | c # cs \<Rightarrow>
                if c = CHR ''['' then Inl (writeRPCError None rpcInvalidRequest ''batch requests are not supported'')
                else (case env_parse env (c # cs) of
                    None \<Rightarrow> Inl (writeRPCError None rpcParseError ''parse error'')
                  | Some v \<Rightarrow> Inr v)))"

definition runRPC :: "A2aEnv \<Rightarrow> json \<Rightarrow> a2a_response sop" where
  "runRPC env body =
     (let (idPresent, idValid) = inspectRPCID body in
      if \<not> idValid then ret (writeRPCError None rpcInvalidRequest ''invalid request'')
      else case decodeStruct requestSpec body NoRequest of
        None \<Rightarrow> ret (if \<not> idPresent then (204, NoContent)
                   else writeRPCError None rpcInvalidRequest ''invalid request'')
      | Some request \<Rightarrow>
          if rpc_JSONRPC request \<noteq> ''2.0'' \<or> trimSpace (rpc_Method request) = [] then
            ret (if \<not> idPresent then (204, NoContent)
                 else writeRPCError (rpc_ID request) rpcInvalidRequest ''invalid request'')
          else
            bindE (dispatchRPC env (rpc_Method request) (rpc_Params request)) (\<lambda>outcome.
            ret (if \<not> idPresent then (204, NoContent)
                 else case outcome of
                   Inl e \<Rightarrow> rpcErrorResponse (rpc_ID request) e
                 | Inr x \<Rightarrow> writeRPCResult (rpc_ID request) x)))"

definition handleRPC :: "A2aEnv \<Rightarrow> A2aConfig \<Rightarrow> a2a_request \<Rightarrow> a2a_response sop" where
  "handleRPC env cfg r =
     (if ar_Method r \<noteq> ''POST'' then ret methodNotAllowed
      else if \<not> a2aAuthorized cfg (ar_Authorization r) then ret (refused (ar_Authorization r))
      else case rpcBody env r of Inl response \<Rightarrow> ret response | Inr body \<Rightarrow> runRPC env body)"

definition handleTaskEvents :: "A2aEnv \<Rightarrow> A2aConfig \<Rightarrow> a2a_request \<Rightarrow> a2a_response sop" where
  "handleTaskEvents env cfg r =
     (if ar_Method r \<noteq> ''GET'' then ret methodNotAllowed
      else if \<not> a2aAuthorized cfg (ar_Authorization r) then ret (refused (ar_Authorization r))
      else if ar_ContentLength r \<noteq> 0 then ret (400, HttpError ''invalid request'')
      else case parseTaskEventsHandoffID (ar_Path r) of
        None \<Rightarrow> ret (400, HttpError ''invalid request'')
      | Some handoffID \<Rightarrow>
          (case parseTaskEventsQuery (ar_Query r) of
             None \<Rightarrow> ret (400, HttpError ''invalid request'')
           | Some (historyLength, pollInterval) \<Rightarrow>
               if \<not> ar_Flusher r then ret (500, HttpError ''streaming unsupported'')
               else
                 bindE (tryE (taskStreamSnapshot env handoffID historyLength)) (\<lambda>snapshot.
                 ret (case snapshot of
                   Inl _ \<Rightarrow> (404, HttpError ''not found'')
                 | Inr s \<Rightarrow> (200, StreamBody defaultTaskEventsRetryMs s historyLength pollInterval)))))"

definition handleAgentCard :: "A2aConfig \<Rightarrow> a2a_request \<Rightarrow> a2a_response" where
  "handleAgentCard cfg r =
     (if ar_Method r \<noteq> ''GET'' then methodNotAllowed else (200, CardBody (buildAgentCard (rpcURL cfg r))))"

definition handleA2AHealthz :: "a2a_request \<Rightarrow> a2a_response" where
  "handleA2AHealthz r = (if ar_Method r \<noteq> ''GET'' then methodNotAllowed else (200, HealthStatus ''ok''))"

definition ServeA2A :: "A2aEnv \<Rightarrow> A2aConfig \<Rightarrow> a2a_request \<Rightarrow> a2a_response sop" where
  "ServeA2A env cfg r =
     (if ar_Path r = ''/healthz'' then ret (handleA2AHealthz r)
      else if ar_Path r = ''/.well-known/agent-card.json'' then ret (handleAgentCard cfg r)
      else if ar_Path r = ''/a2a/rpc'' then handleRPC env cfg r
      else if isTaskEventsPath (ar_Path r) then handleTaskEvents env cfg r
      else ret (404, HttpError ''not found''))"

end
