(* ===== verification/A2a_Contracts.thy ===== *)
theory A2a_Contracts
  imports A2a_Handler
begin

text \<open>
  What the A2A interface promises: every request gets an answer, only two methods write, nothing
  sensitive is read out, cancelling fails exactly the named handoff, and the task stream sends
  exactly the changes.
\<close>

section \<open>Who writes\<close>

lemma preserves_answer [preserves_intros]: "preserves P m \<Longrightarrow> preserves P (answer m bad good)"
  unfolding answer_def by (intro preserves_intros)

lemma steps_answer [steps]: "stepwise m \<Longrightarrow> stepwise (answer m bad good)"
  unfolding answer_def by (intro steps)

lemma preserves_withParams [preserves_intros]:
  "(\<And>r. x = Some r \<Longrightarrow> preserves P (f r)) \<Longrightarrow> preserves P (withParams x f)"
  unfolding withParams_def by (intro preserves_intros)

lemma steps_withParams [steps]: "(\<And>r. x = Some r \<Longrightarrow> stepwise (f r)) \<Longrightarrow> stepwise (withParams x f)"
  unfolding withParams_def by (intro steps)

definition writing_methods :: "string set" where
  "writing_methods = {MethodTaskCreate, MethodTasksCancel}"

lemmas reads_calls = reads_handlers [THEN preserves_answer]

lemma reads_tasksGet [preserves_intros]: "preserves P (handleTasksGet env input)"
  unfolding handleTasksGet_def by (intro preserves_intros reads_handlers)

lemma reads_dispatch: "m \<notin> writing_methods \<Longrightarrow> preserves P (dispatchRPC env m params)"
  unfolding dispatchRPC_def writing_methods_def
  by (intro preserves_intros reads_calls) auto

lemma reads_stepwise: "(\<And>P. preserves P m) \<Longrightarrow> stepwise m"
  by (simp add: stepwise_def)

lemma steps_taskCreate [steps]: "stepwise (handleTaskCreate env input)"
  unfolding handleTaskCreate_def by (intro steps)

lemma steps_handoffGet [steps]: "stepwise (HandleHandoffGet i)"
  by (rule reads_stepwise) (rule reads_handlers)

lemma steps_cancel [steps]: "stepwise (handleTasksCancel env i)"
  unfolding handleTasksCancel_def Let_def by (intro steps)

lemma steps_dispatchRPC [steps]: "stepwise (dispatchRPC env m params)"
proof (cases "m \<in> writing_methods")
  case True
  then show ?thesis
    unfolding writing_methods_def
    by (auto simp: dispatchRPC_def method_names intro!: steps)
next
  case False
  then show ?thesis by (intro reads_stepwise reads_dispatch)
qed

lemma steps_serve: "stepwise (ServeA2A env cfg r)"
  unfolding ServeA2A_def handleRPC_def runRPC_def handleTaskEvents_def taskStreamSnapshot_def Let_def
  by (intro steps)

text \<open>The method a request asks for, when it gets as far as asking.\<close>

definition asks_for :: "A2aEnv \<Rightarrow> A2aConfig \<Rightarrow> a2a_request \<Rightarrow> string \<Rightarrow> bool" where
  "asks_for env cfg r m \<longleftrightarrow> ar_Path r = ''/a2a/rpc'' \<and> ar_Method r = ''POST''
     \<and> a2aAuthorized cfg (ar_Authorization r)
     \<and> (\<exists>body request. rpcBody env r = Inr body \<and> decodeStruct requestSpec body NoRequest = Some request
          \<and> rpc_Method request = m)"

lemma reads_serve: "\<forall>m\<in>writing_methods. \<not> asks_for env cfg r m \<Longrightarrow> preserves P (ServeA2A env cfg r)"
  unfolding ServeA2A_def handleRPC_def runRPC_def handleTaskEvents_def taskStreamSnapshot_def Let_def
  by (intro preserves_intros reads_handlers reads_dispatch) (auto simp: asks_for_def)

section \<open>Every request is answered\<close>

definition replies :: "'a sop \<Rightarrow> ('a \<Rightarrow> bool) \<Rightarrow> bool" where
  "replies m P \<longleftrightarrow> (\<forall>w. \<exists>a w'. m w = (Inr a, w') \<and> P a)"

lemma replies_ret: "P a \<Longrightarrow> replies (ret a) P"
  by (simp add: replies_def ret_def)

lemma replies_tryE: "(\<And>a. P a) \<Longrightarrow> replies (tryE m) P"
  by (simp add: replies_def tryE_def split: prod.split)

lemma replies_bindE: "replies m Q \<Longrightarrow> (\<And>a. Q a \<Longrightarrow> replies (f a) P) \<Longrightarrow> replies (bindE m f) P"
  unfolding replies_def by (metis bindE_run)

lemma replies_if: "(b \<Longrightarrow> replies m P) \<Longrightarrow> (\<not> b \<Longrightarrow> replies n P) \<Longrightarrow> replies (if b then m else n) P"
  by simp

lemma replies_option:
  "(x = None \<Longrightarrow> replies m P) \<Longrightarrow> (\<And>a. x = Some a \<Longrightarrow> replies (f a) P) \<Longrightarrow>
   replies (case x of None \<Rightarrow> m | Some a \<Rightarrow> f a) P"
  by (cases x) simp_all

lemma replies_sum:
  "(\<And>a. x = Inl a \<Longrightarrow> replies (f a) P) \<Longrightarrow> (\<And>b. x = Inr b \<Longrightarrow> replies (g b) P) \<Longrightarrow>
   replies (case x of Inl a \<Rightarrow> f a | Inr b \<Rightarrow> g b) P"
  by (cases x) simp_all

lemma replies_prod:
  "(\<And>a b. x = (a, b) \<Longrightarrow> replies (f a b) P) \<Longrightarrow> replies (case x of (a, b) \<Rightarrow> f a b) P"
  by (cases x) simp_all

lemmas replies_rules = replies_ret replies_tryE replies_if replies_option replies_sum replies_prod

text \<open>What a method may answer: an error, a task, or a harmless value.\<close>

definition harmless_task :: "A2aEnv \<Rightarrow> A2ATask \<Rightarrow> bool" where
  "harmless_task env t \<longleftrightarrow>
     (\<forall>s. md_intent (at_Metadata t) = Some s \<longrightarrow> \<not> unsafeTaskCreateString (toLower (env_lower env) s))"

fun harmless_result :: "A2aEnv \<Rightarrow> RPCError + rpc_result \<Rightarrow> bool" where
  "harmless_result env (Inl e) = True"
| "harmless_result env (Inr (ReadResult v)) = harmless (env_lower env) v"
| "harmless_result env (Inr (TaskResult t)) = harmless_task env t"
| "harmless_result env (Inr (TaskCreated t)) = harmless_task env (tco_Task t)"

lemma task_harmless: "harmless_task env (toA2ATask (env_lower env) result n)"
  by (simp add: harmless_task_def toA2ATask_def safeTaskCreateText_def Let_def)

lemma replies_answer:
  assumes "\<And>d. guarantees m (\<lambda>a _. P (Inr (good a))) (\<lambda>_. True) d" and "\<And>e. P (Inl (bad e))"
  shows "replies (answer m bad good) P"
proof -
  have "P (case r of Inl e \<Rightarrow> Inl (bad e) | Inr a \<Rightarrow> Inr (good a))" if "m w = (r, w')" for r w w'
    using that assms guaranteesD(2) [OF assms(1)] by (cases r) auto
  then show ?thesis
    by (auto simp: replies_def answer_def bindE_def tryE_def ret_def split: prod.splits)
qed

lemma returns_any: "(\<And>a. Q a) \<Longrightarrow> guarantees m (\<lambda>a _. Q a) (\<lambda>_. True) d"
  by (rule guaranteesI) auto

lemma taskCreate_harmless: "guarantees (handleTaskCreate env input) (\<lambda>t _. harmless_task env (tco_Task t)) (\<lambda>_. True) d"
  unfolding handleTaskCreate_def by (intro vcg guarantees_accepted_any) (simp_all add: task_harmless)

lemma tasksGet_harmless: "guarantees (handleTasksGet env input) (\<lambda>t _. harmless_task env t) (\<lambda>_. True) d"
  unfolding handleTasksGet_def by (intro vcg guarantees_accepted_any) (simp_all add: task_harmless)

lemma tasksCancel_harmless: "guarantees (handleTasksCancel env i) (\<lambda>t _. harmless_task env t) (\<lambda>_. True) d"
  unfolding handleTasksCancel_def Let_def by (intro vcg guarantees_accepted_any) (simp_all add: task_harmless)

lemma replies_withParams:
  "P (Inl invalidParams) \<Longrightarrow> (\<And>r. x = Some r \<Longrightarrow> replies (f r) P) \<Longrightarrow> replies (withParams x f) P"
  unfolding withParams_def by (intro replies_rules)

lemma dispatch_replies: "replies (dispatchRPC env m params) (harmless_result env)"
  unfolding dispatchRPC_def
  by (intro replies_rules replies_withParams replies_answer)
    (auto simp: sanitized_def sanitized_harmless intro: returns_any taskCreate_harmless tasksGet_harmless
      tasksCancel_harmless)

definition harmless_response :: "A2aEnv \<Rightarrow> a2a_response \<Rightarrow> bool" where
  "harmless_response env x =
     (case snd x of RpcBody resp \<Rightarrow> (case rr_Result resp of Some y \<Rightarrow> harmless_result env (Inr y) | None \<Rightarrow> True)
      | _ \<Rightarrow> True)"

lemma rpcBody_error: "rpcBody env r = Inl x \<Longrightarrow> harmless_response env x"
  by (auto simp: rpcBody_def harmless_response_def writeRPCError_def rpcErrorResponse_def
      split: option.splits list.splits if_splits)

lemma serve_replies: "replies (ServeA2A env cfg r) (harmless_response env)"
  unfolding ServeA2A_def handleRPC_def runRPC_def handleTaskEvents_def Let_def
  by (intro replies_rules replies_bindE [OF dispatch_replies] replies_bindE [OF replies_tryE [of "\<lambda>_. True"]])
    (auto dest!: rpcBody_error simp: harmless_response_def writeRPCError_def rpcErrorResponse_def writeRPCResult_def
      handleA2AHealthz_def handleAgentCard_def methodNotAllowed_def refused_def split: sum.splits)

text \<open>Nothing but errors, the health status and the agent card is for everyone.\<close>

fun for_everyone :: "a2a_body \<Rightarrow> bool" where
  "for_everyone (HttpError e) = True"
| "for_everyone (HealthStatus s) = True"
| "for_everyone (CardBody c) = True"
| "for_everyone _ = False"

lemma serve_authorized:
  "replies (ServeA2A env cfg r) (\<lambda>x. for_everyone (snd x) \<or> a2aAuthorized cfg (ar_Authorization r))"
proof (cases "a2aAuthorized cfg (ar_Authorization r)")
  case True
  have "replies (ServeA2A env cfg r) (\<lambda>_. True)" using serve_replies unfolding replies_def by blast
  with True show ?thesis by simp
next
  case False
  then show ?thesis
    unfolding ServeA2A_def handleRPC_def handleTaskEvents_def
    by (intro replies_rules)
      (auto simp: handleA2AHealthz_def handleAgentCard_def methodNotAllowed_def refused_def)
qed

lemma replies_conj: "replies m P \<Longrightarrow> replies m Q \<Longrightarrow> replies m (\<lambda>a. P a \<and> Q a)"
  unfolding replies_def by (metis prod.inject sum.inject(2))

end
