(* ===== verification/A2a_Tasks.thy ===== *)
theory A2a_Tasks
  imports A2a_Contracts
begin

text \<open>
  The tasks of the A2A interface: what creating and cancelling one does to the database, what the
  task stream sends, and the bounds on what the server accepts.
\<close>

section \<open>Creating\<close>

definition controlledOf :: "A2aEnv \<Rightarrow> TaskCreateInput \<Rightarrow> ControlledTaskCreateInput" where
  "controlledOf env input = \<lparr>cti_IdempotencyKey = tci_IdempotencyKey input, cti_PayloadHash = env_hash env input,
     cti_Intent = tci_Intent input, cti_ReceiverID = tci_ReceiverID input, cti_ProjectRef = tci_ProjectRef input,
     cti_ArtifactRefs = map (\<lambda>a. \<lparr>tar_URI = tr_URI a, tar_Type = tr_Type a, tar_Version = tr_Version a,
       tar_Checksum = tr_Checksum a\<rparr>) (tci_ArtifactRefs input)\<rparr>"

definition create_outcome :: "A2aEnv \<Rightarrow> store \<Rightarrow> TaskCreateInput \<Rightarrow> TaskCreateOutput \<Rightarrow> store \<Rightarrow> bool" where
  "create_outcome env d input out d' \<longleftrightarrow> (\<exists>result.
     creation_outcome d (controlledTask (controlledOf env input)) (result, tco_IdempotencyReplayed out) d'
     \<and> tco_HandoffID out = h_ID (cres_Handoff result) \<and> tco_WorkflowID out = wf_ID (cres_Workflow result)
     \<and> at_ID (tco_Task out) = h_ID (cres_Handoff result)
     \<and> ts_State (at_Status (tco_Task out)) = toA2ATaskState (h_State (cres_Handoff result)))"

lemma create_contract:
  "guarantees (handleTaskCreate env input) (create_outcome env d input) (\<lambda>d'. d' = d) d"
  unfolding handleTaskCreate_def HandleControlledTaskCreate_def controlledOf_def [symmetric]
  by (intro vcg guarantees_mono [OF CreateHandoffIdempotent_contract])
    (auto simp: create_outcome_def toA2ATask_def Let_def)

lemma recorded_after:
  assumes "create_outcome env d input out d'"
  obtains r where "creation_of d' (trimSpace (tci_IdempotencyKey input)) = Some r"
    and "cr_HandoffID r = tco_HandoffID out" "cr_WorkflowID r = tco_WorkflowID out"
    and "cr_PayloadHash r = trimSpace (env_hash env input)"
proof -
  let ?key = "ii_IdempotencyKey (controlledTask (controlledOf env input))"
  have key: "?key = trimSpace (tci_IdempotencyKey input)"
    and hash: "ii_PayloadHash (controlledTask (controlledOf env input)) = trimSpace (env_hash env input)"
    by (simp_all add: controlledTask_def controlledOf_def)
  from assms obtain result where
    out: "creation_outcome d (controlledTask (controlledOf env input)) (result, tco_IdempotencyReplayed out) d'"
    and ids: "tco_HandoffID out = h_ID (cres_Handoff result)" "tco_WorkflowID out = wf_ID (cres_Workflow result)"
    by (auto simp: create_outcome_def)
  show thesis
  proof (cases "creation_of d ?key")
    case None
    with out ids show thesis by (auto simp: creation_outcome_def key hash intro: that)
  next
    case (Some r)
    with out ids have "h_ID (cres_Handoff result) = cr_HandoffID r" "wf_ID (cres_Workflow result) = cr_WorkflowID r"
      by (auto simp: creation_outcome_def dest: find_by_Some)
    with Some out ids show thesis by (auto simp: creation_outcome_def key hash intro: that)
  qed
qed

lemma replayed_after:
  assumes "create_outcome env d input out d'" and "creation_of d (trimSpace (tci_IdempotencyKey input)) = Some r"
  shows "tco_IdempotencyReplayed out" "d' = d" "tco_HandoffID out = cr_HandoffID r" "tco_WorkflowID out = cr_WorkflowID r"
    "cr_PayloadHash r = trimSpace (env_hash env input)"
  using assms by (auto simp: create_outcome_def creation_outcome_def controlledTask_def controlledOf_def dest: find_by_Some)

section \<open>Cancelling\<close>

lemma cancel_request:
  "toActorRef (hpi_Actor (cancelInput k i)) = Inr (ActorOf ActorSystem ''workflow-controller'')"
  "normalizeProtocolAction (hpi_Action (cancelInput k i)) = ProtocolActionFail"
proof -
  have "hpi_Actor (cancelInput k i) = hpi_Actor (failInput i)" by (simp add: cancelInput_def failInput_def)
  then show "toActorRef (hpi_Actor (cancelInput k i)) = Inr (ActorOf ActorSystem ''workflow-controller'')"
    using fail_request(1) by simp
  have "trimSpace ''handoff.fail'' = ''handoff.fail''" by (simp add: trimSpace_visible visible_char_def)
  then show "normalizeProtocolAction (hpi_Action (cancelInput k i)) = ProtocolActionFail"
    by (simp add: cancelInput_def normalizeProtocolAction_def Let_def ProtocolActionOf_def
        supportedProtocolActions_def)
qed

text \<open>
  \<open>task_of d i t\<close>: the task is the projection of the stored handoff. Cancelling is all or nothing:
  an error leaves the database as it was or with the handoff failed (when only reading it back fails).
\<close>

definition task_of :: "store \<Rightarrow> string \<Rightarrow> A2ATask \<Rightarrow> bool" where
  "task_of d i t \<longleftrightarrow> (\<exists>h. find_by h_ID i (st_handoffs d) = Some h \<and> at_ID t = i \<and> at_ContextID t = h_WorkflowID h
     \<and> ts_State (at_Status t) = toA2ATaskState (h_State h) \<and> ts_Timestamp (at_Status t) = formatTime (h_UpdatedAt h)
     \<and> at_History t = map toA2ATaskEvent (effective_list d i))"

lemma guarantees_HandoffGet [vcg]:
  assumes "E d"
    and "\<And>h. find_by h_ID (trimSpace i) (st_handoffs d) = Some h \<Longrightarrow>
      Q \<lparr>hgo_Handoff = h, hgo_Timeline = effective_list d (trimSpace i)\<rparr> d"
  shows "guarantees (HandleHandoffGet i) Q E d"
proof -
  have "Q \<lparr>hgo_Handoff = h, hgo_Timeline = effective_list d (h_ID h)\<rparr> d"
    if "find_by h_ID (trimSpace i) (st_handoffs d) = Some h" for h
    using assms(2) [OF that] find_ID [OF that] by simp
  then show ?thesis unfolding HandleHandoffGet_def by (intro vcg assms)
qed

lemma task_projection:
  "find_by h_ID i (st_handoffs d) = Some h \<Longrightarrow>
   task_of d i (toA2ATask ul \<lparr>hgo_Handoff = h, hgo_Timeline = effective_list d i\<rparr> None)"
  by (auto simp: task_of_def toA2ATask_def toA2ATaskHistory_def Let_def dest: find_ID)

lemma active_can_fail:
  assumes "store_inv d" and "find_by h_ID i (st_handoffs d) = Some h"
    and "h_State h \<noteq> StateFailed" "h_State h \<noteq> StateCompleted" "h_State h \<noteq> StateExpired"
  shows "canTransitionToFailed (h_State h)"
  using inv_handoff(2) [OF assms(1,2)] assms(3-5)
  by (cases "h_State h") (auto simp: backed_def lifecycle_wf_def state_flags_def)

definition cancelled :: "store \<Rightarrow> string \<Rightarrow> store \<Rightarrow> bool" where
  "cancelled d i d' \<longleftrightarrow> controller_failed d i d'
     \<or> d' = d \<and> (\<exists>h. find_by h_ID i (st_handoffs d) = Some h \<and> h_State h = StateFailed)"

lemma cancelledI:
  "controller_failed d i d' \<Longrightarrow> cancelled d i d'"
  "find_by h_ID i (st_handoffs d) = Some h \<Longrightarrow> h_State h = StateFailed \<Longrightarrow> cancelled d i d"
  by (auto simp: cancelled_def)

lemma cancelled_state:
  assumes "store_inv d" and "cancelled d i d'"
  shows "\<exists>h. find_by h_ID i (st_handoffs d') = Some h \<and> h_State h = StateFailed"
  using assms(2) unfolding cancelled_def
proof
  assume "controller_failed d i d'"
  then show ?thesis by (rule controller_failed_effect [OF assms(1)]) blast
qed blast

lemma cancel_contract:
  assumes "store_inv d"
  shows "guarantees (handleTasksCancel env i)
    (\<lambda>t d'. cancelled d (trimSpace i) d' \<and> task_of d' (trimSpace i) t \<and> ts_State (at_Status t) = ''failed'')
    (\<lambda>d'. d' = d \<or> cancelled d (trimSpace i) d') d"
proof -
  let ?i = "trimSpace i"
  have step: "guarantees (progressError (HandleHandoffProgress (cancelInput k ?i)))
      (\<lambda>_ d'. controller_failed d ?i d') (fail_refused d ?i) d" for k
    using controller_contract [OF assms cancel_request, of k ?i] by (simp add: cancelInput_def)
  have no_refusal: "d' = d" if "fail_refused d ?i d'" "find_by h_ID ?i (st_handoffs d) = Some h"
    "canTransitionToFailed (h_State h)" for d' h
    using that by (auto simp: fail_refused_def)
  have failed: "ts_State (at_Status t) = ''failed''" if "cancelled d ?i d'" "task_of d' ?i t" for d' t
    using cancelled_state [OF assms that(1)] that(2) by (auto simp: task_of_def)
  have finished: "cancelled d ?i d' \<and> task_of d' ?i (toA2ATask (env_lower env) \<lparr>hgo_Handoff = h, hgo_Timeline =
      effective_list d' ?i\<rparr> None) \<and> ts_State (at_Status (toA2ATask (env_lower env) \<lparr>hgo_Handoff = h, hgo_Timeline =
      effective_list d' ?i\<rparr> None)) = ''failed''"
    if "cancelled d ?i d'" "find_by h_ID ?i (st_handoffs d') = Some h" for d' h
    using that failed [OF that(1) task_projection [OF that(2)]] task_projection [OF that(2)] by blast
  show ?thesis
    unfolding handleTasksCancel_def Let_def
    by (intro vcg guarantees_mono [OF step])
     (auto simp: trimSpace_idem intro!: finished intro: cancelledI
        dest: no_refusal active_can_fail [OF assms])
qed

section \<open>The task stream\<close>

text \<open>
  The client sees the first snapshot and then every change, once: the fingerprints it receives are
  those of the ticks without repetitions.
\<close>

lemma loop_exact:
  "map taskStreamFingerprint (taskEventLoop f (map (\<lambda>s. (Inr s, True)) ss)) =
     tl (remdups_adj (f # map taskStreamFingerprint ss))"
proof (induction ss arbitrary: f)
  case (Cons s ss)
  then show ?case by (cases "taskStreamFingerprint s = f") (auto simp: remdups_adj_Cons' neq_Nil_conv split: list.split)
qed simp

lemma loop_steps: "f # map taskStreamFingerprint (taskEventLoop f ticks) = remdups_adj (f # map taskStreamFingerprint (taskEventLoop f ticks))"
proof (induction f ticks rule: taskEventLoop.induct)
  case (3 f s written ticks)
  then show ?case by auto
qed simp_all

lemma loop_source: "set (taskEventLoop f ticks) \<subseteq> {s. \<exists>written. (Inr s, written) \<in> set ticks}"
  by (induction f ticks rule: taskEventLoop.induct) auto

lemma loop_prefix: "prefix (taskEventLoop f ticks) (taskEventLoop f (ticks @ rest))"
  by (induction f ticks rule: taskEventLoop.induct) auto

definition current_fingerprint :: "string \<times> string \<times> time_text \<Rightarrow> TaskStreamEvent list \<Rightarrow> string \<times> string \<times> time_text" where
  "current_fingerprint f received = (if received = [] then f else taskStreamFingerprint (last received))"

lemma loop_current:
  "current_fingerprint f (taskEventLoop f (map (\<lambda>s. (Inr s, True)) (ss @ [s]))) = taskStreamFingerprint s"
proof (induction ss arbitrary: f)
  case Nil then show ?case by (auto simp: current_fingerprint_def)
next
  case (Cons x ss)
  from Cons.IH [of "taskStreamFingerprint x"] Cons.IH [of f] show ?case
    by (auto simp: current_fingerprint_def split: if_splits)
qed

section \<open>Bounds on what is parsed\<close>

lemma valid_text:
  "validOptionalTaskCreateString s n \<Longrightarrow> length s \<le> n"
  "validOptionalTaskCreateString s n \<Longrightarrow> \<forall>c\<in>set s. 32 \<le> byte_val c \<and> byte_val c \<noteq> 127"
  "validRequiredTaskCreateString s n \<Longrightarrow> s \<noteq> [] \<and> validOptionalTaskCreateString s n"
  by (auto simp: validRequiredTaskCreateString_def validOptionalTaskCreateString_def list_all_iff not_less split: if_splits)

lemma parsed_task_id:
  assumes "parseTaskEventsHandoffID path = Some i"
  shows "validRequiredTaskCreateString i maxTaskCreateIDLength" "CHR ''/'' \<notin> set i" "CHR 0x5C \<notin> set i"
    "trimSpace i = i"
proof -
  from assms obtain s where i: "i = trimSpace s" and v: "validRequiredTaskCreateString i maxTaskCreateIDLength"
    and no: "\<not> list_ex (\<lambda>c. c = CHR ''/'' \<or> c = CHR 0x5C) i"
    by (intro that [of "trimSuffix (trimPrefix path taskEventsPathPrefix) taskEventsPathSuffix"])
      (simp_all add: parseTaskEventsHandoffID_def Let_def split: if_splits)
  show "trimSpace i = i" by (simp add: i)
  show "CHR ''/'' \<notin> set i" "CHR 0x5C \<notin> set i" using no by (auto simp: list_ex_iff)
  show "validRequiredTaskCreateString i maxTaskCreateIDLength" by (rule v)
qed

lemma parsed_query:
  assumes "parseTaskEventsQuery q = Some (n, poll)"
  shows "0 \<le> n" "n \<le> maximumTaskEventsHistoryLength" "minimumTaskEventsPollMs * 1000000 \<le> poll"
    "poll \<le> maximumTaskEventsPollMs * 1000000"
  using assms by (auto simp: parseTaskEventsQuery_def split: if_splits option.splits)

lemma history_length:
  assumes "0 \<le> n"
  shows "int (length (toA2ATaskHistory es (Some n))) \<le> n"
  using assms by (cases "n = 0"; cases "n < int (length es)") (simp_all add: toA2ATaskHistory_def Let_def)

lemma history_suffix:
  "0 < n \<Longrightarrow> toA2ATaskHistory es (Some n) = drop (length es - nat n) (toA2ATaskHistory es None)"
  by (auto simp: toA2ATaskHistory_def Let_def drop_map)

text \<open>Normalizing an accepted task input again changes nothing.\<close>

definition task_input_ok :: "(string \<Rightarrow> string) \<Rightarrow> TaskCreateInput \<Rightarrow> bool" where
  "task_input_ok ul t \<longleftrightarrow>
     tci_IdempotencyKey t \<noteq> [] \<and> length (tci_IdempotencyKey t) \<le> 200
     \<and> tci_Intent t \<noteq> [] \<and> length (tci_Intent t) \<le> 2000 \<and> \<not> unsafeTaskCreateString (toLower ul (tci_Intent t))
     \<and> tci_ReceiverID t \<noteq> [] \<and> length (tci_ReceiverID t) \<le> 200
     \<and> length (tci_ProjectRef t) \<le> 1000 \<and> safeTaskCreateExternalRef ul (tci_ProjectRef t)
     \<and> length (tci_ArtifactRefs t) \<le> 32
     \<and> (\<forall>a\<in>set (tci_ArtifactRefs t). tr_URI a \<noteq> [] \<and> length (tr_URI a) \<le> 1000 \<and> safeTaskCreateExternalRef ul (tr_URI a)
          \<and> length (tr_Type a) \<le> 200 \<and> length (tr_Version a) \<le> 200 \<and> length (tr_Checksum a) \<le> 200)"

lemmas task_bounds = maxTaskCreateIDLength_def maxTaskCreateIntentLength_def maxTaskCreateRefLength_def
  maxTaskCreateArtifacts_def

lemma normalized_parts:
  assumes "normalizeTaskCreateInput ul raw = Some t"
  shows "validRequiredTaskCreateString (tci_IdempotencyKey t) maxTaskCreateIDLength"
    "validRequiredTaskCreateString (tci_Intent t) maxTaskCreateIntentLength" "safeTaskCreateText ul (tci_Intent t)"
    "validRequiredTaskCreateString (tci_ReceiverID t) maxTaskCreateIDLength"
    "validOptionalTaskCreateString (tci_ProjectRef t) maxTaskCreateRefLength"
    "safeTaskCreateExternalRef ul (tci_ProjectRef t)" "length (tci_ArtifactRefs t) \<le> maxTaskCreateArtifacts"
    "list_all (validArtifact ul) (tci_ArtifactRefs t)"
  using assms by (auto simp: normalizeTaskCreateInput_def Let_def not_less split: if_splits)

lemma artifact_ok:
  "validArtifact ul a \<Longrightarrow> tr_URI a \<noteq> [] \<and> length (tr_URI a) \<le> 1000 \<and> safeTaskCreateExternalRef ul (tr_URI a)
     \<and> length (tr_Type a) \<le> 200 \<and> length (tr_Version a) \<le> 200 \<and> length (tr_Checksum a) \<le> 200"
  unfolding validArtifact_def task_bounds using valid_text by (simp split: if_splits)

lemma normalized_ok:
  assumes "normalizeTaskCreateInput ul raw = Some t"
  shows "task_input_ok ul t"
proof -
  note parts = normalized_parts [OF assms, unfolded task_bounds]
  have "\<forall>a\<in>set (tci_ArtifactRefs t). tr_URI a \<noteq> [] \<and> length (tr_URI a) \<le> 1000 \<and> safeTaskCreateExternalRef ul (tr_URI a)
     \<and> length (tr_Type a) \<le> 200 \<and> length (tr_Version a) \<le> 200 \<and> length (tr_Checksum a) \<le> 200"
    using parts(8) artifact_ok by (auto simp: list_all_iff)
  then show ?thesis
    using parts(1-7) valid_text(1,3) by (simp add: task_input_ok_def safeTaskCreateText_def)
qed

lemma trimArtifact_idem: "trimArtifact (trimArtifact a) = trimArtifact a"
  by (simp add: trimArtifact_def)

lemma normalize_idem:
  assumes "normalizeTaskCreateInput ul raw = Some t"
  shows "normalizeTaskCreateInput ul t = Some t"
proof -
  have [simp]: "trimArtifact \<circ> trimArtifact = trimArtifact" by (simp add: fun_eq_iff trimArtifact_idem)
  from assms show ?thesis
    by (auto simp: normalizeTaskCreateInput_def Let_def split: if_splits)
qed

end
