(* ===== verification/Tool_Demo.thy ===== *)
theory Tool_Demo
  imports A2a_Tasks Orch_Demo
begin

text \<open>Concrete tool calls and A2A requests for the instances of the properties.\<close>

lemma trimSpace_evaluated [code]:
  "trimSpace s = (if s \<noteq> [] \<and> visible_char (hd s) \<and> visible_char (last s) then s else trimRight (trimLeft s))"
  by (auto simp: trimSpace_visible trimSpace_def [symmetric])

lemma visible_evaluated [code]:
  "visible_char (Char b0 b1 b2 b3 b4 b5 b6 b7) \<longleftrightarrow> \<not> b7 \<and> (b6 \<or> b5 \<and> (b0 \<or> b1 \<or> b2 \<or> b3 \<or> b4))"
  by (cases b0; cases b1; cases b2; cases b3; cases b4; cases b5; cases b6; cases b7) (simp_all add: visible_char_def)

definition demo_attempt :: DispatchAttempt where
  "demo_attempt = \<lparr>attempt_ID = ''a'', attempt_HandoffID = ''hf_1'', attempt_Adapter = ''openclaw'',
     attempt_Target = ''agent:w'', attempt_RequestedAt = 1000 * second,
     attempt_ResultStatus = transportStatusText TransportRequested, attempt_FinishedAt = 0, attempt_ExternalID = []\<rparr>"

definition turn_world :: "store world" where
  "turn_world = start_world\<lparr>w_db := (w_db created_world)\<lparr>st_attempts := [demo_attempt]\<rparr>,
     w_ids := 10, w_clock := (\<lambda>_. 9000 * second)\<rparr>"

definition demo_handlers :: Handlers where
  "demo_handlers = NewHandlers None"

lemma turn_inv: "store_inv (w_db turn_world)"
proof -
  have "st_attempts (w_db created_world) = []" by code_simp
  then show ?thesis
    using inv_attempt_row [of "{}" "w_db created_world" demo_attempt] reachable_inv [OF created_reachable]
    by (simp add: turn_world_def store_inv_def)
qed

lemma hf_trim: "trimSpace ''hf_1'' = ''hf_1''"
  by (simp add: trimSpace_visible visible_char_def)


text \<open>Three runtime events: one is not ours, one names no handoff, one is received.\<close>

definition runtime_event :: "string \<Rightarrow> string \<Rightarrow> string \<Rightarrow> RuntimeEvent" where
  "runtime_event t i e = \<lparr>oe_Type = t, oe_WorkflowID = ''wf_0'', oe_HandoffID = i, oe_Agent = ''agent:w'', oe_Event = e,
     oe_ArtifactCount = 0, oe_ReviewDecision = []\<rparr>"

definition demo_events :: "RuntimeEvent list" where
  "demo_events = [runtime_event ''other'' ''hf_1'' ''received'', runtime_event AgentEventType [] ''received'',
     runtime_event AgentEventType ''hf_1'' ''received'']"

lemma demo_events_mapped:
  "MapEvent (runtime_event ''other'' ''hf_1'' ''received'') = Inr None"
  "MapEvent (runtime_event AgentEventType [] ''received'') = Inl (ErrorText ''handoff_id is required'')"
  by code_simp+

text \<open>A request to create a task, as its decoded parameters.\<close>

definition demo_task :: TaskCreateInput where
  "demo_task = \<lparr>tci_IdempotencyKey = ''key'', tci_Intent = '' review '', tci_ReceiverID = ''w'',
     tci_ProjectRef = ''project://p'',
     tci_ArtifactRefs = [\<lparr>tr_URI = ''https://x.org/a'', tr_Type = [], tr_Version = [], tr_Checksum = []\<rparr>]\<rparr>"

definition demo_task_normal :: TaskCreateInput where
  "demo_task_normal = demo_task\<lparr>tci_Intent := ''review''\<rparr>"

lemma demo_texts_trimmed: "trimSpace '' review '' = ''review''" "trimSpace ''key'' = ''key''" "trimSpace ''w'' = ''w''"
  "trimSpace ''project://p'' = ''project://p''" "trimSpace ''https://x.org/a'' = ''https://x.org/a''"
  by code_simp+

lemma demo_texts_valid: "validOptionalTaskCreateString ''review'' n = (6 \<le> n)"
  "validOptionalTaskCreateString ''key'' n = (3 \<le> n)" "validOptionalTaskCreateString ''w'' n = (1 \<le> n)"
  "validOptionalTaskCreateString ''project://p'' n = (11 \<le> n)" "validOptionalTaskCreateString ''https://x.org/a'' n = (15 \<le> n)"
  "validOptionalTaskCreateString [] n"
proof -
  have "validString ''review''" "validString ''key''" "validString ''w''" "validString ''project://p''"
    "validString ''https://x.org/a''" "validString []" by code_simp+
  then show "validOptionalTaskCreateString ''review'' n = (6 \<le> n)"
    "validOptionalTaskCreateString ''key'' n = (3 \<le> n)" "validOptionalTaskCreateString ''w'' n = (1 \<le> n)"
    "validOptionalTaskCreateString ''project://p'' n = (11 \<le> n)" "validOptionalTaskCreateString ''https://x.org/a'' n = (15 \<le> n)"
    "validOptionalTaskCreateString [] n"
    by (simp_all add: validOptionalTaskCreateString_def)
qed

lemma demo_texts_safe: "safeTaskCreateText id ''review''" "safeTaskCreateExternalRef id ''project://p''"
  "safeTaskCreateExternalRef id ''https://x.org/a''"
  by code_simp+

lemma demo_task_accepted: "normalizeTaskCreateInput id demo_task = Some demo_task_normal"
  by (simp add: normalizeTaskCreateInput_def demo_task_def demo_task_normal_def demo_texts_trimmed demo_texts_safe
      validRequiredTaskCreateString_def demo_texts_valid task_bounds trimArtifact_def validArtifact_def Let_def)

definition demo_a2a :: A2aEnv where
  "demo_a2a = \<lparr>env_parse = (\<lambda>_. None), env_hash = tci_Intent, env_lower = id, env_workflows = (\<lambda>_. JNull),
     env_workflow = (\<lambda>_. JNull), env_handoff = (\<lambda>_. JNull), env_agents = (\<lambda>_. JNull), env_next = (\<lambda>_. JNull),
     env_blocked = (\<lambda>_. JNull)\<rparr>"

lemma demo_waiting:
  "waiting_attempt demo_handoff (attempts_of (w_db turn_world) ''hf_1'') = Some demo_attempt"
  by code_simp

definition demo_creation :: IdempotentCreateHandoffInput where
  "demo_creation = \<lparr>ii_IdempotencyKey = ''key'', ii_PayloadHash = ''review'',
     ii_Handoff = \<lparr>ci_WorkflowKind = ''a2a_inbound'', ci_Sender = ActorOf ActorWebhook ''a2a-inbound'',
       ci_Receiver = ActorOf ActorAgent ''w'', ci_Reviewer = NoActor, ci_TaskKind = TaskGeneric,
       ci_Intent = ''review'', ci_ParentHandoffID = None, ci_DependsOnHandoffIDs = [],
       ci_RequiredForWorkflowCompletion = True, ci_ArtifactPolicy = NoArtifactPolicy, ci_NeedsReview = False,
       ci_PayloadRef = ''project://p'', ci_DeliveryTargetRef = []\<rparr>,
     ii_ArtifactRefs = [\<lparr>ref_URI = ''https://x.org/a'', ref_Type = [], ref_Version = [], ref_Checksum = []\<rparr>]\<rparr>"

lemma demo_controlled: "controlledTask (controlledOf demo_a2a demo_task_normal) = demo_creation"
  by (simp add: controlledTask_def controlledOf_def demo_a2a_def demo_task_normal_def demo_task_def demo_creation_def
      demo_texts_trimmed trimSpace_visible visible_char_def)

definition task_world :: "store world" where
  "task_world = snd (CreateHandoffIdempotent demo_creation start_world)"

lemma demo_task_creates:
  assumes "\<not> isl (fst (CreateHandoffIdempotent demo_creation w))"
  shows "\<exists>out. handleTaskCreate demo_a2a demo_task_normal w = (Inr out, snd (CreateHandoffIdempotent demo_creation w))"
  using assms unfolding handleTaskCreate_def HandleControlledTaskCreate_def controlledOf_def [symmetric] demo_controlled
  by (cases "CreateHandoffIdempotent demo_creation w"; cases "fst (CreateHandoffIdempotent demo_creation w)")
    (auto simp: bindE_def ret_def)

lemma task_runs:
  "\<exists>out. handleTaskCreate demo_a2a demo_task_normal start_world = (Inr out, task_world)"
  "\<exists>out w'. handleTaskCreate demo_a2a demo_task_normal task_world = (Inr out, w')"
proof -
  have "\<not> isl (fst (CreateHandoffIdempotent demo_creation start_world))"
    "\<not> isl (fst (CreateHandoffIdempotent demo_creation task_world))"
    unfolding task_world_def by code_simp+
  then show "\<exists>out. handleTaskCreate demo_a2a demo_task_normal start_world = (Inr out, task_world)"
    "\<exists>out w'. handleTaskCreate demo_a2a demo_task_normal task_world = (Inr out, w')"
    using demo_task_creates unfolding task_world_def by blast+
qed

end
