(* ===== verification/Swarm_Driver.thy ===== *)
theory Swarm_Driver
  imports Tool_Reach
begin

text \<open>
  \<open>internal/swarmdriver\<close>: \<open>types.go\<close>, \<open>progress.go\<close>, \<open>runner.go\<close>, \<open>daemon.go\<close> and \<open>fake_adapter.go\<close>. The
  driver asks the orchestrator for work, hands it to an agent through an adapter, and reports the
  next lifecycle step. Its database is the pair of the orchestrator's tables and the adapter's
  state: a service call acts on the first (\<open>onStore\<close>), \<open>Execute\<close> on the pair.
\<close>

section \<open>Operations on a part of the database\<close>

definition withDb :: "'a \<Rightarrow> 'b world \<Rightarrow> 'a world" where
  "withDb d w = \<lparr>w_db = d, w_faults = w_faults w, w_uuid = w_uuid w, w_ids = w_ids w,
     w_clock = w_clock w, w_tick = w_tick w\<rparr>"

definition onFirst :: "('a, 'r) op \<Rightarrow> ('a \<times> 'b, 'r) op" where
  "onFirst m w = (case m (withDb (fst (w_db w)) w) of (r, w') \<Rightarrow> (r, withDb (w_db w', snd (w_db w)) w'))"

definition onSecond :: "('b, 'r) op \<Rightarrow> ('a \<times> 'b, 'r) op" where
  "onSecond m w = (case m (withDb (snd (w_db w)) w) of (r, w') \<Rightarrow> (r, withDb (fst (w_db w), w_db w') w'))"

abbreviation onStore :: "'r sop \<Rightarrow> (store \<times> 'e, 'r) op" where
  "onStore \<equiv> onFirst"

section \<open>Types\<close>

datatype RunStatus =
    RunStatusUnset | RunStatusCompleted | RunStatusFailed | RunStatusTimedOut | RunStatusStalled | RunStatusNoLiveAgents | RunStatusAdapterFailed

record AgentSpec =
  as_ID :: string
  as_Capabilities :: "string list"
  as_ProjectRefs :: "string list"
  as_TaskKinds :: "TaskKind list"

record WorkSummary =
  ws_WorkflowID :: string
  ws_HandoffID :: string
  ws_AgentID :: string
  ws_State :: HandoffState
  ws_TaskKind :: TaskKind
  ws_Intent :: string
  ws_PayloadRef :: string
  ws_ProjectRef :: string
  ws_RequiredForWorkflowCompletion :: bool
  ws_ArtifactMinCount :: int
  ws_NeedsReview :: bool
  ws_ReviewerID :: string

type_synonym AdapterStatus = string

definition AdapterStatusCompleted :: AdapterStatus where "AdapterStatusCompleted = ''completed''"
definition AdapterStatusFailed :: AdapterStatus where "AdapterStatusFailed = ''failed''"
definition AdapterStatusPending :: AdapterStatus where "AdapterStatusPending = ''pending''"

record AdapterResult =
  ad_Status :: AdapterStatus
  ad_Summary :: string
  ad_ArtifactCount :: int
  ad_ReviewDecision :: ReviewDecision

type_synonym 'e adapter = "AgentSpec \<Rightarrow> WorkSummary \<Rightarrow> (store \<times> 'e, AdapterResult) op"

record SwarmOptions =
  so_TemplateName :: string
  so_WorkflowKind :: string
  so_WorkflowID :: string
  so_Intent :: string
  so_Agents :: "AgentSpec list"
  so_MaxRounds :: int
  so_StallRounds :: int
  so_WorkLimit :: int
  so_PerAgentAdapterFailLimit :: int
  so_GlobalAdapterFailLimit :: int

record RunSummary =
  sum_Status :: RunStatus
  sum_Reason :: string
  sum_WorkflowID :: string
  sum_HandoffIDs :: "string list"
  sum_AgentIDs :: "string list"
  sum_RoundCount :: nat
  sum_CompletedHandoffCount :: nat
  sum_BlockedReasons :: "string list"
  sum_LastAction :: string
  sum_EvidenceSummaryReady :: bool

section \<open>Progress\<close>

record progressDecision =
  pd_Action :: ProtocolAction
  pd_Actor :: ActorRef
  pd_ArtifactCount :: int

definition decide :: "ProtocolAction \<Rightarrow> ActorRef \<Rightarrow> progressDecision option" where
  "decide action actor = Some \<lparr>pd_Action = action, pd_Actor = actor, pd_ArtifactCount = 0\<rparr>"

definition nextProgressDecision :: "Handoff \<Rightarrow> AdapterResult \<Rightarrow> progressDecision option" where
  "nextProgressDecision handoff result =
     (let receiver = h_ReceiverActor handoff; reviewer = h_ReviewerActor handoff;
          artifactCount = (if ad_ArtifactCount result = 0 \<and> (h_NeedsReview handoff
              \<or> h_TaskKind handoff = TaskArtifactRequired \<or> h_TaskKind handoff = TaskReviewRequired)
            then 1 else ad_ArtifactCount result) in
      case h_State handoff of
        StateCreated \<Rightarrow>
          if h_DeliveryTargetRef handoff \<noteq> [] then None else decide ProtocolActionReceive receiver
      | StateDispatched \<Rightarrow> decide ProtocolActionReceive receiver
      | StateReceived \<Rightarrow> decide ProtocolActionClaim receiver
      | StateClaimed \<Rightarrow> decide ProtocolActionStart receiver
      | StateStarted \<Rightarrow> decide ProtocolActionCheckpoint receiver
      | StateCheckpointed \<Rightarrow>
          if h_NeedsReview handoff \<or> h_TaskKind handoff = TaskReviewRequired \<or> h_TaskKind handoff = TaskArtifactRequired
          then Some \<lparr>pd_Action = ProtocolActionSubmit, pd_Actor = receiver, pd_ArtifactCount = artifactCount\<rparr>
          else decide ProtocolActionComplete receiver
      | StateSubmitted \<Rightarrow>
          if ad_ReviewDecision result = ReviewDecisionRevisionRequired
          then decide ProtocolActionRequestRevision reviewer else decide ProtocolActionApprove reviewer
      | StateReviewed \<Rightarrow>
          if h_ReviewDecision handoff = ReviewDecisionRevisionRequired
          then decide ProtocolActionCheckpoint receiver else decide ProtocolActionComplete receiver
      | _ \<Rightarrow> None)"

definition progressRequest :: "WorkItem \<Rightarrow> AdapterResult \<Rightarrow> progressDecision \<Rightarrow> ProtocolRequest" where
  "progressRequest item result decision =
     \<lparr>preq_Action = pd_Action decision, preq_HandoffID = h_ID (wi_Handoff item),
      preq_WorkflowID = wf_ID (wi_Workflow item), preq_Actor = pd_Actor decision, preq_ProducerEventTime = 0,
      preq_IngestedAt = 0, preq_ArtifactCount = pd_ArtifactCount decision,
      preq_ReviewDecision = ad_ReviewDecision result, preq_Payload = []\<rparr>"

text \<open>\<open>progressWork\<close> returns the action it reported, or \<open>None\<close> when there was nothing to do.\<close>

definition progressWork :: "WorkItem \<Rightarrow> AdapterResult \<Rightarrow> string option sop" where
  "progressWork item result =
     (if ad_Status result = AdapterStatusPending then ret None
      else
        (case nextProgressDecision (wi_Handoff item) result of
           None \<Rightarrow> ret None
         | Some decision \<Rightarrow>
             bindE (progressError (ApplyProtocolAction (progressRequest item result decision))) (\<lambda>out.
             if \<not> dec_Accepted (ed_Decision out)
             then throw (ErrorText (''protocol action '' @ protocolActionText (pd_Action decision) @ '' rejected: '' @
                    dec_Reason (ed_Decision out)))
             else ret (Some (protocolActionText (pd_Action decision) @ '':'' @ h_ID (wi_Handoff item))))))"

definition workSummaryFor :: "AgentSpec \<Rightarrow> WorkItem \<Rightarrow> WorkSummary" where
  "workSummaryFor agent item =
     (let h = wi_Handoff item in
      \<lparr>ws_WorkflowID = wf_ID (wi_Workflow item), ws_HandoffID = h_ID h, ws_AgentID = as_ID agent, ws_State = h_State h,
       ws_TaskKind = h_TaskKind h, ws_Intent = h_Intent h, ws_PayloadRef = h_PayloadRef h, ws_ProjectRef = h_PayloadRef h,
       ws_RequiredForWorkflowCompletion = h_RequiredForWorkflowCompletion h,
       ws_ArtifactMinCount = ap_MinCount (h_ArtifactPolicy h),
       ws_NeedsReview = (h_NeedsReview h \<or> h_TaskKind h = TaskReviewRequired),
       ws_ReviewerID = actor_ID (h_ReviewerActor h)\<rparr>)"

section \<open>Setting up a run\<close>

definition defaultMaxRounds :: int where "defaultMaxRounds = 50"
definition defaultStallRounds :: int where "defaultStallRounds = 3"
definition defaultWorkLimit :: int where "defaultWorkLimit = 10"
definition defaultPerAgentAdapterFailLimit :: int where "defaultPerAgentAdapterFailLimit = 2"
definition defaultGlobalAdapterFailLimit :: int where "defaultGlobalAdapterFailLimit = 3"
definition defaultTemplateIntent :: string where "defaultTemplateIntent = ''reference swarm driver workflow''"

definition orText :: "string \<Rightarrow> string \<Rightarrow> string" where
  "orText s t = (if s = [] then t else s)"

definition orPositive :: "int \<Rightarrow> int \<Rightarrow> int" where
  "orPositive n m = (if n \<le> 0 then m else n)"

definition applyDefaults :: "SwarmOptions \<Rightarrow> SwarmOptions" where
  "applyDefaults opts =
     opts\<lparr>so_TemplateName := (if so_TemplateName opts = [] \<and> so_WorkflowID opts = []
            then CollaborationTemplateUpstreamDownstreamReview else so_TemplateName opts),
          so_WorkflowKind := orText (so_WorkflowKind opts) ''reference_swarm_driver'',
          so_Intent := orText (so_Intent opts) defaultTemplateIntent,
          so_MaxRounds := orPositive (so_MaxRounds opts) defaultMaxRounds,
          so_StallRounds := orPositive (so_StallRounds opts) defaultStallRounds,
          so_WorkLimit := orPositive (so_WorkLimit opts) defaultWorkLimit,
          so_PerAgentAdapterFailLimit := orPositive (so_PerAgentAdapterFailLimit opts) defaultPerAgentAdapterFailLimit,
          so_GlobalAdapterFailLimit := orPositive (so_GlobalAdapterFailLimit opts) defaultGlobalAdapterFailLimit\<rparr>"

definition registrationOf :: "AgentSpec \<Rightarrow> AgentRegistration" where
  "registrationOf agent = \<lparr>agent_Actor = ActorOf ActorAgent (trimSpace (as_ID agent)),
     agent_Capabilities = as_Capabilities agent, agent_ProjectRefs = as_ProjectRefs agent,
     agent_TaskKinds = as_TaskKinds agent, agent_DeliveryTargetRef = [], agent_Status = ''available'',
     agent_LastHeartbeatAt = None, agent_CreatedAt = 0, agent_UpdatedAt = 0\<rparr>"

definition registerAgents :: "AgentSpec list \<Rightarrow> unit sop" where
  "registerAgents agents = forE agents (\<lambda>agent.
     if trimSpace (as_ID agent) = [] then throw (ErrorText ''agent id is required'')
     else bindE (wrapE (''register agent '' @ trimSpace (as_ID agent)) (RegisterAgent (registrationOf agent))) (\<lambda>_. ret ()))"

definition handoffIDs :: "Handoff list \<Rightarrow> string list" where
  "handoffIDs handoffs = sort (map h_ID handoffs)"

definition agentIDs :: "AgentSpec list \<Rightarrow> string list" where
  "agentIDs agents = sort (filter (\<lambda>i. i \<noteq> []) (map (\<lambda>a. trimSpace (as_ID a)) agents))"

definition swarmTemplate :: "SwarmOptions \<Rightarrow> CollaborationTemplateApplyInput" where
  "swarmTemplate opts = \<lparr>ti_TemplateName = so_TemplateName opts, ti_WorkflowKind = so_WorkflowKind opts,
     ti_Intent = so_Intent opts,
     ti_Upstream = \<lparr>role_ReceiverID = ''planner'', role_ProjectRef = ''project://swarm/upstream''\<rparr>,
     ti_Downstream = \<lparr>role_ReceiverID = ''engineer'', role_ProjectRef = ''project://swarm/downstream''\<rparr>,
     ti_Reviewer = \<lparr>role_ReceiverID = ''reviewer'', role_ProjectRef = ''project://swarm/review''\<rparr>,
     ti_IdempotencyKey = []\<rparr>"

definition ensureWorkflow ::
  "(CollaborationTemplateApplyInput \<Rightarrow> string) \<Rightarrow> SwarmOptions \<Rightarrow> (string \<times> string list) sop" where
  "ensureWorkflow hash opts =
     (if trimSpace (so_WorkflowID opts) \<noteq> [] then
        bindE (wrapE ''load workflow'' (WorkflowStatusView (trimSpace (so_WorkflowID opts)))) (\<lambda>(workflow, handoffs).
        ret (wf_ID workflow, handoffIDs handoffs))
      else
        bindE (wrapE ''apply collaboration template'' (ApplyCollaborationTemplate hash (swarmTemplate opts))) (\<lambda>result.
        ret (wf_ID (tres_Workflow result), handoffIDs (tres_Handoffs result))))"

section \<open>Summaries\<close>

definition completedRequiredHandoffCount :: "Handoff list \<Rightarrow> nat" where
  "completedRequiredHandoffCount handoffs =
     length (filter (\<lambda>h. h_RequiredForWorkflowCompletion h \<and> h_State h = StateCompleted) handoffs)"

definition evidenceContainsWorkflow :: "CoordinationEvidenceSummary \<Rightarrow> string \<Rightarrow> bool" where
  "evidenceContainsWorkflow summary workflowID = list_ex (\<lambda>w. cew_ID w = workflowID) (ces_Workflows summary)"

definition evidenceBlockedReasons :: "CoordinationEvidenceSummary \<Rightarrow> string list" where
  "evidenceBlockedReasons summary =
     sort (map (\<lambda>r. cebr_HandoffID r @ '':'' @ cebr_Type r) (ces_BlockedReasons summary))"

definition evidenceOf :: "string \<Rightarrow> CoordinationEvidenceSummary sop" where
  "evidenceOf workflowID = wrapE ''coordination evidence summary''
     (CoordinationEvidenceSummaryOp \<lparr>ceq_WorkflowID = workflowID, ceq_IncludeAgents = True\<rparr>)"

definition finalizeSummary :: "RunSummary \<Rightarrow> RunStatus \<Rightarrow> string \<Rightarrow> RunSummary sop" where
  "finalizeSummary summary0 status why =
     (let summary = summary0\<lparr>sum_Status := status, sum_Reason := why\<rparr> in
      if sum_WorkflowID summary = [] then ret summary
      else
        bindE (wrapE ''workflow status'' (WorkflowStatusView (sum_WorkflowID summary))) (\<lambda>(_, handoffs).
        bindE (evidenceOf (sum_WorkflowID summary)) (\<lambda>evidence.
        ret (summary\<lparr>sum_HandoffIDs := handoffIDs handoffs,
          sum_CompletedHandoffCount := completedRequiredHandoffCount handoffs,
          sum_EvidenceSummaryReady := evidenceContainsWorkflow evidence (sum_WorkflowID summary),
          sum_BlockedReasons := evidenceBlockedReasons evidence\<rparr>))))"

definition allRequiredCompleted :: "Handoff list \<Rightarrow> bool" where
  "allRequiredCompleted handoffs =
     (let required = filter h_RequiredForWorkflowCompletion handoffs in
      required \<noteq> [] \<and> list_all (\<lambda>h. h_State h = StateCompleted) required)"

definition requiredFailedOrExpired :: "Handoff list \<Rightarrow> bool" where
  "requiredFailedOrExpired handoffs = list_ex (\<lambda>h. h_RequiredForWorkflowCompletion h
     \<and> (h_State h = StateFailed \<or> h_State h = StateExpired)) handoffs"

definition terminalSummaryIfDone :: "RunSummary \<Rightarrow> RunSummary option sop" where
  "terminalSummaryIfDone summary =
     bindE (wrapE ''workflow status'' (WorkflowStatusView (sum_WorkflowID summary))) (\<lambda>(workflow, handoffs).
     if wf_Status workflow = WorkflowCompleted \<or> allRequiredCompleted handoffs then
       bindE (finalizeSummary summary RunStatusCompleted ''workflow completed'') (\<lambda>s. ret (Some s))
     else if wf_Status workflow = WorkflowFailed \<or> requiredFailedOrExpired handoffs then
       bindE (finalizeSummary summary RunStatusFailed ''required handoff failed or expired'') (\<lambda>s. ret (Some s))
     else
       bindE (evidenceOf (sum_WorkflowID summary)) (\<lambda>evidence.
       if list_ex (\<lambda>w. cew_ID w = sum_WorkflowID summary \<and> cew_Status w = workflowStatusText WorkflowCompleted)
            (ces_Workflows evidence) then
         bindE (finalizeSummary summary RunStatusCompleted ''evidence summary shows workflow completed'') (\<lambda>s. ret (Some s))
       else ret None))"

text \<open>An error while listing the agents counts as no live agent.\<close>

definition hasLiveAgent :: "AgentSpec list \<Rightarrow> bool sop" where
  "hasLiveAgent specs =
     handleE (bindE (ListAgents \<lparr>alf_Capability = [], alf_ProjectRef = [], alf_TaskKind = [], alf_Status = ''available''\<rparr>)
       (\<lambda>agents. ret (list_ex (\<lambda>a. actor_ID (agent_Actor a) \<in> set (map as_ID specs)
          \<and> agent_LastHeartbeatAt a \<noteq> None) agents))) (\<lambda>_. ret False)"

definition agentForWork :: "AgentSpec list \<Rightarrow> Handoff \<Rightarrow> AgentSpec option" where
  "agentForWork agents handoff = find (\<lambda>a. as_ID a = actor_ID (h_ReceiverActor handoff)
     \<or> as_ID a = actor_ID (h_CurrentOwner handoff) \<or> as_ID a = actor_ID (h_ReviewerActor handoff)) agents"

definition blockedWorkSignature :: "BlockedWorkItem list \<Rightarrow> string" where
  "blockedWorkSignature items = joinText ''|'' (sort (concat (map (\<lambda>item. map (\<lambda>r.
     h_ID (bwi_Handoff item) @ '':'' @ wbr_Code r @ '':'' @ wbr_DependencyHandoffID r @ '':'' @ wbr_WatchID r)
       (bwi_Reasons item)) items)))"

end
