(* ===== verification/Swarm_Run.thy ===== *)
theory Swarm_Run
  imports Swarm_Driver
begin

text \<open>
  The loops of \<open>runner.go\<close> and \<open>daemon.go\<close>, and the deterministic adapter of \<open>fake_adapter.go\<close>. A round
  that ends the run yields its summary (\<open>Inl\<close>), any other the state of the next round (\<open>Inr\<close>). The
  context's deadline and cancellation are not modelled.
\<close>

section \<open>Adapter failures\<close>

record failureTracker =
  ft_perAgent :: "string \<Rightarrow> int"
  ft_global :: int

definition newFailureTracker :: failureTracker where
  "newFailureTracker = \<lparr>ft_perAgent = (\<lambda>_. 0), ft_global = 0\<rparr>"

definition recordFailure :: "SwarmOptions \<Rightarrow> string \<Rightarrow> failureTracker \<Rightarrow> bool \<times> failureTracker" where
  "recordFailure opts agentID f =
     (let f' = f\<lparr>ft_perAgent := (ft_perAgent f)(agentID := ft_perAgent f agentID + 1), ft_global := ft_global f + 1\<rparr> in
      (so_PerAgentAdapterFailLimit opts \<le> ft_perAgent f' agentID \<or> so_GlobalAdapterFailLimit opts \<le> ft_global f', f'))"

definition resetFailure :: "string \<Rightarrow> failureTracker \<Rightarrow> failureTracker" where
  "resetFailure agentID f = f\<lparr>ft_perAgent := (ft_perAgent f)(agentID := 0)\<rparr>"

section \<open>A run\<close>

record work_loop =
  wl_summary :: RunSummary
  wl_failures :: failureTracker
  wl_progressed :: bool

definition failRequest :: "WorkItem \<Rightarrow> ProtocolRequest" where
  "failRequest item = \<lparr>preq_Action = ProtocolActionFail, preq_HandoffID = h_ID (wi_Handoff item),
     preq_WorkflowID = wf_ID (wi_Workflow item), preq_Actor = h_ReceiverActor (wi_Handoff item),
     preq_ProducerEventTime = 0, preq_IngestedAt = 0, preq_ArtifactCount = 0, preq_ReviewDecision = ReviewUnset,
     preq_Payload = []\<rparr>"

definition failedAction :: "WorkItem \<Rightarrow> string" where
  "failedAction item = ''handoff.fail:'' @ h_ID (wi_Handoff item)"

definition progressed :: "string \<Rightarrow> work_loop \<Rightarrow> work_loop" where
  "progressed action st = st\<lparr>wl_summary := (wl_summary st)\<lparr>sum_LastAction := action\<rparr>, wl_progressed := True\<rparr>"

definition runItem ::
  "'e adapter \<Rightarrow> SwarmOptions \<Rightarrow> work_loop \<Rightarrow> WorkItem \<Rightarrow> (store \<times> 'e, RunSummary + work_loop) op" where
  "runItem execute opts st item =
     (case agentForWork (so_Agents opts) (wi_Handoff item) of
        None \<Rightarrow> ret (Inr st)
      | Some agent \<Rightarrow>
          bindE (tryE (execute agent (workSummaryFor agent item))) (\<lambda>outcome.
          case outcome of
            Inl _ \<Rightarrow>
              (let (over, failures) = recordFailure opts (as_ID agent) (wl_failures st) in
               if over then
                 bindE (onStore (finalizeSummary (wl_summary st) RunStatusAdapterFailed ''adapter failure threshold exceeded''))
                   (\<lambda>s. ret (Inl s))
               else ret (Inr (st\<lparr>wl_failures := failures\<rparr>)))
          | Inr result \<Rightarrow>
              (let st = st\<lparr>wl_failures := resetFailure (as_ID agent) (wl_failures st)\<rparr> in
               if ad_Status result = AdapterStatusPending then ret (Inr st)
               else if ad_Status result = AdapterStatusFailed then
                 bindE (onStore (wrapE ''fail handoff'' (progressError (ApplyProtocolAction (failRequest item)))))
                   (\<lambda>_. ret (Inr (progressed (failedAction item) st)))
               else
                 bindE (onStore (wrapE ''progress handoff'' (progressWork item result))) (\<lambda>action.
                 ret (Inr (case action of None \<Rightarrow> st | Some a \<Rightarrow> progressed a st))))))"

fun runItems ::
  "'e adapter \<Rightarrow> SwarmOptions \<Rightarrow> work_loop \<Rightarrow> WorkItem list \<Rightarrow> (store \<times> 'e, RunSummary + work_loop) op" where
  "runItems execute opts st [] = ret (Inr st)"
| "runItems execute opts st (item # items) =
     bindE (runItem execute opts st item) (\<lambda>r. case r of Inl s \<Rightarrow> ret (Inl s) | Inr st' \<Rightarrow> runItems execute opts st' items)"

record run_state =
  run_summary :: RunSummary
  run_failures :: failureTracker
  run_lastBlocked :: string
  run_stalls :: int

definition workflowWork :: "string \<Rightarrow> int \<Rightarrow> WorkQuery" where
  "workflowWork workflowID limit = \<lparr>wq_AgentID = [], wq_Capability = [], wq_ProjectRef = [],
     wq_WorkflowID = workflowID, wq_TaskKind = [], wq_Limit = limit\<rparr>"

definition nextRunState :: "WorkItem list \<Rightarrow> string \<Rightarrow> run_state \<Rightarrow> work_loop \<Rightarrow> run_state" where
  "nextRunState next signature st wk =
     (let moved = wl_progressed wk \<or> next \<noteq> [] \<or> signature \<noteq> run_lastBlocked st in
      \<lparr>run_summary = wl_summary wk, run_failures = wl_failures wk,
       run_lastBlocked = (if moved then signature else run_lastBlocked st),
       run_stalls = (if moved then 0 else run_stalls st + 1)\<rparr>)"

definition swarmRound ::
  "'e adapter \<Rightarrow> SwarmOptions \<Rightarrow> nat \<Rightarrow> run_state \<Rightarrow> (store \<times> 'e, RunSummary + run_state) op" where
  "swarmRound execute opts round st =
     (let summary = (run_summary st)\<lparr>sum_RoundCount := round\<rparr>; workflowID = sum_WorkflowID summary in
      bindE (onStore (terminalSummaryIfDone summary)) (\<lambda>terminal.
      case terminal of
        Some s \<Rightarrow> ret (Inl s)
      | None \<Rightarrow>
          bindE (onStore (hasLiveAgent (so_Agents opts))) (\<lambda>live.
          if \<not> live then
            bindE (onStore (finalizeSummary summary RunStatusNoLiveAgents ''no live available agents'')) (\<lambda>s. ret (Inl s))
          else
            bindE (onStore (wrapE ''next work'' (NextWork (workflowWork workflowID (so_WorkLimit opts))))) (\<lambda>next.
            bindE (onStore (wrapE ''blocked work'' (BlockedWork (workflowWork workflowID 0)))) (\<lambda>blocked.
            bindE (runItems execute opts \<lparr>wl_summary = summary, wl_failures = run_failures st, wl_progressed = False\<rparr> next)
              (\<lambda>r.
            case r of
              Inl s \<Rightarrow> ret (Inl s)
            | Inr wk \<Rightarrow>
                (let st' = nextRunState next (blockedWorkSignature blocked) st wk in
                 if so_StallRounds opts \<le> run_stalls st' then
                   bindE (onStore (finalizeSummary (wl_summary wk) RunStatusStalled ''no progress and blocked work unchanged''))
                     (\<lambda>s. ret (Inl s))
                 else ret (Inr st'))))))))"

fun swarmRounds ::
  "'e adapter \<Rightarrow> SwarmOptions \<Rightarrow> nat \<Rightarrow> nat \<Rightarrow> run_state \<Rightarrow> (store \<times> 'e, RunSummary) op" where
  "swarmRounds execute opts 0 round st = onStore (finalizeSummary (run_summary st) RunStatusTimedOut ''max rounds reached'')"
| "swarmRounds execute opts (Suc left) round st =
     bindE (swarmRound execute opts round st) (\<lambda>r.
     case r of Inl s \<Rightarrow> ret s | Inr st' \<Rightarrow> swarmRounds execute opts left (Suc round) st')"

definition startState :: "string \<Rightarrow> string list \<Rightarrow> string list \<Rightarrow> run_state" where
  "startState workflowID ids agents =
     \<lparr>run_summary = \<lparr>sum_Status = RunStatusUnset, sum_Reason = [], sum_WorkflowID = workflowID, sum_HandoffIDs = ids,
        sum_AgentIDs = agents, sum_RoundCount = 0, sum_CompletedHandoffCount = 0, sum_BlockedReasons = [],
        sum_LastAction = [], sum_EvidenceSummaryReady = False\<rparr>,
      run_failures = newFailureTracker, run_lastBlocked = [], run_stalls = 0\<rparr>"

definition SwarmRun ::
  "(CollaborationTemplateApplyInput \<Rightarrow> string) \<Rightarrow> 'e adapter option \<Rightarrow> SwarmOptions \<Rightarrow> (store \<times> 'e, RunSummary) op" where
  "SwarmRun hash adapter opts0 =
     (let opts = applyDefaults opts0 in
      case adapter of
        None \<Rightarrow> throw (ErrorText ''agent adapter is required'')
      | Some execute \<Rightarrow>
          bindE (onStore (registerAgents (so_Agents opts))) (\<lambda>_.
          bindE (onStore (ensureWorkflow hash opts)) (\<lambda>(workflowID, ids).
          swarmRounds execute opts (nat (so_MaxRounds opts)) 1
            (startState workflowID ids (agentIDs (so_Agents opts))))))"

section \<open>The daemon\<close>

datatype DaemonStatus = DaemonIdle | DaemonProgress | DaemonCompleted | DaemonFailed | DaemonError

record DaemonEvent =
  de_Status :: DaemonStatus
  de_Reason :: string
  de_WorkflowID :: string
  de_HandoffID :: string
  de_RoundCount :: nat
  de_CompletedHandoffCount :: nat
  de_BlockedReasons :: "string list"
  de_LastAction :: string
  de_EvidenceSummaryReady :: bool
  de_TickCount :: nat

record DaemonOptions =
  do_TemplateName :: string
  do_WorkflowKind :: string
  do_WorkflowIDs :: "string list"
  do_Intent :: string
  do_Agents :: "AgentSpec list"
  do_CreateTemplate :: bool
  do_RegisterAgents :: bool
  do_MaxRoundsPerTick :: int
  do_StallRounds :: int
  do_WorkLimit :: int
  do_PollInterval :: duration
  do_IdleInterval :: duration

definition defaultDaemonPollInterval :: duration where "defaultDaemonPollInterval = 5 * second"
definition defaultDaemonIdleInterval :: duration where "defaultDaemonIdleInterval = 15 * second"

definition applyDaemonDefaults :: "DaemonOptions \<Rightarrow> DaemonOptions" where
  "applyDaemonDefaults opts =
     opts\<lparr>do_TemplateName := orText (do_TemplateName opts) CollaborationTemplateUpstreamDownstreamReview,
          do_WorkflowKind := orText (do_WorkflowKind opts) ''managed_swarm_driver'',
          do_Intent := orText (do_Intent opts) defaultTemplateIntent,
          do_MaxRoundsPerTick := orPositive (do_MaxRoundsPerTick opts) defaultMaxRounds,
          do_StallRounds := orPositive (do_StallRounds opts) defaultStallRounds,
          do_WorkLimit := orPositive (do_WorkLimit opts) defaultWorkLimit,
          do_PollInterval := orPositive (do_PollInterval opts) defaultDaemonPollInterval,
          do_IdleInterval := orPositive (do_IdleInterval opts) defaultDaemonIdleInterval\<rparr>"

definition daemonEvent :: "DaemonStatus \<Rightarrow> string \<Rightarrow> DaemonEvent" where
  "daemonEvent s why = \<lparr>de_Status = s, de_Reason = why, de_WorkflowID = [], de_HandoffID = [], de_RoundCount = 0,
     de_CompletedHandoffCount = 0, de_BlockedReasons = [], de_LastAction = [], de_EvidenceSummaryReady = False,
     de_TickCount = 0\<rparr>"

definition itemEvent :: "DaemonStatus \<Rightarrow> string \<Rightarrow> WorkItem \<Rightarrow> DaemonEvent" where
  "itemEvent s why item = (daemonEvent s why)\<lparr>de_WorkflowID := wf_ID (wi_Workflow item),
     de_HandoffID := h_ID (wi_Handoff item)\<rparr>"

definition daemonEventFromSummary :: "RunSummary \<Rightarrow> DaemonEvent" where
  "daemonEventFromSummary summary =
     (let event = (daemonEvent DaemonError (sum_Reason summary))\<lparr>de_WorkflowID := sum_WorkflowID summary,
            de_RoundCount := sum_RoundCount summary, de_CompletedHandoffCount := sum_CompletedHandoffCount summary,
            de_BlockedReasons := sum_BlockedReasons summary, de_LastAction := sum_LastAction summary,
            de_EvidenceSummaryReady := sum_EvidenceSummaryReady summary\<rparr> in
      case sum_Status summary of
        RunStatusCompleted \<Rightarrow> event\<lparr>de_Status := DaemonCompleted\<rparr>
      | RunStatusFailed \<Rightarrow> event\<lparr>de_Status := DaemonFailed\<rparr>
      | RunStatusTimedOut \<Rightarrow>
          if sum_LastAction summary \<noteq> [] then event\<lparr>de_Status := DaemonProgress, de_Reason := ''progressed workflow target''\<rparr>
          else event\<lparr>de_Status := DaemonIdle\<rparr>
      | RunStatusStalled \<Rightarrow> event\<lparr>de_Status := DaemonIdle\<rparr>
      | _ \<Rightarrow> event)"

definition tickRun :: "DaemonOptions \<Rightarrow> SwarmOptions" where
  "tickRun opts = \<lparr>so_TemplateName = [], so_WorkflowKind = [], so_WorkflowID = [], so_Intent = [],
     so_Agents = do_Agents opts, so_MaxRounds = do_MaxRoundsPerTick opts, so_StallRounds = do_StallRounds opts,
     so_WorkLimit = do_WorkLimit opts, so_PerAgentAdapterFailLimit = 0, so_GlobalAdapterFailLimit = 0\<rparr>"

fun runTargets ::
  "(CollaborationTemplateApplyInput \<Rightarrow> string) \<Rightarrow> 'e adapter \<Rightarrow> DaemonOptions \<Rightarrow> DaemonEvent \<Rightarrow> string list
   \<Rightarrow> (store \<times> 'e, DaemonEvent) op" where
  "runTargets hash execute opts prev [] = ret prev"
| "runTargets hash execute opts prev (workflowID # ids) =
     bindE (SwarmRun hash (Some execute) ((tickRun opts)\<lparr>so_WorkflowID := workflowID\<rparr>)) (\<lambda>summary.
     let event = daemonEventFromSummary summary in
     if de_Status event \<noteq> DaemonIdle then ret event else runTargets hash execute opts event ids)"

definition runDaemonWorkflowTargets ::
  "(CollaborationTemplateApplyInput \<Rightarrow> string) \<Rightarrow> 'e adapter \<Rightarrow> DaemonOptions \<Rightarrow> (store \<times> 'e, DaemonEvent) op" where
  "runDaemonWorkflowTargets hash execute opts =
     runTargets hash execute opts (daemonEvent DaemonIdle ''no workflow targets progressed'') (do_WorkflowIDs opts)"

text \<open>One item of available work: the event so far and whether anything progressed; \<open>Inl\<close> returns.\<close>

definition availableItem ::
  "'e adapter \<Rightarrow> DaemonOptions \<Rightarrow> DaemonEvent \<times> bool \<Rightarrow> WorkItem \<Rightarrow> (store \<times> 'e, DaemonEvent + DaemonEvent \<times> bool) op" where
  "availableItem execute opts st item =
     (case agentForWork (do_Agents opts) (wi_Handoff item) of
        None \<Rightarrow> ret (Inr st)
      | Some agent \<Rightarrow>
          bindE (tryE (execute agent (workSummaryFor agent item))) (\<lambda>outcome.
          case outcome of
            Inl _ \<Rightarrow> ret (Inl (itemEvent DaemonError ''adapter failure'' item))
          | Inr result \<Rightarrow>
              if ad_Status result = AdapterStatusPending
              then ret (Inr (itemEvent DaemonIdle ''waiting for adapter result'' item, snd st))
              else if ad_Status result = AdapterStatusFailed then
                bindE (onStore (wrapE ''fail handoff'' (progressError (ApplyProtocolAction (failRequest item)))))
                  (\<lambda>_. ret (Inr ((itemEvent DaemonFailed ''adapter marked handoff failed'' item)
                     \<lparr>de_LastAction := failedAction item\<rparr>, True)))
              else
                bindE (tryE (onStore (progressWork item result))) (\<lambda>r.
                case r of
                  Inl _ \<Rightarrow> ret (Inr (itemEvent DaemonError ''protocol progress failed'' item, snd st))
                | Inr None \<Rightarrow> ret (Inr st)
                | Inr (Some action) \<Rightarrow> ret (Inr ((itemEvent DaemonProgress ''progressed handoff'' item)
                     \<lparr>de_LastAction := action\<rparr>, True)))))"

fun availableItems ::
  "'e adapter \<Rightarrow> DaemonOptions \<Rightarrow> DaemonEvent \<times> bool \<Rightarrow> WorkItem list \<Rightarrow> (store \<times> 'e, DaemonEvent + DaemonEvent \<times> bool) op" where
  "availableItems execute opts st [] = ret (Inr st)"
| "availableItems execute opts st (item # items) =
     bindE (availableItem execute opts st item)
       (\<lambda>r. case r of Inl e \<Rightarrow> ret (Inl e) | Inr st' \<Rightarrow> availableItems execute opts st' items)"

definition concludeEvent :: "DaemonEvent \<Rightarrow> DaemonEvent sop" where
  "concludeEvent event =
     (if de_WorkflowID event = [] then ret event
      else
        bindE (wrapE ''workflow status'' (WorkflowStatusView (de_WorkflowID event))) (\<lambda>(workflow, handoffs).
        ret (if wf_Status workflow = WorkflowCompleted
             then event\<lparr>de_Status := DaemonCompleted, de_Reason := ''workflow completed'',
                    de_CompletedHandoffCount := completedRequiredHandoffCount handoffs\<rparr>
             else if wf_Status workflow = WorkflowFailed
             then event\<lparr>de_Status := DaemonFailed, de_Reason := ''workflow failed''\<rparr>
             else event)))"

definition runDaemonAvailableWork :: "'e adapter \<Rightarrow> DaemonOptions \<Rightarrow> (store \<times> 'e, DaemonEvent) op" where
  "runDaemonAvailableWork execute opts =
     bindE (onStore (wrapE ''next work'' (NextWork (workflowWork [] (do_WorkLimit opts))))) (\<lambda>next.
     bindE (availableItems execute opts (daemonEvent DaemonIdle ''no executable work'', False) next) (\<lambda>r.
     case r of
       Inl event \<Rightarrow> ret event
     | Inr (event, moved) \<Rightarrow>
         onStore (concludeEvent (if \<not> moved \<and> next \<noteq> [] \<and> de_WorkflowID event = []
           then event\<lparr>de_Reason := ''no executable work for configured agents''\<rparr> else event))))"

definition RunDaemonTick ::
  "(CollaborationTemplateApplyInput \<Rightarrow> string) \<Rightarrow> 'e adapter option \<Rightarrow> DaemonOptions \<Rightarrow> (store \<times> 'e, DaemonEvent) op" where
  "RunDaemonTick hash adapter opts0 =
     (let opts = applyDaemonDefaults opts0 in
      case adapter of
        None \<Rightarrow> throw (ErrorText ''agent adapter is required'')
      | Some execute \<Rightarrow>
          bindE (if do_RegisterAgents opts then onStore (registerAgents (do_Agents opts)) else ret ()) (\<lambda>_.
          if do_CreateTemplate opts then
            bindE (SwarmRun hash (Some execute) ((tickRun opts)\<lparr>so_TemplateName := do_TemplateName opts,
                so_WorkflowKind := do_WorkflowKind opts, so_Intent := do_Intent opts\<rparr>)) (\<lambda>summary.
            ret (daemonEventFromSummary summary))
          else if do_WorkflowIDs opts \<noteq> [] then runDaemonWorkflowTargets hash execute opts
          else runDaemonAvailableWork execute opts))"

text \<open>
  The first ticks of the daemon: every event emitted with the interval waited after it, and the
  error that stopped the loop, if any.
\<close>

fun daemonTicks ::
  "(CollaborationTemplateApplyInput \<Rightarrow> string) \<Rightarrow> 'e adapter \<Rightarrow> DaemonOptions \<Rightarrow> string list \<Rightarrow> nat \<Rightarrow> nat
   \<Rightarrow> (store \<times> 'e, (DaemonEvent \<times> duration) list \<times> error option) op" where
  "daemonTicks hash execute opts workflowIDs 0 tick = ret ([], None)"
| "daemonTicks hash execute opts workflowIDs (Suc left) tick =
     bindE (tryE (RunDaemonTick hash (Some execute) (opts\<lparr>do_WorkflowIDs := workflowIDs,
         do_CreateTemplate := do_CreateTemplate opts \<and> workflowIDs = []\<rparr>))) (\<lambda>r.
     case r of
       Inl e \<Rightarrow> ret ([], Some e)
     | Inr event0 \<Rightarrow>
         (let event = event0\<lparr>de_TickCount := tick\<rparr>;
              ids = (if de_WorkflowID event \<noteq> [] \<and> do_CreateTemplate opts \<and> workflowIDs = []
                     then [de_WorkflowID event] else workflowIDs);
              interval = (if de_Status event = DaemonIdle then do_IdleInterval opts else do_PollInterval opts) in
          bindE (daemonTicks hash execute opts ids left (Suc tick)) (\<lambda>(events, err).
          ret ((event, interval) # events, err))))"

definition RunDaemon ::
  "(CollaborationTemplateApplyInput \<Rightarrow> string) \<Rightarrow> 'e adapter option \<Rightarrow> DaemonOptions \<Rightarrow> nat
   \<Rightarrow> (store \<times> 'e, (DaemonEvent \<times> duration) list \<times> error option) op" where
  "RunDaemon hash adapter opts0 ticks =
     (let opts = applyDaemonDefaults opts0 in
      case adapter of
        None \<Rightarrow> throw (ErrorText ''agent adapter is required'')
      | Some execute \<Rightarrow>
          bindE (if do_RegisterAgents opts then onStore (registerAgents (do_Agents opts)) else ret ()) (\<lambda>_.
          daemonTicks hash execute (opts\<lparr>do_RegisterAgents := False\<rparr>) (do_WorkflowIDs opts) ticks 1))"

section \<open>The deterministic adapter\<close>

record FakeAdapter =
  fa_calls :: "(AgentSpec \<times> WorkSummary) list"
  fa_fail :: "string \<Rightarrow> error option"

definition NewFakeAdapter :: FakeAdapter where
  "NewFakeAdapter = \<lparr>fa_calls = [], fa_fail = (\<lambda>_. None)\<rparr>"

definition FailAgent :: "string \<Rightarrow> error option \<Rightarrow> FakeAdapter \<Rightarrow> FakeAdapter" where
  "FailAgent agentID err a = a\<lparr>fa_fail := (fa_fail a)(agentID := err)\<rparr>"

definition DefaultFakeAgents :: "AgentSpec list" where
  "DefaultFakeAgents =
     [\<lparr>as_ID = ''planner'', as_Capabilities = [''planning''], as_ProjectRefs = [''project://swarm/upstream''],
       as_TaskKinds = [TaskGeneric]\<rparr>,
      \<lparr>as_ID = ''engineer'', as_Capabilities = [''implementation''], as_ProjectRefs = [''project://swarm/downstream''],
       as_TaskKinds = [TaskGeneric]\<rparr>,
      \<lparr>as_ID = ''reviewer'', as_Capabilities = [''review''], as_ProjectRefs = [''project://swarm/review''],
       as_TaskKinds = [TaskGeneric, TaskReviewRequired]\<rparr>]"

definition fakeResult :: "WorkSummary \<Rightarrow> AdapterResult" where
  "fakeResult work = \<lparr>ad_Status = AdapterStatusCompleted, ad_Summary = ''fake deterministic result'',
     ad_ArtifactCount = (if ws_NeedsReview work \<or> ws_TaskKind work = TaskArtifactRequired
       \<or> ws_TaskKind work = TaskReviewRequired then 1 else 0),
     ad_ReviewDecision = ReviewDecisionApproved\<rparr>"

definition fakeExecute :: "FakeAdapter adapter" where
  "fakeExecute agent work w =
     (let a = snd (w_db w); a' = a\<lparr>fa_calls := fa_calls a @ [(agent, work)]\<rparr>; w' = w\<lparr>w_db := (fst (w_db w), a')\<rparr> in
      case fa_fail a (as_ID agent) of
        Some e \<Rightarrow> (Inl e, w')
      | None \<Rightarrow> (Inr (fakeResult work), w'))"

end
