(* ===== verification/Swarm_Contracts.thy ===== *)
theory Swarm_Contracts
  imports Swarm_Run
begin

text \<open>
  What a run of the swarm driver does, for any adapter that leaves the orchestrator's tables alone:
  its writes are service steps, it ends within its rounds, and its summary tells the truth about
  the store it leaves. Then what the failure limits count.
\<close>

section \<open>Operations on a part of the database\<close>

lemma withDb_simps [simp]:
  "w_db (withDb d w) = d" "w_faults (withDb d w) = w_faults w" "w_clock (withDb d w) = w_clock w"
  "w_tick (withDb d w) = w_tick w" "w_uuid (withDb d w) = w_uuid w" "w_ids (withDb d w) = w_ids w"
  by (simp_all add: withDb_def)

lemma withDb_withDb [simp]: "withDb d (withDb e w) = withDb d w"
  by (simp add: withDb_def)

lemma guarantees_onFirst [vcg]:
  fixes d :: "'a \<times> 'b"
  assumes "guarantees m (\<lambda>a s. Q a (s, snd d)) (\<lambda>s. E (s, snd d)) (fst d)"
  shows "guarantees (onFirst m) Q E d"
proof (rule guaranteesI)
  fix w :: "('a \<times> 'b) world" and a w'
  assume "w_db w = d" "onFirst m w = (Inr a, w')"
  then show "Q a (w_db w')"
    using guaranteesD [of m "\<lambda>a s. Q a (s, snd d)" "\<lambda>s. E (s, snd d)" "withDb (fst d) w"] assms
    by (auto simp: onFirst_def split: prod.splits)
next
  fix w :: "('a \<times> 'b) world" and e w'
  assume "w_db w = d" "onFirst m w = (Inl e, w')"
  then show "E (w_db w')"
    using guaranteesD [of m "\<lambda>a s. Q a (s, snd d)" "\<lambda>s. E (s, snd d)" "withDb (fst d) w"] assms
    by (auto simp: onFirst_def split: prod.splits)
qed

lemma onFirst_snd: "preserves (\<lambda>d. snd d = s) (onFirst m)"
  by (simp add: preserves_def onFirst_def split: prod.split)

lemma onSecond_fst: "preserves (\<lambda>d. fst d = s) (onSecond m)"
  by (simp add: preserves_def onSecond_def split: prod.split)

lemma guarantees_onSecond [vcg]:
  fixes d :: "'a \<times> 'b"
  assumes "guarantees m (\<lambda>a s. Q a (fst d, s)) (\<lambda>s. E (fst d, s)) (snd d)"
  shows "guarantees (onSecond m) Q E d"
proof (rule guaranteesI)
  fix w :: "('a \<times> 'b) world" and a w'
  assume "w_db w = d" "onSecond m w = (Inr a, w')"
  then show "Q a (w_db w')"
    using guaranteesD [of m "\<lambda>a s. Q a (fst d, s)" "\<lambda>s. E (fst d, s)" "withDb (snd d) w"] assms
    by (auto simp: onSecond_def split: prod.splits)
next
  fix w :: "('a \<times> 'b) world" and e w'
  assume "w_db w = d" "onSecond m w = (Inl e, w')"
  then show "E (w_db w')"
    using guaranteesD [of m "\<lambda>a s. Q a (fst d, s)" "\<lambda>s. E (fst d, s)" "withDb (snd d) w"] assms
    by (auto simp: onSecond_def split: prod.splits)
qed

section \<open>Only service steps\<close>

lemma steps_wrapE [steps]: "stepwise m \<Longrightarrow> stepwise (wrapE l m)"
  unfolding stepwise_def by (intro allI preserves_intros) auto

lemma steps_forE [steps]: "(\<And>x. stepwise (f x)) \<Longrightarrow> stepwise (forE xs f)"
  unfolding stepwise_def by (intro allI preserves_intros) auto

lemma steps_views [steps]:
  "stepwise (WorkflowStatusView i)" "stepwise (CoordinationEvidenceSummaryOp q)" "stepwise (ListAgents g)"
  "stepwise (NextWork wq)" "stepwise (BlockedWork wq)"
  unfolding stepwise_def by (intro allI preserves_intros)+

lemma steps_swarm [steps]:
  "stepwise (registerAgents agents)" "stepwise (ensureWorkflow hash opts)" "stepwise (finalizeSummary s st why)"
  "stepwise (hasLiveAgent agents)" "stepwise (progressWork item x)" "stepwise (evidenceOf i)"
  unfolding registerAgents_def ensureWorkflow_def finalizeSummary_def hasLiveAgent_def progressWork_def
    evidenceOf_def Let_def
  by (intro steps)+

lemma steps_terminal [steps]: "stepwise (terminalSummaryIfDone s)" "stepwise (concludeEvent event)"
  unfolding terminalSummaryIfDone_def concludeEvent_def by (intro steps)+

text \<open>The same for operations on the pair of databases.\<close>

definition driving :: "(store \<times> 'e, 'a) op \<Rightarrow> bool" where
  "driving m \<longleftrightarrow> (\<forall>s. preserves (\<lambda>d. platform_step\<^sup>*\<^sup>* s (fst d)) m)"

named_theorems drives \<open>operations of the driver that only do platform steps\<close>

lemma drivingD: "driving m \<Longrightarrow> m w = (r, w') \<Longrightarrow> platform_step\<^sup>*\<^sup>* (fst (w_db w)) (fst (w_db w'))"
  unfolding driving_def using preservesD [of "\<lambda>d. platform_step\<^sup>*\<^sup>* (fst (w_db w)) (fst d)" m w] by simp

lemma driving_onStore [drives]: "stepwise m \<Longrightarrow> driving (onStore m)"
  by (auto simp: driving_def preserves_def onFirst_def split: prod.split dest: stepwiseD intro: rtranclp_trans)

lemma driving_bindE [drives]: "driving m \<Longrightarrow> (\<And>a. driving (f a)) \<Longrightarrow> driving (bindE m f)"
  unfolding driving_def by (intro allI preserves_bindE) auto

lemma driving_basic [drives]: "driving (ret a)" "driving (throw e)"
  unfolding driving_def by (intro allI preserves_intros)+

lemma driving_tryE [drives]: "driving m \<Longrightarrow> driving (tryE m)"
  unfolding driving_def by (intro allI preserves_tryE) auto

lemma driving_cases [drives]:
  "(b \<Longrightarrow> driving m) \<Longrightarrow> (\<not> b \<Longrightarrow> driving n) \<Longrightarrow> driving (if b then m else n)"
  "(x = None \<Longrightarrow> driving m) \<Longrightarrow> (\<And>a. x = Some a \<Longrightarrow> driving (f a)) \<Longrightarrow> driving (case x of None \<Rightarrow> m | Some a \<Rightarrow> f a)"
  "(\<And>a. y = Inl a \<Longrightarrow> driving (k a)) \<Longrightarrow> (\<And>b. y = Inr b \<Longrightarrow> driving (g b)) \<Longrightarrow>
     driving (case y of Inl a \<Rightarrow> k a | Inr b \<Rightarrow> g b)"
  "(\<And>a b. p = (a, b) \<Longrightarrow> driving (q a b)) \<Longrightarrow> driving (case p of (a, b) \<Rightarrow> q a b)"
  by (simp_all split: option.split sum.split prod.split)

text \<open>The interface of the adapters: \<open>Execute\<close> does not touch the orchestrator's tables.\<close>

locale agent_adapter =
  fixes execute :: "'e adapter"
  assumes keeps_store: "preserves (\<lambda>d. fst d = s) (execute agent work)"
begin

lemma driving_execute: "driving (execute agent work)"
  unfolding driving_def preserves_def using preservesD [OF keeps_store] by metis

lemma driving_item: "driving (runItem execute opts st item)"
  unfolding runItem_def Let_def by (intro drives steps driving_execute)

lemma driving_items: "driving (runItems execute opts st items)"
  by (induction items arbitrary: st) (auto intro!: drives driving_item split: sum.split)

lemma driving_round: "driving (swarmRound execute opts n st)"
  unfolding swarmRound_def Let_def by (intro drives steps driving_items)

lemma driving_rounds: "driving (swarmRounds execute opts left n st)"
  by (induction left arbitrary: n st) (auto intro!: drives steps driving_round)

lemma driving_run: "driving (SwarmRun hash (Some execute) opts)"
  unfolding SwarmRun_def Let_def option.case by (intro drives steps driving_rounds)

lemma driving_targets: "driving (runTargets hash execute opts event ids)"
  by (induction ids arbitrary: event) (auto intro!: drives driving_run simp: Let_def)

lemma driving_available: "driving (availableItems execute opts st items)"
  by (induction items arbitrary: st)
    (auto intro!: drives steps driving_execute simp: availableItem_def)

lemma driving_tick: "driving (RunDaemonTick hash (Some execute) opts)"
  unfolding RunDaemonTick_def runDaemonWorkflowTargets_def runDaemonAvailableWork_def Let_def option.case
  by (intro drives steps driving_run driving_targets driving_available)

lemma driving_ticks: "driving (daemonTicks hash execute opts ids left n)"
  by (induction left arbitrary: ids n) (auto intro!: drives driving_tick simp: Let_def)

lemma driving_daemon: "driving (RunDaemon hash (Some execute) opts ticks)"
  unfolding RunDaemon_def Let_def option.case by (intro drives steps driving_ticks)

end

interpretation fake: agent_adapter fakeExecute
  by unfold_locales (simp add: preserves_def fakeExecute_def Let_def split: option.split)

section \<open>The summary tells the truth\<close>

definition summary_true :: "store \<Rightarrow> RunSummary \<Rightarrow> bool" where
  "summary_true d s \<longleftrightarrow> (sum_WorkflowID s \<noteq> [] \<longrightarrow>
     (\<exists>w. find_by wf_ID (sum_WorkflowID s) (st_workflows d) = Some w
        \<and> sum_HandoffIDs s = sort (map h_ID (handoffsOf d w))
        \<and> sum_CompletedHandoffCount s = completedRequiredHandoffCount (handoffsOf d w)
        \<and> (trimSpace (sum_WorkflowID s) = sum_WorkflowID s \<longrightarrow> sum_EvidenceSummaryReady s)))"

definition outcome_true :: "store \<Rightarrow> RunSummary \<Rightarrow> bool" where
  "outcome_true d s \<longleftrightarrow> (\<forall>w. find_by wf_ID (sum_WorkflowID s) (st_workflows d) = Some w \<longrightarrow>
     (sum_Status s = RunStatusCompleted \<longrightarrow> allRequiredCompleted (handoffsOf d w))
     \<and> (sum_Status s = RunStatusFailed \<longrightarrow> requiredFailedOrExpired (handoffsOf d w)))"

definition ended :: "store \<Rightarrow> nat \<Rightarrow> string \<Rightarrow> RunSummary \<Rightarrow> bool" where
  "ended d n i s \<longleftrightarrow> summary_true d s \<and> outcome_true d s \<and> sum_RoundCount s = n \<and> sum_WorkflowID s = i
     \<and> sum_Status s \<noteq> RunStatusUnset"

lemma guarantees_reading:
  assumes "\<And>P. preserves P m" and "E d" and "\<And>a. Q a d"
  shows "guarantees m Q E d"
proof (rule guaranteesI)
  fix w a w' assume "w_db w = d" "m w = (Inr a, w')"
  then show "Q a (w_db w')" using preservesD [OF assms(1), of "\<lambda>x. x = d" w] assms(3) by simp
next
  fix w e w' assume "w_db w = d" "m w = (Inl e, w')"
  then show "E (w_db w')" using preservesD [OF assms(1), of "\<lambda>x. x = d" w] assms(2) by simp
qed

lemma projected_completed: "projected_status hs = WorkflowCompleted \<Longrightarrow> allRequiredCompleted hs"
  by (auto simp: projected_status_def allRequiredCompleted_def required_of_def list_all_iff filter_empty_conv Let_def
      split: if_splits)

lemma projected_failed: "projected_status hs = WorkflowFailed \<Longrightarrow> requiredFailedOrExpired hs"
  by (auto simp: projected_status_def requiredFailedOrExpired_def required_of_def list_ex_iff Let_def split: if_splits)

lemma shown_status:
  "status_shown hs WorkflowCompleted \<Longrightarrow> allRequiredCompleted hs"
  "status_shown hs WorkflowFailed \<Longrightarrow> requiredFailedOrExpired hs"
  by (auto simp: status_shown_def intro: projected_completed projected_failed)

lemma selected_known:
  assumes "store_inv d" and "find_by wf_ID i (st_workflows d) = Some w" and "trimSpace i = i" and "i \<noteq> []"
  shows "selectedWorkflows d (trimSpace i) = [w]"
  using find_by_filter [OF _ assms(2)] assms by (simp add: selectedWorkflows_def store_inv_def inv_keys)

lemma evidence_listed:
  assumes "store_inv d" and "evidence_outcome d \<lparr>ceq_WorkflowID = i, ceq_IncludeAgents = b\<rparr> s"
    and "find_by wf_ID i (st_workflows d) = Some w" and "trimSpace i = i" and "i \<noteq> []"
  shows "evidenceContainsWorkflow s i"
proof -
  have "map cew_ID (ces_Workflows s) = [wf_ID w]"
    using assms(2) selected_known [OF assms(1,3-5)] by (simp add: evidence_outcome_def totals_ok_def Let_def)
  then show ?thesis
    using find_by_Some [OF assms(3)] by (auto simp: evidenceContainsWorkflow_def list_ex_iff map_eq_Cons_conv)
qed

lemma evidence_completed:
  assumes "store_inv d" and "evidence_outcome d \<lparr>ceq_WorkflowID = i, ceq_IncludeAgents = b\<rparr> s"
    and "find_by wf_ID i (st_workflows d) = Some w" and "e \<in> set (ces_Workflows s)" and "cew_ID e = i"
    and "cew_Status e = workflowStatusText WorkflowCompleted"
  shows "allRequiredCompleted (handoffsOf d w)"
proof -
  let ?ws = "selectedWorkflows d (trimSpace i)"
  have out: "map cew_ID (ces_Workflows s) = map wf_ID ?ws" "list_all2 (evidence_status_ok d) ?ws (ces_Workflows s)"
    using assms(2) by (simp_all add: evidence_outcome_def totals_ok_def Let_def)
  from assms(4) obtain n where n: "n < length (ces_Workflows s)" "ces_Workflows s ! n = e" by (auto simp: in_set_conv_nth)
  have len: "length ?ws = length (ces_Workflows s)" using out(2) by (simp add: list_all2_lengthD)
  let ?w = "?ws ! n"
  have known: "set ?ws \<subseteq> set (st_workflows d)" by (auto simp: selectedWorkflows_def)
  have mem: "?w \<in> set (st_workflows d)"
    using subsetD [OF known nth_mem [of n ?ws]] n(1) len by simp
  have "wf_ID ?w = i" using arg_cong [OF out(1), of "\<lambda>xs. xs ! n"] n len assms(5) by simp
  then have "find_by wf_ID i (st_workflows d) = Some ?w"
    using find_by_unique [of wf_ID "st_workflows d" ?w] mem assms(1) by (simp add: store_inv_def inv_keys)
  with assms(3) have w: "?w = w" by simp
  obtain st where "status_shown (handoffsOf d w) st" "cew_Status e = workflowStatusText st"
    using list_all2_nthD [OF out(2), of n] n len w by (auto simp: evidence_status_ok_def)
  with assms(6) have "status_shown (handoffsOf d w) WorkflowCompleted" by (cases st) auto
  then show ?thesis by (rule shown_status)
qed

lemma evidenceOf_contract:
  assumes "store_inv d"
  shows "guarantees (evidenceOf i) (\<lambda>s d'. d' = d \<and> evidence_outcome d \<lparr>ceq_WorkflowID = i, ceq_IncludeAgents = True\<rparr> s)
    (\<lambda>d'. d' = d) d"
  unfolding evidenceOf_def by (rule guarantees_wrapE, rule evidence_contract [OF assms])

lemma finalize_contract:
  assumes "store_inv d"
  shows "guarantees (finalizeSummary s status why) (\<lambda>t d'. d' = d \<and> summary_true d t \<and> sum_Status t = status
    \<and> sum_RoundCount t = sum_RoundCount s \<and> sum_WorkflowID t = sum_WorkflowID s) (\<lambda>d'. d' = d) d"
  unfolding finalizeSummary_def Let_def
  by (intro vcg guarantees_statusView [OF assms] guarantees_mono [OF evidenceOf_contract [OF assms]])
    (auto simp: summary_true_def handoffIDs_def intro: evidence_listed [OF assms] intro!: vcg)

text \<open>A run goes on only for a workflow that is open.\<close>

definition open_run :: "store \<Rightarrow> string \<Rightarrow> bool" where
  "open_run d i \<longleftrightarrow> (\<forall>w. find_by wf_ID i (st_workflows d) = Some w \<longrightarrow>
     \<not> allRequiredCompleted (handoffsOf d w) \<and> \<not> requiredFailedOrExpired (handoffsOf d w))"

lemma terminal_contract:
  assumes "store_inv d"
  shows "guarantees (terminalSummaryIfDone s) (\<lambda>r d'. d' = d \<and> (case r of
      None \<Rightarrow> open_run d (sum_WorkflowID s)
    | Some t \<Rightarrow> ended d (sum_RoundCount s) (sum_WorkflowID s) t \<and> sum_Status t \<in> {RunStatusCompleted, RunStatusFailed}))
    (\<lambda>d'. d' = d) d"
  unfolding terminalSummaryIfDone_def
  by (intro vcg guarantees_statusView [OF assms] guarantees_mono [OF finalize_contract [OF assms]]
      guarantees_mono [OF evidenceOf_contract [OF assms]])
    (auto simp: ended_def outcome_true_def open_run_def list_ex_iff
      intro: shown_status evidence_completed [OF assms] intro!: vcg)

lemma final_contract:
  assumes "store_inv (fst d)" and "status \<notin> {RunStatusUnset, RunStatusCompleted, RunStatusFailed}"
  shows "guarantees (onStore (finalizeSummary s status why))
    (\<lambda>t d'. d' = d \<and> ended (fst d) (sum_RoundCount s) (sum_WorkflowID s) t \<and> sum_Status t = status) (\<lambda>_. True) d"
  using assms(2)
  by (intro guarantees_onFirst guarantees_mono [OF finalize_contract [OF assms(1)]])
    (auto simp: ended_def outcome_true_def prod_eq_iff)

lemma driving_inv:
  assumes "driving m" and "store_inv (fst d)"
  shows "guarantees m (\<lambda>_ d'. store_inv (fst d')) (\<lambda>_. True) d"
  using drivingD [OF assms(1)] assms(2) platform.moves_inv by (intro guaranteesI) blast+

lemma after_step:
  assumes "stepwise m" and "store_inv (fst d)"
    and "\<And>a d'. store_inv (fst d') \<Longrightarrow> guarantees (k a) Q (\<lambda>_. True) d'"
  shows "guarantees (bindE (onStore m) k) Q (\<lambda>_. True) d"
  by (rule guarantees_bindE, rule guarantees_mono [OF driving_inv [OF driving_onStore [OF assms(1)] assms(2)]])
    (simp_all add: assms(3))

text \<open>What stays the same while a round works on its items.\<close>

definition same_run :: "RunSummary \<Rightarrow> RunSummary \<Rightarrow> bool" where
  "same_run s t \<longleftrightarrow> sum_WorkflowID t = sum_WorkflowID s \<and> sum_RoundCount t = sum_RoundCount s"

definition round_result :: "RunSummary \<Rightarrow> ('a \<Rightarrow> RunSummary) \<Rightarrow> RunSummary + 'a \<Rightarrow> store \<Rightarrow> bool" where
  "round_result s summary r d \<longleftrightarrow> store_inv d \<and> (case r of
     Inl t \<Rightarrow> ended d (sum_RoundCount s) (sum_WorkflowID s) t \<and> sum_Status t \<noteq> RunStatusTimedOut
   | Inr st \<Rightarrow> same_run s (summary st))"

lemma same_run_trans: "same_run s t \<Longrightarrow> round_result t f r d \<Longrightarrow> round_result s f r d"
  by (auto simp: same_run_def round_result_def split: sum.splits)

text \<open>What a run answers that starts after round \<open>m\<close> and may go on to round \<open>n\<close>.\<close>

definition run_result :: "nat \<Rightarrow> nat \<Rightarrow> string \<Rightarrow> RunSummary \<Rightarrow> store \<Rightarrow> bool" where
  "run_result m n i s d \<longleftrightarrow> ended d (sum_RoundCount s) i s \<and> m \<le> sum_RoundCount s \<and> sum_RoundCount s \<le> n
     \<and> (m < n \<longrightarrow> m < sum_RoundCount s) \<and> (sum_Status s = RunStatusTimedOut \<longrightarrow> sum_RoundCount s = n)"

context agent_adapter
begin

lemma item_contract:
  assumes "store_inv (fst d)"
  shows "guarantees (runItem execute opts st item) (\<lambda>r d'. round_result (wl_summary st) wl_summary r (fst d')) (\<lambda>_. True) d"
proof (cases "agentForWork (so_Agents opts) (wi_Handoff item)")
  case None
  then show ?thesis using assms by (simp add: runItem_def round_result_def same_run_def guarantees_ret)
next
  case (Some agent)
  let ?Q = "\<lambda>r d'. round_result (wl_summary st) wl_summary r (fst d')"
  have go: "guarantees (ret (Inr t)) ?Q (\<lambda>_. True) d1"
    if "store_inv (fst d1)" "same_run (wl_summary st) (wl_summary t)" for d1 :: "store \<times> 'a" and t
    using that by (simp add: round_result_def guarantees_ret)
  have failing: "guarantees (let (over, failures) = recordFailure opts (as_ID agent) (wl_failures st) in
       if over then bindE (onStore (finalizeSummary (wl_summary st) RunStatusAdapterFailed why)) (\<lambda>s. ret (Inl s))
       else ret (Inr (st\<lparr>wl_failures := failures\<rparr>))) ?Q (\<lambda>_. True) d1"
    if "store_inv (fst d1)" for d1 :: "store \<times> 'a" and why
    using that
    by (auto simp: round_result_def same_run_def split: prod.split
        intro!: guarantees_ret guarantees_bindE guarantees_mono [OF final_contract [OF that]])
  have working: "guarantees (let t = st\<lparr>wl_failures := f\<rparr> in
       if ad_Status result = AdapterStatusPending then ret (Inr t)
       else if ad_Status result = AdapterStatusFailed then
         bindE (onStore (wrapE l (progressError (ApplyProtocolAction (failRequest item)))))
           (\<lambda>_. ret (Inr (progressed (failedAction item) t)))
       else bindE (onStore (wrapE l' (progressWork item result)))
         (\<lambda>action. ret (Inr (case action of None \<Rightarrow> t | Some a \<Rightarrow> progressed a t)))) ?Q (\<lambda>_. True) d1"
    if "store_inv (fst d1)" for d1 :: "store \<times> 'a" and f result l l'
    unfolding Let_def
    by (intro guarantees_if after_step [OF _ that] steps go)
      (auto simp: same_run_def progressed_def that split: option.split)
  show ?thesis
    unfolding runItem_def Some option.case Let_def
    by (rule guarantees_bindE, rule guarantees_mono [OF driving_inv [OF driving_tryE [OF driving_execute] assms]])
      (simp split: sum.split add: failing [unfolded Let_def] working [unfolded Let_def])
qed

lemma items_contract:
  assumes "store_inv (fst d)"
  shows "guarantees (runItems execute opts st items) (\<lambda>r d'. round_result (wl_summary st) wl_summary r (fst d')) (\<lambda>_. True) d"
  using assms
proof (induction items arbitrary: st d)
  case Nil
  then show ?case by (simp add: round_result_def same_run_def guarantees_ret)
next
  case (Cons item items)
  have rest: "guarantees (case r of Inl s \<Rightarrow> ret (Inl s) | Inr st' \<Rightarrow> runItems execute opts st' items)
      (\<lambda>r d'. round_result (wl_summary st) wl_summary r (fst d')) (\<lambda>_. True) d1"
    if r: "round_result (wl_summary st) wl_summary r (fst d1)" for r and d1 :: "store \<times> 'e"
  proof (cases r)
    case (Inl s)
    with r show ?thesis by (simp add: guarantees_ret)
  next
    case (Inr st')
    with r have "store_inv (fst d1)" "same_run (wl_summary st) (wl_summary st')" by (simp_all add: round_result_def)
    with Inr show ?thesis by (auto intro: guarantees_mono [OF Cons.IH] same_run_trans)
  qed
  show ?case
    unfolding runItems.simps
    by (rule guarantees_bindE, rule guarantees_mono [OF item_contract [OF Cons.prems]]) (auto intro: rest)
qed

lemma round_contract:
  assumes "store_inv (fst d)"
  shows "guarantees (swarmRound execute opts n st)
    (\<lambda>r d'. round_result ((run_summary st)\<lparr>sum_RoundCount := n\<rparr>) run_summary r (fst d')) (\<lambda>_. True) d"
proof -
  let ?s = "(run_summary st)\<lparr>sum_RoundCount := n\<rparr>"
  let ?Q = "\<lambda>r d'. round_result ?s run_summary r (fst d')"
  let ?wl = "\<lparr>wl_summary = ?s, wl_failures = run_failures st, wl_progressed = False\<rparr>"
  have final: "guarantees (bindE (onStore (finalizeSummary s status why)) (\<lambda>s. ret (Inl s))) ?Q (\<lambda>_. True) d1"
    if "store_inv (fst d1)" "same_run ?s s" "status \<in> {RunStatusStalled, RunStatusNoLiveAgents}" for d1 :: "store \<times> 'e" and s status why
    using that
    by (intro guarantees_bindE guarantees_mono [OF final_contract [OF that(1)]])
      (auto simp: round_result_def same_run_def intro!: guarantees_ret)
  have last: "guarantees (case r of Inl s \<Rightarrow> ret (Inl s) | Inr wl \<Rightarrow>
       (let st' = nextRunState xs sg st wl in
        if so_StallRounds opts \<le> run_stalls st' then bindE (onStore (finalizeSummary (wl_summary wl) RunStatusStalled why)) (\<lambda>s. ret (Inl s))
        else ret (Inr st'))) ?Q (\<lambda>_. True) d1"
    if "round_result ?s wl_summary r (fst d1)" for r xs sg why and d1 :: "store \<times> 'e"
  proof (cases r)
    case (Inl s)
    with that show ?thesis by (simp add: round_result_def guarantees_ret)
  next
    case (Inr wl)
    with that have wl: "store_inv (fst d1)" "same_run ?s (wl_summary wl)" by (simp_all add: round_result_def)
    then have "round_result ?s run_summary (Inr (nextRunState xs sg st wl)) (fst d1)"
      by (simp add: round_result_def nextRunState_def Let_def)
    with wl Inr show ?thesis by (simp add: Let_def guarantees_ret final)
  qed
  have work: "guarantees (bindE (onStore (wrapE l (NextWork q))) (\<lambda>xs.
      bindE (onStore (wrapE l' (BlockedWork q'))) (\<lambda>blocked.
      bindE (runItems execute opts ?wl xs) (\<lambda>r.
      case r of Inl s \<Rightarrow> ret (Inl s) | Inr wl \<Rightarrow>
       (let st' = nextRunState xs (blockedWorkSignature blocked) st wl in
        if so_StallRounds opts \<le> run_stalls st' then bindE (onStore (finalizeSummary (wl_summary wl) RunStatusStalled why)) (\<lambda>s. ret (Inl s))
        else ret (Inr st'))))))  ?Q (\<lambda>_. True) d1"
    if "store_inv (fst d1)" for l q l' q' why and d1 :: "store \<times> 'e"
    by (intro after_step [OF _ that] steps after_step, assumption, rule guarantees_bindE,
        rule guarantees_mono [OF items_contract]) (auto intro: last)
  have live: "guarantees (bindE (onStore (hasLiveAgent agents)) (\<lambda>b. if \<not> b then m else m')) ?Q (\<lambda>_. True) d"
    if "\<And>d1. store_inv (fst d1) \<Longrightarrow> guarantees m ?Q (\<lambda>_. True) d1" "\<And>d1. store_inv (fst d1) \<Longrightarrow> guarantees m' ?Q (\<lambda>_. True) d1"
    for m m' and agents
    using that by (intro after_step [OF _ assms] steps) auto
  have start: "guarantees (case terminal of None \<Rightarrow> m | Some s \<Rightarrow> ret (Inl s)) ?Q (\<lambda>_. True) (d', snd d)"
    if "d' = fst d \<and> (case terminal of None \<Rightarrow> open_run (fst d) (sum_WorkflowID ?s)
      | Some t \<Rightarrow> ended (fst d) (sum_RoundCount ?s) (sum_WorkflowID ?s) t \<and> sum_Status t \<in> {RunStatusCompleted, RunStatusFailed})"
      and "guarantees m ?Q (\<lambda>_. True) d" for terminal d' m
  proof -
    from that(1) have "round_result ?s run_summary (Inl t) (fst d)" if "terminal = Some t" for t
      using assms that by (auto simp: round_result_def)
    with that show ?thesis by (cases terminal) (auto intro: guarantees_ret)
  qed
  show ?thesis
    unfolding swarmRound_def Let_def [of ?s] Let_def [of "sum_WorkflowID ?s"]
    by (rule guarantees_bindE, rule guarantees_onFirst, rule guarantees_mono [OF terminal_contract [OF assms]],
        erule start, rule live, rule final, assumption)
      (simp_all add: same_run_def work)
qed

lemma rounds_contract:
  assumes "store_inv (fst d)" and "sum_RoundCount (run_summary st) = m"
  shows "guarantees (swarmRounds execute opts left (Suc m) st) (\<lambda>s d'. store_inv (fst d')
      \<and> run_result m (m + left) (sum_WorkflowID (run_summary st)) s (fst d')) (\<lambda>_. True) d"
  using assms
proof (induction left arbitrary: m st d)
  case 0
  show ?case
    unfolding swarmRounds.simps using 0
    by (intro guarantees_mono [OF final_contract [OF 0(1)]]) (auto simp: run_result_def ended_def)
next
  case (Suc left)
  let ?s = "(run_summary st)\<lparr>sum_RoundCount := Suc m\<rparr>" and ?i = "sum_WorkflowID (run_summary st)"
  let ?Q = "\<lambda>s d'. store_inv (fst d') \<and> run_result m (m + Suc left) ?i s (fst d')"
  have "guarantees (case r of Inl s \<Rightarrow> ret s | Inr st' \<Rightarrow> swarmRounds execute opts left (Suc (Suc m)) st') ?Q (\<lambda>_. True) d1"
    if r: "round_result ?s run_summary r (fst d1)" for r and d1 :: "store \<times> 'e"
  proof (cases r)
    case (Inl s)
    with r show ?thesis by (auto simp: round_result_def run_result_def ended_def intro!: guarantees_ret)
  next
    case (Inr st')
    with r have st': "store_inv (fst d1)" "sum_RoundCount (run_summary st') = Suc m" "sum_WorkflowID (run_summary st') = ?i"
      by (simp_all add: round_result_def same_run_def)
    show ?thesis
      unfolding Inr sum.case
      by (rule guarantees_mono [OF Suc.IH [OF st'(1,2)]]) (auto simp: run_result_def st'(3))
  qed
  then show ?case
    unfolding swarmRounds.simps
    by (intro guarantees_bindE guarantees_mono [OF round_contract [OF Suc.prems(1)]]) simp_all
qed

lemma run_contract:
  assumes "store_inv (fst d)"
  shows "guarantees (SwarmRun hash (Some execute) opts) (\<lambda>s d'.
      run_result 0 (nat (so_MaxRounds (applyDefaults opts))) (sum_WorkflowID s) s (fst d')) (\<lambda>_. True) d"
proof -
  have start: "sum_RoundCount (run_summary (startState i ids agents)) = 0" "sum_WorkflowID (run_summary (startState i ids agents)) = i"
    for i ids agents by (simp_all add: startState_def)
  have rounds: "guarantees (swarmRounds execute opts' left 1 (startState i ids agents))
      (\<lambda>s d'. run_result 0 left (sum_WorkflowID s) s (fst d')) (\<lambda>_. True) d1"
    if "store_inv (fst d1)" for opts' left i ids agents and d1 :: "store \<times> 'e"
    unfolding One_nat_def
    by (rule guarantees_mono [OF rounds_contract [OF that start(1)]]) (auto simp: start run_result_def ended_def)
  show ?thesis
    unfolding SwarmRun_def Let_def option.case
    by (intro after_step [OF _ assms] after_step steps) (auto intro: rounds [simplified] split: prod.split)
qed

end

end
