(* ===== verification/Swarm_Store.thy ===== *)
theory Swarm_Store
  imports Tool_Reach
begin

text \<open>
  \<open>internal/swarmdriver/telegram_execution_store.go\<close>: the table of executions that agents were asked
  for over Telegram, with the result each reported. A row is the scanned struct; \<open>ul\<close> is the lower
  case of text beyond ASCII.
\<close>

section \<open>Rows\<close>

record ExecutionRequest =
  er_CorrelationID :: string
  er_WorkflowID :: string
  er_HandoffID :: string
  er_AgentID :: string
  er_Phase :: string
  er_IdempotencyKey :: string
  er_DeliveryStatus :: string
  er_LastError :: string
  er_ResultStatus :: string
  er_ResultSummary :: string
  er_ResultArtifactCount :: int
  er_ResultReviewDecision :: ReviewDecision
  er_CreatedAt :: time
  er_UpdatedAt :: time
  er_DeliveredAt :: "time option"
  er_ResultReceivedAt :: "time option"

record ExecutionResult =
  ex_CorrelationID :: string
  ex_Status :: string
  ex_Summary :: string
  ex_ArtifactCount :: int
  ex_ReviewDecision :: ReviewDecision

type_synonym executions = "ExecutionRequest list"
type_synonym 'a xop = "(executions, 'a) op"

definition executionPhaseExecute :: string where "executionPhaseExecute = ''execute''"
definition executionPhaseReview :: string where "executionPhaseReview = ''review''"
definition deliveryStatusNew :: string where "deliveryStatusNew = ''new''"
definition deliveryStatusSent :: string where "deliveryStatusSent = ''sent''"
definition deliveryStatusWaiting :: string where "deliveryStatusWaiting = ''waiting''"
definition deliveryStatusFailed :: string where "deliveryStatusFailed = ''failed''"

section \<open>Checks\<close>

definition validExecutionPhase :: "string \<Rightarrow> bool" where
  "validExecutionPhase phase \<longleftrightarrow> phase = executionPhaseExecute \<or> phase = executionPhaseReview"

definition validDeliveryStatus :: "string \<Rightarrow> bool" where
  "validDeliveryStatus status \<longleftrightarrow>
     status \<in> {deliveryStatusNew, deliveryStatusSent, deliveryStatusWaiting, deliveryStatusFailed}"

definition validExecutionResultStatus :: "string \<Rightarrow> bool" where
  "validExecutionResultStatus status \<longleftrightarrow> status = ''completed'' \<or> status = ''failed''"

definition validExecutionReviewDecision :: "ReviewDecision \<Rightarrow> bool" where
  "validExecutionReviewDecision decision \<longleftrightarrow>
     decision \<in> {ReviewUnset, ReviewDecisionApproved, ReviewDecisionRevisionRequired, ReviewDecisionRejected}"

definition forbiddenExecutionTexts :: "string list" where
  "forbiddenExecutionTexts = [''chat_id'', ''sender_job'', ''token'', ''session'', ''command'', ''args'', ''cwd'',
     ''stdout'', ''stderr'', ''private prompt'']"

definition sanitizeExecutionText :: "(string \<Rightarrow> string) \<Rightarrow> string \<Rightarrow> string" where
  "sanitizeExecutionText ul value =
     (let trimmed = trimSpace value in
      if trimmed = [] then []
      else if list_ex (containsText (toLower ul trimmed)) forbiddenExecutionTexts
      then ''redacted unsafe execution detail'' else trimmed)"

section \<open>Operations\<close>

text \<open>The row that \<open>INSERT\<close> writes: the columns not named take their defaults.\<close>

definition newExecution :: "ExecutionRequest \<Rightarrow> time \<Rightarrow> ExecutionRequest" where
  "newExecution request now =
     \<lparr>er_CorrelationID = er_CorrelationID request, er_WorkflowID = er_WorkflowID request,
      er_HandoffID = er_HandoffID request, er_AgentID = er_AgentID request, er_Phase = er_Phase request,
      er_IdempotencyKey = er_IdempotencyKey request, er_DeliveryStatus = deliveryStatusNew, er_LastError = [],
      er_ResultStatus = [], er_ResultSummary = [], er_ResultArtifactCount = 0, er_ResultReviewDecision = ReviewUnset,
      er_CreatedAt = now, er_UpdatedAt = now, er_DeliveredAt = None, er_ResultReceivedAt = None\<rparr>"

definition insertExecution :: "ExecutionRequest \<Rightarrow> executions \<Rightarrow> error + unit \<times> executions" where
  "insertExecution row d =
     (if find_by er_CorrelationID (er_CorrelationID row) d \<noteq> None then Inr ((), d)
      else if find_by er_IdempotencyKey (er_IdempotencyKey row) d \<noteq> None
      then Inl (ErrConstraint ''constraint failed: UNIQUE constraint failed: swarm_execution_requests.idempotency_key (2067)'')
      else Inr ((), d @ [row]))"

definition GetExecutionByCorrelationID :: "string \<Rightarrow> ExecutionRequest xop" where
  "GetExecutionByCorrelationID correlationID =
     statement (\<lambda>d. case find_by er_CorrelationID (trimSpace correlationID) d of
       None \<Rightarrow> Inl ErrNoRows | Some row \<Rightarrow> Inr (row, d))"

definition trimExecution :: "ExecutionRequest \<Rightarrow> ExecutionRequest" where
  "trimExecution request = request\<lparr>er_CorrelationID := trimSpace (er_CorrelationID request),
     er_WorkflowID := trimSpace (er_WorkflowID request), er_HandoffID := trimSpace (er_HandoffID request),
     er_AgentID := trimSpace (er_AgentID request), er_Phase := trimSpace (er_Phase request),
     er_IdempotencyKey := trimSpace (er_IdempotencyKey request)\<rparr>"

definition EnsureExecutionRequest :: "ExecutionRequest \<Rightarrow> ExecutionRequest xop" where
  "EnsureExecutionRequest request0 =
     (let request = trimExecution request0 in
      if er_CorrelationID request = [] \<or> er_WorkflowID request = [] \<or> er_HandoffID request = []
        \<or> er_AgentID request = [] \<or> er_IdempotencyKey request = []
      then throw (ErrorText ''execution request identity fields are required'')
      else if \<not> validExecutionPhase (er_Phase request) then throw (ErrorText ''invalid execution phase'')
      else
        bindE now_op (\<lambda>now.
        bindE (wrapE ''ensure execution request'' (statement (insertExecution (newExecution request now)))) (\<lambda>_.
        GetExecutionByCorrelationID (er_CorrelationID request))))"

definition MarkExecutionDelivered :: "(string \<Rightarrow> string) \<Rightarrow> string \<Rightarrow> string \<Rightarrow> string \<Rightarrow> unit xop" where
  "MarkExecutionDelivered ul rawID rawStatus lastError =
     (let correlationID = trimSpace rawID; deliveryStatus = trimSpace rawStatus in
      if correlationID = [] then throw (ErrorText ''correlation id is required'')
      else if \<not> validDeliveryStatus deliveryStatus \<or> deliveryStatus = deliveryStatusNew
      then throw (ErrorText ''invalid delivery status'')
      else
        bindE now_op (\<lambda>now.
        wrapE ''mark execution delivered'' (modify (update_where (\<lambda>r. er_CorrelationID r = correlationID)
          (\<lambda>r. r\<lparr>er_DeliveryStatus := deliveryStatus, er_LastError := sanitizeExecutionText ul lastError,
            er_UpdatedAt := now,
            er_DeliveredAt := (case er_DeliveredAt r of None \<Rightarrow> Some now | Some t \<Rightarrow> Some t)\<rparr>)))))"

definition recordedResult :: "(string \<Rightarrow> string) \<Rightarrow> ExecutionResult \<Rightarrow> time \<Rightarrow> ExecutionRequest \<Rightarrow> ExecutionRequest" where
  "recordedResult ul result now r = r\<lparr>er_ResultStatus := ex_Status result,
     er_ResultSummary := sanitizeExecutionText ul (ex_Summary result),
     er_ResultArtifactCount := ex_ArtifactCount result, er_ResultReviewDecision := ex_ReviewDecision result,
     er_UpdatedAt := now, er_ResultReceivedAt := Some now\<rparr>"

definition SaveExecutionResult :: "(string \<Rightarrow> string) \<Rightarrow> ExecutionResult \<Rightarrow> unit xop" where
  "SaveExecutionResult ul result =
     (let correlationID = trimSpace (ex_CorrelationID result) in
      if correlationID = [] then throw (ErrorText ''correlation id is required'')
      else if \<not> validExecutionResultStatus (ex_Status result) then throw (ErrorText ''invalid execution result status'')
      else if \<not> validExecutionReviewDecision (ex_ReviewDecision result) then throw (ErrorText ''invalid review decision'')
      else
        bindE now_op (\<lambda>now.
        bindE (wrapE ''save execution result'' (statement (\<lambda>d. Inr (count_where (\<lambda>r. er_CorrelationID r = correlationID) d,
            update_where (\<lambda>r. er_CorrelationID r = correlationID) (recordedResult ul result now) d)))) (\<lambda>rows.
        if rows = 0 then throw (ErrorText ''execution request not found'') else ret ())))"

definition GetExecutionByWorkPhase :: "string \<Rightarrow> string \<Rightarrow> string \<Rightarrow> string \<Rightarrow> ExecutionRequest option xop" where
  "GetExecutionByWorkPhase workflowID handoffID agentID phase =
     query (find (\<lambda>r. er_WorkflowID r = trimSpace workflowID \<and> er_HandoffID r = trimSpace handoffID
       \<and> er_AgentID r = trimSpace agentID \<and> er_Phase r = trimSpace phase))"

section \<open>The invariant of the table\<close>

definition execution_ok :: "ExecutionRequest \<Rightarrow> bool" where
  "execution_ok r \<longleftrightarrow> er_CorrelationID r \<noteq> [] \<and> er_IdempotencyKey r \<noteq> [] \<and> validExecutionPhase (er_Phase r)
     \<and> validDeliveryStatus (er_DeliveryStatus r)
     \<and> (er_ResultStatus r = [] \<or> validExecutionResultStatus (er_ResultStatus r))
     \<and> validExecutionReviewDecision (er_ResultReviewDecision r)
     \<and> ((er_ResultReceivedAt r = None) = (er_ResultStatus r = []))
     \<and> ((er_DeliveredAt r = None) = (er_DeliveryStatus r = deliveryStatusNew))"

definition executions_inv :: "executions \<Rightarrow> bool" where
  "executions_inv d \<longleftrightarrow> distinct (map er_CorrelationID d) \<and> distinct (map er_IdempotencyKey d) \<and> list_all execution_ok d"

lemmas delivery_status_defs = deliveryStatusNew_def deliveryStatusSent_def deliveryStatusWaiting_def
  deliveryStatusFailed_def

lemma insertExecution_inv:
  assumes "executions_inv d" and "insertExecution row d = Inr (u, d')" and "execution_ok row"
  shows "executions_inv d'"
  using assms by (auto simp: insertExecution_def executions_inv_def find_by_None split: if_splits)

lemma update_executions_inv:
  assumes "executions_inv d" and "\<And>r. execution_ok r \<Longrightarrow> c r \<Longrightarrow> execution_ok (f r)"
    and "\<And>r. er_CorrelationID (f r) = er_CorrelationID r" "\<And>r. er_IdempotencyKey (f r) = er_IdempotencyKey r"
  shows "executions_inv (update_where c f d)"
proof -
  have "map er_CorrelationID (update_where c f d) = map er_CorrelationID d"
    "map er_IdempotencyKey (update_where c f d) = map er_IdempotencyKey d"
    by (simp_all add: update_where_def assms(3,4))
  moreover have "list_all execution_ok (update_where c f d)"
    using assms(1,2) by (auto simp: executions_inv_def list_all_iff update_where_def)
  ultimately show ?thesis using assms(1) by (simp add: executions_inv_def)
qed

section \<open>What an operation does to the table\<close>

text \<open>Who was asked for what, under which keys: the columns no operation updates.\<close>

definition asked :: "ExecutionRequest \<Rightarrow> string \<times> string \<times> string \<times> string \<times> string \<times> string \<times> time" where
  "asked r = (er_CorrelationID r, er_WorkflowID r, er_HandoffID r, er_AgentID r, er_Phase r, er_IdempotencyKey r, er_CreatedAt r)"

definition kept :: "ExecutionRequest \<Rightarrow> ExecutionRequest \<Rightarrow> bool" where
  "kept r r' \<longleftrightarrow> asked r' = asked r \<and> (er_ResultStatus r \<noteq> [] \<longrightarrow> er_ResultStatus r' \<noteq> [])
     \<and> (er_DeliveredAt r \<noteq> None \<longrightarrow> er_DeliveredAt r' = er_DeliveredAt r)"

definition executions_grow :: "executions \<Rightarrow> executions \<Rightarrow> bool" where
  "executions_grow d d' \<longleftrightarrow> length d \<le> length d' \<and> (\<forall>i < length d. kept (d ! i) (d' ! i))"

lemma kept_refl [simp]: "kept r r"
  by (simp add: kept_def)

lemma kept_trans: "kept r s \<Longrightarrow> kept s t \<Longrightarrow> kept r t"
  unfolding kept_def by metis

lemma executions_grow_refl: "executions_grow d d"
  by (simp add: executions_grow_def)

lemma executions_grow_trans: "executions_grow d e \<Longrightarrow> executions_grow e f \<Longrightarrow> executions_grow d f"
  unfolding executions_grow_def by (meson kept_trans less_le_trans order_trans)

lemma executions_grow_append: "executions_grow d (d @ xs)"
  by (simp add: executions_grow_def nth_append)

lemma executions_grow_update: "(\<And>r. kept r (f r)) \<Longrightarrow> executions_grow d (update_where c f d)"
  by (simp add: executions_grow_def update_where_def)

inductive execution_step :: "executions \<Rightarrow> executions \<Rightarrow> bool" where
  ensure: "EnsureExecutionRequest request w = (r, w') \<Longrightarrow> execution_step (w_db w) (w_db w')"
| delivered: "MarkExecutionDelivered ul i s e w = (r, w') \<Longrightarrow> execution_step (w_db w) (w_db w')"
| result: "SaveExecutionResult ul x w = (r, w') \<Longrightarrow> execution_step (w_db w) (w_db w')"

text \<open>What \<open>EnsureExecutionRequest\<close> may leave: the table as it was, or with one new row at its end.\<close>

definition ensured :: "ExecutionRequest \<Rightarrow> executions \<Rightarrow> executions \<Rightarrow> bool" where
  "ensured request d d' \<longleftrightarrow> d' = d \<or> (\<exists>now. d' = d @ [newExecution (trimExecution request) now]
     \<and> find_by er_CorrelationID (trimSpace (er_CorrelationID request)) d = None
     \<and> find_by er_IdempotencyKey (trimSpace (er_IdempotencyKey request)) d = None
     \<and> execution_ok (newExecution (trimExecution request) now))"

lemma trimExecution_keys:
  "er_CorrelationID (trimExecution q) = trimSpace (er_CorrelationID q)"
  "er_IdempotencyKey (trimExecution q) = trimSpace (er_IdempotencyKey q)"
  "er_Phase (trimExecution q) = trimSpace (er_Phase q)"
  by (simp_all add: trimExecution_def)

lemma insertExecution_ensured:
  assumes "insertExecution (newExecution (trimExecution q) now) d = Inr (u, d')"
    and "trimSpace (er_CorrelationID q) \<noteq> []" "trimSpace (er_IdempotencyKey q) \<noteq> []"
      "validExecutionPhase (trimSpace (er_Phase q))"
  shows "ensured q d d'"
  using assms
  by (auto simp: insertExecution_def ensured_def newExecution_def trimExecution_keys execution_ok_def
      validDeliveryStatus_def validExecutionReviewDecision_def split: if_splits)

lemma ensure_contract:
  "guarantees (EnsureExecutionRequest q)
     (\<lambda>r d'. ensured q d d' \<and> find_by er_CorrelationID (trimSpace (er_CorrelationID q)) d' = Some r)
     (ensured q d) d"
  unfolding EnsureExecutionRequest_def Let_def GetExecutionByCorrelationID_def
  by (intro vcg) (auto simp: trimExecution_keys trimSpace_idem ensured_def [of q d d] intro: insertExecution_ensured split: option.splits)

text \<open>What the two updates may leave: the table as it was, or with the row under the key updated.\<close>

definition updated_execution :: "string \<Rightarrow> (ExecutionRequest \<Rightarrow> bool) \<Rightarrow> executions \<Rightarrow> executions \<Rightarrow> bool" where
  "updated_execution i P d d' \<longleftrightarrow> d' = d \<or> (\<exists>f. d' = update_where (\<lambda>r. er_CorrelationID r = i) f d
     \<and> (\<forall>r. kept r (f r) \<and> P (f r) \<and> (execution_ok r \<longrightarrow> execution_ok (f r))))"

lemma mark_contract:
  "guarantees (MarkExecutionDelivered ul i s e)
     (\<lambda>_. updated_execution (trimSpace i) (\<lambda>r. er_DeliveryStatus r = trimSpace s) d)
     (\<lambda>d'. d' = d) d"
proof -
  have "updated_execution (trimSpace i) (\<lambda>r. er_DeliveryStatus r = trimSpace s) d
      (update_where (\<lambda>r. er_CorrelationID r = trimSpace i)
        (\<lambda>r. r\<lparr>er_DeliveryStatus := trimSpace s, er_LastError := sanitizeExecutionText ul e, er_UpdatedAt := now,
           er_DeliveredAt := (case er_DeliveredAt r of None \<Rightarrow> Some now | Some t \<Rightarrow> Some t)\<rparr>) d)"
    if "validDeliveryStatus (trimSpace s)" "trimSpace s \<noteq> deliveryStatusNew" for now
    unfolding updated_execution_def using that
    by (intro disjI2 exI conjI allI refl) (auto simp: kept_def asked_def execution_ok_def split: option.splits)
  then show ?thesis
    unfolding MarkExecutionDelivered_def Let_def by (intro vcg) auto
qed

lemma save_contract:
  "guarantees (SaveExecutionResult ul x)
     (\<lambda>_ d'. updated_execution (trimSpace (ex_CorrelationID x)) (\<lambda>r. er_ResultStatus r = ex_Status x) d d'
        \<and> find_by er_CorrelationID (trimSpace (ex_CorrelationID x)) d \<noteq> None)
     (\<lambda>d'. d' = d) d"
proof -
  let ?i = "trimSpace (ex_CorrelationID x)"
  have hit: "updated_execution ?i (\<lambda>r. er_ResultStatus r = ex_Status x) d
      (update_where (\<lambda>r. er_CorrelationID r = ?i) (recordedResult ul x now) d)"
    if "validExecutionResultStatus (ex_Status x)" "validExecutionReviewDecision (ex_ReviewDecision x)" for now
    unfolding updated_execution_def using that
    by (intro disjI2 exI conjI allI refl)
      (auto simp: kept_def asked_def execution_ok_def recordedResult_def validExecutionResultStatus_def)
  have miss: "update_where (\<lambda>r. er_CorrelationID r = ?i) f d = d"
    if "count_where (\<lambda>r. er_CorrelationID r = ?i) d = 0" for f
    using that by (auto simp: count_where_def filter_empty_conv intro!: update_where_none)
  have found: "\<exists>r. find_by er_CorrelationID ?i d = Some r" if "0 < count_where (\<lambda>r. er_CorrelationID r = ?i) d"
    using that find_by_None [of er_CorrelationID ?i d] by (auto simp: count_where_def filter_empty_conv image_iff)
  show ?thesis
    unfolding SaveExecutionResult_def Let_def by (intro vcg) (auto intro: hit found dest: miss)
qed

lemma updated_inv: "updated_execution i P d d' \<Longrightarrow> executions_inv d \<Longrightarrow> executions_inv d'"
  unfolding updated_execution_def
  by (auto intro!: update_executions_inv simp: kept_def asked_def)

lemma updated_grow: "updated_execution i P d d' \<Longrightarrow> executions_grow d d'"
  unfolding updated_execution_def by (auto intro: executions_grow_refl executions_grow_update)

lemma ensured_inv: "ensured q d d' \<Longrightarrow> executions_inv d \<Longrightarrow> executions_inv d'"
  by (auto simp: ensured_def executions_inv_def find_by_None newExecution_def trimExecution_keys)

lemma ensured_grow: "ensured q d d' \<Longrightarrow> executions_grow d d'"
  by (auto simp: ensured_def intro: executions_grow_refl executions_grow_append)

lemma execution_step_cases:
  assumes "execution_step d d'"
  obtains (same) "d' = d" | (asked) q where "ensured q d d'" | (updated) i P where "updated_execution i P d d'"
  using assms
proof cases
  case (ensure q w r w')
  then have "ensured q d d'" by (cases r) (auto dest: guaranteesD [OF ensure_contract])
  then show thesis by (rule asked)
next
  case (delivered ul i s e w r w')
  then show thesis
    by (cases r) (auto dest: guaranteesD [OF mark_contract] intro: same updated)
next
  case (result ul x w r w')
  then show thesis
    by (cases r) (auto dest: guaranteesD [OF save_contract] intro: same updated)
qed

interpretation execution_table: moving_system execution_step executions_inv executions_grow
  by unfold_locales
    (auto elim!: execution_step_cases intro: ensured_inv updated_inv ensured_grow updated_grow
      executions_grow_refl executions_grow_trans)

text \<open>Who was asked for what, as a ledger keyed by the correlation identifier.\<close>

definition asked_under :: "executions \<Rightarrow> string \<Rightarrow> (string \<times> string \<times> string \<times> string \<times> string \<times> string \<times> time) option" where
  "asked_under d i = map_option asked (find_by er_CorrelationID i d)"

lemma find_by_grow:
  assumes "executions_grow d d'" and "executions_inv d'" and "find_by er_CorrelationID i d = Some r"
  obtains r' where "find_by er_CorrelationID i d' = Some r'" and "kept r r'"
proof -
  from find_by_Some [OF assms(3)] obtain n where n: "n < length d" "d ! n = r" "er_CorrelationID r = i"
    by (auto simp: in_set_conv_nth)
  with assms(1) have r': "kept r (d' ! n)" "n < length d'" by (auto simp: executions_grow_def)
  then have "er_CorrelationID (d' ! n) = i" using n(3) by (simp add: kept_def asked_def)
  moreover have "distinct (map er_CorrelationID d')" using assms(2) by (simp add: executions_inv_def)
  ultimately have "find_by er_CorrelationID i d' = Some (d' ! n)"
    using find_by_unique [of er_CorrelationID d' "d' ! n"] r'(2) by simp
  then show thesis using that r'(1) by blast
qed

lemma asked_stays:
  assumes "execution_step\<^sup>*\<^sup>* d d'" and "executions_inv d" and "asked_under d i = Some a"
  shows "asked_under d' i = Some a"
proof -
  from assms(3) obtain r where r: "find_by er_CorrelationID i d = Some r" "a = asked r" by (auto simp: asked_under_def)
  show ?thesis
    using find_by_grow [OF execution_table.moves_grows [OF assms(1)] execution_table.moves_inv [OF assms(1,2)] r(1)] r(2)
    by (metis asked_under_def kept_def option.map(2))
qed

end
