(* ===== verification/Sender_Store.thy ===== *)
theory Sender_Store
  imports Go_Time
begin

text \<open>
  \<open>store.go\<close> and \<open>runtime_state.go\<close> of the sender: the SQLite queue of Telegram jobs, one
  operation per method, and the in-memory state of the worker. A row keeps nullable columns
  as options; \<open>scanJob\<close> reads it as the struct. Times are stored as text, compared as text.
  Case folding of non-ASCII text is the parameter \<open>ul\<close>.
\<close>

section \<open>Statuses and errors\<close>

abbreviation StatusPending :: string where "StatusPending \<equiv> ''pending''"
abbreviation StatusSending :: string where "StatusSending \<equiv> ''sending''"
abbreviation StatusSent :: string where "StatusSent \<equiv> ''sent''"
abbreviation StatusRetry :: string where "StatusRetry \<equiv> ''retry''"
abbreviation StatusFailed :: string where "StatusFailed \<equiv> ''failed''"

definition ErrJobNotFound :: error where
  "ErrJobNotFound = ErrSentinel ''job not found''"

definition ErrInvalidTransition :: error where
  "ErrInvalidTransition = ErrSentinel ''invalid job state transition''"

definition ErrStateConflict :: error where
  "ErrStateConflict = ErrSentinel ''job state conflict''"

section \<open>Data\<close>

record CreateJob =
  cj_BotName :: string
  cj_ChatID :: int
  cj_Text :: string
  cj_IdempotencyKey :: string
  cj_MaxAttempts :: int
  cj_ReplyToMessageID :: "int option"
  cj_DisableNotification :: bool

record Job =
  job_ID :: int
  job_BotName :: string
  job_ChatID :: int
  job_Text :: string
  job_IdempotencyKey :: string
  job_Status :: string
  job_AttemptCount :: int
  job_MaxAttempts :: int
  job_NextRetryAt :: time
  job_LeaseExpiresAt :: time
  job_LastError :: string
  job_CreatedAt :: time
  job_UpdatedAt :: time
  job_SentAt :: "time option"
  job_ReplyToMessageID :: "int option"
  job_DisableNotification :: bool

record JobListFilter =
  jf_Status :: string
  jf_Limit :: int

record JobStats =
  js_PendingCount :: nat
  js_RetryCount :: nat
  js_SendingCount :: nat
  js_FailedCount :: nat
  js_SentCount :: nat
  js_OldestPendingAgeSeconds :: "int option"

text \<open>The columns of \<open>jobs\<close>.\<close>

record job_row =
  row_id :: int
  row_bot :: string
  row_chat :: int
  row_text :: string
  row_key :: "string option"
  row_status :: string
  row_attempts :: int
  row_max :: int
  row_next_retry :: "time option"
  row_lease :: "time option"
  row_error :: string
  row_created :: time
  row_updated :: time
  row_sent :: "time option"
  row_reply :: "int option"
  row_silent :: bool

record RuntimeState =
  rs_workerRunning :: bool
  rs_startedAt :: time
  rs_lastLoopAt :: time
  rs_lastJobClaimAt :: time
  rs_lastSuccessAt :: time
  rs_lastFailureAt :: time

text \<open>The process: the table with its \<open>AUTOINCREMENT\<close> sequence, and the runtime state if there is one.\<close>

record sender =
  sn_jobs :: "job_row list"
  sn_seq :: int
  sn_runtime :: "RuntimeState option"

type_synonym 'a nop = "(sender, 'a) op"

definition nullableString :: "string \<Rightarrow> string option" where
  "nullableString s = (if s = [] then None else Some s)"

definition scanJob :: "job_row \<Rightarrow> Job" where
  "scanJob r = \<lparr>job_ID = row_id r, job_BotName = row_bot r, job_ChatID = row_chat r, job_Text = row_text r,
     job_IdempotencyKey = case_option [] id (row_key r), job_Status = row_status r,
     job_AttemptCount = row_attempts r, job_MaxAttempts = row_max r,
     job_NextRetryAt = case_option 0 id (row_next_retry r),
     job_LeaseExpiresAt = case_option 0 id (row_lease r), job_LastError = row_error r,
     job_CreatedAt = row_created r, job_UpdatedAt = row_updated r, job_SentAt = row_sent r,
     job_ReplyToMessageID = row_reply r, job_DisableNotification = row_silent r\<rparr>"

section \<open>Enqueueing and reading\<close>

definition isIdempotencyConstraintError :: "(string \<Rightarrow> string) \<Rightarrow> error \<Rightarrow> bool" where
  "isIdempotencyConstraintError ul err =
     (let message = toLower ul (error_message err) in
      containsText message ''unique constraint failed: jobs.idempotency_key''
      \<or> containsText message ''constraint failed'' \<and> containsText message ''jobs.idempotency_key'')"

definition new_row :: "CreateJob \<Rightarrow> time \<Rightarrow> int \<Rightarrow> job_row" where
  "new_row j now i = \<lparr>row_id = i, row_bot = cj_BotName j, row_chat = cj_ChatID j, row_text = cj_Text j,
     row_key = nullableString (cj_IdempotencyKey j), row_status = StatusPending, row_attempts = 0,
     row_max = cj_MaxAttempts j, row_next_retry = None, row_lease = None, row_error = [],
     row_created = now, row_updated = now, row_sent = None, row_reply = cj_ReplyToMessageID j,
     row_silent = cj_DisableNotification j\<rparr>"

definition insertJob :: "CreateJob \<Rightarrow> time \<Rightarrow> int nop" where
  "insertJob j now = statement (\<lambda>d.
     if cj_IdempotencyKey j \<noteq> [] \<and> Some (cj_IdempotencyKey j) \<in> row_key ` set (sn_jobs d)
     then Inl (ErrConstraint ''constraint failed: UNIQUE constraint failed: jobs.idempotency_key (2067)'')
     else let i = sn_seq d + 1 in
       Inr (i, d\<lparr>sn_jobs := sn_jobs d @ [new_row j now i], sn_seq := i\<rparr>))"

definition rowE :: "(sender \<Rightarrow> 'r option) \<Rightarrow> 'r nop" where
  "rowE row = statement (\<lambda>d. case row d of None \<Rightarrow> Inl ErrNoRows | Some r \<Rightarrow> Inr (r, d))"

definition GetJob :: "int \<Rightarrow> Job nop" where
  "GetJob i = bindE (rowE (\<lambda>d. find_by row_id i (sn_jobs d))) (\<lambda>r. ret (scanJob r))"

text \<open>\<open>sql.ErrNoRows\<close> is the answer nil.\<close>

definition noRowsE :: "'a nop \<Rightarrow> 'a option nop" where
  "noRowsE m = handleE (bindE m (\<lambda>x. ret (Some x))) (\<lambda>e. if error_is e ErrNoRows then ret None else throw e)"

definition GetByIdempotencyKey :: "string \<Rightarrow> Job option nop" where
  "GetByIdempotencyKey key =
     (if key = [] then ret None
      else noRowsE (bindE (rowE (\<lambda>d. find_by row_key (Some key) (sn_jobs d))) (\<lambda>r. ret (scanJob r))))"

definition Enqueue :: "(string \<Rightarrow> string) \<Rightarrow> CreateJob \<Rightarrow> Job nop" where
  "Enqueue ul j =
     bindE now_op (\<lambda>now.
     bindE (handleE (bindE (insertJob j now) (\<lambda>i. ret (Inr i)))
       (\<lambda>err.
         if cj_IdempotencyKey j \<noteq> [] \<and> isIdempotencyConstraintError ul err then
           bindE (wrapE ''lookup existing job after idempotency conflict'' (GetByIdempotencyKey (cj_IdempotencyKey j)))
             (\<lambda>existing. case existing of
                Some job \<Rightarrow> ret (Inl job)
              | None \<Rightarrow> throw (ErrorWrap ''insert job'' err))
         else throw (ErrorWrap ''insert job'' err)))
     (\<lambda>inserted. case inserted of
        Inl job \<Rightarrow> ret job
      | Inr i \<Rightarrow> bindE (wrapE ''get inserted job id'' (query (\<lambda>_. ()))) (\<lambda>_. GetJob i)))"

section \<open>Claiming and settling\<close>

definition claimable :: "time \<Rightarrow> job_row \<Rightarrow> bool" where
  "claimable now r \<longleftrightarrow> row_status r = StatusPending
     \<or> row_status r = StatusRetry \<and> (\<exists>t. row_next_retry r = Some t \<and> formatTime t \<le> formatTime now)"

lemma claimable_code [code]:
  "claimable now r \<longleftrightarrow> row_status r = StatusPending
     \<or> row_status r = StatusRetry \<and> (case row_next_retry r of None \<Rightarrow> False | Some t \<Rightarrow> formatTime t \<le> formatTime now)"
  by (simp add: claimable_def split: option.split)

text \<open>The sub-select: \<open>ORDER BY id LIMIT 1\<close>.\<close>

definition first_claimable :: "time \<Rightarrow> job_row list \<Rightarrow> job_row option" where
  "first_claimable now rows = find (claimable now) (sort_key row_id rows)"

definition claimed :: "time \<Rightarrow> duration \<Rightarrow> job_row \<Rightarrow> job_row" where
  "claimed now lease r = r\<lparr>row_status := StatusSending, row_updated := now, row_lease := Some (now + lease)\<rparr>"

definition update_job :: "(job_row \<Rightarrow> bool) \<Rightarrow> (job_row \<Rightarrow> job_row) \<Rightarrow> sender \<Rightarrow> sender" where
  "update_job hit f d = d\<lparr>sn_jobs := update_where hit f (sn_jobs d)\<rparr>"

definition ClaimNextReady :: "time \<Rightarrow> duration \<Rightarrow> Job option nop" where
  "ClaimNextReady now lease =
     noRowsE (statement (\<lambda>d. case first_claimable now (sn_jobs d) of
        None \<Rightarrow> Inl ErrNoRows
      | Some r \<Rightarrow> Inr (scanJob (claimed now lease r),
                       update_job (\<lambda>x. row_id x = row_id r) (claimed now lease) d)))"

definition classifyTransitionConflict :: "int \<Rightarrow> string \<Rightarrow> unit nop" where
  "classifyTransitionConflict i expected =
     bindE (handleE (rowE (\<lambda>d. map_option row_status (find_by row_id i (sn_jobs d))))
       (\<lambda>e. if error_is e ErrNoRows then throw ErrJobNotFound
             else throw (ErrorWrap ''query current job state'' e)))
     (\<lambda>status. if status \<noteq> expected then
         (if status \<in> {StatusRetry, StatusSent, StatusFailed} then throw ErrStateConflict
          else throw ErrInvalidTransition)
       else throw ErrStateConflict)"

definition ensureTransitionSucceeded :: "nat \<Rightarrow> int \<Rightarrow> string \<Rightarrow> unit nop" where
  "ensureTransitionSucceeded rows i expected =
     bindE (wrapE ''read rows affected'' (query (\<lambda>_. ()))) (\<lambda>_.
     if rows > 0 then ret () else classifyTransitionConflict i expected)"

text \<open>One settlement: \<open>UPDATE \<dots> WHERE id = ? AND status = 'sending'\<close> and its check.\<close>

definition settle :: "string \<Rightarrow> int \<Rightarrow> (job_row \<Rightarrow> job_row) \<Rightarrow> unit nop" where
  "settle label i f =
     (let hit = (\<lambda>r. row_id r = i \<and> row_status r = StatusSending) in
      bindE (wrapE label (statement (\<lambda>d. Inr (count_where hit (sn_jobs d), update_job hit f d)))) (\<lambda>n.
      wrapE label (ensureTransitionSucceeded n i StatusSending)))"

definition MarkRetry :: "int \<Rightarrow> int \<Rightarrow> time \<Rightarrow> string \<Rightarrow> time \<Rightarrow> unit nop" where
  "MarkRetry i attempts next_retry err now = settle ''mark job as retry'' i
     (\<lambda>r. r\<lparr>row_status := StatusRetry, row_attempts := attempts, row_next_retry := Some next_retry,
            row_error := err, row_updated := now, row_sent := None, row_lease := None\<rparr>)"

definition MarkSent :: "int \<Rightarrow> int \<Rightarrow> time \<Rightarrow> unit nop" where
  "MarkSent i attempts sentAt = settle ''mark job as sent'' i
     (\<lambda>r. r\<lparr>row_status := StatusSent, row_attempts := attempts, row_next_retry := None,
            row_error := [], row_updated := sentAt, row_sent := Some sentAt, row_lease := None\<rparr>)"

definition MarkFailed :: "int \<Rightarrow> int \<Rightarrow> string \<Rightarrow> time \<Rightarrow> unit nop" where
  "MarkFailed i attempts err now = settle ''mark job as failed'' i
     (\<lambda>r. r\<lparr>row_status := StatusFailed, row_attempts := attempts, row_next_retry := None,
            row_error := err, row_updated := now, row_lease := None\<rparr>)"

definition lease_expired :: "time \<Rightarrow> duration \<Rightarrow> job_row \<Rightarrow> bool" where
  "lease_expired now legacy r \<longleftrightarrow> row_status r = StatusSending
     \<and> (case row_lease r of
           Some t \<Rightarrow> formatTime t \<le> formatTime now
         | None \<Rightarrow> formatTime (row_updated r) \<le> formatTime (now - legacy))"

definition recovered :: "time \<Rightarrow> job_row \<Rightarrow> job_row" where
  "recovered now r = r\<lparr>row_status := StatusRetry, row_next_retry := Some now, row_sent := None,
     row_error := ''recovered expired sending lease; retrying delivery'', row_updated := now, row_lease := None\<rparr>"

definition RecoverExpiredSendingJobs :: "time \<Rightarrow> duration \<Rightarrow> unit nop" where
  "RecoverExpiredSendingJobs now legacy = wrapE ''recover expired sending jobs''
     (modify (update_job (lease_expired now legacy) (recovered now)))"

section \<open>Listing and counting\<close>

definition list_order :: "string \<Rightarrow> job_row list \<Rightarrow> job_row list" where
  "list_order status rows =
     (if status = StatusPending then sort_key (\<lambda>r. (formatTime (row_created r), row_id r)) rows
      else rev (sort_key (\<lambda>r. (formatTime (row_updated r), row_id r)) rows))"

definition ListJobs :: "JobListFilter \<Rightarrow> Job list nop" where
  "ListJobs f =
     bindE (wrapE ''list jobs'' (query (\<lambda>d. let rows = list_order (jf_Status f)
         (filter (\<lambda>r. row_status r = jf_Status f) (sn_jobs d)) in
       if jf_Limit f < 0 then rows else take (nat (jf_Limit f)) rows))) (\<lambda>rows.
     bindE (wrapE ''iterate jobs'' (query (\<lambda>_. ()))) (\<lambda>_. ret (map scanJob rows)))"

definition count_status :: "string \<Rightarrow> sender \<Rightarrow> nat" where
  "count_status s d = count_where (\<lambda>r. row_status r = s) (sn_jobs d)"

definition oldest_pending :: "sender \<Rightarrow> time_text option" where
  "oldest_pending d =
     (case filter (\<lambda>r. row_status r = StatusPending) (sn_jobs d) of
        [] \<Rightarrow> None
      | rs \<Rightarrow> Some (Min (set (map (\<lambda>r. formatTime (row_created r)) rs))))"

text \<open>Whole seconds of a duration: \<open>int64(d.Seconds())\<close>, up to the rounding of \<open>float64\<close>.\<close>

definition wholeSeconds :: "duration \<Rightarrow> int" where
  "wholeSeconds d = (if d < 0 then - (- d div second) else d div second)"

definition GetStats :: "time \<Rightarrow> JobStats nop" where
  "GetStats now =
     bindE (wrapE ''query job stats'' (query (\<lambda>d. \<lparr>js_PendingCount = count_status StatusPending d,
       js_RetryCount = count_status StatusRetry d, js_SendingCount = count_status StatusSending d,
       js_FailedCount = count_status StatusFailed d, js_SentCount = count_status StatusSent d,
       js_OldestPendingAgeSeconds = None\<rparr>))) (\<lambda>stats.
     bindE (wrapE ''query oldest pending job'' (query oldest_pending)) (\<lambda>oldest.
     case oldest of
       None \<Rightarrow> ret stats
     | Some text \<Rightarrow>
         (case parseTime text of
            None \<Rightarrow> throw (ErrorText ''parse oldest pending created_at'')
          | Some createdAt \<Rightarrow>
              let age = wholeSeconds (timeSub now createdAt) in
              ret (stats\<lparr>js_OldestPendingAgeSeconds := Some (if age < 0 then 0 else age)\<rparr>))))"

section \<open>The runtime state\<close>

text \<open>A write to memory: it cannot fail, and does nothing without a state (the nil receiver).\<close>

definition touch :: "(RuntimeState \<Rightarrow> RuntimeState) \<Rightarrow> unit nop" where
  "touch f w = (Inr (), w\<lparr>w_db := (w_db w)\<lparr>sn_runtime := map_option f (sn_runtime (w_db w))\<rparr>\<rparr>)"

definition NewRuntimeState :: RuntimeState where
  "NewRuntimeState = \<lparr>rs_workerRunning = False, rs_startedAt = 0, rs_lastLoopAt = 0, rs_lastJobClaimAt = 0,
     rs_lastSuccessAt = 0, rs_lastFailureAt = 0\<rparr>"

definition MarkWorkerStarted :: "time \<Rightarrow> unit nop" where
  "MarkWorkerStarted now = touch (\<lambda>s. s\<lparr>rs_workerRunning := True, rs_startedAt := now\<rparr>)"

definition MarkWorkerLoop :: "time \<Rightarrow> unit nop" where
  "MarkWorkerLoop now = touch (\<lambda>s. s\<lparr>rs_lastLoopAt := now\<rparr>)"

definition MarkJobClaimed :: "time \<Rightarrow> unit nop" where
  "MarkJobClaimed now = touch (\<lambda>s. s\<lparr>rs_lastJobClaimAt := now\<rparr>)"

definition MarkJobSucceeded :: "time \<Rightarrow> unit nop" where
  "MarkJobSucceeded now = touch (\<lambda>s. s\<lparr>rs_lastSuccessAt := now\<rparr>)"

definition MarkJobFailed :: "time \<Rightarrow> unit nop" where
  "MarkJobFailed now = touch (\<lambda>s. s\<lparr>rs_lastFailureAt := now\<rparr>)"

definition MarkWorkerStopped :: "unit nop" where
  "MarkWorkerStopped = touch (\<lambda>s. s\<lparr>rs_workerRunning := False\<rparr>)"

end
