(* ===== verification/Sender_Service.thy ===== *)
theory Sender_Service
  imports Sender_Store
begin

text \<open>
  The sender's request side and its Telegram client: \<open>internal/deliveryrules/rules.go\<close>,
  \<open>service_errors.go\<close>, \<open>send_service.go\<close>, \<open>retry_policy.go\<close>, \<open>telegram_error_classifier.go\<close>
  and \<open>send_telegram_message.go\<close>. The HTTP exchange, the JSON decoder, the status texts and
  the URL check of \<open>net/http\<close> are the fields of \<open>telegram_env\<close>.
\<close>

section \<open>Delivery rules\<close>

definition TelegramMaxTextLength :: nat where
  "TelegramMaxTextLength = 4096"

definition NormalizeBotName :: "(string \<Rightarrow> string) \<Rightarrow> string \<Rightarrow> string" where
  "NormalizeBotName ul value = toLower ul (trimSpace value)"

definition MapSenderJobStatusToDeliveryStatus :: "(string \<Rightarrow> string) \<Rightarrow> string \<Rightarrow> error + string" where
  "MapSenderJobStatusToDeliveryStatus ul status =
     (let s = toLower ul (trimSpace status) in
      if s = StatusSent then Inr ''sent''
      else if s = StatusFailed then Inr ''failed''
      else if s \<in> {StatusPending, StatusSending, StatusRetry} then Inr ''retrying''
      else Inl (ErrorText (''unknown sender job status: '' @ s)))"

section \<open>Service errors\<close>

definition ErrBotRequired :: error where "ErrBotRequired = ErrSentinel ''bot is required''"
definition ErrUnknownBot :: error where "ErrUnknownBot = ErrSentinel ''unknown bot''"
definition ErrBotDisabled :: error where "ErrBotDisabled = ErrSentinel ''bot is disabled''"
definition ErrBotUnavailable :: error where "ErrBotUnavailable = ErrSentinel ''bot is unavailable''"
definition ErrChatIDRequired :: error where "ErrChatIDRequired = ErrSentinel ''chat_id is required''"
definition ErrChatIDNotAllowed :: error where "ErrChatIDNotAllowed = ErrSentinel ''chat_id is not allowed''"
definition ErrTextRequired :: error where "ErrTextRequired = ErrSentinel ''text is required''"
definition ErrTextExceedsLimit :: error where "ErrTextExceedsLimit = ErrSentinel ''text exceeds telegram limit''"
definition ErrMaxAttemptsInvalid :: error where
  "ErrMaxAttemptsInvalid = ErrSentinel ''max_attempts must be between 1 and 5''"
definition ErrIdempotencyKeyConflict :: error where
  "ErrIdempotencyKeyConflict = ErrSentinel ''idempotency key conflict''"

lemmas service_error_defs = ErrBotRequired_def ErrUnknownBot_def ErrBotDisabled_def ErrBotUnavailable_def
  ErrChatIDRequired_def ErrChatIDNotAllowed_def ErrTextRequired_def ErrTextExceedsLimit_def
  ErrMaxAttemptsInvalid_def ErrIdempotencyKeyConflict_def

definition sendErrorResponse :: "error \<Rightarrow> nat \<times> string" where
  "sendErrorResponse err =
     (if list_ex (error_is err) [ErrBotRequired, ErrUnknownBot, ErrChatIDRequired, ErrTextRequired,
           ErrTextExceedsLimit, ErrMaxAttemptsInvalid] then (400, error_message err)
      else if list_ex (error_is err) [ErrBotDisabled, ErrBotUnavailable, ErrChatIDNotAllowed]
        then (403, error_message err)
      else if error_is err ErrIdempotencyKeyConflict then (409, error_message err)
      else (500, ''failed to enqueue job''))"

section \<open>Submitting a message\<close>

record BotRuntimeConfig =
  bot_Enabled :: bool
  bot_AccountID :: string
  bot_Token :: string
  bot_AllowUserIDs :: "int list"

text \<open>A Go map with string keys, as its entries: no key twice.\<close>

type_synonym bot_map = "(string \<times> BotRuntimeConfig) list"

record SendCommand =
  sc_Bot :: string
  sc_ChatID :: int
  sc_Text :: string
  sc_IdempotencyKey :: string
  sc_MaxAttempts :: int
  sc_ReplyToMessageID :: "int option"
  sc_DisableNotification :: bool

record SendService =
  ss_bots :: bot_map
  ss_globalAllowlist :: "int set"
  ss_defaultMaxAttempts :: int

definition minMaxAttempts :: int where "minMaxAttempts = 1"
definition maxMaxAttempts :: int where "maxMaxAttempts = 5"

definition toAllowlistSet :: "int list \<Rightarrow> int set" where
  "toAllowlistSet ids = set ids"

definition NewSendService :: "bot_map \<Rightarrow> int list \<Rightarrow> int \<Rightarrow> SendService" where
  "NewSendService bots allow attempts = \<lparr>ss_bots = bots, ss_globalAllowlist = toAllowlistSet allow,
     ss_defaultMaxAttempts = attempts\<rparr>"

definition allowlisted :: "int \<Rightarrow> int set \<Rightarrow> int set \<Rightarrow> bool" where
  "allowlisted chatID globalAllowlist botAllowlist \<longleftrightarrow> chatID \<in> globalAllowlist \<or> chatID \<in> botAllowlist"

fun sameNullableInt64 :: "int option \<Rightarrow> int option \<Rightarrow> bool" where
  "sameNullableInt64 (Some l) (Some r) = (l = r)"
| "sameNullableInt64 l r = (l = None \<and> r = None)"

definition sameSendPayload :: "Job \<Rightarrow> SendCommand \<Rightarrow> bool" where
  "sameSendPayload job req \<longleftrightarrow> job_BotName job = sc_Bot req \<and> job_ChatID job = sc_ChatID req
     \<and> job_Text job = sc_Text req \<and> job_MaxAttempts job = sc_MaxAttempts req
     \<and> sameNullableInt64 (job_ReplyToMessageID job) (sc_ReplyToMessageID req)
     \<and> job_DisableNotification job = sc_DisableNotification req"

text \<open>
  \<open>checkSend\<close> is the part of \<open>Submit\<close> before the store: the normalised request, or the first
  error. \<open>createJobOf\<close> is the struct it hands to \<open>Enqueue\<close>.
\<close>

definition checkSend :: "(string \<Rightarrow> string) \<Rightarrow> SendService \<Rightarrow> SendCommand \<Rightarrow> error + SendCommand" where
  "checkSend ul s req0 =
     (let req = req0\<lparr>sc_Bot := NormalizeBotName ul (sc_Bot req0),
                     sc_IdempotencyKey := trimSpace (sc_IdempotencyKey req0)\<rparr> in
      if sc_Bot req = [] then Inl ErrBotRequired
      else case map_of (ss_bots s) (sc_Bot req) of
        None \<Rightarrow> Inl ErrUnknownBot
      | Some cfg \<Rightarrow>
          if \<not> bot_Enabled cfg then Inl ErrBotDisabled
          else if trimSpace (bot_Token cfg) = [] then Inl ErrBotUnavailable
          else if sc_ChatID req = 0 then Inl ErrChatIDRequired
          else if \<not> allowlisted (sc_ChatID req) (ss_globalAllowlist s) (toAllowlistSet (bot_AllowUserIDs cfg))
            then Inl ErrChatIDNotAllowed
          else if trimSpace (sc_Text req) = [] then Inl ErrTextRequired
          else if runeCount (sc_Text req) > TelegramMaxTextLength then Inl ErrTextExceedsLimit
          else let req = (if sc_MaxAttempts req = 0
                          then req\<lparr>sc_MaxAttempts := ss_defaultMaxAttempts s\<rparr> else req) in
            if sc_MaxAttempts req < minMaxAttempts \<or> sc_MaxAttempts req > maxMaxAttempts
            then Inl ErrMaxAttemptsInvalid else Inr req)"

definition createJobOf :: "SendCommand \<Rightarrow> CreateJob" where
  "createJobOf req = \<lparr>cj_BotName = sc_Bot req, cj_ChatID = sc_ChatID req, cj_Text = sc_Text req,
     cj_IdempotencyKey = sc_IdempotencyKey req, cj_MaxAttempts = sc_MaxAttempts req,
     cj_ReplyToMessageID = sc_ReplyToMessageID req, cj_DisableNotification = sc_DisableNotification req\<rparr>"

definition enqueueSend :: "(string \<Rightarrow> string) \<Rightarrow> SendCommand \<Rightarrow> Job nop" where
  "enqueueSend ul req =
     bindE (Enqueue ul (createJobOf req)) (\<lambda>job.
     if sc_IdempotencyKey req \<noteq> [] \<and> \<not> sameSendPayload job req then throw ErrIdempotencyKeyConflict
     else ret job)"

definition Submit :: "(string \<Rightarrow> string) \<Rightarrow> SendService \<Rightarrow> SendCommand \<Rightarrow> Job nop" where
  "Submit ul s req0 =
     (case checkSend ul s req0 of
        Inl e \<Rightarrow> throw e
      | Inr req \<Rightarrow>
          if sc_IdempotencyKey req \<noteq> [] then
            bindE (GetByIdempotencyKey (sc_IdempotencyKey req)) (\<lambda>existing. case existing of
              Some job \<Rightarrow> if sameSendPayload job req then ret job else throw ErrIdempotencyKeyConflict
            | None \<Rightarrow> enqueueSend ul req)
          else enqueueSend ul req)"

section \<open>The Telegram client\<close>

record TelegramSendMessageRequest =
  tr_ChatID :: int
  tr_Text :: string
  tr_ReplyToMessageID :: "int option"
  tr_DisableNotification :: bool

record telegramResponse =
  tp_OK :: bool
  tp_ErrorCode :: int
  tp_Description :: string
  tp_RetryAfter :: int

definition NoTelegramResponse :: telegramResponse where
  "NoTelegramResponse = \<lparr>tp_OK = False, tp_ErrorCode = 0, tp_Description = [], tp_RetryAfter = 0\<rparr>"

record TelegramError =
  te_StatusCode :: int
  te_Description :: string
  te_Retryable :: bool
  te_RetryAfter :: duration

text \<open>What \<open>httpClient.Do\<close> and \<open>io.ReadAll\<close> report: no exchange, an unreadable body, a body.\<close>

datatype http_exchange =
    ExchangeFailed string
  | BodyFailed int string
  | Body int string

record telegram_env =
  tg_baseURL :: string
  tg_badURL :: "string \<Rightarrow> string option"
  tg_do :: "string \<Rightarrow> TelegramSendMessageRequest \<Rightarrow> http_exchange"
  tg_unmarshal :: "string \<Rightarrow> string + telegramResponse"
  tg_statusText :: "int \<Rightarrow> string"

text \<open>The base URL of a new client: the public one by default, without trailing slashes.\<close>

definition NewTelegramClient :: "string \<Rightarrow> string" where
  "NewTelegramClient baseURL =
     (let url = (if trimSpace baseURL = [] then ''https://api.telegram.org'' else baseURL) in
      rev (dropWhile (\<lambda>c. c = CHR ''/'') (rev url)))"

datatype send_error = TelegramFailure TelegramError | OtherFailure string

definition telegram_error_text :: "TelegramError \<Rightarrow> string" where
  "telegram_error_text e =
     (if te_StatusCode e > 0
      then ''telegram api error ('' @ formatInt (te_StatusCode e) @ ''): '' @ te_Description e
      else ''telegram api error: '' @ te_Description e)"

fun send_error_text :: "send_error \<Rightarrow> string" where
  "send_error_text (TelegramFailure e) = telegram_error_text e"
| "send_error_text (OtherFailure s) = s"

definition SendMessage :: "telegram_env \<Rightarrow> string \<Rightarrow> TelegramSendMessageRequest \<Rightarrow> send_error option" where
  "SendMessage c botToken request =
     (let url = tg_baseURL c @ ''/bot'' @ botToken @ ''/sendMessage'' in
      case tg_badURL c url of
        Some e \<Rightarrow> Some (OtherFailure (''build telegram request: '' @ e))
      | None \<Rightarrow>
      (case tg_do c url request of
        ExchangeFailed e \<Rightarrow> Some (TelegramFailure
          \<lparr>te_StatusCode = 0, te_Description = e, te_Retryable = False, te_RetryAfter = 0\<rparr>)
      | BodyFailed status e \<Rightarrow> Some (TelegramFailure
          \<lparr>te_StatusCode = status, te_Description = ''read telegram response: '' @ e,
           te_Retryable = status \<ge> 500, te_RetryAfter = 0\<rparr>)
      | Body status body \<Rightarrow>
          (case (if body = [] then Inr NoTelegramResponse else tg_unmarshal c body) of
             Inl e \<Rightarrow> Some (TelegramFailure
               \<lparr>te_StatusCode = status, te_Description = ''decode telegram response: '' @ e,
                te_Retryable = status \<ge> 500, te_RetryAfter = 0\<rparr>)
           | Inr response \<Rightarrow>
               if status \<ge> 400 \<or> \<not> tp_OK response then
                 Some (TelegramFailure
                   \<lparr>te_StatusCode = status,
                    te_Description = (if tp_Description response = [] then tg_statusText c status
                                      else tp_Description response),
                    te_Retryable = (status = 429 \<or> status \<ge> 500),
                    te_RetryAfter = wrap64 (tp_RetryAfter response * second)\<rparr>)
               else None)))"

section \<open>The retry policy\<close>

definition firstRetryDelay :: duration where "firstRetryDelay = 10 * second"
definition secondRetryDelay :: duration where "secondRetryDelay = 60 * second"
definition thirdRetryDelay :: duration where "thirdRetryDelay = 5 * minute"
definition defaultRetryDelay :: duration where "defaultRetryDelay = 15 * minute"

definition retryDelay :: "int \<Rightarrow> duration \<Rightarrow> duration" where
  "retryDelay attemptCount retryAfter =
     (if retryAfter > 0 then retryAfter
      else if attemptCount = 1 then firstRetryDelay
      else if attemptCount = 2 then secondRetryDelay
      else if attemptCount = 3 then thirdRetryDelay
      else defaultRetryDelay)"

fun retryDecision :: "send_error \<Rightarrow> duration \<times> bool" where
  "retryDecision (TelegramFailure e) = (te_RetryAfter e, te_Retryable e)"
| "retryDecision (OtherFailure s) = (0, False)"

end
