(* ===== verification/Sender_Worker.thy ===== *)
theory Sender_Worker
  imports Sender_Service
begin

text \<open>
  \<open>worker.go\<close>: one claim, one Telegram call and one settlement. \<open>settleJob\<close> is the part of
  \<open>ProcessNextAt\<close> that follows the claim, so that a run in which other statements come in
  between is a run of the same definitions.
\<close>

record Worker =
  wk_telegram :: telegram_env
  wk_bots :: bot_map
  wk_sendTimeout :: duration

definition copyRuntimeBots :: "bot_map \<Rightarrow> bot_map" where
  "copyRuntimeBots bots = map (\<lambda>(name, b). (name, b)) bots"

definition NewWorker :: "telegram_env \<Rightarrow> bot_map \<Rightarrow> duration \<Rightarrow> Worker" where
  "NewWorker telegram bots sendTimeout = \<lparr>wk_telegram = telegram, wk_bots = copyRuntimeBots bots,
     wk_sendTimeout = sendTimeout\<rparr>"

definition leaseBuffer :: duration where
  "leaseBuffer = 2 * second"

definition claimLeaseDuration :: "Worker \<Rightarrow> duration" where
  "claimLeaseDuration k =
     (let d = wrap64 (wk_sendTimeout k + leaseBuffer) in if d \<le> 0 then leaseBuffer else d)"

definition logSettlementStateConflict :: "error \<Rightarrow> bool" where
  "logSettlementStateConflict err = error_is err ErrStateConflict"

text \<open>A settlement: a state conflict is logged and ignored, any other error returned.\<close>

definition tolerate :: "unit nop \<Rightarrow> unit nop" where
  "tolerate m = handleE m (\<lambda>err. if logSettlementStateConflict err then ret () else throw err)"

definition messageOf :: "Job \<Rightarrow> TelegramSendMessageRequest" where
  "messageOf job = \<lparr>tr_ChatID = job_ChatID job, tr_Text = job_Text job,
     tr_ReplyToMessageID = job_ReplyToMessageID job, tr_DisableNotification = job_DisableNotification job\<rparr>"

definition settleJob :: "Worker \<Rightarrow> time \<Rightarrow> Job \<Rightarrow> unit nop" where
  "settleJob k now job =
     (case map_of (wk_bots k) (job_BotName job) of
        Some cfg \<Rightarrow>
          if trimSpace (bot_Token cfg) = [] then
            bindE (tolerate (MarkFailed (job_ID job) (job_AttemptCount job) ''missing bot token configuration'' now))
              (\<lambda>_. MarkJobFailed now)
          else
            (let attemptCount = job_AttemptCount job + 1 in
             case SendMessage (wk_telegram k) (bot_Token cfg) (messageOf job) of
               None \<Rightarrow> bindE (tolerate (MarkSent (job_ID job) attemptCount now)) (\<lambda>_. MarkJobSucceeded now)
             | Some err \<Rightarrow>
                 (case retryDecision err of (retryAfter, retryable) \<Rightarrow>
                    if retryable \<and> attemptCount < job_MaxAttempts job then
                      bindE (tolerate (MarkRetry (job_ID job) attemptCount
                          (now + retryDelay attemptCount retryAfter) (send_error_text err) now))
                        (\<lambda>_. MarkJobFailed now)
                    else
                      bindE (tolerate (MarkFailed (job_ID job) attemptCount (send_error_text err) now))
                        (\<lambda>_. MarkJobFailed now)))
      | None \<Rightarrow>
          bindE (tolerate (MarkFailed (job_ID job) (job_AttemptCount job) ''missing bot token configuration'' now))
            (\<lambda>_. MarkJobFailed now))"

definition ProcessNextAt :: "Worker \<Rightarrow> time \<Rightarrow> bool nop" where
  "ProcessNextAt k now =
     bindE (ClaimNextReady now (claimLeaseDuration k)) (\<lambda>job. case job of
       None \<Rightarrow> ret False
     | Some j \<Rightarrow> bindE (MarkJobClaimed now) (\<lambda>_. bindE (settleJob k now j) (\<lambda>_. ret True)))"

text \<open>
  \<open>Run\<close>: \<open>n\<close> rounds of the loop. An error of a round is logged; its \<open>processed\<close> decides
  whether the loop waits, which takes no step here. The context is not cancelled.
\<close>

definition runRound :: "Worker \<Rightarrow> unit nop" where
  "runRound k =
     bindE now_op (\<lambda>now. bindE (MarkWorkerLoop now) (\<lambda>_.
     handleE (bindE (ProcessNextAt k now) (\<lambda>_. ret ())) (\<lambda>_. ret ())))"

fun runRounds :: "nat \<Rightarrow> Worker \<Rightarrow> unit nop" where
  "runRounds 0 k = ret ()"
| "runRounds (Suc n) k = bindE (runRound k) (\<lambda>_. runRounds n k)"

definition RunWorker :: "nat \<Rightarrow> Worker \<Rightarrow> unit nop" where
  "RunWorker n k =
     bindE now_op (\<lambda>now. bindE (MarkWorkerStarted now) (\<lambda>_.
     bindE (runRounds n k) (\<lambda>_. MarkWorkerStopped)))"

end
