(* ===== verification/Sender_Http.thy ===== *)
theory Sender_Http
  imports Sender_Worker
begin

text \<open>
  \<open>job_query_service.go\<close> and \<open>http_handler.go\<close>: what the sender shows of its queue, and the
  routes of its HTTP server. A response is its status and its body before JSON encoding; the
  strict JSON decoder of \<open>/send\<close> is the parameter \<open>decode\<close>, which answers \<open>Some\<close> exactly when
  the body is one object without unknown fields. The store pointer is not nil, as \<open>main\<close> builds it;
  the runtime state may be missing.
\<close>

section \<open>Data\<close>

record JobListItem =
  ji_JobID :: int
  ji_Bot :: string
  ji_ChatID :: int
  ji_Status :: string
  ji_AttemptCount :: int
  ji_MaxAttempts :: int
  ji_LastError :: string
  ji_CreatedAt :: time_text
  ji_UpdatedAt :: time_text
  ji_SentAt :: "time_text option"

record JobStatsView =
  jv_counts :: JobStats
  jv_LastLoopAt :: "time_text option"
  jv_LastJobClaimAt :: "time_text option"
  jv_LastSuccessAt :: "time_text option"
  jv_LastFailureAt :: "time_text option"
  jv_WorkerRunning :: bool

record JobQueryService =
  qs_bots :: bot_map
  qs_workerPollInterval :: duration
  qs_sendTimeout :: duration

record sendRequest =
  rq_Bot :: string
  rq_ChatID :: int
  rq_Text :: string
  rq_IdempotencyKey :: string
  rq_MaxAttempts :: int
  rq_ReplyToMessageID :: "int option"
  rq_DisableNotification :: bool

record sendResponse =
  rs_JobID :: int
  rs_Status :: string
  rs_IdempotencyKey :: string

record jobResponse =
  jr_JobID :: int
  jr_Status :: string
  jr_AttemptCount :: int
  jr_LastError :: string
  jr_CreatedAt :: time_text
  jr_UpdatedAt :: time_text
  jr_SentAt :: "time_text option"

datatype response_body =
    ErrorBody string
  | HealthBody string
  | StatsBody JobStatsView
  | JobsBody "JobListItem list"
  | JobBody jobResponse
  | SendBody sendResponse

type_synonym response = "nat \<times> response_body"

record http_request =
  hr_Method :: string
  hr_Path :: string
  hr_limit :: string
  hr_status :: string
  hr_Authorization :: string
  hr_Body :: string

record HTTPHandler =
  hh_queryService :: "JobQueryService option"
  hh_sendService :: SendService
  hh_senderAuthKey :: string

definition NewHTTPHandler :: "bot_map \<Rightarrow> int list \<Rightarrow> int \<Rightarrow> string \<Rightarrow> JobQueryService option \<Rightarrow> HTTPHandler" where
  "NewHTTPHandler bots allow attempts key qs = \<lparr>hh_queryService = qs,
     hh_sendService = NewSendService bots allow attempts, hh_senderAuthKey = trimSpace key\<rparr>"

definition NewJobQueryService :: "bot_map \<Rightarrow> duration \<Rightarrow> duration \<Rightarrow> JobQueryService" where
  "NewJobQueryService bots workerPollInterval sendTimeout = \<lparr>qs_bots = bots,
     qs_workerPollInterval = workerPollInterval, qs_sendTimeout = sendTimeout\<rparr>"

section \<open>Redaction\<close>

text \<open>The pattern \<open>bot[0-9]+:[A-Za-z0-9_-]+\<close>: what follows its match at the head of the text.\<close>

definition token_char :: "char \<Rightarrow> bool" where
  "token_char c = (let b = byte_val c in
     48 \<le> b \<and> b \<le> 57 \<or> 65 \<le> b \<and> b \<le> 90 \<or> 97 \<le> b \<and> b \<le> 122 \<or> b = 95 \<or> b = 45)"

definition match_bot_token :: "string \<Rightarrow> string option" where
  "match_bot_token s =
     (case strip_prefix ''bot'' s of
        None \<Rightarrow> None
      | Some r \<Rightarrow>
          (case dropWhile is_digit r of
             [] \<Rightarrow> None
           | c # cs \<Rightarrow>
               if takeWhile is_digit r \<noteq> [] \<and> c = CHR '':'' \<and> takeWhile token_char cs \<noteq> []
               then Some (dropWhile token_char cs) else None))"

lemma match_bot_token_shorter: "match_bot_token s = Some r \<Longrightarrow> length r < length s"
proof -
  assume m: "match_bot_token s = Some r"
  obtain t where t: "strip_prefix ''bot'' s = Some t"
    using m by (cases "strip_prefix ''bot'' s") (simp_all add: match_bot_token_def)
  obtain c cs where d: "dropWhile is_digit t = c # cs"
    using m t by (cases "dropWhile is_digit t") (simp_all add: match_bot_token_def)
  have "r = dropWhile token_char cs" using m t d by (auto simp: match_bot_token_def split: if_splits)
  then have "length r \<le> length cs" by (simp add: length_dropWhile_le)
  also have "length cs < length (dropWhile is_digit t)" by (simp add: d)
  also have "\<dots> \<le> length t" by (rule length_dropWhile_le)
  also have "\<dots> \<le> length s" using strip_prefix_length [OF t] by simp
  finally show ?thesis .
qed

function redact :: "string \<Rightarrow> string" where
  "redact s = (case s of
     [] \<Rightarrow> []
   | c # cs \<Rightarrow>
       (case match_bot_token s of
          Some rest \<Rightarrow> ''bot[redacted]'' @ redact rest
        | None \<Rightarrow> c # redact cs))"
  by pat_completeness auto
termination
  by (relation "measure length") (auto dest: match_bot_token_shorter)

declare redact.simps [simp del]

definition sanitizeObservabilityLastError :: "string \<Rightarrow> string" where
  "sanitizeObservabilityLastError lastError =
     (if trimSpace lastError = [] then [] else redact lastError)"

section \<open>The query service\<close>

definition DefaultJobListLimit :: int where "DefaultJobListLimit = 20"
definition MaxJobListLimit :: int where "MaxJobListLimit = 100"

definition hasEnabledBot :: "bot_map \<Rightarrow> bool" where
  "hasEnabledBot bots = list_ex (\<lambda>(_, b). bot_Enabled b \<and> trimSpace (bot_Token b) \<noteq> []) bots"

definition ReadinessThreshold :: "duration \<Rightarrow> duration \<Rightarrow> duration" where
  "ReadinessThreshold workerPollInterval sendTimeout =
     (let first = wrap64 (3 * workerPollInterval); second' = wrap64 (sendTimeout + workerPollInterval)
      in if second' > first then second' else first)"

definition Ping :: "unit nop" where
  "Ping = wrapE ''ping sqlite database'' (query (\<lambda>_. ()))"

definition snapshotE :: "RuntimeState option nop" where
  "snapshotE w = (Inr (sn_runtime (w_db w)), w)"

definition Readiness :: "JobQueryService \<Rightarrow> unit nop" where
  "Readiness s =
     bindE (wrapE ''ping store'' Ping) (\<lambda>_.
     bindE (checkE (hasEnabledBot (qs_bots s)) (ErrorText ''no enabled bot configured'')) (\<lambda>_.
     bindE snapshotE (\<lambda>runtime. case runtime of
       None \<Rightarrow> throw (ErrorText ''runtime state is not configured'')
     | Some snapshot \<Rightarrow>
         if \<not> rs_workerRunning snapshot then throw (ErrorText ''worker is not running'')
         else if is_zero (rs_lastLoopAt snapshot) then throw (ErrorText ''worker loop has not run yet'')
         else bindE now_op (\<lambda>now.
           if timeSub now (rs_lastLoopAt snapshot)
                > ReadinessThreshold (qs_workerPollInterval s) (qs_sendTimeout s)
           then throw (ErrorText ''worker loop is stale'') else ret ()))))"

definition formatOptionalTimestamp :: "time \<Rightarrow> time_text option" where
  "formatOptionalTimestamp ts = (if is_zero ts then None else Some (formatTime ts))"

definition queryStats :: "JobStatsView nop" where
  "queryStats =
     bindE snapshotE (\<lambda>configured. case configured of
       None \<Rightarrow> throw (ErrorText ''runtime state is not configured'')
     | Some _ \<Rightarrow>
         bindE now_op (\<lambda>now. bindE (GetStats now) (\<lambda>stats. bindE snapshotE (\<lambda>snapshot.
         case snapshot of
           None \<Rightarrow> throw (ErrorText ''runtime state is not configured'')
         | Some st \<Rightarrow> ret \<lparr>jv_counts = stats, jv_LastLoopAt = formatOptionalTimestamp (rs_lastLoopAt st),
             jv_LastJobClaimAt = formatOptionalTimestamp (rs_lastJobClaimAt st),
             jv_LastSuccessAt = formatOptionalTimestamp (rs_lastSuccessAt st),
             jv_LastFailureAt = formatOptionalTimestamp (rs_lastFailureAt st),
             jv_WorkerRunning = rs_workerRunning st\<rparr>))))"

definition isAllowedJobStatus :: "string \<Rightarrow> bool" where
  "isAllowedJobStatus status \<longleftrightarrow>
     status \<in> {StatusPending, StatusRetry, StatusSending, StatusFailed, StatusSent}"

definition normalizeJobListFilter :: "string \<Rightarrow> int \<Rightarrow> error + JobListFilter" where
  "normalizeJobListFilter raw limit =
     (let status = trimSpace raw in
      if status = [] then Inl (ErrorText ''status is required'')
      else if \<not> isAllowedJobStatus status then Inl (ErrorText ''invalid status'')
      else if limit \<le> 0 \<or> limit > MaxJobListLimit then Inl (ErrorText ''invalid limit'')
      else Inr \<lparr>jf_Status = status, jf_Limit = limit\<rparr>)"

definition parseJobListLimit :: "string \<Rightarrow> error + (int \<times> bool)" where
  "parseJobListLimit raw =
     (let s = trimSpace raw in
      if s = [] then Inr (0, False)
      else case parseInt64 s of None \<Rightarrow> Inl (ErrorText ''invalid limit'') | Some limit \<Rightarrow> Inr (limit, True))"

definition mapJobListItem :: "Job \<Rightarrow> JobListItem" where
  "mapJobListItem job = \<lparr>ji_JobID = job_ID job, ji_Bot = job_BotName job, ji_ChatID = job_ChatID job,
     ji_Status = job_Status job, ji_AttemptCount = job_AttemptCount job, ji_MaxAttempts = job_MaxAttempts job,
     ji_LastError = sanitizeObservabilityLastError (job_LastError job),
     ji_CreatedAt = formatTime (job_CreatedAt job), ji_UpdatedAt = formatTime (job_UpdatedAt job),
     ji_SentAt = map_option formatTime (job_SentAt job)\<rparr>"

definition queryJobs :: "string \<Rightarrow> int \<Rightarrow> JobListItem list nop" where
  "queryJobs status limit =
     (case normalizeJobListFilter status limit of
        Inl e \<Rightarrow> throw e
      | Inr f \<Rightarrow> bindE now_op (\<lambda>_. bindE (ListJobs f) (\<lambda>jobs. ret (map mapJobListItem jobs))))"

section \<open>The routes\<close>

definition StatusMethodNotAllowed :: response where
  "StatusMethodNotAllowed = (405, ErrorBody ''method not allowed'')"

definition StatusNotFound :: response where
  "StatusNotFound = (404, ErrorBody ''not found'')"

text \<open>A response for every outcome: the handlers answer errors, they do not return them.\<close>

definition respond :: "'a nop \<Rightarrow> ('a \<Rightarrow> response) \<Rightarrow> (error \<Rightarrow> response) \<Rightarrow> response nop" where
  "respond m ok err = handleE (bindE m (\<lambda>a. ret (ok a))) (\<lambda>e. ret (err e))"

definition handleHealthz :: "http_request \<Rightarrow> response nop" where
  "handleHealthz r = ret (if hr_Method r \<noteq> ''GET'' then StatusMethodNotAllowed else (200, HealthBody ''ok''))"

definition handleReadyz :: "HTTPHandler \<Rightarrow> http_request \<Rightarrow> response nop" where
  "handleReadyz h r =
     (if hr_Method r \<noteq> ''GET'' then ret StatusMethodNotAllowed
      else case hh_queryService h of
        None \<Rightarrow> ret (503, ErrorBody ''readiness service is not configured'')
      | Some qs \<Rightarrow> respond (Readiness qs) (\<lambda>_. (200, HealthBody ''ok'')) (\<lambda>e. (503, ErrorBody (error_message e))))"

definition handleStats :: "HTTPHandler \<Rightarrow> http_request \<Rightarrow> response nop" where
  "handleStats h r =
     (if hr_Method r \<noteq> ''GET'' then ret StatusMethodNotAllowed
      else case hh_queryService h of
        None \<Rightarrow> ret (503, ErrorBody ''query service is not configured'')
      | Some qs \<Rightarrow> respond queryStats (\<lambda>s. (200, StatsBody s)) (\<lambda>e. (503, ErrorBody (error_message e))))"

definition listJobsError :: "error \<Rightarrow> response" where
  "listJobsError e =
     (if error_message e \<in> {''invalid status'', ''status is required'', ''invalid limit''}
      then (400, ErrorBody (error_message e)) else (500, ErrorBody ''failed to list jobs''))"

definition handleListJobs :: "HTTPHandler \<Rightarrow> http_request \<Rightarrow> response nop" where
  "handleListJobs h r =
     (if hr_Method r \<noteq> ''GET'' then ret StatusMethodNotAllowed
      else case hh_queryService h of
        None \<Rightarrow> ret (503, ErrorBody ''query service is not configured'')
      | Some qs \<Rightarrow>
          (case parseJobListLimit (hr_limit r) of
             Inl e \<Rightarrow> ret (400, ErrorBody (error_message e))
           | Inr (limit, provided) \<Rightarrow>
               respond (queryJobs (hr_status r) (if provided then limit else DefaultJobListLimit))
                 (\<lambda>jobs. (200, JobsBody jobs)) listJobsError))"

definition jobView :: "Job \<Rightarrow> jobResponse" where
  "jobView job = \<lparr>jr_JobID = job_ID job, jr_Status = job_Status job, jr_AttemptCount = job_AttemptCount job,
     jr_LastError = sanitizeObservabilityLastError (job_LastError job),
     jr_CreatedAt = formatTime (job_CreatedAt job), jr_UpdatedAt = formatTime (job_UpdatedAt job),
     jr_SentAt = map_option formatTime (job_SentAt job)\<rparr>"

definition handleGetJob :: "http_request \<Rightarrow> response nop" where
  "handleGetJob r =
     (if hr_Method r \<noteq> ''GET'' then ret StatusMethodNotAllowed
      else let idRaw = trimPrefix (hr_Path r) ''/jobs/'' in
        if idRaw = [] \<or> containsText idRaw ''/'' then ret StatusNotFound
        else case parseInt64 idRaw of
          None \<Rightarrow> ret StatusNotFound
        | Some jobID \<Rightarrow>
            if jobID \<le> 0 then ret StatusNotFound
            else respond (GetJob jobID) (\<lambda>job. (200, JobBody (jobView job)))
              (\<lambda>e. if error_is e ErrNoRows then StatusNotFound else (500, ErrorBody ''failed to get job'')))"

definition authorized :: "HTTPHandler \<Rightarrow> string \<Rightarrow> bool" where
  "authorized h header =
     (let authHeader = trimSpace header in
      if authHeader = [] \<or> hh_senderAuthKey h = [] then False
      else if \<not> hasPrefix authHeader ''Bearer '' then False
      else let provided = trimSpace (trimPrefix authHeader ''Bearer '') in
        provided \<noteq> [] \<and> provided = hh_senderAuthKey h)"

definition commandOf :: "sendRequest \<Rightarrow> SendCommand" where
  "commandOf q = \<lparr>sc_Bot = rq_Bot q, sc_ChatID = rq_ChatID q, sc_Text = rq_Text q,
     sc_IdempotencyKey = rq_IdempotencyKey q, sc_MaxAttempts = rq_MaxAttempts q,
     sc_ReplyToMessageID = rq_ReplyToMessageID q, sc_DisableNotification = rq_DisableNotification q\<rparr>"

definition sendBody :: "Job \<Rightarrow> response_body" where
  "sendBody job = SendBody \<lparr>rs_JobID = job_ID job, rs_Status = job_Status job,
     rs_IdempotencyKey = job_IdempotencyKey job\<rparr>"

definition writeSendError :: "error \<Rightarrow> response" where
  "writeSendError e = (case sendErrorResponse e of (code, text) \<Rightarrow> (code, ErrorBody text))"

text \<open>\<open>MaxBytesReader\<close>: a body of more than 32 KiB fails one of the two \<open>Decode\<close> calls.\<close>

definition handleSend ::
  "(string \<Rightarrow> string) \<Rightarrow> (string \<Rightarrow> sendRequest option) \<Rightarrow> HTTPHandler \<Rightarrow> http_request \<Rightarrow> response nop" where
  "handleSend ul decode h r =
     (if hr_Method r \<noteq> ''POST'' then ret StatusMethodNotAllowed
      else if \<not> authorized h (hr_Authorization r) then
        (if trimSpace (hr_Authorization r) = [] then ret (401, ErrorBody ''missing authorization'')
         else ret (403, ErrorBody ''invalid authorization''))
      else case (if length (hr_Body r) > 32768 then None else decode (hr_Body r)) of
        None \<Rightarrow> ret (400, ErrorBody ''invalid json body'')
      | Some request \<Rightarrow>
          respond (Submit ul (hh_sendService h) (commandOf request))
            (\<lambda>job. (202, sendBody job)) writeSendError)"

definition ServeHTTP ::
  "(string \<Rightarrow> string) \<Rightarrow> (string \<Rightarrow> sendRequest option) \<Rightarrow> HTTPHandler \<Rightarrow> http_request \<Rightarrow> response nop" where
  "ServeHTTP ul decode h r =
     (if hr_Path r = ''/healthz'' then handleHealthz r
      else if hr_Path r = ''/readyz'' then handleReadyz h r
      else if hr_Path r = ''/stats'' then handleStats h r
      else if hr_Path r = ''/jobs'' then handleListJobs h r
      else if hasPrefix (hr_Path r) ''/jobs/'' then handleGetJob r
      else if hr_Path r = ''/send'' then handleSend ul decode h r
      else ret StatusNotFound)"

end
