(* ===== verification/Delivery_Client.thy ===== *)
theory Delivery_Client
  imports A2a_Handler Sender_Http
begin

text \<open>
  \<open>internal/a2adelivery\<close>: \<open>types.go\<close>, \<open>mapping.go\<close>, \<open>context.go\<close>, \<open>client.go\<close>, \<open>poll.go\<close>, \<open>bridge.go\<close>. A client
  of the sender's HTTP interface that enqueues a message and polls its job. The transport is the
  parameter \<open>exchange\<close>: a request becomes a network error or a status with the text of a body.
  The JSON texts are parameters (\<open>cn_marshal\<close>, \<open>cn_unmarshal\<close> for a whole text, \<open>cn_decode\<close> for its
  first value), as are the lower case map \<open>ul\<close> and the quoting \<open>q\<close> of \<open>%q\<close>; decoding a value into a
  struct is modelled.
\<close>

section \<open>Target agents and bots\<close>

definition firstVersionTargetAgentToBot :: "(string \<times> string) list" where
  "firstVersionTargetAgentToBot =
     [(''main'', ''main''), (''planner'', ''planner''), (''engineer'', ''engineer''), (''researcher'', ''researcher''),
      (''archivist'', ''archivist''), (''guardian'', ''guardian''), (''closer'', ''closer''), (''worker'', ''main''),
      (''upstream'', ''main''), (''downstream'', ''main''), (''reviewer'', ''main'')]"

type_synonym TargetAgentBotResolver = "string \<rightharpoonup> string"

definition normalizeTargetAgentName :: "(string \<Rightarrow> string) \<Rightarrow> string \<Rightarrow> string" where
  "normalizeTargetAgentName ul value = trimPrefix (NormalizeBotName ul value) ''agent:''"

definition mapTargetAgent ::
  "(string \<Rightarrow> string) \<Rightarrow> (string \<Rightarrow> string) \<Rightarrow> string \<Rightarrow> TargetAgentBotResolver \<Rightarrow> error + TargetAgentBotResolver" where
  "mapTargetAgent ul q rawPair mapping =
     (let pair = trimSpace rawPair in
      if pair = [] then Inl (ErrorText ''target_agent mapping pair must not be blank'')
      else case splitOn CHR ''='' pair of
        [rawTarget, rawBot] \<Rightarrow>
          (let targetAgent = normalizeTargetAgentName ul rawTarget; botName = NormalizeBotName ul rawBot in
           if targetAgent = [] \<or> botName = []
           then Inl (ErrorText (''target_agent mapping '' @ q pair @ '' must include non-blank target and bot''))
           else Inr (mapping(targetAgent \<mapsto> botName)))
      | _ \<Rightarrow> Inl (ErrorText (''target_agent mapping '' @ q pair @ '' must use target=bot'')))"

fun mapTargetAgents ::
  "(string \<Rightarrow> string) \<Rightarrow> (string \<Rightarrow> string) \<Rightarrow> string list \<Rightarrow> TargetAgentBotResolver \<Rightarrow> error + TargetAgentBotResolver" where
  "mapTargetAgents ul q [] mapping = Inr mapping"
| "mapTargetAgents ul q (pair # pairs) mapping =
     (case mapTargetAgent ul q pair mapping of Inl e \<Rightarrow> Inl e | Inr m \<Rightarrow> mapTargetAgents ul q pairs m)"

definition NewTargetAgentBotResolver :: "(string \<Rightarrow> string) \<Rightarrow> (string \<Rightarrow> string) \<Rightarrow> string \<Rightarrow> error + TargetAgentBotResolver" where
  "NewTargetAgentBotResolver ul q config =
     (let mapping = map_of firstVersionTargetAgentToBot in
      if trimSpace config = [] then Inr mapping else mapTargetAgents ul q (splitOn CHR '','' config) mapping)"

definition ResolveBotForTargetAgent :: "(string \<Rightarrow> string) \<Rightarrow> (string \<Rightarrow> string) \<Rightarrow> TargetAgentBotResolver \<Rightarrow> string \<Rightarrow> error + string" where
  "ResolveBotForTargetAgent ul q r targetAgent =
     (case r (normalizeTargetAgentName ul targetAgent) of
        None \<Rightarrow> Inl (ErrorText (''unknown target_agent '' @ q targetAgent)) | Some botName \<Rightarrow> Inr botName)"

section \<open>The target user\<close>

record TargetUserContext =
  tc_DeliveryContextTo :: "int option"
  tc_DirectSessionPeerChatID :: "int option"
  tc_InboundSenderChatID :: "int option"

definition NoTargetUser :: TargetUserContext where
  "NoTargetUser = \<lparr>tc_DeliveryContextTo = None, tc_DirectSessionPeerChatID = None, tc_InboundSenderChatID = None\<rparr>"

text \<open>A runtime context of any type, as reflection sees it: a struct's fields by name.\<close>

datatype context_field = Int64Pointer "int option" | OtherField

datatype context_shape = StructShape "(string \<times> context_field) list" | NotStruct

datatype runtime_context =
    NoContext
  | UserContext TargetUserContext
  | UserContextPointer "TargetUserContext option"
  | OtherPointer "context_shape option"
  | OtherValue context_shape

definition targetUserContextError :: error where
  "targetUserContextError = ErrorText (''runtime context must be TargetUserContext, *TargetUserContext, or same-shape '' @
     ''struct with DeliveryContextTo, DirectSessionPeerChatID, and InboundSenderChatID fields of type *int64'')"

definition targetUserContextField :: "(string \<times> context_field) list \<Rightarrow> string \<Rightarrow> error + int option" where
  "targetUserContextField s fieldName =
     (case map_of s fieldName of
        None \<Rightarrow> Inl targetUserContextError
      | Some (Int64Pointer v) \<Rightarrow> Inr v
      | Some OtherField \<Rightarrow> Inl (ErrorText (''runtime context field '' @ fieldName @
          '' must be *int64 for TargetUserContext compatibility'')))"

definition adaptShape :: "context_shape \<Rightarrow> error + TargetUserContext" where
  "adaptShape shape =
     (case shape of
        NotStruct \<Rightarrow> Inl targetUserContextError
      | StructShape s \<Rightarrow>
          (case targetUserContextField s ''DeliveryContextTo'' of Inl e \<Rightarrow> Inl e | Inr to \<Rightarrow>
          (case targetUserContextField s ''DirectSessionPeerChatID'' of Inl e \<Rightarrow> Inl e | Inr peer \<Rightarrow>
          (case targetUserContextField s ''InboundSenderChatID'' of Inl e \<Rightarrow> Inl e | Inr inbound \<Rightarrow>
           Inr \<lparr>tc_DeliveryContextTo = to, tc_DirectSessionPeerChatID = peer, tc_InboundSenderChatID = inbound\<rparr>))))"

fun AdaptTargetUserContext :: "runtime_context \<Rightarrow> error + TargetUserContext" where
  "AdaptTargetUserContext NoContext = Inr NoTargetUser"
| "AdaptTargetUserContext (UserContext c) = Inr c"
| "AdaptTargetUserContext (UserContextPointer None) = Inr NoTargetUser"
| "AdaptTargetUserContext (UserContextPointer (Some c)) = Inr c"
| "AdaptTargetUserContext (OtherPointer None) = Inr NoTargetUser"
| "AdaptTargetUserContext (OtherPointer (Some shape)) = adaptShape shape"
| "AdaptTargetUserContext (OtherValue shape) = adaptShape shape"

definition conflicting :: "string \<Rightarrow> int \<Rightarrow> string \<Rightarrow> int \<Rightarrow> error" where
  "conflicting f v g u = ErrorText (''conflicting context chat IDs: '' @ f @ ''='' @ formatInt v @ '' '' @ g @ ''='' @ formatInt u)"

definition positiveChat :: "string \<Rightarrow> int \<Rightarrow> error + int" where
  "positiveChat what i = (if i \<le> 0 then Inl (ErrorText (what @ '' chat_id must be positive'')) else Inr i)"

definition ResolveTargetUser :: "int option \<Rightarrow> TargetUserContext \<Rightarrow> error + int" where
  "ResolveTargetUser explicitChatID ctx =
     (case explicitChatID of
        Some i \<Rightarrow> positiveChat ''explicit'' i
      | None \<Rightarrow>
          (case (tc_DeliveryContextTo ctx, tc_DirectSessionPeerChatID ctx, tc_InboundSenderChatID ctx) of
             (Some to, peer, inbound) \<Rightarrow>
               if peer \<noteq> None \<and> peer \<noteq> Some to
               then Inl (conflicting ''deliveryContext.to'' to ''directSessionPeerChatID'' (the peer))
               else if inbound \<noteq> None \<and> inbound \<noteq> Some to
               then Inl (conflicting ''deliveryContext.to'' to ''inboundSenderChatID'' (the inbound))
               else positiveChat ''resolved context'' to
           | (None, Some peer, Some inbound) \<Rightarrow>
               if peer \<noteq> inbound then Inl (conflicting ''directSessionPeerChatID'' peer ''inboundSenderChatID'' inbound)
               else positiveChat ''resolved context'' peer
           | (None, Some peer, None) \<Rightarrow> positiveChat ''resolved context'' peer
           | (None, None, Some inbound) \<Rightarrow> positiveChat ''resolved context'' inbound
           | (None, None, None) \<Rightarrow> Inl (ErrorText ''unable to resolve target user chat_id'')))"

end
