(* ===== verification/Delivery_Bridge.thy ===== *)
theory Delivery_Bridge
  imports Delivery_Client
begin

text \<open>
  \<open>client.go\<close>, \<open>poll.go\<close> and \<open>bridge.go\<close>: the sender's HTTP client, polling a job until it is done or
  the time is up, and the delivery bridge. The base URL parses; the context is not cancelled.
\<close>

section \<open>Errors of the client\<close>

datatype client_error =
    SenderAPIError nat string
  | NetworkError string
  | OtherError error

fun client_error_text :: "client_error \<Rightarrow> string" where
  "client_error_text (SenderAPIError status message) =
     (if trimSpace message = [] then ''sender API returned status '' @ formatNat status
      else ''sender API returned status '' @ formatNat status @ '': '' @ message)"
| "client_error_text (NetworkError text) = text"
| "client_error_text (OtherError e) = error_message e"

fun IsRetryablePollError :: "client_error \<Rightarrow> bool" where
  "IsRetryablePollError (SenderAPIError status message) = (500 \<le> status)"
| "IsRetryablePollError (NetworkError text) = True"
| "IsRetryablePollError (OtherError e) = False"

fun IsPostAcceptNotFound :: "client_error \<Rightarrow> bool" where
  "IsPostAcceptNotFound (SenderAPIError status message) = (status = 404)"
| "IsPostAcceptNotFound _ = False"

type_synonym ('x, 'a) cop = "('x, client_error + 'a) op"

definition fail :: "client_error \<Rightarrow> ('x, 'a) cop" where
  "fail e = ret (Inl e)"

definition failure :: "string \<Rightarrow> client_error" where
  "failure s = OtherError (ErrorText s)"

definition bindC :: "('x, 'a) cop \<Rightarrow> ('a \<Rightarrow> ('x, 'b) cop) \<Rightarrow> ('x, 'b) cop" where
  "bindC m f = bindE m (\<lambda>r. case r of Inl e \<Rightarrow> fail e | Inr a \<Rightarrow> f a)"

definition fromC :: "error + 'a \<Rightarrow> ('x, 'a) cop" where
  "fromC r = (case r of Inl e \<Rightarrow> fail (OtherError e) | Inr a \<Rightarrow> ret (Inr a))"

section \<open>The client\<close>

record client_request =
  cq_Method :: string
  cq_URL :: string
  cq_Authorization :: string
  cq_Body :: string

type_synonym 'x exchange = "client_request \<Rightarrow> ('x, string + nat \<times> string) op"

record client_env =
  cn_marshal :: "json \<Rightarrow> string"
  cn_unmarshal :: "string \<Rightarrow> json option"
  cn_decode :: "string \<Rightarrow> json option"
  cn_decodeError :: "string \<Rightarrow> error"
  cn_lower :: "string \<Rightarrow> string"
  cn_quote :: "string \<Rightarrow> string"

record SenderClient =
  cl_baseURL :: string
  cl_authKey :: string

definition NewSenderClient :: "string \<Rightarrow> string \<Rightarrow> SenderClient" where
  "NewSenderClient baseURL senderAuthKey =
     \<lparr>cl_baseURL = trimRightSlashes (trimSpace baseURL), cl_authKey = trimSpace senderAuthKey\<rparr>"

record SenderStats =
  sst_PendingCount :: int
  sst_RetryCount :: int
  sst_SendingCount :: int
  sst_FailedCount :: int
  sst_SentCount :: int
  sst_OldestPendingAgeSeconds :: "int option"
  sst_LastLoopAt :: "string option"
  sst_LastJobClaimAt :: "string option"
  sst_LastSuccessAt :: "string option"
  sst_LastFailureAt :: "string option"
  sst_WorkerRunning :: bool

record SenderJobListItem =
  sli_JobID :: int
  sli_Bot :: string
  sli_ChatID :: int
  sli_Status :: string
  sli_AttemptCount :: int
  sli_MaxAttempts :: int
  sli_LastError :: string
  sli_CreatedAt :: string
  sli_UpdatedAt :: string
  sli_SentAt :: "string option"

record SenderJob =
  sj_JobID :: int
  sj_Status :: string
  sj_AttemptCount :: int
  sj_LastError :: string
  sj_CreatedAt :: string
  sj_UpdatedAt :: string
  sj_SentAt :: "string option"

definition sanitizeSenderLastError :: "string \<Rightarrow> string" where
  "sanitizeSenderLastError lastError = (if trimSpace lastError = [] then [] else redact lastError)"

text \<open>The \<open>error\<close> field of the body, as far as it decodes; else the body itself, cut at 8 KiB.\<close>

definition errorField :: "json option \<Rightarrow> string" where
  "errorField v =
     (case v of
        Some (JObject kvs) \<Rightarrow> foldl (\<lambda>s (k, x). if foldName k = ''error''
            then (case x of JString t \<Rightarrow> t | _ \<Rightarrow> s) else s) [] kvs
      | _ \<Rightarrow> [])"

definition decodeSenderAPIError :: "client_env \<Rightarrow> nat \<Rightarrow> string \<Rightarrow> client_error" where
  "decodeSenderAPIError env status body =
     (let limited = take 8192 body; msg = trimSpace (errorField (cn_unmarshal env limited)) in
      SenderAPIError status (sanitizeSenderLastError (if msg = [] then trimSpace limited else msg)))"

text \<open>Decoding without \<open>DisallowUnknownFields\<close>: other keys are skipped.\<close>

fun lenientEntries :: "'r struct_spec \<Rightarrow> (string \<times> json) list \<Rightarrow> 'r \<Rightarrow> 'r option" where
  "lenientEntries spec [] r = Some r"
| "lenientEntries spec ((k, v) # kvs) r =
     (case find (\<lambda>(name, _). foldName name = foldName k) spec of
        None \<Rightarrow> lenientEntries spec kvs r
      | Some (_, set_field) \<Rightarrow> (case set_field v r of None \<Rightarrow> None | Some r' \<Rightarrow> lenientEntries spec kvs r'))"

definition lenientStruct :: "'r struct_spec \<Rightarrow> json \<Rightarrow> 'r \<Rightarrow> 'r option" where
  "lenientStruct spec v r = (case v of JNull \<Rightarrow> Some r | JObject kvs \<Rightarrow> lenientEntries spec kvs r | _ \<Rightarrow> None)"

definition textPointerField :: "((string option \<Rightarrow> string option) \<Rightarrow> 'r \<Rightarrow> 'r) \<Rightarrow> json \<Rightarrow> 'r \<Rightarrow> 'r option" where
  "textPointerField update v r =
     (case v of JString s \<Rightarrow> Some (update (\<lambda>_. Some s) r) | JNull \<Rightarrow> Some (update (\<lambda>_. None) r) | _ \<Rightarrow> None)"

definition boolField :: "((bool \<Rightarrow> bool) \<Rightarrow> 'r \<Rightarrow> 'r) \<Rightarrow> json \<Rightarrow> 'r \<Rightarrow> 'r option" where
  "boolField update v r = (case v of JBool b \<Rightarrow> Some (update (\<lambda>_. b) r) | JNull \<Rightarrow> Some r | _ \<Rightarrow> None)"

definition bearer :: "SenderClient \<Rightarrow> string" where
  "bearer c = (if cl_authKey c \<noteq> [] then ''Bearer '' @ cl_authKey c else [])"

definition getJSON ::
  "client_env \<Rightarrow> 'x exchange \<Rightarrow> SenderClient \<Rightarrow> string \<Rightarrow> 'r struct_spec \<Rightarrow> 'r \<Rightarrow> string \<Rightarrow> ('x, 'r) cop" where
  "getJSON env exchange c path spec zero responseName =
     bindE (exchange \<lparr>cq_Method = ''GET'', cq_URL = cl_baseURL c @ path, cq_Authorization = bearer c, cq_Body = []\<rparr>)
       (\<lambda>r. case r of
          Inl e \<Rightarrow> fail (NetworkError e)
        | Inr (status, body) \<Rightarrow>
            if status \<noteq> 200 then fail (decodeSenderAPIError env status body)
            else case Option.bind (cn_decode env body) (\<lambda>v. lenientStruct spec v zero) of
              None \<Rightarrow> fail (OtherError (ErrorWrap (''decode '' @ responseName @ '' response'') (cn_decodeError env body)))
            | Some x \<Rightarrow> ret (Inr x))"

definition sendPayload :: "string \<Rightarrow> int \<Rightarrow> string \<Rightarrow> string \<Rightarrow> json" where
  "sendPayload botName chatID text idempotencyKey =
     JObject ([(''bot'', JString botName), (''chat_id'', JNumber (formatInt chatID)), (''text'', JString text)] @
       (if idempotencyKey = [] then [] else [(''idempotency_key'', JString idempotencyKey)]))"

definition sendReplySpec :: "(int \<times> string) struct_spec" where
  "sendReplySpec = [(''job_id'', intField (\<lambda>f (i, s). (f i, s))), (''status'', textField (\<lambda>f (i, s). (i, f s)))]"

definition Send ::
  "client_env \<Rightarrow> 'x exchange \<Rightarrow> SenderClient \<Rightarrow> string \<Rightarrow> int \<Rightarrow> string \<Rightarrow> string \<Rightarrow> ('x, int \<times> string) cop" where
  "Send env exchange c botName chatID text idempotencyKey =
     bindE (exchange \<lparr>cq_Method = ''POST'', cq_URL = cl_baseURL c @ ''/send'', cq_Authorization = bearer c,
         cq_Body = cn_marshal env (sendPayload botName chatID text (trimSpace idempotencyKey))\<rparr>)
       (\<lambda>r. case r of
          Inl e \<Rightarrow> fail (NetworkError e)
        | Inr (status, body) \<Rightarrow>
            if status \<noteq> 202 then fail (decodeSenderAPIError env status body)
            else case Option.bind (cn_decode env body) (\<lambda>v. lenientStruct sendReplySpec v (0, [])) of
              None \<Rightarrow> fail (OtherError (ErrorWrap ''decode /send response'' (cn_decodeError env body)))
            | Some (jobID, sendStatus) \<Rightarrow>
                if jobID \<le> 0 then fail (failure ''invalid /send response: missing job_id'')
                else ret (Inr (jobID, sendStatus)))"

definition Health :: "client_env \<Rightarrow> 'x exchange \<Rightarrow> SenderClient \<Rightarrow> ('x, string) cop" where
  "Health env exchange c = getJSON env exchange c ''/healthz'' [(''status'', textField id)] [] ''/healthz''"

definition ClientReadiness :: "client_env \<Rightarrow> 'x exchange \<Rightarrow> SenderClient \<Rightarrow> ('x, string) cop" where
  "ClientReadiness env exchange c = getJSON env exchange c ''/readyz'' [(''status'', textField id)] [] ''/readyz''"

definition statsSpec :: "SenderStats struct_spec" where
  "statsSpec = [(''pending_count'', intField sst_PendingCount_update), (''retry_count'', intField sst_RetryCount_update),
     (''sending_count'', intField sst_SendingCount_update), (''failed_count'', intField sst_FailedCount_update),
     (''sent_count'', intField sst_SentCount_update),
     (''oldest_pending_age_seconds'', intPointerField sst_OldestPendingAgeSeconds_update),
     (''last_loop_at'', textPointerField sst_LastLoopAt_update),
     (''last_job_claim_at'', textPointerField sst_LastJobClaimAt_update),
     (''last_success_at'', textPointerField sst_LastSuccessAt_update),
     (''last_failure_at'', textPointerField sst_LastFailureAt_update),
     (''worker_running'', boolField sst_WorkerRunning_update)]"

definition NoStats :: SenderStats where
  "NoStats = \<lparr>sst_PendingCount = 0, sst_RetryCount = 0, sst_SendingCount = 0, sst_FailedCount = 0, sst_SentCount = 0,
     sst_OldestPendingAgeSeconds = None, sst_LastLoopAt = None, sst_LastJobClaimAt = None, sst_LastSuccessAt = None,
     sst_LastFailureAt = None, sst_WorkerRunning = False\<rparr>"

definition ClientStats :: "client_env \<Rightarrow> 'x exchange \<Rightarrow> SenderClient \<Rightarrow> ('x, SenderStats) cop" where
  "ClientStats env exchange c = getJSON env exchange c ''/stats'' statsSpec NoStats ''/stats''"

definition jobListSpec :: "SenderJobListItem struct_spec" where
  "jobListSpec = [(''job_id'', intField sli_JobID_update), (''bot'', textField sli_Bot_update),
     (''chat_id'', intField sli_ChatID_update), (''status'', textField sli_Status_update),
     (''attempt_count'', intField sli_AttemptCount_update), (''max_attempts'', intField sli_MaxAttempts_update),
     (''last_error'', textField sli_LastError_update), (''created_at'', textField sli_CreatedAt_update),
     (''updated_at'', textField sli_UpdatedAt_update), (''sent_at'', textPointerField sli_SentAt_update)]"

definition NoListItem :: SenderJobListItem where
  "NoListItem = \<lparr>sli_JobID = 0, sli_Bot = [], sli_ChatID = 0, sli_Status = [], sli_AttemptCount = 0, sli_MaxAttempts = 0,
     sli_LastError = [], sli_CreatedAt = [], sli_UpdatedAt = [], sli_SentAt = None\<rparr>"

definition jobsField :: "json \<Rightarrow> SenderJobListItem list \<Rightarrow> SenderJobListItem list option" where
  "jobsField v r =
     (case v of JNull \<Rightarrow> Some [] | JList vs \<Rightarrow> decodeElements (lenientStruct jobListSpec) NoListItem r vs | _ \<Rightarrow> None)"

definition hex_digit :: "nat \<Rightarrow> char" where
  "hex_digit n = (if n < 10 then char_of (48 + n) else char_of (55 + n))"

definition queryByte :: "char \<Rightarrow> string" where
  "queryByte c =
     (let n = byte_val c in
      if (48 \<le> n \<and> n \<le> 57) \<or> (65 \<le> n \<and> n \<le> 90) \<or> (97 \<le> n \<and> n \<le> 122)
        \<or> c \<in> {CHR ''-'', CHR ''_'', CHR ''.'', CHR ''~''} then [c]
      else if c = CHR '' '' then ''+''
      else [CHR ''%'', hex_digit (n div 16), hex_digit (n mod 16)])"

definition queryEscape :: "string \<Rightarrow> string" where
  "queryEscape s = concat (map queryByte s)"

definition ClientListJobs ::
  "client_env \<Rightarrow> 'x exchange \<Rightarrow> SenderClient \<Rightarrow> string \<Rightarrow> int \<Rightarrow> ('x, SenderJobListItem list) cop" where
  "ClientListJobs env exchange c status limit =
     bindC (getJSON env exchange c (''/jobs?status='' @ queryEscape status @ ''&limit='' @ formatInt limit)
         [(''jobs'', jobsField)] [] ''/jobs'') (\<lambda>jobs.
     ret (Inr (map (\<lambda>j. j\<lparr>sli_LastError := sanitizeSenderLastError (sli_LastError j)\<rparr>) jobs)))"

definition jobSpec :: "SenderJob struct_spec" where
  "jobSpec = [(''job_id'', intField sj_JobID_update), (''status'', textField sj_Status_update),
     (''attempt_count'', intField sj_AttemptCount_update), (''last_error'', textField sj_LastError_update),
     (''created_at'', textField sj_CreatedAt_update), (''updated_at'', textField sj_UpdatedAt_update),
     (''sent_at'', textPointerField sj_SentAt_update)]"

definition NoSenderJob :: SenderJob where
  "NoSenderJob = \<lparr>sj_JobID = 0, sj_Status = [], sj_AttemptCount = 0, sj_LastError = [], sj_CreatedAt = [],
     sj_UpdatedAt = [], sj_SentAt = None\<rparr>"

definition ClientGetJob :: "client_env \<Rightarrow> 'x exchange \<Rightarrow> SenderClient \<Rightarrow> int \<Rightarrow> ('x, SenderJob) cop" where
  "ClientGetJob env exchange c jobID =
     bindC (getJSON env exchange c (''/jobs/'' @ formatInt jobID) jobSpec NoSenderJob ''/jobs'') (\<lambda>job.
     ret (Inr (job\<lparr>sj_LastError := sanitizeSenderLastError (sj_LastError job)\<rparr>)))"

section \<open>Polling\<close>

record DeliveryResult =
  dl_Status :: string
  dl_JobID :: int
  dl_TargetAgent :: string
  dl_Bot :: string
  dl_ChatID :: int
  dl_AttemptCount :: int
  dl_LastError :: string

definition NoDelivery :: DeliveryResult where
  "NoDelivery = \<lparr>dl_Status = [], dl_JobID = 0, dl_TargetAgent = [], dl_Bot = [], dl_ChatID = 0, dl_AttemptCount = 0,
     dl_LastError = []\<rparr>"

definition DefaultPollInterval :: duration where "DefaultPollInterval = 2 * second"
definition DefaultPollTimeout :: duration where "DefaultPollTimeout = 15 * second"

definition MapSenderJobStatus :: "(string \<Rightarrow> string) \<Rightarrow> string \<Rightarrow> error + string" where
  "MapSenderJobStatus ul senderState =
     (case MapSenderJobStatusToDeliveryStatus ul senderState of
        Inl _ \<Rightarrow> Inl (ErrorText (''unknown job status: '' @ trimSpace senderState)) | Inr s \<Rightarrow> Inr s)"

definition composeTimeoutLastError :: "string \<Rightarrow> string" where
  "composeTimeoutLastError lastRetryableError =
     (if trimSpace lastRetryableError = [] then ''polling timed out''
      else ''polling timed out: '' @ trimSpace lastRetryableError)"

text \<open>A timer: every later reading of the clock is at least \<open>t\<close>.\<close>

definition sleepUntil :: "time \<Rightarrow> ('x, unit) op" where
  "sleepUntil t w = (Inr (), w\<lparr>w_clock := \<lambda>n. max t (w_clock w n)\<rparr>)"

definition waitForNextPoll :: "duration \<Rightarrow> time \<Rightarrow> ('x, unit) op" where
  "waitForNextPoll interval deadline =
     bindE now_op (\<lambda>now.
     let remaining = timeSub deadline now in
     if remaining \<le> 0 then ret () else sleepUntil (now + min interval remaining))"

text \<open>The loop of \<open>PollJob\<close>; \<open>None\<close> when the fuel is used up.\<close>

fun pollLoop ::
  "nat \<Rightarrow> client_env \<Rightarrow> 'x exchange \<Rightarrow> SenderClient \<Rightarrow> int \<Rightarrow> duration \<Rightarrow> time \<Rightarrow> string \<Rightarrow> ('x, DeliveryResult option) op" where
  "pollLoop 0 env exchange c jobID interval deadline lastError = ret None"
| "pollLoop (Suc fuel) env exchange c jobID interval deadline lastError =
     bindE (ClientGetJob env exchange c jobID) (\<lambda>r.
     case r of
       Inl e \<Rightarrow>
         if IsPostAcceptNotFound e then
           ret (Some (NoDelivery\<lparr>dl_Status := ''failed'', dl_JobID := jobID,
             dl_LastError := ''job disappeared: '' @ formatInt jobID\<rparr>))
         else if IsRetryablePollError e then
           bindE now_op (\<lambda>now.
           if deadline < now then
             ret (Some (NoDelivery\<lparr>dl_Status := ''retrying'', dl_JobID := jobID,
               dl_LastError := composeTimeoutLastError (client_error_text e)\<rparr>))
           else bindE (waitForNextPoll interval deadline) (\<lambda>_.
             pollLoop fuel env exchange c jobID interval deadline (client_error_text e)))
         else ret (Some (NoDelivery\<lparr>dl_Status := ''failed'', dl_JobID := jobID, dl_LastError := client_error_text e\<rparr>))
     | Inr job \<Rightarrow>
         (case MapSenderJobStatus (cn_lower env) (sj_Status job) of
            Inl e \<Rightarrow> ret (Some (NoDelivery\<lparr>dl_Status := ''failed'', dl_JobID := jobID,
              dl_AttemptCount := sj_AttemptCount job, dl_LastError := error_message e\<rparr>))
          | Inr status \<Rightarrow>
              (let result = NoDelivery\<lparr>dl_Status := status, dl_JobID := jobID, dl_AttemptCount := sj_AttemptCount job,
                     dl_LastError := trimSpace (sj_LastError job)\<rparr> in
               if status = ''sent'' then ret (Some (result\<lparr>dl_LastError := []\<rparr>))
               else if status = ''failed'' then ret (Some result)
               else
                 bindE now_op (\<lambda>now.
                 if deadline < now then
                   ret (Some (result\<lparr>dl_LastError := composeTimeoutLastError lastError, dl_Status := ''retrying''\<rparr>))
                 else bindE (waitForNextPoll interval deadline) (\<lambda>_.
                   pollLoop fuel env exchange c jobID interval deadline lastError)))))"

definition PollJob ::
  "nat \<Rightarrow> client_env \<Rightarrow> 'x exchange \<Rightarrow> SenderClient \<Rightarrow> int \<Rightarrow> duration \<Rightarrow> duration \<Rightarrow> ('x, DeliveryResult option) op" where
  "PollJob fuel env exchange c jobID interval0 timeout0 =
     (let interval = (if interval0 \<le> 0 then DefaultPollInterval else interval0);
          timeout = (if timeout0 \<le> 0 then DefaultPollTimeout else timeout0) in
      bindE now_op (\<lambda>now. pollLoop fuel env exchange c jobID interval (now + timeout) []))"

section \<open>The bridge\<close>

record SkillInput =
  ski_TargetAgent :: string
  ski_Text :: string
  ski_ChatID :: "int option"
  ski_IdempotencyKey :: "string option"

text \<open>The random nonce is the next text of the identifier source; without one the time serves.\<close>

definition deriveDefaultIdempotencyKey :: "string \<Rightarrow> int \<Rightarrow> ('x, string) op" where
  "deriveDefaultIdempotencyKey targetAgent chatID w =
     (let prefix = ''a2a-delivery-'' @ targetAgent @ ''-'' @ formatInt chatID @ ''-'' in
      case w_uuid w (w_ids w) of
        Some nonce \<Rightarrow> (Inr (prefix @ nonce), w\<lparr>w_ids := Suc (w_ids w)\<rparr>)
      | None \<Rightarrow> (Inr (prefix @ formatInt (UnixNano (w_clock w (w_tick w)))),
                 w\<lparr>w_ids := Suc (w_ids w), w_tick := Suc (w_tick w)\<rparr>))"

definition bridgeTarget :: "SkillInput \<Rightarrow> runtime_context \<Rightarrow> error + int" where
  "bridgeTarget input ctx =
     (case ski_ChatID input of
        Some i \<Rightarrow> ResolveTargetUser (Some i) NoTargetUser
      | None \<Rightarrow> (case AdaptTargetUserContext ctx of Inl e \<Rightarrow> Inl e | Inr c \<Rightarrow> ResolveTargetUser None c))"

definition bridgeKey :: "SkillInput \<Rightarrow> string \<Rightarrow> int \<Rightarrow> ('x, string) cop" where
  "bridgeKey input targetAgent chatID =
     (case ski_IdempotencyKey input of
        Some key \<Rightarrow>
          if trimSpace key = [] then fail (failure ''idempotency_key must be non-blank when provided'')
          else ret (Inr (trimSpace key))
      | None \<Rightarrow> bindE (deriveDefaultIdempotencyKey targetAgent chatID) (\<lambda>key. ret (Inr key)))"

definition checkSkillInput :: "SkillInput \<Rightarrow> error option" where
  "checkSkillInput input =
     (if trimSpace (ski_TargetAgent input) = [] then Some (ErrorText ''target_agent is required'')
      else if trimSpace (ski_Text input) = [] then Some (ErrorText ''text is required'')
      else if runeCount (ski_Text input) > TelegramMaxTextLength
      then Some (ErrorText (''text must be <= '' @ formatNat TelegramMaxTextLength @ '' characters''))
      else None)"

text \<open>After the job was accepted: what the caller is told.\<close>

definition afterSend ::
  "nat \<Rightarrow> client_env \<Rightarrow> 'x exchange \<Rightarrow> SenderClient \<Rightarrow> DeliveryResult \<Rightarrow> string \<Rightarrow> ('x, DeliveryResult option) cop" where
  "afterSend fuel env exchange c base sendStatus =
     (case MapSenderJobStatus (cn_lower env) sendStatus of
        Inl e \<Rightarrow> ret (Inr (Some (base\<lparr>dl_Status := ''failed'', dl_LastError := error_message e\<rparr>)))
      | Inr status \<Rightarrow>
          if status = ''sent'' \<or> status = ''failed'' then ret (Inr (Some (base\<lparr>dl_Status := status\<rparr>)))
          else
            bindE (PollJob fuel env exchange c (dl_JobID base) DefaultPollInterval DefaultPollTimeout) (\<lambda>polled.
            ret (Inr (map_option (\<lambda>p. base\<lparr>dl_Status := dl_Status p, dl_JobID := dl_JobID p,
              dl_AttemptCount := dl_AttemptCount p, dl_LastError := dl_LastError p\<rparr>) polled))))"

definition RunA2ADeliveryBridgeWithResolver ::
  "nat \<Rightarrow> client_env \<Rightarrow> 'x exchange \<Rightarrow> SenderClient \<Rightarrow> SkillInput \<Rightarrow> runtime_context \<Rightarrow> TargetAgentBotResolver option
   \<Rightarrow> ('x, DeliveryResult option) cop" where
  "RunA2ADeliveryBridgeWithResolver fuel env exchange c input ctx resolver0 =
     bindC (case resolver0 of None \<Rightarrow> fromC (NewTargetAgentBotResolver (cn_lower env) (cn_quote env) []) | Some r \<Rightarrow> ret (Inr r)) (\<lambda>resolver.
     case checkSkillInput input of
       Some e \<Rightarrow> fail (OtherError e)
     | None \<Rightarrow>
         (let targetAgent = trimSpace (ski_TargetAgent input) in
          bindC (fromC (bridgeTarget input ctx)) (\<lambda>chatID.
          bindC (fromC (ResolveBotForTargetAgent (cn_lower env) (cn_quote env) resolver targetAgent)) (\<lambda>botName.
          bindC (bridgeKey input targetAgent chatID) (\<lambda>idempotencyKey.
          let base = NoDelivery\<lparr>dl_TargetAgent := targetAgent, dl_Bot := botName, dl_ChatID := chatID\<rparr> in
          bindE (Send env exchange c botName chatID (ski_Text input) idempotencyKey) (\<lambda>sent.
          case sent of
            Inl e \<Rightarrow>
              (case e of
                 SenderAPIError status message \<Rightarrow>
                   if status = 409
                   then ret (Inr (Some (base\<lparr>dl_Status := ''failed'', dl_LastError := ''sender idempotency key conflict''\<rparr>)))
                   else fail e
               | _ \<Rightarrow> fail e)
          | Inr (jobID, sendStatus) \<Rightarrow> afterSend fuel env exchange c (base\<lparr>dl_JobID := jobID\<rparr>) sendStatus))))))"

definition RunA2ADeliveryBridge ::
  "nat \<Rightarrow> client_env \<Rightarrow> 'x exchange \<Rightarrow> SenderClient \<Rightarrow> SkillInput \<Rightarrow> runtime_context \<Rightarrow> ('x, DeliveryResult option) cop" where
  "RunA2ADeliveryBridge fuel env exchange c input ctx = RunA2ADeliveryBridgeWithResolver fuel env exchange c input ctx None"

end
