(* ===== verification/Sender_Redaction.thy ===== *)
theory Sender_Redaction
  imports Sender_Http
begin

text \<open>
  The redaction of \<open>job_query_service.go\<close>: \<open>redact\<close> replaces the leftmost matches of the token
  pattern, so what it returns holds no token, and a text without one is not changed.
\<close>

text \<open>A text holds a token when some suffix of it starts with a match.\<close>

definition holds_token :: "string \<Rightarrow> bool" where
  "holds_token s = list_ex (\<lambda>q. match_bot_token q \<noteq> None) (map (\<lambda>i. drop i s) [0..<Suc (length s)])"

lemma holds_token_iff: "holds_token s \<longleftrightarrow> (\<exists>p q. s = p @ q \<and> match_bot_token q \<noteq> None)"
proof
  assume "holds_token s"
  then obtain i where "match_bot_token (drop i s) \<noteq> None"
    unfolding holds_token_def list_ex_iff set_map by blast
  then show "\<exists>p q. s = p @ q \<and> match_bot_token q \<noteq> None" by (metis append_take_drop_id)
next
  assume "\<exists>p q. s = p @ q \<and> match_bot_token q \<noteq> None"
  then obtain p q where "s = p @ q" "match_bot_token q \<noteq> None" by blast
  then have "length p \<in> set [0..<Suc (length s)] \<and> match_bot_token (drop (length p) s) \<noteq> None" by simp
  then show "holds_token s" unfolding holds_token_def list_ex_iff set_map by blast
qed

lemma holds_token_Cons: "holds_token (c # s) \<longleftrightarrow> match_bot_token (c # s) \<noteq> None \<or> holds_token s"
  unfolding holds_token_iff by (metis (no_types) append_Cons append_Nil neq_Nil_conv list.inject)

lemma holds_token_Nil [simp]: "\<not> holds_token []"
  by (simp add: holds_token_iff match_bot_token_def)

text \<open>The shortest text that matches: the prefix, digits, a colon and one token character.\<close>

definition token_seed :: "string \<Rightarrow> bool" where
  "token_seed w \<longleftrightarrow> (\<exists>ds t. w = ''bot'' @ ds @ [CHR '':'', t] \<and> ds \<noteq> [] \<and> list_all is_digit ds \<and> token_char t)"

lemma match_seed: "match_bot_token q \<noteq> None \<longleftrightarrow> (\<exists>w r. token_seed w \<and> q = w @ r)"
proof
  assume m: "match_bot_token q \<noteq> None"
  obtain t where t: "strip_prefix ''bot'' q = Some t"
    using m by (cases "strip_prefix ''bot'' q") (simp_all add: match_bot_token_def)
  obtain c cs where d: "dropWhile is_digit t = c # cs"
    using m t by (cases "dropWhile is_digit t") (simp_all add: match_bot_token_def)
  have c: "takeWhile is_digit t \<noteq> []" "c = CHR '':''" "takeWhile token_char cs \<noteq> []"
    using m t d by (auto simp: match_bot_token_def split: if_splits)
  then obtain x xs where x: "cs = x # xs" "token_char x" by (cases cs) (auto split: if_splits)
  have "q = ''bot'' @ takeWhile is_digit t @ dropWhile is_digit t"
    using t by (simp add: strip_prefix_append)
  then have "q = (''bot'' @ takeWhile is_digit t @ [CHR '':'', x]) @ xs" by (simp add: d c x)
  moreover have "token_seed (''bot'' @ takeWhile is_digit t @ [CHR '':'', x])"
    unfolding token_seed_def
    by (intro exI [of _ "takeWhile is_digit t"] exI [of _ x]) (use c x in \<open>auto simp: list_all_iff dest: set_takeWhileD\<close>)
  ultimately show "\<exists>w r. token_seed w \<and> q = w @ r" by blast
next
  assume "\<exists>w r. token_seed w \<and> q = w @ r"
  then obtain ds t r where q: "q = ''bot'' @ ds @ CHR '':'' # t # r"
    and ds: "ds \<noteq> []" "list_all is_digit ds" "token_char t" unfolding token_seed_def by auto
  have colon: "\<not> is_digit (CHR '':'')" by (simp add: is_digit_def)
  have "takeWhile is_digit (ds @ CHR '':'' # t # r) = ds" "dropWhile is_digit (ds @ CHR '':'' # t # r) = CHR '':'' # t # r"
    using ds colon by (simp_all add: list_all_iff)
  with ds show "match_bot_token q \<noteq> None" by (simp add: q match_bot_token_def)
qed

lemma seed_chars: "token_seed w \<Longrightarrow> CHR ''['' \<notin> set w"
  by (auto simp: token_seed_def list_all_iff is_digit_def token_char_def Let_def dest!: bspec)

lemma before_char: "a @ x # b = w @ r \<Longrightarrow> x \<notin> set w \<Longrightarrow> \<exists>k. a = w @ k"
  by (auto simp: append_eq_append_conv2 Cons_eq_append_conv)

text \<open>Up to the first \<open>[\<close>, redacted text is a prefix of the text.\<close>

lemma redact_prefix: "redact s = w @ r \<Longrightarrow> CHR ''['' \<notin> set w \<Longrightarrow> \<exists>r'. s = w @ r'"
proof (induction s arbitrary: w r rule: redact.induct)
  case (1 s)
  show ?case
  proof (cases s)
    case Nil
    with 1 show ?thesis by (simp add: redact.simps)
  next
    case (Cons c cs)
    show ?thesis
    proof (cases "match_bot_token s")
      case None
      with Cons "1.prems"(1) have e: "c # redact cs = w @ r" by (simp add: redact.simps [of "c # cs"])
      show ?thesis
      proof (cases w)
        case Nil
        then show ?thesis by simp
      next
        case (Cons x w')
        with e have "redact cs = w' @ r" "x = c" by auto
        with "1.IH"(1) [OF \<open>s = c # cs\<close> None, of w' r] "1.prems"(2) Cons \<open>s = c # cs\<close>
        show ?thesis by auto
      qed
    next
      case (Some rest)
      with Cons "1.prems"(1) have e: "''bot['' @ ''redacted]'' @ redact rest = w @ r"
        by (simp add: redact.simps [of "c # cs"])
      obtain v where v: "s = ''bot'' @ v"
        using Some unfolding match_bot_token_def by (auto simp: strip_prefix_append split: option.splits)
      from before_char [of "''bot''" "CHR ''[''" "''redacted]'' @ redact rest" w r] e "1.prems"(2)
      obtain k where "''bot'' = w @ k" by auto
      with v show ?thesis by (metis append.assoc)
    qed
  qed
qed

lemma literal_no_match: "match_bot_token (drop i ''bot[redacted]'' @ r) = None \<or> length ''bot[redacted]'' \<le> i"
proof (cases "i < 13")
  case True
  then have "i = 0 \<or> i = 1 \<or> i = 2 \<or> i = 3 \<or> i = 4 \<or> i = 5 \<or> i = 6 \<or> i = 7 \<or> i = 8 \<or> i = 9 \<or> i = 10
      \<or> i = 11 \<or> i = 12" by arith
  then show ?thesis by (auto simp: match_bot_token_def is_digit_def)
qed simp

lemma holds_token_append_free:
  "(\<And>i. i < length p \<Longrightarrow> match_bot_token (drop i p @ s) = None) \<Longrightarrow> holds_token (p @ s) = holds_token s"
proof (induction p)
  case Nil
  then show ?case by simp
next
  case (Cons c p)
  from Cons.prems [of 0] have "match_bot_token (c # p @ s) = None" by simp
  moreover have "holds_token (p @ s) = holds_token s"
  proof (rule Cons.IH)
    fix i assume "i < length p"
    with Cons.prems [of "Suc i"] show "match_bot_token (drop i p @ s) = None" by simp
  qed
  ultimately show ?case by (simp add: holds_token_Cons)
qed

lemma redact_token_free: "\<not> holds_token (redact s)"
proof (induction s rule: redact.induct)
  case (1 s)
  show ?case
  proof (cases s)
    case Nil
    then show ?thesis by (simp add: redact.simps)
  next
    case (Cons c cs)
    show ?thesis
    proof (cases "match_bot_token s")
      case None
      have "match_bot_token (c # redact cs) = None"
      proof (rule ccontr)
        assume "match_bot_token (c # redact cs) \<noteq> None"
        then obtain w r where w: "token_seed w" "c # redact cs = w @ r" unfolding match_seed by blast
        moreover have "redact s = c # redact cs" using Cons None by (simp add: redact.simps [of "c # cs"])
        ultimately obtain r' where "s = w @ r'" using redact_prefix seed_chars by metis
        with w(1) have "match_bot_token s \<noteq> None" unfolding match_seed by blast
        with None show False by simp
      qed
      with "1.IH"(1) [OF Cons None] Cons None show ?thesis
        by (simp add: redact.simps [of "c # cs"] holds_token_Cons)
    next
      case (Some rest)
      have "redact s = ''bot[redacted]'' @ redact rest" using Cons Some by (simp add: redact.simps [of "c # cs"])
      moreover have "holds_token (''bot[redacted]'' @ redact rest) = holds_token (redact rest)"
        by (rule holds_token_append_free) (use literal_no_match in force)
      ultimately show ?thesis using "1.IH"(2) [OF Cons Some] by simp
    qed
  qed
qed

lemma redact_id: "\<not> holds_token s \<Longrightarrow> redact s = s"
proof (induction s)
  case Nil
  then show ?case by (simp add: redact.simps)
next
  case (Cons c s)
  then have "match_bot_token (c # s) = None" "\<not> holds_token s" by (simp_all add: holds_token_Cons)
  with Cons.IH show ?case by (simp add: redact.simps [of "c # s"])
qed

lemma sanitize_token_free: "\<not> holds_token (sanitizeObservabilityLastError e)"
  by (simp add: sanitizeObservabilityLastError_def redact_token_free)

end
