(* ===== verification/Sender_Contracts.thy ===== *)
theory Sender_Contracts
  imports Sender_Http
begin

text \<open>
  What the sender's operations do to its database: what every run of an operation leaves, under
  any fault plan, and, in a world without faults, its exact result.
\<close>

section \<open>Runs without faults\<close>

named_theorems fault_free \<open>results of operations in a world without faults\<close>

lemma statement_free [fault_free]:
  "w_faults w = [] \<Longrightarrow> statement f w =
     (case f (w_db w) of Inl e \<Rightarrow> (Inl e, w) | Inr (a, d) \<Rightarrow> (Inr a, w\<lparr>w_db := d\<rparr>))"
  by (cases w) (auto simp: statement_def split: sum.splits)

lemma query_free [fault_free]: "w_faults w = [] \<Longrightarrow> query f w = (Inr (f (w_db w)), w)"
  by (cases w) (simp add: query_def statement_free)

lemma modify_free [fault_free]: "w_faults w = [] \<Longrightarrow> modify f w = (Inr (), w\<lparr>w_db := f (w_db w)\<rparr>)"
  by (simp add: modify_def statement_free)

lemma rowE_free [fault_free]:
  "w_faults w = [] \<Longrightarrow>
   rowE row w = (case row (w_db w) of None \<Rightarrow> Inl ErrNoRows | Some r \<Rightarrow> Inr r, w)"
  by (cases w) (simp add: rowE_def statement_free split: option.split)

lemma noRowsE_result:
  "noRowsE m w = (case m w of (Inl e, w') \<Rightarrow> (if error_is e ErrNoRows then Inr None else Inl e, w')
                  | (Inr a, w') \<Rightarrow> (Inr (Some a), w'))"
  by (auto simp: noRowsE_def op_simps split: prod.splits sum.splits)

lemma GetJob_free [fault_free]:
  "w_faults w = [] \<Longrightarrow> GetJob i w =
     (case find_by row_id i (sn_jobs (w_db w)) of None \<Rightarrow> Inl ErrNoRows | Some r \<Rightarrow> Inr (scanJob r), w)"
  by (simp add: GetJob_def bindE_def ret_def fault_free split: option.split)

lemma GetByIdempotencyKey_free [fault_free]:
  "w_faults w = [] \<Longrightarrow> GetByIdempotencyKey key w =
     (Inr (if key = [] then None
           else map_option scanJob (find_by row_key (Some key) (sn_jobs (w_db w)))), w)"
  by (simp add: GetByIdempotencyKey_def noRowsE_result bindE_def ret_def fault_free split: option.split)

lemma ClaimNextReady_free [fault_free]:
  "w_faults w = [] \<Longrightarrow> ClaimNextReady now lease w =
     (case first_claimable now (sn_jobs (w_db w)) of
        None \<Rightarrow> (Inr None, w)
      | Some r \<Rightarrow> (Inr (Some (scanJob (claimed now lease r))),
                   w\<lparr>w_db := update_job (\<lambda>x. row_id x = row_id r) (claimed now lease) (w_db w)\<rparr>))"
  by (simp add: ClaimNextReady_def noRowsE_result fault_free split: option.split)

lemma find_first: "find P xs = Some x \<Longrightarrow> sorted (map f xs) \<Longrightarrow> y \<in> set xs \<Longrightarrow> P y \<Longrightarrow> f x \<le> f y"
  by (induction xs) (auto split: if_splits)

lemma find_member: "find P xs = Some x \<Longrightarrow> x \<in> set xs \<and> P x"
  by (induction xs) (auto split: if_splits)

lemma first_claimable_Some:
  assumes "first_claimable now rows = Some r"
  shows "r \<in> set rows" "claimable now r" "x \<in> set rows \<Longrightarrow> claimable now x \<Longrightarrow> row_id r \<le> row_id x"
proof -
  from assms have f: "find (claimable now) (sort_key row_id rows) = Some r" by (simp add: first_claimable_def)
  then show "r \<in> set rows" "claimable now r" using find_member [OF f] by simp_all
  show "x \<in> set rows \<Longrightarrow> claimable now x \<Longrightarrow> row_id r \<le> row_id x"
    using find_first [OF f, of row_id x] by simp
qed

lemma first_claimable_None: "first_claimable now rows = None \<longleftrightarrow> (\<forall>r\<in>set rows. \<not> claimable now r)"
  by (auto simp: first_claimable_def find_None_iff)

section \<open>Settlements\<close>

abbreviation sending_row :: "int \<Rightarrow> job_row \<Rightarrow> bool" where
  "sending_row i r \<equiv> row_id r = i \<and> row_status r = StatusSending"

text \<open>What a refused settlement reports, by the status of the job's row.\<close>

definition refusal :: "int \<Rightarrow> sender \<Rightarrow> error" where
  "refusal i d = (case find_by row_id i (sn_jobs d) of
     None \<Rightarrow> ErrJobNotFound
   | Some r \<Rightarrow> if row_status r = StatusPending then ErrInvalidTransition else ErrStateConflict)"

definition job_statuses :: "string set" where
  "job_statuses = {StatusPending, StatusSending, StatusRetry, StatusSent, StatusFailed}"

lemma count_where_pos: "count_where c rows > 0 \<longleftrightarrow> (\<exists>r\<in>set rows. c r)"
  by (auto simp: count_where_def filter_empty_conv)

lemma settle_hit:
  assumes "w_faults w = []" and "\<exists>r\<in>set (sn_jobs (w_db w)). sending_row i r"
  shows "settle l i f w = (Inr (), w\<lparr>w_db := update_job (sending_row i) f (w_db w)\<rparr>)"
proof -
  from assms(2) have "count_where (sending_row i) (sn_jobs (w_db w)) > 0" by (simp only: count_where_pos)
  with assms(1) show ?thesis
    by (simp add: settle_def Let_def ensureTransitionSucceeded_def bindE_def wrapE_def ret_def fault_free)
qed

text \<open>A settlement as it should be: the update of the row that is being sent, or a refusal.\<close>

definition settlement :: "string \<Rightarrow> int \<Rightarrow> (job_row \<Rightarrow> job_row) \<Rightarrow> unit nop" where
  "settlement l i f w =
     (if \<exists>r\<in>set (sn_jobs (w_db w)). sending_row i r
      then (Inr (), w\<lparr>w_db := update_job (sending_row i) f (w_db w)\<rparr>)
      else (Inl (ErrorWrap l (refusal i (w_db w))), w))"

lemma settle_free:
  assumes "w_faults w = []"
    and "\<And>r. r \<in> set (sn_jobs (w_db w)) \<Longrightarrow> row_status r \<in> job_statuses"
  shows "settle l i f w = settlement l i f w"
proof (cases "\<exists>r\<in>set (sn_jobs (w_db w)). sending_row i r")
  case True
  then show ?thesis using settle_hit [OF assms(1)] by (simp add: settlement_def)
next
  case False
  then have none: "count_where (sending_row i) (sn_jobs (w_db w)) = 0"
    using count_where_pos by blast
  then have same: "update_job (sending_row i) f (w_db w) = w_db w"
    by (simp add: update_job_def update_where_none)
  have w: "w\<lparr>w_db := w_db w\<rparr> = w" by simp
  show ?thesis
  proof (cases "find_by row_id i (sn_jobs (w_db w))")
    case None
    with False none same assms(1) w show ?thesis
      by (simp add: settle_def Let_def ensureTransitionSucceeded_def classifyTransitionConflict_def refusal_def settlement_def
          bindE_def wrapE_def handleE_def throw_def fault_free del: world.surjective)
  next
    case (Some r)
    then have "r \<in> set (sn_jobs (w_db w))" "row_id r = i" by (auto dest: find_by_Some)
    with False assms(2) [of r] have "row_status r \<in> job_statuses - {StatusSending}" by auto
    with Some False none same assms(1) w show ?thesis
      by (auto simp: settle_def Let_def ensureTransitionSucceeded_def classifyTransitionConflict_def refusal_def settlement_def
          job_statuses_def bindE_def wrapE_def handleE_def throw_def ret_def fault_free)
  qed
qed

text \<open>Under any fault plan a settlement has its effect or none.\<close>

lemma guarantees_rowE [vcg]:
  "E d \<Longrightarrow> (\<And>r. row d = Some r \<Longrightarrow> Q r d) \<Longrightarrow> guarantees (rowE row) Q E d"
  unfolding rowE_def by (rule guarantees_statement) (auto split: option.splits)

lemma guarantees_handleE [vcg]:
  "guarantees m Q (\<lambda>d'. \<forall>e. guarantees (h e) Q E d') d \<Longrightarrow> guarantees (handleE m h) Q E d"
  by (rule guaranteesI) (auto simp: handleE_def split: prod.splits sum.splits dest: guaranteesD)

lemma guarantees_noRowsE [vcg]:
  "guarantees m (\<lambda>a. Q (Some a)) (\<lambda>d'. Q None d' \<and> E d') d \<Longrightarrow> guarantees (noRowsE m) Q E d"
  by (rule guaranteesI) (auto simp: noRowsE_result split: prod.splits sum.splits if_splits dest: guaranteesD)

lemma guarantees_touch [vcg]:
  "Q () (d\<lparr>sn_runtime := map_option f (sn_runtime d)\<rparr>) \<Longrightarrow> guarantees (touch f) Q E d"
  by (rule guaranteesI) (auto simp: touch_def)

lemma guarantees_allI: "(\<And>e. guarantees (h e) Q E d) \<Longrightarrow> \<forall>e. guarantees (h e) Q E d"
  by blast

lemma guarantees_classify [vcg]: "E d \<Longrightarrow> Q () d \<Longrightarrow> guarantees (classifyTransitionConflict i s) Q E d"
  unfolding classifyTransitionConflict_def by (intro vcg guarantees_allI)

lemma guarantees_settle [vcg]:
  "E d \<Longrightarrow> (\<And>d'. d' = update_job (sending_row i) f d \<Longrightarrow> Q () d') \<Longrightarrow>
   E (update_job (sending_row i) f d) \<Longrightarrow> guarantees (settle l i f) Q E d"
  unfolding settle_def Let_def ensureTransitionSucceeded_def by (intro vcg) auto

end
