(* ===== verification/Sender_Delivery.thy ===== *)
theory Sender_Delivery
  imports Sender_Contracts
begin

text \<open>
  The specification of one round of the worker: a decision on the claimed job
  (\<open>delivery\<close>), what the decision makes of the job's row (\<open>deliver_row\<close>), and the proof that
  \<open>ProcessNextAt\<close> does exactly that.
\<close>

section \<open>The specification\<close>

datatype delivery =
    Delivered
  | Postponed duration string
  | Rejected int string

definition deliveryOf :: "Worker \<Rightarrow> Job \<Rightarrow> delivery" where
  "deliveryOf k job =
     (case map_of (wk_bots k) (job_BotName job) of
        None \<Rightarrow> Rejected 0 ''missing bot token configuration''
      | Some cfg \<Rightarrow>
          if trimSpace (bot_Token cfg) = [] then Rejected 0 ''missing bot token configuration''
          else case SendMessage (wk_telegram k) (bot_Token cfg) (messageOf job) of
            None \<Rightarrow> Delivered
          | Some err \<Rightarrow>
              if snd (retryDecision err) \<and> job_AttemptCount job + 1 < job_MaxAttempts job
              then Postponed (retryDelay (job_AttemptCount job + 1) (fst (retryDecision err))) (send_error_text err)
              else Rejected 1 (send_error_text err))"

fun deliver_row :: "time \<Rightarrow> int \<Rightarrow> delivery \<Rightarrow> job_row \<Rightarrow> job_row" where
  "deliver_row now n Delivered r = r\<lparr>row_status := StatusSent, row_attempts := n + 1, row_next_retry := None,
     row_error := [], row_updated := now, row_sent := Some now, row_lease := None\<rparr>"
| "deliver_row now n (Postponed d e) r = r\<lparr>row_status := StatusRetry, row_attempts := n + 1,
     row_next_retry := Some (now + d), row_error := e, row_updated := now, row_sent := None, row_lease := None\<rparr>"
| "deliver_row now n (Rejected c e) r = r\<lparr>row_status := StatusFailed, row_attempts := n + c,
     row_next_retry := None, row_error := e, row_updated := now, row_lease := None\<rparr>"

fun deliver_runtime :: "time \<Rightarrow> delivery \<Rightarrow> RuntimeState \<Rightarrow> RuntimeState" where
  "deliver_runtime now Delivered s = s\<lparr>rs_lastSuccessAt := now\<rparr>"
| "deliver_runtime now (Postponed d e) s = s\<lparr>rs_lastFailureAt := now\<rparr>"
| "deliver_runtime now (Rejected c e) s = s\<lparr>rs_lastFailureAt := now\<rparr>"

definition deliver_label :: "delivery \<Rightarrow> string" where
  "deliver_label a = (case a of Delivered \<Rightarrow> ''mark job as sent'' | Postponed d e \<Rightarrow> ''mark job as retry''
     | Rejected c e \<Rightarrow> ''mark job as failed'')"

section \<open>One settlement\<close>

lemma deliver_row_funs:
  "deliver_row now n Delivered = (\<lambda>r. r\<lparr>row_status := StatusSent, row_attempts := n + 1, row_next_retry := None,
     row_error := [], row_updated := now, row_sent := Some now, row_lease := None\<rparr>)"
  "deliver_row now n (Postponed d e) = (\<lambda>r. r\<lparr>row_status := StatusRetry, row_attempts := n + 1,
     row_next_retry := Some (now + d), row_error := e, row_updated := now, row_sent := None, row_lease := None\<rparr>)"
  "deliver_row now n (Rejected c e) = (\<lambda>r. r\<lparr>row_status := StatusFailed, row_attempts := n + c,
     row_next_retry := None, row_error := e, row_updated := now, row_lease := None\<rparr>)"
  by (simp_all add: fun_eq_iff)

lemma deliver_runtime_funs:
  "deliver_runtime now Delivered = (\<lambda>s. s\<lparr>rs_lastSuccessAt := now\<rparr>)"
  "deliver_runtime now (Postponed d e) = (\<lambda>s. s\<lparr>rs_lastFailureAt := now\<rparr>)"
  "deliver_runtime now (Rejected c e) = (\<lambda>s. s\<lparr>rs_lastFailureAt := now\<rparr>)"
  by (simp_all add: fun_eq_iff)

lemma settleJob_refines:
  "settleJob k now j =
     bindE (tolerate (settle (deliver_label (deliveryOf k j)) (job_ID j)
       (deliver_row now (job_AttemptCount j) (deliveryOf k j)))) (\<lambda>_. touch (deliver_runtime now (deliveryOf k j)))"
  by (auto simp: settleJob_def deliveryOf_def MarkFailed_def MarkSent_def MarkRetry_def MarkJobFailed_def
      MarkJobSucceeded_def deliver_row_funs deliver_runtime_funs deliver_label_def Let_def case_prod_beta
      split: option.splits)

lemma guarantees_settleJob:
  assumes "\<And>d' x. d' = d \<or> d' = update_job (sending_row (job_ID j))
        (deliver_row now (job_AttemptCount j) (deliveryOf k j)) d \<Longrightarrow> Q () (d'\<lparr>sn_runtime := x\<rparr>) \<and> E d'"
  shows "guarantees (settleJob k now j) Q E d"
proof -
  let ?m = "settle (deliver_label (deliveryOf k j)) (job_ID j) (deliver_row now (job_AttemptCount j) (deliveryOf k j))"
  let ?f = "touch (deliver_runtime now (deliveryOf k j)) :: unit nop"
  have after: "guarantees ?f Q E d'" "E d'"
    if "d' = d \<or> d' = update_job (sending_row (job_ID j)) (deliver_row now (job_AttemptCount j) (deliveryOf k j)) d" for d'
    using assms [OF that] by (auto intro!: vcg)
  show ?thesis
    unfolding settleJob_refines tolerate_def
    by (intro vcg guarantees_allI after) simp_all
qed

lemma refusal_conflict:
  "error_is (ErrorWrap l (refusal i d)) ErrStateConflict \<longleftrightarrow>
     (\<exists>r. find_by row_id i (sn_jobs d) = Some r \<and> row_status r \<noteq> StatusPending)"
  by (auto simp: refusal_def ErrStateConflict_def ErrJobNotFound_def ErrInvalidTransition_def split: option.split)

section \<open>One round\<close>

text \<open>What a round makes of the table, when \<open>r\<close> is the row it claims.\<close>

definition round_delivery :: "Worker \<Rightarrow> time \<Rightarrow> job_row \<Rightarrow> delivery" where
  "round_delivery k now r = deliveryOf k (scanJob (claimed now (claimLeaseDuration k) r))"

definition processed :: "Worker \<Rightarrow> time \<Rightarrow> job_row \<Rightarrow> sender \<Rightarrow> sender" where
  "processed k now r d = d\<lparr>
     sn_jobs := update_where (\<lambda>x. row_id x = row_id r)
       (\<lambda>x. deliver_row now (row_attempts r) (round_delivery k now r) (claimed now (claimLeaseDuration k) x)) (sn_jobs d),
     sn_runtime := map_option (\<lambda>s. deliver_runtime now (round_delivery k now r) (s\<lparr>rs_lastJobClaimAt := now\<rparr>))
       (sn_runtime d)\<rparr>"

lemma claimed_fields [simp]:
  "row_id (claimed now l r) = row_id r" "row_status (claimed now l r) = StatusSending"
  "row_attempts (claimed now l r) = row_attempts r" "row_max (claimed now l r) = row_max r"
  by (simp_all add: claimed_def)

lemma claim_then_settle:
  "update_where (sending_row i) g (update_where (\<lambda>x. row_id x = i) (claimed now l) rows) =
   update_where (\<lambda>x. row_id x = i) (\<lambda>x. g (claimed now l x)) rows"
  by (simp add: update_where_def)

lemma ProcessNextAt_free:
  assumes "w_faults w = []"
  shows "ProcessNextAt k now w = (case first_claimable now (sn_jobs (w_db w)) of
      None \<Rightarrow> (Inr False, w)
    | Some r \<Rightarrow> (Inr True, w\<lparr>w_db := processed k now r (w_db w)\<rparr>))"
proof (cases "first_claimable now (sn_jobs (w_db w))")
  case None
  with assms show ?thesis by (simp add: ProcessNextAt_def bindE_def ret_def fault_free)
next
  case (Some r)
  let ?l = "claimLeaseDuration k"
  define j where "j = scanJob (claimed now ?l r)"
  define w1 where "w1 = w\<lparr>w_db := (update_job (\<lambda>x. row_id x = row_id r) (claimed now ?l) (w_db w))
      \<lparr>sn_runtime := map_option (\<lambda>s. s\<lparr>rs_lastJobClaimAt := now\<rparr>) (sn_runtime (w_db w))\<rparr>\<rparr>"
  have j: "job_ID j = row_id r" "job_AttemptCount j = row_attempts r" by (simp_all add: j_def scanJob_def)
  have rows: "sn_jobs (w_db w1) = update_where (\<lambda>x. row_id x = row_id r) (claimed now ?l) (sn_jobs (w_db w))"
    by (simp add: w1_def update_job_def)
  have "claimed now ?l r \<in> set (sn_jobs (w_db w1))"
    using first_claimable_Some(1) [OF Some] by (force simp: rows set_update_where)
  then have hit: "\<exists>x\<in>set (sn_jobs (w_db w1)). sending_row (job_ID j) x" by (intro bexI) (auto simp: j)
  have free: "w_faults w1 = []" by (simp add: w1_def assms)
  have "ProcessNextAt k now w = bindE (settleJob k now j) (\<lambda>_. ret True) w1"
    using assms Some
    by (simp add: ProcessNextAt_def bindE_def fault_free MarkJobClaimed_def touch_def j_def w1_def update_job_def)
  also have "\<dots> = (Inr True, w\<lparr>w_db := processed k now r (w_db w)\<rparr>)"
    unfolding settleJob_refines
    by (simp add: bindE_def tolerate_def handleE_def ret_def settle_hit [OF free hit] touch_def processed_def
        round_delivery_def flip: j_def)
       (simp add: w1_def update_job_def j claim_then_settle option.map_comp comp_def)
  finally show ?thesis using Some by simp
qed

end
