(* ===== verification/Sender_Safety.thy ===== *)
theory Sender_Safety
  imports Sender_Delivery
begin

text \<open>
  The sender as a transition system. HTTP handlers, workers and start-up recovery run
  concurrently; every write is one SQL statement, so a state is the database with the jobs
  that workers hold in memory, and a step is one writing statement of any of them. The
  invariant is proved by rule induction over these steps.
\<close>

section \<open>Steps\<close>

type_synonym queue_state = "sender \<times> Job list"

text \<open>
  \<open>enqueue\<close>: the insert of a request that \<open>Submit\<close> accepted. \<open>claim\<close>: a worker takes a job.
  \<open>settle\<close>: a worker that holds a job settles it, whatever Telegram answered and however old
  its claim is. \<open>recover\<close>: the start-up recovery. \<open>memory\<close>: runtime state changes, a worker
  process dies.
\<close>

inductive queue_step :: "queue_state \<Rightarrow> queue_state \<Rightarrow> bool" where
  enqueue: "checkSend ul s req0 = Inr req \<Longrightarrow> insertJob (createJobOf req) now w = (res, w') \<Longrightarrow>
    queue_step (w_db w, js) (w_db w', js)"
| claim: "ClaimNextReady now lease w = (Inr (Some j), w') \<Longrightarrow> queue_step (w_db w, js) (w_db w', j # js)"
| settle: "j \<in> set js \<Longrightarrow> settleJob k now j w = (res, w') \<Longrightarrow> queue_step (w_db w, js) (w_db w', remove1 j js)"
| recover: "RecoverExpiredSendingJobs now legacy w = (res, w') \<Longrightarrow> queue_step (w_db w, js) (w_db w', js)"
| memory: "set js' \<subseteq> set js \<Longrightarrow> queue_step (d, js) (d\<lparr>sn_runtime := rt\<rparr>, js')"

definition empty_sender :: sender where
  "empty_sender = \<lparr>sn_jobs = [], sn_seq = 0, sn_runtime = None\<rparr>"

definition queue_reachable :: "queue_state \<Rightarrow> bool" where
  "queue_reachable q \<longleftrightarrow> queue_step\<^sup>*\<^sup>* (empty_sender, []) q"

section \<open>The invariant\<close>

text \<open>
  A row's life: it is claimable or held only while attempts are left; it has a lease exactly
  while it is held, a retry time whenever it waits for a retry, a sending time exactly when sent.
\<close>

definition row_ok :: "job_row \<Rightarrow> bool" where
  "row_ok r \<longleftrightarrow> row_status r \<in> job_statuses
     \<and> minMaxAttempts \<le> row_max r \<and> row_max r \<le> maxMaxAttempts
     \<and> 0 \<le> row_attempts r \<and> row_attempts r \<le> row_max r
     \<and> (row_status r \<in> {StatusPending, StatusSending, StatusRetry} \<longrightarrow> row_attempts r < row_max r)
     \<and> (row_lease r \<noteq> None \<longleftrightarrow> row_status r = StatusSending)
     \<and> (row_sent r \<noteq> None \<longleftrightarrow> row_status r = StatusSent)
     \<and> (row_status r = StatusRetry \<longrightarrow> row_next_retry r \<noteq> None)
     \<and> (row_status r = StatusPending \<longrightarrow> row_attempts r = 0 \<and> row_next_retry r = None)
     \<and> row_key r \<noteq> Some [] \<and> row_chat r \<noteq> 0 \<and> trimSpace (row_text r) \<noteq> []"

definition keys_of :: "job_row list \<Rightarrow> string list" where
  "keys_of rows = List.map_filter row_key rows"

definition held_ok :: "sender \<Rightarrow> Job \<Rightarrow> bool" where
  "held_ok d j \<longleftrightarrow> 0 \<le> job_AttemptCount j \<and> job_AttemptCount j < job_MaxAttempts j
     \<and> (\<exists>r\<in>set (sn_jobs d). row_id r = job_ID j \<and> row_max r = job_MaxAttempts j)"

definition sender_inv :: "queue_state \<Rightarrow> bool" where
  "sender_inv = (\<lambda>(d, js).
     distinct (map row_id (sn_jobs d)) \<and> (\<forall>r\<in>set (sn_jobs d). 0 < row_id r \<and> row_id r \<le> sn_seq d)
     \<and> 0 \<le> sn_seq d \<and> distinct (keys_of (sn_jobs d)) \<and> (\<forall>r\<in>set (sn_jobs d). row_ok r)
     \<and> (\<forall>j\<in>set js. held_ok d j))"

lemma same_id:
  "sender_inv (d, js) \<Longrightarrow> x \<in> set (sn_jobs d) \<Longrightarrow> y \<in> set (sn_jobs d) \<Longrightarrow> row_id x = row_id y \<Longrightarrow> x = y"
  unfolding sender_inv_def distinct_map by (auto dest: inj_onD)

text \<open>What never changes of a row, and what an update may do to a table.\<close>

definition message_of :: "job_row \<Rightarrow> int \<times> string \<times> int \<times> string \<times> string option \<times> int \<times> time \<times> int option \<times> bool" where
  "message_of r = (row_id r, row_bot r, row_chat r, row_text r, row_key r, row_max r, row_created r,
     row_reply r, row_silent r)"

lemma message_of_eq: "message_of x = message_of y \<longleftrightarrow> row_id x = row_id y \<and> row_bot x = row_bot y \<and> row_chat x = row_chat y
    \<and> row_text x = row_text y \<and> row_key x = row_key y \<and> row_max x = row_max y \<and> row_created x = row_created y
    \<and> row_reply x = row_reply y \<and> row_silent x = row_silent y"
  by (simp add: message_of_def)

lemma keys_update: "(\<And>r. row_key (f r) = row_key r) \<Longrightarrow> keys_of (update_where c f rows) = keys_of rows"
  unfolding keys_of_def update_where_def List.map_filter_def by (induction rows) auto

lemma set_keys_of: "k \<in> set (keys_of rows) \<longleftrightarrow> Some k \<in> row_key ` set rows"
  unfolding keys_of_def List.map_filter_def by (induction rows) auto

text \<open>One lemma for every \<open>UPDATE\<close>: a row update that keeps the message and the row's rules keeps the invariant.\<close>

lemma update_inv:
  assumes inv: "sender_inv (d, js)"
    and msg: "\<And>r. message_of (f r) = message_of r"
    and ok: "\<And>r. r \<in> set (sn_jobs d) \<Longrightarrow> hit r \<Longrightarrow> row_ok (f r)"
  shows "sender_inv (update_job hit f d, js)"
proof -
  have fields: "row_id (f r) = row_id r" "row_max (f r) = row_max r" "row_key (f r) = row_key r" for r
    using msg [of r] by (simp_all add: message_of_eq)
  have ids: "map row_id (sn_jobs (update_job hit f d)) = map row_id (sn_jobs d)"
    unfolding update_job_def by (simp add: map_update_where_same fields)
  have held: "held_ok (update_job hit f d) j" if "held_ok d j" for j
  proof -
    from that obtain r where r: "r \<in> set (sn_jobs d)" "row_id r = job_ID j" "row_max r = job_MaxAttempts j"
      by (auto simp: held_ok_def)
    then have "(if hit r then f r else r) \<in> set (sn_jobs (update_job hit f d))"
      by (auto simp: update_job_def set_update_where)
    with r that fields show ?thesis unfolding held_ok_def by (metis (full_types))
  qed
  show ?thesis
    using inv held ids fields ok
    by (auto simp: sender_inv_def update_job_def set_update_where keys_update)
qed

lemma memory_inv: "sender_inv (d, js) \<Longrightarrow> set js' \<subseteq> set js \<Longrightarrow> sender_inv (d\<lparr>sn_runtime := rt\<rparr>, js')"
  by (auto simp: sender_inv_def held_ok_def)

section \<open>Every step keeps it\<close>

lemma checkSend_Inr:
  assumes "checkSend ul s req0 = Inr req"
  shows "minMaxAttempts \<le> sc_MaxAttempts req" "sc_MaxAttempts req \<le> maxMaxAttempts"
    "sc_ChatID req \<noteq> 0" "trimSpace (sc_Text req) \<noteq> []"
  using assms by (auto simp: checkSend_def Let_def split: if_splits option.splits)

lemma new_row_ok:
  assumes "checkSend ul s req0 = Inr req"
  shows "row_ok (new_row (createJobOf req) now i)"
  using checkSend_Inr [OF assms]
  by (simp add: row_ok_def new_row_def createJobOf_def job_statuses_def nullableString_def minMaxAttempts_def)

lemma insertJob_db:
  assumes "insertJob j now w = (res, w')"
  shows "w_db w' = w_db w \<or>
    (let i = sn_seq (w_db w) + 1 in
     w_db w' = (w_db w)\<lparr>sn_jobs := sn_jobs (w_db w) @ [new_row j now i], sn_seq := i\<rparr>
     \<and> (cj_IdempotencyKey j \<noteq> [] \<longrightarrow> Some (cj_IdempotencyKey j) \<notin> row_key ` set (sn_jobs (w_db w))))"
proof (cases res)
  case (Inl e)
  with assms show ?thesis by (auto simp: insertJob_def dest: statement_Inl_db)
next
  case (Inr a)
  with assms have "statement (\<lambda>d.
     if cj_IdempotencyKey j \<noteq> [] \<and> Some (cj_IdempotencyKey j) \<in> row_key ` set (sn_jobs d)
     then Inl (ErrConstraint ''constraint failed: UNIQUE constraint failed: jobs.idempotency_key (2067)'')
     else let i = sn_seq d + 1 in
       Inr (i, d\<lparr>sn_jobs := sn_jobs d @ [new_row j now i], sn_seq := i\<rparr>)) w = (Inr a, w')"
    by (simp add: insertJob_def)
  from statement_Inr_db [OF this] show ?thesis by (auto simp: Let_def split: if_splits)
qed

lemma insert_inv:
  assumes inv: "sender_inv (d, js)" and ok: "row_ok r" and i: "row_id r = sn_seq d + 1"
    and key: "\<And>k. row_key r = Some k \<Longrightarrow> Some k \<notin> row_key ` set (sn_jobs d)"
  shows "sender_inv (d\<lparr>sn_jobs := sn_jobs d @ [r], sn_seq := sn_seq d + 1\<rparr>, js)"
proof -
  have keys: "keys_of (sn_jobs d @ [r]) = keys_of (sn_jobs d) @ (case row_key r of None \<Rightarrow> [] | Some k \<Rightarrow> [k])"
    by (simp add: keys_of_def List.map_filter_def split: option.split)
  have "distinct (keys_of (sn_jobs d @ [r]))"
    using inv key by (auto simp: keys sender_inv_def set_keys_of split: option.splits)
  moreover have "\<forall>x\<in>set (sn_jobs d). row_id x \<noteq> row_id r"
    using inv i by (auto simp: sender_inv_def)
  ultimately show ?thesis
    using inv ok i by (auto simp: sender_inv_def held_ok_def)
qed

lemma ClaimNextReady_Some:
  assumes "ClaimNextReady now lease w = (Inr (Some j), w')"
  obtains r where "first_claimable now (sn_jobs (w_db w)) = Some r" and "j = scanJob (claimed now lease r)"
    and "w_db w' = update_job (\<lambda>x. row_id x = row_id r) (claimed now lease) (w_db w)"
proof -
  let ?f = "\<lambda>d. case first_claimable now (sn_jobs d) of
        None \<Rightarrow> Inl ErrNoRows
      | Some r \<Rightarrow> Inr (scanJob (claimed now lease r),
                       update_job (\<lambda>x. row_id x = row_id r) (claimed now lease) d)"
  from assms have "statement ?f w = (Inr j, w')"
    by (auto simp: ClaimNextReady_def noRowsE_result split: prod.splits sum.splits if_splits)
  from statement_Inr_db [OF this] that show thesis by (auto split: option.splits)
qed

lemma claimed_ok:
  "row_ok r \<Longrightarrow> claimable now r \<Longrightarrow> row_ok (claimed now lease r)"
  by (auto simp: row_ok_def claimed_def claimable_def job_statuses_def)

lemma delivered_ok:
  assumes "row_ok r" and "row_status r = StatusSending" and "row_max r = job_MaxAttempts j"
    and "0 \<le> job_AttemptCount j" and "job_AttemptCount j < job_MaxAttempts j"
  shows "row_ok (deliver_row now (job_AttemptCount j) (deliveryOf k j) r)"
proof (cases "deliveryOf k j")
  case Delivered
  with assms show ?thesis by (simp add: row_ok_def job_statuses_def)
next
  case (Postponed d e)
  then have "job_AttemptCount j + 1 < job_MaxAttempts j"
    by (auto simp: deliveryOf_def split: option.splits if_splits)
  with Postponed assms show ?thesis by (simp add: row_ok_def job_statuses_def)
next
  case (Rejected c e)
  then have "c = 0 \<or> c = 1" by (auto simp: deliveryOf_def split: option.splits if_splits)
  with Rejected assms show ?thesis by (auto simp: row_ok_def job_statuses_def)
qed

lemma deliver_row_message [simp]: "message_of (deliver_row now n a r) = message_of r"
  by (cases a) (simp_all add: message_of_def)

lemma claimed_message [simp]: "message_of (claimed now l r) = message_of r"
  by (simp add: message_of_def claimed_def)

lemma recovered_message [simp]: "message_of (recovered now r) = message_of r"
  by (simp add: message_of_def recovered_def)

lemma recovered_ok: "row_ok r \<Longrightarrow> row_status r = StatusSending \<Longrightarrow> row_ok (recovered now r)"
  by (simp add: row_ok_def recovered_def job_statuses_def)

lemma settle_fields:
  assumes "guarantees m (\<lambda>_. P) P (w_db w)" and "m w = (res, w')"
  shows "P (w_db w')"
  using assms by (cases res) (auto dest: guaranteesD)

lemma settleJob_db:
  assumes "settleJob k now j w = (res, w')"
  obtains d x where "w_db w' = d\<lparr>sn_runtime := x\<rparr>"
    and "d = w_db w \<or> d = update_job (sending_row (job_ID j)) (deliver_row now (job_AttemptCount j) (deliveryOf k j)) (w_db w)"
proof -
  let ?ok = "\<lambda>d'. \<exists>d x. d' = d\<lparr>sn_runtime := x\<rparr> \<and> (d = w_db w \<or>
    d = update_job (sending_row (job_ID j)) (deliver_row now (job_AttemptCount j) (deliveryOf k j)) (w_db w))"
  have "guarantees (settleJob k now j) (\<lambda>_. ?ok) ?ok (w_db w)"
    by (rule guarantees_settleJob) (metis (no_types, lifting) sender.surjective sender.update_convs(3))
  with assms have "?ok (w_db w')" by (rule settle_fields [rotated])
  with that show thesis by blast
qed

lemma recover_db:
  assumes "RecoverExpiredSendingJobs now legacy w = (res, w')"
  shows "w_db w' = w_db w \<or> w_db w' = update_job (lease_expired now legacy) (recovered now) (w_db w)"
proof -
  have "guarantees (RecoverExpiredSendingJobs now legacy)
      (\<lambda>_ d. d = update_job (lease_expired now legacy) (recovered now) (w_db w)) (\<lambda>d. d = w_db w) (w_db w)"
    unfolding RecoverExpiredSendingJobs_def by (intro vcg) auto
  with assms show ?thesis by (cases res) (auto dest: guaranteesD)
qed

theorem queue_step_inv: "queue_step q q' \<Longrightarrow> sender_inv q \<Longrightarrow> sender_inv q'"
proof (induction rule: queue_step.induct)
  case (enqueue ul s req0 req now w res w' js)
  let ?j = "createJobOf req"
  let ?r = "new_row ?j now (sn_seq (w_db w) + 1)"
  have "sender_inv ((w_db w)\<lparr>sn_jobs := sn_jobs (w_db w) @ [?r], sn_seq := sn_seq (w_db w) + 1\<rparr>, js)"
    if fresh: "cj_IdempotencyKey ?j \<noteq> [] \<longrightarrow> Some (cj_IdempotencyKey ?j) \<notin> row_key ` set (sn_jobs (w_db w))"
    by (rule insert_inv [OF enqueue.prems new_row_ok [OF enqueue.hyps(1)]])
      (use fresh in \<open>auto simp: new_row_def nullableString_def split: if_splits\<close>)
  with insertJob_db [OF enqueue.hyps(2)] enqueue.prems show ?case by (auto simp: Let_def)
next
  case (claim now lease w j w' js)
  from claim.hyps obtain r where r: "first_claimable now (sn_jobs (w_db w)) = Some r" "j = scanJob (claimed now lease r)"
    "w_db w' = update_job (\<lambda>x. row_id x = row_id r) (claimed now lease) (w_db w)"
    by (rule ClaimNextReady_Some)
  have mem: "r \<in> set (sn_jobs (w_db w))" "claimable now r" using first_claimable_Some [OF r(1)] by simp_all
  have only: "x = r" if "x \<in> set (sn_jobs (w_db w))" "row_id x = row_id r" for x
    using same_id [OF claim.prems that(1) mem(1) that(2)] .
  have ok: "row_ok r" using claim.prems mem(1) by (simp add: sender_inv_def)
  have "sender_inv (w_db w', js)"
    unfolding r(3) by (rule update_inv [OF claim.prems]) (use only claimed_ok [OF ok mem(2)] in auto)
  moreover have "held_ok (w_db w') j"
  proof -
    have "claimed now lease r \<in> set (sn_jobs (w_db w'))"
      using mem(1) by (force simp: r(3) update_job_def set_update_where)
    moreover have "row_attempts r < row_max r" "0 \<le> row_attempts r"
      using ok mem(2) by (auto simp: row_ok_def claimable_def)
    ultimately show ?thesis
      unfolding held_ok_def r(2) by (auto simp: scanJob_def intro!: bexI [of _ "claimed now lease r"])
  qed
  ultimately show ?case by (auto simp: sender_inv_def)
next
  case (settle j js k now w res w')
  let ?f = "deliver_row now (job_AttemptCount j) (deliveryOf k j)"
  from settle.hyps(2) obtain d x where d: "w_db w' = d\<lparr>sn_runtime := x\<rparr>"
    "d = w_db w \<or> d = update_job (sending_row (job_ID j)) ?f (w_db w)" by (rule settleJob_db)
  have held: "held_ok (w_db w) j" using settle by (auto simp: sender_inv_def)
  have max: "row_max r = job_MaxAttempts j" if "r \<in> set (sn_jobs (w_db w))" "row_id r = job_ID j" for r
  proof -
    from held obtain r' where r': "r' \<in> set (sn_jobs (w_db w))" "row_id r' = job_ID j" "row_max r' = job_MaxAttempts j"
      by (auto simp: held_ok_def)
    with that same_id [OF settle.prems] have "r = r'" by metis
    with r'(3) show ?thesis by simp
  qed
  have "sender_inv (update_job (sending_row (job_ID j)) ?f (w_db w), js)"
  proof (rule update_inv [OF settle.prems])
    fix r assume r: "r \<in> set (sn_jobs (w_db w))" "sending_row (job_ID j) r"
    with settle.prems have "row_ok r" by (simp add: sender_inv_def)
    with r max held show "row_ok (?f r)" by (intro delivered_ok) (auto simp: held_ok_def)
  qed simp
  with d settle.prems have "sender_inv (d, js)" by auto
  then show ?case unfolding d(1) by (rule memory_inv) (rule set_remove1_subset)
next
  case (recover now legacy w res w' js)
  have "sender_inv (update_job (lease_expired now legacy) (recovered now) (w_db w), js)"
    by (rule update_inv [OF recover.prems])
      (use recover.prems in \<open>auto simp: sender_inv_def lease_expired_def recovered_ok\<close>)
  with recover_db [OF recover.hyps] recover.prems show ?case by auto
next
  case (memory js' js d rt)
  then show ?case by (auto intro: memory_inv)
qed

lemma empty_sender_inv: "sender_inv (empty_sender, [])"
  by (simp add: sender_inv_def empty_sender_def keys_of_def List.map_filter_def)

lemma queue_reachable_inv: "queue_reachable q \<Longrightarrow> sender_inv q"
proof -
  assume "queue_reachable q"
  then have "queue_step\<^sup>*\<^sup>* (empty_sender, []) q" by (simp add: queue_reachable_def)
  then show ?thesis
    by (induction rule: rtranclp_induct) (auto intro: empty_sender_inv queue_step_inv)
qed

section \<open>What a step leaves alone\<close>

text \<open>A settled row is final; any other row keeps its message.\<close>

definition settled :: "job_row \<Rightarrow> bool" where
  "settled r \<longleftrightarrow> row_status r \<in> {StatusSent, StatusFailed}"

definition keeps_row :: "job_row \<Rightarrow> sender \<Rightarrow> bool" where
  "keeps_row r d \<longleftrightarrow> (\<exists>r'\<in>set (sn_jobs d). message_of r' = message_of r \<and> (settled r \<longrightarrow> r' = r))"

lemma keeps_same: "r \<in> set (sn_jobs d) \<Longrightarrow> keeps_row r d"
  by (auto simp: keeps_row_def)

lemma keeps_runtime: "keeps_row r (d\<lparr>sn_runtime := x\<rparr>) = keeps_row r d"
  by (simp add: keeps_row_def)

lemma keeps_update:
  assumes "r \<in> set (sn_jobs d)" and "\<And>r. message_of (f r) = message_of r" and "settled r \<Longrightarrow> \<not> hit r"
  shows "keeps_row r (update_job hit f d)"
proof -
  have "(if hit r then f r else r) \<in> set (sn_jobs (update_job hit f d))"
    using assms(1) by (auto simp: update_job_def set_update_where)
  with assms(2,3) show ?thesis unfolding keeps_row_def by (metis (full_types))
qed

lemma queue_step_keeps:
  "queue_step q q' \<Longrightarrow> sender_inv q \<Longrightarrow> r \<in> set (sn_jobs (fst q)) \<Longrightarrow> keeps_row r (fst q')"
proof (induction rule: queue_step.induct)
  case (enqueue ul s req0 req now w res w' js)
  with insertJob_db [OF enqueue.hyps(2)] show ?case by (auto simp: Let_def keeps_row_def)
next
  case (claim now lease w j w' js)
  from claim.hyps obtain x where x: "first_claimable now (sn_jobs (w_db w)) = Some x"
    "w_db w' = update_job (\<lambda>y. row_id y = row_id x) (claimed now lease) (w_db w)"
    by (rule ClaimNextReady_Some)
  have mem: "x \<in> set (sn_jobs (w_db w))" "claimable now x" using first_claimable_Some [OF x(1)] by simp_all
  have "row_id r \<noteq> row_id x" if "settled r"
  proof
    assume "row_id r = row_id x"
    with claim.prems mem(1) same_id have "r = x" by (metis fst_conv)
    with mem(2) that show False by (auto simp: claimable_def settled_def)
  qed
  with claim.prems show ?case by (auto simp: x(2) intro: keeps_update)
next
  case (settle j js k now w res w')
  from settle.hyps(2) obtain d x where d: "w_db w' = d\<lparr>sn_runtime := x\<rparr>"
    "d = w_db w \<or> d = update_job (sending_row (job_ID j)) (deliver_row now (job_AttemptCount j) (deliveryOf k j)) (w_db w)"
    by (rule settleJob_db)
  from d(2) settle.prems(2) have "keeps_row r d"
    by (auto simp: settled_def intro: keeps_same keeps_update)
  then show ?case by (simp add: d(1) keeps_runtime)
next
  case (recover now legacy w res w' js)
  have "keeps_row r (update_job (lease_expired now legacy) (recovered now) (w_db w))"
    by (rule keeps_update) (use recover.prems in \<open>auto simp: settled_def lease_expired_def\<close>)
  with recover recover_db [OF recover.hyps] show ?case by (auto intro: keeps_same)
next
  case (memory js' js d rt)
  then show ?case by (simp add: keeps_runtime keeps_same)
qed

lemma queue_steps_keep:
  assumes "queue_step\<^sup>*\<^sup>* q q'" and "sender_inv q" and "r \<in> set (sn_jobs (fst q))"
  shows "keeps_row r (fst q')"
proof -
  from assms(1) have "sender_inv q' \<and> keeps_row r (fst q')"
  proof (induction rule: rtranclp_induct)
    case base
    with assms show ?case by (simp add: keeps_same)
  next
    case (step q1 q2)
    then obtain r1 where r1: "r1 \<in> set (sn_jobs (fst q1))" "message_of r1 = message_of r" "settled r \<longrightarrow> r1 = r"
      by (auto simp: keeps_row_def)
    from step have "sender_inv q2" by (auto intro: queue_step_inv)
    moreover from queue_step_keeps [OF step.hyps(2) _ r1(1)] step.IH obtain r2
      where "r2 \<in> set (sn_jobs (fst q2))" "message_of r2 = message_of r1" "settled r1 \<longrightarrow> r2 = r1"
      by (auto simp: keeps_row_def)
    ultimately show ?case using r1 unfolding keeps_row_def by metis
  qed
  then show ?thesis ..
qed

end
