(* ===== verification/Sender_Submit.thy ===== *)
theory Sender_Submit
  imports Sender_Runs
begin

text \<open>
  What \<open>Submit\<close> does, exactly: the specification of a queue keyed by the idempotency key, and
  the proof that a submission in a world without faults is one lookup or one insertion.
\<close>

definition inserted_row :: "SendCommand \<Rightarrow> time \<Rightarrow> sender \<Rightarrow> job_row" where
  "inserted_row req now d = new_row (createJobOf req) now (sn_seq d + 1)"

definition inserted :: "SendCommand \<Rightarrow> time \<Rightarrow> sender \<Rightarrow> sender" where
  "inserted req now d = d\<lparr>sn_jobs := sn_jobs d @ [inserted_row req now d], sn_seq := sn_seq d + 1\<rparr>"

definition keyed_job :: "string \<Rightarrow> sender \<Rightarrow> job_row option" where
  "keyed_job key d = (if key = [] then None else find_by row_key (Some key) (sn_jobs d))"

definition submitted :: "SendCommand \<Rightarrow> time \<Rightarrow> sender \<Rightarrow> (error + Job) \<times> sender" where
  "submitted req now d =
     (case keyed_job (sc_IdempotencyKey req) d of
        Some r \<Rightarrow> (if sameSendPayload (scanJob r) req then Inr (scanJob r) else Inl ErrIdempotencyKeyConflict, d)
      | None \<Rightarrow> (Inr (scanJob (inserted_row req now d)), inserted req now d))"

lemma sameNullable_refl [simp]: "sameNullableInt64 a a"
  by (cases a) simp_all

lemma inserted_row_payload: "sameSendPayload (scanJob (inserted_row req now d)) req"
  by (simp add: sameSendPayload_def scanJob_def inserted_row_def new_row_def createJobOf_def)

lemma enqueueSend_free:
  assumes "w_faults w = []" and inv: "sender_inv (w_db w, js)" and fresh: "keyed_job (sc_IdempotencyKey req) (w_db w) = None"
  shows "enqueueSend ul req w = (Inr (scanJob (inserted_row req (w_clock w (w_tick w)) (w_db w))),
    w\<lparr>w_tick := Suc (w_tick w), w_db := inserted req (w_clock w (w_tick w)) (w_db w)\<rparr>)"
proof -
  let ?now = "w_clock w (w_tick w)"
  have key: "\<not> (sc_IdempotencyKey req \<noteq> [] \<and> Some (sc_IdempotencyKey req) \<in> row_key ` set (sn_jobs (w_db w)))"
    using fresh by (auto simp: keyed_job_def scan_simps)
  have "sn_seq (w_db w) + 1 \<notin> row_id ` set (sn_jobs (w_db w))"
    using inv by (force simp: sender_inv_def)
  then have "find_by row_id (sn_seq (w_db w) + 1) (sn_jobs (w_db w)) = None"
    by (simp add: find_by_None)
  then have look: "find_by row_id (sn_seq (w_db w) + 1) (sn_jobs (inserted req ?now (w_db w)))
      = Some (inserted_row req ?now (w_db w))"
    by (simp add: inserted_def find_by_append inserted_row_def new_row_def)
  have ins: "insertJob (createJobOf req) ?now v = (Inr (sn_seq (w_db v) + 1), v\<lparr>w_db := inserted req ?now (w_db v)\<rparr>)"
    if "w_faults v = []" "w_db v = w_db w" for v
    using that key by (simp add: insertJob_def fault_free createJobOf_def inserted_def inserted_row_def Let_def)
  show ?thesis
    using assms(1) look
    by (simp add: enqueueSend_def Enqueue_def bindE_def handleE_def wrapE_def ret_def now_op_def ins fault_free
        inserted_row_payload)
qed

lemma Submit_free:
  assumes "w_faults w = []" and "sender_inv (w_db w, js)"
  shows "Submit ul s req0 w =
    (case checkSend ul s req0 of
       Inl e \<Rightarrow> (Inl e, w)
     | Inr req \<Rightarrow>
         let (res, d) = submitted req (w_clock w (w_tick w)) (w_db w) in
         (res, if keyed_job (sc_IdempotencyKey req) (w_db w) = None
               then w\<lparr>w_tick := Suc (w_tick w), w_db := d\<rparr> else w))"
proof (cases "checkSend ul s req0")
  case (Inl e)
  then show ?thesis by (simp add: Submit_def throw_def)
next
  case (Inr req)
  show ?thesis
  proof (cases "keyed_job (sc_IdempotencyKey req) (w_db w)")
    case None
    with enqueueSend_free [OF assms None] Inr assms(1) show ?thesis
      by (simp add: Submit_def bindE_def fault_free submitted_def keyed_job_def split: if_splits)
  next
    case (Some r)
    with Inr assms(1) show ?thesis
      by (auto simp: Submit_def bindE_def ret_def throw_def fault_free submitted_def keyed_job_def split: if_splits)
  qed
qed

section \<open>The queue as a keyed ledger\<close>

text \<open>A row recorded under its key is found again, under that key only, and never replaced.\<close>

definition record_job :: "sender \<Rightarrow> string \<Rightarrow> job_row \<Rightarrow> sender option" where
  "record_job d key r =
     (if key \<noteq> [] \<and> row_key r = Some key \<and> keyed_job key d = None
      then Some (d\<lparr>sn_jobs := sn_jobs d @ [r], sn_seq := sn_seq d + 1\<rparr>) else None)"

interpretation sends: keyed_ledger "\<lambda>d key. keyed_job key d" record_job
  by unfold_locales
    (auto simp: record_job_def keyed_job_def find_by_append split: if_splits option.splits)

lemma record_inserted:
  assumes "sc_IdempotencyKey req \<noteq> []" and "keyed_job (sc_IdempotencyKey req) d = None"
  shows "record_job d (sc_IdempotencyKey req) (inserted_row req now d) = Some (inserted req now d)"
  using assms by (simp add: record_job_def inserted_def inserted_row_def new_row_def createJobOf_def nullableString_def)

lemma keyed_inserted:
  assumes "sc_IdempotencyKey req \<noteq> []" and "keyed_job (sc_IdempotencyKey req) d = None"
  shows "keyed_job (sc_IdempotencyKey req) (inserted req now d) = Some (inserted_row req now d)"
  by (rule sends.record_find [OF record_inserted [OF assms]])

text \<open>Whatever is inserted later, a key keeps its job.\<close>

lemma keyed_stable:
  assumes "keyed_job key d = Some r"
  shows "keyed_job key (inserted req now d) = Some r"
proof (cases "sc_IdempotencyKey req \<noteq> [] \<and> keyed_job (sc_IdempotencyKey req) d = None")
  case True
  then show ?thesis by (intro sends.entry_stable [OF assms record_inserted]) auto
next
  case False
  with assms show ?thesis
    by (auto simp: keyed_job_def inserted_def find_by_append split: if_splits)
qed

text \<open>Along the steps of the system a key keeps its job, up to the job's progress.\<close>

lemma keys_of_Cons: "keys_of (x # rows) = (case row_key x of None \<Rightarrow> [] | Some k \<Rightarrow> [k]) @ keys_of rows"
  by (simp add: keys_of_def List.map_filter_def split: option.split)

lemma keyed_unique:
  assumes "sender_inv (d, js)" and "r \<in> set (sn_jobs d)" and "row_key r = Some key"
  shows "keyed_job key d = Some r"
proof -
  have "distinct (keys_of (sn_jobs d))" and "row_ok r" using assms by (auto simp: sender_inv_def)
  then have "key \<noteq> []" using assms(3) by (auto simp: row_ok_def)
  moreover have "find_by row_key (Some key) rows = Some r"
    if "distinct (keys_of rows)" "r \<in> set rows" for rows
    using that
  proof (induction rows)
    case (Cons x rows)
    show ?case
    proof (cases "row_key x = Some key")
      case True
      then have "Some key \<notin> row_key ` set rows"
        using Cons.prems(1) by (simp add: keys_of_Cons set_keys_of)
      with Cons.prems(2) assms(3) have "r = x" by force
      with True show ?thesis by (simp add: find_by_def)
    next
      case False
      with Cons.prems assms(3) have "r \<in> set rows" "distinct (keys_of rows)"
        by (auto simp: keys_of_Cons split: option.splits)
      with Cons.IH False show ?thesis by (simp add: find_by_def)
    qed
  qed simp
  ultimately show ?thesis using \<open>distinct _\<close> assms(2) by (simp add: keyed_job_def)
qed

lemma keyed_steps:
  assumes "queue_step\<^sup>*\<^sup>* q q'" and "sender_inv q" and "keyed_job key (fst q) = Some r"
  obtains r' where "keyed_job key (fst q') = Some r'" and "message_of r' = message_of r"
proof -
  have r: "r \<in> set (sn_jobs (fst q))" "row_key r = Some key"
    using assms(3) by (auto simp: keyed_job_def split: if_splits dest: find_by_Some)
  from queue_steps_keep [OF assms(1,2) r(1)] obtain r' where
    r': "r' \<in> set (sn_jobs (fst q'))" "message_of r' = message_of r" by (auto simp: keeps_row_def)
  have "sender_inv q'" using assms(1,2) by (induction rule: rtranclp_induct) (auto intro: queue_step_inv)
  then have "keyed_job key (fst q') = Some r'"
    using keyed_unique [of "fst q'" "snd q'" r' key] r' r(2) by (simp add: message_of_eq)
  with r'(2) that show thesis by blast
qed

lemma same_message_payload:
  "message_of r' = message_of r \<Longrightarrow> sameSendPayload (scanJob r') req = sameSendPayload (scanJob r) req"
  by (simp add: message_of_eq sameSendPayload_def scanJob_def)

end
