(* ===== verification/Sender_Drain.thy ===== *)
theory Sender_Drain
  imports Sender_Submit
begin

text \<open>
  Why the worker's loop ends its work: every round that processes a job uses up one of the
  attempts left in the queue, and as long as a job waits there is an instant at which a round
  processes one.
\<close>

section \<open>The attempts left\<close>

definition waiting :: "job_row \<Rightarrow> bool" where
  "waiting r \<longleftrightarrow> row_status r \<in> {StatusPending, StatusRetry}"

definition work_left :: "job_row \<Rightarrow> nat" where
  "work_left r = (if waiting r then nat (row_max r - row_attempts r) else 0)"

definition attempts_left :: "sender \<Rightarrow> nat" where
  "attempts_left d = sum_list (map work_left (sn_jobs d))"

definition processAll :: "Worker \<Rightarrow> time list \<Rightarrow> bool list nop" where
  "processAll k ts = mapE (ProcessNextAt k) ts"

lemma update_where_sum:
  assumes "r \<in> set rows" and "hit r" and "g (f r) < (g r :: nat)"
    and "\<And>x. x \<in> set rows \<Longrightarrow> hit x \<Longrightarrow> g (f x) \<le> g x"
  shows "sum_list (map g (update_where hit f rows)) < sum_list (map g rows)"
  using assms
proof (induction rows)
  case (Cons x rows)
  have le: "sum_list (map g (update_where hit f rows)) \<le> sum_list (map g rows)"
    unfolding update_where_def map_map comp_def
    by (rule sum_list_mono) (use Cons.prems(4) in auto)
  show ?case
  proof (cases "x = r")
    case True
    with le Cons.prems(2,3) show ?thesis by (simp add: update_where_def)
  next
    case False
    with Cons have "sum_list (map g (update_where hit f rows)) < sum_list (map g rows)" by simp
    moreover have "g (if hit x then f x else x) \<le> g x" using Cons.prems(4) by simp
    ultimately show ?thesis by (simp add: update_where_def)
  qed
qed simp

lemma claimable_waiting: "claimable now r \<Longrightarrow> waiting r"
  by (auto simp: claimable_def waiting_def)

lemma round_uses_attempt:
  assumes "row_ok r" and "claimable now r"
  shows "work_left (deliver_row now (row_attempts r) (round_delivery k now r) (claimed now l r)) < work_left r"
proof -
  have "row_attempts r < row_max r" "0 \<le> row_attempts r" using assms by (auto simp: row_ok_def claimable_def)
  with claimable_waiting [OF assms(2)] show ?thesis
    by (cases "round_delivery k now r") (auto simp: work_left_def waiting_def)
qed

lemma processed_attempts:
  assumes "sender_inv (d, js)" and "first_claimable now (sn_jobs d) = Some r"
  shows "attempts_left (processed k now r d) < attempts_left d"
proof -
  have r: "r \<in> set (sn_jobs d)" "claimable now r" using first_claimable_Some [OF assms(2)] by simp_all
  have ok: "row_ok r" using assms(1) r(1) by (simp add: sender_inv_def)
  have only: "x = r" if "x \<in> set (sn_jobs d)" "row_id x = row_id r" for x
    using same_id [OF assms(1) that(1) r(1) that(2)] .
  note less = round_uses_attempt [OF ok r(2), of k "claimLeaseDuration k"]
  show ?thesis
    unfolding attempts_left_def processed_def
    by (simp, rule update_where_sum [OF r(1)]) (use only less in \<open>metis less_imp_le order_refl\<close>)+
qed

lemma sender_inv_run: "moves m \<Longrightarrow> m w = (res, w') \<Longrightarrow> sender_inv (w_db w, js) \<Longrightarrow> sender_inv (w_db w', js)"
proof -
  assume "moves m" "m w = (res, w')" and inv: "sender_inv (w_db w, js)"
  then have "queue_step\<^sup>*\<^sup>* (w_db w, js) (w_db w', js)" by (blast intro: movesD)
  then show ?thesis using inv by (induction rule: rtranclp_induct) (auto intro: queue_step_inv)
qed

text \<open>The rounds that process a job are at most the attempts left.\<close>

lemma rounds_bounded:
  assumes "w_faults w = []" and "sender_inv (w_db w, js)"
  shows "\<exists>bs w'. processAll k ts w = (Inr bs, w') \<and> w_faults w' = [] \<and> sender_inv (w_db w', js)
    \<and> length (filter (\<lambda>b. b) bs) + attempts_left (w_db w') \<le> attempts_left (w_db w)"
  using assms
proof (induction ts arbitrary: w)
  case Nil
  then show ?case by (simp add: processAll_def ret_def)
next
  case (Cons t ts)
  obtain b w1 where one: "ProcessNextAt k t w = (Inr b, w1)" "w_faults w1 = []"
    "(if b then 1 else 0) + attempts_left (w_db w1) \<le> attempts_left (w_db w)"
  proof (cases "first_claimable t (sn_jobs (w_db w))")
    case None
    with ProcessNextAt_free [OF Cons.prems(1), of k t] Cons.prems(1) that [of False w] show thesis by simp
  next
    case (Some r)
    with ProcessNextAt_free [OF Cons.prems(1), of k t] Cons.prems(1)
      processed_attempts [OF Cons.prems(2) Some, of k] that [of True "w\<lparr>w_db := processed k t r (w_db w)\<rparr>"]
    show thesis by simp
  qed
  have "sender_inv (w_db w1, js)" by (rule sender_inv_run [OF moves_ProcessNextAt one(1) Cons.prems(2)])
  from Cons.IH [OF one(2) this] obtain bs w' where "mapE (ProcessNextAt k) ts w1 = (Inr bs, w')" "w_faults w' = []"
    "sender_inv (w_db w', js)" "length (filter (\<lambda>b. b) bs) + attempts_left (w_db w') \<le> attempts_left (w_db w1)"
    by (auto simp: processAll_def)
  with one show ?case by (auto simp: processAll_def bindE_def ret_def)
qed

section \<open>The queue drains\<close>

lemma waiting_claimable:
  assumes "sender_inv (d, js)" and "r \<in> set (sn_jobs d)" and "waiting r"
  obtains now where "claimable now r"
proof -
  have ok: "row_ok r" using assms by (simp add: sender_inv_def)
  from assms(3) consider "row_status r = StatusPending" | "row_status r = StatusRetry" by (auto simp: waiting_def)
  then show thesis
  proof cases
    case 1
    then show thesis by (intro that [of 0]) (simp add: claimable_def)
  next
    case 2
    with ok obtain t where "row_next_retry r = Some t" by (auto simp: row_ok_def)
    with 2 show thesis by (intro that [of t]) (simp add: claimable_def)
  qed
qed

lemma queue_drains_lemma:
  assumes "w_faults w = []" and "sender_inv (w_db w, js)"
  shows "\<exists>ts bs w'. length ts \<le> attempts_left (w_db w) \<and> processAll k ts w = (Inr bs, w')
    \<and> (\<forall>r\<in>set (sn_jobs (w_db w')). \<not> waiting r)"
  using assms
proof (induction "attempts_left (w_db w)" arbitrary: w rule: less_induct)
  case less
  show ?case
  proof (cases "\<exists>r\<in>set (sn_jobs (w_db w)). waiting r")
    case False
    then show ?thesis by (intro exI [of _ "[]"]) (auto simp: processAll_def ret_def)
  next
    case True
    then obtain x now where x: "x \<in> set (sn_jobs (w_db w))" "claimable now x"
      using waiting_claimable [OF less.prems(2)] by blast
    then obtain r where r: "first_claimable now (sn_jobs (w_db w)) = Some r"
      using first_claimable_None by fastforce
    define w1 where "w1 = w\<lparr>w_db := processed k now r (w_db w)\<rparr>"
    have one: "ProcessNextAt k now w = (Inr True, w1)"
      using ProcessNextAt_free [OF less.prems(1), of k now] r by (simp add: w1_def)
    have fewer: "attempts_left (w_db w1) < attempts_left (w_db w)"
      using processed_attempts [OF less.prems(2) r, of k] by (simp add: w1_def)
    have "w_faults w1 = []" using less.prems(1) by (simp add: w1_def)
    from less.hyps [OF fewer this sender_inv_run [OF moves_ProcessNextAt one less.prems(2)]] obtain ts bs w' where
      rest: "length ts \<le> attempts_left (w_db w1)" "mapE (ProcessNextAt k) ts w1 = (Inr bs, w')"
        "\<forall>r\<in>set (sn_jobs (w_db w')). \<not> waiting r" by (auto simp: processAll_def)
    show ?thesis
      using rest one fewer
      by (intro exI [of _ "now # ts"] exI [of _ "True # bs"] exI [of _ w'])
        (auto simp: processAll_def bindE_def ret_def)
  qed
qed

end
