(* ===== verification/Sender_Views.thy ===== *)
theory Sender_Views
  imports Sender_Redaction Sender_Drain
begin

text \<open>
  What the sender's HTTP server may change and what it may show: only an authorized \<open>POST /send\<close>
  writes, every request is answered, the statistics partition the queue, and no job view holds a
  bot token.
\<close>

section \<open>Reads\<close>

lemma preserves_rowE [preserves_intros]: "preserves P (rowE row)"
  unfolding rowE_def by (rule preserves_statement) (auto split: option.splits)

lemma preserves_snapshot [preserves_intros]: "preserves P snapshotE"
  by (simp add: preserves_def snapshotE_def)

lemma preserves_respond [preserves_intros]: "preserves P m \<Longrightarrow> preserves P (respond m ok err)"
  unfolding respond_def by (intro preserves_intros)

lemma preserves_GetJob [preserves_intros]: "preserves P (GetJob i)"
  unfolding GetJob_def by (intro preserves_intros)

lemma preserves_GetStats [preserves_intros]: "preserves P (GetStats now)"
  unfolding GetStats_def Let_def by (intro preserves_intros)

lemma preserves_ListJobs [preserves_intros]: "preserves P (ListJobs f)"
  unfolding ListJobs_def by (intro preserves_intros)

definition may_send :: "HTTPHandler \<Rightarrow> http_request \<Rightarrow> bool" where
  "may_send h r \<longleftrightarrow> hr_Path r = ''/send'' \<and> hr_Method r = ''POST'' \<and> authorized h (hr_Authorization r)"

lemma handleSend_reads:
  "\<not> (hr_Method r = ''POST'' \<and> authorized h (hr_Authorization r)) \<Longrightarrow> preserves P (handleSend ul decode h r)"
  unfolding handleSend_def by (auto intro!: preserves_intros)

lemma reads_unless_send:
  assumes "\<not> may_send h r"
  shows "preserves P (ServeHTTP ul decode h r)"
proof -
  have "hr_Path r = ''/send'' \<Longrightarrow> preserves P (handleSend ul decode h r)"
    using assms by (auto simp: may_send_def intro: handleSend_reads)
  then show ?thesis
    unfolding ServeHTTP_def handleHealthz_def handleReadyz_def handleStats_def handleListJobs_def handleGetJob_def
      Readiness_def queryStats_def queryJobs_def Ping_def Let_def
    by (intro preserves_intros)
qed

section \<open>Every request is answered\<close>

definition body_token_free :: "response_body \<Rightarrow> bool" where
  "body_token_free b = (case b of
     JobsBody items \<Rightarrow> list_all (\<lambda>i. \<not> holds_token (ji_LastError i)) items
   | JobBody j \<Rightarrow> \<not> holds_token (jr_LastError j)
   | _ \<Rightarrow> True)"

text \<open>The answers to a request: a known status, 202 for an authorized send only, no token shown.\<close>

definition proper_response :: "HTTPHandler \<Rightarrow> http_request \<Rightarrow> response \<Rightarrow> bool" where
  "proper_response h r = (\<lambda>(code, b). code \<in> {200, 202, 400, 401, 403, 404, 405, 409, 500, 503}
     \<and> (code = 202 \<longrightarrow> may_send h r) \<and> body_token_free b)"

definition answers :: "(response \<Rightarrow> bool) \<Rightarrow> response nop \<Rightarrow> bool" where
  "answers P m \<longleftrightarrow> (\<forall>w. \<exists>a w'. m w = (Inr a, w') \<and> P a)"

named_theorems answers_intros \<open>rules for answers\<close>

lemma answers_ret [answers_intros]: "P a \<Longrightarrow> answers P (ret a)"
  by (simp add: answers_def ret_def)

lemma answers_respond:
  assumes "\<And>d. guarantees m (\<lambda>a _. P (ok a)) (\<lambda>_. True) d" and "\<And>e. P (err e)"
  shows "answers P (respond m ok err)"
  unfolding answers_def
proof
  fix w
  show "\<exists>a w'. respond m ok err w = (Inr a, w') \<and> P a"
  proof (cases "m w")
    case (Pair res w1)
    show ?thesis
    proof (cases res)
      case (Inl e)
      with Pair assms(2) show ?thesis by (simp add: respond_def bindE_def handleE_def ret_def)
    next
      case (Inr a)
      with Pair guaranteesD(2) [OF assms(1)] have "P (ok a)" by blast
      with Pair Inr show ?thesis by (simp add: respond_def bindE_def handleE_def ret_def)
    qed
  qed
qed

lemma answers_respond_any [answers_intros]:
  "(\<And>a. P (ok a)) \<Longrightarrow> (\<And>e. P (err e)) \<Longrightarrow> answers P (respond m ok err)"
  by (rule answers_respond) (auto simp: guarantees_def split: prod.split sum.split)

lemma answers_if [answers_intros]:
  "(b \<Longrightarrow> answers P m) \<Longrightarrow> (\<not> b \<Longrightarrow> answers P n) \<Longrightarrow> answers P (if b then m else n)"
  by simp

lemma answers_option [answers_intros]:
  "answers P m \<Longrightarrow> (\<And>a. answers P (f a)) \<Longrightarrow> answers P (case x of None \<Rightarrow> m | Some a \<Rightarrow> f a)"
  by (cases x) simp_all

lemma answers_sum [answers_intros]:
  "(\<And>a. answers P (f a)) \<Longrightarrow> (\<And>b. answers P (g b)) \<Longrightarrow> answers P (case x of Inl a \<Rightarrow> f a | Inr b \<Rightarrow> g b)"
  by (cases x) simp_all

lemma answers_prod [answers_intros]: "(\<And>a b. answers P (f a b)) \<Longrightarrow> answers P (case x of (a, b) \<Rightarrow> f a b)"
  by (cases x) simp_all

lemma job_items_token_free:
  "guarantees (queryJobs status limit) (\<lambda>items _. list_all (\<lambda>i. \<not> holds_token (ji_LastError i)) items) (\<lambda>_. True) d"
  unfolding queryJobs_def ListJobs_def
  by (intro vcg) (auto simp: list_all_iff mapJobListItem_def sanitize_token_free)

lemma handleListJobs_proper: "answers (proper_response h r) (handleListJobs h r)"
proof -
  have "proper_response h r (listJobsError e)" for e
    by (simp add: proper_response_def listJobsError_def body_token_free_def)
  moreover have "guarantees (queryJobs status limit) (\<lambda>a _. proper_response h r (200, JobsBody a)) (\<lambda>_. True) d" for status limit d
    by (rule guarantees_mono [OF job_items_token_free]) (simp_all add: proper_response_def body_token_free_def)
  ultimately show ?thesis
    unfolding handleListJobs_def
    by (intro answers_intros answers_respond)
      (simp_all add: proper_response_def body_token_free_def StatusMethodNotAllowed_def)
qed

lemma writeSendError_proper: "proper_response h r (writeSendError e)"
  by (simp add: proper_response_def writeSendError_def sendErrorResponse_def body_token_free_def)

lemma ServeHTTP_proper: "answers (proper_response h r) (ServeHTTP ul decode h r)"
proof -
  note simps = proper_response_def body_token_free_def StatusMethodNotAllowed_def StatusNotFound_def
  have jobs: "answers (proper_response h r) (handleGetJob r)"
    unfolding handleGetJob_def Let_def
    by (intro answers_intros) (simp_all add: simps jobView_def sanitize_token_free)
  have send: "answers (proper_response h r) (handleSend ul decode h r)" if "hr_Path r = ''/send''"
    unfolding handleSend_def
    by (intro answers_intros writeSendError_proper) (use that in \<open>simp_all add: simps sendBody_def may_send_def\<close>)
  show ?thesis
    unfolding ServeHTTP_def handleHealthz_def handleReadyz_def handleStats_def
    by (intro answers_intros jobs send handleListJobs_proper) (simp_all add: simps)
qed

lemma authorized_key:
  "authorized h header \<longleftrightarrow> hh_senderAuthKey h \<noteq> [] \<and>
     (\<exists>rest. trimSpace header = ''Bearer '' @ rest \<and> trimSpace rest = hh_senderAuthKey h)"
  by (auto simp: authorized_def Let_def hasPrefix_def trimPrefix_def strip_prefix_append
      split: option.splits if_splits)

section \<open>Statistics\<close>

definition statuses :: "string list" where
  "statuses = [StatusPending, StatusRetry, StatusSending, StatusFailed, StatusSent]"

definition total_jobs :: "JobStats \<Rightarrow> nat" where
  "total_jobs s = js_PendingCount s + js_RetryCount s + js_SendingCount s + js_FailedCount s + js_SentCount s"

lemma count_partition:
  "(\<And>r. r \<in> set rows \<Longrightarrow> row_status r \<in> job_statuses) \<Longrightarrow>
   sum_list (map (\<lambda>s. count_where (\<lambda>r. row_status r = s) rows) statuses) = length rows"
proof (induction rows)
  case Nil
  then show ?case by (simp add: count_where_def statuses_def)
next
  case (Cons r rows)
  have "row_status r \<in> job_statuses" using Cons.prems [of r] by simp
  moreover have "sum_list (map (\<lambda>s. count_where (\<lambda>r. row_status r = s) rows) statuses) = length rows"
    using Cons by simp
  ultimately show ?case by (auto simp: count_where_def statuses_def job_statuses_def)
qed

lemma oldest_pending_cases:
  obtains "oldest_pending d = None" and "\<forall>r\<in>set (sn_jobs d). row_status r \<noteq> StatusPending"
  | r where "r \<in> set (sn_jobs d)" and "row_status r = StatusPending"
      and "oldest_pending d = Some (formatTime (row_created r))"
      and "\<forall>x\<in>set (sn_jobs d). row_status x = StatusPending \<longrightarrow> formatTime (row_created r) \<le> formatTime (row_created x)"
proof (cases "filter (\<lambda>r. row_status r = StatusPending) (sn_jobs d)")
  case Nil
  then show thesis by (intro that(1)) (simp_all add: oldest_pending_def filter_empty_conv)
next
  case (Cons a rs)
  let ?rows = "filter (\<lambda>r. row_status r = StatusPending) (sn_jobs d)"
  let ?T = "set (map (\<lambda>r. formatTime (row_created r)) ?rows)"
  have "?T \<noteq> {}" using Cons by simp
  then have "Min ?T \<in> ?T" by (intro Min_in) simp_all
  then obtain r where "r \<in> set ?rows" "Min ?T = formatTime (row_created r)" by auto
  moreover have "\<forall>x\<in>set ?rows. Min ?T \<le> formatTime (row_created x)" by simp
  moreover have "oldest_pending d = Some (Min ?T)" using Cons by (simp add: oldest_pending_def)
  ultimately show thesis by (intro that(2) [of r]) auto
qed

definition stats_of :: "time \<Rightarrow> sender \<Rightarrow> JobStats" where
  "stats_of now d = \<lparr>js_PendingCount = count_status StatusPending d,
       js_RetryCount = count_status StatusRetry d, js_SendingCount = count_status StatusSending d,
       js_FailedCount = count_status StatusFailed d, js_SentCount = count_status StatusSent d,
       js_OldestPendingAgeSeconds = map_option (\<lambda>text. max 0 (wholeSeconds (timeSub now (the (parseTime text)))))
         (oldest_pending d)\<rparr>"

lemma GetStats_free: "w_faults w = [] \<Longrightarrow> GetStats now w = (Inr (stats_of now (w_db w)), w)"
  by (cases rule: oldest_pending_cases [of "w_db w"])
    (auto simp: GetStats_def stats_of_def bindE_def wrapE_def ret_def Let_def fault_free max_def)

lemma stats_partition_lemma:
  assumes "sender_inv (d, js)"
  shows "total_jobs (stats_of now d) = length (sn_jobs d)"
  using count_partition [of "sn_jobs d"] assms
  by (simp add: sender_inv_def row_ok_def statuses_def total_jobs_def stats_of_def count_status_def)

end
