(* ===== verification/Delivery_Contracts.thy ===== *)
theory Delivery_Contracts
  imports Delivery_Bridge Sender_Views Sender_Submit
begin

text \<open>
  What polling and the delivery bridge promise over any transport that answers: a poll ends when
  time passes, its verdict is what the sender last said, and it gives up only after its deadline.
  The sender's own HTTP server is such a transport.
\<close>

section \<open>Time goes on\<close>

definition onward :: "('x, 'a) op \<Rightarrow> bool" where
  "onward m \<longleftrightarrow> (\<forall>w. w_tick w \<le> w_tick (snd (m w)) \<and> (\<forall>n. w_clock w n \<le> w_clock (snd (m w)) n))"

named_theorems onward_intros \<open>operations that never turn the clock back\<close>

lemma onwardD: "onward m \<Longrightarrow> m w = (r, w') \<Longrightarrow> w_tick w \<le> w_tick w' \<and> (\<forall>n. w_clock w n \<le> w_clock w' n)"
  unfolding onward_def by (metis snd_conv)

lemma onward_ret [onward_intros]: "onward (ret a)"
  by (simp add: onward_def ret_def)

lemma onward_throw [onward_intros]: "onward (throw e)"
  by (simp add: onward_def throw_def)

lemma onward_fail [onward_intros]: "onward (fail e)"
  by (simp add: fail_def onward_ret)

lemma onward_now [onward_intros]: "onward now_op"
  by (simp add: onward_def now_op_def)

lemma onward_bindE [onward_intros]: "onward m \<Longrightarrow> (\<And>a. onward (f a)) \<Longrightarrow> onward (bindE m f)"
  unfolding onward_def bindE_def
  by (auto split: prod.split sum.split) (metis order_trans snd_conv)+

lemma onward_handleE [onward_intros]: "onward m \<Longrightarrow> (\<And>e. onward (h e)) \<Longrightarrow> onward (handleE m h)"
  unfolding onward_def handleE_def
  by (auto split: prod.split sum.split) (metis order_trans snd_conv)+

lemma onward_wrapE [onward_intros]: "onward m \<Longrightarrow> onward (wrapE l m)"
  unfolding onward_def wrapE_def by (auto split: prod.split sum.split) (metis snd_conv)+

lemma onward_statement [onward_intros]: "onward (statement f)"
  unfolding onward_def statement_def by (auto split: list.split option.split sum.split prod.split)

lemma onward_query [onward_intros]: "onward (query f)"
  by (simp add: query_def onward_statement)

lemma onward_checkE [onward_intros]: "onward (checkE b e)"
  by (simp add: checkE_def onward_ret onward_throw)

lemma onward_if [onward_intros]: "onward m \<Longrightarrow> onward n \<Longrightarrow> onward (if b then m else n)"
  by simp

lemma onward_option [onward_intros]:
  "onward m \<Longrightarrow> (\<And>a. onward (f a)) \<Longrightarrow> onward (case x of None \<Rightarrow> m | Some a \<Rightarrow> f a)"
  by (cases x) simp_all

lemma onward_sum [onward_intros]:
  "(\<And>a. onward (f a)) \<Longrightarrow> (\<And>b. onward (g b)) \<Longrightarrow> onward (case x of Inl a \<Rightarrow> f a | Inr b \<Rightarrow> g b)"
  by (cases x) simp_all

lemma onward_prod [onward_intros]: "(\<And>a b. onward (f a b)) \<Longrightarrow> onward (case x of (a, b) \<Rightarrow> f a b)"
  by (cases x) simp_all

lemma onward_bindC [onward_intros]: "onward m \<Longrightarrow> (\<And>a. onward (f a)) \<Longrightarrow> onward (bindC m f)"
  unfolding bindC_def by (intro onward_intros)

lemma onward_fromC [onward_intros]: "onward (fromC r)"
  unfolding fromC_def by (intro onward_intros)

lemma onward_sleepUntil [onward_intros]: "onward (sleepUntil t)"
  by (simp add: onward_def sleepUntil_def)

lemma onward_waitForNextPoll [onward_intros]: "onward (waitForNextPoll interval deadline)"
  unfolding waitForNextPoll_def Let_def by (intro onward_intros)

section \<open>Answers\<close>

definition answering :: "('x, 'a) op \<Rightarrow> bool" where
  "answering m \<longleftrightarrow> (\<forall>w. \<exists>a w'. m w = (Inr a, w'))"

named_theorems answering_intros \<open>operations that always return a value\<close>

lemma answering_ret [answering_intros]: "answering (ret a)"
  by (simp add: answering_def ret_def)

lemma answering_bindE [answering_intros]: "answering m \<Longrightarrow> (\<And>a. answering (f a)) \<Longrightarrow> answering (bindE m f)"
  unfolding answering_def bindE_Inr by blast

lemma answering_fail [answering_intros]: "answering (fail e)"
  by (simp add: fail_def answering_ret)

lemma answering_now [answering_intros]: "answering now_op"
  by (simp add: answering_def now_op_def)

lemma answering_if [answering_intros]: "answering m \<Longrightarrow> answering n \<Longrightarrow> answering (if b then m else n)"
  by simp

lemma answering_option [answering_intros]:
  "answering m \<Longrightarrow> (\<And>a. answering (f a)) \<Longrightarrow> answering (case x of None \<Rightarrow> m | Some a \<Rightarrow> f a)"
  by (cases x) simp_all

lemma answering_sum [answering_intros]:
  "(\<And>a. answering (f a)) \<Longrightarrow> (\<And>b. answering (g b)) \<Longrightarrow> answering (case x of Inl a \<Rightarrow> f a | Inr b \<Rightarrow> g b)"
  by (cases x) simp_all

lemma answering_prod [answering_intros]: "(\<And>a b. answering (f a b)) \<Longrightarrow> answering (case x of (a, b) \<Rightarrow> f a b)"
  by (cases x) simp_all

lemma answering_bindC [answering_intros]: "answering m \<Longrightarrow> (\<And>a. answering (f a)) \<Longrightarrow> answering (bindC m f)"
  unfolding bindC_def by (intro answering_intros)

lemma answering_fromC [answering_intros]: "answering (fromC r)"
  unfolding fromC_def by (intro answering_intros)

lemma answering_waitForNextPoll [answering_intros]: "answering (waitForNextPoll interval deadline)"
  by (simp add: answering_def waitForNextPoll_def bindE_def now_op_def ret_def sleepUntil_def Let_def)

section \<open>Polling\<close>

text \<open>What a finished poll reports of the last query it made.\<close>

definition verdict_at ::
  "client_env \<Rightarrow> time \<Rightarrow> client_error + SenderJob \<Rightarrow> 'x world \<Rightarrow> DeliveryResult \<Rightarrow> 'x world \<Rightarrow> bool" where
  "verdict_at env deadline r u d w' \<longleftrightarrow>
     (let gave_up = (dl_Status d = ''retrying'' \<and> deadline < w_clock u (w_tick u) \<and> w' = u\<lparr>w_tick := Suc (w_tick u)\<rparr>) in
      case r of
        Inl e \<Rightarrow> if IsPostAcceptNotFound e \<or> \<not> IsRetryablePollError e then dl_Status d = ''failed'' \<and> w' = u else gave_up
      | Inr job \<Rightarrow> dl_AttemptCount d = sj_AttemptCount job \<and>
          (case MapSenderJobStatus (cn_lower env) (sj_Status job) of
             Inl e \<Rightarrow> dl_Status d = ''failed'' \<and> w' = u
           | Inr status \<Rightarrow> if status = ''sent'' \<or> status = ''failed'' then dl_Status d = status \<and> w' = u else gave_up))"

definition poll_verdict ::
  "client_env \<Rightarrow> 'x exchange \<Rightarrow> SenderClient \<Rightarrow> int \<Rightarrow> time \<Rightarrow> DeliveryResult \<Rightarrow> 'x world \<Rightarrow> bool" where
  "poll_verdict env exchange c jobID deadline d w' \<longleftrightarrow> dl_JobID d = jobID \<and>
     (\<exists>v r u. ClientGetJob env exchange c jobID v = (Inr r, u) \<and> verdict_at env deadline r u d w')"

definition poll_timeout :: "duration \<Rightarrow> duration" where
  "poll_timeout timeout = (if timeout \<le> 0 then DefaultPollTimeout else timeout)"

text \<open>The clock passes every instant.\<close>

definition time_passes :: "'x world \<Rightarrow> bool" where
  "time_passes w \<longleftrightarrow> (\<forall>t. \<exists>K. \<forall>n\<ge>K. t < w_clock w n)"

lemma time_passes_onward: "time_passes w \<Longrightarrow> \<forall>n. w_clock w n \<le> w_clock v n \<Longrightarrow> time_passes v"
  unfolding time_passes_def by (meson less_le_trans)

definition reported :: "DeliveryResult \<Rightarrow> DeliveryResult \<Rightarrow> DeliveryResult" where
  "reported base p = base\<lparr>dl_Status := dl_Status p, dl_JobID := dl_JobID p, dl_AttemptCount := dl_AttemptCount p,
     dl_LastError := dl_LastError p\<rparr>"

lemma reported_fields [simp]:
  "dl_JobID (reported base d) = dl_JobID d" "dl_Status (reported base d) = dl_Status d"
  "dl_AttemptCount (reported base d) = dl_AttemptCount d" "dl_TargetAgent (reported base d) = dl_TargetAgent base"
  "dl_ChatID (reported base d) = dl_ChatID base" "dl_Bot (reported base d) = dl_Bot base"
  by (simp_all add: reported_def)

lemma poll_verdict_reported [simp]:
  "poll_verdict env exchange c jobID deadline (reported base d) w' = poll_verdict env exchange c jobID deadline d w'"
  unfolding poll_verdict_def verdict_at_def reported_fields by (rule refl)

locale transport =
  fixes exchange :: "'x exchange"
  assumes exchanged: "answering (exchange q)"
    and exchange_onward: "onward (exchange q)"
begin

lemma getJSON_answers: "answering (getJSON env exchange c path spec zero name)"
  unfolding getJSON_def by (intro answering_intros exchanged)

lemma getJSON_onward: "onward (getJSON env exchange c path spec zero name)"
  unfolding getJSON_def by (intro onward_intros exchange_onward)

lemma job_answers: "answering (ClientGetJob env exchange c jobID)"
  unfolding ClientGetJob_def by (intro answering_intros getJSON_answers)

lemma job_onward: "onward (ClientGetJob env exchange c jobID)"
  unfolding ClientGetJob_def by (intro onward_intros getJSON_onward)

lemma Send_answers: "answering (Send env exchange c b chatID msg key)"
  unfolding Send_def by (intro answering_intros exchanged)

lemma Send_onward: "onward (Send env exchange c b chatID msg key)"
  unfolding Send_def by (intro onward_intros exchange_onward)

lemma pollLoop_answers: "answering (pollLoop fuel env exchange c jobID interval deadline msg)"
proof (induction fuel arbitrary: msg)
  case 0
  show ?case by (simp add: answering_ret)
next
  case (Suc fuel)
  then show ?case unfolding pollLoop.simps Let_def by (intro answering_intros job_answers)
qed

lemma pollLoop_onward: "onward (pollLoop fuel env exchange c jobID interval deadline msg)"
proof (induction fuel arbitrary: msg)
  case 0
  show ?case by (simp add: onward_ret)
next
  case (Suc fuel)
  then show ?case unfolding pollLoop.simps Let_def by (intro onward_intros job_onward)
qed

lemma pollLoop_verdict:
  "pollLoop fuel env exchange c jobID interval deadline msg w = (Inr (Some d), w') \<Longrightarrow>
     poll_verdict env exchange c jobID deadline d w'"
proof (induction fuel arbitrary: msg w)
  case 0
  then show ?case by (simp add: ret_def)
next
  case (Suc fuel)
  obtain r u where r: "ClientGetJob env exchange c jobID w = (Inr r, u)"
    using job_answers unfolding answering_def by blast
  let ?again = "\<lambda>msg' v. bindE (waitForNextPoll interval deadline) (\<lambda>_. pollLoop fuel env exchange c jobID interval deadline msg') v"
  have "dl_JobID d = jobID \<and> verdict_at env deadline r u d w' \<or> (\<exists>msg' v. ?again msg' v = (Inr (Some d), w'))"
  proof (cases r)
    case (Inl e)
    with Suc.prems r show ?thesis
      by (auto simp: verdict_at_def bindE_def [of "ClientGetJob env exchange c jobID"] bindE_def [of now_op] now_op_def
          ret_def NoDelivery_def Let_def split: if_splits)
  next
    case (Inr job)
    with Suc.prems r show ?thesis
      by (cases "MapSenderJobStatus (cn_lower env) (sj_Status job)")
        (auto simp: verdict_at_def bindE_def [of "ClientGetJob env exchange c jobID"] bindE_def [of now_op] now_op_def
          ret_def NoDelivery_def Let_def split: if_splits)
  qed
  with r Suc.IH show ?case by (auto simp: poll_verdict_def bindE_Inr)
qed

text \<open>The fuel that suffices: the readings of the clock up to the first one beyond the deadline.\<close>

lemma pollLoop_ends:
  "\<forall>n\<ge>K. deadline < w_clock w n \<Longrightarrow> K - w_tick w < fuel \<Longrightarrow>
     \<exists>d w'. pollLoop fuel env exchange c jobID interval deadline msg w = (Inr (Some d), w')"
proof (induction fuel arbitrary: msg w)
  case (Suc fuel)
  obtain r u where r: "ClientGetJob env exchange c jobID w = (Inr r, u)"
    using job_answers unfolding answering_def by blast
  have u: "w_tick w \<le> w_tick u" "\<forall>n. w_clock w n \<le> w_clock u n" using onwardD [OF job_onward r] by simp_all
  have wait: "\<exists>d w'. bindE (waitForNextPoll interval deadline) (\<lambda>_. pollLoop fuel env exchange c jobID interval deadline msg')
      (u\<lparr>w_tick := Suc (w_tick u)\<rparr>) = (Inr (Some d), w')" if "\<not> deadline < w_clock u (w_tick u)" for msg'
  proof -
    obtain x v where v: "waitForNextPoll interval deadline (u\<lparr>w_tick := Suc (w_tick u)\<rparr>) = (Inr x, v)"
      using answering_waitForNextPoll unfolding answering_def by blast
    have tick: "Suc (w_tick u) \<le> w_tick v" and "\<forall>n. w_clock u n \<le> w_clock v n"
      using onwardD [OF onward_waitForNextPoll v] by simp_all
    with u(2) Suc.prems(1) have "\<forall>n\<ge>K. deadline < w_clock v n" by (meson less_le_trans)
    moreover have "w_tick u < K" using that u(2) Suc.prems(1) by (meson less_le_trans not_le)
    then have "K - w_tick v < fuel" using tick u(1) Suc.prems(2) by arith
    ultimately show ?thesis using Suc.IH [of v msg'] v by (simp add: bindE_def)
  qed
  show ?case
  proof (cases r)
    case (Inl e)
    with r wait show ?thesis
      by (auto simp: bindE_def [of "ClientGetJob env exchange c jobID"] bindE_def [of now_op] now_op_def ret_def Let_def)
  next
    case (Inr job)
    with r wait show ?thesis
      by (cases "MapSenderJobStatus (cn_lower env) (sj_Status job)")
        (auto simp: bindE_def [of "ClientGetJob env exchange c jobID"] bindE_def [of now_op] now_op_def ret_def Let_def)
  qed
qed simp

lemma PollJob_ends:
  assumes "time_passes w"
  shows "\<exists>N. \<forall>fuel\<ge>N. \<exists>d w'. PollJob fuel env exchange c jobID interval timeout w = (Inr (Some d), w')
    \<and> poll_verdict env exchange c jobID (w_clock w (w_tick w) + poll_timeout timeout) d w'"
proof -
  let ?deadline = "w_clock w (w_tick w) + poll_timeout timeout" and ?v = "w\<lparr>w_tick := Suc (w_tick w)\<rparr>"
  obtain K where K: "\<forall>n\<ge>K. ?deadline < w_clock w n" using assms unfolding time_passes_def by blast
  have "\<exists>d w'. PollJob fuel env exchange c jobID interval timeout w = (Inr (Some d), w')
    \<and> poll_verdict env exchange c jobID ?deadline d w'" if "Suc K \<le> fuel" for fuel
  proof -
    let ?i = "if interval \<le> 0 then DefaultPollInterval else interval"
    have "K - w_tick ?v < fuel" using that by simp
    with K obtain d w' where run: "pollLoop fuel env exchange c jobID ?i ?deadline [] ?v = (Inr (Some d), w')"
      using pollLoop_ends [of K ?deadline ?v fuel env c jobID ?i "[]"] by fastforce
    then have "PollJob fuel env exchange c jobID interval timeout w = (Inr (Some d), w')"
      by (simp add: PollJob_def bindE_def now_op_def Let_def poll_timeout_def)
    with pollLoop_verdict [OF run] show ?thesis by blast
  qed
  then show ?thesis by blast
qed

end

section \<open>The bridge\<close>

text \<open>The checks before anything is sent: the target agent, the chat and the bot.\<close>

definition prepared ::
  "client_env \<Rightarrow> SkillInput \<Rightarrow> runtime_context \<Rightarrow> TargetAgentBotResolver \<Rightarrow> error + string \<times> int \<times> string" where
  "prepared env input ctx resolver =
     (case checkSkillInput input of
        Some e \<Rightarrow> Inl e
      | None \<Rightarrow>
          (case bridgeTarget input ctx of
             Inl e \<Rightarrow> Inl e
           | Inr chatID \<Rightarrow>
               (case ResolveBotForTargetAgent (cn_lower env) (cn_quote env) resolver (trimSpace (ski_TargetAgent input)) of
                  Inl e \<Rightarrow> Inl e | Inr b \<Rightarrow> Inr (trimSpace (ski_TargetAgent input), chatID, b))))"

text \<open>What the bridge answers once the job was accepted, and after its one \<open>/send\<close>.\<close>

definition sent_verdict ::
  "client_env \<Rightarrow> 'x exchange \<Rightarrow> SenderClient \<Rightarrow> DeliveryResult \<Rightarrow> string \<Rightarrow> 'x world \<Rightarrow> DeliveryResult \<Rightarrow> 'x world \<Rightarrow> bool" where
  "sent_verdict env exchange c base status w1 d w' \<longleftrightarrow>
     dl_JobID d = dl_JobID base \<and> dl_TargetAgent d = dl_TargetAgent base \<and> dl_ChatID d = dl_ChatID base \<and> dl_Bot d = dl_Bot base \<and>
     (case MapSenderJobStatus (cn_lower env) status of
        Inl _ \<Rightarrow> w' = w1 \<and> dl_Status d = ''failed''
      | Inr s \<Rightarrow> if s = ''sent'' \<or> s = ''failed'' then w' = w1 \<and> dl_Status d = s
          else poll_verdict env exchange c (dl_JobID base) (w_clock w1 (w_tick w1) + DefaultPollTimeout) d w')"

definition accepted_base :: "string \<times> int \<times> string \<Rightarrow> int \<Rightarrow> DeliveryResult" where
  "accepted_base = (\<lambda>(agent, chatID, b) jobID.
     NoDelivery\<lparr>dl_TargetAgent := agent, dl_Bot := b, dl_ChatID := chatID, dl_JobID := jobID\<rparr>)"

definition bridge_verdict ::
  "client_env \<Rightarrow> 'x exchange \<Rightarrow> SenderClient \<Rightarrow> string \<times> int \<times> string \<Rightarrow> client_error + int \<times> string \<Rightarrow> 'x world
   \<Rightarrow> client_error + DeliveryResult option \<Rightarrow> 'x world \<Rightarrow> bool" where
  "bridge_verdict env exchange c target sent w1 r w' =
     (case sent of
        Inl e \<Rightarrow> w' = w1 \<and>
          (if \<exists>msg. e = SenderAPIError 409 msg
           then r = Inr (Some ((accepted_base target 0)\<lparr>dl_Status := ''failed'', dl_LastError := ''sender idempotency key conflict''\<rparr>))
           else r = Inl e)
      | Inr (jobID, status) \<Rightarrow>
          \<exists>d. r = Inr (Some d) \<and> sent_verdict env exchange c (accepted_base target jobID) status w1 d w')"

lemma bridgeKey_clock: "bridgeKey input agent chatID w = (r, w0) \<Longrightarrow> w_clock w0 = w_clock w"
  by (auto simp: bridgeKey_def deriveDefaultIdempotencyKey_def bindE_def ret_def fail_def Let_def
      split: option.splits if_splits)

context transport
begin

lemma bridge_refuses:
  "prepared env input ctx resolver = Inl e \<Longrightarrow>
   RunA2ADeliveryBridgeWithResolver fuel env exchange c input ctx (Some resolver) w = (Inr (Inl (OtherError e)), w)"
  by (auto simp: prepared_def RunA2ADeliveryBridgeWithResolver_def bindC_def fromC_def fail_def ret_def bindE_def Let_def
      split: option.splits sum.splits)

lemma bridge_steps:
  assumes "prepared env input ctx resolver = Inr (agent, chatID, b)" and "bridgeKey input agent chatID w = (Inr (Inr key), w0)"
    and "Send env exchange c b chatID (ski_Text input) key w0 = (Inr sent, w1)"
  shows "RunA2ADeliveryBridgeWithResolver fuel env exchange c input ctx (Some resolver) w =
    (case sent of
       Inl e \<Rightarrow>
         if \<exists>msg. e = SenderAPIError 409 msg
         then (Inr (Inr (Some ((accepted_base (agent, chatID, b) 0)\<lparr>dl_Status := ''failed'',
           dl_LastError := ''sender idempotency key conflict''\<rparr>))), w1)
         else (Inr (Inl e), w1)
     | Inr (jobID, status) \<Rightarrow> afterSend fuel env exchange c (accepted_base (agent, chatID, b) jobID) status w1)"
  using assms
  by (auto simp: prepared_def RunA2ADeliveryBridgeWithResolver_def bindC_def fromC_def fail_def ret_def bindE_def Let_def
      accepted_base_def NoDelivery_def split: option.splits sum.splits client_error.splits)

lemma afterSend_verdict:
  assumes "time_passes w1"
  shows "\<exists>N. \<forall>fuel\<ge>N. \<exists>d w'. afterSend fuel env exchange c base status w1 = (Inr (Inr (Some d)), w')
    \<and> sent_verdict env exchange c base status w1 d w'"
proof (cases "\<exists>s. MapSenderJobStatus (cn_lower env) status = Inr s \<and> s \<noteq> ''sent'' \<and> s \<noteq> ''failed''")
  case True
  then obtain s where s: "MapSenderJobStatus (cn_lower env) status = Inr s" "s \<noteq> ''sent''" "s \<noteq> ''failed''" by blast
  let ?verdict = "poll_verdict env exchange c (dl_JobID base) (w_clock w1 (w_tick w1) + DefaultPollTimeout)"
  have timeout: "poll_timeout DefaultPollTimeout = DefaultPollTimeout" by (simp add: poll_timeout_def)
  obtain N where N: "\<forall>fuel\<ge>N. \<exists>d w'. PollJob fuel env exchange c (dl_JobID base) DefaultPollInterval DefaultPollTimeout w1
      = (Inr (Some d), w') \<and> ?verdict d w'"
    using PollJob_ends [OF assms, of env c "dl_JobID base" DefaultPollInterval DefaultPollTimeout] timeout by auto
  have "\<exists>d w'. afterSend fuel env exchange c base status w1 = (Inr (Inr (Some d)), w')
    \<and> sent_verdict env exchange c base status w1 d w'" if "N \<le> fuel" for fuel
  proof -
    obtain d w' where d: "PollJob fuel env exchange c (dl_JobID base) DefaultPollInterval DefaultPollTimeout w1 = (Inr (Some d), w')"
      "?verdict d w'" using N \<open>N \<le> fuel\<close> by blast
    have "afterSend fuel env exchange c base status w1 = (Inr (Inr (Some (reported base d))), w')"
      using s d(1) by (simp add: afterSend_def bindE_def ret_def reported_def)
    moreover have "dl_JobID d = dl_JobID base" using d(2) by (simp add: poll_verdict_def)
    then have "sent_verdict env exchange c base status w1 (reported base d) w'"
      using s d(2) by (simp add: sent_verdict_def)
    ultimately show ?thesis by blast
  qed
  then show ?thesis by blast
next
  case False
  then show ?thesis by (auto simp: afterSend_def ret_def sent_verdict_def split: sum.splits)
qed

lemma bridge_ends:
  assumes "time_passes w" and prep: "prepared env input ctx resolver = Inr (agent, chatID, b)"
    and key: "bridgeKey input agent chatID w = (Inr (Inr key), w0)"
  shows "\<exists>sent w1 N. Send env exchange c b chatID (ski_Text input) key w0 = (Inr sent, w1) \<and>
    (\<forall>fuel\<ge>N. \<exists>r w'. RunA2ADeliveryBridgeWithResolver fuel env exchange c input ctx (Some resolver) w = (Inr r, w')
      \<and> bridge_verdict env exchange c (agent, chatID, b) sent w1 r w')"
proof -
  obtain sent w1 where sent: "Send env exchange c b chatID (ski_Text input) key w0 = (Inr sent, w1)"
    using Send_answers unfolding answering_def by blast
  have "\<exists>N. \<forall>fuel\<ge>N. \<exists>r w'. RunA2ADeliveryBridgeWithResolver fuel env exchange c input ctx (Some resolver) w = (Inr r, w')
      \<and> bridge_verdict env exchange c (agent, chatID, b) sent w1 r w'"
  proof (cases sent)
    case (Inl e)
    then show ?thesis by (simp add: bridge_steps [OF prep key sent] bridge_verdict_def)
  next
    case (Inr p)
    obtain jobID status where p: "p = (jobID, status)" by (cases p)
    have "time_passes w1"
      using time_passes_onward [OF assms(1)] onwardD [OF Send_onward sent] bridgeKey_clock [OF key] by metis
    from afterSend_verdict [OF this, of env c "accepted_base (agent, chatID, b) jobID" status]
    show ?thesis using Inr p by (fastforce simp: bridge_steps [OF prep key sent] bridge_verdict_def)
  qed
  with sent show ?thesis by blast
qed

end

end
