(* ===== verification/Delivery_Sender.thy ===== *)
theory Delivery_Sender
  imports Delivery_Contracts
begin

text \<open>
  The client against the sender's own server: its HTTP routes are a transport, so the contracts of
  polling and of the bridge hold for it, and a message delivered again under its key is the same
  job. Between the two stand only the JSON texts and the query values of the URL.
\<close>

section \<open>The server as a transport\<close>

definition senderRequest :: "(string \<Rightarrow> string \<times> string) \<Rightarrow> string \<Rightarrow> client_request \<Rightarrow> http_request" where
  "senderRequest params base q =
     (let url = drop (length base) (cq_URL q);
          path = takeWhile (\<lambda>c. c \<noteq> CHR ''?'') url;
          (status, limit) = params (drop (Suc (length path)) url) in
      \<lparr>hr_Method = cq_Method q, hr_Path = path, hr_limit = limit, hr_status = status,
       hr_Authorization = cq_Authorization q, hr_Body = cq_Body q\<rparr>)"

definition senderExchange ::
  "(string \<Rightarrow> string) \<Rightarrow> (string \<Rightarrow> sendRequest option) \<Rightarrow> (response_body \<Rightarrow> string) \<Rightarrow> (string \<Rightarrow> string \<times> string) \<Rightarrow> string
   \<Rightarrow> HTTPHandler \<Rightarrow> sender exchange" where
  "senderExchange ul decode encode params base h q =
     bindE (ServeHTTP ul decode h (senderRequest params base q)) (\<lambda>(code, body). ret (Inr (code, encode body)))"

lemma onward_respond [onward_intros]: "onward m \<Longrightarrow> onward (respond m ok err)"
  unfolding respond_def by (intro onward_intros)

lemma onward_snapshot [onward_intros]: "onward snapshotE"
  by (simp add: onward_def snapshotE_def)

lemma onward_rowE [onward_intros]: "onward (rowE row)"
  unfolding rowE_def by (intro onward_intros)

lemma onward_Submit [onward_intros]: "onward (Submit ul s req)"
  unfolding Submit_def enqueueSend_def Enqueue_def insertJob_def GetByIdempotencyKey_def noRowsE_def GetJob_def Let_def
  by (intro onward_intros)

lemma onward_ServeHTTP: "onward (ServeHTTP ul decode h r)"
  unfolding ServeHTTP_def handleHealthz_def handleReadyz_def handleStats_def handleListJobs_def handleGetJob_def
    handleSend_def Readiness_def queryStats_def queryJobs_def Ping_def GetStats_def ListJobs_def GetJob_def Let_def
  by (intro onward_intros)

lemma answering_ServeHTTP: "answering (ServeHTTP ul decode h r)"
  using ServeHTTP_proper [of h r ul decode] unfolding answers_def answering_def by blast

interpretation sender_server: transport "senderExchange ul decode encode params base h"
  for ul decode encode params base h
  unfolding senderExchange_def
  by unfold_locales (intro answering_intros answering_ServeHTTP onward_intros onward_ServeHTTP)+

section \<open>A send\<close>

text \<open>
  The client and the server understand each other: the same key, and texts that decode to what was
  encoded. These are the behaviours of \<open>encoding/json\<close> the two rely on.
\<close>

definition requestOf :: "string \<Rightarrow> int \<Rightarrow> string \<Rightarrow> string \<Rightarrow> sendRequest" where
  "requestOf b chatID msg key = \<lparr>rq_Bot = b, rq_ChatID = chatID, rq_Text = msg, rq_IdempotencyKey = trimSpace key,
     rq_MaxAttempts = 0, rq_ReplyToMessageID = None, rq_DisableNotification = False\<rparr>"

definition delivered_body :: "client_env \<Rightarrow> string \<Rightarrow> int \<Rightarrow> string \<Rightarrow> string \<Rightarrow> string" where
  "delivered_body env b chatID msg key = cn_marshal env (sendPayload b chatID msg (trimSpace key))"

definition understands ::
  "client_env \<Rightarrow> (string \<Rightarrow> sendRequest option) \<Rightarrow> string \<Rightarrow> int \<Rightarrow> string \<Rightarrow> string \<Rightarrow> bool" where
  "understands env decode b chatID msg key \<longleftrightarrow>
     decode (delivered_body env b chatID msg key) = Some (requestOf b chatID msg key)
     \<and> length (delivered_body env b chatID msg key) \<le> 32768"

definition readsReply :: "client_env \<Rightarrow> (response_body \<Rightarrow> string) \<Rightarrow> bool" where
  "readsReply env encode \<longleftrightarrow>
     (\<forall>r. 0 < rs_JobID r \<and> rs_JobID r < 2 ^ 63 \<longrightarrow>
        Option.bind (cn_decode env (encode (SendBody r))) (\<lambda>v. lenientStruct sendReplySpec v (0, []))
        = Some (rs_JobID r, rs_Status r))"

definition same_key :: "SenderClient \<Rightarrow> HTTPHandler \<Rightarrow> bool" where
  "same_key c h \<longleftrightarrow> cl_authKey c \<noteq> [] \<and> trimSpace (cl_authKey c) = cl_authKey c \<and> hh_senderAuthKey h = cl_authKey c"

lemma spaces_blank: "p \<in> set spaces \<Longrightarrow> length p = 1 \<or> CHR '' '' \<notin> set p"
proof -
  have "\<forall>p\<in>set spaces. length p = 1 \<or> CHR '' '' \<notin> set p" by code_simp
  then show "p \<in> set spaces \<Longrightarrow> length p = 1 \<or> CHR '' '' \<notin> set p" by blast
qed

lemma trimSpace_bearer:
  assumes "k \<noteq> []" and "trimSpace k = k"
  shows "trimSpace (''Bearer '' @ k) = ''Bearer '' @ k"
proof -
  have "visible_char CHR ''B''" by (simp add: visible_char_def)
  moreover have "p \<noteq> [] \<and> \<not> visible_char (hd p)" if "p \<in> set spaces" for p
    using that spaces_invisible spaces_nonempty(1) by metis
  ultimately have left: "trimLeft (''Bearer '' @ k) = ''Bearer '' @ k"
    using strip_visible [of "CHR ''B''" spaces "''earer '' @ k"] by (simp add: trimLeft_def)
  have k: "\<And>p r. p \<in> set spaces \<Longrightarrow> rev k \<noteq> rev p @ r"
    using trimSpace_right [of k] assms(2) by (simp add: strip_any_None)
  have "rev (''Bearer '' @ k) \<noteq> rev p @ r" if p: "p \<in> set spaces" for p r
  proof
    assume "rev (''Bearer '' @ k) = rev p @ r"
    then have eq: "rev k @ CHR '' '' # rev ''Bearer'' = rev p @ r" by simp
    from append_eq_append_conv2 [THEN iffD1, OF eq] k [OF p]
    obtain us where us: "rev k @ us = rev p" "CHR '' '' # rev ''Bearer'' = us @ r" by blast
    with k [OF p, of "[]"] have "us \<noteq> []" by auto
    with us(2) have "CHR '' '' \<in> set us" by (cases us) auto
    then have "CHR '' '' \<in> set p" using arg_cong [OF us(1), of set] by auto
    moreover have "length p = length k + length us" using arg_cong [OF us(1), of length] by simp
    moreover have "0 < length k" "0 < length us" using assms(1) \<open>us \<noteq> []\<close> by simp_all
    then have "length k + length us \<noteq> 1" by linarith
    ultimately show False using spaces_blank [OF p] by metis
  qed
  then have "strip_any (map rev spaces) (rev (''Bearer '' @ k)) = None" by (auto simp: strip_any_None)
  then have "trimRight (''Bearer '' @ k) = ''Bearer '' @ k"
    unfolding trimRight_def by (simp only: strip_all_id rev_rev_ident)
  with left show ?thesis unfolding trimSpace_def by simp
qed

lemma same_key_authorized: "same_key c h \<Longrightarrow> authorized h (bearer c)"
  using trimSpace_bearer [of "cl_authKey c"] by (auto simp: same_key_def authorized_key bearer_def)

definition sendAnswer :: "client_env \<Rightarrow> (response_body \<Rightarrow> string) \<Rightarrow> error + Job \<Rightarrow> client_error + int \<times> string" where
  "sendAnswer env encode r =
     (case r of
        Inl e \<Rightarrow> (case sendErrorResponse e of (code, msg) \<Rightarrow> Inl (decodeSenderAPIError env code (encode (ErrorBody msg))))
      | Inr job \<Rightarrow> if job_ID job \<le> 0 then Inl (failure ''invalid /send response: missing job_id'')
          else Inr (job_ID job, job_Status job))"

lemma sender_answers:
  assumes "same_key c h" and "understands env decode b chatID msg key"
    and "Submit ul (hh_sendService h) (commandOf (requestOf b chatID msg key)) w = (r, w1)"
  shows "senderExchange ul decode encode params (cl_baseURL c) h \<lparr>cq_Method = ''POST'', cq_URL = cl_baseURL c @ ''/send'',
      cq_Authorization = bearer c, cq_Body = cn_marshal env (sendPayload b chatID msg (trimSpace key))\<rparr> w =
    (Inr (Inr (case r of Inl e \<Rightarrow> (fst (sendErrorResponse e), encode (ErrorBody (snd (sendErrorResponse e))))
           | Inr job \<Rightarrow> (202, encode (sendBody job)))), w1)"
proof -
  let ?q = "\<lparr>cq_Method = ''POST'', cq_URL = cl_baseURL c @ ''/send'', cq_Authorization = bearer c,
         cq_Body = delivered_body env b chatID msg key\<rparr>"
  have "hr_Path (senderRequest params (cl_baseURL c) ?q) = ''/send''" "hr_Method (senderRequest params (cl_baseURL c) ?q) = ''POST''"
    "hr_Authorization (senderRequest params (cl_baseURL c) ?q) = bearer c"
    "hr_Body (senderRequest params (cl_baseURL c) ?q) = delivered_body env b chatID msg key"
    by (simp_all add: senderRequest_def Let_def split: prod.split)
  then have "ServeHTTP ul decode h (senderRequest params (cl_baseURL c) ?q) w
    = (Inr (case r of Inl e \<Rightarrow> writeSendError e | Inr job \<Rightarrow> (202, sendBody job)), w1)"
    using assms same_key_authorized [OF assms(1)]
    by (simp add: ServeHTTP_def handleSend_def understands_def respond_def handleE_def bindE_def ret_def hasPrefix_def
        strip_prefix_append split: sum.split)
  then show ?thesis
    unfolding delivered_body_def
    by (auto simp: senderExchange_def bindE_def ret_def writeSendError_def split: sum.split prod.split)
qed

lemma Send_world:
  assumes "same_key c h" and "understands env decode b chatID msg key"
    and "Submit ul (hh_sendService h) (commandOf (requestOf b chatID msg key)) w = (r, w1)"
  shows "snd (Send env (senderExchange ul decode encode params (cl_baseURL c) h) c b chatID msg key w) = w1"
  unfolding Send_def bindE_def sender_answers [OF assms]
  by (simp add: fail_def ret_def split: sum.split prod.split option.split)

lemma Send_submits:
  assumes "same_key c h" and "understands env decode b chatID msg key" and "readsReply env encode"
    and "Submit ul (hh_sendService h) (commandOf (requestOf b chatID msg key)) w = (r, w1)"
    and "\<And>job. r = Inr job \<Longrightarrow> 0 < job_ID job \<and> job_ID job < 2 ^ 63"
  shows "Send env (senderExchange ul decode encode params (cl_baseURL c) h) c b chatID msg key w
    = (Inr (sendAnswer env encode r), w1)"
proof (cases r)
  case (Inl e)
  have "fst (sendErrorResponse e) \<noteq> 202" by (simp add: sendErrorResponse_def)
  then show ?thesis
    unfolding Send_def bindE_def sender_answers [OF assms(1,2,4)] using Inl
    by (simp add: ret_def fail_def sendAnswer_def split: prod.split)
next
  case (Inr job)
  have "Option.bind (cn_decode env (encode (sendBody job))) (\<lambda>v. lenientStruct sendReplySpec v (0, []))
      = Some (job_ID job, job_Status job)"
    using assms(3) assms(5) [OF Inr] by (simp add: readsReply_def sendBody_def)
  then show ?thesis
    unfolding Send_def bindE_def sender_answers [OF assms(1,2,4)] using Inr
    by (simp add: ret_def fail_def sendAnswer_def)
qed

section \<open>Delivered once\<close>

lemma Submit_again:
  assumes "queue_reachable (w_db w, js)" and "w_faults w = []"
    and "checkSend ul s req0 = Inr req" and "sc_IdempotencyKey req \<noteq> []"
    and "Submit ul s req0 w = (Inr j, w1)"
    and "queue_step\<^sup>*\<^sup>* (w_db w1, js) (w_db v, js')" and "w_faults v = []"
    and "checkSend ul s' req1 = Inr req'" and "sc_IdempotencyKey req' = sc_IdempotencyKey req"
  shows "\<exists>j'. job_ID j' = job_ID j \<and> sameSendPayload j' req' = sameSendPayload j req'
    \<and> Submit ul s' req1 v = (if sameSendPayload j' req' then Inr j' else Inl ErrIdempotencyKeyConflict, v)"
proof -
  let ?key = "sc_IdempotencyKey req"
  have steps: "queue_step\<^sup>*\<^sup>* (w_db w, js) (w_db w1, js)" by (rule movesD [OF moves_Submit assms(5)])
  have reach1: "queue_reachable (w_db w1, js)" and reach: "queue_reachable (w_db v, js')"
    using assms(1,6) steps unfolding queue_reachable_def by (meson rtranclp_trans)+
  obtain r where r: "keyed_job ?key (w_db w1) = Some r" "scanJob r = j"
    using Submit_free [OF assms(2) queue_reachable_inv [OF assms(1)], of ul s req0] assms(3-5)
      keyed_inserted [of req "w_db w" "w_clock w (w_tick w)"]
    by (auto simp: submitted_def split: option.splits if_splits)
  obtain r' where r': "keyed_job ?key (w_db v) = Some r'" "message_of r' = message_of r"
    using keyed_steps [OF assms(6) queue_reachable_inv [OF reach1]] r(1) by auto
  show ?thesis
    using Submit_free [OF assms(7) queue_reachable_inv [OF reach], of ul s' req1] assms(8,9) r(2) r'
      same_message_payload [OF r'(2), of req']
    by (intro exI [of _ "scanJob r'"]) (auto simp: submitted_def message_of_eq scanJob_def)
qed

lemma Submit_payload:
  assumes "queue_reachable (w_db w, js)" and "w_faults w = []" and "checkSend ul s req0 = Inr req"
    and "Submit ul s req0 w = (Inr j, w1)"
  shows "sameSendPayload j req"
  using Submit_free [OF assms(2) queue_reachable_inv [OF assms(1)], of ul s req0] assms(3,4) inserted_row_payload
  by (auto simp: submitted_def split: option.splits if_splits)

lemma checkSend_key: "checkSend ul s req0 = Inr req \<Longrightarrow> sc_IdempotencyKey req = trimSpace (sc_IdempotencyKey req0)"
  by (auto simp: checkSend_def Let_def split: option.splits if_splits)

lemma Submit_checked: "Submit ul s req0 w = (Inr j, w1) \<Longrightarrow> \<exists>req. checkSend ul s req0 = Inr req"
  by (cases "checkSend ul s req0") (auto simp: Submit_def throw_def)

lemma Submit_bounds:
  assumes "queue_reachable (w_db w, js)" and "w_faults w = []" and "Submit ul s req0 w = (Inr j, w1)"
  shows "0 < job_ID j \<and> job_ID j \<le> sn_seq (w_db w1)"
proof -
  have inv: "sender_inv (w_db w, js)" by (rule queue_reachable_inv [OF assms(1)])
  obtain req where req: "checkSend ul s req0 = Inr req" using Submit_checked [OF assms(3)] by blast
  have "0 \<le> sn_seq (w_db w)" "\<And>r. r \<in> set (sn_jobs (w_db w)) \<Longrightarrow> 0 < row_id r \<and> row_id r \<le> sn_seq (w_db w)"
    using inv by (auto simp: sender_inv_def)
  moreover have "keyed_job k (w_db w) = Some r \<Longrightarrow> r \<in> set (sn_jobs (w_db w))" for k r
    by (auto simp: keyed_job_def split: if_splits dest: find_by_Some)
  ultimately show ?thesis
    using Submit_free [OF assms(2) inv, of ul s req0] assms(3) req
    by (auto simp: submitted_def scanJob_def inserted_row_def inserted_def new_row_def split: option.splits if_splits)
qed

text \<open>A second send under the key of the first: the same job for the same content, whatever happened meanwhile.\<close>

lemma Send_again:
  assumes "queue_reachable (w_db w, js)" and "w_faults w = []" and link: "same_key c h" "readsReply env encode"
    "understands env decode b chatID msg key" and "trimSpace key \<noteq> []"
    and first: "Send env (senderExchange ul decode encode params (cl_baseURL c) h) c b chatID msg key w = (Inr (Inr (jobID, status)), w1)"
    and "queue_step\<^sup>*\<^sup>* (w_db w1, js) (w_db v, js')" and "w_faults v = []" and small: "sn_seq (w_db w1) < 2 ^ 63"
  shows "\<exists>status'. Send env (senderExchange ul decode encode params (cl_baseURL c) h) c b chatID msg key v
    = (Inr (Inr (jobID, status')), v)"
proof -
  let ?s = "hh_sendService h" and ?req = "commandOf (requestOf b chatID msg key)"
  obtain r w2 where run: "Submit ul ?s ?req w = (r, w2)" by fastforce
  have "w2 = w1" using Send_world [OF link(1) link(3) run, of encode params] first by simp
  then have bounds: "0 < job_ID job \<and> job_ID job < 2 ^ 63" if "r = Inr job" for job
    using Submit_bounds [OF assms(1,2), of ul ?s ?req job w1] run that small by auto
  note submits = Send_submits [OF link(1) link(3) link(2)]
  obtain j where j: "Submit ul ?s ?req w = (Inr j, w1)" "job_ID j = jobID"
    using first submits [OF run bounds, of params] run by (cases r) (auto simp: sendAnswer_def split: prod.splits if_splits)
  obtain req where req: "checkSend ul ?s ?req = Inr req" using Submit_checked [OF j(1)] by blast
  have key: "sc_IdempotencyKey req \<noteq> []"
    using checkSend_key [OF req] assms(6) by (simp add: commandOf_def requestOf_def)
  have same: "sameSendPayload j req" by (rule Submit_payload [OF assms(1,2) req j(1)])
  have pos: "0 < jobID" "jobID < 2 ^ 63" using Submit_bounds [OF assms(1,2) j(1)] j(2) small by simp_all
  from Submit_again [OF assms(1,2) req key j(1) assms(8,9) req refl] same
  obtain j' where "job_ID j' = jobID" "Submit ul ?s ?req v = (Inr j', v)" using j(2) by auto
  with submits [of ul v "Inr j'" v params] pos show ?thesis by (auto simp: sendAnswer_def)
qed

section \<open>The bridge delivers once\<close>

lemma preserves_fail [preserves_intros]: "preserves P (fail e)"
  unfolding fail_def by (intro preserves_intros)

lemma preserves_bindC [preserves_intros]:
  "preserves P m \<Longrightarrow> (\<And>a. preserves P (f a)) \<Longrightarrow> preserves P (bindC m f)"
  unfolding bindC_def by (intro preserves_intros)

lemma preserves_wait [preserves_intros]: "preserves P (waitForNextPoll interval deadline)"
proof -
  have "preserves P (sleepUntil t)" for t by (simp add: preserves_def sleepUntil_def)
  then show ?thesis unfolding waitForNextPoll_def Let_def by (intro preserves_intros)
qed

lemma preserves_ClientGetJob [preserves_intros]:
  "preserves P (ClientGetJob env (senderExchange ul decode encode params base h) c jobID)"
proof -
  have "preserves P (senderExchange ul decode encode params base h q)" if "cq_Method q = ''GET''" for q
    unfolding senderExchange_def
    by (intro preserves_intros reads_unless_send) (simp add: may_send_def senderRequest_def Let_def that split: prod.split)
  then show ?thesis unfolding ClientGetJob_def getJSON_def by (intro preserves_intros) auto
qed

lemma preserves_pollLoop [preserves_intros]:
  "preserves P (pollLoop fuel env (senderExchange ul decode encode params base h) c jobID interval deadline msg)"
proof (induction fuel arbitrary: msg)
  case 0
  show ?case by (simp add: preserves_ret)
next
  case (Suc fuel)
  then show ?case unfolding pollLoop.simps Let_def by (intro preserves_intros)
qed

lemma afterSend_reads:
  "afterSend fuel env (senderExchange ul decode encode params base h) c d0 status w = (r, w') \<Longrightarrow> w_db w' = w_db w"
proof -
  assume run: "afterSend fuel env (senderExchange ul decode encode params base h) c d0 status w = (r, w')"
  have "preserves (\<lambda>d. d = w_db w) (afterSend fuel env (senderExchange ul decode encode params base h) c d0 status)"
    unfolding afterSend_def PollJob_def Let_def by (intro preserves_intros)
  from preservesD [OF this, of w] run show ?thesis by simp
qed

context transport
begin

lemma PollJob_job:
  "PollJob fuel env exchange c jobID interval timeout w = (Inr (Some d), w') \<Longrightarrow> dl_JobID d = jobID"
  by (auto simp: PollJob_def bindE_Inr now_op_Inr Let_def poll_verdict_def dest!: pollLoop_verdict)

lemma afterSend_job:
  "afterSend fuel env exchange c base status w = (Inr (Inr (Some d)), w') \<Longrightarrow> dl_JobID d = dl_JobID base"
  by (auto simp: afterSend_def bindE_Inr ret_def split: sum.splits if_splits dest!: PollJob_job)

end

lemma blank_key_refused:
  assumes "prepared env input ctx resolver = Inr (agent, chatID, b)" and "ski_IdempotencyKey input = Some key"
    and "trimSpace key = []"
  shows "RunA2ADeliveryBridgeWithResolver fuel env exchange c input ctx (Some resolver) w =
    (Inr (Inl (failure ''idempotency_key must be non-blank when provided'')), w)"
  using assms
  by (auto simp: RunA2ADeliveryBridgeWithResolver_def bridgeKey_def prepared_def bindC_def fromC_def bindE_def ret_def fail_def
      Let_def split: option.splits sum.splits)

text \<open>
  The bridge run again after it was accepted once under the same key, with the server whatever it did
  in between: it sends to no effect, learns of the same job, and polls it.
\<close>

lemma bridge_again:
  assumes "queue_reachable (w_db w, js)" and "w_faults w = []" and link: "same_key c h" "readsReply env encode"
    "understands env decode b chatID (ski_Text input) (trimSpace key)"
    and prep: "prepared env input ctx resolver = Inr (agent, chatID, b)" and key: "ski_IdempotencyKey input = Some key"
    and exchange: "exchange = senderExchange ul decode encode params (cl_baseURL c) h"
    and first: "RunA2ADeliveryBridgeWithResolver fuel env exchange c input ctx (Some resolver) w = (Inr (Inr (Some d)), w1)"
    and "dl_JobID d \<noteq> 0" and steps: "queue_step\<^sup>*\<^sup>* (w_db w1, js) (w_db v, js')" and "w_faults v = []"
    and "sn_seq (w_db w1) < 2 ^ 63"
  obtains status where "\<And>n. RunA2ADeliveryBridgeWithResolver n env exchange c input ctx (Some resolver) v =
    afterSend n env exchange c (accepted_base (agent, chatID, b) (dl_JobID d)) status v"
proof -
  have blank: "trimSpace key \<noteq> []" using blank_key_refused [OF prep key, of fuel exchange c w] first by auto
  then have keyed: "bridgeKey input agent chatID u = (Inr (Inr (trimSpace key)), u)" for u :: "sender world"
    by (simp add: bridgeKey_def key ret_def)
  obtain sent wa where sent: "Send env exchange c b chatID (ski_Text input) (trimSpace key) w = (Inr sent, wa)"
    using sender_server.Send_answers unfolding answering_def exchange by blast
  note run = sender_server.bridge_steps [OF prep keyed]
  from first assms(10) obtain jobID status where accepted: "sent = Inr (jobID, status)"
    "afterSend fuel env exchange c (accepted_base (agent, chatID, b) jobID) status wa = (Inr (Inr (Some d)), w1)"
    using run [OF sent [unfolded exchange], of fuel] unfolding exchange
    by (auto simp: accepted_base_def NoDelivery_def split: sum.splits if_splits)
  have job: "dl_JobID d = jobID"
    using sender_server.afterSend_job accepted(2) unfolding exchange by (fastforce simp: accepted_base_def)
  have "w_db w1 = w_db wa" using afterSend_reads accepted(2) unfolding exchange by blast
  then have "queue_step\<^sup>*\<^sup>* (w_db wa, js) (w_db v, js')" "sn_seq (w_db wa) < 2 ^ 63" using steps assms(13) by simp_all
  with Send_again [OF assms(1,2) link(1,2), of decode b chatID "ski_Text input" "trimSpace key" ul params jobID status wa v js']
  obtain status' where "Send env exchange c b chatID (ski_Text input) (trimSpace key) v = (Inr (Inr (jobID, status')), v)"
    using link(3) blank sent accepted(1) assms(12) unfolding exchange by auto
  from run [OF this [unfolded exchange]] job that show thesis unfolding exchange by simp
qed

lemma bridge_once:
  assumes "queue_reachable (w_db w, js)" and "w_faults w = []" and link: "same_key c h" "readsReply env encode"
    "understands env decode b chatID (ski_Text input) (trimSpace key)"
    and prep: "prepared env input ctx resolver = Inr (agent, chatID, b)" and key: "ski_IdempotencyKey input = Some key"
    and exchange: "exchange = senderExchange ul decode encode params (cl_baseURL c) h"
    and first: "RunA2ADeliveryBridgeWithResolver fuel env exchange c input ctx (Some resolver) w = (Inr (Inr (Some d)), w1)"
    and "dl_JobID d \<noteq> 0" and steps: "queue_step\<^sup>*\<^sup>* (w_db w1, js) (w_db v, js')" and "w_faults v = []"
    and "sn_seq (w_db w1) < 2 ^ 63" and "time_passes v"
  shows "\<exists>N. \<forall>fuel\<ge>N. \<exists>d' v'. RunA2ADeliveryBridgeWithResolver fuel env exchange c input ctx (Some resolver) v = (Inr (Inr (Some d')), v')
    \<and> dl_JobID d' = dl_JobID d \<and> w_db v' = w_db v"
proof -
  obtain status where run: "\<And>n. RunA2ADeliveryBridgeWithResolver n env exchange c input ctx (Some resolver) v =
    afterSend n env exchange c (accepted_base (agent, chatID, b) (dl_JobID d)) status v"
    using bridge_again [OF assms(1-13)] by blast
  obtain N where N: "\<forall>fuel\<ge>N. \<exists>d' v'. afterSend fuel env exchange c (accepted_base (agent, chatID, b) (dl_JobID d)) status v
      = (Inr (Inr (Some d')), v')"
    using sender_server.afterSend_verdict [OF assms(14)] unfolding exchange by meson
  have "dl_JobID d' = dl_JobID d \<and> w_db v' = w_db v"
    if "afterSend fuel env exchange c (accepted_base (agent, chatID, b) (dl_JobID d)) status v = (Inr (Inr (Some d')), v')" for fuel d' v'
    using sender_server.afterSend_job [OF that [unfolded exchange]] afterSend_reads [OF that [unfolded exchange]]
    by (simp add: accepted_base_def)
  with N show ?thesis unfolding run by blast
qed

end
