(* ===== verification/Swarm_Telegram.thy ===== *)
theory Swarm_Telegram
  imports Swarm_Contracts Swarm_Store Delivery_Sender
begin

text \<open>
  \<open>internal/swarmdriver/telegram_adapter.go\<close>: an agent is asked for its work over Telegram, once per
  piece of work, and its recorded result answers every later round. The database is the
  orchestrator's, the table of executions and the transport's. \<open>te_safe\<close> is the identifier map on
  text beyond ASCII.
\<close>

section \<open>The adapter\<close>

record 'x TelegramAdapter =
  te_client :: SenderClient
  te_resolver :: TargetAgentBotResolver
  te_context :: TargetUserContext
  te_notes :: bool
  te_env :: client_env
  te_exchange :: "'x exchange"
  te_safe :: "string \<Rightarrow> string"
  te_fuel :: nat

definition NewTelegramAdapter ::
  "SenderClient \<Rightarrow> TargetAgentBotResolver option \<Rightarrow> TargetUserContext \<Rightarrow> bool \<Rightarrow> client_env \<Rightarrow> 'x exchange
   \<Rightarrow> (string \<Rightarrow> string) \<Rightarrow> nat \<Rightarrow> error + 'x TelegramAdapter" where
  "NewTelegramAdapter client resolver0 target notes env exchange safe fuel =
     (case (case resolver0 of None \<Rightarrow> NewTargetAgentBotResolver (cn_lower env) (cn_quote env) [] | Some r \<Rightarrow> Inr r) of
        Inl e \<Rightarrow> Inl e
      | Inr resolver \<Rightarrow> Inr \<lparr>te_client = client, te_resolver = resolver, te_context = target, te_notes = notes,
          te_env = env, te_exchange = exchange, te_safe = safe, te_fuel = fuel\<rparr>)"

definition telegramExecutionPhaseAndTarget :: "AgentSpec \<Rightarrow> WorkSummary \<Rightarrow> string \<times> string" where
  "telegramExecutionPhaseAndTarget agent work =
     (if ws_State work = StateSubmitted then
        (if trimSpace (ws_ReviewerID work) \<noteq> [] then (executionPhaseReview, trimSpace (ws_ReviewerID work))
         else (executionPhaseReview, trimSpace (as_ID agent)))
      else if trimSpace (as_ID agent) \<noteq> [] then (executionPhaseExecute, trimSpace (as_ID agent))
      else (executionPhaseExecute, trimSpace (ws_AgentID work)))"

definition safeByte :: "char \<Rightarrow> char" where
  "safeByte c =
     (let b = byte_val c in
      if (65 \<le> b \<and> b \<le> 90) \<or> (97 \<le> b \<and> b \<le> 122) \<or> (48 \<le> b \<and> b \<le> 57)
        \<or> c \<in> {CHR '':'', CHR ''_'', CHR ''-'', CHR ''.''} then c else CHR ''_'')"

definition telegramExecutionIdentity :: "(string \<Rightarrow> string) \<Rightarrow> WorkSummary \<Rightarrow> string \<Rightarrow> string \<Rightarrow> string" where
  "telegramExecutionIdentity safe work targetAgent phase =
     (let base = joinText '':'' [''swarm'', ws_WorkflowID work, ws_HandoffID work, targetAgent, phase] in
      if is_ascii base then map safeByte base else safe base)"

definition adapterResultFromExecutionRequest :: "ExecutionRequest \<Rightarrow> AdapterResult option" where
  "adapterResultFromExecutionRequest request =
     (if er_ResultStatus request = [] then None
      else Some \<lparr>ad_Status = er_ResultStatus request, ad_Summary = er_ResultSummary request,
        ad_ArtifactCount = er_ResultArtifactCount request, ad_ReviewDecision = er_ResultReviewDecision request\<rparr>)"

definition telegramDeliveryStatus :: "string \<Rightarrow> string" where
  "telegramDeliveryStatus status =
     (if trimSpace status = deliveryStatusSent then deliveryStatusSent
      else if trimSpace status = deliveryStatusFailed then deliveryStatusFailed else deliveryStatusWaiting)"

section \<open>The message\<close>

definition whenText :: "string \<Rightarrow> string \<Rightarrow> (string \<times> json) list" where
  "whenText k s = (if s = [] then [] else [(k, JString s)])"

definition whenTrue :: "string \<Rightarrow> bool \<Rightarrow> (string \<times> json) list" where
  "whenTrue k b = (if b then [(k, JBool True)] else [])"

definition replySchema :: "WorkSummary \<Rightarrow> string \<Rightarrow> json" where
  "replySchema work correlationID = JObject
     [(''type'', JString ''clawside.result''), (''correlation_id'', JString correlationID), (''status'', JString ''completed''),
      (''summary'', JString ''short safe summary''), (''artifact_count'', JNumber (formatInt (ws_ArtifactMinCount work))),
      (''review_decision'', JString (reviewDecisionText ReviewDecisionApproved))]"

definition taskPayload :: "WorkSummary \<Rightarrow> string \<Rightarrow> string \<Rightarrow> string \<Rightarrow> json" where
  "taskPayload work targetAgent phase correlationID = JObject
     ([(''workflow_id'', JString (ws_WorkflowID work)), (''handoff_id'', JString (ws_HandoffID work)), (''phase'', JString phase),
       (''agent_id'', JString targetAgent), (''state'', JString (handoffStateText (ws_State work))),
       (''task_kind'', JString (ws_TaskKind work))]
      @ whenText ''intent'' (ws_Intent work) @ whenText ''payload_ref'' (ws_PayloadRef work)
      @ whenTrue ''required_for_workflow_completion'' (ws_RequiredForWorkflowCompletion work)
      @ (if ws_ArtifactMinCount work = 0 then [] else [(''artifact_min_count'', JNumber (formatInt (ws_ArtifactMinCount work)))])
      @ whenTrue ''needs_review'' (ws_NeedsReview work) @ whenText ''reviewer_id'' (ws_ReviewerID work)
      @ [(''correlation_id'', JString correlationID), (''reply_schema'', replySchema work correlationID)])"

definition instructions :: string where
  "instructions = ''After completing the task, call the Clawside MCP tool swarm_execution_result_record with the reply_schema fields.'' @
     '' Use a safe summary and keep correlation_id unchanged. Do not reply with raw private runtime details.''"

definition observerNotes :: string where
  "observerNotes = ''observer private notes: for roleplay, game, simulation, or multi-agent coordination tasks, send public speech, actions, '' @
     ''votes, and stage results to the coordinator/main agent; send each participant'' @ [CHR 0x27] @ ''s private observer note directly '' @
     ''to the user/observer. For interactive coordination, process one coordination phase at a time, wait for required public '' @
     ''messages and observer notes before advancing, and avoid fanout storms. Clawside is only the safe truth-plane ledger. '' @
     ''Do not include observer private notes in swarm_execution_result_record, execution summaries, Clawside logs, or Clawside state. '' @
     ''Werewolf-style games may include role, hidden intent, night action reasoning, and suspicion rationale in the private '' @
     ''observer note.''"

definition blankLine :: string where
  "blankLine = [CHR 0x0A, CHR 0x0A]"

definition formatTelegramTaskMessage :: "client_env \<Rightarrow> WorkSummary \<Rightarrow> string \<Rightarrow> string \<Rightarrow> string \<Rightarrow> bool \<Rightarrow> string" where
  "formatTelegramTaskMessage env work targetAgent phase correlationID notes =
     ''clawside swarm task'' @ blankLine @ ''Task JSON:'' @ [CHR 0x0A] @
     cn_marshal env (taskPayload work targetAgent phase correlationID) @ blankLine @
     (if notes then observerNotes @ blankLine @ instructions else instructions)"

section \<open>Execute\<close>

text \<open>\<open>ErrFuel\<close> stands for a poll cut off by the fuel; with the fuel of \<open>delivery_ends\<close> it does not arise.\<close>

definition ErrFuel :: error where
  "ErrFuel = ErrSentinel ''out of fuel''"

definition askedWork :: "'x TelegramAdapter \<Rightarrow> AgentSpec \<Rightarrow> WorkSummary \<Rightarrow> ExecutionRequest" where
  "askedWork a agent work =
     (let (phase, targetAgent) = telegramExecutionPhaseAndTarget agent work;
          identity = telegramExecutionIdentity (te_safe a) work targetAgent phase in
      \<lparr>er_CorrelationID = identity, er_WorkflowID = ws_WorkflowID work, er_HandoffID = ws_HandoffID work,
       er_AgentID = targetAgent, er_Phase = phase, er_IdempotencyKey = identity, er_DeliveryStatus = [], er_LastError = [],
       er_ResultStatus = [], er_ResultSummary = [], er_ResultArtifactCount = 0, er_ResultReviewDecision = ReviewUnset,
       er_CreatedAt = 0, er_UpdatedAt = 0, er_DeliveredAt = None, er_ResultReceivedAt = None\<rparr>)"

definition adapterAnswer :: "AdapterStatus \<Rightarrow> string \<Rightarrow> AdapterResult" where
  "adapterAnswer status summary = \<lparr>ad_Status = status, ad_Summary = summary, ad_ArtifactCount = 0, ad_ReviewDecision = ReviewUnset\<rparr>"

definition skillInput :: "'x TelegramAdapter \<Rightarrow> AgentSpec \<Rightarrow> WorkSummary \<Rightarrow> ExecutionRequest \<Rightarrow> SkillInput" where
  "skillInput a agent work request =
     (let (phase, targetAgent) = telegramExecutionPhaseAndTarget agent work in
      \<lparr>ski_TargetAgent = targetAgent,
       ski_Text = formatTelegramTaskMessage (te_env a) work targetAgent phase (er_CorrelationID (askedWork a agent work)) (te_notes a),
       ski_ChatID = None, ski_IdempotencyKey = Some (er_IdempotencyKey request)\<rparr>)"

definition askAgent :: "'x TelegramAdapter \<Rightarrow> AgentSpec \<Rightarrow> WorkSummary \<Rightarrow> ExecutionRequest \<Rightarrow> ('x, client_error + DeliveryResult option) op" where
  "askAgent a agent work request =
     RunA2ADeliveryBridgeWithResolver (te_fuel a) (te_env a) (te_exchange a) (te_client a) (skillInput a agent work request)
       (UserContext (te_context a)) (Some (te_resolver a))"

definition deliverWork :: "'x TelegramAdapter \<Rightarrow> AgentSpec \<Rightarrow> WorkSummary \<Rightarrow> ExecutionRequest \<Rightarrow> (executions \<times> 'x, AdapterResult) op" where
  "deliverWork a agent work request =
     (let ul = cn_lower (te_env a); i = er_CorrelationID request in
      bindE (onSecond (askAgent a agent work request)) (\<lambda>answer.
      case answer of
        Inl e \<Rightarrow>
          bindE (ignoreE (onFirst (MarkExecutionDelivered ul i deliveryStatusFailed (client_error_text e)))) (\<lambda>_.
          ret (adapterAnswer AdapterStatusFailed (sanitizeExecutionText ul (client_error_text e))))
      | Inr None \<Rightarrow> throw ErrFuel
      | Inr (Some delivery) \<Rightarrow>
          (let status = telegramDeliveryStatus (dl_Status delivery) in
           bindE (onFirst (MarkExecutionDelivered ul i status (dl_LastError delivery))) (\<lambda>_.
           if status = deliveryStatusFailed then
             (let summary = sanitizeExecutionText ul (dl_LastError delivery) in
              ret (adapterAnswer AdapterStatusFailed (if summary = [] then ''delivery failed'' else summary)))
           else ret (adapterAnswer AdapterStatusPending [])))))"

definition TelegramExecute :: "'x TelegramAdapter \<Rightarrow> (executions \<times> 'x) adapter" where
  "TelegramExecute a agent work =
     (if ws_State work \<in> {StateCreated, StateDispatched, StateReceived, StateClaimed, StateCompleted, StateFailed, StateExpired}
      then ret (adapterAnswer AdapterStatusCompleted [])
      else onSecond
        (bindE (onFirst (EnsureExecutionRequest (askedWork a agent work))) (\<lambda>request.
         case adapterResultFromExecutionRequest request of
           Some result \<Rightarrow> ret result
         | None \<Rightarrow>
             if ws_State work \<noteq> StateStarted \<and> ws_State work \<noteq> StateSubmitted
             then ret (adapterAnswer AdapterStatusPending [])
             else deliverWork a agent work request)))"

interpretation telegram: agent_adapter "TelegramExecute a" for a
  by unfold_locales (auto simp: TelegramExecute_def intro: onSecond_fst preserves_ret)

end
