(* ===== verification/Swarm_Asks.thy ===== *)
theory Swarm_Asks
  imports Swarm_Telegram
begin

text \<open>
  What the Telegram adapter does to the table of executions and to the sender: it keeps the table's
  invariant, a recorded result is answered from the table alone, and a piece of work that was asked
  for is not sent again, however often the driver returns to it.
\<close>

section \<open>The table of executions\<close>

definition table_kept :: "executions \<Rightarrow> executions \<Rightarrow> bool" where
  "table_kept d d' \<longleftrightarrow> executions_grow d d' \<and> (executions_inv d \<longrightarrow> executions_inv d')"

lemma table_kept_refl [simp]: "table_kept d d"
  by (simp add: table_kept_def executions_grow_refl)

lemma table_kept_trans: "table_kept d e \<Longrightarrow> table_kept e f \<Longrightarrow> table_kept d f"
  unfolding table_kept_def using executions_grow_trans by blast

lemma ensured_kept: "ensured q d d' \<Longrightarrow> table_kept d d'"
  by (simp add: table_kept_def ensured_grow ensured_inv)

lemma updated_kept: "updated_execution i P d d' \<Longrightarrow> table_kept d d'"
  by (auto simp: table_kept_def updated_grow intro: updated_inv)

lemma ensure_result:
  assumes "EnsureExecutionRequest q w = (r, w')"
  shows "ensured q (w_db w) (w_db w')"
    and "r = Inr row \<Longrightarrow> find_by er_CorrelationID (trimSpace (er_CorrelationID q)) (w_db w') = Some row"
  using assms guaranteesD [OF ensure_contract [of q "w_db w"]] by (cases r; auto)+

lemma mark_kept: "MarkExecutionDelivered ul i s e w = (r, w') \<Longrightarrow> table_kept (w_db w) (w_db w')"
  by (cases r) (auto dest!: guaranteesD [OF mark_contract] intro: updated_kept)

lemma ensure_faults: "w_faults w = [] \<Longrightarrow> w_faults (snd (EnsureExecutionRequest q w)) = []"
  by (simp add: EnsureExecutionRequest_def GetExecutionByCorrelationID_def Let_def bindE_def throw_def now_op_def
      wrapE_def statement_def split: option.split sum.split prod.split)

lemma ensure_quiet: "EnsureExecutionRequest q w = (e, y) \<Longrightarrow> w_faults w = [] \<Longrightarrow> w_faults y = []"
  using ensure_faults [of w q] by simp

text \<open>A row that is there already is the one returned, and the table stays as it is.\<close>

lemma ensure_known:
  assumes "find_by er_CorrelationID (trimSpace (er_CorrelationID q)) d = Some row"
  shows "guarantees (EnsureExecutionRequest q) (\<lambda>r d'. r = row \<and> d' = d) (\<lambda>d'. d' = d) d"
proof -
  have "insertExecution (newExecution (trimExecution q) now) d = Inr ((), d)" for now
  proof -
    have "er_CorrelationID (newExecution (trimExecution q) now) = trimSpace (er_CorrelationID q)"
      by (simp add: newExecution_def trimExecution_keys)
    then show ?thesis unfolding insertExecution_def using assms by (simp only: option.distinct if_True simp_thms)
  qed
  then show ?thesis
    unfolding EnsureExecutionRequest_def Let_def GetExecutionByCorrelationID_def trimExecution_keys trimSpace_idem using assms
    by (intro vcg) simp_all
qed

lemma ensure_known_run:
  assumes "find_by er_CorrelationID (trimSpace (er_CorrelationID q)) (w_db w) = Some row"
    and "EnsureExecutionRequest q w = (e, y)"
  shows "w_db y = w_db w \<and> (\<forall>x. e = Inr x \<longrightarrow> x = row)"
proof (cases e)
  case (Inl x)
  with guaranteesD(1) [OF ensure_known [OF assms(1)]] assms(2) show ?thesis by simp
next
  case (Inr x)
  with guaranteesD(2) [OF ensure_known [OF assms(1)]] assms(2) show ?thesis by simp
qed

text \<open>Without faults the row is returned when the request names its work.\<close>

definition named :: "ExecutionRequest \<Rightarrow> bool" where
  "named q \<longleftrightarrow> trimSpace (er_CorrelationID q) \<noteq> [] \<and> trimSpace (er_WorkflowID q) \<noteq> [] \<and> trimSpace (er_HandoffID q) \<noteq> []
     \<and> trimSpace (er_AgentID q) \<noteq> [] \<and> trimSpace (er_IdempotencyKey q) \<noteq> [] \<and> validExecutionPhase (trimSpace (er_Phase q))"

lemma ensure_named:
  assumes "find_by er_CorrelationID (trimSpace (er_CorrelationID q)) (w_db w) = Some row"
    and "w_faults w = []" and "named q"
  obtains y where "EnsureExecutionRequest q w = (Inr row, y)"
proof -
  have keys: "er_CorrelationID (trimExecution q) = trimSpace (er_CorrelationID q)" "er_WorkflowID (trimExecution q) = trimSpace (er_WorkflowID q)"
    "er_HandoffID (trimExecution q) = trimSpace (er_HandoffID q)" "er_AgentID (trimExecution q) = trimSpace (er_AgentID q)"
    "er_IdempotencyKey (trimExecution q) = trimSpace (er_IdempotencyKey q)" "er_Phase (trimExecution q) = trimSpace (er_Phase q)"
    by (simp_all add: trimExecution_def)
  have known: "insertExecution (newExecution (trimExecution q) now) (w_db w) = Inr ((), w_db w)" for now
    using assms(1) by (simp add: insertExecution_def newExecution_def keys)
  show thesis
    by (rule that, unfold EnsureExecutionRequest_def Let_def keys)
      (use assms known in \<open>simp add: named_def bindE_def now_op_def wrapE_def fault_free GetExecutionByCorrelationID_def\<close>)
qed

section \<open>Parts of the database\<close>

lemma onFirst_keeps_snd [simp]: "snd (w_db (snd (onFirst m w))) = snd (w_db w)"
  by (simp add: onFirst_def split: prod.split)

lemma onSecond_keeps_fst [simp]: "fst (w_db (snd (onSecond m w))) = fst (w_db w)"
  by (simp add: onSecond_def split: prod.split)

lemma ignoreE_state: "snd (ignoreE m w) = snd (m w)"
  by (simp add: ignoreE_def handleE_def bindE_def ret_def split: prod.split sum.split)

lemma marked:
  "onFirst (MarkExecutionDelivered ul i s e) w = (r, w') \<Longrightarrow>
     snd (w_db w') = snd (w_db w) \<and> table_kept (fst (w_db w)) (fst (w_db w'))"
  using mark_kept [of ul i s e "withDb (fst (w_db w)) w"]
  by (cases "MarkExecutionDelivered ul i s e (withDb (fst (w_db w)) w)") (auto simp: onFirst_def)

lemma ignored_mark:
  "ignoreE (onFirst (MarkExecutionDelivered ul i s e)) w = (r, w') \<Longrightarrow>
     snd (w_db w') = snd (w_db w) \<and> table_kept (fst (w_db w)) (fst (w_db w'))"
  using marked [of ul i s e w] ignoreE_state [of "onFirst (MarkExecutionDelivered ul i s e)" w]
  by (cases "onFirst (MarkExecutionDelivered ul i s e) w") auto

text \<open>The work is delivered by one run of the bridge; its outcome is marked in the table.\<close>

lemma deliverWork_runs:
  assumes "deliverWork a agent work request w = (r, w')"
  obtains answer u where "askAgent a agent work request (withDb (snd (w_db w)) w) = (answer, u)"
    and "snd (w_db w') = w_db u" and "table_kept (fst (w_db w)) (fst (w_db w'))"
    and "r = Inr result \<Longrightarrow> ad_Status result = AdapterStatusPending \<Longrightarrow>
      \<exists>d. answer = Inr (Inr (Some d)) \<and> telegramDeliveryStatus (dl_Status d) \<noteq> deliveryStatusFailed"
proof -
  obtain answer u where u: "askAgent a agent work request (withDb (snd (w_db w)) w) = (answer, u)" by fastforce
  then have second: "onSecond (askAgent a agent work request) w = (answer, withDb (fst (w_db w), w_db u) u)"
    by (simp add: onSecond_def)
  show thesis
  proof (rule that [OF u])
    show "snd (w_db w') = w_db u" "table_kept (fst (w_db w)) (fst (w_db w'))"
      using assms second
      by (auto simp: deliverWork_def Let_def bindE_def ret_def throw_def split: sum.splits option.splits prod.splits if_splits
          dest!: ignored_mark marked)
    show "\<exists>d. answer = Inr (Inr (Some d)) \<and> telegramDeliveryStatus (dl_Status d) \<noteq> deliveryStatusFailed"
      if "r = Inr result" "ad_Status result = AdapterStatusPending"
      using assms second that
      by (auto simp: deliverWork_def Let_def bindE_def ret_def throw_def adapterAnswer_def AdapterStatusPending_def
          AdapterStatusFailed_def split: sum.splits option.splits prod.splits if_splits)
  qed
qed

section \<open>Execute\<close>

abbreviation executionsOf :: "(store \<times> executions \<times> 'x) world \<Rightarrow> executions" where
  "executionsOf w \<equiv> fst (snd (w_db w))"

abbreviation transportOf :: "(store \<times> executions \<times> 'x) world \<Rightarrow> 'x" where
  "transportOf w \<equiv> snd (snd (w_db w))"

definition asking :: "WorkSummary \<Rightarrow> bool" where
  "asking work \<longleftrightarrow> ws_State work = StateStarted \<or> ws_State work = StateSubmitted"

text \<open>The three ways of an execution that asks: no row, a recorded result, or one delivery.\<close>

lemma Execute_runs:
  assumes "TelegramExecute a agent work w = (r, w')" and "asking work"
  obtains (unknown) e y where "EnsureExecutionRequest (askedWork a agent work) (withDb (executionsOf w) w) = (Inl e, y)"
      "executionsOf w' = w_db y" "transportOf w' = transportOf w" "r = Inl e"
  | (recorded) row result y where "EnsureExecutionRequest (askedWork a agent work) (withDb (executionsOf w) w) = (Inr row, y)"
      "adapterResultFromExecutionRequest row = Some result"
      "executionsOf w' = w_db y" "transportOf w' = transportOf w" "r = Inr result"
  | (delivered) row y z where "EnsureExecutionRequest (askedWork a agent work) (withDb (executionsOf w) w) = (Inr row, y)"
      "adapterResultFromExecutionRequest row = None"
      "deliverWork a agent work row (withDb (w_db y, transportOf w) y) = (r, z)" "w_db w' = (fst (w_db w), w_db z)"
proof -
  obtain e y where y: "EnsureExecutionRequest (askedWork a agent work) (withDb (executionsOf w) w) = (e, y)" by fastforce
  have asks: "ws_State work \<notin> {StateCreated, StateDispatched, StateReceived, StateClaimed, StateCompleted, StateFailed, StateExpired}"
    and state: "\<not> (ws_State work \<noteq> StateStarted \<and> ws_State work \<noteq> StateSubmitted)"
    using assms(2) by (auto simp: asking_def)
  have run: "TelegramExecute a agent work w = onSecond
      (bindE (onFirst (EnsureExecutionRequest (askedWork a agent work))) (\<lambda>request.
         case adapterResultFromExecutionRequest request of
           Some result \<Rightarrow> ret result | None \<Rightarrow> deliverWork a agent work request)) w"
    unfolding TelegramExecute_def if_not_P [OF asks] if_not_P [OF state] by (rule refl)
  have first: "onFirst (EnsureExecutionRequest (askedWork a agent work)) (withDb (snd (w_db w)) w)
      = (e, withDb (w_db y, transportOf w) y)"
    using y by (simp add: onFirst_def)
  show thesis
  proof (cases e)
    case (Inl err)
    with run first y assms(1) unknown show thesis by (simp add: onSecond_def bindE_def)
  next
    case (Inr row)
    show thesis
    proof (cases "adapterResultFromExecutionRequest row")
      case (Some result)
      with run first y Inr assms(1) recorded show thesis by (simp add: onSecond_def bindE_def ret_def)
    next
      case None
      obtain r0 z where z: "deliverWork a agent work row (withDb (w_db y, transportOf w) y) = (r0, z)" by fastforce
      with run first y Inr None assms(1) delivered show thesis by (simp add: onSecond_def bindE_def)
    qed
  qed
qed

lemma Execute_idle:
  "\<not> asking work \<Longrightarrow> TelegramExecute a agent work w = (r, w') \<Longrightarrow>
     transportOf w' = transportOf w \<and> table_kept (executionsOf w) (executionsOf w')"
proof -
  assume idle: "\<not> asking work" and run: "TelegramExecute a agent work w = (r, w')"
  obtain e y where y: "EnsureExecutionRequest (askedWork a agent work) (withDb (executionsOf w) w) = (e, y)" by fastforce
  have "table_kept (executionsOf w) (w_db y)" using ensure_result(1) [OF y] by (auto intro: ensured_kept)
  moreover have "onFirst (EnsureExecutionRequest (askedWork a agent work)) (withDb (snd (w_db w)) w)
      = (e, withDb (w_db y, transportOf w) y)"
    using y by (simp add: onFirst_def)
  ultimately show ?thesis
    using run idle
    by (auto simp: TelegramExecute_def asking_def onSecond_def bindE_def ret_def split: if_splits sum.splits option.splits)
qed

lemma Execute_table:
  assumes "TelegramExecute a agent work w = (r, w')"
  shows "table_kept (executionsOf w) (executionsOf w')"
proof (cases "asking work")
  case True
  from assms True show ?thesis
  proof (cases rule: Execute_runs)
    case (unknown e y)
    with ensure_result(1) [OF unknown(1)] show ?thesis by (auto intro: ensured_kept)
  next
    case (recorded row result y)
    with ensure_result(1) [OF recorded(1)] show ?thesis by (auto intro: ensured_kept)
  next
    case (delivered row y z)
    have "table_kept (executionsOf w) (w_db y)" using ensure_result(1) [OF delivered(1)] by (auto intro: ensured_kept)
    moreover have "table_kept (w_db y) (fst (w_db z))"
      using delivered(3) by (auto elim!: deliverWork_runs)
    ultimately show ?thesis using delivered(4) table_kept_trans by auto
  qed
qed (use assms Execute_idle in blast)

definition workKey :: "'x TelegramAdapter \<Rightarrow> AgentSpec \<Rightarrow> WorkSummary \<Rightarrow> string" where
  "workKey a agent work = trimSpace (er_CorrelationID (askedWork a agent work))"

text \<open>A recorded result is answered from the table; nobody is asked and nothing is written.\<close>

lemma Execute_recorded:
  assumes "asking work" and "find_by er_CorrelationID (workKey a agent work) (executionsOf w) = Some row"
    and "adapterResultFromExecutionRequest row = Some result" and run: "TelegramExecute a agent work w = (r, w')"
  shows "w_db w' = w_db w \<and> (case r of Inr x \<Rightarrow> x = result
    | Inl e \<Rightarrow> \<not> (w_faults w = [] \<and> named (askedWork a agent work)))"
proof -
  let ?q = "askedWork a agent work"
  have succeeds: "\<not> (w_faults w = [] \<and> named ?q)" if "EnsureExecutionRequest ?q (withDb (executionsOf w) w) = (Inl e, y)" for e y
  proof
    assume "w_faults w = [] \<and> named ?q"
    with assms(2) obtain z where "EnsureExecutionRequest ?q (withDb (executionsOf w) w) = (Inr row, z)"
      by (auto simp: workKey_def intro: ensure_named [of ?q "withDb (executionsOf w) w" row])
    with that show False by simp
  qed
  have ens: "w_db y = executionsOf w \<and> (\<forall>x. e = Inr x \<longrightarrow> x = row)"
    if "EnsureExecutionRequest ?q (withDb (executionsOf w) w) = (e, y)" for e y
    using ensure_known_run [OF _ that] assms(2) by (simp add: workKey_def)
  have fst: "fst (w_db w') = fst (w_db w)"
    using run preservesD [OF telegram.keeps_store [of "fst (w_db w)" a agent work], of w] by simp
  from run assms(1) show ?thesis
  proof (cases rule: Execute_runs)
    case (unknown e y)
    with ens [OF unknown(1)] succeeds [OF unknown(1)] fst show ?thesis by (simp add: prod_eq_iff)
  next
    case (recorded row' result' y)
    with ens [OF recorded(1)] assms(3) fst show ?thesis by (simp add: prod_eq_iff)
  next
    case (delivered row' y z)
    with ens [OF delivered(1)] assms(3) show ?thesis by simp
  qed
qed

section \<open>Work is sent once\<close>

lemma Send_positive:
  assumes "Send env exchange c b chatID msg key w = (Inr (Inr (jobID, status)), w')"
  shows "0 < jobID"
proof -
  let ?q = "\<lparr>cq_Method = ''POST'', cq_URL = cl_baseURL c @ ''/send'', cq_Authorization = bearer c,
         cq_Body = cn_marshal env (sendPayload b chatID msg (trimSpace key))\<rparr>"
  obtain r u where r: "exchange ?q w = (Inr r, u)"
    using assms by (auto simp: Send_def bindE_Inr)
  show ?thesis
  proof (cases r)
    case (Inl e)
    with assms r show ?thesis by (simp add: Send_def bindE_def fail_def ret_def)
  next
    case (Inr p)
    obtain code body where "p = (code, body)" by (cases p)
    with assms r Inr show ?thesis
      by (cases "Option.bind (cn_decode env body) (\<lambda>v. lenientStruct sendReplySpec v (0, []))")
        (auto simp: Send_def bindE_def fail_def ret_def split: if_splits)
  qed
qed

context transport
begin

lemma bridge_accepted:
  assumes prep: "prepared env input ctx resolver = Inr (agent, chatID, b)" and key: "ski_IdempotencyKey input = Some k"
    and run: "RunA2ADeliveryBridgeWithResolver fuel env exchange c input ctx (Some resolver) w = (Inr (Inr (Some d)), w1)"
    and "dl_Status d \<noteq> ''failed''"
  shows "0 < dl_JobID d"
proof -
  have "trimSpace k \<noteq> []" using blank_key_refused [OF prep key, of fuel exchange c w] run by auto
  then have keyed: "bridgeKey input agent chatID w = (Inr (Inr (trimSpace k)), w)" by (simp add: bridgeKey_def key ret_def)
  obtain sent wa where sent: "Send env exchange c b chatID (ski_Text input) (trimSpace k) w = (Inr sent, wa)"
    using Send_answers unfolding answering_def by blast
  show ?thesis
  proof (cases sent)
    case (Inl e)
    with bridge_steps [OF prep keyed sent, of fuel] run assms(4) show ?thesis
      by (auto simp: accepted_base_def split: if_splits)
  next
    case (Inr p)
    obtain jobID status where p: "p = (jobID, status)" by (cases p)
    with bridge_steps [OF prep keyed sent, of fuel] run Inr have
      "afterSend fuel env exchange c (accepted_base (agent, chatID, b) jobID) status wa = (Inr (Inr (Some d)), w1)" by simp
    then have "dl_JobID d = jobID" using afterSend_job by (fastforce simp: accepted_base_def)
    with sent Inr p show ?thesis using Send_positive by metis
  qed
qed

end

definition workText :: "'x TelegramAdapter \<Rightarrow> AgentSpec \<Rightarrow> WorkSummary \<Rightarrow> string" where
  "workText a agent work = (case telegramExecutionPhaseAndTarget agent work of (phase, targetAgent) \<Rightarrow>
     formatTelegramTaskMessage (te_env a) work targetAgent phase (er_CorrelationID (askedWork a agent work)) (te_notes a))"

lemma skillInput_fields:
  "ski_TargetAgent (skillInput a agent work row) = snd (telegramExecutionPhaseAndTarget agent work)"
  "ski_Text (skillInput a agent work row) = workText a agent work"
  "ski_ChatID (skillInput a agent work row) = None"
  "ski_IdempotencyKey (skillInput a agent work row) = Some (er_IdempotencyKey row)"
  by (simp_all add: skillInput_def workText_def split: prod.split)

lemma prepared_asked:
  "prepared env (skillInput a agent work row) ctx resolver = prepared env (skillInput a agent work row') ctx resolver"
  unfolding prepared_def checkSkillInput_def bridgeTarget_def skillInput_fields by (rule refl)

lemma skillInput_same: "er_IdempotencyKey row = er_IdempotencyKey row' \<Longrightarrow> skillInput a agent work row = skillInput a agent work row'"
  by (simp add: skillInput_def split: prod.split)

lemma failed_status: "telegramDeliveryStatus s \<noteq> deliveryStatusFailed \<Longrightarrow> s \<noteq> ''failed''"
proof
  assume "telegramDeliveryStatus s \<noteq> deliveryStatusFailed" "s = ''failed''"
  moreover have "trimSpace ''failed'' = ''failed''" by (rule trimSpace_visible) (simp_all add: visible_char_def)
  ultimately show False by (simp add: telegramDeliveryStatus_def delivery_status_defs)
qed

text \<open>An execution that left its work pending has a row in the table, and its message was accepted.\<close>

lemma pending_asked:
  assumes "asking work" and run: "TelegramExecute a agent work w = (Inr result, w1)" and "ad_Status result = AdapterStatusPending"
    and inv: "executions_inv (executionsOf w)"
  obtains row y d u where "find_by er_CorrelationID (workKey a agent work) (w_db y) = Some row"
    and "table_kept (w_db y) (executionsOf w1)" and "executions_inv (executionsOf w1)"
    and "askAgent a agent work row (withDb (transportOf w) y) = (Inr (Inr (Some d)), u)" and "w_db u = transportOf w1"
    and "telegramDeliveryStatus (dl_Status d) \<noteq> deliveryStatusFailed" and "w_faults w = [] \<Longrightarrow> w_faults y = []"
  using run assms(1)
proof (cases rule: Execute_runs)
  case (recorded row result' y)
  have "executions_inv (w_db y)" using ensure_result(1) [OF recorded(1)] inv by (auto intro: ensured_inv)
  moreover have "row \<in> set (w_db y)" using ensure_result(2) [OF recorded(1) refl] by (auto dest: find_by_Some)
  ultimately have "execution_ok row" by (auto simp: executions_inv_def list_all_iff)
  moreover have "er_ResultStatus row = AdapterStatusPending" "er_ResultStatus row \<noteq> []"
    using recorded(2,5) assms(3) by (auto simp: adapterResultFromExecutionRequest_def split: if_splits)
  ultimately show thesis by (simp add: execution_ok_def validExecutionResultStatus_def AdapterStatusPending_def)
next
  case (delivered row y z)
  have found: "find_by er_CorrelationID (workKey a agent work) (w_db y) = Some row"
    using ensure_result(2) [OF delivered(1) refl] by (simp add: workKey_def)
  have faults: "w_faults y = []" if "w_faults w = []"
    using ensure_quiet [OF delivered(1)] that by simp
  have table: "executions_inv (executionsOf w1)" using Execute_table [OF run] inv by (simp add: table_kept_def)
  from delivered(3) show thesis
  proof (rule deliverWork_runs [where result = result])
    fix answer u
    assume "askAgent a agent work row (withDb (snd (w_db (withDb (w_db y, transportOf w) y))) (withDb (w_db y, transportOf w) y)) = (answer, u)"
      "snd (w_db z) = w_db u" "table_kept (fst (w_db (withDb (w_db y, transportOf w) y))) (fst (w_db z))"
      "(Inr result :: error + AdapterResult) = Inr result \<Longrightarrow> ad_Status result = AdapterStatusPending \<Longrightarrow>
        \<exists>d. answer = Inr (Inr (Some d)) \<and> telegramDeliveryStatus (dl_Status d) \<noteq> deliveryStatusFailed"
    then show thesis using that [OF found _ table] delivered(4) faults assms(3) by auto
  qed
qed simp

text \<open>The two sides agree on the work: the checks before the send pass, and its message decodes.\<close>

definition deliverable ::
  "'x TelegramAdapter \<Rightarrow> (string \<Rightarrow> sendRequest option) \<Rightarrow> AgentSpec \<Rightarrow> WorkSummary \<Rightarrow> string \<Rightarrow> bool" where
  "deliverable a decode agent work key \<longleftrightarrow>
     (\<exists>name chatID b. prepared (te_env a) (skillInput a agent work (askedWork a agent work)) (UserContext (te_context a)) (te_resolver a)
          = Inr (name, chatID, b)
        \<and> understands (te_env a) decode b chatID (workText a agent work) key)"

lemma understands_trimmed: "understands env decode b chatID msg (trimSpace key) = understands env decode b chatID msg key"
  by (simp add: understands_def delivered_body_def requestOf_def)

lemma Execute_again:
  fixes a :: "sender TelegramAdapter"
  assumes asks: "asking work" and reach: "queue_reachable (transportOf w, js)" and free: "w_faults w = []"
    and table: "executions_inv (executionsOf w)"
    and link: "same_key (te_client a) h" "readsReply (te_env a) encode"
    and server: "te_exchange a = senderExchange ul decode encode params (cl_baseURL (te_client a)) h"
    and first: "TelegramExecute a agent work w = (Inr result, w1)" "ad_Status result = AdapterStatusPending"
    and stored: "find_by er_CorrelationID (workKey a agent work) (executionsOf w1) = Some stored"
      "deliverable a decode agent work (er_IdempotencyKey stored)"
    and later: "queue_step\<^sup>*\<^sup>* (transportOf w1, js) (transportOf v, js')"
      "execution_step\<^sup>*\<^sup>* (executionsOf w1) (executionsOf v)" "w_faults v = []"
    and small: "sn_seq (transportOf w1) < 2 ^ 63"
    and again: "TelegramExecute a agent work v = (r, v')"
  shows "transportOf v' = transportOf v"
proof -
  obtain row y d u where row: "find_by er_CorrelationID (workKey a agent work) (w_db y) = Some row"
    "table_kept (w_db y) (executionsOf w1)" "executions_inv (executionsOf w1)"
    "askAgent a agent work row (withDb (transportOf w) y) = (Inr (Inr (Some d)), u)" "w_db u = transportOf w1"
    "telegramDeliveryStatus (dl_Status d) \<noteq> deliveryStatusFailed" "w_faults y = []"
    using pending_asked [OF asks first table] free by metis
  obtain name chatID b where prep: "\<And>row. prepared (te_env a) (skillInput a agent work row) (UserContext (te_context a)) (te_resolver a)
      = Inr (name, chatID, b)" and texts: "understands (te_env a) decode b chatID (workText a agent work) (er_IdempotencyKey stored)"
    using stored(2) prepared_asked unfolding deliverable_def by metis
  have grown: "executions_grow (w_db y) (executionsOf v)" "executions_inv (executionsOf v)"
    using execution_table.moves_grows [OF later(2)] execution_table.moves_inv [OF later(2) row(3)] row(2) executions_grow_trans
    by (auto simp: table_kept_def)
  obtain row' where row': "find_by er_CorrelationID (workKey a agent work) (executionsOf v) = Some row'" "kept row row'"
    using find_by_grow [OF grown row(1)] by blast
  have "executions_grow (w_db y) (executionsOf w1)" using row(2) by (simp add: table_kept_def)
  then have key: "er_IdempotencyKey stored = er_IdempotencyKey row"
    using find_by_grow [OF _ row(3) row(1)] stored(1) by (auto simp: kept_def asked_def)
  from again asks show ?thesis
  proof (cases rule: Execute_runs)
    case (delivered row2 y2 z)
    have "row2 = row'"
      using ensure_known_run [OF _ delivered(1), of row'] row'(1) by (simp add: workKey_def)
    then have same: "skillInput a agent work row2 = skillInput a agent work row"
      using row'(2) by (intro skillInput_same) (simp add: kept_def asked_def)
    have faults: "w_faults y2 = []" using ensure_quiet [OF delivered(1)] later(3) by simp
    obtain answer u2 where u2: "askAgent a agent work row2 (withDb (transportOf v) y2) = (answer, u2)" "w_db u2 = snd (w_db z)"
      using delivered(3) by (rule deliverWork_runs) auto
    have accepted: "dl_JobID d \<noteq> 0"
      using sender_server.bridge_accepted [OF prep skillInput_fields(4) row(4) [unfolded askAgent_def server] failed_status [OF row(6)]]
      by simp
    have told: "understands (te_env a) decode b chatID (ski_Text (skillInput a agent work row)) (trimSpace (er_IdempotencyKey row))"
      using texts key by (simp add: skillInput_fields understands_trimmed)
    obtain status where "\<And>n. RunA2ADeliveryBridgeWithResolver n (te_env a) (te_exchange a) (te_client a) (skillInput a agent work row)
        (UserContext (te_context a)) (Some (te_resolver a)) (withDb (transportOf v) y2)
      = afterSend n (te_env a) (te_exchange a) (te_client a) (accepted_base (name, chatID, b) (dl_JobID d)) status
        (withDb (transportOf v) y2)"
      by (rule bridge_again [OF _ _ link(1,2) told prep skillInput_fields(4) server row(4) [unfolded askAgent_def] accepted,
            of js "withDb (transportOf v) y2" js'])
        (use small in \<open>simp_all add: reach row(5,7) later(1) faults\<close>)
    with u2(1) afterSend_reads have "w_db u2 = transportOf v"
      unfolding askAgent_def same server by (metis withDb_simps(1))
    with u2(2) delivered(4) show ?thesis by simp
  qed simp_all
qed

end
