(* ===== verification/Tool_Sender.thy ===== *)
theory Tool_Sender
  imports Swarm_Asks
begin

text \<open>
  \<open>handlers.go\<close> of \<open>internal/toolserver\<close>: the tool calls on the sender's client and on the table of
  executions. A handler made without a client or a store refuses; both are options here.
\<close>

section \<open>The sender's client\<close>

definition withClient :: "SenderClient option \<Rightarrow> (SenderClient \<Rightarrow> ('x, 'a) cop) \<Rightarrow> ('x, 'a) cop" where
  "withClient client call =
     (case client of None \<Rightarrow> fail (failure ''sender client is required'') | Some c \<Rightarrow> call c)"

definition HandleSenderHealth :: "client_env \<Rightarrow> 'x exchange \<Rightarrow> SenderClient option \<Rightarrow> ('x, string) cop" where
  "HandleSenderHealth env exchange client = withClient client (Health env exchange)"

definition HandleSenderReady :: "client_env \<Rightarrow> 'x exchange \<Rightarrow> SenderClient option \<Rightarrow> ('x, string) cop" where
  "HandleSenderReady env exchange client = withClient client (ClientReadiness env exchange)"

definition HandleSenderStats :: "client_env \<Rightarrow> 'x exchange \<Rightarrow> SenderClient option \<Rightarrow> ('x, SenderStats) cop" where
  "HandleSenderStats env exchange client = withClient client (ClientStats env exchange)"

definition maxSenderJobListLimit :: int where "maxSenderJobListLimit = 100"

definition isSenderJobStatus :: "string \<Rightarrow> bool" where
  "isSenderJobStatus status \<longleftrightarrow> status \<in> {StatusPending, StatusSending, StatusRetry, StatusSent, StatusFailed}"

definition HandleSenderJobList ::
  "client_env \<Rightarrow> 'x exchange \<Rightarrow> SenderClient option \<Rightarrow> string \<Rightarrow> int \<Rightarrow> ('x, SenderJobListItem list) cop" where
  "HandleSenderJobList env exchange client rawStatus limit =
     withClient client (\<lambda>c.
     let status = toLower (cn_lower env) (trimSpace rawStatus) in
     if \<not> isSenderJobStatus status then fail (failure ''invalid status'')
     else if limit \<le> 0 \<or> limit > maxSenderJobListLimit then fail (failure ''invalid limit'')
     else ClientListJobs env exchange c status limit)"

definition HandleSenderJobGet :: "client_env \<Rightarrow> 'x exchange \<Rightarrow> SenderClient option \<Rightarrow> int \<Rightarrow> ('x, SenderJob) cop" where
  "HandleSenderJobGet env exchange client jobID =
     withClient client (\<lambda>c. if jobID \<le> 0 then fail (failure ''job_id is required'') else ClientGetJob env exchange c jobID)"

record A2ADeliverInput =
  adi_TargetAgent :: string
  adi_Text :: string
  adi_ChatID :: "int option"
  adi_IdempotencyKey :: "string option"
  adi_DeliveryContextTo :: "int option"
  adi_DirectSessionPeerChatID :: "int option"
  adi_InboundSenderChatID :: "int option"

definition deliverSkill :: "A2ADeliverInput \<Rightarrow> SkillInput" where
  "deliverSkill input = \<lparr>ski_TargetAgent = trimSpace (adi_TargetAgent input), ski_Text = adi_Text input,
     ski_ChatID = adi_ChatID input, ski_IdempotencyKey = adi_IdempotencyKey input\<rparr>"

definition deliverContext :: "A2ADeliverInput \<Rightarrow> TargetUserContext" where
  "deliverContext input = \<lparr>tc_DeliveryContextTo = adi_DeliveryContextTo input,
     tc_DirectSessionPeerChatID = adi_DirectSessionPeerChatID input, tc_InboundSenderChatID = adi_InboundSenderChatID input\<rparr>"

definition HandleA2ADeliver ::
  "nat \<Rightarrow> client_env \<Rightarrow> 'x exchange \<Rightarrow> SenderClient option \<Rightarrow> TargetAgentBotResolver option \<Rightarrow> A2ADeliverInput
   \<Rightarrow> ('x, DeliveryResult option) cop" where
  "HandleA2ADeliver fuel env exchange client resolver input =
     withClient client (\<lambda>c. RunA2ADeliveryBridgeWithResolver fuel env exchange c (deliverSkill input)
       (UserContext (deliverContext input)) resolver)"

section \<open>The table of executions\<close>

record SwarmExecutionResultRecordInput =
  rri_Type :: string
  rri_CorrelationID :: string
  rri_Status :: string
  rri_Summary :: string
  rri_ArtifactCount :: int
  rri_ReviewDecision :: string

definition executionResultOf :: "SwarmExecutionResultRecordInput \<Rightarrow> ExecutionResult" where
  "executionResultOf input = \<lparr>ex_CorrelationID = trimSpace (rri_CorrelationID input), ex_Status = trimSpace (rri_Status input),
     ex_Summary = rri_Summary input, ex_ArtifactCount = rri_ArtifactCount input,
     ex_ReviewDecision = ReviewDecisionOf (trimSpace (rri_ReviewDecision input))\<rparr>"

definition HandleSwarmExecutionResultRecord ::
  "(string \<Rightarrow> string) \<Rightarrow> bool \<Rightarrow> SwarmExecutionResultRecordInput \<Rightarrow> ExecutionRequest xop" where
  "HandleSwarmExecutionResultRecord ul hasStore input =
     (if \<not> hasStore then throw (ErrorText ''swarm execution store is required'')
      else if trimSpace (rri_Type input) \<notin> {[], ''clawside.result''} then throw (ErrorText ''invalid result type'')
      else
        (let result = executionResultOf input in
         bindE (SaveExecutionResult ul result) (\<lambda>_. GetExecutionByCorrelationID (ex_CorrelationID result))))"

section \<open>Asking the sender\<close>

lemma preserves_getJSON [preserves_intros]:
  "preserves P (getJSON env (senderExchange ul decode encode params base h) c path spec zero what)"
proof -
  have "preserves P (senderExchange ul decode encode params base h q)" if "cq_Method q = ''GET''" for q
    unfolding senderExchange_def
    by (intro preserves_intros reads_unless_send) (simp add: may_send_def senderRequest_def Let_def that split: prod.split)
  then show ?thesis unfolding getJSON_def by (intro preserves_intros) auto
qed

lemma preserves_withClient [preserves_intros]:
  "(\<And>c. preserves P (call c)) \<Longrightarrow> preserves P (withClient client call)"
  unfolding withClient_def by (intro preserves_intros)

lemma sender_tools_read:
  "preserves P (HandleSenderHealth env (senderExchange ul decode encode params base h) client)"
  "preserves P (HandleSenderReady env (senderExchange ul decode encode params base h) client)"
  "preserves P (HandleSenderStats env (senderExchange ul decode encode params base h) client)"
  "preserves P (HandleSenderJobList env (senderExchange ul decode encode params base h) client status limit)"
  "preserves P (HandleSenderJobGet env (senderExchange ul decode encode params base h) client jobID)"
  unfolding HandleSenderHealth_def HandleSenderReady_def HandleSenderStats_def HandleSenderJobList_def HandleSenderJobGet_def
    Health_def ClientReadiness_def ClientStats_def ClientListJobs_def Let_def
  by (intro preserves_intros)+

lemma sanitized_client_error: "\<not> holds_token (sanitizeSenderLastError e)"
proof -
  have "\<not> holds_token []" using redact_token_free [of "[]"] by simp
  then show ?thesis by (simp add: sanitizeSenderLastError_def redact_token_free)
qed

lemma job_list_checked:
  assumes "HandleSenderJobList env exchange client status limit w = (Inr (Inr jobs), w')"
  shows "isSenderJobStatus (toLower (cn_lower env) (trimSpace status))" "0 < limit" "limit \<le> 100"
    "\<forall>j\<in>set jobs. \<not> holds_token (sli_LastError j)"
  using assms
  by (auto simp: HandleSenderJobList_def withClient_def Let_def fail_def ret_def maxSenderJobListLimit_def ClientListJobs_def
      bindC_def bindE_def sanitized_client_error split: option.splits if_splits prod.splits sum.splits)

lemma job_get_checked:
  assumes "HandleSenderJobGet env exchange client jobID w = (Inr (Inr job), w')"
  shows "0 < jobID" "\<not> holds_token (sj_LastError job)"
  using assms
  by (auto simp: HandleSenderJobGet_def withClient_def fail_def ret_def ClientGetJob_def bindC_def bindE_def sanitized_client_error
      split: option.splits if_splits prod.splits sum.splits)

section \<open>Recording a result\<close>

text \<open>What the call needs to succeed.\<close>

definition acceptsResult :: "bool \<Rightarrow> SwarmExecutionResultRecordInput \<Rightarrow> executions \<Rightarrow> bool" where
  "acceptsResult hasStore input d \<longleftrightarrow> hasStore \<and> trimSpace (rri_Type input) \<in> {[], ''clawside.result''}
     \<and> trimSpace (rri_CorrelationID input) \<noteq> [] \<and> validExecutionResultStatus (trimSpace (rri_Status input))
     \<and> validExecutionReviewDecision (ReviewDecisionOf (trimSpace (rri_ReviewDecision input)))
     \<and> find_by er_CorrelationID (trimSpace (rri_CorrelationID input)) d \<noteq> None"

definition result_recorded_in ::
  "(string \<Rightarrow> string) \<Rightarrow> SwarmExecutionResultRecordInput \<Rightarrow> executions \<Rightarrow> ExecutionRequest \<Rightarrow> executions \<Rightarrow> bool" where
  "result_recorded_in ul input d row d' \<longleftrightarrow> (\<exists>now old. find_by er_CorrelationID (trimSpace (rri_CorrelationID input)) d = Some old
     \<and> row = recordedResult ul (executionResultOf input) now old
     \<and> d' = update_where (\<lambda>r. er_CorrelationID r = trimSpace (rri_CorrelationID input))
         (recordedResult ul (executionResultOf input) now) d)"

lemma recorded_correlation: "er_CorrelationID (recordedResult ul x now r) = er_CorrelationID r"
  by (simp add: recordedResult_def)

lemma recorded_result_row:
  assumes "find_by er_CorrelationID i d = Some old"
  shows "find_by er_CorrelationID i (update_where (\<lambda>r. er_CorrelationID r = i) (recordedResult ul x now) d)
    = Some (recordedResult ul x now old)"
  using assms by (induction d) (auto simp: find_by_def update_where_def recorded_correlation)

lemma rows_counted: "count_where (\<lambda>r. er_CorrelationID r = i) d = 0 \<longleftrightarrow> find_by er_CorrelationID i d = None"
  by (auto simp: count_where_def filter_empty_conv find_by_None)

lemma rows_found:
  assumes "0 < count_where (\<lambda>r. er_CorrelationID r = i) d"
  shows "\<exists>old. find_by er_CorrelationID i d = Some old"
  using assms rows_counted [of i d] by auto

lemma rows_missing:
  assumes "find_by er_CorrelationID i d = None"
  shows "update_where (\<lambda>r. er_CorrelationID r = i) f d = d"
  using assms by (intro update_where_none) (simp add: rows_counted)

lemma record_result_contract:
  "guarantees (HandleSwarmExecutionResultRecord ul hasStore input)
     (\<lambda>row d'. acceptsResult hasStore input d \<and> result_recorded_in ul input d row d')
     (\<lambda>d'. d' = d \<or> acceptsResult hasStore input d) d"
proof -
  have fields: "ex_CorrelationID (executionResultOf input) = trimSpace (rri_CorrelationID input)"
    "ex_Status (executionResultOf input) = trimSpace (rri_Status input)"
    "ex_ReviewDecision (executionResultOf input) = ReviewDecisionOf (trimSpace (rri_ReviewDecision input))"
    by (simp_all add: executionResultOf_def)
  show ?thesis
    unfolding HandleSwarmExecutionResultRecord_def SaveExecutionResult_def GetExecutionByCorrelationID_def Let_def fields trimSpace_idem
    by (intro vcg) (auto simp: acceptsResult_def result_recorded_in_def recorded_result_row rows_missing dest!: rows_found)
qed

lemma record_free:
  assumes "w_faults w = []" and "acceptsResult hasStore input (w_db w)"
  shows "\<exists>row w'. HandleSwarmExecutionResultRecord ul hasStore input w = (Inr row, w')"
proof -
  obtain old where old: "find_by er_CorrelationID (trimSpace (rri_CorrelationID input)) (w_db w) = Some old"
    using assms(2) by (auto simp: acceptsResult_def)
  have some: "count_where (\<lambda>r. er_CorrelationID r = trimSpace (rri_CorrelationID input)) (w_db w) \<noteq> 0"
    using old by (simp add: rows_counted)
  show ?thesis
    using assms some
    by (simp add: HandleSwarmExecutionResultRecord_def SaveExecutionResult_def GetExecutionByCorrelationID_def Let_def executionResultOf_def
        acceptsResult_def bindE_def now_op_def wrapE_def fault_free ret_def recorded_result_row [OF old])
qed

text \<open>The answer that a recorded result gives.\<close>

definition recordedAnswer :: "(string \<Rightarrow> string) \<Rightarrow> SwarmExecutionResultRecordInput \<Rightarrow> AdapterResult" where
  "recordedAnswer ul input = \<lparr>ad_Status = trimSpace (rri_Status input), ad_Summary = sanitizeExecutionText ul (rri_Summary input),
     ad_ArtifactCount = rri_ArtifactCount input, ad_ReviewDecision = ReviewDecisionOf (trimSpace (rri_ReviewDecision input))\<rparr>"

lemma recorded_answers:
  assumes "acceptsResult hasStore input d" and "result_recorded_in ul input d row d'"
  shows "find_by er_CorrelationID (trimSpace (rri_CorrelationID input)) d' = Some row"
    and "adapterResultFromExecutionRequest row = Some (recordedAnswer ul input)"
  using assms
  by (auto simp: result_recorded_in_def recorded_result_row acceptsResult_def adapterResultFromExecutionRequest_def recordedResult_def
      executionResultOf_def recordedAnswer_def validExecutionResultStatus_def)

lemma record_runs:
  assumes "HandleSwarmExecutionResultRecord ul hasStore input w = (r, w')"
  shows "case r of
      Inl e \<Rightarrow> (if acceptsResult hasStore input (w_db w) then w_faults w \<noteq> [] else w_db w' = w_db w)
    | Inr row \<Rightarrow> acceptsResult hasStore input (w_db w) \<and> result_recorded_in ul input (w_db w) row (w_db w')"
  using assms guaranteesD [OF record_result_contract [of ul hasStore input "w_db w"]] record_free [of w hasStore input ul]
  by (cases r) auto

end
