(* ===== verification/Orch_Actions.thy ===== *)
theory Orch_Actions
  imports Orch_Progress
begin

text \<open>
  Reporting a step through \<open>ApplyProtocolAction\<close> succeeds: when no statement fails, identifiers are
  fresh and the clock is set, an action whose event the machine accepts is recorded, and the
  stored handoff is the machine's next state.
\<close>

section \<open>Operations that take nothing back\<close>

text \<open>The sources of identifiers and of time stay, and what was read of them stays read.\<close>

definition steady :: "('x, 'a) op \<Rightarrow> bool" where
  "steady m \<longleftrightarrow> (\<forall>w. w_uuid (snd (m w)) = w_uuid w \<and> w_clock (snd (m w)) = w_clock w
     \<and> w_ids w \<le> w_ids (snd (m w)) \<and> w_tick w \<le> w_tick (snd (m w)))"

named_theorems steady_intros \<open>rules for steady operations\<close>

lemma steadyI:
  assumes "\<And>w r w'. m w = (r, w') \<Longrightarrow> w_uuid w' = w_uuid w \<and> w_clock w' = w_clock w \<and> w_ids w \<le> w_ids w' \<and> w_tick w \<le> w_tick w'"
  shows "steady m"
  unfolding steady_def using assms by (metis prod.collapse)

lemma steadyD:
  assumes "steady m" and "m w = (r, w')"
  shows "w_uuid w' = w_uuid w" "w_clock w' = w_clock w" "w_ids w \<le> w_ids w'" "w_tick w \<le> w_tick w'"
  using assms unfolding steady_def by (metis snd_conv)+

lemma steady_ret [steady_intros]: "steady (ret a)"
  by (simp add: steady_def ret_def)

lemma steady_throw [steady_intros]: "steady (throw e)"
  by (simp add: steady_def throw_def)

lemma steady_now [steady_intros]: "steady now_op"
  by (simp add: steady_def now_op_def)

lemma steady_NewID [steady_intros]: "steady (NewID p)"
  by (simp add: steady_def NewID_def split: option.split)

lemma steady_bindE [steady_intros]: "steady m \<Longrightarrow> (\<And>a. steady (f a)) \<Longrightarrow> steady (bindE m f)"
  by (rule steadyI) (force simp: bindE_def split: prod.splits sum.splits dest: steadyD)

lemma steady_handleE [steady_intros]: "steady m \<Longrightarrow> (\<And>e. steady (h e)) \<Longrightarrow> steady (handleE m h)"
  by (rule steadyI) (force simp: handleE_def split: prod.splits sum.splits dest: steadyD)

lemma steady_wrapE [steady_intros]: "steady m \<Longrightarrow> steady (wrapE l m)"
  by (rule steadyI) (force simp: wrapE_def split: prod.splits sum.splits dest: steadyD)

lemma steady_statement [steady_intros]: "steady (statement f)"
  unfolding steady_def statement_def by (auto split: list.split option.split sum.split prod.split)

lemma steady_query [steady_intros]: "steady (query f)"
  by (simp add: query_def steady_statement)

lemma steady_checkE [steady_intros]: "steady (checkE b e)"
  by (simp add: checkE_def steady_ret steady_throw)

lemma steady_in_tx [steady_intros]:
  assumes "steady m"
  shows "steady (in_tx lb lc m)"
proof -
  have "steady (bindE (wrapE lb (query (\<lambda>_. ()))) (\<lambda>_. bindE m (\<lambda>a. bindE (wrapE lc (query (\<lambda>_. ()))) (\<lambda>_. ret a))))"
    using assms by (intro steady_intros)
  then show ?thesis
    by (intro steadyI) (auto simp: in_tx_def split: prod.splits sum.splits dest: steadyD)
qed

lemma steady_if [steady_intros]: "steady m \<Longrightarrow> steady n \<Longrightarrow> steady (if b then m else n)"
  by simp

lemma steady_option [steady_intros]:
  "steady m \<Longrightarrow> (\<And>a. steady (f a)) \<Longrightarrow> steady (case x of None \<Rightarrow> m | Some a \<Rightarrow> f a)"
  by (cases x) simp_all

lemma steady_sum [steady_intros]:
  "(\<And>a. steady (f a)) \<Longrightarrow> (\<And>b. steady (g b)) \<Longrightarrow> steady (case x of Inl a \<Rightarrow> f a | Inr b \<Rightarrow> g b)"
  by (cases x) simp_all

lemma steady_prod [steady_intros]: "(\<And>a b. steady (f a b)) \<Longrightarrow> steady (case x of (a, b) \<Rightarrow> f a b)"
  by (cases x) simp_all

lemma steady_forE [steady_intros]: "(\<And>x. steady (f x)) \<Longrightarrow> steady (forE xs f)"
  by (induction xs) (simp_all add: steady_intros)

lemma steady_rows [steady_intros]:
  "steady (insertE c p)" "steady (updateE l r n p)" "steady (selectE l r q)" "steady (queryRowE row)"
  unfolding insertE_def updateE_def selectE_def queryRowE_def by (intro steady_intros)+

lemma steady_recording [steady_intros]:
  "steady (RecordAcceptedEvent e)" "steady (RecordRejectedEvent e)" "steady (RecordAuthoritativeEvent e)"
  unfolding RecordAuthoritativeEvent_def fillEvent_def RecordRejectedEvent_def RecordAcceptedEvent_def recordAcceptedEventTx_def
    insertAcceptedEventRow_def insertAuditEventRow_def saveProjectedHandoffTx_def saveOwnershipBindingExec_def loadHandoffTx_def
    validateEventWorkflowMatch_def Let_def
  by (intro steady_intros)+

section \<open>A supplied world\<close>

definition supplied :: "store world \<Rightarrow> bool" where
  "supplied w \<longleftrightarrow> w_faults w = [] \<and> (\<forall>n\<ge>w_tick w. \<not> is_zero (w_clock w n)) \<and> inj_on (w_uuid w) {w_ids w..}
     \<and> (\<forall>n\<ge>w_ids w. \<exists>u. w_uuid w n = Some u \<and> ''evt_'' @ u \<notin> ev_ID ` set (st_accepted (w_db w)))"

text \<open>Filling in the three defaults of an event that a caller left blank.\<close>

lemma fill_supplied:
  assumes "supplied w" and "ev_ID e = []" "is_zero (ev_ProducerEventTime e)" "is_zero (ev_IngestedAt e)"
  obtains u p g where "w_uuid w (w_ids w) = Some u" and "\<not> is_zero p" "\<not> is_zero g"
    and "fillEvent e w = (Inr (e\<lparr>ev_ID := ''evt_'' @ u, ev_ProducerEventTime := p, ev_IngestedAt := g\<rparr>),
      w\<lparr>w_ids := Suc (w_ids w), w_tick := Suc (Suc (w_tick w))\<rparr>)"
proof -
  obtain u where u: "w_uuid w (w_ids w) = Some u" using assms(1) by (auto simp: supplied_def)
  have "\<not> is_zero (w_clock w (w_tick w))" "\<not> is_zero (w_clock w (Suc (w_tick w)))" using assms(1) by (auto simp: supplied_def)
  then show thesis
    using assms u
    by (intro that [of u "w_clock w (w_tick w)" "w_clock w (Suc (w_tick w))"])
      (simp_all add: fillEvent_def bindE_def NewID_def now_op_def ret_def)
qed

lemma record_after_fill:
  assumes "fillEvent e0 w = (Inr e, w')" and "fillEvent e = ret e"
  shows "RecordAuthoritativeEvent e0 w = RecordAuthoritativeEvent e w'"
  using assms by (simp add: RecordAuthoritativeEvent_def bindE_def ret_def)

lemma record_decides:
  "RecordAuthoritativeEvent e w = (Inr (r, None), w') \<Longrightarrow> dec_Accepted (ed_Decision r)"
  by (auto simp: RecordAuthoritativeEvent_def bindE_def ret_def throw_def Let_def split: prod.splits sum.splits if_splits)

text \<open>What a recorded step leaves: one handoff advanced, all others and the workflows as they were.\<close>

definition advanced :: "Handoff \<Rightarrow> EventRecord \<Rightarrow> store \<Rightarrow> store \<Rightarrow> bool" where
  "advanced m e d d' \<longleftrightarrow> store_inv d'
     \<and> (\<exists>k. find_by h_ID (h_ID m) (st_handoffs d') = Some k \<and> core k = core (machine_next m e))
     \<and> (\<forall>j. j \<noteq> h_ID m \<longrightarrow> find_by h_ID j (st_handoffs d') = find_by h_ID j (st_handoffs d))
     \<and> st_workflows d' = st_workflows d"

lemma core_same_report:
  assumes "lifecycle_wf m" and "\<not> transportResult (ev_Type e)" and "report e' = report e"
  shows "accepts m e' = accepts m e" and "core (machine_next m e') = core (machine_next m e)"
proof -
  have t: "\<not> transportResult (ev_Type e')" using assms(2) report_fields(1) [of e] report_fields(1) [of e'] assms(3) by simp
  show "accepts m e' = accepts m e"
    using core_accepts [OF assms(1) t] core_accepts [OF assms(1,2)] assms(3) by simp
  show "core (machine_next m e') = core (machine_next m e)"
    using core_next [OF assms(1) t] core_next [OF assms(1,2)] assms(3) by simp
qed

lemma record_supplied:
  assumes inv: "store_inv (w_db w)" and sup: "supplied w" and m: "find_by h_ID (ev_HandoffID e) (st_handoffs (w_db w)) = Some m"
    and acc: "accepts m e" and step: "\<not> transportResult (ev_Type e)"
    and blank: "ev_ID e = []" "is_zero (ev_ProducerEventTime e)" "is_zero (ev_IngestedAt e)" "ev_IdempotencyKey e = []"
    and wid: "ev_WorkflowID e = h_WorkflowID m" "h_WorkflowID m \<noteq> []"
  obtains r w' where "RecordAuthoritativeEvent e w = (Inr (r, None), w')" and "dec_Accepted (ed_Decision r)"
    and "supplied w'" and "advanced m e (w_db w) (w_db w')"
proof -
  note h = inv_handoff [OF inv m]
  have wf: "lifecycle_wf m" using h(2) by (simp add: backed_def)
  obtain u p g where u: "w_uuid w (w_ids w) = Some u" and t: "\<not> is_zero p" "\<not> is_zero g"
    and fill: "fillEvent e w = (Inr (e\<lparr>ev_ID := ''evt_'' @ u, ev_ProducerEventTime := p, ev_IngestedAt := g\<rparr>),
      w\<lparr>w_ids := Suc (w_ids w), w_tick := Suc (Suc (w_tick w))\<rparr>)"
    by (rule fill_supplied [OF sup blank(1-3)])
  let ?e = "e\<lparr>ev_ID := ''evt_'' @ u, ev_ProducerEventTime := p, ev_IngestedAt := g\<rparr>"
    and ?w = "w\<lparr>w_ids := Suc (w_ids w), w_tick := Suc (Suc (w_tick w))\<rparr>"
  let ?y = "?e\<lparr>ev_Accepted := True\<rparr>"
  have rep: "report ?e = report e" "report ?y = report e"
    by (simp_all add: report_def)
  note accs = core_same_report [OF wf step rep(1)] core_same_report [OF wf step rep(2)]
  have new: "''evt_'' @ u \<notin> ev_ID ` set (st_accepted (w_db w))" using sup u by (auto simp: supplied_def)
  have rec: "recordable (w_db w) m ?e" using t wid new blank by (simp add: recordable_def)
  have stamped: "fillEvent ?e = ret ?e" using t by (simp add: fillEvent_def)
  have runs: "delivers (RecordAuthoritativeEvent ?e) (\<lambda>r d'. snd r = None \<and> d' = commit_event m ?y (w_db w)) (w_db ?w)"
    using inv m accs(1) acc milestone_not_signal [OF wf acc step] rec by simp (intro record_delivers, simp_all)
  have clear: "w_faults ?w = []" using sup by (simp add: supplied_def)
  obtain a w' where run: "RecordAuthoritativeEvent ?e ?w = (Inr a, w')" "w_faults w' = []" "snd a = None"
    and db: "w_db w' = commit_event m ?y (w_db w)"
    by (rule deliversD [OF runs clear]) blast
  obtain r where r: "a = (r, None)" using run(3) by (cases a) simp
  have all: "RecordAuthoritativeEvent e w = (Inr (r, None), w')" using record_after_fill [OF fill stamped] run(1) r by simp
  have sources: "w_uuid w' = w_uuid w" "w_clock w' = w_clock w" "Suc (w_ids w) \<le> w_ids w'" "w_tick w \<le> w_tick w'"
    using steadyD [OF steady_recording(3) run(1)] by auto
  have fresh: "\<exists>v. w_uuid w' n = Some v \<and> ''evt_'' @ v \<notin> ev_ID ` set (st_accepted (w_db w'))" if n: "w_ids w' \<le> n" for n
  proof -
    have "w_ids w \<le> n" using n sources(3) by simp
    then obtain v where v: "w_uuid w n = Some v" "''evt_'' @ v \<notin> ev_ID ` set (st_accepted (w_db w))"
      using sup unfolding supplied_def by blast
    have "inj_on (w_uuid w) {w_ids w..}" using sup by (simp add: supplied_def)
    then have "v \<noteq> u" using u v(1) n sources(3) inj_onD [of "w_uuid w" "{w_ids w..}" n "w_ids w"] by auto
    with v show ?thesis by (simp add: sources db commit_event_def)
  qed
  have "supplied w'"
    using sup sources(3,4) run(2) fresh unfolding supplied_def sources(1,2)
    by (auto intro: inj_on_subset)
  moreover have "advanced m e (w_db w) (w_db w')"
  proof -
    have acc': "accepts m ?y" using accs(3) acc by simp
    have inv': "store_inv (commit_event m ?y (w_db w))"
      using new blank h wid acc' m by (intro commit_event_inv [OF inv]) simp_all
    have "h_ID (projection_of m ?y) = h_ID m" by (simp add: projection_of_def preserveStaticHandoffFields_def)
    moreover have "core (projection_of m ?y) = core (machine_next m e)"
      using core_projection [OF wf acc'] accs(4) by simp
    ultimately show ?thesis
      using inv' m h(1) by (simp add: advanced_def db commit_event_def find_by_upsert)
  qed
  ultimately show thesis using record_decides [OF all] all that by blast
qed

section \<open>Reporting through an action\<close>

definition deps_done :: "store \<Rightarrow> Handoff \<Rightarrow> bool" where
  "deps_done d m \<longleftrightarrow> (\<forall>i\<in>set (h_DependsOnHandoffIDs m). i \<noteq> [] \<and> (\<exists>k. find_by h_ID i (st_handoffs d) = Some k
     \<and> h_WorkflowID k = h_WorkflowID m \<and> h_State k = StateCompleted))"

lemma load_free:
  assumes "w_faults w = []" and "find_by h_ID i (st_handoffs (w_db w)) = Some k"
  shows "loadHandoffTx i w = (Inr k, w)" "LoadHandoff i w = (Inr k, w)"
  using assms by (simp_all add: LoadHandoff_def loadHandoffTx_def queryRowE_def statement_def wrapE_def)

lemma deps_pass:
  assumes "deps_done (w_db w) m" and "w_faults w = []"
  shows "ensureHandoffDependenciesCompleted m w = (Inr (), w)"
proof -
  have "forE is (\<lambda>dependencyID.
       bindE (loadRelatedHandoffTx ''dependency handoff'' dependencyID (h_WorkflowID m)) (\<lambda>dependency.
       if h_State dependency \<noteq> StateCompleted
       then throw (ErrorText (''handoff dependencies are incomplete: dependency handoff '' @ dependencyID
              @ '' is '' @ handoffStateText (h_State dependency)))
       else ret ())) w = (Inr (), w)" if "set is \<subseteq> set (h_DependsOnHandoffIDs m)" for "is"
    using that
  proof (induction "is")
    case Nil
    then show ?case by (simp add: ret_def)
  next
    case (Cons i "is")
    from Cons.prems assms(1) obtain k where "i \<noteq> []" "find_by h_ID i (st_handoffs (w_db w)) = Some k"
      "h_WorkflowID k = h_WorkflowID m" "h_State k = StateCompleted"
      by (auto simp: deps_done_def)
    with Cons assms(2) show ?case
      by (simp add: loadRelatedHandoffTx_def bindE_def ret_def wrapE_def load_free)
  qed
  then show ?thesis unfolding ensureHandoffDependenciesCompleted_def by blast
qed

lemma action_event:
  assumes "protocolEventFromRequest m req = Inr e"
  shows "\<not> transportResult (ev_Type e)" "ev_ID e = []" "ev_IdempotencyKey e = []" "ev_HandoffID e = preq_HandoffID req"
    and "ev_ProducerEventTime e = preq_ProducerEventTime req" "ev_IngestedAt e = preq_IngestedAt req"
    and "ev_WorkflowID e = (if preq_WorkflowID req \<noteq> [] then preq_WorkflowID req else h_WorkflowID m)"
  using assms
  by (auto simp: protocolEventFromRequest_def Let_def NoEvent_def split: ProtocolAction.splits if_splits)

lemma action_supplied:
  assumes inv: "store_inv (w_db w)" and sup: "supplied w" and m: "find_by h_ID (preq_HandoffID req) (st_handoffs (w_db w)) = Some m"
    and named: "preq_HandoffID req \<noteq> []" "\<not> missingActor (preq_Actor req)" and deps: "deps_done (w_db w) m"
    and event: "protocolEventFromRequest m req = Inr e" and acc: "accepts m e"
    and times: "is_zero (preq_ProducerEventTime req)" "is_zero (preq_IngestedAt req)"
    and wid: "preq_WorkflowID req = [] \<or> preq_WorkflowID req = h_WorkflowID m" "h_WorkflowID m \<noteq> []"
  obtains r w' where "ApplyProtocolAction req w = (Inr (r, None), w')" and "dec_Accepted (ed_Decision r)"
    and "supplied w'" and "advanced m e (w_db w) (w_db w')"
proof -
  note e = action_event [OF event]
  have clear: "w_faults w = []" using sup by (simp add: supplied_def)
  have id: "h_ID m = preq_HandoffID req" using find_by_Some [OF m] by simp
  obtain r w' where rec: "RecordAuthoritativeEvent e w = (Inr (r, None), w')" "dec_Accepted (ed_Decision r)"
    "supplied w'" "advanced m e (w_db w) (w_db w')"
    by (rule record_supplied [OF inv sup _ acc e(1,2) _ _ e(3)]) (use e m times wid in auto)
  have "ApplyProtocolAction req w = (Inr (r, None), w')"
    using named load_free [OF clear m] deps_pass [OF deps clear] event rec(1)
    by (simp add: ApplyProtocolAction_def bindE_def missingActor_def ret_def)
  with rec that show thesis by blast
qed

section \<open>An action that is not acceptable is refused\<close>

lemma fill_same:
  assumes "fillEvent e w = (Inr e1, w1)"
  shows "report e1 = report e" "ev_HandoffID e1 = ev_HandoffID e" "w_db w1 = w_db w"
  using assms NewID_result [of "''evt''" w]
  by (auto simp: fillEvent_def bindE_def ret_def now_op_def report_def split: if_splits prod.splits sum.splits)

lemma accepted_only:
  assumes run: "RecordAuthoritativeEvent e w = (Inr (r, None), w')"
    and m: "find_by h_ID (ev_HandoffID e) (st_handoffs (w_db w)) = Some m" and wf: "lifecycle_wf m" and step: "\<not> transportResult (ev_Type e)"
  shows "accepts m e"
proof -
  obtain e1 w1 where f: "fillEvent e w = (Inr e1, w1)"
    using run by (auto simp: RecordAuthoritativeEvent_def bindE_def split: prod.splits sum.splits)
  note same = fill_same [OF f]
  have load: "loadHandoffTx (ev_HandoffID e1) w1 = (Inr k, v) \<Longrightarrow> k = m" for k v
    using m same(2,3)
    by (auto simp: loadHandoffTx_def queryRowE_def wrapE_def statement_def split: list.splits option.splits sum.splits)
  have "accepts m e1"
    using run f load NewStateMachine_wf [OF wf]
    by (auto simp: RecordAuthoritativeEvent_def bindE_def throw_def ret_def Let_def accepts_def
        split: prod.splits sum.splits if_splits)
  then show ?thesis using core_same_report(1) [OF wf step same(1)] by simp
qed

text \<open>An action that runs through records its event, on the database that it found.\<close>

lemma action_records:
  assumes m: "find_by h_ID (preq_HandoffID req) (st_handoffs (w_db w)) = Some m" and event: "protocolEventFromRequest m req = Inr e"
    and run: "ApplyProtocolAction req w = (Inr (r, err), w')"
  obtains v where "RecordAuthoritativeEvent e v = (Inr (r, err), w')" and "w_db v = w_db w"
proof -
  have deps: "preserves (\<lambda>d. d = w_db w) (ensureHandoffDependenciesCompleted k)" for k
    unfolding ensureHandoffDependenciesCompleted_def loadRelatedHandoffTx_def loadHandoffTx_def queryRowE_def
    by (intro preserves_intros preserves_statement) (auto split: option.splits)
  have load: "LoadHandoff i v = (Inr k, v1) \<Longrightarrow> w_db v1 = w_db v \<and> find_by h_ID i (st_handoffs (w_db v)) = Some k" for i v k v1
    by (auto simp: LoadHandoff_def loadHandoffTx_def queryRowE_def wrapE_def statement_def split: list.splits option.splits sum.splits)
  from run obtain v1 v2 where v: "LoadHandoff (preq_HandoffID req) w = (Inr m, v1)"
    "(if protocolActionRequiresCompletedDependencies (preq_Action req) then ensureHandoffDependenciesCompleted m else ret ()) v1 = (Inr (), v2)"
    "RecordAuthoritativeEvent e v2 = (Inr (r, err), w')"
    using m event load
    by (auto simp: ApplyProtocolAction_def bindE_def throw_def split: prod.splits sum.splits if_splits)
  have "w_db v1 = w_db w" using load [OF v(1)] by simp
  then have "w_db v2 = w_db w"
    using v(2) preservesD [OF deps [of m], of v1] by (auto simp: ret_def split: if_splits)
  with v(3) that show thesis by blast
qed

lemma action_refused:
  assumes m: "find_by h_ID (preq_HandoffID req) (st_handoffs (w_db w)) = Some m" and wf: "lifecycle_wf m"
    and event: "protocolEventFromRequest m req = Inr e" and refused: "\<not> accepts m e"
    and run: "ApplyProtocolAction req w = (Inr (r, err), w')"
  shows "err \<noteq> None"
proof
  assume none: "err = None"
  note e = action_event [OF event]
  obtain v where v: "RecordAuthoritativeEvent e v = (Inr (r, err), w')" "w_db v = w_db w"
    by (rule action_records [OF m event run])
  then have "accepts m e" using accepted_only [OF _ _ wf e(1)] m e(4) none by simp
  with refused show False by simp
qed

end
