(* ===== verification/Swarm_Progress.thy ===== *)
theory Swarm_Progress
  imports Swarm_Contracts Orch_Actions
begin

text \<open>
  Does the driver get its work done? When exactly the state machine accepts the step that
  \<open>nextProgressDecision\<close> chooses, and that with an approving result the steps lead to completion.
\<close>

section \<open>The step the driver reports\<close>

definition driverEvent :: "WorkItem \<Rightarrow> AdapterResult \<Rightarrow> EventRecord option" where
  "driverEvent item result =
     (case nextProgressDecision (wi_Handoff item) result of
        None \<Rightarrow> None
      | Some decision \<Rightarrow>
          (case protocolEventFromRequest (wi_Handoff item) (progressRequest item result decision) of
             Inl _ \<Rightarrow> None | Inr e \<Rightarrow> Some e))"

definition driverSubmits :: "Handoff \<Rightarrow> bool" where
  "driverSubmits m \<longleftrightarrow> h_NeedsReview m \<or> h_TaskKind m = TaskReviewRequired \<or> h_TaskKind m = TaskArtifactRequired"

definition submittedArtifacts :: "Handoff \<Rightarrow> AdapterResult \<Rightarrow> int" where
  "submittedArtifacts m result = (if ad_ArtifactCount result = 0 \<and> driverSubmits m then 1 else ad_ArtifactCount result)"

definition completes :: "Handoff \<Rightarrow> bool" where
  "completes m \<longleftrightarrow> requiresReview m \<and> enough_artifacts m \<and> h_ReviewDecision m = ReviewDecisionApproved"

text \<open>The condition under which the machine accepts it.\<close>

definition canProgress :: "Handoff \<Rightarrow> bool" where
  "canProgress m \<longleftrightarrow>
     (case h_State m of
        StateSubmitted \<Rightarrow> \<not> missingActor (h_ReviewerActor m)
      | StateCheckpointed \<Rightarrow> \<not> missingActor (h_ReceiverActor m) \<and> (driverSubmits m \<or> \<not> requiresArtifacts m)
      | StateReviewed \<Rightarrow> \<not> missingActor (h_ReceiverActor m)
          \<and> (h_ReviewDecision m = ReviewDecisionRevisionRequired \<or> completes m)
      | _ \<Rightarrow> \<not> missingActor (h_ReceiverActor m))"

fun driverType :: "Handoff \<Rightarrow> EventType" where
  "driverType m =
     (case h_State m of
        StateCreated \<Rightarrow> EventReceived | StateDispatched \<Rightarrow> EventReceived | StateReceived \<Rightarrow> EventClaimed
      | StateClaimed \<Rightarrow> EventStarted | StateStarted \<Rightarrow> EventCheckpointed
      | StateCheckpointed \<Rightarrow> if driverSubmits m then EventSubmitted else EventCompleted
      | StateSubmitted \<Rightarrow> EventReviewed
      | StateReviewed \<Rightarrow> if h_ReviewDecision m = ReviewDecisionRevisionRequired then EventCheckpointed else EventCompleted
      | _ \<Rightarrow> EventFailed)"

lemmas driver_simps = driverEvent_def nextProgressDecision_def decide_def progressRequest_def protocolEventFromRequest_def Let_def

lemma driver_event:
  assumes "driverEvent item result = Some e"
  shows "ev_Type e = driverType (wi_Handoff item)"
    and "ev_SubjectActor e = ev_ProducerActor e"
    and "ev_ProducerActor e = (if h_State (wi_Handoff item) = StateSubmitted then h_ReviewerActor (wi_Handoff item)
      else h_ReceiverActor (wi_Handoff item))"
    and "h_State (wi_Handoff item) = StateCreated \<Longrightarrow> h_DeliveryTargetRef (wi_Handoff item) = []"
    and "h_State (wi_Handoff item) = StateCheckpointed \<Longrightarrow> driverSubmits (wi_Handoff item) \<Longrightarrow>
      ev_ArtifactCount e = submittedArtifacts (wi_Handoff item) result"
    and "h_State (wi_Handoff item) = StateSubmitted \<Longrightarrow> ev_ReviewDecision e =
      (if ad_ReviewDecision result = ReviewDecisionRevisionRequired then ReviewDecisionRevisionRequired else ReviewDecisionApproved)"
    and "h_State (wi_Handoff item) \<notin> {StateUnset, StateCompleted, StateFailed, StateExpired}"
  using assms
  by (auto simp: driver_simps driverSubmits_def submittedArtifacts_def NoEvent_def
      split: HandoffState.splits if_splits)

lemma worker_self:
  assumes "ev_SubjectActor e = ev_ProducerActor e" and "ev_ProducerActor e = h_ReceiverActor m"
  shows "worker_authority m e \<longleftrightarrow> \<not> missingActor (h_ReceiverActor m)"
    and "named_authority (h_ReceiverActor m) e \<longleftrightarrow> \<not> missingActor (h_ReceiverActor m)"
  using assms by (auto simp: worker_authority_def named_authority_def missingActor_def sameActor_def sameRole_def)

lemma reviewer_self:
  assumes "ev_SubjectActor e = ev_ProducerActor e" and "ev_ProducerActor e = h_ReviewerActor m"
  shows "named_authority (h_ReviewerActor m) e \<longleftrightarrow> \<not> missingActor (h_ReviewerActor m)"
  using assms by (auto simp: named_authority_def missingActor_def sameRole_def)

text \<open>The machine accepts the driver's step exactly when the handoff can progress.\<close>

lemma driver_exact:
  assumes wf: "lifecycle_wf (wi_Handoff item)" and e: "driverEvent item result = Some e"
  shows "accepts (wi_Handoff item) e \<longleftrightarrow> canProgress (wi_Handoff item)"
proof -
  let ?m = "wi_Handoff item"
  note ev = driver_event [OF e]
  have flags: "flag_chain ?m" "state_flags ?m" using wf by (simp_all add: lifecycle_wf_def)
  have "\<not> transportResult (ev_Type e)" unfolding ev(1) by (cases "h_State ?m") simp_all
  then have acc: "accepts ?m e \<longleftrightarrow> (\<exists>s. lifecycle (h_State ?m) (ev_Type e) s) \<and> side_condition ?m e (ev_Type e)
      \<and> authority ?m e (ev_Type e)" by (rule accepts_exactly [OF wf])
  have review: "requiresReview ?m \<Longrightarrow> driverSubmits ?m" by (auto simp: requiresReview_def driverSubmits_def)
  show ?thesis
  proof (cases "h_State ?m = StateSubmitted")
    case True
    then have "isValidReviewDecision (ev_ReviewDecision e)" using ev(6) by simp
    with True show ?thesis
      using acc ev(1-3) reviewer_self [of e ?m] lifecycle.review by (auto simp: canProgress_def)
  next
    case False
    then have self: "worker_authority ?m e \<longleftrightarrow> \<not> missingActor (h_ReceiverActor ?m)"
      "named_authority (h_ReceiverActor ?m) e \<longleftrightarrow> \<not> missingActor (h_ReceiverActor ?m)"
      using worker_self [of e ?m] ev(2,3) by auto
    show ?thesis
      using False ev(1,4,7) flags review
      by (cases "h_State ?m")
        (auto simp: acc self canProgress_def lifecycle.simps canTransitionToCompleted_def prereqs_None requiresSubmitted_def
          flag_chain_def state_flags_def completes_def enough_artifacts_def split: if_splits)
  qed
qed

section \<open>Steps to completion\<close>

text \<open>A handoff that approving results can complete, and the steps it takes.\<close>

definition drivable :: "AdapterResult \<Rightarrow> Handoff \<Rightarrow> bool" where
  "drivable result m \<longleftrightarrow> \<not> missingActor (h_ReceiverActor m)
     \<and> (driverSubmits m \<longrightarrow> requiresReview m \<and> \<not> missingActor (h_ReviewerActor m))
     \<and> (requiresArtifacts m \<longrightarrow> driverSubmits m \<and> requiredArtifactCount m \<le> submittedArtifacts m result)
     \<and> (case h_State m of
          StateUnset \<Rightarrow> False | StateFailed \<Rightarrow> False | StateExpired \<Rightarrow> False
        | StateCreated \<Rightarrow> h_DeliveryTargetRef m = []
        | StateSubmitted \<Rightarrow> driverSubmits m \<and> enough_artifacts m
        | StateReviewed \<Rightarrow> driverSubmits m \<and> (h_ReviewDecision m = ReviewDecisionRevisionRequired \<or> completes m)
        | _ \<Rightarrow> True)"

definition stepsLeft :: "Handoff \<Rightarrow> nat" where
  "stepsLeft m =
     (let rest = (if driverSubmits m then 3 else 1) in
      case h_State m of
        StateCreated \<Rightarrow> 4 + rest | StateDispatched \<Rightarrow> 4 + rest | StateReceived \<Rightarrow> 3 + rest | StateClaimed \<Rightarrow> 2 + rest
      | StateStarted \<Rightarrow> 1 + rest | StateCheckpointed \<Rightarrow> rest | StateSubmitted \<Rightarrow> 2
      | StateReviewed \<Rightarrow> (if h_ReviewDecision m = ReviewDecisionRevisionRequired then 1 + rest else 1)
      | _ \<Rightarrow> 0)"

definition approving :: "AdapterResult \<Rightarrow> bool" where
  "approving result \<longleftrightarrow> ad_Status result \<noteq> AdapterStatusPending \<and> ad_ReviewDecision result \<noteq> ReviewDecisionRevisionRequired"

lemma core_driver [simp]: "driverSubmits (core m) = driverSubmits m" "submittedArtifacts (core m) result = submittedArtifacts m result"
  "enough_artifacts (core m) = enough_artifacts m" "completes (core m) = completes m"
  by (simp_all add: driverSubmits_def submittedArtifacts_def enough_artifacts_def completes_def) (simp_all add: core_def)

lemma drivable_core: "drivable result (core m) = drivable result m" "stepsLeft (core m) = stepsLeft m"
  by (cases "h_State m"; simp add: drivable_def stepsLeft_def)+

lemma drivable_progress: "drivable result m \<Longrightarrow> canProgress m"
  by (cases "h_State m") (auto simp: drivable_def canProgress_def)

lemma stepsLeft_bound: "stepsLeft m \<le> 7"
  by (simp add: stepsLeft_def Let_def split: HandoffState.split)

lemma stepsLeft_0: "drivable result m \<Longrightarrow> stepsLeft m = 0 \<longleftrightarrow> h_State m = StateCompleted"
  by (cases "h_State m") (auto simp: drivable_def stepsLeft_def Let_def)

lemma driver_steps:
  assumes "drivable result (wi_Handoff item)" and "h_State (wi_Handoff item) \<noteq> StateCompleted"
  obtains e where "driverEvent item result = Some e"
proof -
  have "\<exists>e. driverEvent item result = Some e"
    using assms
    by (cases "h_State (wi_Handoff item)")
      (auto simp: drivable_def driver_simps NoEvent_def split: if_splits)
  with that show thesis by blast
qed

lemma terms_driver:
  assumes "same_terms n m"
  shows "driverSubmits n = driverSubmits m" "submittedArtifacts n result = submittedArtifacts m result"
    "h_ReceiverActor n = h_ReceiverActor m" "h_ReviewerActor n = h_ReviewerActor m"
  using assms by (auto simp: same_terms_def driverSubmits_def submittedArtifacts_def)

lemma drivable_step:
  assumes wf: "lifecycle_wf (wi_Handoff item)" and d: "drivable result (wi_Handoff item)" and r: "approving result"
    and e: "driverEvent item result = Some e"
  shows "accepts (wi_Handoff item) e" and "drivable result (machine_next (wi_Handoff item) e)"
    and "Suc (stepsLeft (machine_next (wi_Handoff item) e)) = stepsLeft (wi_Handoff item)"
proof -
  let ?m = "wi_Handoff item"
  let ?n = "machine_next ?m e"
  note ev = driver_event [OF e]
  show acc: "accepts ?m e" using driver_exact [OF wf e] drivable_progress [OF d] by simp
  have terms: "same_terms ?n ?m" by (rule machine_next_terms [OF wf])
  note same = terms_driver [OF terms] same_terms_requires [OF terms]
  have "target_state (driverType ?m) = Some s \<Longrightarrow> h_State ?n = s" for s
    using accepted_lands [OF wf acc] ev(1) by simp
  then have target: "h_State ?n = the (target_state (driverType ?m))"
    by (cases "h_State ?m") simp_all
  have submitted: "driverSubmits ?m \<Longrightarrow> h_State ?m = StateCheckpointed \<Longrightarrow> enough_artifacts ?n"
    using step_artifacts [OF wf acc] ev(1,5) d required_positive [of ?m]
    by (auto simp: enough_artifacts_def same drivable_def)
  have reviewed: "h_State ?m = StateSubmitted \<Longrightarrow> completes ?n"
    using step_decision [OF wf acc] ev(1,6) d r
    by (auto simp: completes_def enough_artifacts_def same drivable_def approving_def)
  show "drivable result ?n"
    using d target submitted reviewed ev(7)
    by (cases "h_State ?m"; cases "driverSubmits ?m") (auto simp: drivable_def same split: if_splits)
  show "Suc (stepsLeft ?n) = stepsLeft ?m"
    using d target reviewed ev(7)
    by (cases "h_State ?m") (auto simp: drivable_def stepsLeft_def same Let_def completes_def split: if_splits)
qed

section \<open>On the store\<close>

definition stored_item :: "store \<Rightarrow> WorkItem \<Rightarrow> bool" where
  "stored_item d item \<longleftrightarrow> find_by h_ID (h_ID (wi_Handoff item)) (st_handoffs d) = Some (wi_Handoff item)
     \<and> h_ID (wi_Handoff item) \<noteq> [] \<and> h_WorkflowID (wi_Handoff item) \<noteq> []
     \<and> wf_ID (wi_Workflow item) = h_WorkflowID (wi_Handoff item) \<and> deps_done d (wi_Handoff item)"

lemma driver_request:
  assumes "driverEvent item result = Some e"
  obtains decision where "nextProgressDecision (wi_Handoff item) result = Some decision"
    and "protocolEventFromRequest (wi_Handoff item) (progressRequest item result decision) = Inr e"
    and "pd_Actor decision = ev_ProducerActor e"
proof -
  obtain decision where d: "nextProgressDecision (wi_Handoff item) result = Some decision"
    "protocolEventFromRequest (wi_Handoff item) (progressRequest item result decision) = Inr e"
    using assms by (auto simp: driverEvent_def split: option.splits sum.splits)
  moreover have "pd_Actor decision = ev_ProducerActor e"
    using d(2) by (auto simp: protocolEventFromRequest_def progressRequest_def Let_def NoEvent_def split: ProtocolAction.splits if_splits)
  ultimately show thesis by (rule that)
qed

lemma progress_supplied:
  assumes inv: "store_inv (w_db w)" and sup: "supplied w" and item: "stored_item (w_db w) item"
    and status: "ad_Status result \<noteq> AdapterStatusPending" and e: "driverEvent item result = Some e" and can: "canProgress (wi_Handoff item)"
  obtains a w' where "progressWork item result w = (Inr (Some a), w')" and "supplied w'"
    and "advanced (wi_Handoff item) e (w_db w) (w_db w')"
proof -
  let ?m = "wi_Handoff item"
  obtain decision where d: "nextProgressDecision ?m result = Some decision"
    "protocolEventFromRequest ?m (progressRequest item result decision) = Inr e" "pd_Actor decision = ev_ProducerActor e"
    by (rule driver_request [OF e])
  have m: "find_by h_ID (h_ID ?m) (st_handoffs (w_db w)) = Some ?m" using item by (simp add: stored_item_def)
  have wf: "lifecycle_wf ?m" using inv_handoff(2) [OF inv m] by (simp add: backed_def)
  have acc: "accepts ?m e" using driver_exact [OF wf e] can by simp
  have actor: "\<not> missingActor (ev_ProducerActor e)"
    using can driver_event(3,7) [OF e] by (cases "h_State ?m") (auto simp: canProgress_def)
  let ?req = "progressRequest item result decision"
  have req: "preq_HandoffID ?req = h_ID ?m" "preq_Actor ?req = ev_ProducerActor e" "preq_WorkflowID ?req = wf_ID (wi_Workflow item)"
    "is_zero (preq_ProducerEventTime ?req)" "is_zero (preq_IngestedAt ?req)"
    using d(3) by (simp_all add: progressRequest_def is_zero_def)
  obtain r w' where run: "ApplyProtocolAction ?req w = (Inr (r, None), w')" "dec_Accepted (ed_Decision r)" "supplied w'"
    "advanced ?m e (w_db w) (w_db w')"
    by (rule action_supplied [OF inv sup _ _ _ _ d(2) acc req(4,5)]) (use m item actor req in \<open>auto simp: stored_item_def\<close>)
  have "progressWork item result w = (Inr (Some (protocolActionText (pd_Action decision) @ '':'' @ h_ID ?m)), w')"
    using status d(1) run(1,2) by (simp add: progressWork_def progressError_def bindE_def ret_def)
  with run(3,4) that show thesis by blast
qed

text \<open>A step that the machine does not accept is answered with an error.\<close>

lemma progress_refused:
  assumes inv: "store_inv (w_db w)" and m: "find_by h_ID (h_ID (wi_Handoff item)) (st_handoffs (w_db w)) = Some (wi_Handoff item)"
    and status: "ad_Status result \<noteq> AdapterStatusPending" and e: "driverEvent item result = Some e"
    and stuck: "\<not> canProgress (wi_Handoff item)" and run: "progressWork item result w = (r, w')"
  shows "\<exists>x. r = Inl x"
proof (rule ccontr)
  assume "\<not> (\<exists>x. r = Inl x)"
  then obtain a where a: "r = Inr a" by (cases r) auto
  obtain decision where d: "nextProgressDecision (wi_Handoff item) result = Some decision"
    "protocolEventFromRequest (wi_Handoff item) (progressRequest item result decision) = Inr e"
    by (rule driver_request [OF e])
  have wf: "lifecycle_wf (wi_Handoff item)" using inv_handoff(2) [OF inv m] by (simp add: backed_def)
  have refused: "\<not> accepts (wi_Handoff item) e" using driver_exact [OF wf e] stuck by simp
  obtain out v where act: "ApplyProtocolAction (progressRequest item result decision) w = (Inr (out, None), v)"
    using run a status d(1)
    by (auto simp: progressWork_def progressError_def bindE_def throw_def ret_def split: prod.splits sum.splits option.splits)
  have "find_by h_ID (preq_HandoffID (progressRequest item result decision)) (st_handoffs (w_db w)) = Some (wi_Handoff item)"
    using m by (simp add: progressRequest_def)
  from action_refused [OF this wf d(2) refused act] show False by simp
qed

section \<open>To completion\<close>

text \<open>The step repeated on the stored handoff, as the driver does round after round.\<close>

definition progressItem :: "Workflow \<Rightarrow> Handoff \<Rightarrow> WorkItem" where
  "progressItem flow h = \<lparr>wi_Workflow = flow, wi_Handoff = h, wi_ActiveWatch = None, wi_Warnings = [], wi_Suggestions = []\<rparr>"

fun driveStored :: "Workflow \<Rightarrow> string \<Rightarrow> AdapterResult \<Rightarrow> nat \<Rightarrow> unit sop" where
  "driveStored flow i result 0 = ret ()"
| "driveStored flow i result (Suc n) =
     bindE (LoadHandoff i) (\<lambda>h.
     bindE (progressWork (progressItem flow h) result) (\<lambda>_. driveStored flow i result n))"

lemma deps_advanced:
  assumes "deps_done d m" and "h_State m \<noteq> StateCompleted" and "find_by h_ID (h_ID m) (st_handoffs d) = Some m"
    and "advanced m e d d'" and "h_WorkflowID k = h_WorkflowID m" "h_DependsOnHandoffIDs k = h_DependsOnHandoffIDs m"
  shows "deps_done d' k"
  using assms unfolding deps_done_def advanced_def by (metis option.sel)

lemma driver_completes_stored:
  assumes "store_inv (w_db w)" "supplied w" and "find_by h_ID i (st_handoffs (w_db w)) = Some m" "i \<noteq> []" "deps_done (w_db w) m"
    and "wf_ID flow = h_WorkflowID m" "h_WorkflowID m \<noteq> []" and "drivable result m" "approving result"
  shows "\<exists>w' k. driveStored flow i result (stepsLeft m) w = (Inr (), w') \<and> find_by h_ID i (st_handoffs (w_db w')) = Some k
    \<and> h_State k = StateCompleted \<and> store_inv (w_db w')"
  using assms
proof (induction "stepsLeft m" arbitrary: m w)
  case 0
  then show ?case using stepsLeft_0 [OF "0.prems"(8)] by (simp add: ret_def)
next
  case (Suc n)
  note inv = Suc.prems(1) and sup = Suc.prems(2) and m = Suc.prems(3)
  let ?item = "progressItem flow m"
  have item: "wi_Handoff ?item = m" "wi_Workflow ?item = flow" by (simp_all add: progressItem_def)
  have id: "h_ID m = i" using inv_handoff(1) [OF inv m] .
  have lwf: "lifecycle_wf m" using inv_handoff(2) [OF inv m] by (simp add: backed_def)
  have live: "h_State m \<noteq> StateCompleted" using stepsLeft_0 [OF Suc.prems(8)] Suc.hyps(2) by simp
  obtain e where e: "driverEvent ?item result = Some e"
    by (rule driver_steps [of result ?item]) (use Suc.prems(8) live in \<open>simp_all add: item\<close>)
  note step = drivable_step [of ?item, unfolded item, OF lwf Suc.prems(8,9) e]
  have stored: "stored_item (w_db w) ?item" using Suc.prems by (simp add: stored_item_def item id)
  have awake: "ad_Status result \<noteq> AdapterStatusPending" using Suc.prems(9) by (simp add: approving_def)
  have can: "canProgress (wi_Handoff ?item)" using drivable_progress [OF Suc.prems(8)] by (simp add: item)
  obtain a v where run: "progressWork ?item result w = (Inr (Some a), v)" "supplied v" "advanced m e (w_db w) (w_db v)"
    by (rule progress_supplied [OF inv sup stored awake e can]) (simp add: item)
  obtain k where k: "find_by h_ID i (st_handoffs (w_db v)) = Some k" "core k = core (machine_next m e)"
    using run(3) by (auto simp: advanced_def id)
  have terms: "same_terms (machine_next m e) m" by (rule machine_next_terms [OF lwf])
  have "h_DependsOnHandoffIDs (core h) = h_DependsOnHandoffIDs h" for h by (simp add: core_def)
  then have same: "h_WorkflowID k = h_WorkflowID m" "h_DependsOnHandoffIDs k = h_DependsOnHandoffIDs m"
    using terms core_fields(10) [of k] core_fields(10) [of "machine_next m e"] k(2) unfolding same_terms_def by metis+
  have next_k: "drivable result k" "stepsLeft k = stepsLeft (machine_next m e)"
    using step(2) drivable_core(1) [of result k] drivable_core(1) [of result "machine_next m e"]
      drivable_core(2) [of k] drivable_core(2) [of "machine_next m e"] k(2) by simp_all
  have left: "n = stepsLeft k" using next_k(2) step(3) Suc.hyps(2) by simp
  have deps: "deps_done (w_db v) k"
    by (rule deps_advanced [OF Suc.prems(5) live _ run(3) same]) (use m id in simp)
  have inv': "store_inv (w_db v)" using run(3) by (simp add: advanced_def)
  have wid: "wf_ID flow = h_WorkflowID k" "h_WorkflowID k \<noteq> []" using Suc.prems(6,7) same(1) by simp_all
  obtain w' k' where rest: "driveStored flow i result (stepsLeft k) v = (Inr (), w')"
    "find_by h_ID i (st_handoffs (w_db w')) = Some k'" "h_State k' = StateCompleted" "store_inv (w_db w')"
    using Suc.hyps(1) [OF left inv' run(2) k(1) Suc.prems(4) deps wid next_k(1) Suc.prems(9)] by blast
  have "w_faults w = []" using sup by (simp add: supplied_def)
  then have "driveStored flow i result (Suc n) w = (Inr (), w')"
    using load_free(2) [OF _ m] run(1) rest(1) by (simp add: bindE_def left)
  with rest(2-4) show ?case by (simp add: Suc.hyps(2) [symmetric])
qed

end
