(* ===== verification/Sender_Config.thy ===== *)
theory Sender_Config
  imports Sender_Service
begin

text \<open>
  \<open>config.go\<close> of the sender: the configuration from the environment or from a TOML file. Reading
  and decoding the file, \<open>time.ParseDuration\<close>, \<open>net\<close>'s address parsing and the texts of
  \<open>strconv\<close> are the fields of \<open>config_env\<close>; a Go map is the list of its entries in the order
  the loop visits them.
\<close>

record Config =
  cf_Address :: string
  cf_DatabasePath :: string
  cf_DefaultMaxAttempts :: int
  cf_WorkerPollInterval :: duration
  cf_SendTimeout :: duration
  cf_SenderAuthKey :: string
  cf_GlobalAllowUserIDs :: "int list"
  cf_Bots :: bot_map

record botTOMLConfig =
  bt_Enabled :: bool
  bt_AccountID :: string
  bt_Token :: string
  bt_AllowUserIDs :: "string list"

record senderTOMLConfig =
  tc_Address :: string
  tc_DatabasePath :: string
  tc_DefaultMaxAttempts :: "int option"
  tc_WorkerPollInterval :: string
  tc_SendTimeout :: string
  tc_SenderAuthKey :: string
  tc_GlobalAllowUserIDs :: "string list"
  tc_Bots :: "(string \<times> botTOMLConfig) list"

record config_env =
  ce_parseDuration :: "string \<Rightarrow> error + duration"
  ce_splitHostPort :: "string \<Rightarrow> error + (string \<times> string)"
  ce_loopbackIP :: "string \<Rightarrow> bool"
  ce_numError :: "string \<Rightarrow> error"
  ce_quote :: "string \<Rightarrow> string"
  ce_getenv :: "string \<Rightarrow> string"

definition defaultAddress :: string where "defaultAddress = ''127.0.0.1:8787''"
definition defaultMaxAttempts :: int where "defaultMaxAttempts = 3"
definition defaultDatabasePath :: string where "defaultDatabasePath = ''sender.db''"

definition must_be_positive :: "string \<Rightarrow> error" where
  "must_be_positive name = ErrorText (name @ '' must be greater than 0'')"

definition must_be_between :: "string \<Rightarrow> int \<Rightarrow> int \<Rightarrow> error" where
  "must_be_between name lo hi =
     ErrorText (name @ '' must be between '' @ formatInt lo @ '' and '' @ formatInt hi)"

section \<open>Fields\<close>

text \<open>The continuation of \<open>if err != nil { return Config{}, err }\<close>.\<close>

definition thenE :: "error + 'a \<Rightarrow> ('a \<Rightarrow> error + 'b) \<Rightarrow> error + 'b" where
  "thenE r f = (case r of Inl e \<Rightarrow> Inl e | Inr a \<Rightarrow> f a)"

lemma thenE_simps [simp]: "thenE (Inl e) f = Inl e" "thenE (Inr a) f = f a"
  by (simp_all add: thenE_def)

lemma thenE_Inr: "thenE r f = Inr b \<longleftrightarrow> (\<exists>a. r = Inr a \<and> f a = Inr b)"
  by (cases r) simp_all

definition checkedE :: "bool \<Rightarrow> error \<Rightarrow> error + unit" where
  "checkedE b e = (if b then Inr () else Inl e)"

lemma checkedE_Inr [simp]: "checkedE b e = Inr u \<longleftrightarrow> b"
  by (simp add: checkedE_def)

definition labelE :: "string \<Rightarrow> error + 'a \<Rightarrow> error + 'a" where
  "labelE l r = (case r of Inl e \<Rightarrow> Inl (ErrorWrap l e) | Inr a \<Rightarrow> Inr a)"

lemma labelE_Inr [simp]: "labelE l r = Inr a \<longleftrightarrow> r = Inr a"
  by (cases r) (simp_all add: labelE_def)

definition envOrDefault :: "config_env \<Rightarrow> string \<Rightarrow> string \<Rightarrow> string" where
  "envOrDefault c name fallback =
     (let value = trimSpace (ce_getenv c name) in if value \<noteq> [] then value else fallback)"

definition parseIntEnv :: "config_env \<Rightarrow> string \<Rightarrow> int \<Rightarrow> error + int" where
  "parseIntEnv c name fallback =
     (let value = trimSpace (ce_getenv c name) in
      if value = [] then Inr fallback
      else case parseInt64 value of
        None \<Rightarrow> Inl (ErrorWrap (''parse '' @ name) (ce_numError c value))
      | Some parsed \<Rightarrow> if parsed < 1 then Inl (must_be_positive name) else Inr parsed)"

definition parseBoundedIntEnv :: "config_env \<Rightarrow> string \<Rightarrow> int \<Rightarrow> int \<Rightarrow> int \<Rightarrow> error + int" where
  "parseBoundedIntEnv c name fallback lo hi =
     thenE (parseIntEnv c name fallback) (\<lambda>parsed.
       if parsed < lo \<or> parsed > hi then Inl (must_be_between name lo hi) else Inr parsed)"

definition parsePositiveDuration :: "config_env \<Rightarrow> string \<Rightarrow> string \<Rightarrow> error + duration" where
  "parsePositiveDuration c fieldName raw =
     thenE (labelE (''parse '' @ fieldName) (ce_parseDuration c (trimSpace raw))) (\<lambda>parsed.
       if parsed \<le> 0 then Inl (must_be_positive fieldName) else Inr parsed)"

definition parseDurationEnv :: "config_env \<Rightarrow> string \<Rightarrow> duration \<Rightarrow> error + duration" where
  "parseDurationEnv c name fallback =
     (let value = trimSpace (ce_getenv c name) in
      if value = [] then Inr fallback
      else thenE (labelE (''parse '' @ name) (ce_parseDuration c value)) (\<lambda>parsed.
        if parsed \<le> 0 then Inl (must_be_positive name) else Inr parsed))"

fun parseUserIDs :: "config_env \<Rightarrow> string \<Rightarrow> string list \<Rightarrow> error + int list" where
  "parseUserIDs c fieldName [] = Inr []"
| "parseUserIDs c fieldName (value # raw) =
     (case parseInt64 (trimSpace value) of
        None \<Rightarrow> Inl (ErrorWrap (''invalid user id '' @ ce_quote c value @ '' in '' @ fieldName)
                  (ce_numError c (trimSpace value)))
      | Some userID \<Rightarrow> thenE (parseUserIDs c fieldName raw) (\<lambda>ids. Inr (userID # ids)))"

definition parseAllowUserIDs :: "config_env \<Rightarrow> string list \<Rightarrow> string \<Rightarrow> error + int list" where
  "parseAllowUserIDs c raw fieldName = parseUserIDs c fieldName raw"

definition validateListenAddress :: "config_env \<Rightarrow> string \<Rightarrow> error + unit" where
  "validateListenAddress c address =
     thenE (labelE ''parse SENDER_ADDR'' (ce_splitHostPort c address)) (\<lambda>(host, _).
       if host = ''localhost'' then Inr ()
       else checkedE (ce_loopbackIP c host) (ErrorText ''SENDER_ADDR must use a loopback host''))"

section \<open>Loading\<close>

definition LoadConfigFromEnv :: "config_env \<Rightarrow> error + Config" where
  "LoadConfigFromEnv c =
     thenE (parseBoundedIntEnv c ''SENDER_DEFAULT_MAX_ATTEMPTS'' defaultMaxAttempts minMaxAttempts maxMaxAttempts)
       (\<lambda>attempts.
     thenE (parseDurationEnv c ''SENDER_WORKER_POLL_INTERVAL'' second) (\<lambda>poll.
     thenE (parseDurationEnv c ''SENDER_SEND_TIMEOUT'' (15 * second)) (\<lambda>timeout.
     let cfg = \<lparr>cf_Address = envOrDefault c ''SENDER_ADDR'' defaultAddress,
                cf_DatabasePath = envOrDefault c ''SENDER_DB_PATH'' defaultDatabasePath,
                cf_DefaultMaxAttempts = attempts, cf_WorkerPollInterval = poll, cf_SendTimeout = timeout,
                cf_SenderAuthKey = [], cf_GlobalAllowUserIDs = [], cf_Bots = []\<rparr> in
     thenE (validateListenAddress c (cf_Address cfg)) (\<lambda>_. Inr cfg))))"

definition loadBot ::
  "config_env \<Rightarrow> (string \<Rightarrow> string) \<Rightarrow> string \<Rightarrow> bot_map \<Rightarrow> string \<Rightarrow> botTOMLConfig \<Rightarrow> error + (string \<times> BotRuntimeConfig)" where
  "loadBot c ul authKey done botName b =
     (let normalizedName = NormalizeBotName ul botName in
      if normalizedName = [] then
        Inl (ErrorText (''invalid bot name '' @ ce_quote c botName @ '': normalized name is empty''))
      else if normalizedName \<in> fst ` set done then
        Inl (ErrorText (''duplicate normalized bot name '' @ ce_quote c normalizedName))
      else
        let token = trimSpace (bt_Token b); accountID = trimSpace (bt_AccountID b) in
        if token = [] then Inl (ErrorText (''telegram.bots.'' @ normalizedName @ ''.token is required''))
        else if token = authKey then
          Inl (ErrorText (''sender_auth_key must be distinct from telegram bot token for bot '' @ normalizedName))
        else if accountID = [] then
          Inl (ErrorText (''telegram.bots.'' @ normalizedName @ ''.account_id is required''))
        else thenE (parseAllowUserIDs c (bt_AllowUserIDs b) (''telegram.bots.'' @ normalizedName @ ''.allow_user_ids''))
          (\<lambda>ids. Inr (normalizedName, \<lparr>bot_Enabled = bt_Enabled b, bot_AccountID = accountID, bot_Token = token,
                                      bot_AllowUserIDs = ids\<rparr>)))"

fun loadBots ::
  "config_env \<Rightarrow> (string \<Rightarrow> string) \<Rightarrow> string \<Rightarrow> bot_map \<Rightarrow> (string \<times> botTOMLConfig) list \<Rightarrow> error + bot_map" where
  "loadBots c ul authKey done [] = Inr done"
| "loadBots c ul authKey done ((name, b) # rest) =
     thenE (loadBot c ul authKey done name b) (\<lambda>entry. loadBots c ul authKey (done @ [entry]) rest)"

definition orTrimmed :: "string \<Rightarrow> string \<Rightarrow> string" where
  "orTrimmed raw fallback = (if trimSpace raw \<noteq> [] then trimSpace raw else fallback)"

definition durationOr :: "config_env \<Rightarrow> string \<Rightarrow> string \<Rightarrow> duration \<Rightarrow> error + duration" where
  "durationOr c field raw fallback =
     (if trimSpace raw \<noteq> [] then parsePositiveDuration c field raw else Inr fallback)"

text \<open>The file's decoded content; an error of reading or decoding it is returned as it is.\<close>

definition LoadConfigFromTOML :: "config_env \<Rightarrow> (string \<Rightarrow> string) \<Rightarrow> error + senderTOMLConfig \<Rightarrow> error + Config" where
  "LoadConfigFromTOML c ul content =
     thenE content (\<lambda>parsed.
     let attempts = (case tc_DefaultMaxAttempts parsed of None \<Rightarrow> defaultMaxAttempts | Some n \<Rightarrow> n) in
     if attempts < minMaxAttempts \<or> attempts > maxMaxAttempts
     then Inl (must_be_between ''default_max_attempts'' minMaxAttempts maxMaxAttempts)
     else
     thenE (durationOr c ''worker_poll_interval'' (tc_WorkerPollInterval parsed) second) (\<lambda>poll.
     thenE (durationOr c ''send_timeout'' (tc_SendTimeout parsed) (15 * second)) (\<lambda>timeout.
     let address = orTrimmed (tc_Address parsed) defaultAddress in
     thenE (validateListenAddress c address) (\<lambda>_.
     let authKey = trimSpace (tc_SenderAuthKey parsed) in
     if authKey = [] then Inl (ErrorText ''sender_auth_key is required'')
     else
     thenE (parseAllowUserIDs c (tc_GlobalAllowUserIDs parsed) ''telegram.global_allow_user_ids'') (\<lambda>allow.
     thenE (loadBots c ul authKey [] (tc_Bots parsed)) (\<lambda>bots.
     Inr \<lparr>cf_Address = address,
          cf_DatabasePath = orTrimmed (tc_DatabasePath parsed) defaultDatabasePath,
          cf_DefaultMaxAttempts = attempts, cf_WorkerPollInterval = poll, cf_SendTimeout = timeout,
          cf_SenderAuthKey = authKey, cf_GlobalAllowUserIDs = allow, cf_Bots = bots\<rparr>))))))"

text \<open>\<open>os.Environ\<close> is a list of \<open>key=value\<close> entries; the last entry of a name wins.\<close>

fun cutEquals :: "string \<Rightarrow> (string \<times> string) option" where
  "cutEquals [] = None"
| "cutEquals (x # xs) =
     (if x = CHR ''='' then Some ([], xs) else map_option (\<lambda>(k, v). (x # k, v)) (cutEquals xs))"

definition tokenEntry :: "(string \<Rightarrow> string) \<Rightarrow> string \<Rightarrow> (string \<times> string) option" where
  "tokenEntry ul entry =
     (case cutEquals entry of
        None \<Rightarrow> None
      | Some (key, val) \<Rightarrow>
          if \<not> hasPrefix key ''BOT_TOKEN_'' \<or> val = [] then None
          else let botName = NormalizeBotName ul (trimPrefix key ''BOT_TOKEN_'') in
            if botName = [] then None else Some (botName, val))"

definition LoadBotTokensFromEnv :: "(string \<Rightarrow> string) \<Rightarrow> string list \<Rightarrow> (string \<rightharpoonup> string)" where
  "LoadBotTokensFromEnv ul environ =
     fold (\<lambda>entry tokens. case tokenEntry ul entry of None \<Rightarrow> tokens | Some (b, t) \<Rightarrow> tokens(b \<mapsto> t)) environ Map.empty"

section \<open>What a loaded configuration guarantees\<close>

definition bot_ok :: "string \<Rightarrow> string \<times> BotRuntimeConfig \<Rightarrow> bool" where
  "bot_ok authKey = (\<lambda>(name, b). name \<noteq> [] \<and> bot_Token b \<noteq> [] \<and> trimSpace (bot_Token b) = bot_Token b
     \<and> bot_Token b \<noteq> authKey \<and> bot_AccountID b \<noteq> [])"

definition config_ok :: "config_env \<Rightarrow> Config \<Rightarrow> bool" where
  "config_ok c cfg \<longleftrightarrow> minMaxAttempts \<le> cf_DefaultMaxAttempts cfg \<and> cf_DefaultMaxAttempts cfg \<le> maxMaxAttempts
     \<and> 0 < cf_WorkerPollInterval cfg \<and> 0 < cf_SendTimeout cfg
     \<and> (case ce_splitHostPort c (cf_Address cfg) of
          Inl _ \<Rightarrow> False | Inr (host, _) \<Rightarrow> host = ''localhost'' \<or> ce_loopbackIP c host)
     \<and> distinct (map fst (cf_Bots cfg)) \<and> list_all (bot_ok (cf_SenderAuthKey cfg)) (cf_Bots cfg)"

lemma validate_ok:
  "validateListenAddress c a = Inr u \<Longrightarrow>
   (case ce_splitHostPort c a of Inl _ \<Rightarrow> False | Inr (host, _) \<Rightarrow> host = ''localhost'' \<or> ce_loopbackIP c host)"
  by (auto simp: validateListenAddress_def thenE_Inr split: if_splits)

lemma positive_ok:
  "durationOr c f raw d = Inr v \<Longrightarrow> 0 < d \<Longrightarrow> 0 < v" "parseDurationEnv c n d = Inr v \<Longrightarrow> 0 < d \<Longrightarrow> 0 < v"
  by (auto simp: durationOr_def parsePositiveDuration_def parseDurationEnv_def thenE_Inr Let_def split: if_splits)

lemma loadBot_ok:
  "loadBot c ul key ds n b = Inr e \<Longrightarrow> bot_ok key e \<and> fst e \<notin> fst ` set ds \<and> fst e = NormalizeBotName ul n"
  unfolding loadBot_def Let_def by (simp add: thenE_Inr bot_ok_def split: if_splits)
    (elim exE conjE, hypsubst, simp)

lemma loadBots_ok:
  "loadBots c ul key ds xs = Inr bots \<Longrightarrow> distinct (map fst ds) \<Longrightarrow> list_all (bot_ok key) ds \<Longrightarrow>
   distinct (map fst bots) \<and> list_all (bot_ok key) bots \<and> map fst bots = map fst ds @ map (NormalizeBotName ul \<circ> fst) xs"
proof (induction xs arbitrary: ds)
  case (Cons x xs)
  obtain n b where x: "x = (n, b)" by fastforce
  from Cons.prems(1) obtain e where e: "loadBot c ul key ds n b = Inr e" "loadBots c ul key (ds @ [e]) xs = Inr bots"
    by (auto simp: x thenE_Inr)
  have "fst e \<notin> fst ` set ds" "bot_ok key e" using loadBot_ok [OF e(1)] by blast+
  with Cons.prems(2,3) have "distinct (map fst (ds @ [e]))" "list_all (bot_ok key) (ds @ [e])" by simp_all
  note ih = Cons.IH [OF e(2) this]
  have "map fst bots = map fst ds @ map (NormalizeBotName ul \<circ> fst) (x # xs)"
    using conjunct2 [OF conjunct2 [OF ih]] conjunct2 [OF conjunct2 [OF loadBot_ok [OF e(1)]]] by (simp add: x)
  with ih show ?case by blast
qed simp

lemma env_config_ok: "LoadConfigFromEnv c = Inr cfg \<Longrightarrow> config_ok c cfg"
proof -
  assume "LoadConfigFromEnv c = Inr cfg"
  then obtain attempts poll timeout u where
    "parseBoundedIntEnv c ''SENDER_DEFAULT_MAX_ATTEMPTS'' defaultMaxAttempts minMaxAttempts maxMaxAttempts = Inr attempts"
    "parseDurationEnv c ''SENDER_WORKER_POLL_INTERVAL'' second = Inr poll"
    "parseDurationEnv c ''SENDER_SEND_TIMEOUT'' (15 * second) = Inr timeout"
    "validateListenAddress c (cf_Address cfg) = Inr u"
    "cf_DefaultMaxAttempts cfg = attempts" "cf_WorkerPollInterval cfg = poll" "cf_SendTimeout cfg = timeout" "cf_Bots cfg = []"
    by (auto simp: LoadConfigFromEnv_def thenE_Inr Let_def)
  then show ?thesis
    using validate_ok positive_ok(2) [of c _ second] positive_ok(2) [of c _ "15 * second"]
    by (auto simp: config_ok_def parseBoundedIntEnv_def thenE_Inr split: if_splits)
qed

lemma toml_config_ok:
  assumes "LoadConfigFromTOML c ul (Inr parsed) = Inr cfg"
  shows "config_ok c cfg" "cf_SenderAuthKey cfg \<noteq> []"
    "map fst (cf_Bots cfg) = map (NormalizeBotName ul \<circ> fst) (tc_Bots parsed)"
proof -
  from assms obtain poll timeout u allow where
    l: "durationOr c ''worker_poll_interval'' (tc_WorkerPollInterval parsed) second = Inr poll"
    "durationOr c ''send_timeout'' (tc_SendTimeout parsed) (15 * second) = Inr timeout"
    "validateListenAddress c (cf_Address cfg) = Inr u"
    "loadBots c ul (cf_SenderAuthKey cfg) [] (tc_Bots parsed) = Inr (cf_Bots cfg)"
    "minMaxAttempts \<le> cf_DefaultMaxAttempts cfg" "cf_DefaultMaxAttempts cfg \<le> maxMaxAttempts"
    "cf_WorkerPollInterval cfg = poll" "cf_SendTimeout cfg = timeout" and key: "cf_SenderAuthKey cfg \<noteq> []"
    by (auto simp: LoadConfigFromTOML_def thenE_Inr Let_def split: if_splits)
  have bots: "distinct (map fst (cf_Bots cfg))" "list_all (bot_ok (cf_SenderAuthKey cfg)) (cf_Bots cfg)"
    "map fst (cf_Bots cfg) = map (NormalizeBotName ul \<circ> fst) (tc_Bots parsed)"
    using loadBots_ok [OF l(4), unfolded append_Nil list.map distinct.simps list_all_iff list.set ball_empty,
        folded list_all_iff, OF TrueI TrueI] by blast+
  from l(5-8) bots(1,2) show "config_ok c cfg"
    using validate_ok [OF l(3)] positive_ok(1) [OF l(1)] positive_ok(1) [OF l(2)] unfolding config_ok_def by auto
  from key show "cf_SenderAuthKey cfg \<noteq> []" .
  show "map fst (cf_Bots cfg) = map (NormalizeBotName ul \<circ> fst) (tc_Bots parsed)" by (rule bots(3))
qed

end
