(* ===== verification/Sender_Demo.thy ===== *)
theory Sender_Demo
  imports Sender_Views Sender_Config
begin

text \<open>
  A concrete sender for the instances of the properties: one bot, an empty queue, a Telegram
  that answers every message with a server error, and the states a submission and the rounds
  after it leave.
\<close>

definition ascii_lower :: "string \<Rightarrow> string" where
  "ascii_lower s = map lower_byte s"

definition demo_bots :: bot_map where
  "demo_bots = [(''ops'', \<lparr>bot_Enabled = True, bot_AccountID = ''a'', bot_Token = ''1:t'', bot_AllowUserIDs = [7]\<rparr>)]"

definition demo_service :: SendService where
  "demo_service = NewSendService demo_bots [] 2"

definition demo_command :: SendCommand where
  "demo_command = \<lparr>sc_Bot = ''Ops'', sc_ChatID = 7, sc_Text = ''hi'', sc_IdempotencyKey = ''k'', sc_MaxAttempts = 0,
     sc_ReplyToMessageID = None, sc_DisableNotification = False\<rparr>"

definition demo_request :: SendCommand where
  "demo_request = \<lparr>sc_Bot = ''ops'', sc_ChatID = 7, sc_Text = ''hi'', sc_IdempotencyKey = ''k'', sc_MaxAttempts = 2,
     sc_ReplyToMessageID = None, sc_DisableNotification = False\<rparr>"

definition sender_world :: "sender \<Rightarrow> sender world" where
  "sender_world d = \<lparr>w_db = d, w_faults = [], w_uuid = (\<lambda>_. None), w_ids = 0,
     w_clock = (\<lambda>i. (1000 + int i) * second), w_tick = 0\<rparr>"

definition demo_telegram :: telegram_env where
  "demo_telegram = \<lparr>tg_baseURL = ''https://api.telegram.org'', tg_badURL = (\<lambda>_. None),
     tg_do = (\<lambda>_ _. Body 502 []), tg_unmarshal = (\<lambda>_. Inr NoTelegramResponse), tg_statusText = (\<lambda>_. ''Bad Gateway'')\<rparr>"

definition demo_worker :: Worker where
  "demo_worker = \<lparr>wk_telegram = demo_telegram, wk_bots = demo_bots, wk_sendTimeout = 15 * second\<rparr>"

definition queued_row :: job_row where
  "queued_row = inserted_row demo_request (1000 * second) empty_sender"

definition queued :: sender where
  "queued = inserted demo_request (1000 * second) empty_sender"

lemma demo_trims: "trimSpace ''Ops'' = ''Ops''" "trimSpace ''k'' = ''k''" "trimSpace ''1:t'' = ''1:t''" "trimSpace ''hi'' = ''hi''"
  by (simp_all add: trimSpace_visible visible_char_def)

lemma demo_name: "toLower ascii_lower ''Ops'' = ''ops''" "runeCount ''hi'' = 2"
proof -
  have "byte_of 111 = CHR ''o''" by code_simp
  then show "toLower ascii_lower ''Ops'' = ''ops''" by (simp add: toLower_def is_ascii_def lower_byte_def)
  show "runeCount ''hi'' = 2" by (simp add: runeCount_ascii is_ascii_def)
qed

lemma demo_check: "checkSend ascii_lower demo_service demo_command = Inr demo_request"
  by (simp add: checkSend_def Let_def demo_command_def demo_request_def demo_service_def NewSendService_def demo_bots_def
      NormalizeBotName_def demo_trims demo_name allowlisted_def toAllowlistSet_def TelegramMaxTextLength_def
      minMaxAttempts_def maxMaxAttempts_def)

lemma demo_submit:
  "Submit ascii_lower demo_service demo_command (sender_world empty_sender) =
     (Inr (scanJob queued_row),
      (sender_world empty_sender)\<lparr>w_tick := 1, w_db := queued\<rparr>)"
proof -
  have world: "w_faults (sender_world empty_sender) = []" "w_db (sender_world empty_sender) = empty_sender"
    "w_clock (sender_world empty_sender) 0 = 1000 * second"
    "w_tick (sender_world empty_sender) = 0"
    by (simp_all add: sender_world_def)
  have fresh: "keyed_job (sc_IdempotencyKey demo_request) empty_sender = None"
    by (simp add: keyed_job_def empty_sender_def find_by_def)
  have "sender_inv (w_db (sender_world empty_sender), [])" by (simp add: world empty_sender_inv)
  from Submit_free [OF world(1) this, of ascii_lower demo_service demo_command] show ?thesis
    by (simp add: demo_check world fresh submitted_def queued_def queued_row_def)
qed

lemma queued_reachable: "queue_reachable (queued, [])"
  unfolding queue_reachable_def
  using movesD [OF moves_Submit demo_submit, of "[]"] by (simp add: sender_world_def)

lemma queued_inv: "sender_inv (queued, [])"
  by (rule queue_reachable_inv [OF queued_reachable])

lemma queued_rows: "sn_jobs queued = [queued_row]"
  by (simp add: queued_def inserted_def queued_row_def empty_sender_def)

lemma queued_row_fields:
  "row_id queued_row = 1" "row_status queued_row = StatusPending" "row_key queued_row = Some ''k''"
  "row_attempts queued_row = 0" "row_max queued_row = 2"
  by (simp_all add: queued_row_def inserted_row_def new_row_def createJobOf_def demo_request_def empty_sender_def
      nullableString_def)

lemma queued_payload: "sameSendPayload (scanJob queued_row) demo_request" "job_ID (scanJob queued_row) = 1"
  by (simp add: queued_row_def inserted_row_payload) (simp add: scanJob_def queued_row_fields)

lemma queued_key: "keyed_job (sc_IdempotencyKey demo_request) queued = Some queued_row"
  by (simp add: keyed_job_def demo_request_def queued_rows queued_row_fields find_by_def)

lemma queued_claim: "first_claimable now (sn_jobs queued) = Some queued_row"
  by (simp add: queued_rows first_claimable_def claimable_def queued_row_fields)

lemma demo_bot: "job_BotName (scanJob queued_row) = ''ops''" "job_AttemptCount (scanJob queued_row) = 0"
    "job_MaxAttempts (scanJob queued_row) = 2"
  by (simp_all add: scanJob_def queued_row_fields)
    (simp add: queued_row_def inserted_row_def new_row_def createJobOf_def demo_request_def)

definition demo_failure :: TelegramError where
  "demo_failure = \<lparr>te_StatusCode = 502, te_Description = ''Bad Gateway'', te_Retryable = True, te_RetryAfter = 0\<rparr>"

lemma demo_answer: "SendMessage demo_telegram token m = Some (TelegramFailure demo_failure)"
  by (simp add: SendMessage_def demo_telegram_def NoTelegramResponse_def demo_failure_def wrap64_def)

lemma demo_answer_text: "telegram_error_text demo_failure = ''telegram api error (502): Bad Gateway''"
proof -
  have "formatInt 502 = ''502''" by code_simp
  then show ?thesis by (simp add: telegram_error_text_def demo_failure_def)
qed

lemma demo_failure_fields: "te_StatusCode demo_failure = 502" "te_RetryAfter demo_failure = 0" "te_Retryable demo_failure"
  by (simp_all add: demo_failure_def)

text \<open>An empty environment, with the standard address accepted.\<close>

definition demo_env :: config_env where
  "demo_env = \<lparr>ce_parseDuration = (\<lambda>_. Inl ErrNoRows), ce_splitHostPort = (\<lambda>_. Inr (''localhost'', ''1'')),
     ce_loopbackIP = (\<lambda>_. False), ce_numError = (\<lambda>_. ErrNoRows), ce_quote = id, ce_getenv = (\<lambda>_. [])\<rparr>"

definition demo_config :: Config where
  "demo_config = \<lparr>cf_Address = defaultAddress, cf_DatabasePath = defaultDatabasePath, cf_DefaultMaxAttempts = 3,
     cf_WorkerPollInterval = second, cf_SendTimeout = 15 * second, cf_SenderAuthKey = [], cf_GlobalAllowUserIDs = [],
     cf_Bots = []\<rparr>"

lemma demo_env_config: "LoadConfigFromEnv demo_env = Inr demo_config"
  by (simp add: LoadConfigFromEnv_def demo_env_def parseBoundedIntEnv_def parseIntEnv_def parseDurationEnv_def
      envOrDefault_def validateListenAddress_def labelE_def demo_config_def defaultMaxAttempts_def minMaxAttempts_def
      maxMaxAttempts_def Let_def)

end
