(* ===== verification/Swarm_Demo.thy ===== *)
theory Swarm_Demo
  imports Tool_Sender Swarm_Progress Orch_Demo Sender_Demo
begin

text \<open>
  Concrete deliveries: the demo sender behind a transport whose texts hold a job's identifier and
  status, a clock whose readings are 100 seconds apart, and an agent that is asked over it.
\<close>

section \<open>Texts\<close>

definition demo_line :: "int \<Rightarrow> string \<Rightarrow> string" where
  "demo_line i status = formatInt i @ '' '' @ status"

fun demo_encode :: "response_body \<Rightarrow> string" where
  "demo_encode (SendBody r) = demo_line (rs_JobID r) (rs_Status r)"
| "demo_encode (JobBody j) = demo_line (jr_JobID j) (jr_Status j)"
| "demo_encode _ = []"

definition demo_parse :: "string \<Rightarrow> json option" where
  "demo_parse s = Some (JObject [(''job_id'', JNumber (takeWhile (\<lambda>c. c \<noteq> CHR '' '') s)),
     (''status'', JString (tl (dropWhile (\<lambda>c. c \<noteq> CHR '' '') s)))])"

definition demo_client_env :: client_env where
  "demo_client_env = \<lparr>cn_marshal = (\<lambda>_. []), cn_unmarshal = (\<lambda>_. None), cn_decode = demo_parse,
     cn_decodeError = (\<lambda>_. ErrNoRows), cn_lower = ascii_lower, cn_quote = id\<rparr>"

definition demo_client :: SenderClient where
  "demo_client = \<lparr>cl_baseURL = ''http://s'', cl_authKey = ''key''\<rparr>"

definition demo_handler :: HTTPHandler where
  "demo_handler = NewHTTPHandler demo_bots [] 2 ''key'' None"

definition demo_exchange :: "(string \<Rightarrow> sendRequest option) \<Rightarrow> sender exchange" where
  "demo_exchange decode = senderExchange ascii_lower decode demo_encode (\<lambda>_. ([], [])) (cl_baseURL demo_client) demo_handler"

lemma demo_key: "same_key demo_client demo_handler"
proof -
  have "trimSpace ''key'' = ''key''" by (rule trimSpace_visible) (simp_all add: visible_char_def)
  then show ?thesis by (simp add: same_key_def demo_client_def demo_handler_def NewHTTPHandler_def)
qed

lemma demo_line_parse:
  assumes "0 < i"
  shows "demo_parse (demo_line i status) = Some (JObject [(''job_id'', JNumber (formatInt i)), (''status'', JString status)])"
proof -
  have "list_all is_digit (formatNat (nat i))"
    using parseDigits_formatNat [of "nat i"] by (auto simp: parseDigits_def split: if_splits)
  then have "list_all is_digit (formatInt i)" using assms by (simp add: formatInt_def)
  then have d: "\<forall>c\<in>set (formatInt i). c \<noteq> CHR '' ''" by (auto simp: list_all_iff is_digit_def)
  then have "takeWhile (\<lambda>c. c \<noteq> CHR '' '') (demo_line i status) = formatInt i"
    "dropWhile (\<lambda>c. c \<noteq> CHR '' '') (demo_line i status) = '' '' @ status"
    by (simp_all add: demo_line_def takeWhile_append2 dropWhile_append2)
  then show ?thesis by (simp add: demo_parse_def)
qed

lemma demo_reads: "readsReply demo_client_env demo_encode"
  unfolding readsReply_def
  by (auto simp: demo_client_env_def demo_line_parse lenientStruct_def sendReplySpec_def lower_byte_def intField_def textField_def
      parseInt64_formatInt)

section \<open>Reading a waiting job\<close>

lemma demo_status: "MapSenderJobStatus ascii_lower StatusPending = Inr ''retrying''"
proof -
  have "trimSpace StatusPending = StatusPending" by (rule trimSpace_visible) (simp_all add: visible_char_def)
  moreover have "toLower ascii_lower StatusPending = StatusPending" by code_simp
  ultimately show ?thesis
    by (simp add: MapSenderJobStatus_def MapSenderJobStatusToDeliveryStatus_def Let_def)
qed

lemma demo_job:
  assumes "w_faults v = []" and "find_by row_id 1 (sn_jobs (w_db v)) = Some row" and "row_status row = StatusPending" "row_id row = 1"
  obtains job where "ClientGetJob demo_client_env (demo_exchange decode) demo_client 1 v = (Inr (Inr job), v)"
    and "sj_Status job = StatusPending"
proof -
  let ?q = "\<lparr>cq_Method = ''GET'', cq_URL = cl_baseURL demo_client @ ''/jobs/'' @ formatInt 1, cq_Authorization = bearer demo_client, cq_Body = []\<rparr>"
  have one: "formatInt 1 = ''1''" by code_simp
  have parse: "parseInt64 ''1'' = Some 1" by code_simp
  have get: "GetJob 1 v = (Inr (scanJob row), v)"
    using assms(1,2) by (simp add: GetJob_def rowE_def bindE_def ret_def fault_free)
  have ask: "demo_exchange decode ?q v = (Inr (Inr (200, demo_line 1 StatusPending)), v)"
    using get assms(3,4)
    by (simp add: demo_exchange_def senderExchange_def senderRequest_def ServeHTTP_def handleGetJob_def one parse hasPrefix_def
        trimPrefix_def Let_def respond_def handleE_def bindE_def ret_def jobView_def scanJob_def demo_client_def)
  let ?job = "NoSenderJob\<lparr>sj_JobID := 1, sj_Status := StatusPending\<rparr>"
  have read: "Option.bind (cn_decode demo_client_env (demo_line 1 StatusPending)) (\<lambda>x. lenientStruct jobSpec x NoSenderJob) = Some ?job"
    by (simp add: demo_client_env_def demo_line_parse one parse lenientStruct_def jobSpec_def lower_byte_def intField_def
        textField_def NoSenderJob_def)
  show thesis
  proof (rule that)
    show "ClientGetJob demo_client_env (demo_exchange decode) demo_client 1 v
      = (Inr (Inr (?job\<lparr>sj_LastError := sanitizeSenderLastError (sj_LastError ?job)\<rparr>)), v)"
      unfolding ClientGetJob_def getJSON_def bindC_def bindE_def ask by (simp add: read ret_def)
  qed simp
qed

definition slow_clock :: "nat \<Rightarrow> time" where
  "slow_clock n = (1000 + 100 * int n) * second"

lemma slow_clock_passes: "w_clock w = slow_clock \<Longrightarrow> time_passes w"
  unfolding time_passes_def
proof
  fix t assume clock: "w_clock w = slow_clock"
  have "t < w_clock w n" if "nat t \<le> n" for n
    using that unfolding clock by (simp add: slow_clock_def)
  then show "\<exists>K. \<forall>n\<ge>K. t < w_clock w n" by blast
qed

lemma demo_poll:
  assumes "w_faults w = []" "w_clock w = slow_clock" and "find_by row_id 1 (sn_jobs (w_db w)) = Some row"
    and "row_status row = StatusPending" "row_id row = 1" "dl_JobID d0 = 1"
  obtains d where "afterSend 1 demo_client_env (demo_exchange decode) demo_client d0 StatusPending w
      = (Inr (Inr (Some d)), w\<lparr>w_tick := Suc (Suc (w_tick w))\<rparr>)"
    and "dl_JobID d = 1" "dl_Status d = ''retrying''"
proof -
  let ?v = "w\<lparr>w_tick := Suc (w_tick w)\<rparr>"
  obtain job where job: "ClientGetJob demo_client_env (demo_exchange decode) demo_client 1 ?v = (Inr (Inr job), ?v)"
    "sj_Status job = StatusPending"
    using demo_job [of ?v row decode] assms by auto
  have late: "slow_clock (w_tick w) + 15000000000 < slow_clock (Suc (w_tick w))" by (simp add: slow_clock_def)
  have lower: "cn_lower demo_client_env = ascii_lower" by (simp add: demo_client_env_def)
  show thesis
    by (rule that [of "d0\<lparr>dl_Status := ''retrying'', dl_JobID := 1, dl_AttemptCount := sj_AttemptCount job,
          dl_LastError := composeTimeoutLastError []\<rparr>"])
      (simp_all add: afterSend_def lower demo_status PollJob_def bindE_def now_op_def Let_def assms(2,6) job late ret_def
        DefaultPollTimeout_def DefaultPollInterval_def)
qed

section \<open>A first delivery\<close>

definition demo_decode :: "string \<Rightarrow> string \<Rightarrow> string \<Rightarrow> sendRequest option" where
  "demo_decode msg k = (\<lambda>_. Some (requestOf ''Ops'' 7 msg k))"

lemma demo_bridge:
  assumes prep: "prepared demo_client_env input ctx resolver = Inr (agent, 7, ''Ops'')"
    and key: "ski_IdempotencyKey input = Some k" "trimSpace k = k" "k \<noteq> []"
    and check: "checkSend ascii_lower demo_service (commandOf (requestOf ''Ops'' 7 (ski_Text input) k)) = Inr req"
    and world: "w_db w = empty_sender" "w_faults w = []" "w_clock w = slow_clock"
  obtains d w1 where "RunA2ADeliveryBridgeWithResolver 1 demo_client_env (demo_exchange (demo_decode (ski_Text input) k)) demo_client
      input ctx (Some resolver) w = (Inr (Inr (Some d)), w1)"
    and "dl_JobID d = 1" "dl_Status d = ''retrying''" "w_faults w1 = []" "w_clock w1 = slow_clock"
    and "w_db w1 = inserted req (slow_clock (w_tick w)) empty_sender"
proof -
  let ?exchange = "demo_exchange (demo_decode (ski_Text input) k)" and ?row = "inserted_row req (slow_clock (w_tick w)) empty_sender"
  let ?wa = "w\<lparr>w_tick := Suc (w_tick w), w_db := inserted req (slow_clock (w_tick w)) empty_sender\<rparr>"
  have told: "understands demo_client_env (demo_decode (ski_Text input) k) ''Ops'' 7 (ski_Text input) k"
    by (simp add: understands_def delivered_body_def demo_decode_def demo_client_env_def)
  have service: "hh_sendService demo_handler = demo_service"
    by (simp add: demo_handler_def NewHTTPHandler_def demo_service_def)
  have fresh: "keyed_job i empty_sender = None" for i by (simp add: keyed_job_def empty_sender_def find_by_def)
  have submit: "Submit ascii_lower (hh_sendService demo_handler) (commandOf (requestOf ''Ops'' 7 (ski_Text input) k)) w
      = (Inr (scanJob ?row), ?wa)"
    using Submit_free [OF world(2), of "[]" ascii_lower demo_service] check empty_sender_inv
    by (simp add: world service submitted_def fresh)
  have fields: "row_id ?row = 1" "row_status ?row = StatusPending"
    by (simp_all add: inserted_row_def new_row_def empty_sender_def)
  have sent: "Send demo_client_env ?exchange demo_client ''Ops'' 7 (ski_Text input) k w = (Inr (Inr (1, StatusPending)), ?wa)"
    using Send_submits [OF demo_key told demo_reads submit, of "\<lambda>_. ([], [])"] fields
    by (simp add: demo_exchange_def sendAnswer_def scanJob_def)
  have keyed: "bridgeKey input agent 7 w = (Inr (Inr k), w)" by (simp add: bridgeKey_def key ret_def)
  obtain d where "afterSend 1 demo_client_env ?exchange demo_client (accepted_base (agent, 7, ''Ops'') 1) StatusPending ?wa
      = (Inr (Inr (Some d)), ?wa\<lparr>w_tick := Suc (Suc (w_tick ?wa))\<rparr>)" "dl_JobID d = 1" "dl_Status d = ''retrying''"
    by (rule demo_poll [of ?wa ?row "accepted_base (agent, 7, ''Ops'') 1"])
      (use fields in \<open>simp_all add: world inserted_def empty_sender_def accepted_base_def\<close>)
  with sender_server.bridge_steps [OF prep keyed sent [unfolded demo_exchange_def], of 1]
  show thesis
    by (intro that [of d "?wa\<lparr>w_tick := Suc (Suc (w_tick ?wa))\<rparr>"]) (simp_all add: demo_exchange_def world)
qed

definition demo_skill :: SkillInput where
  "demo_skill = \<lparr>ski_TargetAgent = ''ops'', ski_Text = ''hi'', ski_ChatID = Some 7, ski_IdempotencyKey = Some ''k''\<rparr>"

lemma demo_ops: "trimSpace ''ops'' = ''ops''"
  by (rule trimSpace_visible) (simp_all add: visible_char_def)

lemma demo_prepared: "prepared demo_client_env demo_skill NoContext (\<lambda>_. Some ''Ops'') = Inr (''ops'', 7, ''Ops'')"
  by (simp add: prepared_def checkSkillInput_def demo_skill_def demo_ops demo_trims demo_name TelegramMaxTextLength_def
      bridgeTarget_def ResolveTargetUser_def positiveChat_def ResolveBotForTargetAgent_def)

lemma demo_command_of: "commandOf (requestOf ''Ops'' 7 ''hi'' ''k'') = demo_command"
  by (simp add: commandOf_def requestOf_def demo_command_def demo_trims)

section \<open>An agent asked for its work\<close>

definition demo_agent :: AgentSpec where
  "demo_agent = \<lparr>as_ID = ''ops'', as_Capabilities = [], as_ProjectRefs = [], as_TaskKinds = []\<rparr>"

definition demo_work :: WorkSummary where
  "demo_work = \<lparr>ws_WorkflowID = ''w'', ws_HandoffID = ''h'', ws_AgentID = ''ops'', ws_State = StateStarted, ws_TaskKind = TaskGeneric,
     ws_Intent = [], ws_PayloadRef = [], ws_ProjectRef = [], ws_RequiredForWorkflowCompletion = True, ws_ArtifactMinCount = 0,
     ws_NeedsReview = False, ws_ReviewerID = []\<rparr>"

definition demo_work_key :: string where
  "demo_work_key = ''swarm:w:h:ops:execute''"

definition demo_message :: string where
  "demo_message = formatTelegramTaskMessage demo_client_env demo_work ''ops'' executionPhaseExecute demo_work_key False"

definition demo_adapter :: "sender TelegramAdapter" where
  "demo_adapter = \<lparr>te_client = demo_client, te_resolver = (\<lambda>_. Some ''Ops''),
     te_context = NoTargetUser\<lparr>tc_DeliveryContextTo := Some 7\<rparr>, te_notes = False, te_env = demo_client_env,
     te_exchange = demo_exchange (demo_decode demo_message demo_work_key), te_safe = id, te_fuel = 1\<rparr>"

lemma demo_adapter_fields:
  "te_client demo_adapter = demo_client" "te_resolver demo_adapter = (\<lambda>_. Some ''Ops'')" "te_safe demo_adapter = id"
  "te_context demo_adapter = NoTargetUser\<lparr>tc_DeliveryContextTo := Some 7\<rparr>" "te_notes demo_adapter = False" "te_fuel demo_adapter = 1"
  "te_env demo_adapter = demo_client_env" "te_exchange demo_adapter = demo_exchange (demo_decode demo_message demo_work_key)"
  by (simp_all add: demo_adapter_def)

lemma demo_work_fields: "ws_WorkflowID demo_work = ''w''" "ws_HandoffID demo_work = ''h''" "ws_State demo_work = StateStarted"
  by (simp_all add: demo_work_def)

lemma demo_phase: "telegramExecutionPhaseAndTarget demo_agent demo_work = (executionPhaseExecute, ''ops'')"
  by (simp add: telegramExecutionPhaseAndTarget_def demo_agent_def demo_work_def demo_ops)

lemma demo_identity: "telegramExecutionIdentity id demo_work ''ops'' executionPhaseExecute = demo_work_key"
  by code_simp

lemma demo_work_key_trim: "trimSpace demo_work_key = demo_work_key"
  by (rule trimSpace_visible) (simp_all add: demo_work_key_def visible_char_def)

lemma demo_asked:
  "er_CorrelationID (askedWork demo_adapter demo_agent demo_work) = demo_work_key"
  "er_IdempotencyKey (askedWork demo_adapter demo_agent demo_work) = demo_work_key"
  "er_Phase (askedWork demo_adapter demo_agent demo_work) = executionPhaseExecute"
  "er_WorkflowID (askedWork demo_adapter demo_agent demo_work) = ''w''"
  "er_HandoffID (askedWork demo_adapter demo_agent demo_work) = ''h''"
  "er_AgentID (askedWork demo_adapter demo_agent demo_work) = ''ops''"
  unfolding askedWork_def demo_phase Let_def prod.case demo_adapter_fields demo_identity
  by (simp_all add: demo_work_fields)

lemma demo_text: "workText demo_adapter demo_agent demo_work = demo_message"
  unfolding workText_def demo_phase prod.case demo_asked demo_adapter_fields demo_message_def by (rule refl)

lemma demo_task_size: "trimSpace demo_message \<noteq> []" "runeCount demo_message \<le> TelegramMaxTextLength"
proof -
  have "is_ascii demo_message" "length demo_message \<le> 4096" "hd demo_message = CHR ''c''" "last demo_message = CHR ''.''" "demo_message \<noteq> []"
    by code_simp+
  then show "trimSpace demo_message \<noteq> []" "runeCount demo_message \<le> TelegramMaxTextLength"
    by (simp_all add: trimSpace_visible visible_char_def runeCount_ascii TelegramMaxTextLength_def)
qed

definition demo_task_request :: SendCommand where
  "demo_task_request = \<lparr>sc_Bot = ''ops'', sc_ChatID = 7, sc_Text = demo_message, sc_IdempotencyKey = demo_work_key, sc_MaxAttempts = 2,
     sc_ReplyToMessageID = None, sc_DisableNotification = False\<rparr>"

lemma demo_task_check:
  "checkSend ascii_lower demo_service (commandOf (requestOf ''Ops'' 7 demo_message demo_work_key)) = Inr demo_task_request"
  using demo_task_size
  by (simp add: checkSend_def Let_def commandOf_def requestOf_def demo_task_request_def demo_service_def NewSendService_def
      demo_bots_def NormalizeBotName_def demo_trims demo_name demo_work_key_trim allowlisted_def toAllowlistSet_def
      minMaxAttempts_def maxMaxAttempts_def not_less)

lemma demo_task_prepared:
  "prepared demo_client_env (skillInput demo_adapter demo_agent demo_work row) (UserContext (te_context demo_adapter)) (te_resolver demo_adapter)
     = Inr (''ops'', 7, ''Ops'')"
  using demo_task_size
  by (simp add: prepared_def checkSkillInput_def skillInput_fields demo_text demo_phase demo_ops bridgeTarget_def
      demo_adapter_fields NoTargetUser_def ResolveTargetUser_def positiveChat_def ResolveBotForTargetAgent_def not_less)

definition demo_world :: "store \<Rightarrow> (store \<times> executions \<times> sender) world" where
  "demo_world s = \<lparr>w_db = (s, [], empty_sender), w_faults = [], w_uuid = (\<lambda>_. None), w_ids = 0, w_clock = slow_clock, w_tick = 0\<rparr>"

definition demo_row :: ExecutionRequest where
  "demo_row = newExecution (trimExecution (askedWork demo_adapter demo_agent demo_work)) (slow_clock 0)"

lemma demo_row_fields:
  "er_CorrelationID demo_row = demo_work_key" "er_IdempotencyKey demo_row = demo_work_key" "er_ResultStatus demo_row = []"
  by (simp_all add: demo_row_def newExecution_def trimExecution_keys demo_asked demo_work_key_trim)

definition demo_result_row :: ExecutionRequest where
  "demo_result_row = demo_row\<lparr>er_ResultStatus := ''completed'', er_ResultSummary := ''done''\<rparr>"

definition demo_answered :: "(store \<times> executions \<times> sender) world" where
  "demo_answered = (demo_world empty_store)\<lparr>w_db := (empty_store, [demo_result_row], empty_sender)\<rparr>"

lemma demo_result_row_fields: "er_CorrelationID demo_result_row = demo_work_key"
  by (simp add: demo_result_row_def demo_row_fields)

lemma demo_result: "adapterResultFromExecutionRequest demo_result_row = Some (adapterAnswer AdapterStatusCompleted ''done'')"
  by (simp add: adapterResultFromExecutionRequest_def demo_result_row_def demo_row_def newExecution_def adapterAnswer_def
      AdapterStatusCompleted_def)

lemma demo_named: "named (askedWork demo_adapter demo_agent demo_work)"
proof -
  have trims: "trimSpace ''w'' = ''w''" "trimSpace ''h'' = ''h''" "trimSpace executionPhaseExecute = executionPhaseExecute"
    by (simp_all add: executionPhaseExecute_def trimSpace_visible visible_char_def)
  show ?thesis
    by (simp add: named_def demo_asked demo_work_key_trim trims demo_ops validExecutionPhase_def) (simp add: demo_work_key_def)
qed

lemma demo_ensure:
  "w_faults w = [] \<Longrightarrow> w_db w = [] \<Longrightarrow> w_clock w (w_tick w) = slow_clock 0 \<Longrightarrow>
   EnsureExecutionRequest (askedWork demo_adapter demo_agent demo_work) w =
     (Inr demo_row, w\<lparr>w_tick := Suc (w_tick w), w_db := [demo_row]\<rparr>)"
proof -
  assume w: "w_faults w = []" "w_db w = []" "w_clock w (w_tick w) = slow_clock 0"
  have trims: "trimSpace ''w'' = ''w''" "trimSpace ''h'' = ''h''" by (simp_all add: trimSpace_visible visible_char_def)
  have phase: "trimSpace executionPhaseExecute = executionPhaseExecute" "validExecutionPhase executionPhaseExecute"
    by (simp_all add: executionPhaseExecute_def trimSpace_visible visible_char_def validExecutionPhase_def)
  have fields: "er_WorkflowID (trimExecution q) = trimSpace (er_WorkflowID q)" "er_HandoffID (trimExecution q) = trimSpace (er_HandoffID q)"
    "er_AgentID (trimExecution q) = trimSpace (er_AgentID q)" for q by (simp_all add: trimExecution_def)
  have none: "insertExecution demo_row [] = Inr ((), [demo_row])" by (simp add: insertExecution_def find_by_def)
  show ?thesis
    unfolding EnsureExecutionRequest_def Let_def GetExecutionByCorrelationID_def fields trimExecution_keys demo_asked trims phase
      demo_work_key_trim demo_ops
    using w none phase
    by (simp add: bindE_def now_op_def wrapE_def fault_free demo_row_def [symmetric] demo_row_fields)
      (simp add: demo_work_key_def)
qed

lemma demo_mark:
  fixes w :: "(executions \<times> sender) world"
  assumes "w_faults w = []" and "fst (w_db w) = [demo_row]"
  obtains stored w' where "onFirst (MarkExecutionDelivered ascii_lower demo_work_key deliveryStatusWaiting e) w = (Inr (), w')"
    and "w_db w' = ([stored], snd (w_db w))" "w_faults w' = []"
    and "er_CorrelationID stored = demo_work_key" "er_IdempotencyKey stored = demo_work_key"
proof -
  have status: "trimSpace deliveryStatusWaiting = deliveryStatusWaiting" "validDeliveryStatus deliveryStatusWaiting"
    "deliveryStatusWaiting \<noteq> deliveryStatusNew"
    by (simp_all add: delivery_status_defs validDeliveryStatus_def trimSpace_visible visible_char_def)
  have key: "demo_work_key \<noteq> []" by (simp add: demo_work_key_def)
  let ?m = "MarkExecutionDelivered ascii_lower demo_work_key deliveryStatusWaiting e" and ?v = "withDb [demo_row] w"
  obtain stored v' where "?m ?v = (Inr (), v')" "w_db v' = [stored]" "w_faults v' = []"
    "er_CorrelationID stored = demo_work_key" "er_IdempotencyKey stored = demo_work_key"
    using assms(1) status key demo_row_fields(1,2)
    by (simp add: MarkExecutionDelivered_def Let_def demo_work_key_trim bindE_def now_op_def wrapE_def fault_free update_where_def)
  then show thesis by (intro that [of "withDb ([stored], snd (w_db w)) v'" stored]) (simp_all add: onFirst_def assms(2))
qed

lemma demo_execute:
  obtains w1 stored where "TelegramExecute demo_adapter demo_agent demo_work (demo_world s) = (Inr (adapterAnswer AdapterStatusPending []), w1)"
    and "w_faults w1 = []" "transportOf w1 = inserted demo_task_request (slow_clock 1) empty_sender"
    and "find_by er_CorrelationID demo_work_key (executionsOf w1) = Some stored" "er_IdempotencyKey stored = demo_work_key"
proof -
  let ?w = "demo_world s" and ?q = "askedWork demo_adapter demo_agent demo_work"
  let ?y = "(withDb [] ?w)\<lparr>w_tick := 1, w_db := [demo_row]\<rparr>"
  have ensured: "EnsureExecutionRequest ?q (withDb [] ?w) = (Inr demo_row, ?y)"
    using demo_ensure [of "withDb [] ?w"] by (simp add: demo_world_def)
  have fields: "ski_Text (skillInput demo_adapter demo_agent demo_work demo_row) = demo_message"
    "ski_IdempotencyKey (skillInput demo_adapter demo_agent demo_work demo_row) = Some demo_work_key"
    by (simp_all add: skillInput_fields demo_text demo_row_fields)
  have key: "demo_work_key \<noteq> []" by (simp add: demo_work_key_def)
  obtain d u where run: "RunA2ADeliveryBridgeWithResolver 1 demo_client_env
      (demo_exchange (demo_decode (ski_Text (skillInput demo_adapter demo_agent demo_work demo_row)) demo_work_key)) demo_client
      (skillInput demo_adapter demo_agent demo_work demo_row) (UserContext (te_context demo_adapter)) (Some (te_resolver demo_adapter))
      (withDb empty_sender ?y) = (Inr (Inr (Some d)), u)"
    and u: "dl_Status d = ''retrying''" "w_faults u = []"
      "w_db u = inserted demo_task_request (slow_clock (w_tick (withDb empty_sender ?y))) empty_sender"
    by (rule demo_bridge [OF demo_task_prepared fields(2) demo_work_key_trim key, of demo_task_request "withDb empty_sender ?y"])
      (simp_all add: fields demo_task_check demo_world_def)
  then have asked: "askAgent demo_adapter demo_agent demo_work demo_row (withDb empty_sender ?y) = (Inr (Inr (Some d)), u)"
    by (simp add: askAgent_def demo_adapter_fields fields)
  let ?z = "withDb ([demo_row], empty_sender) ?y"
  have second: "onSecond (askAgent demo_adapter demo_agent demo_work demo_row) ?z
      = (Inr (Inr (Some d)), withDb ([demo_row], w_db u) u)"
    using asked by (simp add: onSecond_def)
  obtain stored z where mark: "onFirst (MarkExecutionDelivered ascii_lower demo_work_key deliveryStatusWaiting (dl_LastError d))
      (withDb ([demo_row], w_db u) u) = (Inr (), z)"
    "w_db z = ([stored], w_db u)" "w_faults z = []" "er_CorrelationID stored = demo_work_key" "er_IdempotencyKey stored = demo_work_key"
    by (rule demo_mark [of "withDb ([demo_row], w_db u) u" "dl_LastError d"]) (use u(2) in simp_all)
  have status: "telegramDeliveryStatus ''retrying'' = deliveryStatusWaiting" "deliveryStatusWaiting \<noteq> deliveryStatusFailed"
    by (simp_all add: telegramDeliveryStatus_def delivery_status_defs trimSpace_visible visible_char_def)
  have "deliverWork demo_adapter demo_agent demo_work demo_row ?z = (Inr (adapterAnswer AdapterStatusPending []), z)"
    unfolding deliverWork_def Let_def bindE_def second using mark(1) u(1) status
    by (simp add: demo_adapter_fields demo_client_env_def demo_row_fields ret_def)
  then have "TelegramExecute demo_adapter demo_agent demo_work ?w
      = (Inr (adapterAnswer AdapterStatusPending []), withDb (s, [stored], w_db u) z)"
    using ensured mark(2)
    by (simp add: TelegramExecute_def demo_work_fields onSecond_def onFirst_def bindE_def adapterResultFromExecutionRequest_def
        demo_row_fields) (simp add: demo_world_def demo_work_fields demo_row_fields)
  then show thesis
    by (rule that) (use u(3) mark in \<open>simp_all add: find_by_def\<close>)
qed

section \<open>A run of the reference template\<close>

definition demo_options :: SwarmOptions where
  "demo_options = \<lparr>so_TemplateName = [], so_WorkflowKind = [], so_WorkflowID = [], so_Intent = [], so_Agents = DefaultFakeAgents,
     so_MaxRounds = 0, so_StallRounds = 0, so_WorkLimit = 0, so_PerAgentAdapterFailLimit = 0, so_GlobalAdapterFailLimit = 0\<rparr>"

definition demo_run_world :: "(store \<times> FakeAdapter) world" where
  "demo_run_world = \<lparr>w_db = (empty_store, NewFakeAdapter), w_faults = [], w_uuid = (\<lambda>n. Some (formatNat n)), w_ids = 0,
     w_clock = slow_clock, w_tick = 0\<rparr>"

section \<open>A handoff that the driver completes\<close>

definition demo_flow :: Workflow where
  "demo_flow = hd (st_workflows (w_db created_world))"

lemma demo_flow_id: "wf_ID demo_flow = ''wf_0''"
  by code_simp

definition approval :: AdapterResult where
  "approval = adapterAnswer AdapterStatusCompleted []"

lemma steady_CreateHandoff: "steady (CreateHandoff input)"
  unfolding CreateHandoff_def newRootHandoffCreation_def saveWorkflowExec_def saveHandoffExec_def saveWatchExec_def
    CreateDefaultWatches_def newWatch_def saveOwnershipBindingExec_def modify_def Let_def
  by (intro steady_intros)

lemma created_supplied: "supplied created_world"
proof -
  have sources: "w_uuid created_world = (\<lambda>i. Some (formatInt (int i)))" "w_clock created_world = (\<lambda>i. (1000 + int i) * second)"
    using steadyD(1,2) [OF steady_CreateHandoff, of demo_input start_world] prod.collapse
    by (metis created_world_def start_world_def world.select_convs(3), metis created_world_def start_world_def world.select_convs(5))
  have "a = b" if "formatInt (int a) = formatInt (int b)" for a b
    using arg_cong [OF that, of parseDigits] by (simp add: formatInt_def parseDigits_formatNat)
  then show ?thesis
    by (auto simp: supplied_def sources created_faults created_events is_zero_def inj_on_def)
qed

lemma demo_handoff_fields:
  "h_ID demo_handoff = ''hf_1''" "h_WorkflowID demo_handoff = ''wf_0''" "h_State demo_handoff = StateCreated"
  "h_DependsOnHandoffIDs demo_handoff = []" "h_DeliveryTargetRef demo_handoff = []"
  "h_ReceiverActor demo_handoff = worker" "h_ReviewerActor demo_handoff = requester" "h_NeedsReview demo_handoff"
  "h_ArtifactPolicy demo_handoff = NoArtifactPolicy" "h_TaskKind demo_handoff = TaskReviewRequired"
  by (simp_all add: demo_handoff_def newHandoff_def demo_input_def)

lemma demo_drivable: "drivable approval demo_handoff" "approving approval" "stepsLeft demo_handoff = 7"
  by (simp_all add: drivable_def stepsLeft_def approving_def demo_handoff_fields driverSubmits_def requiresReview_def requiresArtifacts_def
      requiredArtifactCount_def submittedArtifacts_def approval_def adapterAnswer_def missingActor_def worker_def requester_def ActorOf_def
      AdapterStatusCompleted_def AdapterStatusPending_def NoArtifactPolicy_def)

lemma demo_stored: "stored_item (w_db created_world) (progressItem demo_flow demo_handoff)"
  by (simp add: stored_item_def progressItem_def demo_flow_id demo_handoff_fields created_handoffs deps_done_def)

lemma demo_step:
  obtains e where "driverEvent (progressItem demo_flow demo_handoff) approval = Some e" and "canProgress demo_handoff"
  using driver_steps [of approval "progressItem demo_flow demo_handoff"] drivable_progress demo_drivable(1)
  by (auto simp: progressItem_def demo_handoff_fields)

text \<open>The report of the asked agent.\<close>

definition demo_report :: SwarmExecutionResultRecordInput where
  "demo_report = \<lparr>rri_Type = [], rri_CorrelationID = demo_work_key, rri_Status = ''completed'', rri_Summary = ''done'',
     rri_ArtifactCount = 1, rri_ReviewDecision = ''approved''\<rparr>"

lemma demo_accepts: "acceptsResult True demo_report [demo_row]"
proof -
  have trims: "trimSpace ''completed'' = ''completed''" "trimSpace ''approved'' = ''approved''"
    by (simp_all add: trimSpace_visible visible_char_def)
  have known: "validExecutionResultStatus ''completed''" "validExecutionReviewDecision (ReviewDecisionOf ''approved'')"
    by code_simp+
  show ?thesis
    by (simp add: acceptsResult_def demo_report_def demo_work_key_trim trims known find_by_def demo_row_fields)
      (simp add: demo_work_key_def)
qed

end
