(* ===== verification/Go_Words.thy ===== *)
theory Go_Words
  imports Go_Text
begin

text \<open>
  More of \<open>strings\<close>: \<open>Fields\<close>, \<open>FieldsFunc\<close> for separators of one byte, the part before \<open>Cut\<close>'s
  separator, \<open>Trim\<close> of ASCII characters and \<open>ReplaceAll\<close> of a text that is not empty.
\<close>

section \<open>Fields\<close>

text \<open>\<open>unicode.IsSpace\<close> encodings start with a byte that is none of a rune's later bytes, so words can be cut byte by byte.\<close>

lemma space_shorter: "strip_any spaces s = Some r \<Longrightarrow> length r < length s"
  using strip_any_Some [of spaces s r] by (auto simp: spaces_def space_codes_def)

definition word :: "string \<Rightarrow> string list" where
  "word acc = (if acc = [] then [] else [acc])"

function fieldsFrom :: "string \<Rightarrow> string \<Rightarrow> string list" where
  "fieldsFrom acc [] = word acc"
| "fieldsFrom acc (c # cs) =
     (case strip_any spaces (c # cs) of
        Some r \<Rightarrow> word acc @ fieldsFrom [] r
      | None \<Rightarrow> fieldsFrom (acc @ [c]) cs)"
  by pat_completeness auto
termination
  by (relation "measure (\<lambda>(acc, s). length s)") (auto dest: space_shorter)

definition textFields :: "string \<Rightarrow> string list" where
  "textFields s = fieldsFrom [] s"

lemma fieldsFrom_nonempty: "[] \<notin> set (fieldsFrom acc s)"
  by (induction acc s rule: fieldsFrom.induct) (auto simp: word_def split: option.split)

fun splitWords :: "(char \<Rightarrow> bool) \<Rightarrow> string \<Rightarrow> string \<Rightarrow> string list" where
  "splitWords sep acc [] = word acc"
| "splitWords sep acc (c # cs) = (if sep c then word acc @ splitWords sep [] cs else splitWords sep (acc @ [c]) cs)"

definition fieldsFunc :: "(char \<Rightarrow> bool) \<Rightarrow> string \<Rightarrow> string list" where
  "fieldsFunc sep s = splitWords sep [] s"

section \<open>Parts\<close>

text \<open>\<open>if before, _, found := Cut(s, c); found { s = before }\<close>.\<close>

definition beforeByte :: "char \<Rightarrow> string \<Rightarrow> string" where
  "beforeByte c s = takeWhile (\<lambda>x. x \<noteq> c) s"

definition trimBytes :: "string \<Rightarrow> string \<Rightarrow> string" where
  "trimBytes cutset s = rev (dropWhile (\<lambda>c. c \<in> set cutset) (rev (dropWhile (\<lambda>c. c \<in> set cutset) s)))"

text \<open>\<open>strings.ReplaceAll\<close> for a nonempty \<open>old\<close>.\<close>

function replaceAll :: "string \<Rightarrow> string \<Rightarrow> string \<Rightarrow> string" where
  "replaceAll old new [] = []"
| "replaceAll old new (c # cs) =
     (case strip_prefix old (c # cs) of
        None \<Rightarrow> c # replaceAll old new cs
      | Some r \<Rightarrow> if old = [] then c # cs else new @ replaceAll old new r)"
  by pat_completeness auto
termination
  by (relation "measure (\<lambda>(old, new, s). length s)") (auto dest: strip_prefix_length)

section \<open>Words of visible characters\<close>

lemma visible_no_space: "visible_char c \<Longrightarrow> strip_any spaces (c # cs) = None"
  unfolding strip_any_None by (auto simp: spaces_def space_codes_def visible_char_def)

lemma fieldsFrom_visible:
  assumes "list_all visible_char u"
  shows "fieldsFrom acc (u @ v) = fieldsFrom (acc @ u) v"
  using assms by (induction u arbitrary: acc) (simp_all add: visible_no_space)

lemma blank_space: "strip_any spaces (CHR '' '' # v) = Some v"
proof -
  have only: "\<forall>p\<in>set spaces. p \<noteq> [] \<and> (byte_val (hd p) = 32 \<longrightarrow> p = [byte_of 32])"
    by (simp add: spaces_def space_codes_def)
  have val: "byte_val CHR '' '' = 32" by code_simp
  have "byte_of (byte_val CHR '' '') = CHR '' ''" by (rule char_of_char)
  then have code: "byte_of 32 = CHR '' ''" by (simp only: val)
  have "[byte_of 32] \<in> set spaces" by (simp add: spaces_def space_codes_def)
  then have "[CHR '' ''] \<in> set spaces" by (simp only: code)
  then have "strip_any spaces (CHR '' '' # v) \<noteq> None"
    unfolding strip_any_None by (metis append_Cons append_Nil)
  then obtain r where r: "strip_any spaces (CHR '' '' # v) = Some r" by blast
  obtain p where p: "p \<in> set spaces" "CHR '' '' # v = p @ r" using strip_any_Some [OF r] by blast
  then have "hd p = CHR '' ''" using only by (metis hd_append2 list.sel(1))
  then have "p = [CHR '' '']" using only p(1) val code by metis
  with p(2) r show ?thesis by simp
qed

lemma fields_two:
  assumes "list_all visible_char u" "list_all visible_char v" "u \<noteq> []" "v \<noteq> []"
  shows "textFields (u @ '' '' @ v) = [u, v]"
proof -
  have "fieldsFrom [] v = [v]" using fieldsFrom_visible [OF assms(2), of "[]" "[]"] assms(4) by (simp add: word_def)
  then show ?thesis
    using fieldsFrom_visible [OF assms(1), of "[]" "'' '' @ v"] blank_space [of v] assms(3) by (simp add: textFields_def word_def)
qed

lemma fields_one: "list_all visible_char u \<Longrightarrow> u \<noteq> [] \<Longrightarrow> textFields u = [u]"
  using fieldsFrom_visible [of u "[]" "[]"] by (simp add: textFields_def word_def)

end
