(* ===== verification/Operator_Commands.thy ===== *)
theory Operator_Commands
  imports Go_Words Tool_Reach
begin

text \<open>
  The commands of \<open>cmd/clawside-telegram-operator\<close>: how \<open>operator.go\<close> reads a command from the text of a
  message, and the texts it answers with. \<open>ul\<close> is \<open>unicode.ToLower\<close> on texts beyond ASCII.
\<close>

section \<open>Commands\<close>

datatype operatorCommandKind = CommandHealth | CommandStatus | CommandNext | CommandBlocked | CommandApprove

record operatorCommand =
  cmd_Kind :: operatorCommandKind
  cmd_Arg :: string

definition forbiddenOperatorVocabulary :: "string set" where
  "forbiddenOperatorVocabulary = {''command'', ''args'', ''cwd'', ''path'', ''prompt'', ''token'', ''secret'', ''session'',
     ''runtime'', ''stdout'', ''stderr''}"

definition unsupportedOperatorCommandError :: string where
  "unsupportedOperatorCommandError = ''unsupported command; allowed: /health, /status <workflow_id>, /next <agent_id>, /blocked <agent_id>, /approve <handoff_id>''"

definition isSafeOperatorByte :: "char \<Rightarrow> bool" where
  "isSafeOperatorByte c \<longleftrightarrow> (let n = byte_val c in
     97 \<le> n \<and> n \<le> 122 \<or> 65 \<le> n \<and> n \<le> 90 \<or> 48 \<le> n \<and> n \<le> 57 \<or> c \<in> {CHR ''_'', CHR ''-'', CHR ''.'', CHR '':''})"

definition isSafeOperatorIdentifier :: "string \<Rightarrow> bool" where
  "isSafeOperatorIdentifier v \<longleftrightarrow> \<not> (v = [] \<or> containsText v ''..'' \<or> hasPrefix v ''~'') \<and> list_all isSafeOperatorByte v"

definition containsForbiddenCommandVocabulary :: "(string \<Rightarrow> string) \<Rightarrow> string \<Rightarrow> bool" where
  "containsForbiddenCommandVocabulary ul commandToken =
     (let commandName = beforeByte CHR ''@'' (trimPrefix (toLower ul commandToken) ''/'') in
      list_ex (\<lambda>segment. segment \<in> forbiddenOperatorVocabulary)
        (fieldsFunc (\<lambda>r. r \<in> {CHR ''/'', CHR ''-'', CHR ''_'', CHR ''.''}) commandName))"

definition argumentCutset :: string where
  "argumentCutset = [CHR '' '', CHR 0x09, CHR 0x0A, CHR 0x0D, CHR 0x22, CHR 0x27, CHR 0x60] @ ''.,;:()[]{}''"

definition containsForbiddenArgument :: "(string \<Rightarrow> string) \<Rightarrow> string \<Rightarrow> bool" where
  "containsForbiddenArgument ul arg =
     (trimBytes argumentCutset (beforeByte CHR ''='' (toLower ul (trimSpace arg))) \<in> forbiddenOperatorVocabulary)"

definition parseSingleArgCommand :: "string list \<Rightarrow> operatorCommandKind \<Rightarrow> string + operatorCommand" where
  "parseSingleArgCommand fs kind =
     (if length fs \<noteq> 2 \<or> trimSpace (fs ! 1) = [] then Inl unsupportedOperatorCommandError
      else let arg = trimSpace (fs ! 1) in
        if \<not> isSafeOperatorIdentifier arg then Inl unsupportedOperatorCommandError
        else Inr \<lparr>cmd_Kind = kind, cmd_Arg = arg\<rparr>)"

definition parseOperatorCommand :: "(string \<Rightarrow> string) \<Rightarrow> string \<Rightarrow> string + operatorCommand" where
  "parseOperatorCommand ul text =
     (let fs = textFields (trimSpace text) in
      case fs of
        [] \<Rightarrow> Inl unsupportedOperatorCommandError
      | commandToken # rest \<Rightarrow>
          if \<not> hasPrefix commandToken ''/'' then Inl unsupportedOperatorCommandError
          else if containsForbiddenCommandVocabulary ul commandToken then Inl unsupportedOperatorCommandError
          else if list_ex (\<lambda>field. containsForbiddenArgument ul field \<or> containsText field ''='') rest
          then Inl unsupportedOperatorCommandError
          else
            (let commandName = beforeByte CHR ''@'' (trimPrefix commandToken ''/'') in
             if commandName = ''health''
             then if length fs \<noteq> 1 then Inl unsupportedOperatorCommandError else Inr \<lparr>cmd_Kind = CommandHealth, cmd_Arg = []\<rparr>
             else if commandName = ''status'' then parseSingleArgCommand fs CommandStatus
             else if commandName = ''next'' then parseSingleArgCommand fs CommandNext
             else if commandName = ''blocked'' then parseSingleArgCommand fs CommandBlocked
             else if commandName = ''approve'' then parseSingleArgCommand fs CommandApprove
             else Inl unsupportedOperatorCommandError))"

section \<open>Answers\<close>

definition newline :: string where "newline = [CHR 0x0A]"

definition formatWorkflowStatus :: "Workflow \<times> Handoff list \<Rightarrow> string" where
  "formatWorkflowStatus view = (case view of (workflow, handoffs) \<Rightarrow>
     ''workflow '' @ wf_ID workflow @ '': '' @ workflowStatusText (wf_Status workflow) @ newline
     @ ''handoffs: '' @ formatNat (length handoffs) @ newline @ ''current: '' @ wf_CurrentHandoffID workflow)"

definition nextWorkLine :: "nat \<times> WorkItem \<Rightarrow> string" where
  "nextWorkLine entry = (case entry of (i, item) \<Rightarrow>
     newline @ formatNat (i + 1) @ ''. '' @ h_ID (wi_Handoff item) @ '' workflow='' @ wf_ID (wi_Workflow item)
     @ '' state='' @ handoffStateText (h_State (wi_Handoff item)) @ '' kind='' @ h_TaskKind (wi_Handoff item))"

definition formatNextWork :: "string \<Rightarrow> WorkItem list \<Rightarrow> string" where
  "formatNextWork agentID items =
     (if items = [] then ''next work for '' @ agentID @ '': none''
      else ''next work for '' @ agentID @ '':'' @ concat (map nextWorkLine (enumerate 0 items)))"

definition blockedWorkLine :: "nat \<times> BlockedWorkItem \<Rightarrow> string" where
  "blockedWorkLine entry = (case entry of (i, item) \<Rightarrow>
     (let (reason, dependency) = (case bwi_Reasons item of [] \<Rightarrow> (''unknown'', []) | r # _ \<Rightarrow> (wbr_Code r, wbr_DependencyHandoffID r)) in
      newline @ formatNat (i + 1) @ ''. '' @ h_ID (bwi_Handoff item) @ '' workflow='' @ wf_ID (bwi_Workflow item)
      @ '' reason='' @ reason @ (if dependency \<noteq> [] then '' dependency='' @ dependency else [])))"

definition formatBlockedWork :: "string \<Rightarrow> BlockedWorkItem list \<Rightarrow> string" where
  "formatBlockedWork agentID items =
     (if items = [] then ''blocked work for '' @ agentID @ '': none''
      else ''blocked work for '' @ agentID @ '':'' @ concat (map blockedWorkLine (enumerate 0 items)))"

section \<open>Which texts are commands\<close>

fun commandName :: "operatorCommandKind \<Rightarrow> string" where
  "commandName CommandHealth = ''health''"
| "commandName CommandStatus = ''status''"
| "commandName CommandNext = ''next''"
| "commandName CommandBlocked = ''blocked''"
| "commandName CommandApprove = ''approve''"

definition commandText :: "operatorCommand \<Rightarrow> string" where
  "commandText cmd = ''/'' @ commandName (cmd_Kind cmd) @ (if cmd_Kind cmd = CommandHealth then [] else '' '' @ cmd_Arg cmd)"

definition command_ok :: "(string \<Rightarrow> string) \<Rightarrow> operatorCommand \<Rightarrow> bool" where
  "command_ok ul cmd \<longleftrightarrow> (if cmd_Kind cmd = CommandHealth then cmd_Arg cmd = []
     else isSafeOperatorIdentifier (cmd_Arg cmd) \<and> \<not> containsForbiddenArgument ul (cmd_Arg cmd))"

lemma safe_visible: "isSafeOperatorByte c \<Longrightarrow> visible_char c \<and> c \<noteq> CHR ''=''"
proof -
  have codes: "byte_val CHR ''_'' = 95" "byte_val CHR ''-'' = 45" "byte_val CHR ''.'' = 46" "byte_val CHR '':'' = 58" "byte_val CHR ''='' = 61"
    by code_simp+
  assume "isSafeOperatorByte c"
  then have "32 < byte_val c \<and> byte_val c < 128 \<and> byte_val c \<noteq> 61"
    using codes by (auto simp: isSafeOperatorByte_def Let_def)
  then show ?thesis using codes(5) by (auto simp: visible_char_def)
qed

lemma safe_identifier:
  assumes "isSafeOperatorIdentifier v"
  shows "v \<noteq> []" "list_all visible_char v" "\<not> containsText v ''=''" "trimSpace v = v"
proof -
  show v: "v \<noteq> []" "list_all visible_char v"
    using assms safe_visible by (auto simp: isSafeOperatorIdentifier_def list_all_iff)
  have "\<forall>c\<in>set v. c \<noteq> CHR ''=''" using assms safe_visible by (auto simp: isSafeOperatorIdentifier_def list_all_iff)
  then show "\<not> containsText v ''=''" by (induction v) (auto simp: hasPrefix_iff)
  show "trimSpace v = v" using v by (intro trimSpace_visible) (auto simp: list_all_iff)
qed

lemma command_token:
  "list_all visible_char (''/'' @ commandName k)" "hasPrefix (''/'' @ commandName k) ''/''"
  "trimPrefix (''/'' @ commandName k) ''/'' = commandName k" "beforeByte CHR ''@'' (commandName k) = commandName k"
  "\<not> containsForbiddenCommandVocabulary ul (''/'' @ commandName k)"
proof -
  show "list_all visible_char (''/'' @ commandName k)" by (cases k) (simp_all add: visible_char_def)
  show "hasPrefix (''/'' @ commandName k) ''/''" by (auto simp: hasPrefix_iff)
  show trim: "trimPrefix (''/'' @ commandName k) ''/'' = commandName k" by (rule trimPrefix_append)
  show before: "beforeByte CHR ''@'' (commandName k) = commandName k" by (cases k) (simp_all add: beforeByte_def)
  have "toLower ul (''/'' @ commandName k) = ''/'' @ commandName k"
    by (cases k) (simp_all add: toLower_def is_ascii_def lower_byte_def)
  then show "\<not> containsForbiddenCommandVocabulary ul (''/'' @ commandName k)"
    using trim before
    by (cases k) (simp_all add: containsForbiddenCommandVocabulary_def fieldsFunc_def word_def forbiddenOperatorVocabulary_def)
qed

lemma parsed_command:
  assumes "parseOperatorCommand ul text = Inr cmd"
  shows "command_ok ul cmd"
proof -
  obtain token rest where fs: "textFields (trimSpace text) = token # rest"
    using assms by (auto simp: parseOperatorCommand_def Let_def split: list.splits)
  have single: "command_ok ul c" if "parseSingleArgCommand (token # rest) k = Inr c" "k \<noteq> CommandHealth"
    "\<not> list_ex (\<lambda>field. containsForbiddenArgument ul field \<or> containsText field ''='') rest" for c k
    using that by (auto simp: parseSingleArgCommand_def command_ok_def containsForbiddenArgument_def Let_def nth_Cons' length_Suc_conv
        split: if_splits)
  show ?thesis
    using assms single
    by (auto simp: parseOperatorCommand_def fs Let_def command_ok_def split: if_splits)
qed

lemma command_parses:
  assumes "command_ok ul cmd"
  shows "parseOperatorCommand ul (commandText cmd) = Inr cmd"
proof (cases "cmd_Kind cmd = CommandHealth")
  case True
  have "trimSpace ''/health'' = ''/health''" by (rule trimSpace_visible) (simp_all add: visible_char_def)
  moreover have "textFields ''/health'' = [''/health'']" using fields_one [OF command_token(1) [of CommandHealth]] by simp
  ultimately show ?thesis
    using True assms command_token(2-5) [where k = CommandHealth]
    by (simp add: parseOperatorCommand_def commandText_def Let_def command_ok_def)
next
  case False
  let ?token = "''/'' @ commandName (cmd_Kind cmd)" and ?arg = "cmd_Arg cmd"
  have arg: "isSafeOperatorIdentifier ?arg" "\<not> containsForbiddenArgument ul ?arg" using assms False by (simp_all add: command_ok_def)
  note safe = safe_identifier [OF arg(1)]
  have shown: "commandText cmd = ?token @ '' '' @ ?arg" using False by (simp add: commandText_def)
  have "trimSpace (commandText cmd) = commandText cmd"
    using safe(1,2) by (intro trimSpace_visible) (auto simp: shown list_all_iff visible_char_def)
  moreover have "textFields (commandText cmd) = [?token, ?arg]"
    unfolding shown by (rule fields_two [OF command_token(1) safe(2) _ safe(1)]) simp
  moreover have "parseSingleArgCommand [?token, ?arg] k = Inr \<lparr>cmd_Kind = k, cmd_Arg = ?arg\<rparr>" for k
    using safe arg by (simp add: parseSingleArgCommand_def Let_def)
  ultimately show ?thesis
    using False arg safe(3) command_token(2-5) [where k = "cmd_Kind cmd"]
    by (cases "cmd_Kind cmd") (simp_all add: parseOperatorCommand_def Let_def)
qed

end
