(* ===== verification/OpenClaw_Dispatch.thy ===== *)
theory OpenClaw_Dispatch
  imports Swarm_Progress Delivery_Bridge
begin

text \<open>
  \<open>internal/openclawdispatch\<close>: the command that runs an agent for the orchestrator's adapter. It builds
  the command line, runs it, reads an identifier and a reply from its output, and reports the
  lifecycle events that the run stands for. The process is a parameter: what it writes to its
  standard output, its error, and whether the deadline has passed by then.
\<close>

section \<open>Modes, options and output\<close>

type_synonym Mode = string

definition ModeSessionsSpawn :: Mode where "ModeSessionsSpawn = ''sessions_spawn''"
definition ModeSessionsSend :: Mode where "ModeSessionsSend = ''sessions_send''"
definition ModeAgent :: Mode where "ModeAgent = ''agent''"
definition ModeAgentTurn :: Mode where "ModeAgentTurn = ''agent_turn''"

lemmas mode_defs = ModeSessionsSpawn_def ModeSessionsSend_def ModeAgent_def ModeAgentTurn_def

record OpenClawOptions =
  oc_Command :: string
  oc_Args :: "string list"
  oc_Mode :: Mode
  oc_Timeout :: duration

record AdapterOutput =
  ao_Status :: TransportStatus
  ao_ExternalID :: string
  ao_Events :: "DispatchLifecycleEvent list"

text \<open>
  A run: the command, its arguments, the request on its standard input (before its JSON encoding), the
  timeout; its standard output, its error, and whether \<open>ctx.Err()\<close> is then \<open>DeadlineExceeded\<close>.
\<close>

type_synonym openclaw_run = "string \<Rightarrow> string list \<Rightarrow> DispatchRequest option \<Rightarrow> duration option \<Rightarrow> string \<times> run_error option \<times> bool"

definition normalizedMode :: "(string \<Rightarrow> string) \<Rightarrow> Mode \<Rightarrow> string + Mode" where
  "normalizedMode quote mode =
     (if mode = [] \<or> mode = ModeSessionsSpawn then Inr ModeSessionsSpawn
      else if mode = ModeSessionsSend then Inr ModeSessionsSend
      else if mode = ModeAgent then Inr ModeAgent
      else if mode = ModeAgentTurn then Inr ModeAgentTurn
      else Inl (''unsupported openclaw dispatch mode '' @ quote mode))"

definition agentTarget :: "string \<Rightarrow> string" where
  "agentTarget target = trimSpace (trimPrefix (trimSpace target) ''agent:'')"

definition buildArgs :: "string list \<Rightarrow> Mode \<Rightarrow> DispatchRequest \<Rightarrow> string list" where
  "buildArgs base mode req =
     (if mode \<noteq> ModeAgent \<and> mode \<noteq> ModeAgentTurn then base @ [mode]
      else base @ [''agent'', ''--json'']
        @ (let target = agentTarget (dr_Target req) in if target \<noteq> [] then [''--agent'', target] else [])
        @ [''--message'', dr_Message req])"

definition buildStdin :: "Mode \<Rightarrow> DispatchRequest \<Rightarrow> DispatchRequest option" where
  "buildStdin mode req = (if mode = ModeAgent \<or> mode = ModeAgentTurn then None else Some req)"

section \<open>Lifecycle events\<close>

definition replyPayload :: "string \<Rightarrow> payload" where
  "replyPayload replyText =
     (let text = trimSpace replyText in if text = [] then [] else [(''reply_text'', JString text)])"

definition lifecycleEvent :: "string \<Rightarrow> string \<Rightarrow> payload \<Rightarrow> DispatchLifecycleEvent" where
  "lifecycleEvent agent name reply = \<lparr>dle_Event = name, dle_Agent = agent, dle_WorkflowID = [], dle_HandoffID = [],
     dle_ArtifactCount = 0, dle_ReviewDecision = [], dle_Payload = reply\<rparr>"

definition acceptedLifecycleEvents :: "Mode \<Rightarrow> DispatchRequest \<Rightarrow> string \<Rightarrow> DispatchLifecycleEvent list" where
  "acceptedLifecycleEvents mode req replyText =
     (let event = lifecycleEvent (agentTarget (dr_Target req)) in
      if mode \<noteq> ModeAgentTurn then [event ''received'' []]
      else [event ''received'' [], event ''claimed'' [], event ''started'' [], event ''checkpointed'' [],
        event ''completed'' (replyPayload replyText)])"

definition failedLifecycleEvents :: "DispatchRequest \<Rightarrow> string \<Rightarrow> DispatchLifecycleEvent list" where
  "failedLifecycleEvents req replyText =
     (let event = lifecycleEvent (agentTarget (dr_Target req)) in
      [event ''received'' [], event ''claimed'' [], event ''started'' [], event ''failed'' (replyPayload replyText)])"

section \<open>Reading the output of the command\<close>

definition idKeys :: "string list" where
  "idKeys = [''external_id'', ''externalId'', ''session_id'', ''sessionId'', ''run_id'', ''runId'', ''task_id'', ''taskId'', ''id'']"

fun is_nested :: "json \<Rightarrow> bool" where
  "is_nested (JObject kvs) = True"
| "is_nested (JList vs) = True"
| "is_nested _ = False"

text \<open>The entries of a Go map decoded from an object: of entries with one key, the last.\<close>

fun lastEntries :: "(string \<times> 'v) list \<Rightarrow> (string \<times> 'v) list" where
  "lastEntries [] = []"
| "lastEntries ((k, v) # kvs) = (if k \<in> fst ` set kvs then lastEntries kvs else (k, v) # lastEntries kvs)"

definition firstText :: "string list \<Rightarrow> string" where
  "firstText texts = (case filter (\<lambda>t. t \<noteq> []) texts of [] \<Rightarrow> [] | t # _ \<Rightarrow> t)"

text \<open>
  Ranging over a map has no order: of the identifiers that its nested values hold, \<open>pick\<close> is the one
  that comes first.
\<close>

fun extractIDFromValue :: "(string list \<Rightarrow> string) \<Rightarrow> json \<Rightarrow> string" where
  "extractIDFromValue pick (JString s) = s"
| "extractIDFromValue pick (JObject kvs) =
     (let typed = lastEntries (map (\<lambda>(key, raw). (key, is_nested raw, extractIDFromValue pick raw)) kvs);
          found = firstText (map (\<lambda>key. case map_of typed key of None \<Rightarrow> [] | Some (nested, i) \<Rightarrow> i) idKeys) in
      if found \<noteq> [] then found
      else (case filter (\<lambda>i. i \<noteq> []) (map (\<lambda>(_, nested, i). if nested then i else []) typed) of
              [] \<Rightarrow> [] | ids \<Rightarrow> pick ids))"
| "extractIDFromValue pick (JList vs) =
     firstText (map (\<lambda>raw. if is_nested raw then extractIDFromValue pick raw else []) vs)"
| "extractIDFromValue pick _ = []"

definition extractExternalID :: "(string \<Rightarrow> json option) \<Rightarrow> (string list \<Rightarrow> string) \<Rightarrow> string \<Rightarrow> string" where
  "extractExternalID parse pick stdout =
     (let trimmed = trimSpace stdout in
      if trimmed = [] then []
      else (case parse trimmed of None \<Rightarrow> trimmed | Some v \<Rightarrow> trimSpace (extractIDFromValue pick v)))"

record replyTexts =
  rt_Payloads :: "string list"
  rt_Visible :: string
  rt_Raw :: string

definition payloadTextsField :: "json \<Rightarrow> replyTexts \<Rightarrow> replyTexts option" where
  "payloadTextsField v r =
     (case v of
        JNull \<Rightarrow> Some (r\<lparr>rt_Payloads := []\<rparr>)
      | JList vs \<Rightarrow> map_option (\<lambda>texts. r\<lparr>rt_Payloads := texts\<rparr>)
          (decodeElements (lenientStruct [(''text'', textField id)]) [] (rt_Payloads r) vs)
      | _ \<Rightarrow> None)"

definition replySpec :: "replyTexts struct_spec" where
  "replySpec = [(''result'', lenientStruct
     [(''payloads'', payloadTextsField),
      (''meta'', lenientStruct [(''finalAssistantVisibleText'', textField rt_Visible_update),
         (''finalAssistantRawText'', textField rt_Raw_update)])])]"

definition extractReplyText :: "(string \<Rightarrow> json option) \<Rightarrow> string \<Rightarrow> string" where
  "extractReplyText parse stdout =
     (case Option.bind (parse stdout) (\<lambda>v. lenientStruct replySpec v \<lparr>rt_Payloads = [], rt_Visible = [], rt_Raw = []\<rparr>) of
        None \<Rightarrow> []
      | Some r \<Rightarrow> firstText (map trimSpace (rt_Payloads r) @ [trimSpace (rt_Visible r), trimSpace (rt_Raw r)]))"

section \<open>The dispatch\<close>

definition rejectedOutput :: AdapterOutput where
  "rejectedOutput = \<lparr>ao_Status = TransportRejected, ao_ExternalID = [], ao_Events = []\<rparr>"

definition outputOf ::
  "(string \<Rightarrow> json option) \<Rightarrow> (string list \<Rightarrow> string) \<Rightarrow> Mode \<Rightarrow> DispatchRequest \<Rightarrow> string \<times> run_error option \<times> bool \<Rightarrow> AdapterOutput" where
  "outputOf parse pick mode req outcome =
     (let (stdout, err, expired) = outcome; externalID = extractExternalID parse pick stdout; reply = extractReplyText parse stdout in
      case err of
        Some e \<Rightarrow>
          if e = DeadlineExceeded \<or> expired then rejectedOutput\<lparr>ao_Status := TransportTimeout\<rparr>
          else if mode = ModeAgentTurn \<and> externalID \<noteq> []
          then \<lparr>ao_Status = TransportAccepted, ao_ExternalID = externalID, ao_Events = failedLifecycleEvents req reply\<rparr>
          else rejectedOutput
      | None \<Rightarrow>
          if externalID = [] then rejectedOutput
          else \<lparr>ao_Status = TransportAccepted, ao_ExternalID = externalID, ao_Events = acceptedLifecycleEvents mode req reply\<rparr>)"

definition OpenClawDispatch ::
  "(string \<Rightarrow> string) \<Rightarrow> (string \<Rightarrow> json option) \<Rightarrow> (string list \<Rightarrow> string) \<Rightarrow> openclaw_run option \<Rightarrow> OpenClawOptions
   \<Rightarrow> DispatchRequest \<Rightarrow> string + AdapterOutput" where
  "OpenClawDispatch quote parse pick execute opts req =
     (let command = trimSpace (oc_Command opts) in
      if command = [] then Inl ''openclaw command is required''
      else case execute of None \<Rightarrow> Inl ''openclaw runner is required'' | Some process \<Rightarrow>
      (case normalizedMode quote (oc_Mode opts) of
         Inl err \<Rightarrow> Inl err
       | Inr mode \<Rightarrow>
           Inr (outputOf parse pick mode req
             (process command (buildArgs (oc_Args opts) mode req) (buildStdin mode req)
               (if 0 < oc_Timeout opts then Some (oc_Timeout opts) else None)))))"

text \<open>\<open>cmd/openclaw-dispatch\<close> as the command of the orchestrator's adapter; \<open>encode\<close> is its JSON.\<close>

definition openclawCommand ::
  "(string \<Rightarrow> string) \<Rightarrow> (string \<Rightarrow> json option) \<Rightarrow> (string list \<Rightarrow> string) \<Rightarrow> openclaw_run option \<Rightarrow> OpenClawOptions
   \<Rightarrow> (AdapterOutput \<Rightarrow> string) \<Rightarrow> runner" where
  "openclawCommand quote parse pick execute opts encode req =
     (case OpenClawDispatch quote parse pick execute opts req of
        Inl err \<Rightarrow> ([], err, Some RunFailed)
      | Inr out \<Rightarrow> (encode out, [], None))"

lemma output_status:
  assumes "OpenClawDispatch quote parse pick execute opts req = Inr out"
  shows "ao_Status out \<in> {TransportAccepted, TransportTimeout, TransportRejected}"
    and "ao_Status out = TransportAccepted \<longleftrightarrow> ao_ExternalID out \<noteq> []"
    and "ao_Events out \<noteq> [] \<longleftrightarrow> ao_Status out = TransportAccepted"
  using assms
  by (auto simp: OpenClawDispatch_def outputOf_def rejectedOutput_def acceptedLifecycleEvents_def failedLifecycleEvents_def Let_def
      split: if_splits option.splits sum.splits prod.splits)

lemma adapter_result:
  assumes "OpenClawDispatch quote parse pick execute opts req = Inr out"
    and "decode (encode out) = Some (transportStatusText (ao_Status out), ao_ExternalID out, ao_Events out)"
  shows "dres_TransportStatus (Dispatch (openclawCommand quote parse pick execute opts encode) decode req) = ao_Status out"
    and "dres_ExternalID (Dispatch (openclawCommand quote parse pick execute opts encode) decode req) = ao_ExternalID out"
    and "dres_LifecycleEvents (Dispatch (openclawCommand quote parse pick execute opts encode) decode req) = ao_Events out"
  using assms output_status(1) [OF assms(1)]
  by (auto simp: Dispatch_def openclawCommand_def Let_def)

section \<open>The identifier is in the output\<close>

inductive text_in :: "string \<Rightarrow> json \<Rightarrow> bool" where
  text_here: "text_in s (JString s)"
| text_in_object: "(k, v) \<in> set kvs \<Longrightarrow> text_in s v \<Longrightarrow> text_in s (JObject kvs)"
| text_in_list: "v \<in> set vs \<Longrightarrow> text_in s v \<Longrightarrow> text_in s (JList vs)"

definition lawful_pick :: "(string list \<Rightarrow> string) \<Rightarrow> bool" where
  "lawful_pick pick \<longleftrightarrow> (\<forall>xs. xs \<noteq> [] \<longrightarrow> pick xs \<in> set xs)"

lemma lastEntries_subset: "set (lastEntries kvs) \<subseteq> set kvs"
  by (induction kvs rule: lastEntries.induct) auto

lemma firstText_in: "firstText ts \<noteq> [] \<Longrightarrow> firstText ts \<in> set ts"
proof -
  assume "firstText ts \<noteq> []"
  then obtain u us where f: "filter (\<lambda>t. t \<noteq> []) ts = u # us" by (auto simp: firstText_def split: list.splits)
  have "u \<in> set (filter (\<lambda>t. t \<noteq> []) ts)" unfolding f by simp
  then have "u \<in> set ts" by simp
  with f show ?thesis by (simp add: firstText_def)
qed

lemma extracted_text:
  assumes "lawful_pick pick" and "extractIDFromValue pick v \<noteq> []"
  shows "text_in (extractIDFromValue pick v) v"
  using assms
proof (induction pick v rule: extractIDFromValue.induct)
  case (2 pick kvs)
  let ?typed = "lastEntries (map (\<lambda>(key, raw). (key, is_nested raw, extractIDFromValue pick raw)) kvs)"
  let ?named = "map (\<lambda>key. case map_of ?typed key of None \<Rightarrow> [] | Some (nested, i) \<Rightarrow> i) idKeys"
  let ?inner = "filter (\<lambda>i. i \<noteq> []) (map (\<lambda>(_, nested, i). if nested then i else []) ?typed)"
  have entry: "text_in i (JObject kvs)" if "(key, nested, i) \<in> set ?typed" "i \<noteq> []" for key nested i
  proof -
    from that(1) lastEntries_subset obtain raw where raw: "(key, raw) \<in> set kvs" "i = extractIDFromValue pick raw" by fastforce
    have "text_in (extractIDFromValue pick raw) raw"
      by (rule "2.IH" [of "(key, raw)" key raw]) (use raw that(2) "2.prems"(1) in simp_all)
    with raw show ?thesis by (auto intro: text_in_object)
  qed
  have computed: "extractIDFromValue pick (JObject kvs) = (if firstText ?named \<noteq> [] then firstText ?named
      else case ?inner of [] \<Rightarrow> [] | ids \<Rightarrow> pick ids)" by (simp add: Let_def)
  show ?case
  proof (cases "firstText ?named = []")
    case False
    then have "firstText ?named \<in> set ?named" by (rule firstText_in)
    then obtain key nested where "map_of ?typed key = Some (nested, firstText ?named)"
      using False by (auto split: option.splits)
    then show ?thesis using entry [OF map_of_SomeD] False by (simp only: computed if_True not_False_eq_True simp_thms)
  next
    case True
    then obtain j js where inner: "?inner = j # js" using "2.prems"(2) unfolding computed by (auto split: list.splits)
    have "\<forall>xs. xs \<noteq> [] \<longrightarrow> pick xs \<in> set xs" using "2.prems"(1) by (simp only: lawful_pick_def)
    then have "pick (j # js) \<in> set (j # js)" by blast
    then have "pick (j # js) \<in> set ?inner" unfolding inner .
    then obtain key nested where "(key, nested, pick (j # js)) \<in> set ?typed" "pick (j # js) \<noteq> []"
      by (auto split: if_splits)
    then have "text_in (pick (j # js)) (JObject kvs)" by (rule entry)
    then show ?thesis unfolding computed inner list.case using True by (simp only: simp_thms if_False)
  qed
next
  case (3 pick vs)
  let ?ids = "map (\<lambda>raw. if is_nested raw then extractIDFromValue pick raw else []) vs"
  have "firstText ?ids \<noteq> []" using "3.prems"(2) by simp
  then have "firstText ?ids \<in> set ?ids" by (rule firstText_in)
  then obtain raw where raw: "raw \<in> set vs" "firstText ?ids = (if is_nested raw then extractIDFromValue pick raw else [])" by auto
  with "3.prems"(2) have "is_nested raw" by (auto split: if_splits)
  with "3.IH" [OF raw(1)] raw "3.prems" show ?case by (auto intro: text_in_list)
qed (auto intro: text_in.intros)

section \<open>Reporting a turn\<close>

text \<open>The steps that the events of a turn report on a dispatched handoff.\<close>

inductive turn_edge :: "HandoffState \<Rightarrow> string \<Rightarrow> HandoffState \<Rightarrow> bool" where
  turn_received: "turn_edge StateDispatched ''received'' StateReceived"
| turn_claimed: "turn_edge StateReceived ''claimed'' StateClaimed"
| turn_started: "turn_edge StateClaimed ''started'' StateStarted"
| turn_checkpointed: "turn_edge StateStarted ''checkpointed'' StateCheckpointed"
| turn_completed: "turn_edge StateCheckpointed ''completed'' StateCompleted"
| turn_failed: "turn_edge StateStarted ''failed'' StateFailed"

inductive turn_path :: "HandoffState \<Rightarrow> string list \<Rightarrow> HandoffState \<Rightarrow> bool" where
  turn_end: "turn_path s [] s"
| turn_next: "turn_edge s n s' \<Longrightarrow> turn_path s' ns s'' \<Longrightarrow> turn_path s (n # ns) s''"

inductive_cases turn_path_cases: "turn_path s [] t" "turn_path s (n # ns) t"

text \<open>A handoff as an agent turn creates it: for one agent, without a review and without artifacts.\<close>

definition turn_handoff :: "string \<Rightarrow> Handoff \<Rightarrow> bool" where
  "turn_handoff agent m \<longleftrightarrow> h_ReceiverActor m = ActorOf ActorAgent agent \<and> agent \<noteq> []
     \<and> \<not> requiresReview m \<and> \<not> requiresArtifacts m \<and> h_WorkflowID m \<noteq> []"

definition turn_report :: "string \<Rightarrow> DispatchLifecycleEvent \<Rightarrow> bool" where
  "turn_report agent d \<longleftrightarrow> normalizeDispatchLifecycleAgent (dle_Agent d) = agent \<and> dle_WorkflowID d = [] \<and> dle_HandoffID d = []"

lemma turn_names:
  "trimSpace ''received'' = ''received''" "trimSpace ''claimed'' = ''claimed''" "trimSpace ''started'' = ''started''"
  "trimSpace ''checkpointed'' = ''checkpointed''" "trimSpace ''completed'' = ''completed''" "trimSpace ''failed'' = ''failed''"
  by (simp_all add: trimSpace_visible visible_char_def)

text \<open>The action and the type of the event that each step is reported by.\<close>

fun turn_type :: "ProtocolAction \<Rightarrow> EventType" where
  "turn_type ProtocolActionReceive = EventReceived"
| "turn_type ProtocolActionClaim = EventClaimed"
| "turn_type ProtocolActionStart = EventStarted"
| "turn_type ProtocolActionCheckpoint = EventCheckpointed"
| "turn_type ProtocolActionComplete = EventCompleted"
| "turn_type _ = EventFailed"

definition turn_actions :: "ProtocolAction set" where
  "turn_actions = {ProtocolActionReceive, ProtocolActionClaim, ProtocolActionStart, ProtocolActionCheckpoint,
     ProtocolActionComplete, ProtocolActionFail}"

lemma turn_action:
  assumes "turn_edge s n s'"
  shows "\<exists>a\<in>turn_actions. dispatchLifecycleProtocolAction n = Inr a \<and> lifecycle s (turn_type a) s'
    \<and> target_state (turn_type a) = Some s' \<and> (turn_type a = EventCompleted \<longleftrightarrow> n = ''completed'')"
proof -
  have failing: "lifecycle StateStarted EventFailed StateFailed" by (rule lifecycle.fail) simp
  show ?thesis
    using assms
    by (cases rule: turn_edge.cases)
      (simp_all add: turn_actions_def dispatchLifecycleProtocolAction_def turn_names failing lifecycle.intros)
qed

lemma turn_request:
  assumes "preq_Action req \<in> turn_actions"
  shows "\<exists>e. protocolEventFromRequest m req = Inr e \<and> ev_Type e = turn_type (preq_Action req) \<and> ev_Payload e = preq_Payload req
    \<and> ev_ProducerActor e = preq_Actor req \<and> ev_SubjectActor e = preq_Actor req"
  using assms by (auto simp: turn_actions_def protocolEventFromRequest_def Let_def)

lemma turn_event:
  assumes wf: "lifecycle_wf m" and h: "turn_handoff agent m" "h_WorkflowID h = h_WorkflowID m"
    and d: "turn_report agent d" and edge: "turn_edge (h_State m) (dle_Event d) s"
  obtains req e where "dispatchLifecycleProtocolRequest h input d = Inr req" and "protocolEventFromRequest m req = Inr e"
    and "preq_HandoffID req = h_ID h" "preq_WorkflowID req = h_WorkflowID m" "preq_Actor req = ActorOf ActorAgent agent"
      "preq_ProducerEventTime req = 0" "preq_IngestedAt req = 0"
    and "ev_Payload e = dle_Payload d" "accepts m e" "target_state (ev_Type e) = Some s"
      "ev_Type e = EventCompleted \<longleftrightarrow> dle_Event d = ''completed''"
proof -
  obtain a where a: "a \<in> turn_actions" "dispatchLifecycleProtocolAction (dle_Event d) = Inr a" "lifecycle (h_State m) (turn_type a) s"
    "target_state (turn_type a) = Some s" "turn_type a = EventCompleted \<longleftrightarrow> dle_Event d = ''completed''"
    using turn_action [OF edge] by blast
  define req where "req = \<lparr>preq_Action = a, preq_HandoffID = h_ID h, preq_WorkflowID = h_WorkflowID m,
    preq_Actor = ActorOf ActorAgent agent, preq_ProducerEventTime = 0, preq_IngestedAt = 0, preq_ArtifactCount = dle_ArtifactCount d,
    preq_ReviewDecision = ReviewDecisionOf (trimSpace (dle_ReviewDecision d)), preq_Payload = dle_Payload d\<rparr>"
  have request: "dispatchLifecycleProtocolRequest h input d = Inr req"
    using h d a(2) by (simp add: dispatchLifecycleProtocolRequest_def req_def turn_report_def turn_handoff_def Let_def)
  obtain e where e: "protocolEventFromRequest m req = Inr e" "ev_Type e = turn_type a" "ev_Payload e = dle_Payload d"
    "ev_ProducerActor e = ActorOf ActorAgent agent" "ev_SubjectActor e = ActorOf ActorAgent agent"
    using turn_request [of req m] a(1) by (auto simp: req_def)
  have flags: "flag_chain m" "state_flags m" using wf by (simp_all add: lifecycle_wf_def)
  have actor: "\<not> missingActor (h_ReceiverActor m)" "h_ReceiverActor m = ev_ProducerActor e"
    using h(1) e(4) by (simp_all add: turn_handoff_def missingActor_def ActorOf_def)
  have self: "worker_authority m e" "named_authority (h_ReceiverActor m) e"
    using worker_self [of e m] actor e(4,5) by simp_all
  have finishes: "canTransitionToCompleted m \<and> validateCompletionPrereqs m = None" if "h_State m = StateCheckpointed"
    using that h(1) flags
    by (auto simp: turn_handoff_def canTransitionToCompleted_def prereqs_None requiresSubmitted_def flag_chain_def state_flags_def)
  have "side_condition m e (turn_type a)" "authority m e (turn_type a)"
    using edge a finishes self by (cases rule: turn_edge.cases; auto simp: turn_actions_def)+
  moreover have "\<not> transportResult (turn_type a)" by (cases a) simp_all
  ultimately have "accepts m e" using accepts_exactly [OF wf, of e] a(3) e(2) by auto
  with request e a that show thesis by (simp add: req_def)
qed

text \<open>A recorded decision holds the event that was reported.\<close>

lemma record_reports:
  assumes "RecordAuthoritativeEvent e w = (Inr (r, None), w')"
  shows "report (ed_Event r) = report e"
proof -
  obtain e1 w1 where f: "fillEvent e w = (Inr e1, w1)"
    using assms by (auto simp: RecordAuthoritativeEvent_def bindE_def split: prod.splits sum.splits)
  have same: "report (x\<lparr>ev_Accepted := b\<rparr>) = report x" "report (x\<lparr>ev_Accepted := b, ev_RejectionReason := t\<rparr>) = report (x\<lparr>ev_RejectionReason := t\<rparr>)"
    for x b t by (simp_all add: report_def)
  have "report (ed_Event r) = report e1"
    using assms f
    by (auto simp: RecordAuthoritativeEvent_def bindE_def throw_def ret_def Let_def same
        split: prod.splits sum.splits if_splits)
  then show ?thesis using fill_same(1) [OF f] by simp
qed

lemma action_reports:
  assumes m: "find_by h_ID (preq_HandoffID req) (st_handoffs (w_db w)) = Some m" and event: "protocolEventFromRequest m req = Inr e"
    and run: "ApplyProtocolAction req w = (Inr (r, None), w')"
  shows "report (ed_Event r) = report e"
  by (rule action_records [OF m event run]) (rule record_reports)

lemma turn_step:
  assumes inv: "store_inv (w_db w)" and sup: "supplied w" and m: "find_by h_ID i (st_handoffs (w_db w)) = Some m" "i \<noteq> []"
    and deps: "deps_done (w_db w) m" and h: "turn_handoff agent m" "h_ID h = i" "h_WorkflowID h = h_WorkflowID m"
    and d: "turn_report agent d" and edge: "turn_edge (h_State m) (dle_Event d) s"
  obtains y w' k where "applyLifecycleEvent h input d w = (Inr y, w')" and "supplied w'" "store_inv (w_db w')"
    and "ev_Payload y = dle_Payload d" "ev_Type y = EventCompleted \<longleftrightarrow> dle_Event d = ''completed''"
    and "find_by h_ID i (st_handoffs (w_db w')) = Some k" "h_State k = s" "turn_handoff agent k" "deps_done (w_db w') k"
      "h_WorkflowID k = h_WorkflowID m"
proof -
  have wf: "lifecycle_wf m" using inv_handoff(2) [OF inv m(1)] by (simp add: backed_def)
  have id: "h_ID m = i" using inv_handoff(1) [OF inv m(1)] .
  obtain req e where req: "dispatchLifecycleProtocolRequest h input d = Inr req" "protocolEventFromRequest m req = Inr e"
    "preq_HandoffID req = h_ID h" "preq_WorkflowID req = h_WorkflowID m" "preq_Actor req = ActorOf ActorAgent agent"
    "preq_ProducerEventTime req = 0" "preq_IngestedAt req = 0"
    and e: "ev_Payload e = dle_Payload d" "accepts m e" "target_state (ev_Type e) = Some s"
      "ev_Type e = EventCompleted \<longleftrightarrow> dle_Event d = ''completed''"
    by (rule turn_event [OF wf h(1,3) d edge])
  have found: "find_by h_ID (preq_HandoffID req) (st_handoffs (w_db w)) = Some m" using m req(3) h(2) by simp
  obtain r w' where run: "ApplyProtocolAction req w = (Inr (r, None), w')" "dec_Accepted (ed_Decision r)" "supplied w'"
    "advanced m e (w_db w) (w_db w')"
    by (rule action_supplied [OF inv sup found _ _ deps req(2) e(2)])
      (use req m h in \<open>auto simp: missingActor_def ActorOf_def is_zero_def turn_handoff_def\<close>)
  have rep: "report (ed_Event r) = report e" by (rule action_reports [OF found req(2) run(1)])
  have "ev_Type (ed_Event r) = ev_Type e" using report_fields(1) rep by metis
  moreover have "ev_Payload (report x) = ev_Payload x" for x by (simp add: report_def)
  then have "ev_Payload (ed_Event r) = ev_Payload e" using rep by metis
  moreover obtain k where k: "find_by h_ID i (st_handoffs (w_db w')) = Some k" "core k = core (machine_next m e)"
    using run(4) by (auto simp: advanced_def id)
  moreover have state: "h_State k = s" using k(2) core_fields(1) accepted_lands [OF wf e(2,3)] by metis
  moreover have terms: "same_terms (machine_next m e) m" by (rule machine_next_terms [OF wf])
  have dep: "h_DependsOnHandoffIDs (core x) = h_DependsOnHandoffIDs x" for x by (simp add: core_def)
  have same: "h_WorkflowID k = h_WorkflowID m" "h_DependsOnHandoffIDs k = h_DependsOnHandoffIDs m" "h_ReceiverActor k = h_ReceiverActor m"
    "requiresReview k = requiresReview m" "requiresArtifacts k = requiresArtifacts m"
    using terms same_terms_requires(1,2) [OF terms] k(2) dep core_fields(4,10) core_requires(1,2) unfolding same_terms_def by metis+
  moreover have "h_State m \<noteq> StateCompleted" using edge by (auto elim: turn_edge.cases)
  then have "deps_done (w_db w') k" using deps_advanced [OF deps _ _ run(4) same(1,2)] m(1) id by simp
  moreover have "store_inv (w_db w')" using run(4) by (simp add: advanced_def)
  ultimately show thesis
    using run(1,3) req(1) e(1,4) h(1)
    by (intro that [of "ed_Event r" w' k]) (simp_all add: applyLifecycleEvent_def bindE_def ret_def turn_handoff_def)
qed

lemma turn_recorded:
  assumes "turn_path (h_State m) (map dle_Event ds) s" and "store_inv (w_db w)" "supplied w"
    and "find_by h_ID i (st_handoffs (w_db w)) = Some m" "i \<noteq> []" and "deps_done (w_db w) m"
    and "turn_handoff agent m" "h_ID h = i" "h_WorkflowID h = h_WorkflowID m" and "\<forall>d\<in>set ds. turn_report agent d"
  shows "\<exists>es w' k. mapE (applyLifecycleEvent h input) ds w = (Inr es, w') \<and> map ev_Payload es = map dle_Payload ds
    \<and> map (\<lambda>e. ev_Type e = EventCompleted) es = map (\<lambda>d. dle_Event d = ''completed'') ds
    \<and> find_by h_ID i (st_handoffs (w_db w')) = Some k \<and> h_State k = s"
  using assms
proof (induction ds arbitrary: m w)
  case Nil
  then show ?case by (auto simp: ret_def elim: turn_path_cases)
next
  case (Cons d ds)
  from Cons.prems(1) obtain t where t: "turn_edge (h_State m) (dle_Event d) t" "turn_path t (map dle_Event ds) s"
    by (auto elim: turn_path_cases)
  have d: "turn_report agent d" using Cons.prems(10) by simp
  obtain y v k where y: "applyLifecycleEvent h input d w = (Inr y, v)" "supplied v" "store_inv (w_db v)"
    "ev_Payload y = dle_Payload d" "ev_Type y = EventCompleted \<longleftrightarrow> dle_Event d = ''completed''"
    "find_by h_ID i (st_handoffs (w_db v)) = Some k" "h_State k = t" "turn_handoff agent k" "deps_done (w_db v) k"
    "h_WorkflowID k = h_WorkflowID m"
    by (rule turn_step [OF Cons.prems(2-9) d t(1)])
  obtain es w' k' where "mapE (applyLifecycleEvent h input) ds v = (Inr es, w')" "map ev_Payload es = map dle_Payload ds"
    "map (\<lambda>e. ev_Type e = EventCompleted) es = map (\<lambda>d. dle_Event d = ''completed'') ds"
    "find_by h_ID i (st_handoffs (w_db w')) = Some k'" "h_State k' = s"
    using Cons.IH [OF _ y(3,2,6) Cons.prems(5) y(9,8) Cons.prems(8)] y(7,10) t(2) Cons.prems(9,10) by auto
  with y show ?case by (auto simp: bindE_def ret_def)
qed

section \<open>What a run of an agent does to its handoff\<close>

lemma dispatch_turn:
  assumes "OpenClawDispatch quote parse pick (Some process) opts req = Inr out" and "oc_Mode opts = ModeAgentTurn"
  shows "out = outputOf parse pick ModeAgentTurn req (process (trimSpace (oc_Command opts)) (buildArgs (oc_Args opts) ModeAgentTurn req)
    None (if 0 < oc_Timeout opts then Some (oc_Timeout opts) else None))"
  using assms by (auto simp: OpenClawDispatch_def normalizedMode_def mode_defs buildStdin_def Let_def split: if_splits)

lemma reply_trimmed: "trimSpace (extractReplyText parse stdout) = extractReplyText parse stdout"
proof -
  have "trimSpace (firstText ts) = firstText ts" if "\<forall>t\<in>set ts. trimSpace t = t" for ts
  proof (cases "filter (\<lambda>t. t \<noteq> []) ts")
    case (Cons t us)
    then have "t \<in> set (filter (\<lambda>t. t \<noteq> []) ts)" by simp
    then have "t \<in> set ts" by simp
    with Cons that show ?thesis by (simp add: firstText_def)
  qed (simp add: firstText_def)
  then show ?thesis by (simp add: extractReplyText_def split: option.split)
qed

text \<open>The events of an accepted run, by its end.\<close>

lemma accepted_turn:
  assumes "ao_Status (outputOf parse pick ModeAgentTurn req (stdout, err, expired)) = TransportAccepted"
  shows "ao_Events (outputOf parse pick ModeAgentTurn req (stdout, err, expired)) =
    (if err = None then acceptedLifecycleEvents ModeAgentTurn req (extractReplyText parse stdout)
     else failedLifecycleEvents req (extractReplyText parse stdout))"
  using assms by (auto simp: outputOf_def rejectedOutput_def Let_def split: option.splits if_splits)

lemma turn_paths:
  "turn_path StateDispatched (map dle_Event (acceptedLifecycleEvents ModeAgentTurn req reply)) StateCompleted"
  "turn_path StateDispatched (map dle_Event (failedLifecycleEvents req reply)) StateFailed"
  by (auto simp: acceptedLifecycleEvents_def failedLifecycleEvents_def lifecycleEvent_def mode_defs Let_def
      intro!: turn_path.intros turn_edge.intros)

lemma turn_reports:
  "\<forall>d\<in>set (acceptedLifecycleEvents ModeAgentTurn req reply). turn_report (normalizeDispatchLifecycleAgent (agentTarget (dr_Target req))) d"
  "\<forall>d\<in>set (failedLifecycleEvents req reply). turn_report (normalizeDispatchLifecycleAgent (agentTarget (dr_Target req))) d"
  by (auto simp: acceptedLifecycleEvents_def failedLifecycleEvents_def lifecycleEvent_def turn_report_def mode_defs Let_def)

lemma openclaw_turn_reported:
  assumes out: "OpenClawDispatch quote parse pick (Some process) opts req = Inr out" "oc_Mode opts = ModeAgentTurn"
    and accepted: "ao_Status out = TransportAccepted"
    and ended: "process (trimSpace (oc_Command opts)) (buildArgs (oc_Args opts) ModeAgentTurn req) None
      (if 0 < oc_Timeout opts then Some (oc_Timeout opts) else None) = (stdout, err, expired)"
    and store: "store_inv (w_db w)" "supplied w" "find_by h_ID i (st_handoffs (w_db w)) = Some m" "i \<noteq> []" "deps_done (w_db w) m"
    and m: "turn_handoff (normalizeDispatchLifecycleAgent (agentTarget (dr_Target req))) m" "h_State m = StateDispatched"
    and h: "h_ID h = i" "h_WorkflowID h = h_WorkflowID m"
  shows "\<exists>es w' k. mapE (applyLifecycleEvent h input) (ao_Events out) w = (Inr es, w')
    \<and> find_by h_ID i (st_handoffs (w_db w')) = Some k \<and> h_State k = (if err = None then StateCompleted else StateFailed)
    \<and> (err = None \<longrightarrow> completedReplyText es =
        (if extractReplyText parse stdout = [] then Inl replyTextRequired else Inr (extractReplyText parse stdout)))"
proof -
  let ?reply = "extractReplyText parse stdout"
  have "out = outputOf parse pick ModeAgentTurn req (stdout, err, expired)" using dispatch_turn [OF out] ended by simp
  then have events: "ao_Events out = (if err = None then acceptedLifecycleEvents ModeAgentTurn req ?reply else failedLifecycleEvents req ?reply)"
    using accepted_turn accepted by simp
  have path: "turn_path (h_State m) (map dle_Event (ao_Events out)) (if err = None then StateCompleted else StateFailed)"
    "\<forall>d\<in>set (ao_Events out). turn_report (normalizeDispatchLifecycleAgent (agentTarget (dr_Target req))) d"
    using turn_paths turn_reports m(2) by (auto simp: events)
  obtain es w' k where es: "mapE (applyLifecycleEvent h input) (ao_Events out) w = (Inr es, w')"
    "map ev_Payload es = map dle_Payload (ao_Events out)"
    "map (\<lambda>e. ev_Type e = EventCompleted) es = map (\<lambda>d. dle_Event d = ''completed'') (ao_Events out)"
    "find_by h_ID i (st_handoffs (w_db w')) = Some k" "h_State k = (if err = None then StateCompleted else StateFailed)"
    using turn_recorded [OF path(1) store m(1) h path(2)] by blast
  have "completedReplyText es = (if ?reply = [] then Inl replyTextRequired else Inr ?reply)" if "err = None"
    using es(2,3) that reply_trimmed [of parse stdout]
    by (auto simp: events acceptedLifecycleEvents_def lifecycleEvent_def replyPayload_def mode_defs Let_def completedReplyText_def
        map_eq_Cons_conv)
  with es show ?thesis by blast
qed

end
