(* ===== verification/Operator_Telegram.thy ===== *)
theory Operator_Telegram
  imports Operator_Commands OpenClaw_Dispatch Tool_Sender Sender_Config
begin

text \<open>
  \<open>cmd/clawside-telegram-operator\<close>: a Telegram bot through which allowed users see the orchestrator's work,
  approve handoffs, report results of executions and talk to an agent. \<open>config.go\<close>, \<open>telegram.go\<close>,
  \<open>agent_bridge.go\<close> and \<open>operator.go\<close>. The database is the orchestrator's tables, the table of
  executions, and the outside world (Telegram and the agent's command); the log is not modelled.
\<close>

section \<open>Configuration\<close>

record operatorConfig =
  ocf_DBPath :: string
  ocf_BotName :: string
  ocf_AccountID :: string
  ocf_Token :: string
  ocf_AllowUserIDs :: "int set"

record operatorTOMLConfig =
  otc_DatabasePath :: string
  otc_GlobalAllowUserIDs :: "string list"
  otc_Bots :: "(string \<times> botTOMLConfig) list"

fun parseOperatorAllowUserIDs :: "config_env \<Rightarrow> string list \<Rightarrow> string \<Rightarrow> error + int set" where
  "parseOperatorAllowUserIDs c [] field = Inr {}"
| "parseOperatorAllowUserIDs c (v # raw) field =
     (let trimmed = trimSpace v in
      if trimmed = [] then parseOperatorAllowUserIDs c raw field
      else case parseInt64 trimmed of
        None \<Rightarrow> Inl (ErrorWrap (''parse '' @ field) (ce_numError c trimmed))
      | Some parsed \<Rightarrow> thenE (parseOperatorAllowUserIDs c raw field) (\<lambda>ids. Inr (insert parsed ids)))"

text \<open>The bots under their normalized names; the list is the order in which the map is visited.\<close>

fun normalizeBots ::
  "config_env \<Rightarrow> (string \<Rightarrow> string) \<Rightarrow> (string \<times> botTOMLConfig) list \<Rightarrow> (string \<times> botTOMLConfig) list
   \<Rightarrow> error + (string \<times> botTOMLConfig) list" where
  "normalizeBots c ul bots [] = Inr bots"
| "normalizeBots c ul bots ((rawName, b) # rest) =
     (let normalized = NormalizeBotName ul rawName in
      if normalized = [] then Inl (ErrorText ''invalid bot name'')
      else if normalized \<in> fst ` set bots then Inl (ErrorText (''duplicate normalized bot name '' @ ce_quote c normalized))
      else normalizeBots c ul (bots @ [(normalized, b)]) rest)"

definition loadOperatorConfig ::
  "config_env \<Rightarrow> (string \<Rightarrow> string) \<Rightarrow> error + operatorTOMLConfig \<Rightarrow> string \<Rightarrow> string \<Rightarrow> error + operatorConfig" where
  "loadOperatorConfig c ul content botName dbOption =
     thenE content (\<lambda>parsed.
     let selectedBot = NormalizeBotName ul botName; about = ''telegram bot '' @ ce_quote c selectedBot in
     if selectedBot = [] then Inl (ErrorText ''bot is required'')
     else thenE (normalizeBots c ul [] (otc_Bots parsed)) (\<lambda>bots.
     case map_of bots selectedBot of
       None \<Rightarrow> Inl (ErrorText (about @ '' is not configured''))
     | Some b \<Rightarrow>
         if \<not> bt_Enabled b then Inl (ErrorText (about @ '' is disabled''))
         else let token = trimSpace (bt_Token b); accountID = trimSpace (bt_AccountID b) in
         if token = [] then Inl (ErrorText (about @ '' token is required''))
         else if accountID = [] then Inl (ErrorText (about @ '' account_id is required''))
         else
         thenE (parseOperatorAllowUserIDs c (otc_GlobalAllowUserIDs parsed) ''telegram.global_allow_user_ids'') (\<lambda>global.
         thenE (parseOperatorAllowUserIDs c (bt_AllowUserIDs b)
             (''telegram.bots.'' @ selectedBot @ ''.allow_user_ids'')) (\<lambda>own.
         let allowed = global \<union> own; dbPath = orTrimmed dbOption (trimSpace (otc_DatabasePath parsed)) in
         if allowed = {} then Inl (ErrorText ''telegram operator allowlist is required'')
         else if dbPath = [] then Inl (ErrorText ''database_path is required'')
         else Inr \<lparr>ocf_DBPath = dbPath, ocf_BotName = selectedBot, ocf_AccountID = accountID, ocf_Token = token,
                   ocf_AllowUserIDs = allowed\<rparr>))))"

section \<open>The Telegram client\<close>

record telegramChat =
  tch_ID :: int
  tch_Type :: string

record telegramUser =
  tus_ID :: int
  tus_UserName :: string

record telegramMessage =
  tme_MessageID :: int
  tme_Chat :: telegramChat
  tme_From :: "telegramUser option"
  tme_Text :: string

record telegramUpdate =
  tup_UpdateID :: int
  tup_Message :: "telegramMessage option"

record telegramSendMessageRequest =
  tsm_ChatID :: int
  tsm_Text :: string
  tsm_ReplyToMessageID :: "int option"

record 'r telegramAPIResponse =
  tar_OK :: bool
  tar_Description :: string
  tar_Result :: 'r

datatype http_failure = RequestUnbuilt string | RequestFailed string | ResponseUnread string

type_synonym 'x telegram_exchange = "client_request \<Rightarrow> ('x, http_failure + nat \<times> string) op"

text \<open>\<open>encoding/json\<close>, \<open>http.StatusText\<close> and the HTTP exchange are parameters of the client.\<close>

record 'x telegramClient =
  tgc_baseURL :: string
  tgc_exchange :: "'x telegram_exchange"
  tgc_marshal :: "json \<Rightarrow> string"
  tgc_unmarshal :: "string \<Rightarrow> json option"
  tgc_decodeError :: "string \<Rightarrow> string"
  tgc_statusText :: "nat \<Rightarrow> string"

definition defaultTelegramBaseURL :: string where "defaultTelegramBaseURL = ''https://api.telegram.org''"

definition telegramBaseURL :: "string \<Rightarrow> string" where
  "telegramBaseURL baseURL = trimRightSlashes (if trimSpace baseURL = [] then defaultTelegramBaseURL else baseURL)"

definition redactTelegramToken :: "string \<Rightarrow> string \<Rightarrow> string" where
  "redactTelegramToken v token = (if trimSpace token = [] then v else replaceAll token ''<redacted>'' v)"

definition telegramAPIError :: "'x telegramClient \<Rightarrow> string \<Rightarrow> nat \<Rightarrow> string \<Rightarrow> string \<Rightarrow> string" where
  "telegramAPIError c name statusCode description token =
     (let shown = (if trimSpace description = [] then tgc_statusText c statusCode else trimSpace description) in
      ''telegram '' @ name @ '' error ('' @ formatNat statusCode @ ''): '' @ redactTelegramToken shown token)"

text \<open>Building the request, \<open>doTelegramHTTP\<close>, and decoding the body into \<open>spec\<close>.\<close>

definition telegramCall ::
  "'x telegramClient \<Rightarrow> string \<Rightarrow> string \<Rightarrow> client_request \<Rightarrow> 'r telegramAPIResponse struct_spec \<Rightarrow> 'r \<Rightarrow> ('x, string + 'r) op" where
  "telegramCall c name token req spec zero =
     bindE (tgc_exchange c req) (\<lambda>r.
     ret (case r of
        Inl (RequestUnbuilt e) \<Rightarrow> Inl (''build telegram '' @ name @ '' request: '' @ redactTelegramToken e token)
      | Inl (RequestFailed e) \<Rightarrow> Inl (''telegram request failed: '' @ redactTelegramToken e token)
      | Inl (ResponseUnread e) \<Rightarrow> Inl (''read telegram response: '' @ redactTelegramToken e token)
      | Inr (statusCode, body) \<Rightarrow>
          (case Option.bind (tgc_unmarshal c body) (\<lambda>v. lenientStruct spec v \<lparr>tar_OK = False, tar_Description = [], tar_Result = zero\<rparr>) of
             None \<Rightarrow> Inl (''decode telegram '' @ name @ '' response: '' @ redactTelegramToken (tgc_decodeError c body) token)
           | Some response \<Rightarrow>
               if 400 \<le> statusCode \<or> \<not> tar_OK response
               then Inl (telegramAPIError c name statusCode (tar_Description response) token)
               else Inr (tar_Result response))))"

definition responseSpec :: "(json \<Rightarrow> 'r \<Rightarrow> 'r option) \<Rightarrow> 'r telegramAPIResponse struct_spec" where
  "responseSpec result = [(''ok'', boolField tar_OK_update), (''description'', textField tar_Description_update),
     (''result'', \<lambda>v r. map_option (\<lambda>x. r\<lparr>tar_Result := x\<rparr>) (result v (tar_Result r)))]"

definition pointerField :: "'a struct_spec \<Rightarrow> 'a \<Rightarrow> json \<Rightarrow> 'a option \<Rightarrow> 'a option option" where
  "pointerField spec zero v old =
     (if v = JNull then Some None
      else map_option Some (lenientStruct spec v (case old of None \<Rightarrow> zero | Some a \<Rightarrow> a)))"

definition NoUser :: telegramUser where "NoUser = \<lparr>tus_ID = 0, tus_UserName = []\<rparr>"

definition NoMessage :: telegramMessage where
  "NoMessage = \<lparr>tme_MessageID = 0, tme_Chat = \<lparr>tch_ID = 0, tch_Type = []\<rparr>, tme_From = None, tme_Text = []\<rparr>"

definition messageSpec :: "telegramMessage struct_spec" where
  "messageSpec = [(''message_id'', intField tme_MessageID_update),
     (''chat'', \<lambda>v m. map_option (\<lambda>x. m\<lparr>tme_Chat := x\<rparr>)
        (lenientStruct [(''id'', intField tch_ID_update), (''type'', textField tch_Type_update)] v (tme_Chat m))),
     (''from'', \<lambda>v m. map_option (\<lambda>x. m\<lparr>tme_From := x\<rparr>)
        (pointerField [(''id'', intField tus_ID_update), (''username'', textField tus_UserName_update)] NoUser v (tme_From m))),
     (''text'', textField tme_Text_update)]"

definition updateSpec :: "telegramUpdate struct_spec" where
  "updateSpec = [(''update_id'', intField tup_UpdateID_update),
     (''message'', \<lambda>v u. map_option (\<lambda>x. u\<lparr>tup_Message := x\<rparr>) (pointerField messageSpec NoMessage v (tup_Message u)))]"

definition updatesField :: "json \<Rightarrow> telegramUpdate list \<Rightarrow> telegramUpdate list option" where
  "updatesField v old =
     (case v of JNull \<Rightarrow> Some []
      | JList vs \<Rightarrow> decodeElements (lenientStruct updateSpec) \<lparr>tup_UpdateID = 0, tup_Message = None\<rparr> old vs
      | _ \<Rightarrow> None)"

text \<open>\<open>url.Values.Encode\<close> sorts by the names; the base URL has no query of its own.\<close>

definition updatesQuery :: "int \<Rightarrow> int \<Rightarrow> string" where
  "updatesQuery offset timeoutSeconds =
     (let params = (if 0 < offset then [''offset='' @ formatInt offset] else [])
        @ (if 0 < timeoutSeconds then [''timeout='' @ formatInt timeoutSeconds] else []) in
      if params = [] then [] else ''?'' @ joinText ''&'' params)"

definition getUpdates :: "'x telegramClient \<Rightarrow> string \<Rightarrow> int \<Rightarrow> int \<Rightarrow> ('x, string + telegramUpdate list) op" where
  "getUpdates c token offset timeoutSeconds =
     telegramCall c ''getUpdates'' token
       \<lparr>cq_Method = ''GET'', cq_URL = tgc_baseURL c @ ''/bot'' @ token @ ''/getUpdates'' @ updatesQuery offset timeoutSeconds,
        cq_Authorization = [], cq_Body = []\<rparr> (responseSpec updatesField) []"

definition messagePayload :: "telegramSendMessageRequest \<Rightarrow> json" where
  "messagePayload m = JObject ([(''chat_id'', JNumber (formatInt (tsm_ChatID m))), (''text'', JString (tsm_Text m))]
     @ (case tsm_ReplyToMessageID m of None \<Rightarrow> [] | Some i \<Rightarrow> [(''reply_to_message_id'', JNumber (formatInt i))]))"

definition sendOperatorMessage :: "'x telegramClient \<Rightarrow> string \<Rightarrow> telegramSendMessageRequest \<Rightarrow> ('x, string + unit) op" where
  "sendOperatorMessage c token m =
     telegramCall c ''sendMessage'' token
       \<lparr>cq_Method = ''POST'', cq_URL = tgc_baseURL c @ ''/bot'' @ token @ ''/sendMessage'', cq_Authorization = [],
        cq_Body = tgc_marshal c (messagePayload m)\<rparr> (responseSpec (\<lambda>v _. Some ())) ()"

end
