(* ===== verification/Operator_Loop.thy ===== *)
theory Operator_Loop
  imports Operator_Telegram
begin

text \<open>
  \<open>agent_bridge.go\<close> and \<open>operator.go\<close> of \<open>cmd/clawside-telegram-operator\<close>: the agent that answers plain
  text, what is done with a message, and the polling loop as its first rounds. Cancellation and the
  wait after an error are not modelled.
\<close>

section \<open>The agent behind plain text\<close>

record telegramInboundAgentInput =
  tai_TargetAgent :: string
  tai_Text :: string
  tai_ChatID :: int
  tai_FromUserID :: int
  tai_ReplyToMessageID :: int

text \<open>A command with its arguments and its timeout; \<open>None\<close> when it fails, else its standard output.\<close>

type_synonym 'x agent_run = "string \<Rightarrow> string list \<Rightarrow> duration option \<Rightarrow> ('x, string option) op"

record 'x agentBridge =
  ab_run :: "'x agent_run option"
  ab_command :: string
  ab_args :: "string list"
  ab_timeout :: duration
  ab_parse :: "string \<Rightarrow> json option"

definition newAgentBridge ::
  "'x agent_run \<Rightarrow> (string \<Rightarrow> json option) \<Rightarrow> string \<Rightarrow> string list \<Rightarrow> duration \<Rightarrow> 'x agentBridge option" where
  "newAgentBridge process parse command args timeout =
     (if trimSpace command = [] then None
      else Some \<lparr>ab_run = Some process, ab_command = command, ab_args = args, ab_timeout = timeout, ab_parse = parse\<rparr>)"

definition buildOpenClawAgentArgs :: "string list \<Rightarrow> telegramInboundAgentInput \<Rightarrow> string list" where
  "buildOpenClawAgentArgs base input =
     base @ [''agent'', ''--json'']
     @ (let target = agentTarget (tai_TargetAgent input) in if target \<noteq> [] then [''--agent'', target] else [])
     @ [''--message'', tai_Text input]"

definition responseKeys :: "string list" where
  "responseKeys = [''message'', ''content'', ''text'', ''response'', ''output'', ''result'']"

fun extractAgentText :: "json \<Rightarrow> string" where
  "extractAgentText (JString s) = trimSpace s"
| "extractAgentText (JObject kvs) =
     (let typed = lastEntries (map (\<lambda>(key, raw). (key, extractAgentText raw)) kvs) in
      firstText (map (\<lambda>key. case map_of typed key of None \<Rightarrow> [] | Some t \<Rightarrow> t) responseKeys))"
| "extractAgentText (JList vs) = firstText (map extractAgentText vs)"
| "extractAgentText _ = []"

definition extractOpenClawAgentResponse :: "(string \<Rightarrow> json option) \<Rightarrow> string \<Rightarrow> string" where
  "extractOpenClawAgentResponse parse stdout =
     (let trimmed = trimSpace stdout in
      if trimmed = [] then []
      else case parse trimmed of
        None \<Rightarrow> trimmed
      | Some v \<Rightarrow> if extractAgentText v \<noteq> [] then extractAgentText v else trimmed)"

definition runAgentBridge :: "'x agentBridge \<Rightarrow> telegramInboundAgentInput \<Rightarrow> ('x, string + string) op" where
  "runAgentBridge b input =
     (let command = trimSpace (ab_command b) in
      if command = [] then ret (Inl ''openclaw command is required'')
      else case ab_run b of None \<Rightarrow> ret (Inl ''openclaw runner is required'') | Some process \<Rightarrow>
      if agentTarget (tai_TargetAgent input) = [] then ret (Inl ''target agent is required'')
      else
        bindE (process command (buildOpenClawAgentArgs (ab_args b) input)
            (if 0 < ab_timeout b then Some (ab_timeout b) else None)) (\<lambda>out.
        ret (case out of
           None \<Rightarrow> Inl ''openclaw agent failed''
         | Some stdout \<Rightarrow>
             (let response = extractOpenClawAgentResponse (ab_parse b) stdout in
              if response = [] then Inl ''openclaw agent response is empty'' else Inr response))))"

section \<open>The operator\<close>

type_synonym 'x operator_db = "store \<times> executions \<times> 'x"

definition onExecutions :: "(executions, 'r) op \<Rightarrow> ('x operator_db, 'r) op" where
  "onExecutions m = onSecond (onFirst m)"

definition onOutside :: "('x, 'r) op \<Rightarrow> ('x operator_db, 'r) op" where
  "onOutside m = onSecond (onSecond m)"

record 'x operator =
  op_bridge :: "'x agentBridge option"
  op_sink :: bool
  op_unmarshal :: "string \<Rightarrow> json option"
  op_lower :: "string \<Rightarrow> string"
  op_client :: "'x telegramClient"
  op_config :: operatorConfig

definition sendTelegramReply :: "'x operator \<Rightarrow> int \<Rightarrow> string \<Rightarrow> int \<Rightarrow> ('x operator_db, unit) op" where
  "sendTelegramReply p chatID text replyTo =
     bindE (onOutside (sendOperatorMessage (op_client p) (ocf_Token (op_config p))
       \<lparr>tsm_ChatID = chatID, tsm_Text = text, tsm_ReplyToMessageID = Some replyTo\<rparr>)) (\<lambda>_. ret ())"

definition reviewDecisionField :: "json \<Rightarrow> string \<times> ExecutionResult \<Rightarrow> (string \<times> ExecutionResult) option" where
  "reviewDecisionField v r =
     (case v of JString s \<Rightarrow> Some (fst r, (snd r)\<lparr>ex_ReviewDecision := ReviewDecisionOf s\<rparr>) | JNull \<Rightarrow> Some r | _ \<Rightarrow> None)"

definition envelopeSpec :: "(string \<times> ExecutionResult) struct_spec" where
  "envelopeSpec = [(''type'', textField (\<lambda>f (t, x). (f t, x))),
     (''correlation_id'', textField (\<lambda>f (t, x). (t, ex_CorrelationID_update f x))),
     (''status'', textField (\<lambda>f (t, x). (t, ex_Status_update f x))),
     (''summary'', textField (\<lambda>f (t, x). (t, ex_Summary_update f x))),
     (''artifact_count'', intField (\<lambda>f (t, x). (t, ex_ArtifactCount_update f x))),
     (''review_decision'', reviewDecisionField)]"

definition NoResult :: ExecutionResult where
  "NoResult = \<lparr>ex_CorrelationID = [], ex_Status = [], ex_Summary = [], ex_ArtifactCount = 0, ex_ReviewDecision = ReviewUnset\<rparr>"

text \<open>\<open>None\<close>: the text is not the report of an execution.\<close>

definition handleExecutionResult :: "'x operator \<Rightarrow> string \<Rightarrow> ('x operator_db, string option) op" where
  "handleExecutionResult p text =
     (let trimmed = trimSpace text in
      if \<not> containsText trimmed ''clawside.result'' then ret None
      else case Option.bind (op_unmarshal p trimmed) (\<lambda>v. lenientStruct envelopeSpec v ([], NoResult)) of
        None \<Rightarrow> ret (Some ''invalid execution result'')
      | Some (kind, result) \<Rightarrow>
          if kind \<noteq> ''clawside.result'' then ret None
          else if \<not> op_sink p then ret (Some ''invalid execution result'')
          else handleE (bindE (onExecutions (SaveExecutionResult (op_lower p) result))
                 (\<lambda>_. ret (Some ''execution result recorded'')))
               (\<lambda>_. ret (Some ''invalid execution result'')))"

definition handleInboundAgentText :: "'x operator \<Rightarrow> string \<Rightarrow> telegramMessage \<Rightarrow> telegramUser \<Rightarrow> ('x operator_db, string option) op" where
  "handleInboundAgentText p text message from =
     (case op_bridge p of
        None \<Rightarrow> ret None
      | Some b \<Rightarrow>
          if trimSpace (ocf_BotName (op_config p)) = [] then ret None
          else
            bindE (onOutside (runAgentBridge b \<lparr>tai_TargetAgent = ocf_BotName (op_config p), tai_Text = text,
                tai_ChatID = tch_ID (tme_Chat message), tai_FromUserID = tus_ID from,
                tai_ReplyToMessageID = tme_MessageID message\<rparr>)) (\<lambda>r.
            ret (Some (case r of
               Inl _ \<Rightarrow> ''operation failed''
             | Inr response \<Rightarrow>
                 if trimSpace response = [] then ''agent returned empty response'' else trimSpace response))))"

definition approveInput :: "string \<Rightarrow> telegramUser \<Rightarrow> HandoffProgressInput" where
  "approveInput arg from = \<lparr>hpi_Action = ''approve'', hpi_WorkflowID = [], hpi_HandoffID = arg,
     hpi_Actor = \<lparr>ari_Type = ''user'', ari_ID = ''telegram:'' @ formatInt (tus_ID from), ari_Address = []\<rparr>,
     hpi_ArtifactCount = 0, hpi_ReviewDecision = []\<rparr>"

definition agentQuery :: "string \<Rightarrow> WorkQueryInput" where
  "agentQuery agentID = NoWorkQuery\<lparr>wqi_AgentID := agentID, wqi_Limit := 5\<rparr>"

definition handleCommand :: "operatorCommand \<Rightarrow> telegramUser \<Rightarrow> string sop" where
  "handleCommand cmd from =
     (let answer = (\<lambda>m. handleE m (\<lambda>_. ret ''operation failed'')); arg = cmd_Arg cmd in
      case cmd_Kind cmd of
        CommandHealth \<Rightarrow> ret ''ok''
      | CommandStatus \<Rightarrow> answer (bindE (HandleWorkflowStatus arg) (\<lambda>view. ret (formatWorkflowStatus view)))
      | CommandNext \<Rightarrow> answer (bindE (HandleNextWork (agentQuery arg)) (\<lambda>items. ret (formatNextWork arg items)))
      | CommandBlocked \<Rightarrow> answer (bindE (HandleBlockedWork (agentQuery arg)) (\<lambda>items. ret (formatBlockedWork arg items)))
      | CommandApprove \<Rightarrow> answer (bindE (progressError (HandleHandoffProgress (approveInput arg from))) (\<lambda>out.
          ret (''approved '' @ h_ID (ed_Handoff out) @ '': state='' @ handoffStateText (h_State (ed_Handoff out))
            @ '' decision='' @ reviewDecisionText (h_ReviewDecision (ed_Handoff out))))))"

text \<open>The sender of a message that the operator listens to, with the trimmed text.\<close>

definition heardMessage :: "operatorConfig \<Rightarrow> telegramUpdate \<Rightarrow> (telegramMessage \<times> telegramUser \<times> string) option" where
  "heardMessage cfg update =
     (case tup_Message update of
        None \<Rightarrow> None
      | Some message \<Rightarrow>
          if tch_Type (tme_Chat message) \<noteq> ''private'' then None
          else case tme_From message of
            None \<Rightarrow> None
          | Some from \<Rightarrow>
              if tus_ID from \<notin> ocf_AllowUserIDs cfg then None
              else if trimSpace (tme_Text message) = [] then None
              else Some (message, from, trimSpace (tme_Text message)))"

definition processTelegramUpdate :: "'x operator \<Rightarrow> telegramUpdate \<Rightarrow> ('x operator_db, unit) op" where
  "processTelegramUpdate p update =
     (case heardMessage (op_config p) update of
        None \<Rightarrow> ret ()
      | Some (message, from, text) \<Rightarrow>
          (let reply = (\<lambda>responseText. sendTelegramReply p (tch_ID (tme_Chat message)) responseText (tme_MessageID message)) in
           if \<not> hasPrefix text ''/'' then
             bindE (handleExecutionResult p text) (\<lambda>reported.
             case reported of
               Some responseText \<Rightarrow> reply responseText
             | None \<Rightarrow>
                 bindE (handleInboundAgentText p text message from) (\<lambda>answered.
                 case answered of None \<Rightarrow> ret () | Some responseText \<Rightarrow> reply responseText))
           else
             (case parseOperatorCommand (op_lower p) text of
                Inl unsupported \<Rightarrow> reply unsupported
              | Inr cmd \<Rightarrow> bindE (onStore (handleCommand cmd from)) reply)))"

section \<open>The loop\<close>

definition timeoutSeconds :: "duration \<Rightarrow> int" where
  "timeoutSeconds pollTimeout = (if pollTimeout div second \<le> 0 then 1 else pollTimeout div second)"

definition nextOffset :: "int \<Rightarrow> telegramUpdate \<Rightarrow> int" where
  "nextOffset offset update =
     (if tup_UpdateID update \<ge> offset then wrap64 (tup_UpdateID update + 1) else offset)"

fun processUpdates :: "'x operator \<Rightarrow> int \<Rightarrow> telegramUpdate list \<Rightarrow> ('x operator_db, int) op" where
  "processUpdates p offset [] = ret offset"
| "processUpdates p offset (update # rest) =
     bindE (processTelegramUpdate p update) (\<lambda>_. processUpdates p (nextOffset offset update) rest)"

text \<open>A round answers the next offset and the updates it has processed.\<close>

definition operatorRound :: "'x operator \<Rightarrow> duration \<Rightarrow> int \<Rightarrow> ('x operator_db, int \<times> telegramUpdate list) op" where
  "operatorRound p pollTimeout offset =
     bindE (onOutside (getUpdates (op_client p) (ocf_Token (op_config p)) offset (timeoutSeconds pollTimeout))) (\<lambda>r.
     case r of
       Inl _ \<Rightarrow> ret (offset, [])
     | Inr updates \<Rightarrow> bindE (processUpdates p offset updates) (\<lambda>offset'. ret (offset', updates)))"

fun runOperatorLoop :: "nat \<Rightarrow> 'x operator \<Rightarrow> duration \<Rightarrow> int \<Rightarrow> ('x operator_db, int \<times> telegramUpdate list) op" where
  "runOperatorLoop 0 p pollTimeout offset = ret (offset, [])"
| "runOperatorLoop (Suc rounds) p pollTimeout offset =
     bindE (operatorRound p pollTimeout offset) (\<lambda>(offset', handled).
     bindE (runOperatorLoop rounds p pollTimeout offset') (\<lambda>(last, later). ret (last, handled @ later)))"

end
