(* ===== verification/Operator_Contracts.thy ===== *)
theory Operator_Contracts
  imports Operator_Loop
begin

text \<open>
  What the Telegram operator may do: nothing for those it does not listen to, and for the others one
  approval or one result at most; and no update is handled twice.
\<close>

section \<open>What a message may change\<close>

text \<open>The approval that a command text asks for.\<close>

definition approval_of :: "(string \<Rightarrow> string) \<Rightarrow> string \<Rightarrow> string option" where
  "approval_of ul text =
     (case parseOperatorCommand ul text of
        Inr cmd \<Rightarrow> if hasPrefix text ''/'' \<and> cmd_Kind cmd = CommandApprove then Some (cmd_Arg cmd) else None
      | Inl _ \<Rightarrow> None)"

text \<open>The tables are as they were, or one allowed approval or one reported result has run.\<close>

definition approved_by :: "string \<Rightarrow> telegramUser \<Rightarrow> store \<Rightarrow> store \<Rightarrow> bool" where
  "approved_by arg from d d' \<longleftrightarrow> (\<exists>w r w'. HandleHandoffProgress (approveInput arg from) w = (r, w') \<and> w_db w = d \<and> w_db w' = d')"

definition result_reported :: "(string \<Rightarrow> string) \<Rightarrow> executions \<Rightarrow> executions \<Rightarrow> bool" where
  "result_reported ul d d' \<longleftrightarrow> (\<exists>x w r w'. SaveExecutionResult ul x w = (r, w') \<and> w_db w = d \<and> w_db w' = d')"

definition message_effect ::
  "(string \<Rightarrow> string) \<Rightarrow> string \<Rightarrow> telegramUser \<Rightarrow> store \<times> executions \<Rightarrow> store \<times> executions \<Rightarrow> bool" where
  "message_effect ul text from d d' \<longleftrightarrow>
     (fst d' = fst d \<or> (\<exists>arg. approval_of ul text = Some arg \<and> approved_by arg from (fst d) (fst d')))
     \<and> (snd d' = snd d \<or> (\<not> hasPrefix text ''/'' \<and> containsText text ''clawside.result'' \<and> result_reported ul (snd d) (snd d')))"

definition tables :: "'x operator_db \<Rightarrow> store \<times> executions" where
  "tables d = (fst d, fst (snd d))"

section \<open>Parts of the database\<close>

lemma outside_tables: "onOutside m w = (r, w') \<Longrightarrow> tables (w_db w') = tables (w_db w)"
  by (auto simp: onOutside_def onSecond_def tables_def split: prod.splits)

lemma executions_part:
  assumes "onExecutions m w = (r, w')"
  obtains v' where "m (withDb (fst (snd (w_db w))) w) = (r, v')" and "tables (w_db w') = (fst (w_db w), w_db v')"
  using assms by (auto simp: onExecutions_def onSecond_def onFirst_def tables_def split: prod.splits)

lemma store_part:
  assumes "onStore m w = (r, w')"
  obtains v' where "m (withDb (fst (w_db w)) w) = (r, v')" and "tables (w_db w') = (w_db v', fst (snd (w_db w)))"
  using assms by (auto simp: onFirst_def tables_def split: prod.splits)

lemma reply_tables: "sendTelegramReply p chatID text replyTo w = (r, w') \<Longrightarrow> tables (w_db w') = tables (w_db w)"
  by (auto simp: sendTelegramReply_def bindE_def ret_def split: prod.splits sum.splits dest: outside_tables)

lemma agent_tables: "handleInboundAgentText p text message from w = (r, w') \<Longrightarrow> tables (w_db w') = tables (w_db w)"
  by (auto simp: handleInboundAgentText_def bindE_def ret_def split: option.splits if_splits prod.splits sum.splits dest: outside_tables)

section \<open>One message\<close>

lemma reported_tables:
  assumes "handleExecutionResult p text w = (r, w')"
  shows "fst (tables (w_db w')) = fst (tables (w_db w))"
    and "snd (tables (w_db w')) = snd (tables (w_db w))
      \<or> (containsText (trimSpace text) ''clawside.result'' \<and> result_reported (op_lower p) (snd (tables (w_db w))) (snd (tables (w_db w'))))"
proof -
  have save: "fst (tables (w_db v)) = fst (tables (w_db w)) \<and> result_reported (op_lower p) (snd (tables (w_db w))) (snd (tables (w_db v)))"
    if "onExecutions (SaveExecutionResult (op_lower p) x) w = (a, v)" for x a v
  proof (rule executions_part [OF that])
    fix v' assume ran: "SaveExecutionResult (op_lower p) x (withDb (fst (snd (w_db w))) w) = (a, v')"
      and t: "tables (w_db v) = (fst (w_db w), w_db v')"
    have "result_reported (op_lower p) (fst (snd (w_db w))) (w_db v')"
      unfolding result_reported_def
      by (rule exI [of _ x], rule exI [of _ "withDb (fst (snd (w_db w))) w"], rule exI [of _ a], rule exI [of _ v']) (simp add: ran)
    with t show ?thesis by (simp add: tables_def)
  qed
  then show "fst (tables (w_db w')) = fst (tables (w_db w))"
    "snd (tables (w_db w')) = snd (tables (w_db w))
      \<or> (containsText (trimSpace text) ''clawside.result'' \<and> result_reported (op_lower p) (snd (tables (w_db w))) (snd (tables (w_db w'))))"
    using assms
    by (auto simp: handleExecutionResult_def Let_def handleE_def bindE_def ret_def split: if_splits option.splits prod.splits sum.splits)
qed

lemma command_tables:
  assumes "handleCommand cmd from w = (r, w')"
  shows "w_db w' = w_db w \<or> (cmd_Kind cmd = CommandApprove \<and> approved_by (cmd_Arg cmd) from (w_db w) (w_db w'))"
proof (cases "cmd_Kind cmd = CommandApprove")
  case True
  obtain a v where run: "HandleHandoffProgress (approveInput (cmd_Arg cmd) from) w = (a, v)" by fastforce
  then have "w_db w' = w_db v"
    using assms True
    by (auto simp: handleCommand_def Let_def handleE_def bindE_def ret_def throw_def progressError_def split: sum.splits prod.splits option.splits)
  with run True show ?thesis by (auto simp: approved_by_def)
next
  case False
  have "preserves (\<lambda>d. d = w_db w) (handleCommand cmd from)"
    using False
    by (cases "cmd_Kind cmd") (simp_all add: handleCommand_def Let_def, (intro preserves_intros reads_handlers)+)
  then show ?thesis using preservesD [of "\<lambda>d. d = w_db w" "handleCommand cmd from" w] assms by simp
qed

lemma heard_from:
  assumes "heardMessage cfg update = Some heard"
  obtains message "from" where "heard = (message, from, trimSpace (tme_Text message))" and "tup_Message update = Some message"
    and "tch_Type (tme_Chat message) = ''private''" and "tme_From message = Some from" and "tus_ID from \<in> ocf_AllowUserIDs cfg"
  using assms by (auto simp: heardMessage_def split: option.splits if_splits)

lemma processed_update:
  assumes "processTelegramUpdate p update w = (r, w')"
  shows "case heardMessage (op_config p) update of
      None \<Rightarrow> r = Inr () \<and> w' = w
    | Some (message, from, text) \<Rightarrow> message_effect (op_lower p) text from (tables (w_db w)) (tables (w_db w'))"
proof (cases "heardMessage (op_config p) update")
  case None
  with assms show ?thesis by (simp add: processTelegramUpdate_def ret_def)
next
  case (Some heard)
  obtain message "from" "text" where h: "heard = (message, from, text)" by (cases heard)
  have trimmed: "trimSpace text = text" by (rule heard_from [OF Some]) (simp add: h)
  have "message_effect (op_lower p) text from (tables (w_db w)) (tables (w_db w'))"
  proof (cases "hasPrefix text ''/''")
    case False
    obtain a v where run: "handleExecutionResult p text w = (a, v)" by fastforce
    have "tables (w_db w') = tables (w_db v)"
      using assms run False
      by (auto simp: processTelegramUpdate_def Some h Let_def bindE_def ret_def split: sum.splits option.splits prod.splits
          dest!: reply_tables agent_tables)
    then show ?thesis using reported_tables [OF run] False trimmed by (auto simp: message_effect_def)
  next
    case True
    show ?thesis
    proof (cases "parseOperatorCommand (op_lower p) text")
      case (Inl e)
      then have "tables (w_db w') = tables (w_db w)"
        using assms True by (auto simp: processTelegramUpdate_def Some h Let_def dest: reply_tables)
      then show ?thesis by (simp add: message_effect_def)
    next
      case (Inr cmd)
      obtain a v where run: "onStore (handleCommand cmd from) w = (a, v)" by fastforce
      then have same: "tables (w_db w') = tables (w_db v)"
        using assms True Inr
        by (auto simp: processTelegramUpdate_def Some h Let_def bindE_def split: sum.splits prod.splits dest: reply_tables)
      obtain v' where v': "handleCommand cmd from (withDb (fst (w_db w)) w) = (a, v')" "tables (w_db v) = (w_db v', fst (snd (w_db w)))"
        by (rule store_part [OF run])
      show ?thesis
        using command_tables [OF v'(1)] v'(2) same Inr True
        by (auto simp: message_effect_def approval_of_def tables_def)
    qed
  qed
  then show ?thesis using Some h by simp
qed

section \<open>No update twice\<close>

text \<open>
  What Telegram documents of \<open>getUpdates\<close>: it returns updates from the offset on, in ascending order. An
  identifier leaves room for the next offset.
\<close>

definition orderly :: "int \<Rightarrow> telegramUpdate list \<Rightarrow> bool" where
  "orderly offset us \<longleftrightarrow> sorted_wrt (<) (map tup_UpdateID us) \<and> (\<forall>u\<in>set us. offset \<le> tup_UpdateID u \<and> tup_UpdateID u < 2 ^ 63 - 1)"

definition orderly_updates :: "'x telegramClient \<Rightarrow> string \<Rightarrow> bool" where
  "orderly_updates c token \<longleftrightarrow> (\<forall>offset secs v us v'. 0 \<le> offset \<longrightarrow> getUpdates c token offset secs v = (Inr (Inr us), v') \<longrightarrow> orderly offset us)"

lemma nextOffset_orderly: "0 \<le> offset \<Longrightarrow> offset \<le> tup_UpdateID u \<Longrightarrow> tup_UpdateID u < 2 ^ 63 - 1 \<Longrightarrow> nextOffset offset u = tup_UpdateID u + 1"
  by (simp add: nextOffset_def wrap64_id)

lemma processed_offset:
  assumes "processUpdates p offset us w = (Inr next, w')" and "orderly offset us" and "0 \<le> offset"
  shows "offset \<le> next \<and> (\<forall>u\<in>set us. tup_UpdateID u < next)"
  using assms
proof (induction us arbitrary: offset w)
  case Nil
  then show ?case by (simp add: ret_def)
next
  case (Cons u us)
  have next_u: "nextOffset offset u = tup_UpdateID u + 1" using Cons.prems(2,3) by (intro nextOffset_orderly) (simp_all add: orderly_def)
  obtain v where run: "processUpdates p (tup_UpdateID u + 1) us v = (Inr next, w')"
    using Cons.prems(1) next_u by (auto simp: bindE_def split: prod.splits sum.splits)
  have "orderly (tup_UpdateID u + 1) us" "0 \<le> tup_UpdateID u + 1" "offset \<le> tup_UpdateID u"
    using Cons.prems(2,3) by (auto simp: orderly_def)
  with Cons.IH [OF run] show ?case by force
qed

lemma round_offset:
  assumes "operatorRound p timeout offset w = (Inr (next, us), w')" and "orderly_updates (op_client p) (ocf_Token (op_config p))" "0 \<le> offset"
  shows "offset \<le> next \<and> sorted_wrt (<) (map tup_UpdateID us) \<and> (\<forall>u\<in>set us. offset \<le> tup_UpdateID u \<and> tup_UpdateID u < next)"
proof -
  have got: "orderly offset vs" if "onOutside (getUpdates (op_client p) (ocf_Token (op_config p)) offset secs) w = (Inr (Inr vs), v)" for secs vs v
  proof -
    note asked = that
    obtain v' where "getUpdates (op_client p) (ocf_Token (op_config p)) offset secs (withDb (snd (snd (w_db w))) w) = (Inr (Inr vs), v')"
      using asked by (auto simp: onOutside_def onSecond_def split: prod.splits)
    with assms(2,3) show ?thesis unfolding orderly_updates_def by blast
  qed
  from assms(1) have "(next = offset \<and> us = []) \<or> (orderly offset us \<and> (\<exists>v. processUpdates p offset us v = (Inr next, w')))"
    using got by (auto simp: operatorRound_def bindE_def ret_def split: prod.splits sum.splits)
  then show ?thesis
  proof (elim disjE exE conjE)
    fix v assume us: "orderly offset us" and "processUpdates p offset us v = (Inr next, w')"
    from processed_offset [OF this(2) us assms(3)] us show ?thesis by (simp add: orderly_def)
  qed simp
qed

lemma loop_ascending:
  assumes "runOperatorLoop rounds p timeout offset w = (Inr (stop, us), w')"
    and "orderly_updates (op_client p) (ocf_Token (op_config p))" "0 \<le> offset"
  shows "offset \<le> stop \<and> sorted_wrt (<) (map tup_UpdateID us) \<and> (\<forall>u\<in>set us. offset \<le> tup_UpdateID u \<and> tup_UpdateID u < stop)"
  using assms
proof (induction rounds arbitrary: offset us w)
  case 0
  then show ?case by (simp add: ret_def)
next
  case (Suc rounds)
  obtain next_o handled v later where r: "operatorRound p timeout offset w = (Inr (next_o, handled), v)"
    "runOperatorLoop rounds p timeout next_o v = (Inr (stop, later), w')" "us = handled @ later"
    using Suc.prems(1) by (auto simp: bindE_def ret_def split: prod.splits sum.splits)
  note first = round_offset [OF r(1) Suc.prems(2,3)]
  have "0 \<le> next_o" using first Suc.prems(3) by linarith
  from Suc.IH [OF r(2) Suc.prems(2) this] first show ?case
    by (force simp: r(3) sorted_wrt_append)
qed

section \<open>The loop goes on\<close>

text \<open>The world outside answers: every request has a response or a failure, and every command of the agent ends.\<close>

definition outside_answers :: "'x operator \<Rightarrow> bool" where
  "outside_answers p \<longleftrightarrow> (\<forall>req. answering (tgc_exchange (op_client p) req))
     \<and> (\<forall>b process. op_bridge p = Some b \<longrightarrow> ab_run b = Some process \<longrightarrow> (\<forall>command args timeout. answering (process command args timeout)))"

lemma answering_handleE [answering_intros]: "(\<And>e. answering (h e)) \<Longrightarrow> answering (handleE m h)"
  unfolding answering_def handleE_def by (auto split: prod.splits sum.splits)

lemma answering_parts: "answering m \<Longrightarrow> answering (onFirst m)" "answering m \<Longrightarrow> answering (onSecond m)"
  unfolding answering_def onFirst_def onSecond_def by (metis (mono_tags, lifting) case_prod_conv)+

lemma answering_onOutside [answering_intros]: "answering m \<Longrightarrow> answering (onOutside m)"
  unfolding onOutside_def by (intro answering_parts)

lemma answering_onStore [answering_intros]: "answering m \<Longrightarrow> answering (onStore m)"
  by (rule answering_parts)

lemma telegramCall_answers: "answering (tgc_exchange c req) \<Longrightarrow> answering (telegramCall c name token req spec zero)"
  unfolding telegramCall_def by (intro answering_intros)

lemma sendTelegramReply_answers: "outside_answers p \<Longrightarrow> answering (sendTelegramReply p chatID text replyTo)"
  unfolding sendTelegramReply_def sendOperatorMessage_def outside_answers_def
  by (intro answering_intros telegramCall_answers) blast

lemma handleExecutionResult_answers: "answering (handleExecutionResult p text)"
  unfolding handleExecutionResult_def Let_def by (intro answering_intros)

lemma runAgentBridge_answers:
  assumes "outside_answers p" and "op_bridge p = Some b"
  shows "answering (runAgentBridge b input)"
proof (cases "ab_run b")
  case (Some process)
  with assms have "answering (process command args timeout)" for command args timeout by (simp add: outside_answers_def)
  then show ?thesis unfolding runAgentBridge_def Let_def Some option.case by (intro answering_intros)
qed (simp add: runAgentBridge_def Let_def answering_ret)

lemma handleInboundAgentText_answers: "outside_answers p \<Longrightarrow> answering (handleInboundAgentText p text message from)"
  unfolding handleInboundAgentText_def
  by (cases "op_bridge p") (auto intro!: answering_intros runAgentBridge_answers)

lemma handleCommand_answers: "answering (handleCommand cmd from)"
  unfolding handleCommand_def Let_def by (cases "cmd_Kind cmd") (auto intro!: answering_intros)

lemma processTelegramUpdate_answers: "outside_answers p \<Longrightarrow> answering (processTelegramUpdate p update)"
  unfolding processTelegramUpdate_def Let_def
  by (intro answering_intros sendTelegramReply_answers handleExecutionResult_answers handleInboundAgentText_answers handleCommand_answers)

lemma processUpdates_answers: "outside_answers p \<Longrightarrow> answering (processUpdates p offset us)"
  by (induction us arbitrary: offset) (simp_all add: answering_intros processTelegramUpdate_answers)

lemma operatorRound_answers: "outside_answers p \<Longrightarrow> answering (operatorRound p timeout offset)"
  unfolding operatorRound_def getUpdates_def
  by (intro answering_intros telegramCall_answers processUpdates_answers) (auto simp: outside_answers_def)

lemma loop_answers: "outside_answers p \<Longrightarrow> answering (runOperatorLoop rounds p timeout offset)"
  by (induction rounds arbitrary: offset) (auto intro!: answering_intros operatorRound_answers)

lemma loop_handles_once:
  assumes "outside_answers p" and "orderly_updates (op_client p) (ocf_Token (op_config p))" "0 \<le> offset"
  shows "\<exists>stop us w'. runOperatorLoop rounds p timeout offset w = (Inr (stop, us), w') \<and> offset \<le> stop
    \<and> sorted_wrt (<) (map tup_UpdateID us) \<and> (\<forall>u\<in>set us. offset \<le> tup_UpdateID u \<and> tup_UpdateID u < stop)"
proof -
  obtain stop us w' where "runOperatorLoop rounds p timeout offset w = (Inr (stop, us), w')"
    using loop_answers [OF assms(1), of rounds timeout offset] unfolding answering_def by (metis prod.exhaust)
  with loop_ascending [OF this assms(2,3)] show ?thesis by blast
qed

end
