(* ===== verification/Operator_Demo.thy ===== *)
theory Operator_Demo
  imports Operator_Contracts Swarm_Demo
begin

text \<open>
  Concrete worlds for the operator and for the agent's command: a Telegram whose updates count up from
  the offset, and a dispatched agent turn with the output of its run.
\<close>

section \<open>A Telegram that counts\<close>

text \<open>The body of a response is the URL of its request; the number after its first equals sign is the identifier.\<close>

definition demo_number :: "string \<Rightarrow> string" where
  "demo_number url = takeWhile is_digit (tl (dropWhile (\<lambda>c. c \<noteq> CHR ''='') url))"

definition demo_updates :: "string \<Rightarrow> json list" where
  "demo_updates t = (case parseInt64 t of
     None \<Rightarrow> [] | Some n \<Rightarrow> if n < 2 ^ 63 - 1 then [JObject [(''update_id'', JNumber t)]] else [])"

definition counting_client :: "unit telegramClient" where
  "counting_client = \<lparr>tgc_baseURL = [], tgc_exchange = (\<lambda>req. ret (Inr (200, cq_URL req))), tgc_marshal = (\<lambda>_. []),
     tgc_unmarshal = (\<lambda>url. Some (JObject [(''ok'', JBool True), (''result'', JList (demo_updates (demo_number url)))])),
     tgc_decodeError = (\<lambda>_. []), tgc_statusText = (\<lambda>_. [])\<rparr>"

lemma digits_formatNat: "list_all is_digit (formatNat n)"
  using parseDigits_formatNat [of n] by (auto simp: parseDigits_def split: if_splits)

lemma demo_number_query:
  assumes "0 \<le> n"
  shows "takeWhile is_digit (formatInt n @ CHR ''&'' # rest) = formatInt n" "takeWhile is_digit (formatInt n) = formatInt n"
proof -
  have d: "list_all is_digit (formatInt n)" using assms digits_formatNat [of "nat n"] by (simp add: formatInt_def)
  have "\<not> is_digit CHR ''&''" by code_simp
  with d show "takeWhile is_digit (formatInt n @ CHR ''&'' # rest) = formatInt n" "takeWhile is_digit (formatInt n) = formatInt n"
    by (simp_all add: takeWhile_append2 list_all_iff)
qed

lemma demo_number_url:
  "0 < offset \<Longrightarrow> demo_number (''/bott/getUpdates'' @ updatesQuery offset secs) = formatInt offset"
  "offset \<le> 0 \<Longrightarrow> 0 < secs \<Longrightarrow> demo_number (''/bott/getUpdates'' @ updatesQuery offset secs) = formatInt secs"
  "offset \<le> 0 \<Longrightarrow> secs \<le> 0 \<Longrightarrow> demo_number (''/bott/getUpdates'' @ updatesQuery offset secs) = []"
  using demo_number_query(2) [of offset] demo_number_query(2) [of secs]
    demo_number_query(1) [of offset "''timeout='' @ formatInt secs"]
  by (simp_all add: demo_number_def updatesQuery_def Let_def)

definition demo_update :: "int \<Rightarrow> telegramUpdate" where
  "demo_update n = \<lparr>tup_UpdateID = n, tup_Message = None\<rparr>"

lemma demo_decoded:
  "lenientStruct (responseSpec updatesField) (JObject [(''ok'', JBool True), (''result'', JList (demo_updates t))])
     \<lparr>tar_OK = False, tar_Description = [], tar_Result = []\<rparr>
   = Some \<lparr>tar_OK = True, tar_Description = [],
       tar_Result = (case parseInt64 t of None \<Rightarrow> [] | Some n \<Rightarrow> if n < 2 ^ 63 - 1 then [demo_update n] else [])\<rparr>"
  by (simp add: lenientStruct_def responseSpec_def boolField_def updatesField_def demo_updates_def updateSpec_def intField_def
      demo_update_def lower_byte_def split: option.split)

lemma counting_updates:
  "getUpdates counting_client ''t'' offset secs v =
     (Inr (Inr (case parseInt64 (demo_number (''/bott/getUpdates'' @ updatesQuery offset secs)) of
        None \<Rightarrow> [] | Some n \<Rightarrow> if n < 2 ^ 63 - 1 then [demo_update n] else [])), v)"
  by (simp add: getUpdates_def telegramCall_def counting_client_def demo_decoded bindE_def ret_def)

lemma counting_orderly: "orderly_updates counting_client ''t''"
  unfolding orderly_updates_def
proof (intro allI impI)
  fix offset secs v us v'
  assume o: "0 \<le> offset" and got: "getUpdates counting_client ''t'' offset secs v = (Inr (Inr us), v')"
  have range: "k = n" if "parseInt64 (formatInt n) = Some k" "0 \<le> n" for n k
  proof -
    obtain c cs where head: "formatNat (nat n) = c # cs" "is_digit c" using formatNat_head by blast
    moreover have "\<not> is_digit CHR ''-''" "\<not> is_digit CHR ''+''" by code_simp+
    ultimately have "c \<noteq> CHR ''-''" "c \<noteq> CHR ''+''" by auto
    then show ?thesis
      using that head parseDigits_formatNat [of "nat n"] by (auto simp: parseInt64_def formatInt_def split: if_splits)
  qed
  have "parseInt64 [] = None" by code_simp
  then have "\<forall>u\<in>set us. us = [u] \<and> offset \<le> tup_UpdateID u \<and> tup_UpdateID u < 2 ^ 63 - 1"
    using got o demo_number_url [of offset secs] range [of offset] range [of secs]
    by (cases "0 < offset"; cases "0 < secs") (auto simp: counting_updates demo_update_def split: option.splits if_splits)
  then show "orderly offset us" by (cases us) (auto simp: orderly_def)
qed

definition demo_operator :: "unit operator" where
  "demo_operator = \<lparr>op_bridge = None, op_sink = True, op_unmarshal = (\<lambda>_. None), op_lower = id, op_client = counting_client,
     op_config = \<lparr>ocf_DBPath = ''db'', ocf_BotName = ''ops'', ocf_AccountID = ''a'', ocf_Token = ''t'', ocf_AllowUserIDs = {7}\<rparr>\<rparr>"

lemma demo_outside: "outside_answers demo_operator"
  by (simp add: outside_answers_def demo_operator_def counting_client_def answering_ret)

lemma demo_loop:
  "\<exists>w'. runOperatorLoop 2 demo_operator (30 * second) 0 w = (Inr (32, [demo_update 30, demo_update 31]), w')"
proof -
  have urls: "demo_number (''/bott/getUpdates'' @ updatesQuery 0 30) = ''30''" "demo_number (''/bott/getUpdates'' @ updatesQuery 31 30) = ''31''"
    by code_simp+
  have numbers: "parseInt64 ''30'' = Some 30" "parseInt64 ''31'' = Some 31" by code_simp+
  have got: "getUpdates counting_client ''t'' 0 30 v = (Inr (Inr [demo_update 30]), v)"
    "getUpdates counting_client ''t'' 31 30 v = (Inr (Inr [demo_update 31]), v)" for v
    by (simp_all only: counting_updates urls numbers) simp_all
  have secs: "timeoutSeconds 30000000000 = 30" by (simp add: timeoutSeconds_def)
  have silent: "processTelegramUpdate demo_operator (demo_update n) v = (Inr (), v)" for n v
    by (simp add: processTelegramUpdate_def heardMessage_def demo_update_def ret_def)
  have offsets: "nextOffset 0 (demo_update 30) = 31" "nextOffset 31 (demo_update 31) = 32"
    by (simp_all add: nextOffset_def demo_update_def wrap64_def)
  have fields: "op_client demo_operator = counting_client" "ocf_Token (op_config demo_operator) = ''t''"
    by (simp_all add: demo_operator_def)
  show ?thesis
    by (simp add: numeral_2_eq_2 operatorRound_def onOutside_def onSecond_def fields secs got silent offsets
        bindE_def ret_def split: prod.split)
qed

section \<open>A dispatched turn\<close>

definition turn_input :: CreateHandoffInput where
  "turn_input = demo_input\<lparr>ci_TaskKind := TaskGeneric, ci_NeedsReview := False\<rparr>"

definition turn_dispatch :: DispatchHandoffInput where
  "turn_dispatch = \<lparr>di_HandoffID = ''hf_1'', di_Adapter = [], di_Target = ''agent:w'', di_Command = [], di_Args = [], di_Message = ''hi''\<rparr>"

definition dispatched_world :: "store world" where
  "dispatched_world = snd (DispatchHandoff None turn_dispatch (snd (CreateHandoff turn_input start_world)))"

definition turn_stored :: Handoff where
  "turn_stored = (newHandoff ''hf_1'' ''wf_0'' ''k'' turn_input (1000 * second))\<lparr>h_State := StateDispatched, h_StateVersion := 1,
     h_DeliveryTargetRef := ''agent:w'', h_ProducerActor := ActorOf ActorSystem ''workflow-controller'', h_SubjectActor := worker,
     h_CurrentOwner := worker, h_LastAuthoritativeEventID := ''evt_6'', h_UpdatedAt := 1001 * second\<rparr>"

lemma dispatched_facts:
  "w_faults dispatched_world = []" "map ev_ID (st_accepted (w_db dispatched_world)) = [''evt_6'']" "w_ids dispatched_world = 7"
  by code_simp+

lemma turn_handoffs: "st_handoffs (w_db dispatched_world) = [turn_stored]"
  by code_simp

lemma turn_stored_facts:
  "h_ID turn_stored = ''hf_1''" "h_WorkflowID turn_stored = ''wf_0''" "h_State turn_stored = StateDispatched"
  "h_DependsOnHandoffIDs turn_stored = []" "turn_handoff ''w'' turn_stored"
  by (simp_all add: turn_stored_def newHandoff_def turn_input_def demo_input_def worker_def turn_handoff_def requiresReview_def
      requiresArtifacts_def NoArtifactPolicy_def)

lemma turn_lookup: "find_by h_ID ''hf_1'' (st_handoffs (w_db dispatched_world)) = Some turn_stored"
  by (simp add: turn_handoffs turn_stored_facts)

lemma turn_reachable: "reachable (w_db dispatched_world)"
proof -
  obtain r w where r: "CreateHandoff turn_input start_world = (r, w)" by fastforce
  obtain r' w' where r': "DispatchHandoff None turn_dispatch w = (r', w')" by fastforce
  have "service_step (w_db start_world) (w_db w)" using r by (rule service_step.intros)
  moreover have "service_step (w_db w) (w_db w')" using r' by (rule service_step.intros)
  moreover have "w_db start_world = empty_store" "dispatched_world = w'" using r r' by (simp_all add: dispatched_world_def start_world_def)
  ultimately show ?thesis by (simp add: reachable_def converse_rtranclp_into_rtranclp)
qed

lemma steady_DispatchHandoff: "steady (DispatchHandoff None input)"
  unfolding DispatchHandoff_def LoadHandoff_def loadHandoffTx_def ensureHandoffDependenciesCompleted_def loadRelatedHandoffTx_def
    SaveHandoff_def saveHandoffExec_def saveOwnershipBindingExec_def SaveDispatchAttempt_def saveDispatchAttemptExec_def modify_def Let_def
    option.case
  by (intro steady_intros)

lemma turn_supplied: "supplied dispatched_world"
proof -
  let ?w = "snd (CreateHandoff turn_input start_world)"
  have sources: "w_uuid dispatched_world = w_uuid start_world" "w_clock dispatched_world = w_clock start_world"
    using steadyD(1,2) [OF steady_DispatchHandoff, of turn_dispatch ?w] steadyD(1,2) [OF steady_CreateHandoff, of turn_input start_world]
    by (metis prod.collapse dispatched_world_def)+
  have inj: "a = b" if "formatInt (int a) = formatInt (int b)" for a b
    using arg_cong [OF that, of parseDigits] by (simp add: formatInt_def parseDigits_formatNat)
  have six: "formatInt (int 6) = ''6''" by code_simp
  have used: "ev_ID ` set (st_accepted (w_db dispatched_world)) = {''evt_6''}"
    using dispatched_facts(2) by (metis list.set_map list.simps(15) set_empty empty_set)
  have "formatInt (int n) \<noteq> ''6''" if "7 \<le> n" for n using inj [of n 6] six that by auto
  then show ?thesis
    using inj by (auto simp: supplied_def sources start_world_def dispatched_facts used is_zero_def inj_on_def)
qed

definition agent_request :: DispatchRequest where
  "agent_request = \<lparr>dr_Command = [], dr_Args = [], dr_Target = ''agent:w'', dr_Message = ''hi'', dr_Payload = []\<rparr>"

definition turn_options :: OpenClawOptions where
  "turn_options = \<lparr>oc_Command = ''openclaw'', oc_Args = [], oc_Mode = ModeAgentTurn, oc_Timeout = 0\<rparr>"

definition turn_output :: json where
  "turn_output = JObject [(''run_id'', JString ''r''), (''result'', JObject [(''payloads'', JList [JObject [(''text'', JString ''done'')]])])]"

text \<open>The agent's process prints that output, whatever it is asked.\<close>

definition demo_agent_parse :: "string \<Rightarrow> json option" where
  "demo_agent_parse s = (if s = ''out'' then Some turn_output else None)"

definition demo_agent_process :: openclaw_run where
  "demo_agent_process = (\<lambda>command args input timeout. (''out'', None, False))"

lemma turn_process:
  "demo_agent_process (trimSpace (oc_Command turn_options)) (buildArgs (oc_Args turn_options) ModeAgentTurn agent_request) None
     (if 0 < oc_Timeout turn_options then Some (oc_Timeout turn_options) else None) = (''out'', None, False)"
  by (simp add: demo_agent_process_def)

lemma turn_trims: "trimSpace ''openclaw'' = ''openclaw''" "trimSpace ''out'' = ''out''" "trimSpace ''agent:w'' = ''agent:w''"
  "trimSpace ''w'' = ''w''" "trimSpace ''done'' = ''done''" "trimSpace ''r'' = ''r''" "trimSpace [] = []"
  by (simp_all add: trimSpace_visible visible_char_def)

lemma turn_external: "extractExternalID demo_agent_parse hd ''out'' = ''r''"
  by (simp add: extractExternalID_def turn_trims demo_agent_parse_def turn_output_def idKeys_def firstText_def Let_def)

lemma turn_accepted:
  obtains out where "OpenClawDispatch id demo_agent_parse hd (Some demo_agent_process) turn_options agent_request = Inr out"
    and "ao_Status out = TransportAccepted"
proof -
  have "normalizedMode id ModeAgentTurn = Inr ModeAgentTurn" by (simp add: normalizedMode_def mode_defs)
  then show thesis
    using that turn_external
    by (simp add: OpenClawDispatch_def turn_options_def turn_trims outputOf_def demo_agent_process_def)
qed

lemma turn_reply: "extractReplyText demo_agent_parse ''out'' = ''done''"
  by (simp add: extractReplyText_def demo_agent_parse_def turn_output_def replySpec_def lenientStruct_def payloadTextsField_def
      textField_def lower_byte_def firstText_def turn_trims)

lemma turn_agent: "turn_handoff (normalizeDispatchLifecycleAgent (agentTarget (dr_Target agent_request))) turn_stored"
proof -
  have "trimPrefix ''agent:w'' ''agent:'' = ''w''" "trimPrefix ''w'' ''agent:'' = ''w''" by code_simp+
  then have "normalizeDispatchLifecycleAgent (agentTarget (dr_Target agent_request)) = ''w''"
    by (simp add: normalizeDispatchLifecycleAgent_def agentTarget_def agent_request_def turn_trims)
  then show ?thesis using turn_stored_facts(5) by simp
qed

lemma turn_deps: "deps_done (w_db dispatched_world) turn_stored"
  by (simp add: deps_done_def turn_stored_facts)

end
