(* ===== verification/Spec2Isabelle.thy ===== *)
theory Spec2Isabelle
  imports Orch_Demo Tool_Demo Swarm_Demo Operator_Demo
begin

text \<open>
  A verification library for this repository. The orchestrator
  (\<open>internal/orchestrator\<close>) hands work from actor to actor, stores every handoff with the events
  reported about it in SQLite, and answers which work is next. The sender (the root package)
  queues Telegram messages in SQLite, accepts them over HTTP and delivers them with a worker. The
  tool calls of agents (\<open>internal/toolserver\<close>, \<open>internal/openclawevents\<close>) and the A2A server
  (\<open>internal/a2aserver\<close>) are the two interfaces through which the orchestrator is used. The delivery
  client (\<open>internal/a2adelivery\<close>) sends through the sender's HTTP interface, and the swarm driver
  (\<open>internal/swarmdriver\<close>) asks the orchestrator for work, has agents do it over that client, and
  reports their progress back. \<open>internal/openclawdispatch\<close> is the command with which the orchestrator
  starts an agent, and the Telegram operator (\<open>cmd/clawside-telegram-operator\<close>) the bot through which
  people approve work and agents report results.

  Parts and theories.
  \<^item> \<open>Prelude\<close>: Go errors as values, operations as state passing over a world (database, fault
    plan of the SQL statements, source of identifiers, clock), transactions, the calculus
    \<open>guarantees\<close> for what holds after success and after an error, tables, and the interfaces
    \<open>guarded_machine\<close> and \<open>keyed_ledger\<close>.
  \<^item> \<open>Go_Text\<close>, \<open>Go_Time\<close>: the parts of \<open>strings\<close>, \<open>strconv\<close> and \<open>time\<close> the code uses, on strings of
    bytes and instants in nanoseconds.
  \<^item> \<open>Orch_Types\<close>: \<open>types.go\<close>, \<open>protocol.go\<close>, \<open>ownership.go\<close>. \<open>Orch_StateMachine\<close>: \<open>state_machine.go\<close>,
    one definition per case of \<open>Apply\<close>. \<open>Orch_Signals\<close>: \<open>ids.go\<close>, \<open>signals.go\<close>, \<open>repair.go\<close>,
    \<open>workflow_projection.go\<close>. \<open>Orch_Store\<close>: \<open>store.go\<close>, every statement on lists of rows with its
    constraints. \<open>Orch_Service\<close>, \<open>Orch_Repair\<close>, \<open>Orch_Work\<close>: \<open>service.go\<close>, \<open>protocol_service.go\<close>,
    \<open>openclaw_adapter.go\<close>, \<open>watchdog.go\<close>.
  \<^item> \<open>Orch_Template\<close>: \<open>collaboration_template.go\<close> (the payload hash is a parameter) with the reading of
    the catalogue the builders follow. \<open>Orch_Evidence\<close>: \<open>evidence_summary.go\<close> and what it counts.
  \<^item> \<open>Orch_Lifecycle\<close>, \<open>Orch_Completion\<close>: the invariant of a handoff, the abstract lifecycle the
    machine refines, the exact acceptance condition, the evidence behind each progress flag,
    replay, and which handoffs can still be completed (\<open>machine_next\<close> is the machine after one
    event, \<open>run\<close> after many).
  \<^item> \<open>Orch_Invariant\<close>, \<open>Orch_Safety\<close>, \<open>Orch_History\<close>, \<open>Orch_Contracts\<close>, \<open>Orch_Reach\<close>: the invariant of the
    store, its preservation by each operation, the growth of the history, the effect of each
    operation on every branch, and the reachable stores.
  \<^item> \<open>Orch_Queue\<close>: what the work queues answer. \<open>Orch_Progress\<close>: what always succeeds without
    faults. \<open>Orch_Actions\<close>: reporting a step through \<open>ApplyProtocolAction\<close> is recorded exactly when
    the machine accepts it, in a \<open>supplied\<close> world (no faults, fresh identifiers, a set clock).
    \<open>Orch_Demo\<close>: a concrete run for the instances of the properties.
  \<^item> \<open>Sender_Store\<close>: \<open>store.go\<close>, \<open>runtime_state.go\<close>. \<open>Sender_Service\<close>: \<open>send_service.go\<close> with its
    errors, the Telegram client and the retry policy. \<open>Sender_Worker\<close>: \<open>worker.go\<close>. \<open>Sender_Http\<close>:
    \<open>job_query_service.go\<close>, \<open>http_handler.go\<close>. \<open>Sender_Config\<close>: \<open>config.go\<close>.
  \<^item> \<open>Sender_Contracts\<close>, \<open>Sender_Delivery\<close>: the results of the operations without faults, the
    specification of a round and its refinement by \<open>ProcessNextAt\<close>. \<open>Sender_Safety\<close>: the
    transition system, one writing statement of any handler, worker or recovery per step, with
    its invariant by rule induction. \<open>Sender_Runs\<close>: every operation is a run of it.
    \<open>Sender_Submit\<close>: \<open>Submit\<close> as a ledger keyed by the idempotency key. \<open>Sender_Drain\<close>: the attempts
    left as a measure of the queue. \<open>Sender_Redaction\<close>, \<open>Sender_Views\<close>: what is shown and what HTTP
    may change. \<open>Sender_Demo\<close>: a concrete sender.
  \<^item> \<open>Tool_Handlers\<close>: \<open>handlers.go\<close> and \<open>bridge.go\<close>, every tool call on the orchestrator.
    \<open>Tool_Sender\<close>: its calls on the sender's client and on the table of executions.
    \<open>Tool_Reach\<close>: tool calls as runs of the orchestrator, with the interface \<open>moving_system\<close> of a
    system whose steps are runs of another. \<open>Tool_Contracts\<close>: what event ingestion and the result
    of an agent turn do on every branch. \<open>Tool_Demo\<close>: concrete calls.
  \<^item> \<open>A2a_Text\<close>: the checks of texts and the sanitizer. \<open>A2a_Handler\<close>: \<open>handler.go\<close>, \<open>types.go\<close>,
    from the HTTP request to the answer, with \<open>encoding/json\<close>'s decoding into structs.
    \<open>A2a_Contracts\<close>: who is answered what, which requests write. \<open>A2a_Tasks\<close>: creating, reading,
    cancelling and streaming a task.
  \<^item> \<open>Delivery_Client\<close>: \<open>mapping.go\<close>, \<open>context.go\<close>. \<open>Delivery_Bridge\<close>: \<open>client.go\<close>, \<open>poll.go\<close>, \<open>bridge.go\<close>.
    \<open>Delivery_Contracts\<close>: the interface \<open>transport\<close> (an HTTP exchange that always answers and never
    turns the clock back) with the verdict of a delivery and why polling ends. \<open>Delivery_Sender\<close>:
    the modelled sender as such a transport, so that client and sender compose.
  \<^item> \<open>Swarm_Driver\<close>, \<open>Swarm_Run\<close>: \<open>progress.go\<close>, \<open>runner.go\<close>, \<open>daemon.go\<close>, \<open>fake_adapter.go\<close>.
    \<open>Swarm_Store\<close>: \<open>telegram_execution_store.go\<close> with its invariant. \<open>Swarm_Contracts\<close>: the interface
    \<open>agent_adapter\<close> of what an agent may do, and what a run does and says. \<open>Swarm_Telegram\<close>:
    \<open>telegram_adapter.go\<close>. \<open>Swarm_Asks\<close>: what an execution changes, and that work is sent once.
    \<open>Swarm_Progress\<close>: when the driver's step is recorded and that its steps lead to completion.
    \<open>Swarm_Demo\<close>: a delivery, an execution and a run in a concrete world.
  \<^item> \<open>Go_Words\<close>: words, cutting and replacing of \<open>strings\<close>. \<open>OpenClaw_Dispatch\<close>: \<open>dispatch.go\<close> and the call
    of it in \<open>cmd/openclaw-dispatch\<close>, what is read from the output, and that the events of a turn are
    recorded by the orchestrator up to the end of the handoff.
  \<^item> \<open>Operator_Commands\<close>: the commands of \<open>operator.go\<close> with their answers, and which texts are commands.
    \<open>Operator_Telegram\<close>: \<open>config.go\<close>, \<open>telegram.go\<close>. \<open>Operator_Loop\<close>: \<open>agent_bridge.go\<close> and the rest of
    \<open>operator.go\<close>. \<open>Operator_Contracts\<close>: what a message may change, that the loop goes on and handles
    no update twice. \<open>Operator_Demo\<close>: a Telegram, an operator and an agent's turn in concrete worlds.

  How the model corresponds to the code. A table is the list of its rows, a row the struct
  that the code writes and scans back (its JSON and text columns decode to what was encoded:
  for times this is proved). Every SQL statement consumes one entry of the fault plan and may
  fail there, so each \<open>if err != nil\<close> is a branch; \<open>BeginTx\<close>, \<open>Rollback\<close> and \<open>Commit\<close> are
  \<open>in_tx\<close>. \<open>ORDER BY\<close> on a time column compares the text, as SQLite does. The external dispatch
  command, the HTTP exchange with Telegram, the JSON and TOML texts, \<open>time.Parse\<close>,
  \<open>time.ParseDuration\<close>, SHA-256, the lower case of letters beyond ASCII and the address parsing of
  \<open>net\<close> are parameters. A call of the orchestrator's service is one atomic
  step of the transition system of \<open>Orch_Reach\<close>; in the sender a step is one statement. A world
  that holds several databases is the pair of them (\<open>onFirst\<close>, \<open>onSecond\<close>). Go ranges over a map in no
  order: the order is that of a list, or \<open>pick\<close> is the value that comes first.

  Bounds. Every loop runs over a list, the worker's loop is its first \<open>n\<close> rounds, the daemon's
  its first ticks and the operator's its first polls; a run of the driver is bounded by its own \<open>MaxRounds\<close>. Only the loop of \<open>PollJob\<close>
  has fuel, since it ends by the clock: \<open>delivery_ends\<close> shows that when time passes there is a fuel
  from which on the answer is the same; \<open>ErrFuel\<close> and \<open>None\<close> stand for too little of it.

  Not modelled: the command line tools under \<open>cmd\<close> (flags, processes, smoke checks and the extraction of evidence from
  logs) except the Telegram operator, with \<open>configbuilder\<close> and \<open>openclawtrajectory\<close>, which only they use; the
  operator's log and its wait after an error;
  opening and migrating the databases, start-up and shutdown of the processes, deadlines and
  cancellation of contexts, failures of \<open>json.Marshal\<close> on payloads, the quoting of the value in the
  error text of \<open>dispatchLifecycleProtocolAction\<close>, and the rounding of \<open>Duration.Seconds\<close> to \<open>float64\<close>.
\<close>

section \<open>Reachable stores\<close>

text \<open>
  C1. Whatever sequence of service calls is made, with any faults of the database, any clock
  and any identifiers, the store keeps its invariant: unique keys, resolved references, one
  accepted event per idempotency key, an ownership binding that agrees with each handoff,
  handoffs whose progress is backed by effective events, and repairs that only invalidate
  accepted events.
\<close>

theorem reachable_store_inv: "reachable d \<Longrightarrow> store_inv d"
  by (rule reachable_inv)

theorem reachable_store_inv_witness:
  "reachable (w_db created_world) \<and> store_inv (w_db created_world)"
  using created_reachable reachable_store_inv [OF created_reachable] by simp

text \<open>
  C2. A handoff that a reachable store reports as completed has the whole history behind it:
  accepted events that no repair has invalidated show that it was received, claimed, started,
  checkpointed and completed, that it was submitted where its kind requires it, and that a
  reviewer approved it where it requires review; the required artifacts are there.
\<close>

theorem completed_has_evidence:
  assumes "reachable d" and "h \<in> set (st_handoffs d)" and "h_State h = StateCompleted"
  shows "{EventReceived, EventClaimed, EventStarted, EventCheckpointed, EventCompleted}
           \<subseteq> ev_Type ` effective d (h_ID h)
    \<and> (requiresSubmitted h \<longrightarrow> EventSubmitted \<in> ev_Type ` effective d (h_ID h))
    \<and> (requiresArtifacts h \<longrightarrow> requiredArtifactCount h \<le> h_ArtifactCount h)
    \<and> (requiresReview h \<longrightarrow> (\<exists>e\<in>effective d (h_ID h).
         ev_Type e = EventReviewed \<and> ev_ReviewDecision e = ReviewDecisionApproved))"
proof -
  have "backed d h"
    using reachable_inv [OF assms(1)] assms(2) by (simp add: store_inv_def inv_but_def projections_ok_def)
  with assms(3) have "evidenced (\<lambda>_. True) h (effective d (h_ID h))" "validateCompletionPrereqs h = None"
    by (simp_all add: backed_def lifecycle_wf_def state_flags_def)
  with assms(3) show ?thesis by (auto simp: evidenced_def prereqs_None reviewed_in_def)
qed

theorem completed_has_evidence_witness:
  "\<exists>d h. reachable d \<and> h \<in> set (st_handoffs d) \<and> h_State h = StateCompleted
     \<and> EventCompleted \<in> ev_Type ` effective d (h_ID h)"
proof -
  obtain d h where d: "reachable d" "find_by h_ID ''hf_1'' (st_handoffs d) = Some h" "h_State h = StateCompleted"
    by (rule completed_reachable)
  then have "h \<in> set (st_handoffs d)" using find_by_Some [OF d(2)] by simp
  with d(1,3) completed_has_evidence [OF d(1) this d(3)] show ?thesis by blast
qed

text \<open>
  C3. History is append-only: no service call removes or rewrites an accepted event, an audit
  row, a repair, a signal, a repair candidate, a divergence, an idempotency record or an
  artifact, and no attempt, handoff or workflow disappears.
\<close>

theorem history_append_only: "service_step d d' \<Longrightarrow> history_le d d'"
  by (rule service_step_history)

theorem history_append_only_witness:
  "history_le (w_db start_world) (w_db created_world) \<and> length (st_handoffs (w_db created_world)) = 1"
proof -
  have "service_step (w_db start_world) (w_db created_world)"
    unfolding created_world_def by (rule service_step.intros(2)) (rule prod.collapse [symmetric])
  then show ?thesis using history_append_only created_handoffs by simp
qed

section \<open>Recording events\<close>

text \<open>
  C4. \<open>RecordAuthoritativeEvent\<close> is all or nothing. An error leaves the store as it was. Without
  an error the event names a stored handoff and either the state machine accepts it, and
  exactly the event and the new projection of that one handoff (with its ownership binding)
  are written; or the machine rejects it, the reason is the answered error, and exactly one
  audit row is added.
\<close>

theorem record_event_atomic:
  assumes "reachable (w_db w)"
  shows "case RecordAuthoritativeEvent e w of
      (Inl err, w') \<Rightarrow> w_db w' = w_db w
    | (Inr res, w') \<Rightarrow> record_outcome (w_db w) res (w_db w')"
  using record_contract [OF reachable_inv [OF assms], of e]
  by (simp add: guarantees_def)

theorem record_event_atomic_witness:
  "case RecordAuthoritativeEvent (demo_event EventReceived) created_world of
      (Inl err, w') \<Rightarrow> w_db w' = w_db created_world
    | (Inr res, w') \<Rightarrow> record_outcome (w_db created_world) res (w_db w')"
  by (rule record_event_atomic [OF created_reachable])

text \<open>
  C5. From every reachable store, a handoff with a receiver and a reviewer that is not doomed
  (failed, expired, or reviewed beyond repair) can be brought to completion: there are events
  that the service records one after the other without a refusal, in every world without
  database faults, and that leave the handoff completed.
\<close>

theorem service_completes:
  assumes "reachable d" and "find_by h_ID i (st_handoffs d) = Some m" and "ready m"
    and "\<not> doomed m" and "h_WorkflowID m \<noteq> []"
  shows "\<exists>es. \<forall>w. w_db w = d \<and> w_faults w = [] \<longrightarrow>
    (\<exists>w' h. record_all es w = (Inr (), w') \<and> find_by h_ID i (st_handoffs (w_db w')) = Some h
       \<and> h_State h = StateCompleted)"
  using service_can_complete [OF reachable_inv [OF assms(1)] assms(2-5)]
  unfolding delivers_def by (metis old.unit.exhaust)

theorem service_completes_witness:
  "\<exists>es w' h. record_all es created_world = (Inr (), w')
     \<and> find_by h_ID ''hf_1'' (st_handoffs (w_db w')) = Some h \<and> h_State h = StateCompleted"
  using service_completes [OF created_reachable created_lookup demo_ready(1-3)] created_faults by blast

section \<open>The lifecycle\<close>

text \<open>
  C6. The exact acceptance condition of the state machine: an event that is not a transport
  result is accepted if and only if the lifecycle has an edge for it, its side condition
  holds, and the reporting actors have the authority for it.
\<close>

theorem acceptance_condition:
  assumes "lifecycle_wf m" and "\<not> transportResult (ev_Type e)"
  shows "accepts m e \<longleftrightarrow> (\<exists>s. lifecycle (h_State m) (ev_Type e) s)
     \<and> side_condition m e (ev_Type e) \<and> authority m e (ev_Type e)"
  by (rule accepts_exactly [OF assms])

theorem acceptance_condition_witness:
  "accepts demo_handoff (demo_event EventReceived) \<and> \<not> accepts demo_handoff (demo_event EventClaimed)"
proof -
  have wf: "lifecycle_wf demo_handoff" using demo_ready(1) by (simp add: ready_def)
  have "\<not> lifecycle StateCreated EventClaimed s" for s by (auto elim: lifecycle.cases)
  moreover have "h_State demo_handoff = StateCreated" by (simp add: demo_handoff_def newHandoff_def)
  moreover have "side_condition demo_handoff (demo_event EventReceived) EventReceived
      \<and> authority demo_handoff (demo_event EventReceived) EventReceived"
    by (simp add: demo_handoff_def newHandoff_def demo_input_def demo_event_def named_authority_def
        missingActor_def sameRole_def worker_def ActorOf_def)
  ultimately show ?thesis
    using acceptance_condition [OF wf, of "demo_event EventReceived"]
      acceptance_condition [OF wf, of "demo_event EventClaimed"] lifecycle.receive_direct
    by (auto simp: demo_event_def)
qed

text \<open>
  C7. The state machine refines the abstract lifecycle: an accepted transport result changes
  nothing, any other accepted event follows an edge and raises the version by exactly one.
\<close>

theorem lifecycle_refinement:
  assumes "lifecycle_wf m" and "accepts m e"
  shows "if transportResult (ev_Type e)
         then machine_next m e = m
         else lifecycle (h_State m) (ev_Type e) (h_State (machine_next m e))
              \<and> h_StateVersion (machine_next m e) = h_StateVersion m + 1"
  by (rule accepted_step_refines [OF assms])

theorem lifecycle_refinement_witness:
  "lifecycle (h_State demo_handoff) EventReceived (h_State (machine_next demo_handoff (demo_event EventReceived)))"
proof -
  have "lifecycle_wf demo_handoff" using demo_ready(1) by (simp add: ready_def)
  moreover have "accepts demo_handoff (demo_event EventReceived)" by code_simp
  ultimately show ?thesis using lifecycle_refinement [of demo_handoff "demo_event EventReceived"]
    by (simp add: demo_event_def)
qed

text \<open>
  A handoff with a receiver and a reviewer can still be completed if and only if it is not
  doomed: it has neither failed nor expired, and a review did not leave it in a state that no
  event can complete (any final decision but an approval of a handoff that requires review and
  has its artifacts).
\<close>

proposition completable_condition: "ready m \<Longrightarrow> completable m \<longleftrightarrow> \<not> doomed m"
  by (rule completable_iff)

theorem completable_condition_witness: "completable demo_handoff"
  using completable_condition [OF demo_ready(1)] demo_ready(2) by simp

text \<open>
  Completed, failed and expired handoffs are final: no sequence of events changes anything.
\<close>

proposition final_states_absorbing:
  "lifecycle_wf m \<Longrightarrow> final_state (h_State m) \<Longrightarrow> run m es = m"
  by (rule run_final)

theorem final_states_absorbing_witness:
  "run (demo_handoff\<lparr>h_State := StateFailed\<rparr>) [demo_event EventReceived] = demo_handoff\<lparr>h_State := StateFailed\<rparr>"
  by (rule final_states_absorbing)
    (simp_all add: lifecycle_wf_def flag_chain_def state_flags_def demo_handoff_def newHandoff_def)

text \<open>
  C8. Replaying events does not depend on the order in which they are handed over, as long as
  their identifiers differ.
\<close>

theorem replay_order_irrelevant:
  assumes "mset es = mset es'" and "distinct (map ev_ID es)"
  shows "Replay m es = Replay m es'"
  by (rule Replay_permutation [OF assms])

theorem replay_order_irrelevant_witness:
  "Replay demo_handoff [demo_event EventReceived, (demo_event EventClaimed)\<lparr>ev_ID := ''f''\<rparr>]
   = Replay demo_handoff [(demo_event EventClaimed)\<lparr>ev_ID := ''f''\<rparr>, demo_event EventReceived]"
  by (rule replay_order_irrelevant) (simp_all add: demo_event_def)

text \<open>
  Replay is incremental: an event that comes last in time order adds one machine step to
  the replay of the events before it.
\<close>

proposition replay_incremental:
  assumes "sorted (map event_key (es @ [e]))"
  shows "fst (Replay m (es @ [e])) = machine_next (fst (Replay m es)) e"
  by (rule Replay_snoc [OF assms])

theorem replay_incremental_witness:
  "fst (Replay demo_handoff ([] @ [demo_event EventReceived]))
   = machine_next (fst (Replay demo_handoff [])) (demo_event EventReceived)"
  by (rule replay_incremental) simp

section \<open>Creating handoffs\<close>

text \<open>
  C9. Idempotent creation. An error changes nothing. If a creation was recorded under the key,
  the answer is a replay: the payload hash is the recorded one, the recorded workflow and
  handoff are returned as they are now, and nothing is written. Otherwise the key is recorded
  with the payload hash for the new handoff, which is stored in its initial state with the
  inbound artifacts counted.
\<close>

theorem idempotent_creation:
  "case CreateHandoffIdempotent input w of
      (Inl err, w') \<Rightarrow> w_db w' = w_db w
    | (Inr res, w') \<Rightarrow> creation_outcome (w_db w) input res (w_db w')"
  using CreateHandoffIdempotent_contract [of input "w_db w"] by (simp add: guarantees_def)

text \<open>
  An idempotency record is for ever: whatever service calls follow, the key answers the
  same workflow, handoff and payload hash.
\<close>

proposition idempotency_stable:
  assumes "service_step\<^sup>*\<^sup>* d d'" and "creation_of d k = Some r"
  shows "creation_of d' k = Some r"
  by (rule creation_stays [OF assms])

theorem idempotency_stable_witness:
  "creation_of (w_db (snd (CreateHandoff demo_input keyed_world))) ''k'' = Some keyed_record"
proof (rule idempotency_stable [OF r_into_rtranclp])
  show "service_step (w_db keyed_world) (w_db (snd (CreateHandoff demo_input keyed_world)))"
    by (rule service_step.intros(2)) (rule prod.collapse [symmetric])
  show "creation_of (w_db keyed_world) ''k'' = Some keyed_record"
    by (simp add: creation_of_def keyed_world_def keyed_record_def)
qed

text \<open>
  \<open>CreateHandoff\<close> writes the workflow, its root handoff in the initial state and the three
  default watches, all for the new handoff and active, or nothing at all.
\<close>

proposition create_handoff_atomic:
  "case CreateHandoff input w of
      (Inl err, w') \<Rightarrow> w_db w' = w_db w
    | (Inr res, w') \<Rightarrow> creates_root (w_db w) input res (w_db w')"
  using CreateHandoff_contract [of input "w_db w"] by (simp add: guarantees_def)

section \<open>Repairs and signals\<close>

text \<open>
  Invalidating an accepted event removes exactly that event from the effective events of
  its handoff, keeps the event itself on record, and stores the replay of the remaining
  events as the handoff's projection; on an error nothing changes.
\<close>

proposition invalidate_event:
  assumes "reachable (w_db w)"
  shows "case InvalidateEvent i why actor w of
      (Inl err, w') \<Rightarrow> w_db w' = w_db w
    | (Inr res, w') \<Rightarrow> invalidated (w_db w) i (w_db w')"
proof -
  have "distinct (map h_ID (st_handoffs (w_db w)))"
    using reachable_inv [OF assms] by (simp add: store_inv_def inv_keys)
  then show ?thesis using InvalidateEvent_contract [of "w_db w" i why actor] by (simp add: guarantees_def)
qed

theorem invalidate_event_witness:
  "case InvalidateEvent ''e'' [] worker created_world of
      (Inl err, w') \<Rightarrow> w_db w' = w_db created_world
    | (Inr res, w') \<Rightarrow> invalidated (w_db created_world) ''e'' (w_db w')"
  by (rule invalidate_event [OF created_reachable])



text \<open>
  A signal is never progress: recording one adds one signal row and otherwise touches only
  the audit, the divergences and the repair candidates, never a workflow, a handoff, an
  accepted event, a watch or a repair; on an error nothing changes.
\<close>

proposition signals_are_not_progress:
  "case RecordObservedSignal e hint w of
      (Inl err, w') \<Rightarrow> w_db w' = w_db w
    | (Inr res, w') \<Rightarrow> signals_only (w_db w) (w_db w')
        \<and> (\<exists>s. st_signals (w_db w') = st_signals (w_db w) @ [s])"
  using signal_contract [of e hint "w_db w"] by (simp add: guarantees_def)

text \<open>
  The optimistic write: a projection computed from an outdated version is never stored.
\<close>

proposition stale_projection_refused:
  assumes "find_by h_ID (h_ID h) (st_handoffs (w_db w)) = Some old" and "h_StateVersion old \<noteq> v"
    and "distinct (map h_ID (st_handoffs (w_db w)))"
  shows "\<exists>err w'. saveProjectedHandoffTx h v w = (Inl err, w') \<and> w_db w' = w_db w"
proof -
  obtain r w' where r: "saveProjectedHandoffTx h v w = (r, w')" by fastforce
  show ?thesis
  proof (cases r)
    case (Inl err)
    with r have "w_db w' = w_db w" by (intro guaranteesD(1) [OF stale_write [OF assms]]) simp
    with r Inl show ?thesis by blast
  next
    case (Inr u)
    with r have False by (intro guaranteesD(2) [OF stale_write [OF assms]]) simp
    then show ?thesis ..
  qed
qed

theorem stale_projection_refused_witness:
  "\<exists>err w'. saveProjectedHandoffTx demo_handoff 7 created_world = (Inl err, w') \<and> w_db w' = w_db created_world"
  by (rule stale_projection_refused [where old = demo_handoff])
    (simp_all add: created_handoffs, simp add: demo_handoff_def newHandoff_def)

section \<open>Work queues\<close>

text \<open>
  C11. \<open>NextWork\<close> only reads, and answers, in the order of its key and cut at its limit, exactly
  the selected handoffs whose dependencies are completed, whose reminded watches have been
  answered and that have a reviewer if they need one, each with its stored workflow.
\<close>

theorem next_work_exact:
  assumes "reachable (w_db w)"
  shows "case NextWork q w of
      (Inl err, w') \<Rightarrow> w_db w' = w_db w
    | (Inr items, w') \<Rightarrow> w_db w' = w_db w \<and> next_outcome (w_db w) q items"
  using NextWork_contract [OF reachable_inv [OF assms], of q] by (simp add: guarantees_def)

theorem next_work_exact_witness:
  "case NextWork all_work created_world of
      (Inl err, w') \<Rightarrow> w_db w' = w_db created_world
    | (Inr items, w') \<Rightarrow> w_db w' = w_db created_world \<and> next_outcome (w_db created_world) all_work items"
  by (rule next_work_exact [OF created_reachable])

text \<open>
  \<open>BlockedWork\<close> only reads, and its answer, before its limit, names every selected handoff
  that \<open>NextWork\<close> leaves out, only selected handoffs, and at least one reason for each.
\<close>

proposition blocked_work_complete:
  assumes "reachable (w_db w)"
  shows "case BlockedWork q w of
      (Inl err, w') \<Rightarrow> w_db w' = w_db w
    | (Inr items, w') \<Rightarrow> w_db w' = w_db w \<and> blocked_outcome (w_db w) q items"
  using BlockedWork_contract [OF reachable_inv [OF assms], of q] by (simp add: guarantees_def)

theorem blocked_work_complete_witness:
  "case BlockedWork (all_work\<lparr>wq_Limit := 3\<rparr>) created_world of
      (Inl err, w') \<Rightarrow> w_db w' = w_db created_world
    | (Inr items, w') \<Rightarrow> w_db w' = w_db created_world \<and> blocked_outcome (w_db created_world) (all_work\<lparr>wq_Limit := 3\<rparr>) items"
  by (rule blocked_work_complete [OF created_reachable])

text \<open>
  The projected status of a workflow is a function of its required handoffs alone: active
  without any, failed if one has failed or expired, blocked if one has an open dependency,
  completed if all are completed, active otherwise. A completed workflow was completed when
  the last of them was, any other has no completion time.
\<close>

proposition workflow_projection:
  "wf_Status (ProjectWorkflow w hs now) = projected_status hs
   \<and> wf_CompletedAt (ProjectWorkflow w hs now) =
       (if projected_status hs = WorkflowCompleted then latest_of (completions (required_of hs)) else None)"
  using ProjectWorkflow_status [of w hs now] ProjectWorkflow_completed [of w hs now] ProjectWorkflow_open [of w hs now]
  by simp

section \<open>Texts\<close>



text \<open>
  Inside one second the order of the texts is not the order of time: the text of the whole
  second sorts after every later instant of that second.
\<close>

proposition time_text_disorder:
  assumes "0 < n" and "n < second"
  shows "s * second < s * second + n \<and> formatTime (s * second + n) < formatTime (s * second)"
  using assms whole_second_sorts_last [OF assms, of s] by simp

theorem time_text_disorder_witness:
  "formatTime (second + 1) < formatTime second"
  using time_text_disorder [of 1 1] by simp

section \<open>The sender\<close>

text \<open>
  C13. Whatever HTTP requests arrive, whatever Telegram answers, however the statements of
  handlers, workers and recoveries interleave and fail: the queue keeps its invariant. Job
  identifiers and idempotency keys are unique, attempts stay within the limit of 1 to 5, a job
  that may still be sent has an attempt left, only held jobs have a lease, only sent jobs a
  sending time.
\<close>

theorem sender_invariant:
  assumes "queue_reachable (w_db w, js)" and "sender_op ul decode h e w = (res, w')"
  shows "queue_reachable (w_db w', js) \<and> sender_inv (w_db w', js)"
proof -
  have "queue_step\<^sup>*\<^sup>* (w_db w, js) (w_db w', js)" by (rule movesD [OF moves_sender_op assms(2)])
  with assms(1) have "queue_reachable (w_db w', js)" unfolding queue_reachable_def by (rule rtranclp_trans)
  then show ?thesis using queue_reachable_inv by blast
qed

theorem sender_invariant_witness:
  "\<exists>w'. sender_inv (w_db w', []) \<and>
     w' = snd (sender_op ascii_lower (\<lambda>_. None) (NewHTTPHandler demo_bots [] 2 ''s'' None) (Rounds 3 demo_worker) (sender_world queued))"
  using sender_invariant [of "sender_world queued" "[]" ascii_lower "\<lambda>_. None" "NewHTTPHandler demo_bots [] 2 ''s'' None"
      "Rounds 3 demo_worker", OF _ prod.collapse [symmetric]] queued_reachable
  by (simp add: sender_world_def)

text \<open>
  A job that was enqueued stays in the queue with its message, its limit and its key, and
  once it is sent or failed its row never changes again.
\<close>

proposition sender_jobs_persist:
  assumes "queue_reachable q" and "queue_step\<^sup>*\<^sup>* q q'" and "r \<in> set (sn_jobs (fst q))"
  shows "\<exists>r'\<in>set (sn_jobs (fst q')). message_of r' = message_of r
    \<and> (row_status r = StatusSent \<or> row_status r = StatusFailed \<longrightarrow> r' = r)"
  using queue_steps_keep [OF assms(2) queue_reachable_inv [OF assms(1)] assms(3)]
  by (auto simp: keeps_row_def settled_def)

theorem sender_jobs_persist_witness:
  "\<exists>r'\<in>set (sn_jobs queued). message_of r' = message_of queued_row"
  using sender_jobs_persist [OF queued_reachable rtranclp.rtrancl_refl, of queued_row] by (auto simp: queued_rows)

text \<open>
  C14. A round of the worker, without faults, is its specification: the claimable job with the
  least identifier is claimed, sent, and its row becomes what the answer of Telegram decides;
  with nothing claimable nothing happens.
\<close>

theorem process_next_exact:
  assumes "w_faults w = []"
  shows "ProcessNextAt k now w = (case first_claimable now (sn_jobs (w_db w)) of
      None \<Rightarrow> (Inr False, w)
    | Some r \<Rightarrow> (Inr True, w\<lparr>w_db := processed k now r (w_db w)\<rparr>))
  \<and> (case first_claimable now rows of
      None \<Rightarrow> \<forall>x\<in>set rows. \<not> claimable now x
    | Some r \<Rightarrow> r \<in> set rows \<and> claimable now r \<and> (\<forall>x\<in>set rows. claimable now x \<longrightarrow> row_id r \<le> row_id x))"
  using ProcessNextAt_free [OF assms, of k now] first_claimable_Some [of now rows] first_claimable_None [of now rows]
  by (auto split: option.split)

theorem process_next_exact_witness:
  "ProcessNextAt demo_worker 0 (sender_world queued) =
     (Inr True, (sender_world queued)\<lparr>w_db := processed demo_worker 0 queued_row queued\<rparr>)"
  using process_next_exact [of "sender_world queued" demo_worker 0 "[]"] queued_claim [of 0]
  by (simp add: sender_world_def)

text \<open>
  A settlement, without faults, succeeds exactly when the job is being sent and then
  updates that row; otherwise it changes nothing and reports the job unknown, already settled or
  given back (a conflict), or not yet claimed. The claim itself is not compared, so the
  settlement of an earlier claim of the same job succeeds too.
\<close>

proposition settlement_contract:
  assumes "queue_reachable (w_db w, js)" and "w_faults w = []"
  shows "MarkSent i (n + 1) t w = settlement ''mark job as sent'' i (deliver_row t n Delivered) w
    \<and> MarkRetry i (n + 1) (t + d) e t w = settlement ''mark job as retry'' i (deliver_row t n (Postponed d e)) w
    \<and> MarkFailed i (n + c) e t w = settlement ''mark job as failed'' i (deliver_row t n (Rejected c e)) w"
proof -
  have settle: "settle l i f w = settlement l i f w" for l i f
    using queue_reachable_inv [OF assms(1)] by (intro settle_free [OF assms(2)]) (simp add: sender_inv_def row_ok_def)
  show ?thesis unfolding MarkSent_def MarkRetry_def MarkFailed_def deliver_row_funs settle by simp
qed

theorem settlement_contract_witness:
  "MarkSent 1 1 0 (sender_world queued) =
     (Inl (ErrorWrap ''mark job as sent'' ErrInvalidTransition), sender_world queued)"
  using settlement_contract [of "sender_world queued" "[]" 1 0 0] queued_reachable
  by (simp add: sender_world_def settlement_def queued_rows queued_row_fields refusal_def find_by_def)

text \<open>
  C15. A submission, without faults: a request that breaks a rule is refused without effect; a
  known key answers its job for the same payload and a conflict for another one, without
  effect; otherwise exactly one pending job with the request's content is appended and returned.
\<close>

theorem submit_exact:
  assumes "queue_reachable (w_db w, js)" and "w_faults w = []"
  shows "Submit ul s req0 w =
    (case checkSend ul s req0 of
       Inl e \<Rightarrow> (Inl e, w)
     | Inr req \<Rightarrow>
         let (res, d) = submitted req (w_clock w (w_tick w)) (w_db w) in
         (res, if keyed_job (sc_IdempotencyKey req) (w_db w) = None
               then w\<lparr>w_tick := Suc (w_tick w), w_db := d\<rparr> else w))"
  by (rule Submit_free [OF assms(2) queue_reachable_inv [OF assms(1)]])

theorem submit_exact_witness:
  "Submit ascii_lower demo_service demo_command (sender_world queued) = (Inr (scanJob queued_row), sender_world queued)"
  using submit_exact [of "sender_world queued" "[]" ascii_lower demo_service demo_command] queued_reachable
    queued_key queued_payload
  by (simp add: sender_world_def demo_check submitted_def)

text \<open>
  C16. Idempotency over time: after a submission under a key, whatever the sender does next, a
  submission under the same key answers the same job, or a conflict if its payload differs, and
  enqueues nothing.
\<close>

theorem submit_idempotent:
  assumes "queue_reachable (w_db w, js)" and "w_faults w = []"
    and "checkSend ul s req0 = Inr req" and "sc_IdempotencyKey req \<noteq> []"
    and "Submit ul s req0 w = (Inr j, w1)"
    and "queue_step\<^sup>*\<^sup>* (w_db w1, js) (w_db v, js')" and "w_faults v = []"
    and "checkSend ul s' req1 = Inr req'" and "sc_IdempotencyKey req' = sc_IdempotencyKey req"
  shows "\<exists>j'. job_ID j' = job_ID j \<and> sameSendPayload j' req' = sameSendPayload j req'
    \<and> Submit ul s' req1 v = (if sameSendPayload j req' then Inr j' else Inl ErrIdempotencyKeyConflict, v)"
  using Submit_again [OF assms] by auto

theorem submit_idempotent_witness:
  "\<exists>j. job_ID j = 1 \<and> Submit ascii_lower demo_service demo_command (sender_world queued) = (Inr j, sender_world queued)"
proof -
  have key: "sc_IdempotencyKey demo_request \<noteq> []" by (simp add: demo_request_def)
  have start: "queue_reachable (w_db (sender_world empty_sender), [])" "w_faults (sender_world empty_sender) = []"
    by (simp_all add: queue_reachable_def sender_world_def)
  have later: "queue_step\<^sup>*\<^sup>* (w_db ((sender_world empty_sender)\<lparr>w_tick := 1, w_db := queued\<rparr>), []) (w_db (sender_world queued), [])"
    "w_faults (sender_world queued) = []" by (simp_all add: sender_world_def)
  show ?thesis
    using submit_idempotent [OF start demo_check key demo_submit later demo_check refl]
    unfolding queued_payload(2) by (simp only: queued_payload(1) if_True) blast
qed

text \<open>
  C17. The queue drains. Without faults, however often the worker runs and whatever Telegram
  answers, the rounds that process a job are at most the attempts left in the queue; and there
  are instants at which that many rounds leave no job waiting.
\<close>

theorem queue_drains:
  assumes "queue_reachable (w_db w, js)" and "w_faults w = []"
  shows "(\<forall>ts. \<exists>bs w'. processAll k ts w = (Inr bs, w')
      \<and> length (filter (\<lambda>b. b) bs) + attempts_left (w_db w') \<le> attempts_left (w_db w))
    \<and> (\<exists>ts bs w'. length ts \<le> attempts_left (w_db w) \<and> processAll k ts w = (Inr bs, w')
      \<and> (\<forall>r\<in>set (sn_jobs (w_db w')). row_status r \<in> {StatusSending, StatusSent, StatusFailed}))"
proof -
  note inv = queue_reachable_inv [OF assms(1)]
  obtain ts bs w' where run: "length ts \<le> attempts_left (w_db w)" "processAll k ts w = (Inr bs, w')"
    and none: "\<forall>r\<in>set (sn_jobs (w_db w')). \<not> waiting r"
    using queue_drains_lemma [OF assms(2) inv] by blast
  have "moves (processAll k ts)"
    unfolding processAll_def by (induction ts) (auto intro!: moves_intros)
  from sender_inv_run [OF this run(2) inv] none
  have "\<forall>r\<in>set (sn_jobs (w_db w')). row_status r \<in> {StatusSending, StatusSent, StatusFailed}"
    by (auto simp: sender_inv_def row_ok_def job_statuses_def waiting_def)
  with run rounds_bounded [OF assms(2) inv] show ?thesis by blast
qed

theorem queue_drains_witness:
  "\<exists>ts bs w'. length ts \<le> 2 \<and> processAll demo_worker ts (sender_world queued) = (Inr bs, w')
     \<and> (\<forall>r\<in>set (sn_jobs (w_db w')). row_status r \<in> {StatusSending, StatusSent, StatusFailed})"
proof -
  have "attempts_left queued = 2"
    by (simp add: attempts_left_def queued_rows work_left_def waiting_def queued_row_fields)
  with queue_drains [of "sender_world queued" "[]" demo_worker] queued_reachable show ?thesis
    by (simp add: sender_world_def)
qed



text \<open>
  Recovery at a restart, without faults: exactly the jobs whose lease has run out become
  claimable again, with their attempts, and no other row changes; a job held under a longer
  lease is not claimable at any time until a recovery after the end of its lease.
\<close>

proposition recovery_exact:
  assumes "w_faults w = []"
  shows "RecoverExpiredSendingJobs now legacy w =
      (Inr (), w\<lparr>w_db := update_job (lease_expired now legacy) (recovered now) (w_db w)\<rparr>)
    \<and> (row_status r = StatusSending \<longrightarrow>
        (if lease_expired now legacy r
         then claimable now (recovered now r) \<and> row_attempts (recovered now r) = row_attempts r
           \<and> message_of (recovered now r) = message_of r
         else (\<forall>t. \<not> claimable t r)))"
  using assms
  by (auto simp: RecoverExpiredSendingJobs_def wrapE_def fault_free claimable_def recovered_def message_of_def)

theorem recovery_exact_witness:
  "fst (RecoverExpiredSendingJobs 0 0 (sender_world queued)) = Inr ()
   \<and> claimable (16 * second) (recovered (16 * second) (claimed 0 (15 * second) queued_row))"
  using recovery_exact [of "sender_world queued" 0 0]
    recovery_exact [of "sender_world queued" "16 * second" 0 "claimed 0 (15 * second) queued_row"]
    text_less_of_second_apart [of "15 * second" "16 * second"]
  by (simp add: sender_world_def lease_expired_def claimed_def less_imp_le)


text \<open>
  Redaction: the error text that the sender shows holds no bot token, and a text that held
  none is shown as it is.
\<close>

proposition redaction:
  "\<not> holds_token (sanitizeObservabilityLastError e)
   \<and> (holds_token e \<or> trimSpace e = [] \<or> sanitizeObservabilityLastError e = e)"
  using sanitize_token_free [of e] redact_id [of e] by (auto simp: sanitizeObservabilityLastError_def)

text \<open>
  The statistics are those of the queue: the five counts add up to the number of jobs, and
  the age is that of the oldest pending job by its stored text, if there is one.
\<close>

proposition stats_exact:
  assumes "queue_reachable (w_db w, js)" and "w_faults w = []"
  shows "GetStats now w = (Inr (stats_of now (w_db w)), w)
    \<and> total_jobs (stats_of now (w_db w)) = length (sn_jobs (w_db w))
    \<and> (case js_OldestPendingAgeSeconds (stats_of now (w_db w)) of
         None \<Rightarrow> \<forall>r\<in>set (sn_jobs (w_db w)). row_status r \<noteq> StatusPending
       | Some age \<Rightarrow> \<exists>r\<in>set (sn_jobs (w_db w)). row_status r = StatusPending
           \<and> age = max 0 (wholeSeconds (timeSub now (row_created r)))
           \<and> (\<forall>x\<in>set (sn_jobs (w_db w)). row_status x = StatusPending \<longrightarrow>
                formatTime (row_created r) \<le> formatTime (row_created x)))"
proof -
  have "case js_OldestPendingAgeSeconds (stats_of now (w_db w)) of
         None \<Rightarrow> \<forall>r\<in>set (sn_jobs (w_db w)). row_status r \<noteq> StatusPending
       | Some age \<Rightarrow> \<exists>r\<in>set (sn_jobs (w_db w)). row_status r = StatusPending
           \<and> age = max 0 (wholeSeconds (timeSub now (row_created r)))
           \<and> (\<forall>x\<in>set (sn_jobs (w_db w)). row_status x = StatusPending \<longrightarrow>
                formatTime (row_created r) \<le> formatTime (row_created x))"
    by (cases rule: oldest_pending_cases [of "w_db w"]) (auto simp: stats_of_def)
  with GetStats_free [OF assms(2)] stats_partition_lemma [OF queue_reachable_inv [OF assms(1)]] show ?thesis by blast
qed

theorem stats_exact_witness:
  "total_jobs (stats_of 0 queued) = 1 \<and> fst (GetStats 0 (sender_world queued)) = Inr (stats_of 0 queued)"
  using stats_exact [of "sender_world queued" "[]" 0] queued_reachable
  by (simp add: sender_world_def queued_rows)

text \<open>
  C20. A configuration that loads, from the file or from the environment, is usable: attempts
  within 1 to 5, positive durations, a loopback address, bots with distinct normalised names
  whose trimmed tokens are not empty and differ from the key of the HTTP interface.
\<close>

theorem config_guarantees:
  assumes "LoadConfigFromTOML c ul content = Inr cfg \<or> LoadConfigFromEnv c = Inr cfg"
  shows "config_ok c cfg \<and> (LoadConfigFromTOML c ul content = Inr cfg \<longrightarrow> cf_SenderAuthKey cfg \<noteq> [])"
proof -
  have "config_ok c cfg \<and> cf_SenderAuthKey cfg \<noteq> []" if "LoadConfigFromTOML c ul content = Inr cfg"
  proof -
    from that obtain parsed where "content = Inr parsed" by (auto simp: LoadConfigFromTOML_def thenE_Inr)
    with that toml_config_ok show ?thesis by metis
  qed
  with assms env_config_ok show ?thesis by blast
qed

theorem config_guarantees_witness:
  "LoadConfigFromEnv demo_env = Inr demo_config \<and> config_ok demo_env demo_config"
  using config_guarantees [of demo_env id "Inl ErrNoRows" demo_config] demo_env_config by simp

section \<open>Templates and evidence\<close>

text \<open>
  C21. The catalogue describes the builders: what a template creates is read off its entry. One
  handoff per role in the listed order, each depending on the handoffs of the roles named by
  its dependencies and sent by the receiver of the first of them, three active watches each,
  and a workflow whose root and current handoffs are the first and the last.
\<close>

theorem template_catalogue:
  assumes "collaborationTemplateBuilder name = Inr builder" and "builder input now w = (Inr records, w')"
  shows "\<exists>t\<in>set ListCollaborationTemplates. ct_Name t = name \<and> matchesCatalogue t input now records \<and> w_db w' = w_db w"
proof -
  obtain t where t: "t \<in> set ListCollaborationTemplates" "ct_Name t = name" using builder_listed [OF assms(1)] by blast
  have "guarantees (builder input now) (\<lambda>records d'. matchesCatalogue t input now records \<and> d' = w_db w) (\<lambda>_. True) (w_db w)"
    using assms(1) t by (intro guarantees_builder [where t = t]) simp_all
  with assms(2) t show ?thesis by (auto dest: guaranteesD)
qed

theorem template_catalogue_witness:
  "\<exists>t\<in>set ListCollaborationTemplates. ct_Name t = ''fanout_review'' \<and>
     (\<exists>records. fst (buildFanoutReviewTemplate demo_template 0 start_world) = Inr records \<and> matchesCatalogue t demo_template 0 records)"
proof -
  have "\<not> isl (fst (buildFanoutReviewTemplate demo_template 0 start_world))" by code_simp
  then obtain records w' where r: "buildFanoutReviewTemplate demo_template 0 start_world = (Inr records, w')"
    by (cases "buildFanoutReviewTemplate demo_template 0 start_world"; cases "fst (buildFanoutReviewTemplate demo_template 0 start_world)") auto
  show ?thesis
    using template_catalogue [of "''fanout_review''" buildFanoutReviewTemplate, OF _ r] r
    by (auto simp: collaborationTemplateBuilder_def)
qed

text \<open>
  C22. Applying a template. Input that fails a check is refused before the database is touched,
  and no error changes anything. Under a key already used, the application answers only the
  payload recorded with it, with the workflow and the handoffs of the first application as
  they are now, and writes nothing. Otherwise exactly the records of the catalogue are
  stored, and with them the application under its key.
\<close>

theorem apply_template:
  "case checkTemplateInput raw :: error + CollaborationTemplateApplyInput \<times> store builder of
      Inl e \<Rightarrow> ApplyCollaborationTemplate hash raw w = (Inl e, w)
    | Inr (input, _) \<Rightarrow>
        (case ApplyCollaborationTemplate hash raw w of
           (Inl e, w') \<Rightarrow> w_db w' = w_db w
         | (Inr res, w') \<Rightarrow> template_outcome hash input (w_db w) res (w_db w'))"
  using applyTemplate_error [of raw _ hash w] applyTemplate_contract [of raw _ _ hash "w_db w"]
  by (auto simp: guarantees_def split: sum.split)

text \<open>
  A key creates one workflow. Whatever calls follow an application, a later one under the
  same key that succeeds is a replay: it has the same payload hash, answers the same workflow
  and the same handoffs, and writes nothing.
\<close>

proposition template_applied_once:
  assumes first: "checkTemplateInput raw = Inr (input, b :: store builder)" "ti_IdempotencyKey input \<noteq> []"
      "ApplyCollaborationTemplate hash raw w = (Inr res, w1)"
    and between: "service_step\<^sup>*\<^sup>* (w_db w1) (w_db v)"
    and again: "checkTemplateInput raw' = Inr (input', b' :: store builder)"
      "ti_IdempotencyKey input' = ti_IdempotencyKey input" "ApplyCollaborationTemplate hash raw' v = (Inr res', v1)"
  shows "tres_Replayed res' \<and> payload_of hash input' = payload_of hash input
    \<and> wf_ID (tres_Workflow res') = wf_ID (tres_Workflow res)
    \<and> map h_ID (tres_Handoffs res') = map h_ID (tres_Handoffs res) \<and> w_db v1 = w_db v"
proof -
  have "template_outcome hash input (w_db w) res (w_db w1)"
    using apply_outcome [OF first(1,3)] .
  then obtain r where r: "application_of (w_db w1) (ti_IdempotencyKey input) = Some r"
    "ta_PayloadHash r = payload_of hash input" "ta_WorkflowID r = wf_ID (tres_Workflow res)"
    "ta_HandoffIDs r = map h_ID (tres_Handoffs res)" using first(2) by (rule fresh_application)
  have out: "template_outcome hash input' (w_db v) res' (w_db v1)" by (rule apply_outcome [OF again(1,3)])
  have "previous_application (w_db v) input' = Some r"
    using application_stays [OF between r(1)] first(2) again(2) by (simp add: previous_application_def)
  with replayed_application [OF out] r show ?thesis by simp
qed

theorem template_applied_once_witness:
  "\<exists>res'. fst (ApplyCollaborationTemplate (\<lambda>_. ''h'') demo_template template_world) = Inr res' \<and> tres_Replayed res'"
proof -
  obtain res where first: "ApplyCollaborationTemplate (\<lambda>_. ''h'') demo_template start_world = (Inr res, template_world)"
    using template_runs(1) by blast
  obtain res' where r: "fst (ApplyCollaborationTemplate (\<lambda>_. ''h'') demo_template template_world) = Inr res'"
    using template_runs(2) by blast
  then have "ApplyCollaborationTemplate (\<lambda>_. ''h'') demo_template template_world =
      (Inr res', snd (ApplyCollaborationTemplate (\<lambda>_. ''h'') demo_template template_world))" by (simp add: prod_eq_iff)
  with template_applied_once [OF demo_template_checked _ first rtranclp.rtrancl_refl demo_template_checked refl] r
  show ?thesis by (simp add: demo_template_def)
qed

text \<open>
  C23. The evidence summary only reads, and it is exact: its totals are the numbers of the
  selected workflows, their handoffs, the watches, repairs and divergences of those handoffs
  and the work each workflow offers; the reasons and suggestions are those of the blocked
  work, sorted; the agents are all registered agents, sorted.
\<close>

theorem coordination_evidence:
  assumes "reachable (w_db w)"
  shows "case CoordinationEvidenceSummaryOp q w of
      (Inl e, w') \<Rightarrow> w_db w' = w_db w
    | (Inr s, w') \<Rightarrow> w_db w' = w_db w \<and> evidence_outcome (w_db w) q s"
  using evidence_contract [OF reachable_inv [OF assms], of q] by (simp add: guarantees_def)

theorem coordination_evidence_witness:
  "case CoordinationEvidenceSummaryOp \<lparr>ceq_WorkflowID = [], ceq_IncludeAgents = True\<rparr> created_world of
      (Inl e, w') \<Rightarrow> w_db w' = w_db created_world
    | (Inr s, w') \<Rightarrow> w_db w' = w_db created_world
        \<and> evidence_outcome (w_db created_world) \<lparr>ceq_WorkflowID = [], ceq_IncludeAgents = True\<rparr> s"
  by (rule coordination_evidence [OF created_reachable])

section \<open>Tool calls\<close>



text \<open>
  Ingesting runtime events never fails and accounts for every event: one result per event, in
  order, the totals are the numbers of results of each kind and add up. An event that is not ours
  is ignored and an event without identifiers fails, both without effect; any other event is one
  protocol action, applied or failed, from the store that the events before it left.
\<close>

proposition ingest_exact:
  assumes "store_inv (w_db w)"
  shows "\<exists>s w'. HandleOpenClawEventIngest events w = (Inr s, w')
    \<and> ingested 0 (w_db w) events (is_Results s) (w_db w') \<and> counted s
    \<and> is_Processed s = length events \<and> is_Applied s + is_Ignored s + is_Failed s = length events"
  using ingest_contract [OF assms, of events] ingested_length counted_sum
  by (metis (no_types, lifting) counted_def)

theorem ingest_exact_witness:
  "\<exists>s w'. HandleOpenClawEventIngest demo_events created_world = (Inr s, w') \<and> is_Processed s = 3
    \<and> ir_Status (is_Results s ! 0) = StatusIgnored \<and> ir_Status (is_Results s ! 1) = IngestFailed"
proof -
  obtain s w' where s: "HandleOpenClawEventIngest demo_events created_world = (Inr s, w')"
    "ingested 0 (w_db created_world) demo_events (is_Results s) (w_db w')" "is_Processed s = length demo_events"
    using ingest_exact [OF reachable_inv [OF created_reachable]] by blast
  have "length (is_Results s) = 3" using ingested_length [OF s(2)] by (simp add: demo_events_def)
  then obtain a b c where "is_Results s = [a, b, c]" by (auto simp: length_Suc_conv numeral_3_eq_3)
  with s show ?thesis by (auto simp: demo_events_def event_outcome_def demo_events_mapped)
qed

text \<open>
  C25. The result of an agent turn describes the store the call leaves: the state of the handoff, the
  status of its last dispatch attempt, and for a completed turn the reply of its last effective
  completion. The call writes only to give a turn up: then the attempt is timed out, the handoff
  is failed by the workflow controller and no other handoff changes. A turn whose attempt still
  waits after the timeout is given up and reported as failed.
\<close>

theorem agent_turn_result:
  assumes "store_inv (w_db w)"
  shows "case HandleA2AAgentTurnResult hs raw w of
      (Inl e, w') \<Rightarrow> platform_step\<^sup>*\<^sup>* (w_db w) (w_db w')
    | (Inr out, w') \<Rightarrow> turn_reported (w_db w') (trimSpace raw) out
        \<and> (w_db w' = w_db w \<or> (\<exists>a. turn_given_up (w_db w) (trimSpace raw) a (w_db w')))
        \<and> (\<forall>h a. find_by h_ID (trimSpace raw) (st_handoffs (w_db w)) = Some h
             \<and> waiting_attempt h (attempts_of (w_db w) (trimSpace raw)) = Some a
             \<and> (\<forall>n. attempt_RequestedAt a + hs_dispatchTimeout hs \<le> w_clock w n)
             \<longrightarrow> turn_given_up (w_db w) (trimSpace raw) (attempt_ID a) (w_db w') \<and> aro_Status out = ''failed'')"
  using guaranteesD(2) [OF turn_result_contract [OF assms]] stepwiseD [OF steps_turnResult]
    overdue_given_up [OF assms] by (auto split: prod.split sum.split)

theorem agent_turn_result_witness:
  "case HandleA2AAgentTurnResult demo_handlers ''hf_1'' turn_world of
      (Inl e, w') \<Rightarrow> platform_step\<^sup>*\<^sup>* (w_db turn_world) (w_db w')
    | (Inr out, w') \<Rightarrow> aro_Status out = ''failed''"
proof -
  have h: "find_by h_ID ''hf_1'' (st_handoffs (w_db turn_world)) = Some demo_handoff"
    using created_lookup by (simp add: turn_world_def)
  have late: "\<forall>n. attempt_RequestedAt demo_attempt + hs_dispatchTimeout demo_handlers \<le> w_clock turn_world n"
    by (simp add: demo_attempt_def demo_handlers_def NewHandlers_def defaultA2AAgentTurnDispatchTimeout_def turn_world_def)
  show ?thesis
    using agent_turn_result [OF turn_inv, where hs = demo_handlers and raw = "''hf_1''"] h demo_waiting late
    by (auto simp: hf_trim split: prod.splits sum.splits)
qed

section \<open>The A2A interface\<close>


text \<open>
  Cancelling a task. On success the handoff is failed, by one event of the workflow controller
  unless it already was, and the answer is the task of the stored handoff. An error changes nothing,
  or leaves the handoff cancelled when only reading it back failed.
\<close>

proposition tasks_cancel:
  assumes "store_inv (w_db w)"
  shows "case handleTasksCancel env i w of
      (Inl e, w') \<Rightarrow> w_db w' = w_db w \<or> cancelled (w_db w) (trimSpace i) (w_db w')
    | (Inr t, w') \<Rightarrow> cancelled (w_db w) (trimSpace i) (w_db w') \<and> task_of (w_db w') (trimSpace i) t
        \<and> ts_State (at_Status t) = ''failed''"
  using cancel_contract [OF assms, of env i] by (simp add: guarantees_def)

theorem tasks_cancel_witness:
  "case handleTasksCancel demo_a2a ''hf_1'' created_world of
      (Inl e, w') \<Rightarrow> w_db w' = w_db created_world \<or> cancelled (w_db created_world) ''hf_1'' (w_db w')
    | (Inr t, w') \<Rightarrow> cancelled (w_db created_world) ''hf_1'' (w_db w') \<and> task_of (w_db w') ''hf_1'' t
        \<and> ts_State (at_Status t) = ''failed''"
  using tasks_cancel [OF reachable_inv [OF created_reachable], where env = demo_a2a and i = "''hf_1''", unfolded hf_trim] .

text \<open>
  C27. Creating a task. Input that passes the checks is within the bounds, has no unsafe text and is
  its own normal form. Under its key one handoff is created: after any platform steps a later
  creation under the key that succeeds is a replay of the same handoff and workflow for the same
  payload hash, and writes nothing.
\<close>

theorem task_created_once:
  assumes first: "normalizeTaskCreateInput (env_lower env) raw = Some t" "handleTaskCreate env t w = (Inr out, w1)"
    and between: "platform_step\<^sup>*\<^sup>* (w_db w1) (w_db v)"
    and again: "trimSpace (tci_IdempotencyKey t') = trimSpace (tci_IdempotencyKey t)"
      "handleTaskCreate env t' v = (Inr out', v1)"
  shows "task_input_ok (env_lower env) t \<and> normalizeTaskCreateInput (env_lower env) t = Some t
    \<and> tco_IdempotencyReplayed out' \<and> w_db v1 = w_db v \<and> tco_HandoffID out' = tco_HandoffID out
    \<and> tco_WorkflowID out' = tco_WorkflowID out \<and> trimSpace (env_hash env t') = trimSpace (env_hash env t)"
proof -
  note out = guaranteesD(2) [OF create_contract]
  obtain r where r: "creation_of (w_db w1) (trimSpace (tci_IdempotencyKey t)) = Some r"
    "cr_HandoffID r = tco_HandoffID out" "cr_WorkflowID r = tco_WorkflowID out"
    "cr_PayloadHash r = trimSpace (env_hash env t)" by (rule recorded_after [OF out [OF first(2)]])
  have "creation_of (w_db v) (trimSpace (tci_IdempotencyKey t')) = Some r"
    using platform_creation_stays [OF between r(1)] again(1) by simp
  from replayed_after [OF out [OF again(2)] this] r normalized_ok [OF first(1)] normalize_idem [OF first(1)]
  show ?thesis by simp
qed

theorem task_created_once_witness:
  "\<exists>out. fst (handleTaskCreate demo_a2a demo_task_normal task_world) = Inr out \<and> tco_IdempotencyReplayed out"
proof -
  obtain out where first: "handleTaskCreate demo_a2a demo_task_normal start_world = (Inr out, task_world)"
    using task_runs(1) by blast
  obtain out' w' where again: "handleTaskCreate demo_a2a demo_task_normal task_world = (Inr out', w')"
    using task_runs(2) by blast
  have "normalizeTaskCreateInput (env_lower demo_a2a) demo_task = Some demo_task_normal"
    using demo_task_accepted by (simp add: demo_a2a_def)
  from task_created_once [OF this first rtranclp.rtrancl_refl refl again] again show ?thesis by simp
qed

text \<open>
  The task stream sends exactly the changes: on ticks that read and write, the fingerprints
  received are those read, without repetitions, and the client ends with the last one; in general
  no two neighbours are equal, and everything received was read at some tick.
\<close>

proposition task_stream:
  "map taskStreamFingerprint (taskEventLoop f (map (\<lambda>s. (Inr s, True)) ss)) =
     tl (remdups_adj (f # map taskStreamFingerprint ss))
   \<and> current_fingerprint f (taskEventLoop f (map (\<lambda>s. (Inr s, True)) (ss @ [s]))) = taskStreamFingerprint s
   \<and> remdups_adj (f # map taskStreamFingerprint (taskEventLoop f ticks)) =
       f # map taskStreamFingerprint (taskEventLoop f ticks)
   \<and> set (taskEventLoop f ticks) \<subseteq> {s. \<exists>written. (Inr s, written) \<in> set ticks}"
  using loop_exact loop_current loop_steps [of f ticks] loop_source by metis

section \<open>Delivery and the swarm driver\<close>



text \<open>
  C29. A message is delivered once. Client and sender together: once the bridge was told of a job
  under its key, then whatever the sender does next, running the bridge again for the same message
  reports the same job and leaves the sender's database as it is.
\<close>

theorem delivered_once:
  assumes "queue_reachable (w_db w, js)" and "w_faults w = []"
    and "same_key c h" and "readsReply env encode" and "understands env decode b chatID (ski_Text input) (trimSpace key)"
    and "prepared env input ctx resolver = Inr (agent, chatID, b)" and "ski_IdempotencyKey input = Some key"
    and "exchange = senderExchange ul decode encode params (cl_baseURL c) h"
    and "RunA2ADeliveryBridgeWithResolver fuel env exchange c input ctx (Some resolver) w = (Inr (Inr (Some d)), w1)"
    and "dl_JobID d \<noteq> 0" and "queue_step\<^sup>*\<^sup>* (w_db w1, js) (w_db v, js')" and "w_faults v = []"
    and "sn_seq (w_db w1) < 2 ^ 63" and "time_passes v"
  shows "\<exists>N. \<forall>fuel\<ge>N. \<exists>d' v'. RunA2ADeliveryBridgeWithResolver fuel env exchange c input ctx (Some resolver) v
      = (Inr (Inr (Some d')), v') \<and> dl_JobID d' = dl_JobID d \<and> w_db v' = w_db v"
  by (rule bridge_once [OF assms])

theorem delivered_once_witness:
  "\<exists>d w1 N. RunA2ADeliveryBridgeWithResolver 1 demo_client_env (demo_exchange (demo_decode ''hi'' ''k'')) demo_client demo_skill NoContext
      (Some (\<lambda>_. Some ''Ops'')) ((sender_world empty_sender)\<lparr>w_clock := slow_clock\<rparr>) = (Inr (Inr (Some d)), w1) \<and> dl_JobID d = 1
    \<and> (\<forall>fuel\<ge>N. \<exists>d' v'. RunA2ADeliveryBridgeWithResolver fuel demo_client_env (demo_exchange (demo_decode ''hi'' ''k'')) demo_client
        demo_skill NoContext (Some (\<lambda>_. Some ''Ops'')) w1 = (Inr (Inr (Some d')), v') \<and> dl_JobID d' = 1 \<and> w_db v' = w_db w1)"
proof -
  let ?w = "(sender_world empty_sender)\<lparr>w_clock := slow_clock\<rparr>"
  have msg: "ski_Text demo_skill = ''hi''" "ski_IdempotencyKey demo_skill = Some ''k''" by (simp_all add: demo_skill_def)
  have told: "understands demo_client_env (demo_decode ''hi'' ''k'') ''Ops'' 7 (ski_Text demo_skill) (trimSpace ''k'')"
    by (simp add: understands_def delivered_body_def demo_decode_def demo_client_env_def msg demo_trims)
  obtain d w1 where first: "RunA2ADeliveryBridgeWithResolver 1 demo_client_env (demo_exchange (demo_decode (ski_Text demo_skill) ''k''))
      demo_client demo_skill NoContext (Some (\<lambda>_. Some ''Ops'')) ?w = (Inr (Inr (Some d)), w1)"
    and d: "dl_JobID d = 1" and w1: "w_faults w1 = []" "w_clock w1 = slow_clock"
      "w_db w1 = inserted demo_request (slow_clock (w_tick ?w)) empty_sender"
    by (rule demo_bridge [OF demo_prepared msg(2) demo_trims(2), of demo_request ?w])
      (simp_all add: msg demo_command_of demo_check sender_world_def)
  have start: "queue_reachable (w_db ?w, [])" "w_faults ?w = []" by (simp_all add: queue_reachable_def sender_world_def)
  have "sn_seq (w_db w1) < 2 ^ 63" by (simp add: w1(3) inserted_def empty_sender_def)
  from delivered_once [OF start demo_key demo_reads told demo_prepared msg(2) demo_exchange_def first [unfolded msg] _ _ w1(1) this
      slow_clock_passes [OF w1(2)], of "[]"] d
  show ?thesis using first unfolding msg by auto
qed

text \<open>
  C30. The table of executions. Whatever requests, deliveries and results interleave, under any
  faults: the identifiers and the idempotency keys stay distinct and every row well-formed, no row
  is removed, a recorded result is never lost, and who was asked for what under which keys never
  changes.
\<close>

theorem executions_ledger:
  assumes "execution_step\<^sup>*\<^sup>* d d'" and "executions_inv d"
  shows "executions_inv d' \<and> executions_grow d d' \<and> (asked_under d i = Some x \<longrightarrow> asked_under d' i = Some x)"
  using execution_table.moves_inv [OF assms] execution_table.moves_grows [OF assms(1)] asked_stays [OF assms] by blast

theorem executions_ledger_witness:
  "executions_inv [demo_row] \<and> asked_under [demo_row] demo_work_key = Some (asked demo_row)"
proof -
  let ?w = "(withDb [] (demo_world empty_store))\<lparr>w_clock := \<lambda>_. slow_clock 0\<rparr>"
  have step: "execution_step [] [demo_row]"
    using execution_step.ensure [OF demo_ensure [of ?w]] by (simp add: demo_world_def)
  have "executions_inv []" by (simp add: executions_inv_def)
  from executions_ledger [OF r_into_rtranclp [of execution_step, OF step] this]
  show ?thesis by (simp add: asked_under_def find_by_def demo_row_fields)
qed

text \<open>
  C31. A result is recorded for the execution that it names. The tool call answers the row it wrote, which
  is the old row with the sanitized result and which answers the work from then on; it refuses a
  result that is malformed or names no execution, and then it changes nothing; it fails otherwise
  only when the database does.
\<close>

theorem result_recorded:
  assumes "HandleSwarmExecutionResultRecord ul hasStore input w = (r, w')"
  shows "case r of
      Inl e \<Rightarrow> (if acceptsResult hasStore input (w_db w) then w_faults w \<noteq> [] else w_db w' = w_db w)
    | Inr row \<Rightarrow> acceptsResult hasStore input (w_db w) \<and> result_recorded_in ul input (w_db w) row (w_db w')
        \<and> find_by er_CorrelationID (trimSpace (rri_CorrelationID input)) (w_db w') = Some row
        \<and> adapterResultFromExecutionRequest row = Some (recordedAnswer ul input)"
  using record_runs [OF assms] recorded_answers [of hasStore input "w_db w"] by (auto split: sum.splits)

theorem result_recorded_witness:
  "\<exists>row w'. HandleSwarmExecutionResultRecord ascii_lower True demo_report (withDb [demo_row] (demo_world empty_store)) = (Inr row, w')
    \<and> find_by er_CorrelationID demo_work_key (w_db w') = Some row
    \<and> adapterResultFromExecutionRequest row = Some (recordedAnswer ascii_lower demo_report)"
proof -
  let ?w = "withDb [demo_row] (demo_world empty_store)"
  obtain r w' where run: "HandleSwarmExecutionResultRecord ascii_lower True demo_report ?w = (r, w')" by fastforce
  show ?thesis
    using result_recorded [OF run] run demo_accepts by (auto simp: demo_report_def demo_work_key_trim demo_world_def split: sum.splits)
qed

text \<open>
  C32. A recorded result answers the work. When the table holds a result for the work, the Telegram
  adapter answers exactly that result; it asks nobody and writes nothing. It answers an error only
  when the database failed or the work has no name.
\<close>

theorem result_answers:
  assumes "asking work" and "find_by er_CorrelationID (workKey a agent work) (executionsOf w) = Some row"
    and "adapterResultFromExecutionRequest row = Some result" and "TelegramExecute a agent work w = (r, w')"
  shows "w_db w' = w_db w \<and> (case r of Inr x \<Rightarrow> x = result
    | Inl e \<Rightarrow> \<not> (w_faults w = [] \<and> named (askedWork a agent work)))"
  by (rule Execute_recorded [OF assms])

theorem result_answers_witness:
  "\<exists>w'. TelegramExecute demo_adapter demo_agent demo_work demo_answered =
     (Inr (adapterAnswer AdapterStatusCompleted ''done''), w') \<and> w_db w' = w_db demo_answered"
proof -
  obtain r w' where run: "TelegramExecute demo_adapter demo_agent demo_work demo_answered = (r, w')" by fastforce
  have asks: "asking demo_work" by (simp add: asking_def demo_work_fields)
  have row: "find_by er_CorrelationID (workKey demo_adapter demo_agent demo_work) (executionsOf demo_answered) = Some demo_result_row"
    by (simp add: workKey_def demo_asked demo_work_key_trim demo_answered_def demo_result_row_fields find_by_def)
  from result_answers [OF asks row demo_result run] show ?thesis
    using run demo_named by (simp add: demo_answered_def demo_world_def split: sum.splits)
qed

text \<open>
  C33. Work is sent once. When an execution left its work pending, then whatever the sender and the
  table of executions do next, executing the same work again changes nothing at the sender: no
  second message is enqueued.
\<close>

theorem work_sent_once:
  fixes a :: "sender TelegramAdapter"
  assumes "asking work" and "queue_reachable (transportOf w, js)" and "w_faults w = []" and "executions_inv (executionsOf w)"
    and "same_key (te_client a) h" and "readsReply (te_env a) encode"
    and "te_exchange a = senderExchange ul decode encode params (cl_baseURL (te_client a)) h"
    and "TelegramExecute a agent work w = (Inr result, w1)" and "ad_Status result = AdapterStatusPending"
    and "find_by er_CorrelationID (workKey a agent work) (executionsOf w1) = Some stored"
    and "deliverable a decode agent work (er_IdempotencyKey stored)"
    and "queue_step\<^sup>*\<^sup>* (transportOf w1, js) (transportOf v, js')" and "execution_step\<^sup>*\<^sup>* (executionsOf w1) (executionsOf v)"
    and "w_faults v = []" and "sn_seq (transportOf w1) < 2 ^ 63" and "TelegramExecute a agent work v = (r, v')"
  shows "transportOf v' = transportOf v"
  by (rule Execute_again [OF assms])

theorem work_sent_once_witness:
  "\<exists>w1. TelegramExecute demo_adapter demo_agent demo_work (demo_world empty_store) = (Inr (adapterAnswer AdapterStatusPending []), w1)
    \<and> length (sn_jobs (transportOf w1)) = 1
    \<and> transportOf (snd (TelegramExecute demo_adapter demo_agent demo_work w1)) = transportOf w1"
proof -
  obtain w1 stored where w1: "TelegramExecute demo_adapter demo_agent demo_work (demo_world empty_store)
      = (Inr (adapterAnswer AdapterStatusPending []), w1)" "w_faults w1 = []"
    "transportOf w1 = inserted demo_task_request (slow_clock 1) empty_sender"
    "find_by er_CorrelationID demo_work_key (executionsOf w1) = Some stored" "er_IdempotencyKey stored = demo_work_key"
    by (rule demo_execute)
  have asks: "asking demo_work" by (simp add: asking_def demo_work_fields)
  have start: "queue_reachable (transportOf (demo_world empty_store), [])" "w_faults (demo_world empty_store) = []"
    "executions_inv (executionsOf (demo_world empty_store))"
    by (simp_all add: queue_reachable_def demo_world_def executions_inv_def)
  have keys: "workKey demo_adapter demo_agent demo_work = demo_work_key"
    by (simp add: workKey_def demo_asked demo_work_key_trim)
  have told: "deliverable demo_adapter (demo_decode demo_message demo_work_key) demo_agent demo_work (er_IdempotencyKey stored)"
    using demo_task_prepared [of "askedWork demo_adapter demo_agent demo_work"]
    by (auto simp: deliverable_def demo_adapter_fields demo_text w1(5) understands_def delivered_body_def demo_decode_def demo_client_env_def)
  have small: "sn_seq (transportOf w1) < 2 ^ 63" by (simp add: w1(3) inserted_def empty_sender_def)
  have pending: "ad_Status (adapterAnswer AdapterStatusPending []) = AdapterStatusPending" by (simp add: adapterAnswer_def)
  have link: "same_key (te_client demo_adapter) demo_handler" "readsReply (te_env demo_adapter) demo_encode"
    "te_exchange demo_adapter = senderExchange ascii_lower (demo_decode demo_message demo_work_key) demo_encode (\<lambda>_. ([], []))
       (cl_baseURL (te_client demo_adapter)) demo_handler"
    by (simp_all add: demo_adapter_fields demo_key demo_reads demo_exchange_def)
  obtain r v' where again: "TelegramExecute demo_adapter demo_agent demo_work w1 = (r, v')" by fastforce
  have "transportOf v' = transportOf w1"
    using work_sent_once [OF asks start link w1(1) pending w1(4) [folded keys] told rtranclp.rtrancl_refl
        rtranclp.rtrancl_refl w1(2) small again] .
  then have "transportOf (snd (TelegramExecute demo_adapter demo_agent demo_work w1)) = transportOf w1" by (simp add: again)
  with w1(1,3) show ?thesis by (simp add: inserted_def empty_sender_def)
qed

text \<open>
  C34. A run of the swarm driver, with any adapter that leaves the orchestrator's tables alone, under
  any faults: it changes the orchestrator only by service steps, it ends within its rounds, and its
  summary is true of the store it leaves: the handoffs of its workflow, the completed ones it
  counts, and completed or failed only when the required handoffs are.
\<close>

theorem swarm_run:
  assumes "store_inv (fst (w_db w))" and "\<And>s agent work. preserves (\<lambda>d. fst d = s) (execute agent work)"
    and "SwarmRun hash (Some execute) opts w = (r, w')"
  shows "platform_step\<^sup>*\<^sup>* (fst (w_db w)) (fst (w_db w'))
    \<and> (case r of Inl e \<Rightarrow> True | Inr s \<Rightarrow>
         run_result 0 (nat (so_MaxRounds (applyDefaults opts))) (sum_WorkflowID s) s (fst (w_db w')))"
proof -
  note adapter = agent_adapter.intro [OF assms(2)]
  from drivingD [OF agent_adapter.driving_run [OF adapter] assms(3)]
  show ?thesis
    using assms(3) guaranteesD(2) [OF agent_adapter.run_contract [OF adapter assms(1)]]
    by (auto split: sum.split)
qed

theorem swarm_run_witness:
  "\<exists>r w'. SwarmRun (\<lambda>_. []) (Some fakeExecute) demo_options demo_run_world = (r, w')
    \<and> platform_step\<^sup>*\<^sup>* empty_store (fst (w_db w'))
    \<and> (case r of Inl e \<Rightarrow> True | Inr s \<Rightarrow>
         run_result 0 (nat (so_MaxRounds (applyDefaults demo_options))) (sum_WorkflowID s) s (fst (w_db w')))"
proof -
  obtain r w' where run: "SwarmRun (\<lambda>_. []) (Some fakeExecute) demo_options demo_run_world = (r, w')" by fastforce
  have start: "fst (w_db demo_run_world) = empty_store" by (simp add: demo_run_world_def)
  from swarm_run [OF _ fake.keeps_store run] show ?thesis
    using run empty_store_inv by (auto simp: start)
qed

text \<open>
  C35. The driver's step. On a stored handoff, with the work done, the step that the driver chooses is
  recorded exactly when the handoff can progress: the actor is there, a handoff that is not submitted
  requires no artifacts, and an approved one requires a review and has its artifacts. Then the
  stored handoff is the machine's next state; otherwise the driver ends with an error.
\<close>

theorem driver_step:
  assumes "store_inv (w_db w)" and "stored_item (w_db w) item" and "ad_Status result \<noteq> AdapterStatusPending"
    and "driverEvent item result = Some e" and "progressWork item result w = (r, w')"
  shows "if canProgress (wi_Handoff item)
    then supplied w \<longrightarrow> (\<exists>a. r = Inr (Some a)) \<and> supplied w' \<and> advanced (wi_Handoff item) e (w_db w) (w_db w')
    else (\<exists>x. r = Inl x)"
proof (cases "canProgress (wi_Handoff item)")
  case True
  with progress_supplied [OF assms(1) _ assms(2-4)] assms(5) show ?thesis by (metis Pair_inject)
next
  case False
  with progress_refused [OF assms(1) _ assms(3,4) _ assms(5)] assms(2) show ?thesis by (simp add: stored_item_def)
qed

theorem driver_step_witness:
  "\<exists>a w' k. progressWork (progressItem demo_flow demo_handoff) approval created_world = (Inr (Some a), w')
    \<and> find_by h_ID ''hf_1'' (st_handoffs (w_db w')) = Some k"
proof -
  obtain e where e: "driverEvent (progressItem demo_flow demo_handoff) approval = Some e" "canProgress demo_handoff" by (rule demo_step)
  obtain r w' where run: "progressWork (progressItem demo_flow demo_handoff) approval created_world = (r, w')" by fastforce
  have awake: "ad_Status approval \<noteq> AdapterStatusPending" using demo_drivable(2) by (simp add: approving_def)
  from driver_step [OF reachable_inv [OF created_reachable] demo_stored awake e(1) run] e(2) run created_supplied
  show ?thesis by (auto simp: progressItem_def advanced_def demo_handoff_fields)
qed

text \<open>
  C36. The driver completes. A stored handoff whose receiver is known, which is reviewed when it is
  submitted, and whose artifacts the results supply, is completed by the driver's steps with an
  approving result, from any state that is not final, in at most seven steps; no step fails.
\<close>

theorem driver_completes:
  assumes "store_inv (w_db w)" "supplied w" and "find_by h_ID i (st_handoffs (w_db w)) = Some m" "i \<noteq> []" "deps_done (w_db w) m"
    and "wf_ID flow = h_WorkflowID m" "h_WorkflowID m \<noteq> []" and "drivable result m" "approving result"
  shows "stepsLeft m \<le> 7 \<and> (\<exists>w' k. driveStored flow i result (stepsLeft m) w = (Inr (), w')
    \<and> find_by h_ID i (st_handoffs (w_db w')) = Some k \<and> h_State k = StateCompleted)"
  using driver_completes_stored [OF assms] stepsLeft_bound [of m] by blast

theorem driver_completes_witness:
  "\<exists>w' k. driveStored demo_flow ''hf_1'' approval 7 created_world = (Inr (), w')
    \<and> find_by h_ID ''hf_1'' (st_handoffs (w_db w')) = Some k \<and> h_State k = StateCompleted"
proof -
  have deps: "deps_done (w_db created_world) demo_handoff" by (simp add: deps_done_def demo_handoff_fields)
  from driver_completes [OF reachable_inv [OF created_reachable] created_supplied created_lookup _ deps _ _ demo_drivable(1,2), of demo_flow]
  show ?thesis by (simp add: demo_flow_id demo_handoff_fields demo_drivable(3))
qed

section \<open>The agent's command and the Telegram operator\<close>

text \<open>
  C37. An agent's turn is reported. When \<open>openclaw-dispatch\<close> answers a turn as accepted, the events
  of its answer, applied as \<open>DispatchHandoff\<close> applies them to a dispatched handoff of that agent
  that asks for no review and no artifacts, are all recorded. They leave the handoff completed when
  the process succeeded and failed when it did not, and a completed turn carries its reply as the
  reply text, if there is one.
\<close>

theorem openclaw_turn:
  assumes "OpenClawDispatch quote parse pick (Some process) opts req = Inr out" "oc_Mode opts = ModeAgentTurn"
    and "ao_Status out = TransportAccepted"
    and "process (trimSpace (oc_Command opts)) (buildArgs (oc_Args opts) ModeAgentTurn req) None
      (if 0 < oc_Timeout opts then Some (oc_Timeout opts) else None) = (stdout, err, expired)"
    and "store_inv (w_db w)" "supplied w" "find_by h_ID i (st_handoffs (w_db w)) = Some m" "i \<noteq> []" "deps_done (w_db w) m"
    and "turn_handoff (normalizeDispatchLifecycleAgent (agentTarget (dr_Target req))) m" "h_State m = StateDispatched"
    and "h_ID h = i" "h_WorkflowID h = h_WorkflowID m"
  shows "\<exists>es w' k. mapE (applyLifecycleEvent h input) (ao_Events out) w = (Inr es, w')
    \<and> find_by h_ID i (st_handoffs (w_db w')) = Some k \<and> h_State k = (if err = None then StateCompleted else StateFailed)
    \<and> (err = None \<longrightarrow> completedReplyText es =
        (if extractReplyText parse stdout = [] then Inl replyTextRequired else Inr (extractReplyText parse stdout)))"
  using assms by (rule openclaw_turn_reported)

theorem openclaw_turn_witness:
  "\<exists>out es w' k. OpenClawDispatch id demo_agent_parse hd (Some demo_agent_process) turn_options agent_request = Inr out
    \<and> mapE (applyLifecycleEvent turn_stored turn_dispatch) (ao_Events out) dispatched_world = (Inr es, w')
    \<and> find_by h_ID ''hf_1'' (st_handoffs (w_db w')) = Some k \<and> h_State k = StateCompleted \<and> completedReplyText es = Inr ''done''"
proof -
  obtain out where out: "OpenClawDispatch id demo_agent_parse hd (Some demo_agent_process) turn_options agent_request = Inr out"
    "ao_Status out = TransportAccepted" by (rule turn_accepted)
  show ?thesis
    using openclaw_turn [OF out(1) _ out(2) turn_process reachable_inv [OF turn_reachable] turn_supplied turn_lookup _ turn_deps
        turn_agent turn_stored_facts(3) turn_stored_facts(1) refl, of turn_dispatch] out(1)
    by (auto simp: turn_options_def turn_reply)
qed

text \<open>
  C38. Which texts are commands. A command is the parse of some text exactly when its argument is a
  safe identifier without forbidden words (and \<open>/health\<close> has none), and exactly then it is the
  parse of its own text: what the operator can be told is what can be written down again.
\<close>

theorem command_roundtrip:
  "((\<exists>text. parseOperatorCommand ul text = Inr cmd) \<longleftrightarrow> command_ok ul cmd)
    \<and> (command_ok ul cmd \<longleftrightarrow> parseOperatorCommand ul (commandText cmd) = Inr cmd)"
  using parsed_command command_parses by blast

text \<open>
  C39. What a Telegram message may do. An update changes nothing at all, not even the world outside,
  unless it is a message that an allowed user wrote in a private chat. Such a message changes the
  orchestrator only by the approval that its command asks for, reported in the name of its user, and the
  executions only by one recorded result, which a text that is no command must ask for; otherwise
  both are untouched.
\<close>

theorem operator_message:
  "processTelegramUpdate p update w = (Inr (), w)
   \<or> (\<exists>message from. tup_Message update = Some message \<and> tch_Type (tme_Chat message) = ''private'' \<and> tme_From message = Some from
       \<and> tus_ID from \<in> ocf_AllowUserIDs (op_config p)
       \<and> message_effect (op_lower p) (trimSpace (tme_Text message)) from (tables (w_db w)) (tables (w_db (snd (processTelegramUpdate p update w)))))"
proof (cases "heardMessage (op_config p) update")
  case None
  with processed_update [of p update w] show ?thesis by (cases "processTelegramUpdate p update w") auto
next
  case (Some heard)
  then obtain message "from" where "heard = (message, from, trimSpace (tme_Text message))" "tup_Message update = Some message"
    "tch_Type (tme_Chat message) = ''private''" "tme_From message = Some from" "tus_ID from \<in> ocf_AllowUserIDs (op_config p)"
    by (rule heard_from)
  with processed_update [of p update w] Some show ?thesis by (cases "processTelegramUpdate p update w") auto
qed

text \<open>
  C40. No update is handled twice. When the world outside answers (every request to Telegram has a
  response or fails, the agent's command ends), whatever fails, no round of the operator's loop
  stops it; when Telegram answers as its documentation says, in ascending order from the offset on, the loop
  handles updates with ascending identifiers, all below the offset at which it then stands. So no
  update is handled twice, in one round or in several.
\<close>

theorem operator_once:
  assumes "outside_answers p" and "orderly_updates (op_client p) (ocf_Token (op_config p))" "0 \<le> offset"
  shows "\<exists>stop us w'. runOperatorLoop rounds p timeout offset w = (Inr (stop, us), w') \<and> offset \<le> stop
    \<and> sorted_wrt (<) (map tup_UpdateID us) \<and> (\<forall>u\<in>set us. offset \<le> tup_UpdateID u \<and> tup_UpdateID u < stop)"
  using assms by (rule loop_handles_once)

theorem operator_once_witness:
  "\<exists>us w'. runOperatorLoop 2 demo_operator (30 * second) 0 (withDb (empty_store, [], ()) start_world) = (Inr (32, us), w')
    \<and> map tup_UpdateID us = [30, 31] \<and> sorted_wrt (<) (map tup_UpdateID us)"
proof -
  have orderly: "orderly_updates (op_client demo_operator) (ocf_Token (op_config demo_operator))"
    using counting_orderly by (simp add: demo_operator_def)
  obtain w' where run: "runOperatorLoop 2 demo_operator (30 * second) 0 (withDb (empty_store, [], ()) start_world)
      = (Inr (32, [demo_update 30, demo_update 31]), w')" using demo_loop by blast
  from operator_once [OF demo_outside orderly, of 0 2 "30 * second" "withDb (empty_store, [], ()) start_world"] run
  show ?thesis by (auto simp: demo_update_def)
qed

end
